(* ===== verification/Prelude.thy ===== *)
theory Prelude
  imports Main "HOL-Library.Word" "HOL-Library.Char_ord" "HOL-Library.List_Lexorder"
    "HOL-Library.Product_Lexorder"
begin

text \<open>
  What the service models share.

  \<^item> Identifiers, instants and durations. A UUID is its canonical text. An instant
    (\<open>time.Time\<close>, \<open>timestamptz\<close>) is a number of nanoseconds from Go's zero time, so
    \<open>Time.IsZero\<close> is \<open>t = 0\<close>, \<open>Before\<close> is \<open><\<close> and \<open>Add\<close> is \<open>+\<close>. Products of durations
    are 64-bit (\<open>int64\<close> wraps as Go's \<open>int64\<close> does).
  \<^item> Transactions. A transaction body is a function from the store to an error or a value
    together with the store it has built so far, \<^typ>\<open>'s \<Rightarrow> ('e + 'a) \<times> 's\<close>: inside a
    transaction an error does not undo the writes before it, so a caller that handles the
    error goes on with them. \<open>run_tx\<close> is the transaction itself: a body that ends in an
    error is rolled back, and a \<open>fault\<close> is a failure of the database driver, either before
    the commit (nothing is written) or reported for a commit that took effect.
  \<^item> Tables. A table is the list of its rows in insertion order; \<open>tbl_update\<close> is UPDATE,
    \<open>first_by\<close> is \<open>ORDER BY \<dots> LIMIT 1\<close>.
  \<^item> Text predicates of Go's standard library that the validators use.
  \<^item> A Hoare logic for transaction bodies (\<open>tx_valid\<close>), whose rules are collected in
    \<open>tx_rules\<close>, and the rules that carry an invariant through a body in \<open>tx_keep\<close>; the
    invariant proofs of the stores are applications of these rules.
\<close>

named_theorems tx_rules \<open>Hoare rules of transaction bodies\<close>
named_theorems tx_keep \<open>rules for invariants of transaction bodies\<close>
named_theorems tx_defs \<open>the combinators of transaction bodies\<close>
named_theorems tx_results \<open>successful results of primitive bodies\<close>

section \<open>Identifiers, instants, durations\<close>

type_synonym uuid = string
type_synonym instant = int
type_synonym nanos = int

definition int64 :: "int \<Rightarrow> int" where
  "int64 x = sint (word_of_int x :: 64 word)"

definition Nanosecond :: nanos where "Nanosecond = 1"
definition Second :: nanos where "Second = 1000000000"
definition Minute :: nanos where "Minute = 60 * Second"
definition Hour :: nanos where "Hour = 60 * Minute"

lemmas go_units = Nanosecond_def Second_def Minute_def Hour_def

lemma int64_id: "- (2 ^ 63) \<le> x \<Longrightarrow> x < 2 ^ 63 \<Longrightarrow> int64 x = x"
  by (simp add: int64_def signed_of_int signed_take_bit_int_eq_self)

lemma int64_range: "- (2 ^ 63) \<le> int64 x \<and> int64 x < 2 ^ 63"
  using sint_range_size [of "word_of_int x :: 64 word"] by (simp add: int64_def word_size)

section \<open>Transactions\<close>

type_synonym ('s, 'e, 'a) tx = "'s \<Rightarrow> ('e + 'a) \<times> 's"

definition tx_return :: "'a \<Rightarrow> ('s, 'e, 'a) tx" where
  "tx_return a = (\<lambda>s. (Inr a, s))"

definition tx_fail :: "'e \<Rightarrow> ('s, 'e, 'a) tx" where
  "tx_fail e = (\<lambda>s. (Inl e, s))"

definition tx_get :: "('s \<Rightarrow> 'a) \<Rightarrow> ('s, 'e, 'a) tx" where
  "tx_get f = (\<lambda>s. (Inr (f s), s))"

definition tx_modify :: "('s \<Rightarrow> 's) \<Rightarrow> ('s, 'e, unit) tx" where
  "tx_modify f = (\<lambda>s. (Inr (), f s))"

definition tx_bind :: "('s, 'e, 'a) tx \<Rightarrow> ('a \<Rightarrow> ('s, 'e, 'b) tx) \<Rightarrow> ('s, 'e, 'b) tx" where
  "tx_bind m f = (\<lambda>s. case m s of (Inl e, t) \<Rightarrow> (Inl e, t) | (Inr a, t) \<Rightarrow> f a t)"

definition tx_try :: "('s, 'e, 'a) tx \<Rightarrow> ('e \<Rightarrow> ('s, 'e, 'b) tx) \<Rightarrow> ('a \<Rightarrow> ('s, 'e, 'b) tx) \<Rightarrow>
    ('s, 'e, 'b) tx" where
  "tx_try m h f = (\<lambda>s. case m s of (Inl e, t) \<Rightarrow> h e t | (Inr a, t) \<Rightarrow> f a t)"

lemmas [tx_defs] = tx_return_def tx_fail_def tx_get_def tx_modify_def tx_bind_def tx_try_def

datatype fault = NoFault | FaultBeforeCommit | FaultAfterCommit

definition run_tx :: "'e \<Rightarrow> fault \<Rightarrow> ('s, 'e, 'a) tx \<Rightarrow> ('s, 'e, 'a) tx" where
  "run_tx err fl m s =
     (if fl = FaultBeforeCommit then (Inl err, s)
      else case m s of
        (Inl e, _) \<Rightarrow> (Inl e, s)
      | (Inr a, t) \<Rightarrow> (if fl = FaultAfterCommit then Inl err else Inr a, t))"

lemma run_tx_cases:
  "snd (run_tx err fl m s) = s \<or>
   (\<exists>a. m s = (Inr a, snd (run_tx err fl m s)))"
  by (auto simp: run_tx_def split: prod.splits sum.splits)

lemma run_tx_NoFault:
  "m s = (Inr a, t) \<Longrightarrow> run_tx err NoFault m s = (Inr a, t)"
  "m s = (Inl e, t) \<Longrightarrow> run_tx err NoFault m s = (Inl e, s)"
  by (simp_all add: run_tx_def)

lemma run_tx_Inr: "run_tx err fl m s = (Inr a, t) \<Longrightarrow> m s = (Inr a, t)"
  by (auto simp: run_tx_def split: prod.splits sum.splits if_splits)

text \<open>When a body succeeds, and with what.\<close>

lemma tx_bind_Inr:
  "tx_bind m f st = (Inr b, t) \<longleftrightarrow> (\<exists>a st1. m st = (Inr a, st1) \<and> f a st1 = (Inr b, t))"
  by (auto simp: tx_bind_def split: prod.splits sum.splits)

lemma tx_bind_ok:
  "m s = (Inr a, s1) \<Longrightarrow> \<exists>t. f a s1 = (Inr b, t) \<Longrightarrow> \<exists>t. tx_bind m f s = (Inr b, t)"
  by (simp add: tx_bind_def)

lemma tx_bind_ok_ex:
  "\<exists>s1. m s = (Inr a, s1) \<Longrightarrow> (\<And>s1. m s = (Inr a, s1) \<Longrightarrow> \<exists>t. f a s1 = (Inr b, t)) \<Longrightarrow>
   \<exists>t. tx_bind m f s = (Inr b, t)"
  by (auto simp: tx_bind_def)

lemma tx_return_Inr [tx_results]: "tx_return a st = (Inr b, t) \<longleftrightarrow> a = b \<and> st = t"
  and tx_fail_Inr [tx_results]: "tx_fail e st \<noteq> (Inr b, t)"
  and tx_get_Inr [tx_results]: "tx_get f st = (Inr b, t) \<longleftrightarrow> b = f st \<and> st = t"
  and tx_modify_Inr [tx_results]: "tx_modify g st = (Inr u, t) \<longleftrightarrow> g st = t"
  by (auto simp: tx_defs)

section \<open>A Hoare logic for transaction bodies\<close>

definition tx_valid :: "('s \<Rightarrow> bool) \<Rightarrow> ('s, 'e, 'a) tx \<Rightarrow> ('a \<Rightarrow> 's \<Rightarrow> bool) \<Rightarrow>
    ('e \<Rightarrow> 's \<Rightarrow> bool) \<Rightarrow> bool" where
  "tx_valid P m Q E \<longleftrightarrow>
     (\<forall>s. P s \<longrightarrow> (case m s of (Inr a, t) \<Rightarrow> Q a t | (Inl e, t) \<Rightarrow> E e t))"

abbreviation tx_keeps :: "('s \<Rightarrow> bool) \<Rightarrow> ('s, 'e, 'a) tx \<Rightarrow> bool" where
  "tx_keeps I m \<equiv> tx_valid I m (\<lambda>_. I) (\<lambda>_. I)"

lemma tx_validI:
  assumes "\<And>s a t. P s \<Longrightarrow> m s = (Inr a, t) \<Longrightarrow> Q a t"
    and "\<And>s e t. P s \<Longrightarrow> m s = (Inl e, t) \<Longrightarrow> E e t"
  shows "tx_valid P m Q E"
  using assms by (auto simp: tx_valid_def split: prod.splits sum.splits)

lemma tx_validD_Inr: "tx_valid P m Q E \<Longrightarrow> P s \<Longrightarrow> m s = (Inr a, t) \<Longrightarrow> Q a t"
  by (auto simp: tx_valid_def)

lemma tx_validD_Inl: "tx_valid P m Q E \<Longrightarrow> P s \<Longrightarrow> m s = (Inl e, t) \<Longrightarrow> E e t"
  by (auto simp: tx_valid_def)

lemma tx_valid_return [tx_rules]: "(\<And>s. P s \<Longrightarrow> Q a s) \<Longrightarrow> tx_valid P (tx_return a) Q E"
  by (simp add: tx_valid_def tx_return_def)

lemma tx_valid_fail [tx_rules]: "(\<And>s. P s \<Longrightarrow> E e s) \<Longrightarrow> tx_valid P (tx_fail e) Q E"
  by (simp add: tx_valid_def tx_fail_def)

lemma tx_valid_get [tx_rules]: "(\<And>s. P s \<Longrightarrow> Q (f s) s) \<Longrightarrow> tx_valid P (tx_get f) Q E"
  by (simp add: tx_valid_def tx_get_def)

lemma tx_valid_modify [tx_rules]: "(\<And>s. P s \<Longrightarrow> Q () (f s)) \<Longrightarrow> tx_valid P (tx_modify f) Q E"
  by (simp add: tx_valid_def tx_modify_def)

lemma tx_valid_bind:
  assumes "tx_valid P m R E" and "\<And>a. tx_valid (R a) (f a) Q E"
  shows "tx_valid P (tx_bind m f) Q E"
  using assms by (fastforce simp: tx_valid_def tx_bind_def split: prod.splits sum.splits)

lemma tx_valid_bind_get [tx_rules]:
  assumes "\<And>a. tx_valid (\<lambda>s. P s \<and> a = g s) (f a) Q E"
  shows "tx_valid P (tx_bind (tx_get g) f) Q E"
  using assms by (auto simp: tx_valid_def tx_bind_def tx_get_def)

lemma tx_valid_try:
  assumes "tx_valid P m S R" and "\<And>e. tx_valid (R e) (h e) Q E" and "\<And>a. tx_valid (S a) (f a) Q E"
  shows "tx_valid P (tx_try m h f) Q E"
  using assms by (fastforce simp: tx_valid_def tx_try_def split: prod.splits sum.splits)

lemma tx_valid_prod [tx_rules]:
  assumes "\<And>a b. x = (a, b) \<Longrightarrow> tx_valid P (m a b) Q E"
  shows "tx_valid P (case x of (a, b) \<Rightarrow> m a b) Q E"
  using assms by (cases x) auto

lemma tx_valid_if [tx_rules]:
  assumes "b \<Longrightarrow> tx_valid P m Q E" and "\<not> b \<Longrightarrow> tx_valid P n Q E"
  shows "tx_valid P (if b then m else n) Q E"
  using assms by simp

lemma tx_valid_option [tx_rules]:
  assumes "x = None \<Longrightarrow> tx_valid P m Q E" and "\<And>a. x = Some a \<Longrightarrow> tx_valid P (n a) Q E"
  shows "tx_valid P (case x of None \<Rightarrow> m | Some a \<Rightarrow> n a) Q E"
  using assms by (cases x) auto

lemma tx_valid_weaken:
  assumes "tx_valid P' m Q' E'" and "\<And>s. P s \<Longrightarrow> P' s"
    and "\<And>a s. Q' a s \<Longrightarrow> Q a s" and "\<And>e s. E' e s \<Longrightarrow> E e s"
  shows "tx_valid P m Q E"
  using assms by (fastforce simp: tx_valid_def split: prod.splits sum.splits)

lemma tx_valid_drop_error: "tx_valid P m Q E \<Longrightarrow> tx_valid P m Q (\<lambda>_ _. True)"
  by (fastforce simp: tx_valid_def split: prod.splits sum.splits)

text \<open>The rules for keeping an invariant, without regard to values.\<close>

lemma tx_keeps_bind [tx_keep]:
  assumes "tx_keeps I m" and "\<And>a. tx_keeps I (f a)"
  shows "tx_keeps I (tx_bind m f)"
  by (rule tx_valid_bind [OF assms(1)]) (rule assms(2))

lemma tx_keeps_try [tx_keep]:
  assumes "tx_keeps I m" and "\<And>e. tx_keeps I (h e)" and "\<And>a. tx_keeps I (f a)"
  shows "tx_keeps I (tx_try m h f)"
  by (rule tx_valid_try [OF assms(1)]) (rule assms)+

lemma tx_keeps_return [tx_keep]: "tx_keeps I (tx_return a)"
  and tx_keeps_fail [tx_keep]: "tx_keeps I (tx_fail e)"
  and tx_keeps_get [tx_keep]: "tx_keeps I (tx_get f)"
  by (simp_all add: tx_valid_def tx_defs)

lemma tx_keeps_modify: "(\<And>s. I s \<Longrightarrow> I (f s)) \<Longrightarrow> tx_keeps I (tx_modify f)"
  by (simp add: tx_valid_def tx_defs)

lemmas [tx_keep] = tx_valid_if tx_valid_option tx_valid_prod

lemma run_tx_keeps:
  assumes "tx_valid I m (\<lambda>_. I) E" and "I s"
  shows "I (snd (run_tx err fl m s))"
  using assms run_tx_cases [of err fl m s] by (auto dest: tx_validD_Inr)

lemma tx_valid_sum [tx_rules, tx_keep]:
  assumes "\<And>e. x = Inl e \<Longrightarrow> tx_valid P (m e) Q E" and "\<And>a. x = Inr a \<Longrightarrow> tx_valid P (n a) Q E"
  shows "tx_valid P (case x of Inl e \<Rightarrow> m e | Inr a \<Rightarrow> n a) Q E"
  using assms by (cases x) auto

lemma tx_valid_pure:
  assumes "\<And>s. P s \<Longrightarrow> c" and "c \<Longrightarrow> tx_valid P m Q E"
  shows "tx_valid P m Q E"
proof (cases "\<exists>s. P s")
  case True
  with assms show ?thesis by blast
qed (simp add: tx_valid_def)

lemma tx_keeps_snd: "tx_valid P m (\<lambda>_. I) (\<lambda>_. I) \<Longrightarrow> P st \<Longrightarrow> I (snd (m st))"
  by (cases "m st"; cases "fst (m st)") (auto simp: tx_valid_def dest!: spec [of _ st])

lemma run_tx_post: "(\<And>a t. m st = (Inr a, t) \<Longrightarrow> Q t) \<Longrightarrow> Q st \<Longrightarrow> Q (snd (run_tx err fl m st))"
  using run_tx_cases [of err fl m st] by auto

section \<open>Tables\<close>

definition tbl_update :: "('r \<Rightarrow> bool) \<Rightarrow> ('r \<Rightarrow> 'r) \<Rightarrow> 'r list \<Rightarrow> 'r list" where
  "tbl_update p f rows = map (\<lambda>r. if p r then f r else r) rows"

fun first_by :: "('r \<Rightarrow> 'k::linorder) \<Rightarrow> 'r list \<Rightarrow> 'r option" where
  "first_by k [] = None"
| "first_by k (r # rs) =
     (case first_by k rs of None \<Rightarrow> Some r | Some m \<Rightarrow> if k r \<le> k m then Some r else Some m)"

lemma tbl_update_Nil [simp]: "tbl_update p f [] = []"
  and tbl_update_Cons [simp]:
    "tbl_update p f (r # rs) = (if p r then f r else r) # tbl_update p f rs"
  by (simp_all add: tbl_update_def)

lemma set_tbl_update:
  "set (tbl_update p f rows) = {f r |r. r \<in> set rows \<and> p r} \<union> {r \<in> set rows. \<not> p r}"
  by (auto simp: tbl_update_def)

lemma in_tbl_updateE:
  assumes "r \<in> set (tbl_update p f rows)"
  obtains (hit) r0 where "r0 \<in> set rows" "p r0" "r = f r0"
    | (miss) "r \<in> set rows" "\<not> p r"
  using assms by (auto simp: set_tbl_update)

lemma tbl_update_hit: "r \<in> set rows \<Longrightarrow> p r \<Longrightarrow> f r \<in> set (tbl_update p f rows)"
  by (auto simp: set_tbl_update)

lemma map_tbl_update:
  "(\<And>r. r \<in> set rows \<Longrightarrow> p r \<Longrightarrow> g (f r) = g r) \<Longrightarrow> map g (tbl_update p f rows) = map g rows"
  by (induction rows) auto

lemma tbl_update_id: "(\<And>r. r \<in> set rows \<Longrightarrow> \<not> p r) \<Longrightarrow> tbl_update p f rows = rows"
  by (induction rows) auto

lemma length_tbl_update [simp]: "length (tbl_update p f rows) = length rows"
  by (simp add: tbl_update_def)

lemma find_tbl_update_same:
  assumes "\<And>r. p r \<Longrightarrow> q (f r) = q r"
  shows "find q (tbl_update p f rows) =
    map_option (\<lambda>r. if p r then f r else r) (find q rows)"
  using assms by (induction rows) auto

lemma find_SomeD: "find p xs = Some x \<Longrightarrow> x \<in> set xs \<and> p x"
  by (induction xs) (auto split: if_splits)

lemma find_NoneD: "find p xs = None \<Longrightarrow> x \<in> set xs \<Longrightarrow> \<not> p x"
  by (induction xs) (auto split: if_splits)

lemma find_append: "find p (xs @ ys) = (case find p xs of None \<Rightarrow> find p ys | Some x \<Rightarrow> Some x)"
  by (induction xs) auto

lemma find_None_key: "find (\<lambda>r. k r = v) xs = None \<longleftrightarrow> v \<notin> k ` set xs"
  by (induction xs) auto

lemma find_unique:
  assumes "distinct (map k xs)" and "x \<in> set xs" and "k x = v"
  shows "find (\<lambda>y. k y = v) xs = Some x"
  using assms by (induction xs) (auto split: if_splits)

lemma filter_by_map:
  assumes "map g xs = map g ys" and "\<And>x y. g x = g y \<Longrightarrow> p x = p y \<and> h x = h y"
  shows "map h (filter p xs) = map h (filter p ys)"
  using assms(1)
proof (induction xs arbitrary: ys)
  case (Cons x xs)
  then obtain y zs where [simp]: "ys = y # zs" and "g x = g y" "map g xs = map g zs" by (cases ys) auto
  with Cons.IH [of zs] assms(2) [of x y] show ?case by simp
qed simp

lemma distinct_key_eq:
  "distinct (map k xs) \<Longrightarrow> x \<in> set xs \<Longrightarrow> y \<in> set xs \<Longrightarrow> k x = k y \<Longrightarrow> x = y"
  by (auto simp: distinct_map inj_on_def)

lemma first_by_None [simp]: "first_by k rs = None \<longleftrightarrow> rs = []"
  by (cases rs) (auto split: option.splits)

lemma first_by_Some: "first_by k rs = Some r \<Longrightarrow> r \<in> set rs \<and> (\<forall>x \<in> set rs. k r \<le> k x)"
proof (induction rs arbitrary: r)
  case (Cons a rs)
  show ?case
  proof (cases "first_by k rs")
    case None
    with Cons.prems show ?thesis by simp
  next
    case (Some m)
    with Cons.IH have "m \<in> set rs" and "\<forall>x \<in> set rs. k m \<le> k x" by blast+
    with Some Cons.prems show ?thesis by (auto split: if_splits dest: order_trans)
  qed
qed simp

section \<open>Text\<close>

definition char_between :: "char \<Rightarrow> char \<Rightarrow> char \<Rightarrow> bool" where
  "char_between lo hi c \<longleftrightarrow> lo \<le> c \<and> c \<le> hi"

definition is_hex :: "char \<Rightarrow> bool" where
  "is_hex c \<longleftrightarrow> char_between CHR ''0'' CHR ''9'' c \<or> char_between CHR ''a'' CHR ''f'' c
     \<or> char_between CHR ''A'' CHR ''F'' c"

definition is_lower_hex :: "char \<Rightarrow> bool" where
  "is_lower_hex c \<longleftrightarrow> char_between CHR ''0'' CHR ''9'' c \<or> char_between CHR ''a'' CHR ''f'' c"

text \<open>A regular expression \<open>^C1{n1}C2{n2}\<dots>$\<close> of character classes with fixed counts.\<close>

fun match_runs :: "((char \<Rightarrow> bool) \<times> nat) list \<Rightarrow> string \<Rightarrow> bool" where
  "match_runs [] s \<longleftrightarrow> s = []"
| "match_runs ((p, n) # rs) s \<longleftrightarrow>
     length (take n s) = n \<and> list_all p (take n s) \<and> match_runs rs (drop n s)"

lemma match_runs_length: "match_runs rs s \<Longrightarrow> length s = sum_list (map snd rs)"
  by (induction rs s rule: match_runs.induct) auto

text \<open>
  \<open>strings.TrimSpace\<close>: the UTF-8 encodings of the code points with Unicode's White_Space
  property, stripped from both ends.
\<close>

definition space_runes :: "string list" where
  "space_runes =
     [[CHR 0x09], [CHR 0x0A], [CHR 0x0B], [CHR 0x0C], [CHR 0x0D], [CHR 0x20],
      [CHR 0xC2, CHR 0x85], [CHR 0xC2, CHR 0xA0], [CHR 0xE1, CHR 0x9A, CHR 0x80],
      [CHR 0xE2, CHR 0x80, CHR 0x80], [CHR 0xE2, CHR 0x80, CHR 0x81],
      [CHR 0xE2, CHR 0x80, CHR 0x82], [CHR 0xE2, CHR 0x80, CHR 0x83],
      [CHR 0xE2, CHR 0x80, CHR 0x84], [CHR 0xE2, CHR 0x80, CHR 0x85],
      [CHR 0xE2, CHR 0x80, CHR 0x86], [CHR 0xE2, CHR 0x80, CHR 0x87],
      [CHR 0xE2, CHR 0x80, CHR 0x88], [CHR 0xE2, CHR 0x80, CHR 0x89],
      [CHR 0xE2, CHR 0x80, CHR 0x8A], [CHR 0xE2, CHR 0x80, CHR 0xA8],
      [CHR 0xE2, CHR 0x80, CHR 0xA9], [CHR 0xE2, CHR 0x80, CHR 0xAF],
      [CHR 0xE2, CHR 0x81, CHR 0x9F], [CHR 0xE3, CHR 0x80, CHR 0x80]]"

definition has_prefix :: "string \<Rightarrow> string \<Rightarrow> bool" where
  "has_prefix s p \<longleftrightarrow> take (length p) s = p"

function trim_front :: "string list \<Rightarrow> string \<Rightarrow> string" where
  "trim_front runes s =
     (case find (\<lambda>r. r \<noteq> [] \<and> has_prefix s r) runes of
        None \<Rightarrow> s
      | Some r \<Rightarrow> trim_front runes (drop (length r) s))"
  by pat_completeness auto
termination
proof (relation "measure (\<lambda>(runes, s). length s)", simp)
  fix runes :: "string list" and s r :: string
  assume "find (\<lambda>r. r \<noteq> [] \<and> has_prefix s r) runes = Some r"
  then have "r \<noteq> []" and "take (length r) s = r" by (auto dest!: find_SomeD simp: has_prefix_def)
  then have "0 < length r" and "0 < length s" by auto
  then show "((runes, drop (length r) s), runes, s) \<in> measure (\<lambda>(runes, s). length s)" by simp
qed

declare trim_front.simps [simp del]

definition TrimSpace :: "string \<Rightarrow> string" where
  "TrimSpace s = rev (trim_front (map rev space_runes) (rev (trim_front space_runes s)))"

lemma length_trim_front: "length (trim_front runes s) \<le> length s"
proof (induction runes s rule: trim_front.induct)
  case (1 runes s)
  then show ?case by (subst trim_front.simps) (fastforce split: option.splits)
qed

lemma length_TrimSpace: "length (TrimSpace s) \<le> length s"
  using length_trim_front [of "map rev space_runes" "rev (trim_front space_runes s)"]
    length_trim_front [of space_runes s]
  by (simp add: TrimSpace_def)

text \<open>\<open>length\<close> of SQL counts characters: bytes that are not UTF-8 continuation bytes.\<close>

definition pg_length :: "string \<Rightarrow> nat" where
  "pg_length s = length (filter (\<lambda>c. \<not> char_between (CHR 0x80) (CHR 0xBF) c) s)"

text \<open>\<open>strconv.ParseInt(s, 10, 64)\<close>, which \<open>Atoi\<close> is on 64-bit machines, and \<open>strings.Split\<close> at one character.\<close>

fun digits_value :: "int \<Rightarrow> string \<Rightarrow> int option" where
  "digits_value acc [] = Some acc"
| "digits_value acc (c # cs) =
     (if char_between CHR ''0'' CHR ''9'' c then digits_value (acc * 10 + (int (of_char c) - 48)) cs else None)"

definition ParseInt :: "string \<Rightarrow> int option" where
  "ParseInt s =
     (let neg = (case s of c # _ \<Rightarrow> c = CHR ''-'' | [] \<Rightarrow> False);
          ds = (case s of c # cs \<Rightarrow> if c = CHR ''-'' \<or> c = CHR ''+'' then cs else s | [] \<Rightarrow> [])
      in if ds = [] then None
         else case digits_value 0 ds of
             None \<Rightarrow> None
           | Some n \<Rightarrow>
               if neg then (if n > 2 ^ 63 then None else Some (- n))
               else (if n \<ge> 2 ^ 63 then None else Some n))"

fun split_on :: "char \<Rightarrow> string \<Rightarrow> string list" where
  "split_on sep [] = [[]]"
| "split_on sep (c # cs) =
     (if c = sep then [] # split_on sep cs
      else case split_on sep cs of p # ps \<Rightarrow> (c # p) # ps | [] \<Rightarrow> [[c]])"

text \<open>\<open>strconv.Itoa\<close> and \<open>%d\<close>.\<close>

definition digit_char :: "nat \<Rightarrow> char" where
  "digit_char d = char_of (48 + d)"

fun nat_text :: "nat \<Rightarrow> string" where
  "nat_text n = (if n < 10 then [digit_char n] else nat_text (n div 10) @ [digit_char (n mod 10)])"

declare nat_text.simps [simp del]

definition Itoa :: "int \<Rightarrow> string" where
  "Itoa i = (if i < 0 then CHR ''-'' # nat_text (nat (- i)) else nat_text (nat i))"

lemma filter_key:
  "distinct (map k rows) \<Longrightarrow> r \<in> set rows \<Longrightarrow> k r = x \<Longrightarrow> filter (\<lambda>y. k y = x) rows = [r]"
proof (induction rows)
  case (Cons a rows)
  have "filter (\<lambda>y. k y = k a) rows = []" using Cons.prems(1) by (auto simp: filter_empty_conv image_iff)
  with Cons show ?case by (auto simp: image_iff)
qed simp

section \<open>Rows that persist\<close>

definition rows_kept :: "('r \<Rightarrow> 'r \<Rightarrow> bool) \<Rightarrow> 'r list \<Rightarrow> 'r list \<Rightarrow> bool" where
  "rows_kept K xs ys \<longleftrightarrow> (\<forall>x \<in> set xs. \<exists>y \<in> set ys. K x y)"

lemma rows_kept_refl [simp]: "(\<And>x. K x x) \<Longrightarrow> rows_kept K xs xs"
  and rows_kept_append: "rows_kept K xs ys \<Longrightarrow> rows_kept K xs (ys @ zs)"
  and rows_kept_update: "(\<And>x. K x x) \<Longrightarrow> (\<And>x. x \<in> set xs \<Longrightarrow> p x \<Longrightarrow> K x (f x)) \<Longrightarrow> rows_kept K xs (tbl_update p f xs)"
  and rows_kept_trans: "(\<And>x y z. K x y \<Longrightarrow> K y z \<Longrightarrow> K x z) \<Longrightarrow> rows_kept K xs ys \<Longrightarrow> rows_kept K ys zs \<Longrightarrow> rows_kept K xs zs"
  unfolding rows_kept_def by (auto simp: set_tbl_update) blast+

end
