(* ===== verification/Subscription_Domain.thy ===== *)
theory Subscription_Domain
  imports Prelude
begin

text \<open>
  The subscription service's data (\<open>internal/domain/types.go\<close>) and the event and order
  validators of \<open>internal/application/service.go\<close>. Statuses are a datatype in place of the
  string constants; every driver error a store function wraps is \<open>InfraError\<close>.
\<close>

section \<open>Data\<close>

datatype sub_error =
    ErrNotFound | ErrConflict | ErrIdempotencyConflict | ErrAdminRevokeNotAllowed
  | ContractError string | InfraError

datatype sub_status = StatusPending | StatusActive | StatusGrace | StatusExpired | StatusRevoked

record EventMeta =
  meta_EventID :: uuid
  meta_EventType :: string
  meta_AggregateID :: uuid
  meta_CorrelationID :: uuid
  meta_CausationID :: "uuid option"
  meta_OccurredAt :: instant
  meta_SourceTopic :: string
  meta_SourcePartition :: int
  meta_SourceOffset :: int
  meta_PayloadSHA256 :: string

record PaymentSucceeded =
  pay_PaymentID :: uuid
  pay_OrderID :: uuid
  pay_UserID :: uuid
  pay_PlanID :: string
  pay_AmountMinor :: int
  pay_Currency :: string
  pay_PaidAt :: instant

record RefundSucceeded =
  ref_RefundID :: uuid
  ref_PaymentID :: uuid
  ref_OrderID :: uuid
  ref_UserID :: uuid
  ref_AmountMinor :: int
  ref_Currency :: string
  ref_RefundScope :: string
  ref_RefundedAt :: instant

record PlanSnapshot =
  snap_PlanID :: string
  snap_DurationDays :: int
  snap_GracePeriodHours :: int
  snap_AmountMinor :: int
  snap_Currency :: string
  snap_Region :: string
  snap_PrimaryNodes :: int
  snap_FailoverNodes :: int

record Order =
  ord_OrderID :: uuid
  ord_UserID :: uuid
  ord_Status :: string
  ord_AmountMinor :: int
  ord_Currency :: string
  ord_PlanSnapshot :: PlanSnapshot

record Subscription =
  sub_SubscriptionID :: uuid
  sub_UserID :: uuid
  sub_Status :: sub_status
  sub_CurrentPeriodStart :: "instant option"
  sub_CurrentPeriodEnd :: "instant option"
  sub_GraceEndsAt :: "instant option"

record Placement =
  plc_SubscriptionID :: uuid
  plc_PeriodID :: uuid
  plc_Region :: string
  plc_PrimaryNodes :: int
  plc_FailoverNodes :: int
  plc_ValidUntil :: instant

record AdminRevokeInput =
  ari_SubscriptionID :: uuid
  ari_IdempotencyKey :: string
  ari_RequestSHA256 :: string
  ari_ActionID :: uuid
  ari_CorrelationID :: uuid
  ari_ReasonCode :: string

record AdminRevokeResult =
  arr_SubscriptionID :: uuid
  arr_Status :: sub_status
  arr_ReasonCode :: string
  arr_Replay :: bool

record RefundWork =
  rw_InboxID :: uuid
  rw_Meta :: EventMeta
  rw_Refund :: RefundSucceeded
  rw_Attempts :: int

section \<open>Validation\<close>

definition ContractErrorCode :: "sub_error \<Rightarrow> string option" where
  "ContractErrorCode err = (case err of
       ContractError code \<Rightarrow> Some code
     | ErrConflict \<Rightarrow> Some ''durable_state_conflict''
     | _ \<Rightarrow> None)"

definition uuidPattern :: "string \<Rightarrow> bool" where
  "uuidPattern = match_runs
     [(is_hex, 8), ((=) CHR ''-'', 1), (is_hex, 4), ((=) CHR ''-'', 1),
      (char_between CHR ''1'' CHR ''5'', 1), (is_hex, 3), ((=) CHR ''-'', 1),
      (\<lambda>c. c \<in> set ''89abAB'', 1), (is_hex, 3), ((=) CHR ''-'', 1), (is_hex, 12)]"

definition validUUIDs :: "string list \<Rightarrow> bool" where
  "validUUIDs values = list_all uuidPattern values"

definition validCurrency :: "string \<Rightarrow> bool" where
  "validCurrency value \<longleftrightarrow> length value = 3 \<and> list_all (char_between CHR ''A'' CHR ''Z'') value"

definition validSource :: "EventMeta \<Rightarrow> bool" where
  "validSource meta \<longleftrightarrow>
     meta_SourceTopic meta = meta_EventType meta \<and> 0 \<le> meta_SourcePartition meta
     \<and> 0 \<le> meta_SourceOffset meta \<and> length (meta_PayloadSHA256 meta) = 64
     \<and> list_all is_lower_hex (meta_PayloadSHA256 meta)"

definition validatePayment :: "EventMeta \<Rightarrow> PaymentSucceeded \<Rightarrow> sub_error option" where
  "validatePayment meta payment =
     (if \<not> validSource meta then Some (ContractError ''invalid_source_metadata'')
      else if meta_EventType meta \<noteq> ''billing.payment.succeeded.v1'' \<or>
        \<not> validUUIDs [meta_EventID meta, meta_AggregateID meta, meta_CorrelationID meta,
             pay_PaymentID payment, pay_OrderID payment, pay_UserID payment]
      then Some (ContractError ''invalid_payment_identity'')
      else if meta_AggregateID meta \<noteq> pay_PaymentID payment \<or> meta_OccurredAt meta \<noteq> pay_PaidAt payment
        \<or> pay_AmountMinor payment \<le> 0 \<or> length (pay_PlanID payment) = 0
        \<or> length (pay_PlanID payment) > 128 \<or> TrimSpace (pay_PlanID payment) \<noteq> pay_PlanID payment
        \<or> \<not> validCurrency (pay_Currency payment) \<or> pay_PaidAt payment = 0
      then Some (ContractError ''invalid_payment_data'')
      else None)"

definition validateRefund :: "EventMeta \<Rightarrow> RefundSucceeded \<Rightarrow> sub_error option" where
  "validateRefund meta refund =
     (if \<not> validSource meta then Some (ContractError ''invalid_source_metadata'')
      else if meta_EventType meta \<noteq> ''billing.refund.succeeded.v1'' \<or>
        \<not> validUUIDs [meta_EventID meta, meta_AggregateID meta, meta_CorrelationID meta,
             ref_RefundID refund, ref_PaymentID refund, ref_OrderID refund, ref_UserID refund]
      then Some (ContractError ''invalid_refund_identity'')
      else if meta_AggregateID meta \<noteq> ref_RefundID refund \<or> meta_OccurredAt meta \<noteq> ref_RefundedAt refund
        \<or> ref_RefundScope refund \<noteq> ''full'' \<or> ref_AmountMinor refund \<le> 0
        \<or> \<not> validCurrency (ref_Currency refund) \<or> ref_RefundedAt refund = 0
      then Some (ContractError ''invalid_refund_data'')
      else None)"

definition validateOrder :: "PaymentSucceeded \<Rightarrow> Order \<Rightarrow> sub_error option" where
  "validateOrder payment order =
     (let snapshot = ord_PlanSnapshot order in
      if ord_OrderID order \<noteq> pay_OrderID payment \<or> ord_UserID order \<noteq> pay_UserID payment
        \<or> ord_Status order \<noteq> ''paid'' \<or> ord_AmountMinor order \<noteq> pay_AmountMinor payment
        \<or> ord_Currency order \<noteq> pay_Currency payment \<or> snap_PlanID snapshot \<noteq> pay_PlanID payment
        \<or> snap_AmountMinor snapshot \<noteq> pay_AmountMinor payment
        \<or> snap_Currency snapshot \<noteq> pay_Currency payment
      then Some (ContractError ''billing_order_mismatch'')
      else if snap_DurationDays snapshot < 1 \<or> snap_DurationDays snapshot > 3650
        \<or> snap_GracePeriodHours snapshot < 0 \<or> snap_GracePeriodHours snapshot > 720
        \<or> length (TrimSpace (snap_Region snapshot)) < 2 \<or> length (snap_Region snapshot) > 64
        \<or> TrimSpace (snap_Region snapshot) \<noteq> snap_Region snapshot
        \<or> snap_PrimaryNodes snapshot < 1 \<or> snap_PrimaryNodes snapshot > 8
        \<or> snap_FailoverNodes snapshot < 0 \<or> snap_FailoverNodes snapshot > 8
        \<or> snap_PrimaryNodes snapshot + snap_FailoverNodes snapshot > 8
      then Some (ContractError ''invalid_order_snapshot'')
      else None)"

section \<open>What the validators establish\<close>

lemma uuidPattern_length: "uuidPattern s \<Longrightarrow> length s = 36"
  unfolding uuidPattern_def by (drule match_runs_length) simp

lemma validatePayment_None:
  assumes "validatePayment meta payment = None"
  shows "meta_EventType meta = ''billing.payment.succeeded.v1''"
    and "meta_SourceTopic meta = meta_EventType meta"
    and "meta_AggregateID meta = pay_PaymentID payment" and "0 < pay_AmountMinor payment"
    and "validCurrency (pay_Currency payment)" and "pay_PlanID payment \<noteq> []"
  using assms by (auto simp: validatePayment_def validSource_def split: if_splits)

lemma validateRefund_None:
  assumes "validateRefund meta refund = None"
  shows "meta_EventType meta = ''billing.refund.succeeded.v1''"
    and "meta_SourceTopic meta = meta_EventType meta"
    and "meta_AggregateID meta = ref_RefundID refund" and "ref_RefundScope refund = ''full''"
  using assms by (auto simp: validateRefund_def validSource_def split: if_splits)

lemma validateOrder_None:
  assumes "validateOrder payment order = None"
  shows "ord_OrderID order = pay_OrderID payment" and "ord_UserID order = pay_UserID payment"
    and "snap_AmountMinor (ord_PlanSnapshot order) = pay_AmountMinor payment"
    and "1 \<le> snap_DurationDays (ord_PlanSnapshot order)"
    and "snap_DurationDays (ord_PlanSnapshot order) \<le> 3650"
    and "0 \<le> snap_GracePeriodHours (ord_PlanSnapshot order)"
    and "snap_GracePeriodHours (ord_PlanSnapshot order) \<le> 720"
    and "1 \<le> snap_PrimaryNodes (ord_PlanSnapshot order)"
    and "0 \<le> snap_FailoverNodes (ord_PlanSnapshot order)"
    and "snap_PrimaryNodes (ord_PlanSnapshot order) + snap_FailoverNodes (ord_PlanSnapshot order) \<le> 8"
  using assms unfolding validateOrder_def Let_def by (auto split: if_splits)

lemma validateOrder_code:
  "validateOrder payment order = Some e \<Longrightarrow> ContractErrorCode e \<noteq> None"
  by (auto simp: validateOrder_def ContractErrorCode_def Let_def split: if_splits)

lemma validatePayment_code:
  "validatePayment meta payment = Some e \<Longrightarrow> ContractErrorCode e \<noteq> None"
  by (auto simp: validatePayment_def ContractErrorCode_def split: if_splits)

lemma validateRefund_code:
  "validateRefund meta refund = Some e \<Longrightarrow> ContractErrorCode e \<noteq> None"
  by (auto simp: validateRefund_def ContractErrorCode_def split: if_splits)

end
