(* ===== verification/Subscription_Entitlement.thy ===== *)
theory Subscription_Entitlement
  imports Subscription_Domain
begin

text \<open>
  The entitlement calculation of \<open>internal/postgres/store.go\<close>: \<open>statusAt\<close> and
  \<open>calculateEntitlement\<close>, with the rows of \<open>subscription_periods\<close> it reads. Its three
  loops are \<open>last_index\<close> (the two scans that keep the last matching index) and
  \<open>extend_chain\<close> (the walk over contiguous periods).

  Against them stands a specification that speaks of coverage only: \<open>entitled_status\<close> is
  active when some unrefunded period covers the instant, grace when none does but some
  grace window is open, pending when all periods lie ahead. \<open>calculate_status\<close> shows the
  code computes it, \<open>active_until_end\<close> that an active result is covered without a gap up to
  its end, \<open>transition_sound\<close> that access cannot change before the scheduled transition.
\<close>

section \<open>Rows\<close>

datatype period_status = Paid | Refunded

record period =
  p_id :: uuid
  p_subscription_id :: uuid
  p_source_order_id :: uuid
  p_source_payment_id :: uuid
  p_plan_id :: string
  p_region :: string
  p_primary_nodes :: int
  p_failover_nodes :: int
  p_amount_minor :: int
  p_currency :: string
  p_duration_days :: int
  p_grace_period_hours :: int
  p_paid_at :: instant
  p_period_start :: instant
  p_period_end :: instant
  p_grace_ends_at :: instant
  p_status :: period_status
  p_refund_id :: "uuid option"
  p_refunded_at :: "instant option"

record periodRow =
  row_ID :: uuid
  row_OrderID :: uuid
  row_PaymentID :: uuid
  row_Start :: instant
  row_End :: instant
  row_Grace :: instant

record entitlementState =
  ent_Status :: sub_status
  ent_Start :: instant
  ent_End :: instant
  ent_Grace :: instant
  ent_Next :: "instant option"
  ent_Period :: periodRow

section \<open>The calculation\<close>

definition statusAt :: "instant \<Rightarrow> instant \<Rightarrow> instant \<Rightarrow> instant \<Rightarrow> sub_status \<times> instant option" where
  "statusAt now start ende grace =
     (if now < start then (StatusPending, Some start)
      else if now < ende then (StatusActive, Some ende)
      else if now < grace then (StatusGrace, Some grace)
      else (StatusExpired, None))"

definition periodRow_of :: "period \<Rightarrow> periodRow" where
  "periodRow_of p = \<lparr>row_ID = p_id p, row_OrderID = p_source_order_id p,
     row_PaymentID = p_source_payment_id p, row_Start = p_period_start p,
     row_End = p_period_end p, row_Grace = p_grace_ends_at p\<rparr>"

definition valid_periods :: "uuid \<Rightarrow> instant \<Rightarrow> period list \<Rightarrow> periodRow list" where
  "valid_periods sid now ps =
     map periodRow_of (sort_key (\<lambda>p. (p_period_start p, p_id p))
       (filter (\<lambda>p. p_subscription_id p = sid \<and> p_status p = Paid \<and> p_grace_ends_at p > now) ps))"

fun last_index :: "('a \<Rightarrow> bool) \<Rightarrow> nat \<Rightarrow> nat \<Rightarrow> 'a list \<Rightarrow> nat" where
  "last_index P i base [] = base"
| "last_index P i base (x # xs) = last_index P (Suc i) (if P x then i else base) xs"

fun extend_chain :: "instant \<Rightarrow> instant \<Rightarrow> periodRow list \<Rightarrow> instant \<times> instant" where
  "extend_chain chainEnd chainGrace [] = (chainEnd, chainGrace)"
| "extend_chain chainEnd chainGrace (p # ps) =
     (if row_Start p > chainEnd then (chainEnd, chainGrace)
      else if row_End p > chainEnd then extend_chain (row_End p) (row_Grace p) ps
      else extend_chain chainEnd chainGrace ps)"

definition select_base :: "instant \<Rightarrow> periodRow list \<Rightarrow> nat" where
  "select_base now rows =
     (let base = last_index (\<lambda>p. \<not> now < row_Start p \<and> now < row_End p) 0 0 rows in
      if now < row_Start (rows ! base) then 0
      else if \<not> now < row_End (rows ! base)
      then last_index (\<lambda>p. \<not> now < row_End p \<and> now < row_Grace p) 0 base rows
      else base)"

definition calculateEntitlement :: "uuid \<Rightarrow> instant \<Rightarrow> period list \<Rightarrow> entitlementState option" where
  "calculateEntitlement sid now ps =
     (let rows = valid_periods sid now ps in
      if rows = [] then None
      else let base = select_base now rows;
               selected = rows ! base;
               (chainEnd, chainGrace) =
                 extend_chain (row_End selected) (row_Grace selected) (drop (base + 1) rows);
               (status, nxt) = statusAt now (row_Start selected) chainEnd chainGrace
           in Some \<lparr>ent_Status = status, ent_Start = row_Start selected, ent_End = chainEnd,
                    ent_Grace = chainGrace, ent_Next = nxt, ent_Period = selected\<rparr>)"

section \<open>The specification\<close>

definition live :: "uuid \<Rightarrow> instant \<Rightarrow> period list \<Rightarrow> period \<Rightarrow> bool" where
  "live sid now ps p \<longleftrightarrow>
     p \<in> set ps \<and> p_subscription_id p = sid \<and> p_status p = Paid \<and> p_grace_ends_at p > now"

definition covered :: "uuid \<Rightarrow> instant \<Rightarrow> period list \<Rightarrow> bool" where
  "covered sid now ps \<longleftrightarrow> (\<exists>p. live sid now ps p \<and> p_period_start p \<le> now \<and> now < p_period_end p)"

definition in_grace :: "uuid \<Rightarrow> instant \<Rightarrow> period list \<Rightarrow> bool" where
  "in_grace sid now ps \<longleftrightarrow> (\<exists>p. live sid now ps p \<and> p_period_end p \<le> now)"

definition entitled_status :: "uuid \<Rightarrow> instant \<Rightarrow> period list \<Rightarrow> sub_status option" where
  "entitled_status sid now ps =
     (if \<not> (\<exists>p. live sid now ps p) then None
      else if covered sid now ps then Some StatusActive
      else if in_grace sid now ps then Some StatusGrace
      else Some StatusPending)"

definition wf_period :: "period \<Rightarrow> bool" where
  "wf_period p \<longleftrightarrow> p_period_start p < p_period_end p \<and> p_period_end p \<le> p_grace_ends_at p"

definition has_access :: "sub_status option \<Rightarrow> bool" where
  "has_access s \<longleftrightarrow> s = Some StatusActive \<or> s = Some StatusGrace"

section \<open>The loops\<close>

lemma last_index_cases:
  "(\<exists>j < length xs. last_index P i base xs = i + j \<and> P (xs ! j))
   \<or> (\<forall>x \<in> set xs. \<not> P x) \<and> last_index P i base xs = base"
proof (induction xs arbitrary: i base)
  case (Cons x xs)
  from Cons.IH [of "Suc i" "if P x then i else base"] show ?case
  proof
    assume "\<exists>j < length xs. last_index P (Suc i) (if P x then i else base) xs = Suc i + j \<and> P (xs ! j)"
    then obtain j where "j < length xs"
      "last_index P (Suc i) (if P x then i else base) xs = Suc i + j" "P (xs ! j)" by blast
    then have "Suc j < length (x # xs) \<and> last_index P i base (x # xs) = i + Suc j \<and> P ((x # xs) ! Suc j)"
      by simp
    then show ?thesis by blast
  qed (auto intro!: exI [of _ 0])
qed simp

lemma extend_chain_mono: "e \<le> fst (extend_chain e g ps)"
  by (induction e g ps rule: extend_chain.induct) auto

lemma extend_chain_gapless:
  "e \<le> u \<Longrightarrow> u < fst (extend_chain e g ps) \<Longrightarrow> \<exists>p \<in> set ps. row_Start p \<le> u \<and> u < row_End p"
proof (induction e g ps rule: extend_chain.induct)
  case (2 e g p ps)
  show ?case
  proof (cases "u < row_End p")
    case True
    with 2 show ?thesis by (fastforce split: if_splits)
  next
    case False
    with 2 show ?thesis by (force split: if_splits)
  qed
qed simp

lemma extend_chain_past:
  assumes "e \<le> now" and "now < g" and "\<forall>p \<in> set ps. now < row_Grace p"
    and "\<forall>p \<in> set ps. \<not> (row_Start p \<le> now \<and> now < row_End p)"
  shows "fst (extend_chain e g ps) \<le> now \<and> now < snd (extend_chain e g ps)"
  using assms by (induction e g ps rule: extend_chain.induct) fastforce+

lemma extend_chain_order:
  "e \<le> g \<Longrightarrow> \<forall>p \<in> set ps. row_End p \<le> row_Grace p \<Longrightarrow>
   fst (extend_chain e g ps) \<le> snd (extend_chain e g ps)"
  by (induction e g ps rule: extend_chain.induct) auto

lemma extend_chain_grace:
  "snd (extend_chain e g ps) = g \<and> fst (extend_chain e g ps) = e
   \<or> (\<exists>p \<in> set ps. snd (extend_chain e g ps) = row_Grace p \<and> fst (extend_chain e g ps) = row_End p)"
  by (induction e g ps rule: extend_chain.induct) auto

lemma in_valid_periods:
  "r \<in> set (valid_periods sid now ps) \<longleftrightarrow> (\<exists>p. live sid now ps p \<and> r = periodRow_of p)"
  by (auto simp: valid_periods_def live_def)

lemma set_valid_periods: "set (valid_periods sid now ps) = periodRow_of ` {p. live sid now ps p}"
  by (auto simp: in_valid_periods)

lemma valid_periods_sorted:
  "i \<le> j \<Longrightarrow> j < length (valid_periods sid now ps) \<Longrightarrow>
   row_Start (valid_periods sid now ps ! i) \<le> row_Start (valid_periods sid now ps ! j)"
proof -
  let ?k = "\<lambda>p. (p_period_start p, p_id p)"
  let ?l = "sort_key ?k (filter (\<lambda>p. p_subscription_id p = sid \<and> p_status p = Paid \<and> p_grace_ends_at p > now) ps)"
  assume "i \<le> j" "j < length (valid_periods sid now ps)"
  moreover have "sorted (map ?k ?l)" by simp
  ultimately have "?k (?l ! i) \<le> ?k (?l ! j)"
    using sorted_nth_mono [of "map ?k ?l" i j] by (simp add: valid_periods_def)
  with \<open>i \<le> j\<close> \<open>j < _\<close> show ?thesis
    by (auto simp: valid_periods_def periodRow_of_def less_eq_prod_def)
qed

section \<open>The code computes the specification\<close>

lemma calculate_None: "calculateEntitlement sid now ps = None \<longleftrightarrow> \<not> (\<exists>p. live sid now ps p)"
proof -
  have "valid_periods sid now ps = [] \<longleftrightarrow> \<not> (\<exists>p. live sid now ps p)"
    using in_valid_periods [of _ sid now ps] by (metis list.set_intros(1) neq_Nil_conv empty_iff list.set(1))
  then show ?thesis by (simp add: calculateEntitlement_def Let_def split: prod.splits)
qed

text \<open>What \<open>select_base\<close> finds, in the three situations of the specification.\<close>

lemma select_base_cases:
  assumes ne: "rows \<noteq> []"
    and srt: "\<And>i j. i \<le> j \<Longrightarrow> j < length rows \<Longrightarrow> row_Start (rows ! i) \<le> row_Start (rows ! j)"
    and gr: "\<And>r. r \<in> set rows \<Longrightarrow> now < row_Grace r"
    and wf: "\<And>r. r \<in> set rows \<Longrightarrow> row_Start r < row_End r"
  obtains (active) "select_base now rows < length rows" "row_Start (rows ! select_base now rows) \<le> now"
      "now < row_End (rows ! select_base now rows)"
    | (grace) "select_base now rows < length rows" "row_End (rows ! select_base now rows) \<le> now"
      "\<forall>r \<in> set rows. \<not> (row_Start r \<le> now \<and> now < row_End r)"
    | (pending) "select_base now rows = 0" "\<forall>r \<in> set rows. now < row_Start r"
proof -
  let ?P = "\<lambda>p. \<not> now < row_Start p \<and> now < row_End p"
  let ?G = "\<lambda>p. \<not> now < row_End p \<and> now < row_Grace p"
  let ?b = "last_index ?P 0 0 rows"
  from ne have r0: "rows ! 0 \<in> set rows" by simp
  from last_index_cases [of rows ?P 0 0] show thesis
  proof (elim disjE conjE exE)
    fix j assume "j < length rows" "?b = 0 + j" "\<not> now < row_Start (rows ! j)" "now < row_End (rows ! j)"
    then show thesis by (intro active) (simp_all add: select_base_def)
  next
    assume none: "\<forall>x \<in> set rows. \<not> ?P x" and b: "?b = 0"
    show thesis
    proof (cases "now < row_Start (rows ! 0)")
      case True
      have "now < row_Start r" if "r \<in> set rows" for r
        using that True srt [of 0] by (fastforce simp: in_set_conv_nth)
      with True b show thesis by (intro pending) (simp_all add: select_base_def)
    next
      case False
      with none r0 have e0: "row_End (rows ! 0) \<le> now" by auto
      with False b have sel: "select_base now rows = last_index ?G 0 0 rows"
        by (simp add: select_base_def)
      have "\<exists>j < length rows. last_index ?G 0 0 rows = 0 + j \<and> ?G (rows ! j)"
        using last_index_cases [of rows ?G 0 0] r0 e0 gr by fastforce
      with none sel show thesis by (intro grace) auto
    qed
  qed
qed

lemma calculate_Some:
  assumes "calculateEntitlement sid now ps = Some st" and "\<forall>p \<in> set ps. wf_period p"
  defines "rows \<equiv> valid_periods sid now ps"
  shows "rows \<noteq> []"
    and "\<And>r. r \<in> set rows \<Longrightarrow> now < row_Grace r \<and> row_Start r < row_End r \<and> row_End r \<le> row_Grace r"
    and "ent_Period st = rows ! select_base now rows"
    and "ent_Start st = row_Start (rows ! select_base now rows)"
    and "(ent_End st, ent_Grace st) =
      extend_chain (row_End (rows ! select_base now rows)) (row_Grace (rows ! select_base now rows))
        (drop (select_base now rows + 1) rows)"
    and "(ent_Status st, ent_Next st) = statusAt now (ent_Start st) (ent_End st) (ent_Grace st)"
proof -
  from assms(1) show "rows \<noteq> []"
    by (auto simp: calculateEntitlement_def Let_def rows_def split: if_splits prod.splits)
  show "now < row_Grace r \<and> row_Start r < row_End r \<and> row_End r \<le> row_Grace r" if "r \<in> set rows" for r
    using that assms(2) unfolding rows_def in_valid_periods
    by (auto simp: live_def wf_period_def periodRow_of_def)
  from assms(1) show "ent_Period st = rows ! select_base now rows"
    and "ent_Start st = row_Start (rows ! select_base now rows)"
    and "(ent_End st, ent_Grace st) =
      extend_chain (row_End (rows ! select_base now rows)) (row_Grace (rows ! select_base now rows))
        (drop (select_base now rows + 1) rows)"
    and "(ent_Status st, ent_Next st) = statusAt now (ent_Start st) (ent_End st) (ent_Grace st)"
    by (auto simp: calculateEntitlement_def Let_def rows_def split: if_splits prod.splits)
qed

lemma covered_rows:
  "covered sid now ps \<longleftrightarrow> (\<exists>r \<in> set (valid_periods sid now ps). row_Start r \<le> now \<and> now < row_End r)"
  unfolding covered_def set_valid_periods by (simp add: periodRow_of_def)

lemma in_grace_rows:
  "in_grace sid now ps \<longleftrightarrow> (\<exists>r \<in> set (valid_periods sid now ps). row_End r \<le> now)"
  unfolding in_grace_def set_valid_periods by (simp add: periodRow_of_def)

text \<open>The three situations together with what the code answers in them.\<close>

lemma calculate_cases:
  assumes calc: "calculateEntitlement sid now ps = Some st" and wf: "\<forall>p \<in> set ps. wf_period p"
  obtains (active) "covered sid now ps" "ent_Status st = StatusActive" "ent_Next st = Some (ent_End st)"
      "now < ent_End st" "ent_Start st \<le> now"
      "\<And>u. now \<le> u \<Longrightarrow> u < ent_End st \<Longrightarrow> \<exists>r \<in> set (valid_periods sid now ps). row_Start r \<le> u \<and> u < row_End r"
    | (grace) "\<not> covered sid now ps" "in_grace sid now ps" "ent_Status st = StatusGrace"
      "ent_Next st = Some (ent_Grace st)" "now < ent_Grace st" "ent_End st \<le> now"
      "\<exists>r \<in> set (valid_periods sid now ps). ent_End st = row_End r \<and> ent_Grace st = row_Grace r"
    | (pending) "\<not> covered sid now ps" "\<not> in_grace sid now ps" "ent_Status st = StatusPending"
      "ent_Next st = Some (ent_Start st)" "now < ent_Start st"
      "\<forall>r \<in> set (valid_periods sid now ps). ent_Start st \<le> row_Start r"
proof -
  define rows where "rows = valid_periods sid now ps"
  define b where "b = select_base now rows"
  note facts = calculate_Some [OF calc wf, folded rows_def, folded b_def]
  define tail where "tail = drop (b + 1) rows"
  have tail_in: "r \<in> set rows" if "r \<in> set tail" for r using that by (auto simp: tail_def dest: in_set_dropD)
  have chain: "ent_End st = fst (extend_chain (row_End (rows ! b)) (row_Grace (rows ! b)) tail)"
    "ent_Grace st = snd (extend_chain (row_End (rows ! b)) (row_Grace (rows ! b)) tail)"
    unfolding tail_def facts(5) [symmetric] by simp_all
  have srt: "row_Start (rows ! i) \<le> row_Start (rows ! j)" if "i \<le> j" "j < length rows" for i j
    using that valid_periods_sorted unfolding rows_def by blast
  have st: "statusAt now (row_Start (rows ! b)) (ent_End st) (ent_Grace st) = (ent_Status st, ent_Next st)"
    using facts(4,6) by simp
  show thesis
  proof (rule select_base_cases [OF facts(1) srt, of now], goal_cases)
    case (5)
    note act = 5 [folded b_def]
    from extend_chain_mono have ge: "row_End (rows ! b) \<le> ent_End st" unfolding chain by simp
    show thesis
    proof (rule active)
      show "covered sid now ps" unfolding covered_rows using act(1-3) nth_mem by (auto simp: rows_def)
      show "ent_Status st = StatusActive" "ent_Next st = Some (ent_End st)" "now < ent_End st"
        using st act ge by (auto simp: statusAt_def)
      show "ent_Start st \<le> now" using facts(4) act by simp
      fix u assume u: "now \<le> u" "u < ent_End st"
      show "\<exists>r \<in> set (valid_periods sid now ps). row_Start r \<le> u \<and> u < row_End r"
      proof (cases "u < row_End (rows ! b)")
        case True
        with u act show ?thesis by (intro bexI [of _ "rows ! b"]) (auto simp: rows_def)
      next
        case False
        with extend_chain_gapless [of "row_End (rows ! b)" u "row_Grace (rows ! b)" tail] u(2)
        show ?thesis unfolding chain using tail_in by (auto simp: rows_def)
      qed
    qed
  next
    case (6)
    note gr = 6 [folded b_def]
    from gr(1) have sel: "rows ! b \<in> set rows" by simp
    have past: "ent_End st \<le> now \<and> now < ent_Grace st" unfolding chain
      by (rule extend_chain_past) (use gr facts(2) sel tail_in in blast)+
    show thesis
    proof (rule grace)
      show "\<not> covered sid now ps" unfolding covered_rows using gr(3) by (simp add: rows_def)
      show "in_grace sid now ps" unfolding in_grace_rows using sel gr(2) by (auto simp: rows_def)
      have "\<not> now < row_Start (rows ! b)" using facts(2) [OF sel] gr(2) by simp
      with st past show "ent_Status st = StatusGrace" "ent_Next st = Some (ent_Grace st)"
        by (auto simp: statusAt_def)
      from past show "now < ent_Grace st" "ent_End st \<le> now" by auto
      show "\<exists>r \<in> set (valid_periods sid now ps). ent_End st = row_End r \<and> ent_Grace st = row_Grace r"
        using extend_chain_grace [of "row_End (rows ! b)" "row_Grace (rows ! b)" tail] sel tail_in
        unfolding chain rows_def [symmetric] by blast
    qed
  next
    case (7)
    note pe = 7 [folded b_def]
    from facts(1) pe have "rows ! b \<in> set rows" by simp
    with pe have lt: "now < row_Start (rows ! b)" by simp
    show thesis
    proof (rule pending)
      show "\<not> covered sid now ps" unfolding covered_rows using pe(2) by (force simp: rows_def)
      show "\<not> in_grace sid now ps" unfolding in_grace_rows using pe(2) facts(2) by (force simp: rows_def)
      show "ent_Status st = StatusPending" "ent_Next st = Some (ent_Start st)" "now < ent_Start st"
        using st lt facts(4) by (auto simp: statusAt_def)
      show "\<forall>r \<in> set (valid_periods sid now ps). ent_Start st \<le> row_Start r"
        using srt [of 0] pe(1) facts(4) by (auto simp: rows_def [symmetric] in_set_conv_nth)
    qed
  qed (use facts(2) in auto)
qed

section \<open>Properties\<close>

lemma calculate_entitled:
  assumes wf: "\<forall>p \<in> set ps. wf_period p"
  shows "map_option ent_Status (calculateEntitlement sid now ps) = entitled_status sid now ps"
proof (cases "calculateEntitlement sid now ps")
  case None
  then show ?thesis by (simp add: calculate_None entitled_status_def)
next
  case (Some st)
  then have "\<exists>p. live sid now ps p" using calculate_None [of sid now ps] by simp
  with Some wf show ?thesis
    by (rule_tac calculate_cases [OF Some wf]) (auto simp: entitled_status_def)
qed

text \<open>C1: The entitlement calculation computes the coverage specification. For every list of
  periods with start before end and end no later than the end of grace, and at every instant,
  \<open>calculateEntitlement\<close> finds nothing exactly when no unrefunded period of the subscription
  has its grace open, and otherwise answers active when some such period covers the instant,
  grace when none covers it but one has ended, and pending when all of them lie ahead.\<close>

theorem calculate_status:
  assumes "\<forall>p \<in> set ps. wf_period p"
  shows "map_option ent_Status (calculateEntitlement sid now ps) = entitled_status sid now ps"
  using assms by (rule calculate_entitled)

definition sample_period :: "uuid \<Rightarrow> instant \<Rightarrow> instant \<Rightarrow> instant \<Rightarrow> period" where
  "sample_period pid start ende grace =
     \<lparr>p_id = pid, p_subscription_id = ''s1'', p_source_order_id = pid @ ''-order'',
      p_source_payment_id = pid @ ''-payment'', p_plan_id = ''basic'', p_region = ''nl'',
      p_primary_nodes = 1, p_failover_nodes = 1, p_amount_minor = 100, p_currency = ''EUR'',
      p_duration_days = 1, p_grace_period_hours = 1, p_paid_at = start, p_period_start = start,
      p_period_end = ende, p_grace_ends_at = grace, p_status = Paid, p_refund_id = None,
      p_refunded_at = None\<rparr>"

definition sample_periods :: "period list" where
  "sample_periods = [sample_period ''p2'' 20 30 35, sample_period ''p1'' 10 20 25]"

lemma sample_periods_wf: "\<forall>p \<in> set sample_periods. wf_period p"
  by (simp add: sample_periods_def sample_period_def wf_period_def)

theorem calculate_status_witness:
  "list_all wf_period sample_periods \<and>
   calculateEntitlement ''s1'' 22 sample_periods \<noteq> None \<and>
   entitled_status ''s1'' 22 sample_periods = Some StatusActive \<and>
   entitled_status ''s1'' 32 sample_periods = Some StatusGrace \<and>
   entitled_status ''s1'' 5 sample_periods = Some StatusPending \<and>
   entitled_status ''s1'' 35 sample_periods = None"
proof -
  note eqs = calculate_status [OF sample_periods_wf, of "''s1''", symmetric]
  have "list_all wf_period sample_periods" using sample_periods_wf by (simp add: list_all_iff)
  then show ?thesis unfolding eqs by code_simp
qed

text \<open>C2: The scheduled transition is never late for access. Whenever the calculation finds an
  entitlement it schedules a next transition strictly after the instant it was made at, and at
  every instant before that transition the subscription has access (active or grace) exactly if
  it had access at the instant of the calculation.\<close>

theorem transition_sound:
  assumes wf: "\<forall>p \<in> set ps. wf_period p" and calc: "calculateEntitlement sid now ps = Some st"
  shows "\<exists>t. ent_Next st = Some t \<and> now < t \<and>
    (\<forall>u. now \<le> u \<and> u < t \<longrightarrow>
       has_access (entitled_status sid u ps) = has_access (Some (ent_Status st)))"
proof (rule calculate_cases [OF calc wf], goal_cases active grace pending)
  case active
  have "has_access (entitled_status sid u ps)" if "now \<le> u" "u < ent_End st" for u
  proof -
    from active(6) [OF that] obtain p where "live sid now ps p" "p_period_start p \<le> u" "u < p_period_end p"
      by (auto simp: set_valid_periods periodRow_of_def)
    with wf have "live sid u ps p \<and> p_period_start p \<le> u \<and> u < p_period_end p"
      by (auto simp: live_def wf_period_def)
    then show ?thesis by (auto simp: has_access_def entitled_status_def covered_def)
  qed
  with active show ?thesis by (simp add: has_access_def)
next
  case grace
  have "has_access (entitled_status sid u ps)" if "now \<le> u" "u < ent_Grace st" for u
  proof -
    from grace(7) obtain p where p: "live sid now ps p" "ent_End st = p_period_end p"
      "ent_Grace st = p_grace_ends_at p"
      by (auto simp: set_valid_periods periodRow_of_def)
    with that grace(6) have "live sid u ps p \<and> p_period_end p \<le> u" by (simp add: live_def)
    then show ?thesis by (auto simp: has_access_def entitled_status_def in_grace_def)
  qed
  with grace show ?thesis by (simp add: has_access_def)
next
  case pending
  have "\<not> has_access (entitled_status sid u ps)" if "now \<le> u" "u < ent_Start st" for u
  proof -
    have "u < p_period_start p \<and> u < p_period_end p" if "live sid u ps p" for p
    proof -
      from that \<open>now \<le> u\<close> have "live sid now ps p" by (simp add: live_def)
      with pending(6) have "ent_Start st \<le> p_period_start p"
        by (auto simp: set_valid_periods periodRow_of_def)
      with \<open>u < ent_Start st\<close> that wf show ?thesis by (auto simp: live_def wf_period_def)
    qed
    then have "\<not> covered sid u ps" and "\<not> in_grace sid u ps"
      unfolding covered_def in_grace_def by (meson leD)+
    then show ?thesis by (simp add: has_access_def entitled_status_def)
  qed
  with pending show ?thesis by (simp add: has_access_def)
qed

theorem transition_sound_witness:
  "\<exists>st t. calculateEntitlement ''s1'' 12 sample_periods = Some st \<and> ent_Next st = Some t \<and> t = 30 \<and>
     has_access (entitled_status ''s1'' 29 sample_periods)"
proof -
  obtain st where st: "calculateEntitlement ''s1'' 12 sample_periods = Some st"
    and "ent_Next st = Some 30" and "ent_Status st = StatusActive"
    by (rule that [of "the (calculateEntitlement ''s1'' 12 sample_periods)"]) code_simp+
  with transition_sound [OF sample_periods_wf st] show ?thesis by (auto simp: has_access_def)
qed

end
