(* ===== verification/Outbox.thy ===== *)
theory Outbox
  imports Prelude "HOL-Library.Option_ord"
begin

text \<open>
  The transactional outbox: the rows a service writes in the transaction of a state change
  and its worker later publishes to Kafka. Subscription, access, provisioning and billing
  keep one each (\<open>ClaimOutbox\<close>, \<open>CompleteOutbox\<close>, \<open>RetryOutbox\<close> of their
  \<open>internal/postgres/store.go\<close>); they differ in which row a worker may lease.

  The contract of the lease protocol is the locale \<open>leased_outbox\<close>. The per-aggregate order
  that subscription, access and provisioning promise their consumers is \<open>ordered_outbox\<close>:
  a row is leased only after every earlier row of its aggregate is published. From it
  \<open>in_order\<close> is proved once, an invariant of every operation; each service's outbox
  interprets it below. Billing keeps no aggregate order and interprets \<open>leased_outbox\<close> only.

  A row other workers hold locked (\<open>FOR UPDATE SKIP LOCKED\<close>) is not a candidate: the list
  \<open>locked\<close> of their event ids is an argument of each claim.
\<close>

section \<open>Rows\<close>

datatype outbox_state = ObPending | ObProcessing | ObPublished

record ('k, 'p) outbox_row =
  ob_event_id :: uuid
  ob_topic :: string
  ob_partition_key :: string
  ob_aggregate_id :: uuid
  ob_sequence :: "int option"
  ob_dedupe_key :: 'k
  ob_payload :: 'p
  ob_state :: outbox_state
  ob_attempts :: int
  ob_next_attempt_at :: instant
  ob_lease_until :: "instant option"
  ob_created_at :: instant
  ob_published_at :: "instant option"

record 'p OutboxMessage =
  msg_EventID :: uuid
  msg_Topic :: string
  msg_PartitionKey :: string
  msg_Payload :: 'p
  msg_Attempts :: int

text \<open>SQL's \<open><\<close> on a nullable column: not true when either side is NULL.\<close>

fun seq_less :: "int option \<Rightarrow> int option \<Rightarrow> bool" where
  "seq_less (Some a) (Some b) \<longleftrightarrow> a < b"
| "seq_less _ _ \<longleftrightarrow> False"

definition has_unpublished_predecessor :: "('k, 'p) outbox_row list \<Rightarrow> ('k, 'p) outbox_row \<Rightarrow> bool"
where
  "has_unpublished_predecessor rows o1 \<longleftrightarrow>
     list_ex (\<lambda>p. ob_aggregate_id p = ob_aggregate_id o1 \<and>
                  seq_less (ob_sequence p) (ob_sequence o1) \<and> ob_state p \<noteq> ObPublished) rows"

definition lease_free :: "instant \<Rightarrow> instant option \<Rightarrow> bool" where
  "lease_free now l = (case l of None \<Rightarrow> True | Some t \<Rightarrow> t \<le> now)"

definition take_lease :: "instant \<Rightarrow> nanos \<Rightarrow> ('k, 'p) outbox_row \<Rightarrow> ('k, 'p) outbox_row" where
  "take_lease now lease o1 = o1\<lparr>ob_state := ObProcessing, ob_lease_until := Some (now + lease),
                                ob_attempts := ob_attempts o1 + 1\<rparr>"

definition message_of :: "('k, 'p) outbox_row \<Rightarrow> 'p OutboxMessage" where
  "message_of o1 = \<lparr>msg_EventID = ob_event_id o1, msg_Topic = ob_topic o1,
     msg_PartitionKey = ob_partition_key o1, msg_Payload = ob_payload o1,
     msg_Attempts = ob_attempts o1\<rparr>"

text \<open>The UPDATE of a claimed row, common to the four statements.\<close>

definition lease_row :: "instant \<Rightarrow> nanos \<Rightarrow> ('k, 'p) outbox_row option \<Rightarrow>
    ('k, 'p) outbox_row list \<Rightarrow> 'p OutboxMessage option \<times> ('k, 'p) outbox_row list" where
  "lease_row now lease cand rows =
     (case cand of
        None \<Rightarrow> (None, rows)
      | Some o1 \<Rightarrow>
          (Some (message_of (take_lease now lease o1)),
           tbl_update (\<lambda>r. ob_event_id r = ob_event_id o1) (take_lease now lease) rows))"

definition publish_row :: "instant \<Rightarrow> uuid \<Rightarrow> ('k, 'p) outbox_row list \<Rightarrow> ('k, 'p) outbox_row list"
where
  "publish_row now eid rows =
     tbl_update (\<lambda>r. ob_event_id r = eid \<and> ob_state r = ObProcessing)
       (\<lambda>r. r\<lparr>ob_state := ObPublished, ob_lease_until := None, ob_published_at := Some now\<rparr>) rows"

definition release_row :: "instant \<Rightarrow> nanos \<Rightarrow> uuid \<Rightarrow> ('k, 'p) outbox_row list \<Rightarrow>
    ('k, 'p) outbox_row list" where
  "release_row now delay eid rows =
     tbl_update (\<lambda>r. ob_event_id r = eid \<and> ob_state r = ObProcessing)
       (\<lambda>r. r\<lparr>ob_state := ObPending, ob_lease_until := None, ob_next_attempt_at := now + delay\<rparr>) rows"

definition affected :: "uuid \<Rightarrow> ('k, 'p) outbox_row list \<Rightarrow> nat" where
  "affected eid rows = length (filter (\<lambda>r. ob_event_id r = eid \<and> ob_state r = ObProcessing) rows)"

section \<open>The four services' claims\<close>

definition sub_outbox_candidates :: "instant \<Rightarrow> uuid list \<Rightarrow> ('k, 'p) outbox_row list \<Rightarrow>
    ('k, 'p) outbox_row list" where
  "sub_outbox_candidates now locked rows =
     filter (\<lambda>o1. (ob_state o1 = ObPending \<or> ob_state o1 = ObProcessing)
                  \<and> ob_next_attempt_at o1 \<le> now \<and> lease_free now (ob_lease_until o1)
                  \<and> \<not> has_unpublished_predecessor rows o1
                  \<and> ob_event_id o1 \<notin> set locked) rows"

definition sub_ClaimOutbox :: "instant \<Rightarrow> nanos \<Rightarrow> uuid list \<Rightarrow> ('k, 'p) outbox_row list \<Rightarrow>
    'p OutboxMessage option \<times> ('k, 'p) outbox_row list" where
  "sub_ClaimOutbox now lease locked rows =
     lease_row now lease
       (first_by (\<lambda>o1. (ob_created_at o1, ob_aggregate_id o1, ob_sequence o1))
          (sub_outbox_candidates now locked rows)) rows"

definition sub_CompleteOutbox :: "instant \<Rightarrow> uuid \<Rightarrow> ('k, 'p) outbox_row list \<Rightarrow>
    ('k, 'p) outbox_row list" where
  "sub_CompleteOutbox now eid rows = publish_row now eid rows"

definition sub_RetryOutbox :: "instant \<Rightarrow> nanos \<Rightarrow> uuid \<Rightarrow> ('k, 'p) outbox_row list \<Rightarrow>
    ('k, 'p) outbox_row list" where
  "sub_RetryOutbox now delay eid rows = release_row now delay eid rows"

text \<open>
  Access orders and filters as subscription does; its \<open>CompleteOutbox\<close> and \<open>RetryOutbox\<close>
  report a durable-state conflict when no row is affected.
\<close>

datatype outbox_error = OutboxConflict

definition acc_outbox_candidates :: "instant \<Rightarrow> uuid list \<Rightarrow> ('k, 'p) outbox_row list \<Rightarrow>
    ('k, 'p) outbox_row list" where
  "acc_outbox_candidates now locked rows =
     filter (\<lambda>o1. (ob_state o1 = ObPending \<or> ob_state o1 = ObProcessing)
                  \<and> ob_next_attempt_at o1 \<le> now \<and> lease_free now (ob_lease_until o1)
                  \<and> \<not> has_unpublished_predecessor rows o1
                  \<and> ob_event_id o1 \<notin> set locked) rows"

definition acc_ClaimOutbox :: "instant \<Rightarrow> nanos \<Rightarrow> uuid list \<Rightarrow> ('k, 'p) outbox_row list \<Rightarrow>
    'p OutboxMessage option \<times> ('k, 'p) outbox_row list" where
  "acc_ClaimOutbox now lease locked rows =
     lease_row now lease
       (first_by (\<lambda>o1. (ob_created_at o1, ob_aggregate_id o1, ob_sequence o1))
          (acc_outbox_candidates now locked rows)) rows"

definition acc_CompleteOutbox :: "instant \<Rightarrow> uuid \<Rightarrow>
    (('k, 'p) outbox_row list, outbox_error, unit) tx" where
  "acc_CompleteOutbox now eid rows =
     (if affected eid rows \<noteq> 1 then Inl OutboxConflict else Inr (), publish_row now eid rows)"

definition acc_RetryOutbox :: "instant \<Rightarrow> nanos \<Rightarrow> uuid \<Rightarrow>
    (('k, 'p) outbox_row list, outbox_error, unit) tx" where
  "acc_RetryOutbox now delay eid rows =
     (if affected eid rows \<noteq> 1 then Inl OutboxConflict else Inr (), release_row now delay eid rows)"

text \<open>
  Provisioning's claim is a transaction of a SELECT and an UPDATE by event id. A row with no
  aggregate sequence is not ordered.
\<close>

definition prov_outbox_candidates :: "instant \<Rightarrow> uuid list \<Rightarrow> ('k, 'p) outbox_row list \<Rightarrow>
    ('k, 'p) outbox_row list" where
  "prov_outbox_candidates now locked rows =
     filter (\<lambda>o1. ((ob_state o1 = ObPending \<and> ob_next_attempt_at o1 \<le> now)
                   \<or> (ob_state o1 = ObProcessing \<and>
                      (case ob_lease_until o1 of None \<Rightarrow> False | Some t \<Rightarrow> t < now)))
                  \<and> (ob_sequence o1 = None \<or> \<not> has_unpublished_predecessor rows o1)
                  \<and> ob_event_id o1 \<notin> set locked) rows"

definition prov_ClaimOutbox :: "instant \<Rightarrow> nanos \<Rightarrow> uuid list \<Rightarrow> ('k, 'p) outbox_row list \<Rightarrow>
    'p OutboxMessage option \<times> ('k, 'p) outbox_row list" where
  "prov_ClaimOutbox now lease locked rows =
     lease_row now lease
       (first_by (\<lambda>o1. (ob_created_at o1, ob_aggregate_id o1, ob_sequence o1, ob_event_id o1))
          (prov_outbox_candidates now locked rows)) rows"

definition prov_CompleteOutbox :: "instant \<Rightarrow> uuid \<Rightarrow>
    (('k, 'p) outbox_row list, outbox_error, unit) tx" where
  "prov_CompleteOutbox now eid rows =
     (if affected eid rows \<noteq> 1 then Inl OutboxConflict else Inr (), publish_row now eid rows)"

definition prov_RetryOutbox :: "instant \<Rightarrow> nanos \<Rightarrow> uuid \<Rightarrow>
    (('k, 'p) outbox_row list, outbox_error, unit) tx" where
  "prov_RetryOutbox now delay eid rows =
     (if affected eid rows \<noteq> 1 then Inl OutboxConflict else Inr (), release_row now delay eid rows)"

text \<open>Billing publishes in creation order only.\<close>

definition bill_outbox_candidates :: "instant \<Rightarrow> uuid list \<Rightarrow> ('k, 'p) outbox_row list \<Rightarrow>
    ('k, 'p) outbox_row list" where
  "bill_outbox_candidates now locked rows =
     filter (\<lambda>o1. ((ob_state o1 = ObPending \<and> ob_next_attempt_at o1 \<le> now)
                   \<or> (ob_state o1 = ObProcessing \<and>
                      (case ob_lease_until o1 of None \<Rightarrow> False | Some t \<Rightarrow> t < now)))
                  \<and> ob_event_id o1 \<notin> set locked) rows"

definition bill_ClaimOutbox :: "instant \<Rightarrow> nanos \<Rightarrow> uuid list \<Rightarrow> ('k, 'p) outbox_row list \<Rightarrow>
    'p OutboxMessage option \<times> ('k, 'p) outbox_row list" where
  "bill_ClaimOutbox now lease locked rows =
     lease_row now lease (first_by ob_created_at (bill_outbox_candidates now locked rows)) rows"

definition bill_CompleteOutbox :: "instant \<Rightarrow> uuid \<Rightarrow> ('k, 'p) outbox_row list \<Rightarrow>
    ('k, 'p) outbox_row list" where
  "bill_CompleteOutbox now eid rows = publish_row now eid rows"

definition bill_RetryOutbox :: "instant \<Rightarrow> nanos \<Rightarrow> uuid \<Rightarrow> ('k, 'p) outbox_row list \<Rightarrow>
    ('k, 'p) outbox_row list" where
  "bill_RetryOutbox now delay eid rows = release_row now delay eid rows"

section \<open>What a row keeps, and the order of publication\<close>

text \<open>The columns no lease operation writes.\<close>

definition ob_identity :: "('k, 'p) outbox_row \<Rightarrow> uuid \<times> string \<times> string \<times> uuid \<times> int option \<times> 'k \<times> 'p"
where
  "ob_identity r = (ob_event_id r, ob_topic r, ob_partition_key r, ob_aggregate_id r,
     ob_sequence r, ob_dedupe_key r, ob_payload r)"

definition precedes :: "('k, 'p) outbox_row \<Rightarrow> ('k, 'p) outbox_row \<Rightarrow> bool" where
  "precedes p r \<longleftrightarrow> ob_aggregate_id p = ob_aggregate_id r \<and> seq_less (ob_sequence p) (ob_sequence r)"

text \<open>
  The invariant: a row that is leased or published has only published predecessors in its
  aggregate. The published rows of an aggregate are then always a prefix of its sequence.
\<close>

definition in_order :: "('k, 'p) outbox_row list \<Rightarrow> bool" where
  "in_order rows \<longleftrightarrow>
     (\<forall>r \<in> set rows. \<forall>p \<in> set rows. ob_state r \<noteq> ObPending \<longrightarrow> precedes p r \<longrightarrow>
        ob_state p = ObPublished)"

definition newest_of_aggregate :: "('k, 'p) outbox_row \<Rightarrow> ('k, 'p) outbox_row list \<Rightarrow> bool" where
  "newest_of_aggregate r rows \<longleftrightarrow> ob_state r = ObPending \<and> (\<forall>p \<in> set rows. \<not> precedes r p)
     \<and> \<not> precedes r r"

lemma in_orderI:
  "(\<And>r p. r \<in> set rows \<Longrightarrow> p \<in> set rows \<Longrightarrow> ob_state r \<noteq> ObPending \<Longrightarrow> precedes p r \<Longrightarrow>
     ob_state p = ObPublished) \<Longrightarrow> in_order rows"
  unfolding in_order_def by blast

lemma in_orderD:
  "in_order rows \<Longrightarrow> r \<in> set rows \<Longrightarrow> p \<in> set rows \<Longrightarrow> ob_state r \<noteq> ObPending \<Longrightarrow> precedes p r \<Longrightarrow>
     ob_state p = ObPublished"
  unfolding in_order_def by blast

lemma in_order_append:
  assumes ord: "in_order rows" and new: "newest_of_aggregate r rows"
  shows "in_order (rows @ [r])"
proof (rule in_orderI)
  fix a p assume a: "a \<in> set (rows @ [r])" and p: "p \<in> set (rows @ [r])"
    and st: "ob_state a \<noteq> ObPending" and prec: "precedes p a"
  from st new a have a': "a \<in> set rows" by (auto simp: newest_of_aggregate_def)
  with new prec p have "p \<in> set rows" by (auto simp: newest_of_aggregate_def)
  with ord a' st prec show "ob_state p = ObPublished" by (auto dest: in_orderD)
qed

lemma in_order_Nil [simp]: "in_order []"
  by (simp add: in_order_def)

text \<open>
  An operation on the rows, row by row: same identities, published rows stay published, and
  a row leaves the pending state only with all its predecessors published.
\<close>

definition advances :: "('k, 'p) outbox_row list \<Rightarrow> ('k, 'p) outbox_row list \<Rightarrow> bool" where
  "advances rows rows' \<longleftrightarrow>
     map ob_identity rows' = map ob_identity rows \<and>
     (\<forall>i < length rows. ob_state (rows ! i) = ObPublished \<longrightarrow> ob_state (rows' ! i) = ObPublished)"

lemma precedes_identity:
  "ob_identity p = ob_identity p' \<Longrightarrow> ob_identity r = ob_identity r' \<Longrightarrow> precedes p r = precedes p' r'"
  by (simp add: ob_identity_def precedes_def)

lemma in_order_advance:
  assumes ord: "in_order rows" and adv: "advances rows rows'"
    and fresh: "\<And>i. i < length rows \<Longrightarrow> ob_state (rows' ! i) \<noteq> ObPending \<Longrightarrow>
      ob_state (rows ! i) = ObPending \<Longrightarrow> \<not> has_unpublished_predecessor rows (rows ! i)"
  shows "in_order rows'"
proof -
  from adv have ids: "map ob_identity rows' = map ob_identity rows"
    and pub: "\<And>i. i < length rows \<Longrightarrow> ob_state (rows ! i) = ObPublished \<Longrightarrow>
      ob_state (rows' ! i) = ObPublished"
    by (auto simp: advances_def)
  from ids have len: "length rows' = length rows" by (metis length_map)
  with ids have id_at: "ob_identity (rows' ! i) = ob_identity (rows ! i)" if "i < length rows" for i
    using that by (metis nth_map)
  have "ob_state (rows' ! j) = ObPublished"
    if i: "i < length rows" and j: "j < length rows" and st: "ob_state (rows' ! i) \<noteq> ObPending"
      and pr: "precedes (rows' ! j) (rows' ! i)" for i j
  proof -
    from pr i j have prec: "precedes (rows ! j) (rows ! i)"
      using precedes_identity id_at by metis
    have "ob_state (rows ! j) = ObPublished"
    proof (cases "ob_state (rows ! i) = ObPending")
      case True
      with fresh i st have "\<not> has_unpublished_predecessor rows (rows ! i)" by blast
      with prec j show ?thesis
        by (auto simp: has_unpublished_predecessor_def precedes_def list_ex_iff)
    next
      case False
      show ?thesis by (rule in_orderD [OF ord nth_mem [OF i] nth_mem [OF j] False prec])
    qed
    with pub j show ?thesis by blast
  qed
  note published = this
  show ?thesis
  proof (rule in_orderI)
    fix r p assume "r \<in> set rows'" "p \<in> set rows'" and st: "ob_state r \<noteq> ObPending" "precedes p r"
    then obtain i j where "i < length rows" "rows' ! i = r" "j < length rows" "rows' ! j = p"
      unfolding in_set_conv_nth len by blast
    with published st show "ob_state p = ObPublished" by blast
  qed
qed

lemma advances_tbl_update:
  assumes "\<And>r. r \<in> set rows \<Longrightarrow> p r \<Longrightarrow> ob_identity (f r) = ob_identity r"
    and "\<And>r. r \<in> set rows \<Longrightarrow> p r \<Longrightarrow> ob_state r = ObPublished \<Longrightarrow> ob_state (f r) = ObPublished"
  shows "advances rows (tbl_update p f rows)"
  using assms by (auto simp: advances_def map_tbl_update) (simp add: tbl_update_def)

lemma advances_refl [simp]: "advances rows rows"
  by (simp add: advances_def)

section \<open>The lease protocol as an interface\<close>

locale leased_outbox =
  fixes claim :: "instant \<Rightarrow> nanos \<Rightarrow> uuid list \<Rightarrow> ('k, 'p) outbox_row list \<Rightarrow>
      'p OutboxMessage option \<times> ('k, 'p) outbox_row list"
    and complete :: "instant \<Rightarrow> uuid \<Rightarrow> ('k, 'p) outbox_row list \<Rightarrow> ('k, 'p) outbox_row list"
    and retry :: "instant \<Rightarrow> nanos \<Rightarrow> uuid \<Rightarrow> ('k, 'p) outbox_row list \<Rightarrow> ('k, 'p) outbox_row list"
  assumes claim_none: "claim now lease locked rows = (None, rows') \<Longrightarrow> rows' = rows"
    and claim_some: "claim now lease locked rows = (Some m, rows') \<Longrightarrow>
      \<exists>o1 \<in> set rows. ob_state o1 \<noteq> ObPublished \<and> m = message_of (take_lease now lease o1) \<and>
        rows' = tbl_update (\<lambda>r. ob_event_id r = ob_event_id o1) (take_lease now lease) rows"
    and complete_publishes: "complete now eid rows = publish_row now eid rows"
    and retry_releases: "retry now delay eid rows = release_row now delay eid rows"
begin

lemma claim_advances:
  assumes "distinct (map ob_event_id rows)" and "claim now lease locked rows = (c, rows')"
  shows "advances rows rows'"
proof (cases c)
  case None
  with assms claim_none show ?thesis by fastforce
next
  case (Some m)
  with assms(2) claim_some [of now lease locked rows m rows'] obtain o1
    where o1: "o1 \<in> set rows" "ob_state o1 \<noteq> ObPublished"
    and rows': "rows' = tbl_update (\<lambda>r. ob_event_id r = ob_event_id o1) (take_lease now lease) rows"
    by blast
  have "r = o1" if "r \<in> set rows" "ob_event_id r = ob_event_id o1" for r
    using that o1(1) assms(1) by (rule_tac distinct_key_eq [of ob_event_id rows]) auto
  with o1(2) show ?thesis unfolding rows'
    by (intro advances_tbl_update) (auto simp: take_lease_def ob_identity_def)
qed

lemma complete_advances: "advances rows (complete now eid rows)"
  unfolding complete_publishes publish_row_def
  by (rule advances_tbl_update) (auto simp: ob_identity_def)

lemma retry_advances: "advances rows (retry now delay eid rows)"
  unfolding retry_releases release_row_def
  by (rule advances_tbl_update) (auto simp: ob_identity_def)

lemma leased_until_reclaimed:
  assumes "distinct (map ob_event_id rows)"
    and "claim now lease locked rows = (Some m, rows')"
  shows "\<exists>r \<in> set rows'. ob_event_id r = msg_EventID m \<and> ob_state r = ObProcessing \<and>
    ob_lease_until r = Some (now + lease) \<and> ob_attempts r = msg_Attempts m"
proof -
  from claim_some [OF assms(2)] obtain o1 where "o1 \<in> set rows"
    and m: "m = message_of (take_lease now lease o1)"
    and "rows' = tbl_update (\<lambda>r. ob_event_id r = ob_event_id o1) (take_lease now lease) rows"
    by blast
  then have "take_lease now lease o1 \<in> set rows'" by (auto simp: tbl_update_def)
  with m show ?thesis by (intro bexI [of _ "take_lease now lease o1"])
      (auto simp: message_of_def take_lease_def)
qed

end

locale ordered_outbox = leased_outbox +
  assumes claim_in_turn: "claim now lease locked rows = (Some m, rows') \<Longrightarrow>
    distinct (map ob_event_id rows) \<Longrightarrow> o1 \<in> set rows \<Longrightarrow> ob_event_id o1 = msg_EventID m \<Longrightarrow>
    \<not> has_unpublished_predecessor rows o1"
begin

lemma claim_in_order:
  assumes ord: "in_order rows" and dist: "distinct (map ob_event_id rows)"
    and cl: "claim now lease locked rows = (c, rows')"
  shows "in_order rows'"
proof (rule in_order_advance [OF ord claim_advances [OF dist cl]])
  fix i assume i: "i < length rows" and st: "ob_state (rows' ! i) \<noteq> ObPending"
    and old: "ob_state (rows ! i) = ObPending"
  show "\<not> has_unpublished_predecessor rows (rows ! i)"
  proof (cases c)
    case None
    with cl claim_none st old show ?thesis by fastforce
  next
    case (Some m)
    with cl have cl': "claim now lease locked rows = (Some m, rows')" by simp
    from claim_some [OF cl'] obtain o1 where "o1 \<in> set rows" and m: "m = message_of (take_lease now lease o1)"
      and rows': "rows' = tbl_update (\<lambda>r. ob_event_id r = ob_event_id o1) (take_lease now lease) rows"
      by blast
    from st old i have "ob_event_id (rows ! i) = ob_event_id o1"
      unfolding rows' by (auto simp: tbl_update_def split: if_splits)
    with m have "ob_event_id (rows ! i) = msg_EventID m"
      by (simp add: message_of_def take_lease_def)
    with dist i show ?thesis by (intro claim_in_turn [OF cl']) auto
  qed
qed

lemma complete_in_order:
  assumes ord: "in_order rows"
  shows "in_order (complete now eid rows)"
proof (rule in_order_advance [OF ord complete_advances])
  fix i assume "i < length rows" "ob_state (complete now eid rows ! i) \<noteq> ObPending"
    "ob_state (rows ! i) = ObPending"
  then show "\<not> has_unpublished_predecessor rows (rows ! i)"
    unfolding complete_publishes publish_row_def by (auto simp: tbl_update_def)
qed

lemma retry_in_order:
  assumes ord: "in_order rows"
  shows "in_order (retry now delay eid rows)"
proof (rule in_order_advance [OF ord retry_advances])
  fix i assume "i < length rows" "ob_state (retry now delay eid rows ! i) \<noteq> ObPending"
    "ob_state (rows ! i) = ObPending"
  then show "\<not> has_unpublished_predecessor rows (rows ! i)"
    unfolding retry_releases release_row_def by (auto simp: tbl_update_def split: if_splits)
qed

end

text \<open>The laws hold of any claim that leases a row from a list of unpublished candidates.\<close>

lemma lease_row_none: "lease_row now lease cand rows = (None, rows') \<Longrightarrow> rows' = rows"
  by (auto simp: lease_row_def split: option.splits)

lemma lease_row_some:
  assumes "lease_row now lease (first_by k (filter p rows)) rows = (Some m, rows')"
    and "\<And>r. p r \<Longrightarrow> ob_state r \<noteq> ObPublished"
  shows "\<exists>o1 \<in> set rows. ob_state o1 \<noteq> ObPublished \<and> m = message_of (take_lease now lease o1) \<and>
    rows' = tbl_update (\<lambda>r. ob_event_id r = ob_event_id o1) (take_lease now lease) rows"
proof -
  from assms(1) obtain o1 where fb: "first_by k (filter p rows) = Some o1"
    and "m = message_of (take_lease now lease o1)"
    and "rows' = tbl_update (\<lambda>r. ob_event_id r = ob_event_id o1) (take_lease now lease) rows"
    by (auto simp: lease_row_def split: option.splits)
  moreover from first_by_Some [OF fb] assms(2) have "o1 \<in> set rows" "ob_state o1 \<noteq> ObPublished"
    by auto
  ultimately show ?thesis by blast
qed

lemma lease_row_turn:
  assumes "lease_row now lease (first_by k (filter p rows)) rows = (Some m, rows')"
    and "distinct (map ob_event_id rows)" and "o1 \<in> set rows" and "ob_event_id o1 = msg_EventID m"
  shows "p o1"
proof -
  from assms(1) obtain o2 where "first_by k (filter p rows) = Some o2"
    and m: "m = message_of (take_lease now lease o2)"
    by (auto simp: lease_row_def split: option.splits)
  then have o2: "o2 \<in> set rows" "p o2" by (auto dest!: first_by_Some)
  with m assms(2-4) have "o1 = o2"
    by (intro distinct_key_eq [of ob_event_id rows]) (auto simp: message_of_def take_lease_def)
  with o2 show ?thesis by simp
qed

interpretation sub_outbox: ordered_outbox sub_ClaimOutbox sub_CompleteOutbox sub_RetryOutbox
proof (unfold_locales, goal_cases)
  case 1 then show ?case unfolding sub_ClaimOutbox_def by (rule lease_row_none)
next
  case 2 then show ?case unfolding sub_ClaimOutbox_def sub_outbox_candidates_def
    by (rule lease_row_some) auto
next
  case 5 then show ?case unfolding sub_ClaimOutbox_def sub_outbox_candidates_def
    by (auto dest!: lease_row_turn)
qed (simp_all add: sub_CompleteOutbox_def sub_RetryOutbox_def)

interpretation acc_outbox: ordered_outbox acc_ClaimOutbox
  "\<lambda>now eid rows. snd (acc_CompleteOutbox now eid rows)"
  "\<lambda>now delay eid rows. snd (acc_RetryOutbox now delay eid rows)"
proof (unfold_locales, goal_cases)
  case 1 then show ?case unfolding acc_ClaimOutbox_def by (rule lease_row_none)
next
  case 2 then show ?case unfolding acc_ClaimOutbox_def acc_outbox_candidates_def
    by (rule lease_row_some) auto
next
  case 5 then show ?case unfolding acc_ClaimOutbox_def acc_outbox_candidates_def
    by (auto dest!: lease_row_turn)
qed (simp_all add: acc_CompleteOutbox_def acc_RetryOutbox_def)

interpretation prov_outbox: ordered_outbox prov_ClaimOutbox
  "\<lambda>now eid rows. snd (prov_CompleteOutbox now eid rows)"
  "\<lambda>now delay eid rows. snd (prov_RetryOutbox now delay eid rows)"
proof (unfold_locales, goal_cases)
  case 1 then show ?case unfolding prov_ClaimOutbox_def by (rule lease_row_none)
next
  case 2 then show ?case unfolding prov_ClaimOutbox_def prov_outbox_candidates_def
    by (rule lease_row_some) auto
next
  case 5 then show ?case unfolding prov_ClaimOutbox_def prov_outbox_candidates_def
    by (auto dest!: lease_row_turn simp: has_unpublished_predecessor_def list_ex_iff)
qed (simp_all add: prov_CompleteOutbox_def prov_RetryOutbox_def)

interpretation bill_outbox: leased_outbox bill_ClaimOutbox bill_CompleteOutbox bill_RetryOutbox
proof (unfold_locales, goal_cases)
  case 1 then show ?case unfolding bill_ClaimOutbox_def by (rule lease_row_none)
next
  case 2 then show ?case unfolding bill_ClaimOutbox_def bill_outbox_candidates_def
    by (rule lease_row_some) auto
qed (simp_all add: bill_CompleteOutbox_def bill_RetryOutbox_def)

end
