(* ===== verification/Subscription_Store.thy ===== *)
theory Subscription_Store
  imports Subscription_Entitlement Outbox
begin

text \<open>
  The subscription service's database and the store functions of
  \<open>services/subscription/internal/postgres/store.go\<close>, one definition each.

  The record \<open>sub_store\<close> has a field per table. Each store function is a transaction body
  (\<open>applyPayment\<close>, \<open>storeRefund\<close>, \<open>completeDue\<close>, \<dots>); random UUIDs and the database
  clock are arguments (\<open>newID\<close>, \<open>eventID\<close>, \<open>now\<close>). The tables' constraints of
  \<open>services/subscription/migrations\<close> are checked where the code inserts or updates: a
  violated primary key, unique index or CHECK is a driver error (\<open>InfraError\<close>). The
  deduplication key of an outbox row, a string built from a literal prefix and identifiers
  in the code, is the datatype \<open>dedupe_key\<close> with one constructor per prefix;
  \<open>render_dedupe\<close> is the string and \<open>render_dedupe_inject\<close> shows nothing is lost.
  Advisory and row locks order transactions and are implicit: the steps are sequential.
\<close>

section \<open>Tables\<close>

record sub_row =
  sr_id :: uuid
  sr_user_id :: uuid
  sr_status :: sub_status
  sr_current_period_start :: "instant option"
  sr_current_period_end :: "instant option"
  sr_grace_ends_at :: "instant option"
  sr_next_transition_at :: "instant option"
  sr_transition_lease_until :: "instant option"
  sr_aggregate_sequence :: int
  sr_updated_at :: instant

datatype inbox_state = IbPending | IbProcessing | IbProcessed | IbDead

record inbox_source =
  src_topic :: string
  src_partition :: int
  src_offset :: int
  src_sha256 :: string

record inbox_row =
  ib_event_id :: uuid
  ib_event_type :: string
  ib_aggregate_id :: uuid
  ib_source_payment_id :: uuid
  ib_user_id :: uuid
  ib_correlation_id :: uuid
  ib_payload :: "RefundSucceeded option"
  ib_state :: inbox_state
  ib_attempts :: int
  ib_next_attempt_at :: instant
  ib_lease_until :: "instant option"
  ib_last_error_code :: "string option"
  ib_received_at :: instant
  ib_processed_at :: "instant option"
  ib_source :: "inbox_source option"

record dead_letter =
  dl_topic :: string
  dl_partition :: int
  dl_offset :: int
  dl_sha256 :: string
  dl_reason :: string

record admin_revoke_row =
  rv_idempotency_key :: string
  rv_request_sha256 :: string
  rv_action_id :: uuid
  rv_correlation_id :: uuid
  rv_subscription_id :: uuid
  rv_reason_code :: string
  rv_result_status :: sub_status
  rv_completed_at :: instant

record periodEventData =
  ped_SubscriptionID :: uuid
  ped_UserID :: uuid
  ped_PeriodID :: uuid
  ped_SourceOrderID :: uuid
  ped_SourcePaymentID :: uuid
  ped_PeriodStart :: instant
  ped_PeriodEnd :: instant
  ped_GraceEndsAt :: instant

record terminalEventData =
  ted_SubscriptionID :: uuid
  ted_UserID :: uuid
  ted_Reason :: string
  ted_AffectedPeriodIDs :: "uuid list"
  ted_EffectiveAt :: instant

record graceStartedEventData =
  ged_SubscriptionID :: uuid
  ged_UserID :: uuid
  ged_PeriodEnd :: instant
  ged_GraceEndsAt :: instant
  ged_EffectiveAt :: instant

datatype event_data =
    PeriodEvent periodEventData | TerminalEvent terminalEventData | GraceStarted graceStartedEventData

record sub_envelope =
  env_EventID :: uuid
  env_EventType :: string
  env_SchemaVersion :: int
  env_OccurredAt :: instant
  env_Producer :: string
  env_CorrelationID :: string
  env_CausationID :: "uuid option"
  env_AggregateType :: string
  env_AggregateID :: uuid
  env_AggregateSequence :: int
  env_PartitionKey :: string
  env_Data :: event_data

datatype dedupe_key =
    DkPayment uuid string | DkAdminRevoke uuid | DkRefund uuid | DkRefundGap uuid
  | DkExpired uuid instant | DkGapExpired uuid | DkTransitionActivated uuid | DkGrace uuid instant

type_synonym sub_outbox_row = "(dedupe_key, sub_envelope) outbox_row"

record sub_store =
  st_subscriptions :: "sub_row list"
  st_periods :: "period list"
  st_inbox :: "inbox_row list"
  st_dead_letters :: "dead_letter list"
  st_outbox :: "sub_outbox_row list"
  st_admin_revokes :: "admin_revoke_row list"

type_synonym 'a sub_tx = "(sub_store, sub_error, 'a) tx"

definition empty_sub_store :: sub_store where
  "empty_sub_store = \<lparr>st_subscriptions = [], st_periods = [], st_inbox = [], st_dead_letters = [],
     st_outbox = [], st_admin_revokes = []\<rparr>"

section \<open>Constraints\<close>

definition period_check :: "period \<Rightarrow> bool" where
  "period_check p \<longleftrightarrow>
     1 \<le> pg_length (p_plan_id p) \<and> pg_length (p_plan_id p) \<le> 128
     \<and> 2 \<le> pg_length (p_region p) \<and> pg_length (p_region p) \<le> 64
     \<and> p_amount_minor p > 0 \<and> validCurrency (p_currency p)
     \<and> 1 \<le> p_duration_days p \<and> p_duration_days p \<le> 3650
     \<and> 0 \<le> p_grace_period_hours p \<and> p_grace_period_hours p \<le> 720
     \<and> 1 \<le> p_primary_nodes p \<and> p_primary_nodes p \<le> 8
     \<and> 0 \<le> p_failover_nodes p \<and> p_failover_nodes p \<le> 8
     \<and> 1 \<le> p_primary_nodes p + p_failover_nodes p \<and> p_primary_nodes p + p_failover_nodes p \<le> 8
     \<and> p_period_end p > p_period_start p \<and> p_grace_ends_at p \<ge> p_period_end p"

definition window_check :: "instant \<Rightarrow> instant \<Rightarrow> instant \<Rightarrow> bool" where
  "window_check start ende grace \<longleftrightarrow> ende > start \<and> grace \<ge> ende"

definition source_of :: "EventMeta \<Rightarrow> inbox_source" where
  "source_of meta = \<lparr>src_topic = meta_SourceTopic meta, src_partition = meta_SourcePartition meta,
     src_offset = meta_SourceOffset meta, src_sha256 = meta_PayloadSHA256 meta\<rparr>"

definition source_check :: "string \<Rightarrow> inbox_source \<Rightarrow> bool" where
  "source_check eventType src \<longleftrightarrow>
     (eventType = ''billing.payment.succeeded.v1'' \<or> eventType = ''billing.refund.succeeded.v1'')
     \<and> src_topic src = eventType \<and> src_partition src \<ge> 0 \<and> src_offset src \<ge> 0
     \<and> length (src_sha256 src) = 64 \<and> list_all is_lower_hex (src_sha256 src)"

definition same_record :: "inbox_source \<Rightarrow> inbox_source \<Rightarrow> bool" where
  "same_record a b \<longleftrightarrow> src_topic a = src_topic b \<and> src_partition a = src_partition b
     \<and> src_offset a = src_offset b"

definition record_taken :: "uuid \<Rightarrow> inbox_source \<Rightarrow> inbox_row list \<Rightarrow> bool" where
  "record_taken eventID src rows =
     list_ex (\<lambda>r. ib_event_id r \<noteq> eventID \<and>
                  (case ib_source r of None \<Rightarrow> False | Some s \<Rightarrow> same_record s src)) rows"

section \<open>Helpers of the transactions\<close>

definition find_subscription :: "uuid \<Rightarrow> sub_store \<Rightarrow> sub_row option" where
  "find_subscription sid st = find (\<lambda>s. sr_id s = sid) (st_subscriptions st)"

definition find_user :: "uuid \<Rightarrow> sub_store \<Rightarrow> sub_row option" where
  "find_user uid st = find (\<lambda>s. sr_user_id s = uid) (st_subscriptions st)"

text \<open>\<open>subscription_periods p JOIN subscriptions s ON s.id = p.subscription_id\<close>, by payment.\<close>

definition find_payment :: "uuid \<Rightarrow> sub_store \<Rightarrow> (period \<times> sub_row) option" where
  "find_payment pid st =
     (case find (\<lambda>p. p_source_payment_id p = pid) (st_periods st) of
        None \<Rightarrow> None
      | Some p \<Rightarrow> map_option (Pair p) (find_subscription (p_subscription_id p) st))"

definition update_sub :: "uuid \<Rightarrow> (sub_row \<Rightarrow> sub_row) \<Rightarrow> sub_store \<Rightarrow> sub_store" where
  "update_sub sid f st =
     st\<lparr>st_subscriptions := tbl_update (\<lambda>s. sr_id s = sid) f (st_subscriptions st)\<rparr>"

definition update_inbox :: "uuid \<Rightarrow> (inbox_row \<Rightarrow> inbox_row) \<Rightarrow> sub_store \<Rightarrow> sub_store" where
  "update_inbox eid f st = st\<lparr>st_inbox := tbl_update (\<lambda>r. ib_event_id r = eid) f (st_inbox st)\<rparr>"

definition subscription_of_row :: "sub_row \<Rightarrow> Subscription" where
  "subscription_of_row s = \<lparr>sub_SubscriptionID = sr_id s, sub_UserID = sr_user_id s,
     sub_Status = sr_status s, sub_CurrentPeriodStart = sr_current_period_start s,
     sub_CurrentPeriodEnd = sr_current_period_end s, sub_GraceEndsAt = sr_grace_ends_at s\<rparr>"

definition getOrCreateSubscription :: "uuid \<Rightarrow> uuid \<Rightarrow> instant \<Rightarrow> (Subscription \<times> bool) sub_tx" where
  "getOrCreateSubscription newID userID now =
     tx_bind (tx_get (find_user userID)) (\<lambda>existing.
       case existing of
         Some s \<Rightarrow> tx_return (subscription_of_row s, False)
       | None \<Rightarrow>
           tx_bind (tx_get (find_subscription newID)) (\<lambda>clash.
             if clash \<noteq> None then tx_fail InfraError
             else
               let s = \<lparr>sr_id = newID, sr_user_id = userID, sr_status = StatusPending,
                        sr_current_period_start = None, sr_current_period_end = None,
                        sr_grace_ends_at = None, sr_next_transition_at = None,
                        sr_transition_lease_until = None, sr_aggregate_sequence = 0,
                        sr_updated_at = now\<rparr>
               in tx_bind (tx_modify (\<lambda>st. st\<lparr>st_subscriptions := st_subscriptions st @ [s]\<rparr>))
                    (\<lambda>_. tx_return (subscription_of_row s, True))))"

definition new_inbox_row :: "EventMeta \<Rightarrow> uuid \<Rightarrow> uuid \<Rightarrow> RefundSucceeded option \<Rightarrow> inbox_state \<Rightarrow>
    instant \<Rightarrow> inbox_row" where
  "new_inbox_row meta paymentID userID payload state now =
     \<lparr>ib_event_id = meta_EventID meta, ib_event_type = meta_EventType meta,
      ib_aggregate_id = meta_AggregateID meta, ib_source_payment_id = paymentID,
      ib_user_id = userID, ib_correlation_id = meta_CorrelationID meta, ib_payload = payload,
      ib_state = state, ib_attempts = 0, ib_next_attempt_at = now, ib_lease_until = None,
      ib_last_error_code = None, ib_received_at = now, ib_processed_at = None,
      ib_source = Some (source_of meta)\<rparr>"

definition inbox_matches :: "EventMeta \<Rightarrow> uuid \<Rightarrow> uuid \<Rightarrow> inbox_row \<Rightarrow> bool" where
  "inbox_matches meta paymentID userID r \<longleftrightarrow>
     ib_event_type r = meta_EventType meta \<and> ib_aggregate_id r = meta_AggregateID meta
     \<and> ib_source_payment_id r = paymentID \<and> ib_user_id r = userID
     \<and> ib_correlation_id r = meta_CorrelationID meta"

definition insertInbox :: "EventMeta \<Rightarrow> uuid \<Rightarrow> uuid \<Rightarrow> RefundSucceeded option \<Rightarrow> inbox_state \<Rightarrow>
    instant \<Rightarrow> bool sub_tx" where
  "insertInbox meta paymentID userID payload state now =
     tx_bind (tx_get st_inbox) (\<lambda>rows.
       let bad = \<not> source_check (meta_EventType meta) (source_of meta)
                 \<or> record_taken (meta_EventID meta) (source_of meta) rows in
       case find (\<lambda>r. ib_event_id r = meta_EventID meta) rows of
         None \<Rightarrow>
           if bad then tx_fail InfraError
           else tx_bind (tx_modify (\<lambda>st. st\<lparr>st_inbox := st_inbox st @
                           [new_inbox_row meta paymentID userID payload state now]\<rparr>))
                  (\<lambda>_. tx_return True)
       | Some r \<Rightarrow>
           (case ib_source r of
              None \<Rightarrow>
                if inbox_matches meta paymentID userID r then
                  if bad then tx_fail InfraError
                  else tx_bind (tx_modify (update_inbox (meta_EventID meta)
                                  (\<lambda>r. r\<lparr>ib_source := Some (source_of meta)\<rparr>)))
                         (\<lambda>_. tx_return True)
                else tx_fail InfraError
            | Some src \<Rightarrow>
                if \<not> inbox_matches meta paymentID userID r \<or> src_sha256 src \<noteq> meta_PayloadSHA256 meta
                then tx_fail ErrConflict
                else tx_return False))"

definition markInboxProcessed :: "uuid \<Rightarrow> instant \<Rightarrow> unit sub_tx" where
  "markInboxProcessed eventID now =
     tx_modify (update_inbox eventID (\<lambda>r. r\<lparr>ib_state := IbProcessed, ib_payload := None,
       ib_lease_until := None, ib_processed_at := Some now, ib_last_error_code := None\<rparr>))"

definition dead_letter_taken :: "string \<Rightarrow> int \<Rightarrow> int \<Rightarrow> sub_store \<Rightarrow> bool" where
  "dead_letter_taken topic part off st =
     list_ex (\<lambda>d. dl_topic d = topic \<and> dl_partition d = part \<and> dl_offset d = off) (st_dead_letters st)"

definition deadLetterInbox :: "uuid \<Rightarrow> instant \<Rightarrow> string \<Rightarrow> unit sub_tx" where
  "deadLetterInbox eventID now reason =
     tx_bind (tx_get (\<lambda>st. find (\<lambda>r. ib_event_id r = eventID) (st_inbox st))) (\<lambda>row.
     tx_bind (tx_modify (update_inbox eventID (\<lambda>r. r\<lparr>ib_state := IbDead, ib_payload := None,
       ib_lease_until := None, ib_processed_at := Some now, ib_last_error_code := Some reason\<rparr>))) (\<lambda>_.
       case row of
         None \<Rightarrow> tx_fail InfraError
       | Some r \<Rightarrow>
           (case ib_source r of
              None \<Rightarrow> tx_fail InfraError
            | Some src \<Rightarrow>
                tx_bind (tx_get (dead_letter_taken (src_topic src) (src_partition src) (src_offset src)))
                  (\<lambda>taken. if taken then tx_fail InfraError
                    else tx_modify (\<lambda>st. st\<lparr>st_dead_letters := st_dead_letters st @
                      [\<lparr>dl_topic = src_topic src, dl_partition = src_partition src,
                        dl_offset = src_offset src, dl_sha256 = src_sha256 src, dl_reason = reason\<rparr>]\<rparr>)))))"

definition updateSubscription :: "uuid \<Rightarrow> sub_status \<Rightarrow> instant \<Rightarrow> instant \<Rightarrow> instant \<Rightarrow>
    instant option \<Rightarrow> instant \<Rightarrow> unit sub_tx" where
  "updateSubscription sid status start ende grace nxt now =
     (if \<not> window_check start ende grace then tx_fail InfraError
      else tx_modify (update_sub sid (\<lambda>s. s\<lparr>sr_status := status, sr_current_period_start := Some start,
        sr_current_period_end := Some ende, sr_grace_ends_at := Some grace,
        sr_next_transition_at := nxt, sr_transition_lease_until := None, sr_updated_at := now\<rparr>)))"

definition buildEventPayload :: "string \<Rightarrow> uuid \<Rightarrow> uuid \<Rightarrow> uuid \<Rightarrow> string \<Rightarrow> uuid option \<Rightarrow> int \<Rightarrow>
    instant \<Rightarrow> event_data \<Rightarrow> sub_envelope" where
  "buildEventPayload topic eventID sid userID correlationID causationID aggregateSequence occurredAt data =
     \<lparr>env_EventID = eventID, env_EventType = topic, env_SchemaVersion = 1, env_OccurredAt = occurredAt,
      env_Producer = ''subscription-service'',
      env_CorrelationID = (if correlationID = [] then eventID else correlationID),
      env_CausationID = causationID, env_AggregateType = ''subscription'', env_AggregateID = sid,
      env_AggregateSequence = aggregateSequence, env_PartitionKey = ''user:'' @ userID, env_Data = data\<rparr>"

definition new_outbox_row :: "uuid \<Rightarrow> string \<Rightarrow> uuid \<Rightarrow> uuid \<Rightarrow> dedupe_key \<Rightarrow> int \<Rightarrow> instant \<Rightarrow>
    sub_envelope \<Rightarrow> sub_outbox_row" where
  "new_outbox_row eventID topic sid userID dedupeKey seq now payload =
     \<lparr>ob_event_id = eventID, ob_topic = topic, ob_partition_key = ''user:'' @ userID,
      ob_aggregate_id = sid, ob_sequence = Some seq, ob_dedupe_key = dedupeKey,
      ob_payload = payload, ob_state = ObPending, ob_attempts = 0, ob_next_attempt_at = now,
      ob_lease_until = None, ob_created_at = now, ob_published_at = None\<rparr>"

definition outbox_clash :: "uuid \<Rightarrow> uuid \<Rightarrow> int \<Rightarrow> sub_outbox_row list \<Rightarrow> bool" where
  "outbox_clash eventID sid seq rows =
     list_ex (\<lambda>o1. ob_event_id o1 = eventID \<or> ob_aggregate_id o1 = sid \<and> ob_sequence o1 = Some seq) rows"

definition insertOutbox :: "uuid \<Rightarrow> string \<Rightarrow> uuid \<Rightarrow> uuid \<Rightarrow> dedupe_key \<Rightarrow> string \<Rightarrow> uuid option \<Rightarrow>
    instant \<Rightarrow> event_data \<Rightarrow> unit sub_tx" where
  "insertOutbox eventID topic sid userID dedupeKey correlationID causationID occurredAt data =
     tx_bind (tx_get (find_subscription sid)) (\<lambda>found.
       case found of
         None \<Rightarrow> tx_fail InfraError
       | Some s \<Rightarrow>
           let seq = sr_aggregate_sequence s + 1 in
           tx_bind (tx_modify (update_sub sid (\<lambda>s. s\<lparr>sr_aggregate_sequence := seq\<rparr>))) (\<lambda>_.
           tx_bind (tx_get st_outbox) (\<lambda>rows.
             if list_ex (\<lambda>o1. ob_dedupe_key o1 = dedupeKey) rows then tx_fail ErrConflict
             else if outbox_clash eventID sid seq rows then tx_fail InfraError
             else tx_modify (\<lambda>st. st\<lparr>st_outbox := st_outbox st @
               [new_outbox_row eventID topic sid userID dedupeKey seq occurredAt
                  (buildEventPayload topic eventID sid userID correlationID causationID seq
                     occurredAt data)]\<rparr>))))"

section \<open>Payments\<close>

definition recordPaymentReplay :: "instant \<Rightarrow> EventMeta \<Rightarrow> PaymentSucceeded \<Rightarrow> bool sub_tx" where
  "recordPaymentReplay now meta payment =
     tx_bind (tx_get (find_payment (pay_PaymentID payment))) (\<lambda>found.
       case found of
         None \<Rightarrow> tx_return False
       | Some (p, s) \<Rightarrow>
           if sr_user_id s \<noteq> pay_UserID payment \<or> p_source_order_id p \<noteq> pay_OrderID payment
             \<or> p_plan_id p \<noteq> pay_PlanID payment \<or> p_amount_minor p \<noteq> pay_AmountMinor payment
             \<or> p_currency p \<noteq> pay_Currency payment \<or> p_paid_at p \<noteq> pay_PaidAt payment
           then tx_fail ErrConflict
           else
             tx_bind (insertInbox meta (pay_PaymentID payment) (pay_UserID payment) None IbProcessed now)
               (\<lambda>inserted.
             tx_bind (if inserted
                      then tx_modify (update_inbox (meta_EventID meta)
                             (\<lambda>r. r\<lparr>ib_processed_at := Some now\<rparr>))
                      else tx_return ()) (\<lambda>_. tx_return True)))"

definition new_period :: "uuid \<Rightarrow> uuid \<Rightarrow> PaymentSucceeded \<Rightarrow> Order \<Rightarrow> instant \<Rightarrow> instant \<Rightarrow> instant \<Rightarrow> period"
where
  "new_period periodID sid payment order periodStart periodEnd graceEndsAt =
     (let snap = ord_PlanSnapshot order in
      \<lparr>p_id = periodID, p_subscription_id = sid, p_source_order_id = pay_OrderID payment,
       p_source_payment_id = pay_PaymentID payment, p_plan_id = pay_PlanID payment,
       p_region = snap_Region snap, p_primary_nodes = snap_PrimaryNodes snap,
       p_failover_nodes = snap_FailoverNodes snap, p_amount_minor = pay_AmountMinor payment,
       p_currency = pay_Currency payment, p_duration_days = snap_DurationDays snap,
       p_grace_period_hours = snap_GracePeriodHours snap, p_paid_at = pay_PaidAt payment,
       p_period_start = periodStart, p_period_end = periodEnd, p_grace_ends_at = graceEndsAt,
       p_status = Paid, p_refund_id = None, p_refunded_at = None\<rparr>)"

definition period_clash :: "period \<Rightarrow> period list \<Rightarrow> bool" where
  "period_clash p ps = list_ex (\<lambda>q. p_id q = p_id p \<or> p_source_order_id q = p_source_order_id p
     \<or> p_source_payment_id q = p_source_payment_id p) ps"

definition insert_period :: "period \<Rightarrow> unit sub_tx" where
  "insert_period p =
     tx_bind (tx_get st_periods) (\<lambda>ps.
     tx_bind (tx_get (find_subscription (p_subscription_id p))) (\<lambda>parent.
       if \<not> period_check p \<or> period_clash p ps \<or> parent = None then tx_fail InfraError
       else tx_modify (\<lambda>st. st\<lparr>st_periods := st_periods st @ [p]\<rparr>)))"

definition extends :: "bool \<Rightarrow> Subscription \<Rightarrow> instant \<Rightarrow> bool" where
  "extends created sub now \<longleftrightarrow>
     \<not> created \<and> (sub_Status sub = StatusActive \<or> sub_Status sub = StatusGrace)
     \<and> sub_CurrentPeriodEnd sub \<noteq> None
     \<and> (case sub_GraceEndsAt sub of None \<Rightarrow> False | Some g \<Rightarrow> now < g)"

record new_ids =
  ids_subscription :: uuid
  ids_period :: uuid
  ids_event :: uuid

text \<open>
  The part of \<open>applyPayment\<close> after the subscription row is locked: the new period, the
  subscription's window and status, the lifecycle event.
\<close>

definition grant_period :: "new_ids \<Rightarrow> instant \<Rightarrow> EventMeta \<Rightarrow> PaymentSucceeded \<Rightarrow> Order \<Rightarrow>
    Subscription \<times> bool \<Rightarrow> unit sub_tx" where
  "grant_period ids now meta payment order sc =
     (let (sub, created) = sc;
          sid = sub_SubscriptionID sub;
          ext = extends created sub now;
          eventType = (if ext then ''subscription.extended.v1'' else ''subscription.activated.v1'');
          periodStart = (if ext then the (sub_CurrentPeriodEnd sub) else pay_PaidAt payment);
          periodEnd = periodStart + int64 (snap_DurationDays (ord_PlanSnapshot order) * 24 * Hour);
          graceEndsAt = periodEnd + int64 (snap_GracePeriodHours (ord_PlanSnapshot order) * Hour);
          start = (if ext then (case sub_CurrentPeriodStart sub of None \<Rightarrow> periodStart | Some t \<Rightarrow> t)
                   else periodStart);
          (status, nxt) = statusAt now start periodEnd graceEndsAt;
          eventType' = (if status = StatusExpired then ''subscription.expired.v1'' else eventType);
          data = (if status = StatusExpired
                  then TerminalEvent \<lparr>ted_SubscriptionID = sid, ted_UserID = pay_UserID payment,
                         ted_Reason = ''expired'', ted_AffectedPeriodIDs = [ids_period ids],
                         ted_EffectiveAt = graceEndsAt\<rparr>
                  else PeriodEvent \<lparr>ped_SubscriptionID = sid, ped_UserID = pay_UserID payment,
                         ped_PeriodID = ids_period ids, ped_SourceOrderID = pay_OrderID payment,
                         ped_SourcePaymentID = pay_PaymentID payment, ped_PeriodStart = periodStart,
                         ped_PeriodEnd = periodEnd, ped_GraceEndsAt = graceEndsAt\<rparr>)
      in tx_bind (insert_period (new_period (ids_period ids) sid payment order periodStart periodEnd
                    graceEndsAt)) (\<lambda>_.
         tx_bind (updateSubscription sid status start periodEnd graceEndsAt nxt now) (\<lambda>_.
         tx_bind (insertOutbox (ids_event ids) eventType' sid (pay_UserID payment)
                    (DkPayment (pay_PaymentID payment) eventType') (meta_CorrelationID meta)
                    (Some (meta_EventID meta)) now data) (\<lambda>_.
         markInboxProcessed (meta_EventID meta) now))))"

definition applyPayment :: "new_ids \<Rightarrow> instant \<Rightarrow> EventMeta \<Rightarrow> PaymentSucceeded \<Rightarrow> Order \<Rightarrow> unit sub_tx"
where
  "applyPayment ids now meta payment order =
     tx_bind (insertInbox meta (pay_PaymentID payment) (pay_UserID payment) None IbProcessing now)
       (\<lambda>inserted.
     if \<not> inserted then tx_return ()
     else tx_bind (tx_get (find_payment (pay_PaymentID payment))) (\<lambda>existing.
       case existing of
         Some (p, s) \<Rightarrow>
           if sr_user_id s \<noteq> pay_UserID payment \<or> p_source_order_id p \<noteq> pay_OrderID payment
           then tx_fail ErrConflict
           else markInboxProcessed (meta_EventID meta) now
       | None \<Rightarrow>
           tx_bind (getOrCreateSubscription (ids_subscription ids) (pay_UserID payment) now)
             (grant_period ids now meta payment order)))"

section \<open>Refunds\<close>

definition refund_clash :: "uuid \<Rightarrow> uuid \<Rightarrow> period list \<Rightarrow> bool" where
  "refund_clash periodID refundID ps =
     list_ex (\<lambda>q. p_id q \<noteq> periodID \<and> p_refund_id q = Some refundID) ps"

definition mark_refunded :: "uuid \<Rightarrow> uuid \<Rightarrow> instant \<Rightarrow> unit sub_tx" where
  "mark_refunded periodID refundID at =
     tx_bind (tx_get st_periods) (\<lambda>ps.
       if refund_clash periodID refundID ps then tx_fail InfraError
       else tx_modify (\<lambda>st. st\<lparr>st_periods := tbl_update (\<lambda>p. p_id p = periodID)
         (\<lambda>p. p\<lparr>p_status := Refunded, p_refund_id := Some refundID, p_refunded_at := Some at\<rparr>)
         (st_periods st)\<rparr>))"

definition revoke_subscription :: "uuid \<Rightarrow> instant \<Rightarrow> unit sub_tx" where
  "revoke_subscription sid now =
     tx_modify (update_sub sid (\<lambda>s. s\<lparr>sr_status := StatusRevoked, sr_current_period_start := None,
       sr_current_period_end := None, sr_grace_ends_at := None, sr_next_transition_at := None,
       sr_transition_lease_until := None, sr_updated_at := now\<rparr>))"

text \<open>The recalculation after a period has been marked refunded.\<close>

definition settle_refund :: "uuid \<Rightarrow> instant \<Rightarrow> EventMeta \<Rightarrow> RefundSucceeded \<Rightarrow> period \<Rightarrow> sub_row \<Rightarrow> bool sub_tx"
where
  "settle_refund eventID now meta refund p s =
     (let sid = p_subscription_id p; userID = sr_user_id s;
          data = (\<lambda>reason. TerminalEvent \<lparr>ted_SubscriptionID = sid, ted_UserID = userID,
                    ted_Reason = reason, ted_AffectedPeriodIDs = [p_id p],
                    ted_EffectiveAt = ref_RefundedAt refund\<rparr>)
      in tx_bind (tx_get (\<lambda>st. calculateEntitlement sid now (st_periods st))) (\<lambda>state.
         case state of
           None \<Rightarrow>
             tx_bind (revoke_subscription sid now) (\<lambda>_.
             tx_bind (insertOutbox eventID ''subscription.revoked.v1'' sid userID
                        (DkRefund (ref_RefundID refund)) (meta_CorrelationID meta)
                        (Some (meta_EventID meta)) now (data ''refund'')) (\<lambda>_.
             tx_return True))
         | Some e \<Rightarrow>
             tx_bind (updateSubscription sid (ent_Status e) (ent_Start e) (ent_End e) (ent_Grace e)
                        (ent_Next e) now) (\<lambda>_.
             tx_bind (if (sr_status s = StatusActive \<or> sr_status s = StatusGrace) \<and> ent_Status e = StatusPending
                      then insertOutbox eventID ''subscription.revoked.v1'' sid userID
                             (DkRefundGap (ref_RefundID refund)) (meta_CorrelationID meta)
                             (Some (meta_EventID meta)) now (data ''refund_gap'')
                      else tx_return ()) (\<lambda>_.
             tx_return True))))"

definition applyRefund :: "uuid \<Rightarrow> instant \<Rightarrow> EventMeta \<Rightarrow> RefundSucceeded \<Rightarrow> bool sub_tx" where
  "applyRefund eventID now meta refund =
     tx_bind (tx_get (find_payment (ref_PaymentID refund))) (\<lambda>found.
       case found of
         None \<Rightarrow> tx_return False
       | Some (p, s) \<Rightarrow>
           if sr_user_id s \<noteq> ref_UserID refund \<or> p_source_order_id p \<noteq> ref_OrderID refund
             \<or> p_amount_minor p \<noteq> ref_AmountMinor refund \<or> p_currency p \<noteq> ref_Currency refund
           then tx_fail ErrConflict
           else if p_status p = Refunded then
             (case p_refund_id p of
                None \<Rightarrow> tx_fail InfraError
              | Some stored \<Rightarrow> if stored \<noteq> ref_RefundID refund then tx_fail ErrConflict else tx_return True)
           else
             tx_bind (mark_refunded (p_id p) (ref_RefundID refund) (ref_RefundedAt refund)) (\<lambda>_.
             settle_refund eventID now meta refund p s))"

text \<open>
  A conflict found by \<open>applyRefund\<close> is handled inside the transaction: the inbox row becomes
  a dead letter and the transaction commits, together with whatever was written before.
\<close>

definition dead_letter_conflict :: "uuid \<Rightarrow> instant \<Rightarrow> sub_error \<Rightarrow> unit sub_tx" where
  "dead_letter_conflict inboxID now err =
     (if err = ErrConflict then deadLetterInbox inboxID now ''durable_state_conflict'' else tx_fail err)"

definition storeRefund :: "uuid \<Rightarrow> instant \<Rightarrow> EventMeta \<Rightarrow> RefundSucceeded \<Rightarrow> unit sub_tx" where
  "storeRefund eventID now meta refund =
     tx_bind (insertInbox meta (ref_PaymentID refund) (ref_UserID refund) (Some refund) IbPending now)
       (\<lambda>inserted.
     if \<not> inserted then tx_return ()
     else
       tx_try (applyRefund eventID now meta refund)
         (dead_letter_conflict (meta_EventID meta) now)
         (\<lambda>applied. if applied then markInboxProcessed (meta_EventID meta) now else tx_return ()))"

definition refund_candidates :: "instant \<Rightarrow> uuid list \<Rightarrow> inbox_row list \<Rightarrow> inbox_row list" where
  "refund_candidates now locked rows =
     filter (\<lambda>r. ib_event_type r = ''billing.refund.succeeded.v1''
       \<and> (ib_state r = IbPending \<or> ib_state r = IbProcessing) \<and> ib_next_attempt_at r \<le> now
       \<and> lease_free now (ib_lease_until r) \<and> ib_event_id r \<notin> set locked) rows"

text \<open>
  The claim is one statement and is committed on its own: a row whose payload or source
  metadata cannot be read afterwards stays leased and the call returns an error.
\<close>

definition refund_work_of :: "inbox_row \<Rightarrow> RefundWork option" where
  "refund_work_of r = (case (ib_payload r, ib_source r) of
       (Some refund, Some src) \<Rightarrow>
         Some \<lparr>rw_InboxID = ib_event_id r,
               rw_Meta = \<lparr>meta_EventID = ib_event_id r, meta_EventType = ib_event_type r,
                  meta_AggregateID = ib_aggregate_id r, meta_CorrelationID = ib_correlation_id r,
                  meta_CausationID = None, meta_OccurredAt = 0, meta_SourceTopic = src_topic src,
                  meta_SourcePartition = src_partition src, meta_SourceOffset = src_offset src,
                  meta_PayloadSHA256 = src_sha256 src\<rparr>,
               rw_Refund = refund, rw_Attempts = ib_attempts r + 1\<rparr>
     | _ \<Rightarrow> None)"

definition ClaimRefund :: "instant \<Rightarrow> nanos \<Rightarrow> uuid list \<Rightarrow> RefundWork option sub_tx" where
  "ClaimRefund now lease locked st =
     (case first_by ib_received_at (refund_candidates now locked (st_inbox st)) of
        None \<Rightarrow> (Inr None, st)
      | Some r \<Rightarrow>
          (case refund_work_of r of None \<Rightarrow> Inl InfraError | Some w \<Rightarrow> Inr (Some w),
           update_inbox (ib_event_id r) (\<lambda>r. r\<lparr>ib_state := IbProcessing,
             ib_lease_until := Some (now + lease), ib_attempts := ib_attempts r + 1\<rparr>) st))"

definition applyClaimedRefund :: "uuid \<Rightarrow> instant \<Rightarrow> RefundWork \<Rightarrow> nanos \<Rightarrow> unit sub_tx" where
  "applyClaimedRefund eventID now work retryDelay =
     tx_try (applyRefund eventID now (rw_Meta work) (rw_Refund work))
       (dead_letter_conflict (rw_InboxID work) now)
       (\<lambda>applied.
          if applied then markInboxProcessed (rw_InboxID work) now
          else tx_modify (update_inbox (rw_InboxID work) (\<lambda>r. r\<lparr>ib_state := IbPending,
                 ib_lease_until := None, ib_next_attempt_at := now + retryDelay,
                 ib_last_error_code := Some ''payment_not_received''\<rparr>)))"

section \<open>The lifecycle scheduler\<close>

definition due_candidates :: "instant \<Rightarrow> uuid list \<Rightarrow> sub_row list \<Rightarrow> sub_row list" where
  "due_candidates now locked rows =
     filter (\<lambda>s. (sr_status s = StatusPending \<or> sr_status s = StatusActive \<or> sr_status s = StatusGrace)
       \<and> (case sr_next_transition_at s of None \<Rightarrow> False | Some t \<Rightarrow> t \<le> now)
       \<and> lease_free now (sr_transition_lease_until s) \<and> sr_id s \<notin> set locked) rows"

definition ClaimDue :: "instant \<Rightarrow> nanos \<Rightarrow> uuid list \<Rightarrow> Subscription option sub_tx" where
  "ClaimDue now lease locked st =
     (case first_by (\<lambda>s. (the (sr_next_transition_at s), sr_id s))
         (due_candidates now locked (st_subscriptions st)) of
        None \<Rightarrow> (Inr None, st)
      | Some s \<Rightarrow> (Inr (Some (subscription_of_row s)),
          update_sub (sr_id s) (\<lambda>s. s\<lparr>sr_transition_lease_until := Some (now + lease)\<rparr>) st))"

definition expire_subscription :: "uuid \<Rightarrow> instant \<Rightarrow> unit sub_tx" where
  "expire_subscription sid now =
     tx_modify (update_sub sid (\<lambda>s. s\<lparr>sr_status := StatusExpired, sr_next_transition_at := None,
       sr_transition_lease_until := None, sr_updated_at := now\<rparr>))"

definition period_event :: "uuid \<Rightarrow> uuid \<Rightarrow> uuid \<Rightarrow> sub_store \<Rightarrow> event_data option" where
  "period_event sid userID pid st =
     map_option (\<lambda>p. PeriodEvent \<lparr>ped_SubscriptionID = sid, ped_UserID = userID, ped_PeriodID = p_id p,
         ped_SourceOrderID = p_source_order_id p, ped_SourcePaymentID = p_source_payment_id p,
         ped_PeriodStart = p_period_start p, ped_PeriodEnd = p_period_end p,
         ped_GraceEndsAt = p_grace_ends_at p\<rparr>)
       (find (\<lambda>p. p_id p = pid) (st_periods st))"

text \<open>The event of a transition from the old status to the calculated one, if it has one.\<close>

definition transition_event :: "uuid \<Rightarrow> instant \<Rightarrow> uuid \<Rightarrow> uuid \<Rightarrow> sub_status \<Rightarrow> entitlementState \<Rightarrow> unit sub_tx"
where
  "transition_event eventID now sid userID oldStatus e =
     tx_bind (if oldStatus \<noteq> StatusPending \<and> ent_Status e = StatusPending
              then insertOutbox eventID ''subscription.expired.v1'' sid userID
                     (DkGapExpired (row_ID (ent_Period e))) [] None now
                     (TerminalEvent \<lparr>ted_SubscriptionID = sid, ted_UserID = userID,
                        ted_Reason = ''expired'', ted_AffectedPeriodIDs = [], ted_EffectiveAt = now\<rparr>)
              else tx_return ()) (\<lambda>_.
     tx_bind (if oldStatus = StatusPending \<and> ent_Status e = StatusActive
              then tx_bind (tx_get (period_event sid userID (row_ID (ent_Period e)))) (\<lambda>data.
                case data of
                  None \<Rightarrow> tx_fail InfraError
                | Some d \<Rightarrow> insertOutbox eventID ''subscription.activated.v1'' sid userID
                              (DkTransitionActivated (row_ID (ent_Period e))) [] None now d)
              else tx_return ()) (\<lambda>_.
     if oldStatus = StatusActive \<and> ent_Status e = StatusGrace
     then insertOutbox eventID ''subscription.grace.started.v1'' sid userID
            (DkGrace sid (ent_End e)) [] None now
            (GraceStarted \<lparr>ged_SubscriptionID = sid, ged_UserID = userID, ged_PeriodEnd = ent_End e,
               ged_GraceEndsAt = ent_Grace e, ged_EffectiveAt = ent_End e\<rparr>)
     else tx_return ()))"

definition completeDue :: "uuid \<Rightarrow> instant \<Rightarrow> uuid \<Rightarrow> unit sub_tx" where
  "completeDue eventID now sid =
     tx_bind (tx_get (find_subscription sid)) (\<lambda>found.
       case found of
         None \<Rightarrow> tx_fail InfraError
       | Some s \<Rightarrow>
           if sr_transition_lease_until s = None then tx_return ()
           else tx_bind (tx_get (\<lambda>st. calculateEntitlement sid now (st_periods st))) (\<lambda>state.
             case state of
               None \<Rightarrow>
                 let effectiveAt = (case sr_grace_ends_at s of None \<Rightarrow> now
                                    | Some g \<Rightarrow> if \<not> g > now then g else now) in
                 tx_bind (if sr_status s \<noteq> StatusExpired \<and> sr_status s \<noteq> StatusRevoked
                          then insertOutbox eventID ''subscription.expired.v1'' sid (sr_user_id s)
                                 (DkExpired sid effectiveAt) [] None now
                                 (TerminalEvent \<lparr>ted_SubscriptionID = sid, ted_UserID = sr_user_id s,
                                    ted_Reason = ''expired'', ted_AffectedPeriodIDs = [],
                                    ted_EffectiveAt = effectiveAt\<rparr>)
                          else tx_return ()) (\<lambda>_.
                 expire_subscription sid now)
             | Some e \<Rightarrow>
                 tx_bind (transition_event eventID now sid (sr_user_id s) (sr_status s) e) (\<lambda>_.
                 updateSubscription sid (ent_Status e) (ent_Start e) (ent_End e) (ent_Grace e)
                   (ent_Next e) now)))"

section \<open>Administrative revoke, reads, dead letters, outbox\<close>

definition admin_revoke_check :: "AdminRevokeInput \<Rightarrow> bool" where
  "admin_revoke_check input \<longleftrightarrow>
     8 \<le> pg_length (ari_IdempotencyKey input) \<and> pg_length (ari_IdempotencyKey input) \<le> 128
     \<and> length (ari_RequestSHA256 input) = 64 \<and> list_all is_lower_hex (ari_RequestSHA256 input)
     \<and> ari_ReasonCode input \<in> set [''admin_block'', ''abuse'', ''deleted'']"

definition AdminRevoke :: "uuid \<Rightarrow> instant \<Rightarrow> AdminRevokeInput \<Rightarrow> AdminRevokeResult sub_tx" where
  "AdminRevoke eventID now input =
     tx_bind (tx_get (\<lambda>st. find (\<lambda>r. rv_idempotency_key r = ari_IdempotencyKey input) (st_admin_revokes st)))
       (\<lambda>stored.
     case stored of
       Some r \<Rightarrow>
         if rv_request_sha256 r \<noteq> ari_RequestSHA256 input \<or> rv_subscription_id r \<noteq> ari_SubscriptionID input
           \<or> rv_reason_code r \<noteq> ari_ReasonCode input
         then tx_fail ErrIdempotencyConflict
         else tx_return \<lparr>arr_SubscriptionID = rv_subscription_id r, arr_Status = rv_result_status r,
                arr_ReasonCode = rv_reason_code r, arr_Replay = True\<rparr>
     | None \<Rightarrow>
         tx_bind (tx_get (find_subscription (ari_SubscriptionID input))) (\<lambda>found.
         case found of
           None \<Rightarrow> tx_fail ErrNotFound
         | Some s \<Rightarrow>
             if sr_status s = StatusExpired \<or> sr_status s = StatusRevoked
             then tx_fail ErrAdminRevokeNotAllowed
             else
               tx_bind (insertOutbox eventID ''subscription.revoked.v1'' (ari_SubscriptionID input)
                          (sr_user_id s) (DkAdminRevoke (ari_ActionID input)) (ari_CorrelationID input)
                          (Some (ari_ActionID input)) now
                          (TerminalEvent \<lparr>ted_SubscriptionID = ari_SubscriptionID input,
                             ted_UserID = sr_user_id s, ted_Reason = ari_ReasonCode input,
                             ted_AffectedPeriodIDs = [], ted_EffectiveAt = now\<rparr>)) (\<lambda>_.
               tx_bind (tx_modify (update_sub (ari_SubscriptionID input)
                          (\<lambda>s. s\<lparr>sr_status := StatusRevoked, sr_next_transition_at := None,
                                 sr_transition_lease_until := None, sr_updated_at := now\<rparr>))) (\<lambda>_.
               tx_bind (tx_get st_admin_revokes) (\<lambda>rows.
               if list_ex (\<lambda>r. rv_action_id r = ari_ActionID input) rows \<or> \<not> admin_revoke_check input
               then tx_fail InfraError
               else
                 tx_bind (tx_modify (\<lambda>st. st\<lparr>st_admin_revokes := st_admin_revokes st @
                   [\<lparr>rv_idempotency_key = ari_IdempotencyKey input,
                     rv_request_sha256 = ari_RequestSHA256 input, rv_action_id = ari_ActionID input,
                     rv_correlation_id = ari_CorrelationID input,
                     rv_subscription_id = ari_SubscriptionID input,
                     rv_reason_code = ari_ReasonCode input, rv_result_status = StatusRevoked,
                     rv_completed_at = now\<rparr>]\<rparr>)) (\<lambda>_.
                 tx_return \<lparr>arr_SubscriptionID = ari_SubscriptionID input, arr_Status = StatusRevoked,
                   arr_ReasonCode = ari_ReasonCode input, arr_Replay = False\<rparr>))))))"

definition GetPlacement :: "instant \<Rightarrow> uuid \<Rightarrow> sub_store \<Rightarrow> sub_error + Placement" where
  "GetPlacement now sid st =
     (case find_subscription sid st of
        None \<Rightarrow> Inl ErrNotFound
      | Some s \<Rightarrow>
          if \<not> (sr_status s = StatusActive \<or> sr_status s = StatusGrace) then Inl ErrNotFound
          else case first_by (\<lambda>p. (p_period_start p, p_id p))
                 (filter (\<lambda>p. p_subscription_id p = sr_id s \<and> p_status p = Paid
                    \<and> p_period_start p \<le> now \<and> p_grace_ends_at p > now) (st_periods st)) of
                 None \<Rightarrow> Inl ErrNotFound
               | Some p \<Rightarrow> Inr \<lparr>plc_SubscriptionID = sr_id s, plc_PeriodID = p_id p,
                   plc_Region = p_region p, plc_PrimaryNodes = p_primary_nodes p,
                   plc_FailoverNodes = p_failover_nodes p, plc_ValidUntil = p_grace_ends_at p\<rparr>)"

definition GetSubscription :: "uuid \<Rightarrow> sub_store \<Rightarrow> sub_error + Subscription" where
  "GetSubscription userID st =
     (case find_user userID st of None \<Rightarrow> Inl ErrNotFound | Some s \<Rightarrow> Inr (subscription_of_row s))"

definition RecordDeadLetter :: "string \<Rightarrow> int \<Rightarrow> int \<Rightarrow> string \<Rightarrow> string \<Rightarrow> sub_store \<Rightarrow> sub_store" where
  "RecordDeadLetter topic part off sha reason st =
     (if dead_letter_taken topic part off st then st
      else st\<lparr>st_dead_letters := st_dead_letters st @ [\<lparr>dl_topic = topic, dl_partition = part,
             dl_offset = off, dl_sha256 = sha, dl_reason = reason\<rparr>]\<rparr>)"

definition ClaimOutbox :: "instant \<Rightarrow> nanos \<Rightarrow> uuid list \<Rightarrow> sub_envelope OutboxMessage option sub_tx" where
  "ClaimOutbox now lease locked st =
     (let (m, rows) = sub_ClaimOutbox now lease locked (st_outbox st)
      in (Inr m, st\<lparr>st_outbox := rows\<rparr>))"

definition CompleteOutbox :: "instant \<Rightarrow> uuid \<Rightarrow> sub_store \<Rightarrow> sub_store" where
  "CompleteOutbox now eid st = st\<lparr>st_outbox := sub_CompleteOutbox now eid (st_outbox st)\<rparr>"

definition RetryOutbox :: "instant \<Rightarrow> nanos \<Rightarrow> uuid \<Rightarrow> sub_store \<Rightarrow> sub_store" where
  "RetryOutbox now delay eid st = st\<lparr>st_outbox := sub_RetryOutbox now delay eid (st_outbox st)\<rparr>"

section \<open>The text of a deduplication key\<close>

definition render_dedupe :: "(instant \<Rightarrow> string) \<Rightarrow> dedupe_key \<Rightarrow> string" where
  "render_dedupe fmt k = (case k of
       DkPayment pid topic \<Rightarrow> ''payment:'' @ pid @ '':'' @ topic
     | DkAdminRevoke aid \<Rightarrow> ''admin-revoke:'' @ aid
     | DkRefund rid \<Rightarrow> ''refund:'' @ rid
     | DkRefundGap rid \<Rightarrow> ''refund-gap:'' @ rid
     | DkExpired sid t \<Rightarrow> ''expired:'' @ sid @ '':'' @ fmt t
     | DkGapExpired pid \<Rightarrow> ''gap-expired:'' @ pid
     | DkTransitionActivated pid \<Rightarrow> ''transition-activated:'' @ pid
     | DkGrace sid t \<Rightarrow> ''grace:'' @ sid @ '':'' @ fmt t)"

definition key_id :: "dedupe_key \<Rightarrow> uuid" where
  "key_id k = (case k of DkPayment i _ \<Rightarrow> i | DkAdminRevoke i \<Rightarrow> i | DkRefund i \<Rightarrow> i | DkRefundGap i \<Rightarrow> i
     | DkExpired i _ \<Rightarrow> i | DkGapExpired i \<Rightarrow> i | DkTransitionActivated i \<Rightarrow> i | DkGrace i _ \<Rightarrow> i)"

text \<open>Distinct keys have distinct texts, for identifiers of the length of a UUID and an
  injective rendering of instants.\<close>

lemma render_dedupe_inject:
  assumes "inj fmt" and "length (key_id k) = 36" and "length (key_id l) = 36"
    and "render_dedupe fmt k = render_dedupe fmt l"
  shows "k = l"
  using assms by (cases k; cases l) (auto simp: render_dedupe_def key_id_def dest: injD)

end
