(* ===== verification/Subscription_Invariants.thy ===== *)
theory Subscription_Invariants
  imports Subscription_Store
begin

text \<open>
  Invariants of the subscription database over every store operation.

  \<open>rows_inv\<close> collects what the tables' keys and the outbox promise: one subscription per
  user, one period per order and per payment, every period well-formed and owned, distinct
  outbox keys, sequence numbers within the aggregate's counter, and publication in order.
  \<open>scheduled\<close> says that a subscription the scheduler still has to move has a transition time
  and that one with access has its window set. Both are kept by every primitive write
  (lemmas collected in \<open>sub_keep\<close>), hence by every transaction body through \<open>tx_keep\<close>.
  \<open>sub_step\<close> is the step relation of the service, one rule per store operation with any
  arguments, any interleaving and any driver fault; the invariants hold in every reachable
  store.
\<close>

named_theorems sub_keep \<open>primitive writes that keep the store's invariants\<close>

section \<open>The invariants\<close>

definition window_ok :: "sub_row \<Rightarrow> bool" where
  "window_ok s \<longleftrightarrow>
     (sr_current_period_start s = None \<and> sr_current_period_end s = None \<and> sr_grace_ends_at s = None)
     \<or> (\<exists>a b c. sr_current_period_start s = Some a \<and> sr_current_period_end s = Some b
          \<and> sr_grace_ends_at s = Some c \<and> window_check a b c)"

definition subs_inv :: "sub_row list \<Rightarrow> bool" where
  "subs_inv ss \<longleftrightarrow> distinct (map sr_id ss) \<and> distinct (map sr_user_id ss) \<and> (\<forall>s \<in> set ss. window_ok s)"

definition refund_ok :: "period \<Rightarrow> bool" where
  "refund_ok p \<longleftrightarrow> (p_status p = Paid \<longleftrightarrow> p_refund_id p = None)"

definition periods_inv :: "uuid set \<Rightarrow> period list \<Rightarrow> bool" where
  "periods_inv sids ps \<longleftrightarrow>
     distinct (map p_id ps) \<and> distinct (map p_source_order_id ps) \<and> distinct (map p_source_payment_id ps)
     \<and> (\<forall>p \<in> set ps. period_check p \<and> refund_ok p \<and> p_subscription_id p \<in> sids)"

definition sequence_ok :: "sub_row list \<Rightarrow> sub_outbox_row \<Rightarrow> bool" where
  "sequence_ok ss o1 \<longleftrightarrow>
     (\<exists>s \<in> set ss. \<exists>n. sr_id s = ob_aggregate_id o1 \<and> ob_sequence o1 = Some n
        \<and> n \<le> sr_aggregate_sequence s)"

definition outbox_inv :: "sub_row list \<Rightarrow> sub_outbox_row list \<Rightarrow> bool" where
  "outbox_inv ss os \<longleftrightarrow>
     distinct (map ob_event_id os) \<and> distinct (map ob_dedupe_key os)
     \<and> distinct (map (\<lambda>o1. (ob_aggregate_id o1, ob_sequence o1)) os)
     \<and> (\<forall>o1 \<in> set os. sequence_ok ss o1) \<and> in_order os"

definition rows_inv :: "sub_store \<Rightarrow> bool" where
  "rows_inv st \<longleftrightarrow> subs_inv (st_subscriptions st)
     \<and> periods_inv (sr_id ` set (st_subscriptions st)) (st_periods st)
     \<and> distinct (map ib_event_id (st_inbox st))
     \<and> outbox_inv (st_subscriptions st) (st_outbox st)"

lemma rows_inv_empty: "rows_inv empty_sub_store"
  by (simp add: rows_inv_def empty_sub_store_def subs_inv_def periods_inv_def outbox_inv_def)

lemma rows_inv_wf: "rows_inv st \<Longrightarrow> \<forall>p \<in> set (st_periods st). wf_period p"
  by (auto simp: rows_inv_def periods_inv_def period_check_def wf_period_def)

section \<open>Primitive writes\<close>

text \<open>Writing other columns of a subscription, or a larger sequence number.\<close>

lemma rows_inv_update_sub:
  assumes inv: "rows_inv st"
    and f: "\<And>s. s \<in> set (st_subscriptions st) \<Longrightarrow> sr_id s = sid \<Longrightarrow>
      sr_id (f s) = sr_id s \<and> sr_user_id (f s) = sr_user_id s \<and> window_ok (f s)
      \<and> sr_aggregate_sequence s \<le> sr_aggregate_sequence (f s)"
  shows "rows_inv (update_sub sid f st)"
proof -
  let ?ss = "st_subscriptions st" and ?ss' = "tbl_update (\<lambda>s. sr_id s = sid) f (st_subscriptions st)"
  from f have ids: "map sr_id ?ss' = map sr_id ?ss" and users: "map sr_user_id ?ss' = map sr_user_id ?ss"
    by (auto intro!: map_tbl_update)
  have "window_ok s" if "s \<in> set ?ss'" for s
    using that inv f by (auto elim!: in_tbl_updateE simp: rows_inv_def subs_inv_def)
  with ids users inv have subs: "subs_inv ?ss'" by (simp add: rows_inv_def subs_inv_def)
  from ids have idset: "sr_id ` set ?ss' = sr_id ` set ?ss" by (metis set_map)
  have "sequence_ok ?ss' o1" if seq: "sequence_ok ?ss o1" for o1
  proof -
    from seq obtain s n where s: "s \<in> set ?ss" "sr_id s = ob_aggregate_id o1" "ob_sequence o1 = Some n"
      "n \<le> sr_aggregate_sequence s" by (auto simp: sequence_ok_def)
    let ?s' = "if sr_id s = sid then f s else s"
    from s(1) have "?s' \<in> set ?ss'" by (auto simp: tbl_update_def)
    moreover from s f have "sr_id ?s' = ob_aggregate_id o1 \<and> n \<le> sr_aggregate_sequence ?s'" by fastforce
    ultimately show ?thesis using s(3) unfolding sequence_ok_def by blast
  qed
  with inv have "outbox_inv ?ss' (st_outbox st)" by (auto simp: rows_inv_def outbox_inv_def)
  with subs idset inv show ?thesis by (simp add: rows_inv_def update_sub_def)
qed

lemma keep_update_sub:
  assumes "\<And>s. window_ok s \<Longrightarrow> sr_id (f s) = sr_id s \<and> sr_user_id (f s) = sr_user_id s \<and> window_ok (f s)
      \<and> sr_aggregate_sequence s \<le> sr_aggregate_sequence (f s)"
  shows "tx_keeps rows_inv (tx_modify (update_sub sid f))"
proof (rule tx_keeps_modify, rule rows_inv_update_sub)
  fix st s assume "rows_inv st" "s \<in> set (st_subscriptions st)"
  then have "window_ok s" by (auto simp: rows_inv_def subs_inv_def)
  with assms show "sr_id (f s) = sr_id s \<and> sr_user_id (f s) = sr_user_id s \<and> window_ok (f s)
      \<and> sr_aggregate_sequence s \<le> sr_aggregate_sequence (f s)" by blast
qed

lemma keep_update_inbox [sub_keep]:
  assumes "\<And>r. ib_event_id (f r) = ib_event_id r"
  shows "tx_keeps rows_inv (tx_modify (update_inbox eid f))"
  by (rule tx_keeps_modify) (simp add: rows_inv_def update_inbox_def map_tbl_update assms)

lemma keep_dead_letters [sub_keep]:
  "tx_keeps rows_inv (tx_modify (\<lambda>st. st\<lparr>st_dead_letters := f st\<rparr>))"
  by (rule tx_keeps_modify) (simp add: rows_inv_def)

lemma keep_admin_revokes [sub_keep]:
  "tx_keeps rows_inv (tx_modify (\<lambda>st. st\<lparr>st_admin_revokes := f st\<rparr>))"
  by (rule tx_keeps_modify) (simp add: rows_inv_def)

lemma keep_revoke [sub_keep]: "tx_keeps rows_inv (revoke_subscription sid now)"
  unfolding revoke_subscription_def by (rule keep_update_sub) (simp add: window_ok_def)

lemma keep_expire [sub_keep]: "tx_keeps rows_inv (expire_subscription sid now)"
  unfolding expire_subscription_def by (rule keep_update_sub) (simp add: window_ok_def)

lemma keep_updateSubscription [sub_keep]:
  "tx_keeps rows_inv (updateSubscription sid status start ende grace nxt now)"
  unfolding updateSubscription_def
  by (intro tx_keep keep_update_sub) (simp add: window_ok_def)

lemma keep_markInboxProcessed [sub_keep]: "tx_keeps rows_inv (markInboxProcessed eid now)"
  unfolding markInboxProcessed_def by (rule keep_update_inbox) simp

lemma keep_deadLetterInbox [sub_keep]: "tx_keeps rows_inv (deadLetterInbox eid now reason)"
  unfolding deadLetterInbox_def by (intro tx_keep sub_keep) simp

lemma keep_insertInbox [sub_keep]: "tx_keeps rows_inv (insertInbox meta pid uid payload state now)"
proof (rule tx_validI)
  fix st a t assume inv: "rows_inv st"
    and run: "insertInbox meta pid uid payload state now st = (Inr a, t)"
  show "rows_inv t"
  proof (cases "find (\<lambda>r. ib_event_id r = meta_EventID meta) (st_inbox st)")
    case None
    then have "meta_EventID meta \<notin> ib_event_id ` set (st_inbox st)" by (simp add: find_None_key)
    with None run inv show ?thesis
      by (auto simp: insertInbox_def tx_defs Let_def rows_inv_def new_inbox_row_def split: if_splits)
  next
    case (Some r)
    with run inv show ?thesis
      by (auto simp: insertInbox_def tx_defs Let_def rows_inv_def update_inbox_def map_tbl_update
          split: if_splits option.splits)
  qed
next
  fix st e t assume "rows_inv st" "insertInbox meta pid uid payload state now st = (Inl e, t)"
  then show "rows_inv t"
    by (auto simp: insertInbox_def tx_defs Let_def split: if_splits option.splits)
qed

lemma keep_insert_period [sub_keep]:
  assumes "p_status p = Paid" and "p_refund_id p = None"
  shows "tx_keeps rows_inv (insert_period p)"
proof (rule tx_validI)
  fix st a t assume inv: "rows_inv st" and run: "insert_period p st = (Inr a, t)"
  then have "period_check p" and cl: "\<not> period_clash p (st_periods st)"
    and par: "find_subscription (p_subscription_id p) st \<noteq> None"
    and t: "t = st\<lparr>st_periods := st_periods st @ [p]\<rparr>"
    by (auto simp: insert_period_def tx_defs split: if_splits)
  moreover from par have "p_subscription_id p \<in> sr_id ` set (st_subscriptions st)"
    unfolding find_subscription_def find_None_key by simp
  ultimately show "rows_inv t" using inv assms
    by (auto simp: rows_inv_def periods_inv_def refund_ok_def period_clash_def list_ex_iff)
next
  fix st e t assume "rows_inv st" "insert_period p st = (Inl e, t)"
  then show "rows_inv t" by (auto simp: insert_period_def tx_defs split: if_splits)
qed

lemma keep_mark_refunded [sub_keep]: "tx_keeps rows_inv (mark_refunded pid rid at)"
proof -
  let ?f = "\<lambda>p. p\<lparr>p_status := Refunded, p_refund_id := Some rid, p_refunded_at := Some at\<rparr>"
  have "periods_inv sids (tbl_update (\<lambda>p. p_id p = pid) ?f ps)" if "periods_inv sids ps" for sids ps
    using that by (auto simp: periods_inv_def map_tbl_update period_check_def refund_ok_def
        elim!: in_tbl_updateE)
  then show ?thesis unfolding mark_refunded_def
    by (intro tx_keep tx_keeps_modify) (auto simp: rows_inv_def)
qed

lemma keep_getOrCreate [sub_keep]: "tx_keeps rows_inv (getOrCreateSubscription newID uid now)"
proof (rule tx_validI)
  fix st a t assume inv: "rows_inv st" and run: "getOrCreateSubscription newID uid now st = (Inr a, t)"
  show "rows_inv t"
  proof (cases "find_user uid st")
    case None
    with run have no_id: "find_subscription newID st = None"
      by (auto simp: getOrCreateSubscription_def tx_defs Let_def split: if_splits)
    have fresh: "newID \<notin> sr_id ` set (st_subscriptions st)" "uid \<notin> sr_user_id ` set (st_subscriptions st)"
      using None no_id unfolding find_user_def find_subscription_def find_None_key by simp_all
    with None no_id run inv show ?thesis
      by (auto simp: getOrCreateSubscription_def tx_defs Let_def rows_inv_def subs_inv_def
          window_ok_def periods_inv_def outbox_inv_def sequence_ok_def)
  next
    case (Some s)
    with run inv show ?thesis by (auto simp: getOrCreateSubscription_def tx_defs)
  qed
next
  fix st e t assume "rows_inv st" "getOrCreateSubscription newID uid now st = (Inl e, t)"
  then show "rows_inv t"
    by (auto simp: getOrCreateSubscription_def tx_defs Let_def split: if_splits option.splits)
qed

section \<open>The outbox write\<close>

lemma insertOutbox_cases:
  assumes "insertOutbox eid topic sid uid dk corr caus now data st = (r, t)"
  obtains (missing) "r = Inl InfraError" "t = st"
    | (refused) s e where "find_subscription sid st = Some s" "r = Inl e"
      "t = update_sub sid (\<lambda>s'. s'\<lparr>sr_aggregate_sequence := sr_aggregate_sequence s + 1\<rparr>) st"
    | (written) s row where "find_subscription sid st = Some s" "r = Inr ()"
      "\<not> list_ex (\<lambda>o1. ob_dedupe_key o1 = dk) (st_outbox st)"
      "\<not> outbox_clash eid sid (sr_aggregate_sequence s + 1) (st_outbox st)"
      "row = new_outbox_row eid topic sid uid dk (sr_aggregate_sequence s + 1) now
        (buildEventPayload topic eid sid uid corr caus (sr_aggregate_sequence s + 1) now data)"
      "t = (update_sub sid (\<lambda>s'. s'\<lparr>sr_aggregate_sequence := sr_aggregate_sequence s + 1\<rparr>) st)
        \<lparr>st_outbox := st_outbox st @ [row]\<rparr>"
proof (cases "find_subscription sid st")
  case None
  with assms have "r = Inl InfraError" "t = st" by (auto simp: insertOutbox_def tx_defs)
  then show thesis by (rule missing)
next
  case (Some s)
  let ?st1 = "update_sub sid (\<lambda>s'. s'\<lparr>sr_aggregate_sequence := sr_aggregate_sequence s + 1\<rparr>) st"
  have ob: "st_outbox ?st1 = st_outbox st" by (simp add: update_sub_def)
  show thesis
  proof (cases "list_ex (\<lambda>o1. ob_dedupe_key o1 = dk) (st_outbox st)
      \<or> outbox_clash eid sid (sr_aggregate_sequence s + 1) (st_outbox st)")
    case True
    with Some assms ob have "(\<exists>e. r = Inl e) \<and> t = ?st1"
      by (auto simp: insertOutbox_def tx_defs Let_def split: if_splits)
    with Some show thesis by (auto intro: refused)
  next
    case False
    with Some assms ob show thesis
      by (intro written) (auto simp: insertOutbox_def tx_defs Let_def split: if_splits)
  qed
qed

lemma rows_inv_next_sequence:
  assumes inv: "rows_inv st" and s: "find_subscription sid st = Some s"
  shows "rows_inv (update_sub sid (\<lambda>s'. s'\<lparr>sr_aggregate_sequence := sr_aggregate_sequence s + 1\<rparr>) st)"
proof (rule rows_inv_update_sub [OF inv])
  fix s' assume s': "s' \<in> set (st_subscriptions st)" "sr_id s' = sid"
  from s have "s \<in> set (st_subscriptions st)" "sr_id s = sid"
    by (auto simp: find_subscription_def dest: find_SomeD)
  with s' inv have "s' = s" by (auto simp: rows_inv_def subs_inv_def intro: distinct_key_eq)
  with s' inv show "sr_id (s'\<lparr>sr_aggregate_sequence := sr_aggregate_sequence s + 1\<rparr>) = sr_id s' \<and>
      sr_user_id (s'\<lparr>sr_aggregate_sequence := sr_aggregate_sequence s + 1\<rparr>) = sr_user_id s' \<and>
      window_ok (s'\<lparr>sr_aggregate_sequence := sr_aggregate_sequence s + 1\<rparr>) \<and>
      sr_aggregate_sequence s' \<le> sr_aggregate_sequence (s'\<lparr>sr_aggregate_sequence := sr_aggregate_sequence s + 1\<rparr>)"
    by (auto simp: rows_inv_def subs_inv_def window_ok_def)
qed

lemma sequence_bound:
  assumes "rows_inv st" and "find_subscription sid st = Some s" and "o1 \<in> set (st_outbox st)"
    and "ob_aggregate_id o1 = sid"
  shows "\<exists>n. ob_sequence o1 = Some n \<and> n \<le> sr_aggregate_sequence s"
proof -
  from assms(2) have s: "s \<in> set (st_subscriptions st)" "sr_id s = sid"
    by (auto simp: find_subscription_def dest: find_SomeD)
  from assms(1,3) obtain s' n where s': "s' \<in> set (st_subscriptions st)" "sr_id s' = ob_aggregate_id o1"
    "ob_sequence o1 = Some n" "n \<le> sr_aggregate_sequence s'"
    by (auto simp: rows_inv_def outbox_inv_def sequence_ok_def)
  with s assms(1,4) have "s' = s" by (auto simp: rows_inv_def subs_inv_def intro: distinct_key_eq)
  with s' show ?thesis by blast
qed

lemma keep_insertOutbox [sub_keep]:
  "tx_keeps rows_inv (insertOutbox eid topic sid uid dk corr caus now data)"
proof -
  have "rows_inv t" if inv: "rows_inv st"
    and run: "insertOutbox eid topic sid uid dk corr caus now data st = (r, t)" for st r t
    using run
  proof (cases rule: insertOutbox_cases)
    case missing
    with inv show ?thesis by simp
  next
    case (refused s e)
    with inv rows_inv_next_sequence show ?thesis by simp
  next
    case (written s row)
    let ?st1 = "update_sub sid (\<lambda>s'. s'\<lparr>sr_aggregate_sequence := sr_aggregate_sequence s + 1\<rparr>) st"
    have inv1: "rows_inv ?st1" using inv written(1) by (rule rows_inv_next_sequence)
    have ob: "st_outbox ?st1 = st_outbox st" by (simp add: update_sub_def)
    have row: "ob_event_id row = eid" "ob_aggregate_id row = sid" "ob_dedupe_key row = dk"
      "ob_sequence row = Some (sr_aggregate_sequence s + 1)" "ob_state row = ObPending"
      by (simp_all add: written(5) new_outbox_row_def)
    have "newest_of_aggregate row (st_outbox st)"
      unfolding newest_of_aggregate_def precedes_def row
      using sequence_bound [OF inv written(1)] row(2) by force
    moreover have "sequence_ok (st_subscriptions ?st1) row"
    proof -
      from written(1) have "s \<in> set (st_subscriptions st)" "sr_id s = sid"
        by (auto simp: find_subscription_def dest: find_SomeD)
      then have "s\<lparr>sr_aggregate_sequence := sr_aggregate_sequence s + 1\<rparr> \<in> set (st_subscriptions ?st1)"
        by (auto simp: update_sub_def tbl_update_def)
      with \<open>sr_id s = sid\<close> show ?thesis unfolding sequence_ok_def row
        by (intro bexI [of _ "s\<lparr>sr_aggregate_sequence := sr_aggregate_sequence s + 1\<rparr>"]) auto
    qed
    ultimately have "outbox_inv (st_subscriptions ?st1) (st_outbox st @ [row])"
      using inv1 written(3,4) in_order_append [of "st_outbox st" row] unfolding rows_inv_def outbox_inv_def ob
      by (auto simp: row list_ex_iff outbox_clash_def)
    with inv1 written(6) show ?thesis by (simp add: rows_inv_def)
  qed
  then show ?thesis by (intro tx_validI) blast+
qed

section \<open>Every transaction body keeps them\<close>

lemma keep_new_period [sub_keep]:
  "tx_keeps rows_inv (insert_period (new_period pid sid payment order a b c))"
  by (rule keep_insert_period) (simp_all add: new_period_def Let_def)

lemma keep_applyPayment: "tx_keeps rows_inv (applyPayment ids now meta payment order)"
  unfolding applyPayment_def grant_period_def Let_def
  by (intro tx_keep sub_keep)

lemma keep_recordPaymentReplay: "tx_keeps rows_inv (recordPaymentReplay now meta payment)"
  unfolding recordPaymentReplay_def by (intro tx_keep sub_keep) simp

lemma keep_applyRefund [sub_keep]: "tx_keeps rows_inv (applyRefund eid now meta refund)"
  unfolding applyRefund_def settle_refund_def Let_def by (intro tx_keep sub_keep)

lemma keep_dead_letter_conflict [sub_keep]: "tx_keeps rows_inv (dead_letter_conflict inboxID now err)"
  unfolding dead_letter_conflict_def by (intro tx_keep sub_keep)

lemma keep_storeRefund: "tx_keeps rows_inv (storeRefund eid now meta refund)"
  unfolding storeRefund_def by (intro tx_keep sub_keep)

lemma keep_applyClaimedRefund: "tx_keeps rows_inv (applyClaimedRefund eid now work delay)"
  unfolding applyClaimedRefund_def by (intro tx_keep sub_keep) simp

lemma keep_completeDue: "tx_keeps rows_inv (completeDue eid now sid)"
  unfolding completeDue_def transition_event_def Let_def by (intro tx_keep sub_keep)

lemma keep_AdminRevoke: "tx_keeps rows_inv (AdminRevoke eid now input)"
  unfolding AdminRevoke_def
  by (intro tx_keep sub_keep keep_update_sub) (simp add: window_ok_def)

lemma keep_ClaimDue: "rows_inv st \<Longrightarrow> rows_inv (snd (ClaimDue now lease locked st))"
proof -
  assume inv: "rows_inv st"
  have "rows_inv (update_sub sid (\<lambda>s. s\<lparr>sr_transition_lease_until := l\<rparr>) st)" for sid l
    using inv by (intro rows_inv_update_sub) (auto simp: rows_inv_def subs_inv_def window_ok_def)
  with inv show ?thesis by (simp add: ClaimDue_def split: option.splits)
qed

lemma keep_ClaimRefund: "rows_inv st \<Longrightarrow> rows_inv (snd (ClaimRefund now lease locked st))"
  by (auto simp: ClaimRefund_def rows_inv_def update_inbox_def map_tbl_update split: option.splits)

lemma keep_outbox_rows:
  assumes "rows_inv st" and "advances (st_outbox st) os" and "in_order os"
  shows "rows_inv (st\<lparr>st_outbox := os\<rparr>)"
proof -
  let ?key = "\<lambda>f. map f os = map f (st_outbox st)"
  from assms(2) have ids: "map ob_identity os = map ob_identity (st_outbox st)" by (simp add: advances_def)
  have keys: "?key ob_event_id" "?key ob_dedupe_key" "?key (\<lambda>o1. (ob_aggregate_id o1, ob_sequence o1))"
    using arg_cong [OF ids, of "map fst"] arg_cong [OF ids, of "map (\<lambda>i. fst (snd (snd (snd (snd (snd i))))))"]
      arg_cong [OF ids, of "map (\<lambda>i. (fst (snd (snd (snd i))), fst (snd (snd (snd (snd i))))))"]
    by (simp_all add: ob_identity_def o_def)
  have "sequence_ok (st_subscriptions st) o1" if "o1 \<in> set os" for o1
  proof -
    from that have "(ob_aggregate_id o1, ob_sequence o1) \<in> set (map (\<lambda>o1. (ob_aggregate_id o1, ob_sequence o1)) os)"
      by simp
    then obtain p where "p \<in> set (st_outbox st)" "ob_aggregate_id o1 = ob_aggregate_id p"
      "ob_sequence o1 = ob_sequence p" unfolding keys(3) by auto
    with assms(1) show ?thesis by (simp add: rows_inv_def outbox_inv_def sequence_ok_def)
  qed
  with assms(1,3) keys show ?thesis by (simp add: rows_inv_def outbox_inv_def)
qed

lemma keep_ClaimOutbox: "rows_inv st \<Longrightarrow> rows_inv (snd (ClaimOutbox now lease locked st))"
proof -
  assume inv: "rows_inv st"
  obtain m os where cl: "sub_ClaimOutbox now lease locked (st_outbox st) = (m, os)" by fastforce
  from inv have d: "distinct (map ob_event_id (st_outbox st))" and o: "in_order (st_outbox st)"
    by (auto simp: rows_inv_def outbox_inv_def)
  from keep_outbox_rows [OF inv sub_outbox.claim_advances [OF d cl] sub_outbox.claim_in_order [OF o d cl]] cl
  show ?thesis by (simp add: ClaimOutbox_def)
qed

lemma keep_CompleteOutbox: "rows_inv st \<Longrightarrow> rows_inv (CompleteOutbox now eid st)"
  unfolding CompleteOutbox_def
  by (rule keep_outbox_rows [OF _ sub_outbox.complete_advances sub_outbox.complete_in_order])
    (auto simp: rows_inv_def outbox_inv_def)

lemma keep_RetryOutbox: "rows_inv st \<Longrightarrow> rows_inv (RetryOutbox now delay eid st)"
  unfolding RetryOutbox_def
  by (rule keep_outbox_rows [OF _ sub_outbox.retry_advances sub_outbox.retry_in_order])
    (auto simp: rows_inv_def outbox_inv_def)

lemma keep_RecordDeadLetter: "rows_inv st \<Longrightarrow> rows_inv (RecordDeadLetter topic part off sha reason st)"
  by (simp add: RecordDeadLetter_def rows_inv_def)

end
