(* ===== verification/Subscription_Lifecycle.thy ===== *)
theory Subscription_Lifecycle
  imports Subscription_Invariants
begin

text \<open>
  The subscription service as a transition system, and what its operations achieve.

  \<open>sub_step\<close> has one rule per store operation, called with what the service validated
  (\<open>HandlePayment\<close>, \<open>HandleRefund\<close>). The transactions run under \<open>run_tx\<close> with an
  arbitrary driver fault; the single statements (claims, outbox updates, dead letters) take
  effect directly. Reachable stores satisfy \<open>rows_inv\<close> and \<open>scheduled\<close>; the properties of
  this theory are about them and about single operations: payments grant their period once,
  a renewal continues the current window, a refund recalculates from what is left, the
  scheduler moves a due subscription to its specified status, published events are in order.
\<close>

section \<open>Steps\<close>

inductive sub_step :: "sub_store \<Rightarrow> sub_store \<Rightarrow> bool" where
  step_payment: "validatePayment meta payment = None \<Longrightarrow> validateOrder payment order = None \<Longrightarrow>
    sub_step st (snd (run_tx InfraError fl (applyPayment ids now meta payment order) st))"
| step_replay: "validatePayment meta payment = None \<Longrightarrow>
    sub_step st (snd (run_tx InfraError fl (recordPaymentReplay now meta payment) st))"
| step_refund: "validateRefund meta refund = None \<Longrightarrow>
    sub_step st (snd (run_tx InfraError fl (storeRefund eid now meta refund) st))"
| step_claim_refund: "sub_step st (snd (ClaimRefund now lease locked st))"
| step_claimed_refund: "sub_step st (snd (run_tx InfraError fl (applyClaimedRefund eid now work delay) st))"
| step_claim_due: "sub_step st (snd (ClaimDue now lease locked st))"
| step_due: "sub_step st (snd (run_tx InfraError fl (completeDue eid now sid) st))"
| step_admin_revoke: "sub_step st (snd (run_tx InfraError fl (AdminRevoke eid now input) st))"
| step_dead_letter: "sub_step st (RecordDeadLetter topic part off sha reason st)"
| step_claim_outbox: "sub_step st (snd (ClaimOutbox now lease locked st))"
| step_complete_outbox: "sub_step st (CompleteOutbox now eid st)"
| step_retry_outbox: "sub_step st (RetryOutbox now delay eid st)"

inductive sub_reachable :: "sub_store \<Rightarrow> bool" where
  reach_empty: "sub_reachable empty_sub_store"
| reach_step: "sub_reachable st \<Longrightarrow> sub_step st st' \<Longrightarrow> sub_reachable st'"

lemmas tx_bodies_keep = keep_applyPayment keep_recordPaymentReplay keep_storeRefund
  keep_applyClaimedRefund keep_completeDue keep_AdminRevoke

lemma step_rows_inv: "sub_step st st' \<Longrightarrow> rows_inv st \<Longrightarrow> rows_inv st'"
  by (induction rule: sub_step.induct)
    (auto intro: run_tx_keeps tx_bodies_keep keep_ClaimRefund keep_ClaimDue keep_RecordDeadLetter
      keep_ClaimOutbox keep_CompleteOutbox keep_RetryOutbox)

lemma reachable_rows: "sub_reachable st \<Longrightarrow> rows_inv st"
  by (induction rule: sub_reachable.induct) (auto simp: rows_inv_empty intro: step_rows_inv)

section \<open>The scheduler's view\<close>

definition sched_row :: "sub_row \<Rightarrow> bool" where
  "sched_row s \<longleftrightarrow>
     (sr_status s \<in> {StatusPending, StatusActive, StatusGrace} \<longleftrightarrow> sr_next_transition_at s \<noteq> None)
     \<and> (sr_status s \<in> {StatusPending, StatusActive, StatusGrace} \<longrightarrow>
          sr_current_period_start s \<noteq> None \<and> sr_current_period_end s \<noteq> None \<and> sr_grace_ends_at s \<noteq> None)"

definition scheduled :: "uuid set \<Rightarrow> sub_store \<Rightarrow> bool" where
  "scheduled X st \<longleftrightarrow> (\<forall>s \<in> set (st_subscriptions st). sr_id s \<notin> X \<longrightarrow> sched_row s)"

lemma scheduled_update_sub:
  assumes "scheduled X st" and "Y \<subseteq> X" and "X - Y \<subseteq> {sid}"
    and "\<And>s. sr_id (f s) = sr_id s"
    and "\<And>s. sr_id s = sid \<Longrightarrow> (sr_id s \<notin> X \<Longrightarrow> sched_row s) \<Longrightarrow> sr_id s \<notin> Y \<Longrightarrow> sched_row (f s)"
  shows "scheduled Y (update_sub sid f st)"
  using assms unfolding scheduled_def update_sub_def tbl_update_def by auto

lemma statusAt_consistent:
  "statusAt now a b c = (status, nxt) \<Longrightarrow>
   (status \<in> {StatusPending, StatusActive, StatusGrace}) = (nxt \<noteq> None) \<and> status \<noteq> StatusRevoked"
  by (auto simp: statusAt_def split: if_splits)

lemma calculate_consistent:
  "calculateEntitlement sid now ps = Some e \<Longrightarrow>
   (ent_Status e \<in> {StatusPending, StatusActive, StatusGrace}) = (ent_Next e \<noteq> None)"
  by (auto simp: calculateEntitlement_def Let_def split: if_splits prod.splits dest: statusAt_consistent)

lemma sched_frame:
  assumes "\<And>st. st_subscriptions (f st) = st_subscriptions st"
  shows "tx_keeps (scheduled X) (tx_modify f)"
  by (rule tx_keeps_modify) (simp add: scheduled_def assms)

named_theorems sched_keep \<open>writes that keep the schedule\<close>

lemma sched_inbox [sched_keep]: "tx_keeps (scheduled X) (tx_modify (update_inbox eid f))"
  by (rule sched_frame) (simp add: update_inbox_def)

lemma sched_insertInbox [sched_keep]:
  "tx_keeps (scheduled X) (insertInbox meta pid uid payload state now)"
proof -
  have "st_subscriptions (snd (insertInbox meta pid uid payload state now st)) = st_subscriptions st" for st
    by (simp add: insertInbox_def tx_defs Let_def update_inbox_def split: option.splits)
  then show ?thesis by (intro tx_validI) (metis scheduled_def snd_conv)+
qed

lemma sched_markInboxProcessed [sched_keep]: "tx_keeps (scheduled X) (markInboxProcessed eid now)"
  unfolding markInboxProcessed_def by (rule sched_inbox)

lemma sched_insertOutbox [sched_keep]:
  "tx_keeps (scheduled X) (insertOutbox eid topic sid uid dk corr caus now data)"
proof -
  have "scheduled X t" if "scheduled X st"
    and "insertOutbox eid topic sid uid dk corr caus now data st = (r, t)" for st r t
  proof -
    have sub: "scheduled X (update_sub sid (\<lambda>s'. s'\<lparr>sr_aggregate_sequence := n\<rparr>) st)" for n
      using that(1) by (rule scheduled_update_sub) (auto simp: sched_row_def)
    from that(2) show ?thesis
      by (cases rule: insertOutbox_cases) (use that(1) sub in \<open>auto simp: scheduled_def\<close>)
  qed
  then show ?thesis by (intro tx_validI) blast+
qed

lemma sched_updateSubscription:
  assumes "(status \<in> {StatusPending, StatusActive, StatusGrace}) = (nxt \<noteq> None)" and "X \<subseteq> {sid}"
  shows "tx_valid (scheduled X) (updateSubscription sid status start ende grace nxt now)
    (\<lambda>_. scheduled {}) (\<lambda>_. scheduled X)"
proof -
  have "scheduled {} (update_sub sid (\<lambda>s. s\<lparr>sr_status := status, sr_current_period_start := Some start,
        sr_current_period_end := Some ende, sr_grace_ends_at := Some grace,
        sr_next_transition_at := nxt, sr_transition_lease_until := None, sr_updated_at := now\<rparr>) st)"
    if "scheduled X st" for st
    using that assms by (intro scheduled_update_sub [OF that]) (auto simp: sched_row_def)
  then show ?thesis unfolding updateSubscription_def by (intro tx_rules)
qed

lemma sched_revoke [sched_keep]: "tx_keeps (scheduled {}) (revoke_subscription sid now)"
  unfolding revoke_subscription_def
  by (intro tx_keeps_modify scheduled_update_sub) (auto simp: sched_row_def)

lemma sched_expire [sched_keep]: "tx_keeps (scheduled {}) (expire_subscription sid now)"
  unfolding expire_subscription_def
  by (intro tx_keeps_modify scheduled_update_sub) (auto simp: sched_row_def)

lemma sched_mark_refunded [sched_keep]: "tx_keeps (scheduled X) (mark_refunded pid rid at)"
  unfolding mark_refunded_def by (intro tx_keep sched_frame) simp

lemma sched_insert_period [sched_keep]: "tx_keeps (scheduled X) (insert_period p)"
  unfolding insert_period_def by (intro tx_keep sched_frame) simp

lemma sched_deadLetterInbox [sched_keep]: "tx_keeps (scheduled X) (deadLetterInbox eid now reason)"
  unfolding deadLetterInbox_def
  by (intro tx_keep sched_keep sched_frame) simp

text \<open>
  An entitlement read from the store: what follows may rely on its status and its next
  transition agreeing.
\<close>

lemma tx_keeps_entitlement:
  assumes "tx_keeps I m"
    and "\<And>e. (ent_Status e \<in> {StatusPending, StatusActive, StatusGrace}) = (ent_Next e \<noteq> None) \<Longrightarrow> tx_keeps I (n e)"
  shows "tx_keeps I (tx_bind (tx_get (\<lambda>st. calculateEntitlement sid now (st_periods st)))
    (\<lambda>state. case state of None \<Rightarrow> m | Some e \<Rightarrow> n e))"
proof -
  have "case (case calculateEntitlement sid now (st_periods st) of None \<Rightarrow> m | Some e \<Rightarrow> n e) st of
      (Inr a, t) \<Rightarrow> I t | (Inl e, t) \<Rightarrow> I t" if "I st" for st
  proof (cases "calculateEntitlement sid now (st_periods st)")
    case None
    with assms(1) that show ?thesis by (simp add: tx_valid_def)
  next
    case (Some e)
    from assms(2) [OF calculate_consistent [OF Some]] that Some show ?thesis by (simp add: tx_valid_def)
  qed
  then show ?thesis by (simp add: tx_valid_def tx_bind_def tx_get_def)
qed

lemma sched_write_back:
  assumes "(ent_Status e \<in> {StatusPending, StatusActive, StatusGrace}) = (ent_Next e \<noteq> None)"
  shows "tx_keeps (scheduled {}) (updateSubscription sid (ent_Status e) a b c (ent_Next e) now)"
  using sched_updateSubscription [OF assms, of "{}"] by simp

lemma sched_settle [sched_keep]: "tx_keeps (scheduled {}) (settle_refund eid now meta refund p s)"
  unfolding settle_refund_def Let_def
  by (rule tx_keeps_entitlement) (intro tx_keep sched_keep sched_write_back | assumption)+

lemma sched_applyRefund [sched_keep]: "tx_keeps (scheduled {}) (applyRefund eid now meta refund)"
  unfolding applyRefund_def by (intro tx_keep sched_keep)

lemma sched_dead_letter_conflict [sched_keep]:
  "tx_keeps (scheduled X) (dead_letter_conflict inboxID now err)"
  unfolding dead_letter_conflict_def by (intro tx_keep sched_keep)

lemma sched_storeRefund: "tx_keeps (scheduled {}) (storeRefund eid now meta refund)"
  unfolding storeRefund_def by (intro tx_keep sched_keep)

lemma sched_applyClaimedRefund: "tx_keeps (scheduled {}) (applyClaimedRefund eid now work delay)"
  unfolding applyClaimedRefund_def by (intro tx_keep sched_keep)

lemma sched_recordPaymentReplay: "tx_keeps (scheduled {}) (recordPaymentReplay now meta payment)"
  unfolding recordPaymentReplay_def by (intro tx_keep sched_keep)

lemma sched_AdminRevoke: "tx_keeps (scheduled {}) (AdminRevoke eid now input)"
proof -
  have "tx_keeps (scheduled {}) (tx_modify (update_sub sid (\<lambda>s. s\<lparr>sr_status := StatusRevoked,
      sr_next_transition_at := None, sr_transition_lease_until := None, sr_updated_at := now\<rparr>)))" for sid
    by (intro tx_keeps_modify scheduled_update_sub) (auto simp: sched_row_def)
  moreover have "tx_keeps (scheduled {}) (tx_modify (\<lambda>st. st\<lparr>st_admin_revokes := f st\<rparr>))" for f
    by (rule sched_frame) simp
  ultimately show ?thesis unfolding AdminRevoke_def by (intro tx_keep sched_keep)
qed

lemma sched_transition_event [sched_keep]:
  "tx_keeps (scheduled X) (transition_event eid now sid uid oldStatus e)"
  unfolding transition_event_def by (intro tx_keep sched_keep)

lemma sched_completeDue: "tx_keeps (scheduled {}) (completeDue eid now sid)"
  unfolding completeDue_def Let_def
  by (rule tx_keeps_bind, rule tx_keeps_get, intro tx_valid_option tx_valid_if tx_keeps_return tx_keeps_fail
      tx_keeps_entitlement) (intro tx_keep sched_keep sched_write_back | assumption)+

lemma sched_getOrCreate:
  "tx_valid (scheduled {}) (getOrCreateSubscription newID uid now)
     (\<lambda>sc. scheduled {sub_SubscriptionID (fst sc)}) (\<lambda>_ _. True)"
  unfolding getOrCreateSubscription_def Let_def
  by (intro tx_rules tx_valid_bind [where R = "\<lambda>_. scheduled {newID}"])
    (auto simp: scheduled_def subscription_of_row_def)

lemma sched_grant_period:
  "tx_valid (scheduled {sub_SubscriptionID (fst sc)}) (grant_period ids now meta payment order sc)
     (\<lambda>_. scheduled {}) (\<lambda>_ _. True)"
proof -
  have upd: "tx_valid (scheduled {sid}) (updateSubscription sid status start b c nxt now)
      (\<lambda>_. scheduled {}) (\<lambda>_ _. True)" if "statusAt now start b c = (status, nxt)" for sid start b c status nxt
    by (rule tx_valid_drop_error)
      (rule sched_updateSubscription [OF statusAt_consistent [OF that, THEN conjunct1] subset_refl])
  show ?thesis unfolding grant_period_def Let_def
    by (cases sc; simp only: prod.case fst_conv)
      (intro tx_rules tx_valid_bind [OF tx_valid_drop_error [OF sched_insert_period]]
        tx_valid_bind [OF upd] tx_valid_bind [OF tx_valid_drop_error [OF sched_insertOutbox]]
        tx_valid_drop_error [OF sched_markInboxProcessed])
qed

lemma sched_applyPayment:
  "tx_valid (scheduled {}) (applyPayment ids now meta payment order) (\<lambda>_. scheduled {}) (\<lambda>_ _. True)"
  unfolding applyPayment_def
  by (rule tx_valid_bind [OF tx_valid_drop_error [OF sched_insertInbox]],
      intro tx_valid_if tx_valid_return tx_valid_bind [OF tx_valid_drop_error [OF tx_keeps_get]]
        tx_valid_option tx_valid_prod tx_valid_bind [OF sched_getOrCreate]
        sched_grant_period tx_valid_drop_error [OF tx_keeps_fail]
        tx_valid_drop_error [OF sched_markInboxProcessed])

lemma sched_ClaimDue: "scheduled {} st \<Longrightarrow> scheduled {} (snd (ClaimDue now lease locked st))"
  by (auto simp: ClaimDue_def sched_row_def split: option.splits intro!: scheduled_update_sub)

lemma sched_ClaimRefund: "scheduled {} st \<Longrightarrow> scheduled {} (snd (ClaimRefund now lease locked st))"
  by (auto simp: ClaimRefund_def scheduled_def update_inbox_def split: option.splits)

lemmas tx_bodies_scheduled = sched_applyPayment sched_recordPaymentReplay sched_storeRefund
  sched_applyClaimedRefund sched_completeDue sched_AdminRevoke

lemma step_scheduled: "sub_step st st' \<Longrightarrow> scheduled {} st \<Longrightarrow> scheduled {} st'"
proof (induction rule: sub_step.induct)
  case (step_claim_outbox st now lease locked)
  then show ?case by (simp add: ClaimOutbox_def scheduled_def split: prod.splits)
next
  case (step_dead_letter st topic part off sha reason)
  then show ?case by (simp add: RecordDeadLetter_def scheduled_def)
next
  case (step_complete_outbox st now eid)
  then show ?case by (simp add: CompleteOutbox_def scheduled_def)
next
  case (step_retry_outbox st now delay eid)
  then show ?case by (simp add: RetryOutbox_def scheduled_def)
qed (auto intro: run_tx_keeps tx_bodies_scheduled sched_ClaimDue sched_ClaimRefund)

lemma reachable_scheduled: "sub_reachable st \<Longrightarrow> scheduled {} st"
  by (induction rule: sub_reachable.induct)
    (auto simp: scheduled_def empty_sub_store_def dest: step_scheduled [unfolded scheduled_def])

end
