(* ===== verification/Subscription_Properties.thy ===== *)
theory Subscription_Properties
  imports Subscription_Lifecycle
begin

text \<open>
  The properties of the subscription store: what a payment, a renewal, a refund, a due
  transition and an administrative revoke do to a store that satisfies its invariants, and
  what holds in every reachable store. The first section describes each operation by its
  result, so that the properties are short.
\<close>

section \<open>What the operations do\<close>

lemma insertInbox_frame:
  "insertInbox meta pid uid payload state now st = (r, t) \<Longrightarrow> \<exists>ib. t = st\<lparr>st_inbox := ib\<rparr>"
  by (auto simp: insertInbox_def tx_defs Let_def update_inbox_def split: if_splits option.splits
      intro: exI [of _ "st_inbox st"])

lemma find_subscription_inbox [simp]:
    "find_subscription sid (st\<lparr>st_inbox := ib\<rparr>) = find_subscription sid st"
  and find_user_inbox [simp]: "find_user uid (st\<lparr>st_inbox := ib\<rparr>) = find_user uid st"
  by (simp_all add: find_user_def find_subscription_def)

lemma find_payment_inbox [simp]: "find_payment pid (st\<lparr>st_inbox := ib\<rparr>) = find_payment pid st"
  by (simp add: find_payment_def split: option.splits)

definition fresh_event :: "EventMeta \<Rightarrow> sub_store \<Rightarrow> bool" where
  "fresh_event meta st \<longleftrightarrow> meta_EventID meta \<notin> ib_event_id ` set (st_inbox st)
     \<and> source_check (meta_EventType meta) (source_of meta)
     \<and> \<not> record_taken (meta_EventID meta) (source_of meta) (st_inbox st)"

lemma insertInbox_fresh:
  assumes "fresh_event meta st"
  shows "insertInbox meta pid uid payload state now st =
    (Inr True, st\<lparr>st_inbox := st_inbox st @ [new_inbox_row meta pid uid payload state now]\<rparr>)"
  using assms by (simp add: insertInbox_def tx_defs Let_def fresh_event_def find_None_key [symmetric])

text \<open>A row the inbox has recorded for an event, with its source, is recognised as a replay.\<close>

definition recorded :: "EventMeta \<Rightarrow> uuid \<Rightarrow> uuid \<Rightarrow> sub_store \<Rightarrow> bool" where
  "recorded meta pid uid st \<longleftrightarrow>
     (\<exists>r src. find (\<lambda>r. ib_event_id r = meta_EventID meta) (st_inbox st) = Some r
        \<and> ib_source r = Some src \<and> src_sha256 src = meta_PayloadSHA256 meta
        \<and> inbox_matches meta pid uid r)"

lemma insertInbox_recorded:
  "recorded meta pid uid st \<Longrightarrow> insertInbox meta pid uid payload state now st = (Inr False, st)"
  by (auto simp: recorded_def insertInbox_def tx_defs Let_def)

lemma insertInbox_records:
  assumes "insertInbox meta pid uid payload state now st = (Inr b, t)"
  shows "recorded meta pid uid t"
proof (cases "find (\<lambda>r. ib_event_id r = meta_EventID meta) (st_inbox st)")
  case None
  then have "find (\<lambda>r. ib_event_id r = meta_EventID meta)
      (st_inbox st @ [new_inbox_row meta pid uid payload state now]) =
      Some (new_inbox_row meta pid uid payload state now)"
    by (simp add: find_append new_inbox_row_def)
  with None assms show ?thesis
    by (auto simp: insertInbox_def tx_defs Let_def recorded_def new_inbox_row_def inbox_matches_def
        source_of_def split: if_splits)
next
  case (Some r)
  from find_SomeD [OF Some] have "ib_event_id r = meta_EventID meta" by simp
  with assms Some show ?thesis
    by (auto simp: insertInbox_def tx_defs Let_def recorded_def update_inbox_def inbox_matches_def
        source_of_def find_tbl_update_same split: if_splits option.splits)
qed

lemma recorded_frame: "st_inbox t = st_inbox st \<Longrightarrow> recorded meta pid uid t = recorded meta pid uid st"
  by (simp add: recorded_def)

lemma recorded_update_inbox:
  assumes "recorded meta pid uid st"
    and f: "\<And>r. ib_event_id (f r) = ib_event_id r \<and> ib_event_type (f r) = ib_event_type r
      \<and> ib_aggregate_id (f r) = ib_aggregate_id r \<and> ib_source_payment_id (f r) = ib_source_payment_id r
      \<and> ib_user_id (f r) = ib_user_id r \<and> ib_correlation_id (f r) = ib_correlation_id r \<and> ib_source (f r) = ib_source r"
  shows "recorded meta pid uid (update_inbox eid f st)"
proof -
  from assms(1) obtain r src where r: "find (\<lambda>r. ib_event_id r = meta_EventID meta) (st_inbox st) = Some r"
    "ib_source r = Some src" "src_sha256 src = meta_PayloadSHA256 meta" "inbox_matches meta pid uid r"
    by (auto simp: recorded_def)
  let ?r = "if ib_event_id r = eid then f r else r"
  have "find (\<lambda>r. ib_event_id r = meta_EventID meta) (st_inbox (update_inbox eid f st)) = Some ?r"
    using r(1) by (simp add: update_inbox_def find_tbl_update_same f)
  moreover have "ib_source ?r = Some src" "inbox_matches meta pid uid ?r" using r f by (auto simp: inbox_matches_def)
  ultimately show ?thesis using r(3) unfolding recorded_def by blast
qed

lemma recorded_markInboxProcessed:
  assumes "recorded meta pid uid st" and "markInboxProcessed eid now st = (r, t)"
  shows "recorded meta pid uid t"
  using assms recorded_update_inbox [OF assms(1)] by (auto simp: markInboxProcessed_def tx_modify_def)

section \<open>A payment grants its period once\<close>

text \<open>A first delivery: an event and a payment the store has not seen.\<close>

definition first_delivery :: "EventMeta \<Rightarrow> PaymentSucceeded \<Rightarrow> sub_store \<Rightarrow> bool" where
  "first_delivery meta payment st \<longleftrightarrow>
     fresh_event meta st \<and> find_payment (pay_PaymentID payment) st = None"

lemma applyPayment_first:
  assumes "first_delivery meta payment st"
  shows "applyPayment ids now meta payment order st =
    tx_bind (getOrCreateSubscription (ids_subscription ids) (pay_UserID payment) now)
      (grant_period ids now meta payment order)
      (st\<lparr>st_inbox := st_inbox st @
        [new_inbox_row meta (pay_PaymentID payment) (pay_UserID payment) None IbProcessing now]\<rparr>)"
  using assms by (simp add: applyPayment_def first_delivery_def tx_bind_def insertInbox_fresh tx_get_def)

text \<open>Every write of \<open>grant_period\<close> but the last leaves the inbox alone.\<close>

lemma insert_period_result:
  "insert_period p st = (Inr u, t) \<Longrightarrow> t = st\<lparr>st_periods := st_periods st @ [p]\<rparr> \<and> period_check p"
  by (auto simp: insert_period_def tx_defs split: if_splits)

lemma updateSubscription_result:
  "updateSubscription sid status a b c nxt now st = (Inr u, t) \<Longrightarrow>
   window_check a b c \<and> t = update_sub sid (\<lambda>s. s\<lparr>sr_status := status, sr_current_period_start := Some a,
        sr_current_period_end := Some b, sr_grace_ends_at := Some c,
        sr_next_transition_at := nxt, sr_transition_lease_until := None, sr_updated_at := now\<rparr>) st"
  by (auto simp: updateSubscription_def tx_defs split: if_splits)

lemma insertOutbox_result:
  assumes "insertOutbox eid topic sid uid dk corr caus now data st = (Inr u, t)"
  obtains s row where "find_subscription sid st = Some s" "ob_event_id row = eid" "ob_topic row = topic"
    "ob_aggregate_id row = sid" "ob_state row = ObPending" "ob_dedupe_key row = dk"
    "t = (update_sub sid (\<lambda>s'. s'\<lparr>sr_aggregate_sequence := sr_aggregate_sequence s + 1\<rparr>) st)
        \<lparr>st_outbox := st_outbox st @ [row]\<rparr>"
  using assms
proof (cases rule: insertOutbox_cases)
  case (written s row)
  then show thesis by (intro that [of s row]) (simp_all add: new_outbox_row_def)
qed simp_all

lemma getOrCreate_frame:
  "getOrCreateSubscription newID uid now st = (Inr sc, t) \<Longrightarrow>
   st_periods t = st_periods st \<and> st_inbox t = st_inbox st \<and> st_outbox t = st_outbox st"
  by (auto simp: getOrCreateSubscription_def tx_defs Let_def split: if_splits option.splits)

text \<open>The columns of a subscription and the tables a granted period leaves.\<close>

lemma grant_period_result:
  assumes "grant_period ids now meta payment order (sub, created) st = (Inr u, t)"
  defines "ext \<equiv> extends created sub now"
  defines "a \<equiv> (if ext then the (sub_CurrentPeriodEnd sub) else pay_PaidAt payment)"
  defines "b \<equiv> a + int64 (snap_DurationDays (ord_PlanSnapshot order) * 24 * Hour)"
  defines "c \<equiv> b + int64 (snap_GracePeriodHours (ord_PlanSnapshot order) * Hour)"
  defines "start \<equiv> (if ext then (case sub_CurrentPeriodStart sub of None \<Rightarrow> a | Some t \<Rightarrow> t) else a)"
  defines "status \<equiv> fst (statusAt now start b c)" and "nxt \<equiv> snd (statusAt now start b c)"
  shows "st_periods t = st_periods st @
      [new_period (ids_period ids) (sub_SubscriptionID sub) payment order a b c]"
    and "\<exists>n. st_subscriptions t = tbl_update (\<lambda>s. sr_id s = sub_SubscriptionID sub)
      (\<lambda>s. s\<lparr>sr_status := status, sr_current_period_start := Some start,
        sr_current_period_end := Some b, sr_grace_ends_at := Some c, sr_next_transition_at := nxt,
        sr_transition_lease_until := None, sr_updated_at := now, sr_aggregate_sequence := n\<rparr>)
      (st_subscriptions st)"
    and "\<exists>row. st_outbox t = st_outbox st @ [row]"
    and "recorded meta pid uid st \<Longrightarrow> recorded meta pid uid t"
proof -
  let ?sid = "sub_SubscriptionID sub"
  have sa: "statusAt now start b c = (status, nxt)" by (simp add: status_def nxt_def)
  note shape = assms(1) [unfolded grant_period_def prod.case Let_def, folded ext_def, folded a_def,
      folded b_def, folded c_def, folded start_def, unfolded sa prod.case tx_bind_Inr]
  from shape obtain st1 st2 st3 u1 u2 u3 topic dk data where
    ins: "insert_period (new_period (ids_period ids) ?sid payment order a b c) st = (Inr u1, st1)"
    and upd: "updateSubscription ?sid status start b c nxt now st1 = (Inr u2, st2)"
    and out: "insertOutbox (ids_event ids) topic ?sid (pay_UserID payment) dk (meta_CorrelationID meta)
       (Some (meta_EventID meta)) now data st2 = (Inr u3, st3)"
    and mark: "markInboxProcessed (meta_EventID meta) now st3 = (Inr u, t)"
    by blast
  from out obtain s :: sub_row and row where st3: "st3 = (update_sub ?sid
      (\<lambda>s'. s'\<lparr>sr_aggregate_sequence := sr_aggregate_sequence s + 1\<rparr>) st2)\<lparr>st_outbox := st_outbox st2 @ [row]\<rparr>"
    by (rule insertOutbox_result) blast
  note parts = insert_period_result [OF ins] updateSubscription_result [OF upd] st3
  have t: "st_periods t = st_periods st3" "st_subscriptions t = st_subscriptions st3" "st_outbox t = st_outbox st3"
    using mark by (auto simp: markInboxProcessed_def tx_defs update_inbox_def)
  show "st_periods t = st_periods st @ [new_period (ids_period ids) ?sid payment order a b c]"
    using parts t by (simp add: update_sub_def)
  show "\<exists>row. st_outbox t = st_outbox st @ [row]" using parts t by (simp add: update_sub_def)
  show "\<exists>n. st_subscriptions t = tbl_update (\<lambda>s. sr_id s = ?sid)
      (\<lambda>s. s\<lparr>sr_status := status, sr_current_period_start := Some start,
        sr_current_period_end := Some b, sr_grace_ends_at := Some c, sr_next_transition_at := nxt,
        sr_transition_lease_until := None, sr_updated_at := now, sr_aggregate_sequence := n\<rparr>)
      (st_subscriptions st)"
    using parts t by (intro exI [of _ "sr_aggregate_sequence s + 1"]) (auto simp: update_sub_def tbl_update_def)
  assume "recorded meta pid uid st"
  then have "recorded meta pid uid st3" using parts by (simp add: update_sub_def recorded_def)
  from recorded_markInboxProcessed [OF this mark] show "recorded meta pid uid t" .
qed

lemma applyPayment_records:
  assumes "applyPayment ids now meta payment order st = (Inr (), t)"
  shows "recorded meta (pay_PaymentID payment) (pay_UserID payment) t"
proof -
  from assms obtain b st1 where ins: "insertInbox meta (pay_PaymentID payment) (pay_UserID payment) None
      IbProcessing now st = (Inr b, st1)"
    and rest: "(if \<not> b then tx_return () else tx_bind (tx_get (find_payment (pay_PaymentID payment))) (\<lambda>existing.
       case existing of
         Some (p, s) \<Rightarrow>
           if sr_user_id s \<noteq> pay_UserID payment \<or> p_source_order_id p \<noteq> pay_OrderID payment
           then tx_fail ErrConflict
           else markInboxProcessed (meta_EventID meta) now
       | None \<Rightarrow>
           tx_bind (getOrCreateSubscription (ids_subscription ids) (pay_UserID payment) now)
             (grant_period ids now meta payment order))) st1 = (Inr (), t)"
    by (auto simp: applyPayment_def tx_bind_Inr)
  from ins have rec: "recorded meta (pay_PaymentID payment) (pay_UserID payment) st1"
    by (rule insertInbox_records)
  show ?thesis
  proof (cases "\<not> b")
    case True
    with rest rec show ?thesis by (simp add: tx_return_def)
  next
    case False
    show ?thesis
    proof (cases "find_payment (pay_PaymentID payment) st1")
      case (Some ps)
      with rest False rec show ?thesis
        by (cases ps) (auto simp: tx_bind_def tx_get_def tx_fail_def split: if_splits
            dest: recorded_markInboxProcessed)
    next
      case None
      with rest False obtain sc st2 where
        goc: "getOrCreateSubscription (ids_subscription ids) (pay_UserID payment) now st1 = (Inr sc, st2)"
        and gr: "grant_period ids now meta payment order sc st2 = (Inr (), t)"
        by (auto simp: tx_bind_Inr tx_get_def)
      from getOrCreate_frame [OF goc] rec have "recorded meta (pay_PaymentID payment) (pay_UserID payment) st2"
        by (simp add: recorded_def)
      with gr show ?thesis by (cases sc) (auto dest: grant_period_result(4))
    qed
  qed
qed


text \<open>A first delivery that succeeds, taken apart at the subscription row it works on.\<close>

lemma getOrCreate_result:
  assumes "getOrCreateSubscription newID uid now st = (Inr (sub, created), t)"
  obtains s where "sub = subscription_of_row s" "find_user uid t = Some s" "sr_user_id s = uid"
    "created \<longleftrightarrow> find_user uid st = None" "\<not> created \<Longrightarrow> find_user uid st = Some s"
    "st_periods t = st_periods st" "st_outbox t = st_outbox st" "st_inbox t = st_inbox st"
proof (cases "find_user uid st")
  case None
  then have "find (\<lambda>s. sr_user_id s = uid) (st_subscriptions st) = None" by (simp add: find_user_def)
  with None assms that show thesis
    by (auto simp: getOrCreateSubscription_def tx_defs Let_def find_user_def find_append split: if_splits)
next
  case (Some s)
  then have "sr_user_id s = uid" by (auto simp: find_user_def dest: find_SomeD)
  with Some assms show thesis by (intro that [of s]) (auto simp: getOrCreateSubscription_def tx_defs)
qed

lemma applyPayment_grant:
  assumes "first_delivery meta payment st" and "applyPayment ids now meta payment order st = (Inr (), t)"
  obtains s created st2 where
    "find_user (pay_UserID payment) st2 = Some s" "sr_user_id s = pay_UserID payment"
    "created \<longleftrightarrow> find_user (pay_UserID payment) st = None"
    "\<not> created \<Longrightarrow> find_user (pay_UserID payment) st = Some s"
    "st_periods st2 = st_periods st" "st_outbox st2 = st_outbox st"
    "grant_period ids now meta payment order (subscription_of_row s, created) st2 = (Inr (), t)"
proof -
  let ?st1 = "st\<lparr>st_inbox := st_inbox st @
        [new_inbox_row meta (pay_PaymentID payment) (pay_UserID payment) None IbProcessing now]\<rparr>"
  from assms obtain sub created st2 where
    goc: "getOrCreateSubscription (ids_subscription ids) (pay_UserID payment) now ?st1 = (Inr (sub, created), st2)"
    and gr: "grant_period ids now meta payment order (sub, created) st2 = (Inr (), t)"
    unfolding applyPayment_first [OF assms(1)] tx_bind_Inr by (auto simp: split_paired_Ex)
  from goc show thesis
  proof (cases rule: getOrCreate_result)
    case (1 s)
    with gr show thesis by (intro that [of st2 s created]) simp_all
  qed
qed

text \<open>The row of a subscription after the update of a granted period.\<close>

lemma find_user_update:
  assumes "find_user uid st = Some s" and "rows_inv st"
    and "st_subscriptions t = tbl_update (\<lambda>r. sr_id r = sr_id s) f (st_subscriptions st)"
    and "\<And>r. sr_user_id (f r) = sr_user_id r"
  shows "find_user uid t = Some (f s)"
  using assms(1) unfolding find_user_def assms(3)
  by (simp add: find_tbl_update_same assms(4))

lemma find_payment_of:
  assumes "rows_inv st" and "p \<in> set (st_periods st)" and "s \<in> set (st_subscriptions st)"
    and "p_subscription_id p = sr_id s"
  shows "find_payment (p_source_payment_id p) st = Some (p, s)"
proof -
  from assms(1) have d: "distinct (map p_source_payment_id (st_periods st))" "distinct (map sr_id (st_subscriptions st))"
    by (auto simp: rows_inv_def periods_inv_def subs_inv_def)
  from find_unique [OF d(1) assms(2)] find_unique [OF d(2) assms(3)] assms(4) show ?thesis
    by (simp add: find_payment_def find_subscription_def)
qed

lemma applyPayment_inv: "rows_inv st \<Longrightarrow> applyPayment ids now meta payment order st = (Inr u, t) \<Longrightarrow> rows_inv t"
  using keep_applyPayment by (rule tx_validD_Inr)

lemma applyPayment_finds:
  assumes inv: "rows_inv st" and first: "first_delivery meta payment st"
    and run: "applyPayment ids now meta payment order st = (Inr (), t)"
  obtains p s where "st_periods t = st_periods st @ [p]" "find_payment (pay_PaymentID payment) t = Some (p, s)"
    "sr_user_id s = pay_UserID payment" "p_source_order_id p = pay_OrderID payment"
    "p_source_payment_id p = pay_PaymentID payment" "p_subscription_id p = sr_id s"
    "p_plan_id p = pay_PlanID payment" "p_amount_minor p = pay_AmountMinor payment"
    "p_currency p = pay_Currency payment" "p_paid_at p = pay_PaidAt payment" "p_status p = Paid"
  using first run
proof (cases rule: applyPayment_grant)
  case (1 s created st2)
  note res = grant_period_result [OF 1(7)]
  from res(1) obtain a b c where per: "st_periods t = st_periods st @
      [new_period (ids_period ids) (sub_SubscriptionID (subscription_of_row s)) payment order a b c]"
    unfolding 1(5) by blast
  let ?p = "new_period (ids_period ids) (sr_id s) payment order a b c"
  from res(2) obtain f where subs: "st_subscriptions t = tbl_update (\<lambda>r. sr_id r = sr_id s) f (st_subscriptions st2)"
    and f: "\<And>r. sr_user_id (f r) = sr_user_id r" "\<And>r. sr_id (f r) = sr_id r"
    by (auto simp: subscription_of_row_def)
  from 1(1) have "s \<in> set (st_subscriptions st2)" by (auto simp: find_user_def dest: find_SomeD)
  then have fs: "f s \<in> set (st_subscriptions t)" unfolding subs by (auto simp: tbl_update_def)
  from per have p: "st_periods t = st_periods st @ [?p]" by (simp add: subscription_of_row_def)
  have "find_payment (p_source_payment_id ?p) t = Some (?p, f s)"
    by (rule find_payment_of [OF applyPayment_inv [OF inv run] _ fs])
      (simp_all add: p f new_period_def Let_def)
  then show thesis
    by (intro that [of ?p "f s"]) (simp_all add: p f 1(2) new_period_def Let_def)
qed

text \<open>A later event of the same payment changes nothing but the inbox.\<close>

lemma applyPayment_known:
  assumes "find_payment (pay_PaymentID payment) st = Some (p, s)"
    and "applyPayment ids now meta payment order st = (r, t)"
  shows "st_periods t = st_periods st \<and> st_subscriptions t = st_subscriptions st \<and> st_outbox t = st_outbox st"
  using assms
  by (auto simp: applyPayment_def tx_bind_def tx_defs markInboxProcessed_def update_inbox_def
      split: prod.splits sum.splits if_splits dest!: insertInbox_frame)


lemma recordPaymentReplay_known:
  assumes "find_payment (pay_PaymentID payment) st = Some (p, s)"
    and "recordPaymentReplay now meta payment st = (r, t)"
  shows "st_periods t = st_periods st \<and> st_subscriptions t = st_subscriptions st \<and> st_outbox t = st_outbox st"
  using assms
  by (auto simp: recordPaymentReplay_def tx_bind_def tx_defs update_inbox_def
      split: prod.splits sum.splits if_splits dest!: insertInbox_frame)

section \<open>Sample data\<close>

definition sample_uuid :: "string \<Rightarrow> uuid" where
  "sample_uuid n = ''00000000-0000-4000-8000-0000000000'' @ n"

definition sample_meta :: "string \<Rightarrow> uuid \<Rightarrow> uuid \<Rightarrow> instant \<Rightarrow> int \<Rightarrow> EventMeta" where
  "sample_meta typ eid agg at off = \<lparr>meta_EventID = eid, meta_EventType = typ, meta_AggregateID = agg,
     meta_CorrelationID = sample_uuid ''c0'', meta_CausationID = None, meta_OccurredAt = at,
     meta_SourceTopic = typ, meta_SourcePartition = 0, meta_SourceOffset = off,
     meta_PayloadSHA256 = replicate 64 CHR ''a''\<rparr>"

definition sample_payment :: "string \<Rightarrow> instant \<Rightarrow> PaymentSucceeded" where
  "sample_payment n at = \<lparr>pay_PaymentID = sample_uuid (''1'' @ n), pay_OrderID = sample_uuid (''2'' @ n),
     pay_UserID = sample_uuid ''33'', pay_PlanID = ''basic'', pay_AmountMinor = 500,
     pay_Currency = ''EUR'', pay_PaidAt = at\<rparr>"

definition sample_order :: "string \<Rightarrow> Order" where
  "sample_order n = \<lparr>ord_OrderID = sample_uuid (''2'' @ n), ord_UserID = sample_uuid ''33'',
     ord_Status = ''paid'', ord_AmountMinor = 500, ord_Currency = ''EUR'',
     ord_PlanSnapshot = \<lparr>snap_PlanID = ''basic'', snap_DurationDays = 1, snap_GracePeriodHours = 2,
       snap_AmountMinor = 500, snap_Currency = ''EUR'', snap_Region = ''nl'', snap_PrimaryNodes = 1,
       snap_FailoverNodes = 1\<rparr>\<rparr>"

definition sample_payment_meta :: "string \<Rightarrow> instant \<Rightarrow> EventMeta" where
  "sample_payment_meta n at = sample_meta ''billing.payment.succeeded.v1'' (sample_uuid (''4'' @ n))
     (sample_uuid (''1'' @ n)) at (if n = ''0'' then 0 else if n = ''1'' then 1 else if n = ''2'' then 2 else 3)"

definition sample_ids :: "string \<Rightarrow> new_ids" where
  "sample_ids n = \<lparr>ids_subscription = sample_uuid ''50'', ids_period = sample_uuid (''6'' @ n),
     ids_event = sample_uuid (''7'' @ n)\<rparr>"

definition pay_sample :: "string \<Rightarrow> instant \<Rightarrow> sub_store \<Rightarrow> (sub_error + unit) \<times> sub_store" where
  "pay_sample n at = applyPayment (sample_ids n) at (sample_payment_meta n at) (sample_payment n at) (sample_order n)"

definition paid_once :: sub_store where
  "paid_once = snd (pay_sample ''0'' 1000 empty_sub_store)"

lemma sample_validates:
  "validatePayment (sample_payment_meta ''0'' 1000) (sample_payment ''0'' 1000) = None"
  "validateOrder (sample_payment ''0'' 1000) (sample_order ''0'') = None"
  "validateOrder (sample_payment ''1'' 2000) (sample_order ''1'') = None"
  by code_simp+

lemma paid_once_run: "pay_sample ''0'' 1000 empty_sub_store = (Inr (), paid_once)"
proof -
  have "fst (pay_sample ''0'' 1000 empty_sub_store) = Inr ()" by code_simp
  then show ?thesis by (metis paid_once_def prod.collapse)
qed

lemma paid_once_reachable: "sub_reachable paid_once"
proof -
  have "snd (run_tx InfraError NoFault (pay_sample ''0'' 1000) empty_sub_store) = paid_once"
    using run_tx_NoFault(1) [of "pay_sample ''0'' 1000" empty_sub_store "()" paid_once InfraError] paid_once_run
    by simp
  then show ?thesis
    using reach_step [OF reach_empty step_payment [OF sample_validates(1,2)], of NoFault "sample_ids ''0''" 1000]
    unfolding pay_sample_def by simp
qed

section \<open>Properties of payments\<close>




lemma order_durations:
  assumes "validateOrder payment order = None"
  shows "int64 (snap_DurationDays (ord_PlanSnapshot order) * 24 * Hour) = snap_DurationDays (ord_PlanSnapshot order) * 24 * Hour"
    and "int64 (snap_GracePeriodHours (ord_PlanSnapshot order) * Hour) = snap_GracePeriodHours (ord_PlanSnapshot order) * Hour"
    and "0 < snap_DurationDays (ord_PlanSnapshot order) * 24 * Hour"
    and "0 \<le> snap_GracePeriodHours (ord_PlanSnapshot order) * Hour"
  using validateOrder_None(4-7) [OF assms] by (auto simp: go_units intro!: int64_id)

text \<open>What a granted period looks like, and the row of its subscription.\<close>

lemma applyPayment_window:
  assumes inv: "rows_inv st" and first: "first_delivery meta payment st"
    and ord: "validateOrder payment order = None"
    and run: "applyPayment ids now meta payment order st = (Inr (), t)"
    and s: "find_user (pay_UserID payment) st = Some s"
  defines "ext \<equiv> extends False (subscription_of_row s) now"
  defines "a \<equiv> (if ext then the (sr_current_period_end s) else pay_PaidAt payment)"
  defines "b \<equiv> a + snap_DurationDays (ord_PlanSnapshot order) * 24 * Hour"
  defines "c \<equiv> b + snap_GracePeriodHours (ord_PlanSnapshot order) * Hour"
  defines "start \<equiv> (if ext then (case sr_current_period_start s of None \<Rightarrow> a | Some t \<Rightarrow> t) else a)"
  shows "st_periods t = st_periods st @ [new_period (ids_period ids) (sr_id s) payment order a b c]
    \<and> (\<exists>n. find_user (pay_UserID payment) t = Some (s\<lparr>sr_status := fst (statusAt now start b c),
        sr_current_period_start := Some start, sr_current_period_end := Some b, sr_grace_ends_at := Some c,
        sr_next_transition_at := snd (statusAt now start b c), sr_transition_lease_until := None,
        sr_updated_at := now, sr_aggregate_sequence := n\<rparr>))"
  using first run
proof (cases rule: applyPayment_grant)
  case (1 s' created st2)
  with s have [simp]: "s' = s" "created = False" by auto
  note res = grant_period_result [OF 1(7)]
  have eqs [simp]: "sub_SubscriptionID (subscription_of_row s) = sr_id s"
    "sub_CurrentPeriodEnd (subscription_of_row s) = sr_current_period_end s"
    "sub_CurrentPeriodStart (subscription_of_row s) = sr_current_period_start s"
    by (simp_all add: subscription_of_row_def)
  note res' = res(1,2) [unfolded \<open>s' = s\<close> \<open>created = False\<close> eqs order_durations(1,2) [OF ord],
      folded ext_def, folded a_def, folded b_def, folded c_def, folded start_def]
  from res'(2) obtain n where subs: "st_subscriptions t = tbl_update (\<lambda>r. sr_id r = sr_id s)
      (\<lambda>r. r\<lparr>sr_status := fst (statusAt now start b c),
        sr_current_period_start := Some start, sr_current_period_end := Some b, sr_grace_ends_at := Some c,
        sr_next_transition_at := snd (statusAt now start b c), sr_transition_lease_until := None,
        sr_updated_at := now, sr_aggregate_sequence := n\<rparr>) (st_subscriptions st2)" by blast
  have "find_user (pay_UserID payment) t = Some (s\<lparr>sr_status := fst (statusAt now start b c),
        sr_current_period_start := Some start, sr_current_period_end := Some b, sr_grace_ends_at := Some c,
        sr_next_transition_at := snd (statusAt now start b c), sr_transition_lease_until := None,
        sr_updated_at := now, sr_aggregate_sequence := n\<rparr>)"
    using 1(1) unfolding find_user_def subs by (simp add: find_tbl_update_same)
  with res'(1) 1(5) show ?thesis by auto
qed

lemma reachable_window:
  assumes "sub_reachable st" and "find_user uid st = Some s" and "sr_status s \<in> {StatusActive, StatusGrace}"
  obtains a b c where "sr_current_period_start s = Some a" "sr_current_period_end s = Some b"
    "sr_grace_ends_at s = Some c" "a < b" "b \<le> c"
proof -
  from assms(2) have s: "s \<in> set (st_subscriptions st)" by (auto simp: find_user_def dest: find_SomeD)
  with reachable_scheduled [OF assms(1)] assms(3) have "sr_current_period_start s \<noteq> None"
    by (auto simp: scheduled_def sched_row_def)
  moreover from s reachable_rows [OF assms(1)] have "window_ok s" by (auto simp: rows_inv_def subs_inv_def)
  ultimately show thesis using that by (auto simp: window_ok_def window_check_def)
qed

text \<open>C4: A renewal continues the current window without gap or loss. When a subscription that is
  active or in grace (its grace still open) is paid for again, the new period starts exactly at
  the current end, lasts the plan's days and grace hours without overflow, the subscription keeps
  its start and ends with the new period, and its status and next transition are those of the
  extended window at the current time.\<close>

theorem renewal_extends:
  assumes "sub_reachable st" and "first_delivery meta payment st" and "validateOrder payment order = None"
    and "applyPayment ids now meta payment order st = (Inr (), t)"
    and "find_user (pay_UserID payment) st = Some s" and "sr_status s \<in> {StatusActive, StatusGrace}"
    and "sr_grace_ends_at s = Some g" and "now < g" and "the (sr_current_period_start s) \<le> now"
  shows "\<exists>p s'. st_periods t = st_periods st @ [p] \<and> find_user (pay_UserID payment) t = Some s'
    \<and> sr_current_period_end s = Some (p_period_start p)
    \<and> p_period_end p = p_period_start p + snap_DurationDays (ord_PlanSnapshot order) * 24 * Hour
    \<and> p_grace_ends_at p = p_period_end p + snap_GracePeriodHours (ord_PlanSnapshot order) * Hour
    \<and> sr_current_period_start s' = sr_current_period_start s
    \<and> sr_current_period_end s' = Some (p_period_end p) \<and> sr_grace_ends_at s' = Some (p_grace_ends_at p)
    \<and> sr_status s' = (if now < p_period_end p then StatusActive else if now < p_grace_ends_at p then StatusGrace else StatusExpired)
    \<and> sr_next_transition_at s' = (if now < p_period_end p then Some (p_period_end p)
        else if now < p_grace_ends_at p then Some (p_grace_ends_at p) else None)"
proof -
  from assms(1,5,6) obtain a b c where w: "sr_current_period_start s = Some a" "sr_current_period_end s = Some b"
    "sr_grace_ends_at s = Some c" "a < b" "b \<le> c" by (rule reachable_window)
  with assms have ext: "extends False (subscription_of_row s) now"
    by (auto simp: extends_def subscription_of_row_def)
  from applyPayment_window [OF reachable_rows [OF assms(1)] assms(2,3,4,5)] ext w assms(9)
  show ?thesis by (auto simp: new_period_def Let_def statusAt_def)
qed


theorem renewal_extends_witness:
  "\<exists>t p. pay_sample ''1'' 2000 paid_once = (Inr (), t) \<and> st_periods t = st_periods paid_once @ [p]
     \<and> p_period_start p = 1000 + 24 * Hour \<and> p_period_end p = 1000 + 48 * Hour"
proof -
  obtain t where run: "pay_sample ''1'' 2000 paid_once = (Inr (), t)"
    by (rule that [of "snd (pay_sample ''1'' 2000 paid_once)"]) code_simp
  obtain s where s: "find_user (pay_UserID (sample_payment ''1'' 2000)) paid_once = Some s"
    and facts: "sr_status s \<in> {StatusActive, StatusGrace}" "sr_grace_ends_at s = Some (1000 + 26 * Hour)"
      "the (sr_current_period_start s) \<le> 2000" "sr_current_period_end s = Some (1000 + 24 * Hour)"
    by (rule that [of "the (find_user (pay_UserID (sample_payment ''1'' 2000)) paid_once)"]) code_simp+
  have first: "first_delivery (sample_payment_meta ''1'' 2000) (sample_payment ''1'' 2000) paid_once"
    by code_simp
  have "2000 < 1000 + 26 * Hour" "snap_DurationDays (ord_PlanSnapshot (sample_order ''1'')) = 1"
    by code_simp+
  with renewal_extends [OF paid_once_reachable first sample_validates(3) run [unfolded pay_sample_def] s facts(1,2) _ facts(3)]
    run facts(4) show ?thesis by auto
qed

section \<open>A valid payment is accepted\<close>

lemma insertOutbox_ok:
  assumes inv: "rows_inv st" and s: "find_subscription sid st = Some s"
    and eid: "eid \<notin> ob_event_id ` set (st_outbox st)" and dk: "dk \<notin> ob_dedupe_key ` set (st_outbox st)"
  shows "\<exists>t. insertOutbox eid topic sid uid dk corr caus now data st = (Inr (), t)"
proof -
  have "\<not> outbox_clash eid sid (sr_aggregate_sequence s + 1) (st_outbox st)"
    using eid sequence_bound [OF inv s] by (force simp: outbox_clash_def list_ex_iff)
  moreover have "\<not> list_ex (\<lambda>o1. ob_dedupe_key o1 = dk) (st_outbox st)"
    using dk by (auto simp: list_ex_iff)
  ultimately show ?thesis using s by (simp add: insertOutbox_def tx_defs Let_def update_sub_def)
qed

text \<open>Identifiers a payment needs unused, and the text lengths the table accepts.\<close>

definition fresh_ids :: "new_ids \<Rightarrow> PaymentSucceeded \<Rightarrow> sub_store \<Rightarrow> bool" where
  "fresh_ids ids payment st \<longleftrightarrow>
     ids_period ids \<notin> p_id ` set (st_periods st)
     \<and> pay_OrderID payment \<notin> p_source_order_id ` set (st_periods st)
     \<and> pay_PaymentID payment \<notin> p_source_payment_id ` set (st_periods st)
     \<and> ids_subscription ids \<notin> sr_id ` set (st_subscriptions st)
     \<and> ids_event ids \<notin> ob_event_id ` set (st_outbox st)
     \<and> (\<forall>topic. DkPayment (pay_PaymentID payment) topic \<notin> ob_dedupe_key ` set (st_outbox st))"

definition text_fits :: "PaymentSucceeded \<Rightarrow> Order \<Rightarrow> bool" where
  "text_fits payment order \<longleftrightarrow>
     1 \<le> pg_length (pay_PlanID payment) \<and> pg_length (pay_PlanID payment) \<le> 128
     \<and> 2 \<le> pg_length (snap_Region (ord_PlanSnapshot order))
     \<and> pg_length (snap_Region (ord_PlanSnapshot order)) \<le> 64"

lemma valid_period_check:
  assumes "validatePayment meta payment = None" and "validateOrder payment order = None"
    and "text_fits payment order" and "a < b" and "b \<le> c"
  shows "period_check (new_period pid sid payment order a b c)"
  using assms(3-5) validatePayment_None(4,5) [OF assms(1)] validateOrder_None(3-10) [OF assms(2)]
  by (simp add: period_check_def new_period_def Let_def text_fits_def)

lemma grant_period_ok:
  assumes inv: "rows_inv st" and s: "find_subscription (sr_id s) st = Some s" and w: "window_ok s"
    and act: "extends created (subscription_of_row s) now \<Longrightarrow> sr_current_period_start s \<noteq> None"
    and val: "validatePayment meta payment = None" "validateOrder payment order = None" "text_fits payment order"
    and ids: "fresh_ids ids payment (st\<lparr>st_subscriptions := ss\<rparr>)"
  shows "\<exists>t. grant_period ids now meta payment order (subscription_of_row s, created) st = (Inr (), t)"
proof -
  let ?sub = "subscription_of_row s"
  define ext where "ext = extends created ?sub now"
  define a where "a = (if ext then the (sub_CurrentPeriodEnd ?sub) else pay_PaidAt payment)"
  define b where "b = a + int64 (snap_DurationDays (ord_PlanSnapshot order) * 24 * Hour)"
  define c where "c = b + int64 (snap_GracePeriodHours (ord_PlanSnapshot order) * Hour)"
  define start where "start = (if ext then (case sub_CurrentPeriodStart ?sub of None \<Rightarrow> a | Some t \<Rightarrow> t) else a)"
  obtain status nxt where sa: "statusAt now start b c = (status, nxt)" by fastforce
  have sid: "sub_SubscriptionID ?sub = sr_id s" by (simp add: subscription_of_row_def)
  note dur = order_durations [OF val(2)]
  have abc: "a < b" "b \<le> c" using dur by (simp_all add: b_def c_def)
  have start: "start \<le> a"
    using w act unfolding start_def a_def ext_def
    by (auto simp: window_ok_def window_check_def subscription_of_row_def split: option.splits)
  let ?p = "new_period (ids_period ids) (sr_id s) payment order a b c"
  let ?st1 = "st\<lparr>st_periods := st_periods st @ [?p]\<rparr>"
  have "\<not> period_clash ?p (st_periods st)"
  proof -
    from ids have "ids_period ids \<notin> p_id ` set (st_periods st)" "pay_OrderID payment \<notin> p_source_order_id ` set (st_periods st)"
      "pay_PaymentID payment \<notin> p_source_payment_id ` set (st_periods st)" by (simp_all add: fresh_ids_def)
    then show ?thesis by (auto simp: period_clash_def list_ex_iff new_period_def Let_def image_iff)
  qed
  with valid_period_check [OF val abc] s
  have ins: "insert_period ?p st = (Inr (), ?st1)"
    by (simp add: insert_period_def tx_defs) (simp add: new_period_def Let_def)
  define st2 where "st2 = update_sub (sr_id s) (\<lambda>s. s\<lparr>sr_status := status, sr_current_period_start := Some start,
        sr_current_period_end := Some b, sr_grace_ends_at := Some c,
        sr_next_transition_at := nxt, sr_transition_lease_until := None, sr_updated_at := now\<rparr>) ?st1"
  have upd: "updateSubscription (sr_id s) status start b c nxt now ?st1 = (Inr (), st2)"
    using start abc by (simp add: updateSubscription_def window_check_def tx_defs st2_def)
  have inv2: "rows_inv st2"
    using tx_validD_Inr [OF keep_updateSubscription tx_validD_Inr [OF keep_new_period inv ins] upd] .
  obtain s2 where "find_subscription (sr_id s) st2 = Some s2"
    using s unfolding st2_def update_sub_def find_subscription_def by (simp add: find_tbl_update_same)
  moreover have "st_outbox st2 = st_outbox st" by (simp add: st2_def update_sub_def)
  ultimately have out: "\<exists>st3. insertOutbox (ids_event ids) topic (sr_id s) uid (DkPayment (pay_PaymentID payment) topic2)
      corr caus now data st2 = (Inr (), st3)" for topic topic2 uid corr caus data
    using ids by (intro insertOutbox_ok [OF inv2]) (auto simp: fresh_ids_def)
  show ?thesis
    unfolding grant_period_def prod.case Let_def sid ext_def [symmetric] a_def [symmetric] b_def [symmetric]
      c_def [symmetric] start_def [symmetric] sa
    by (rule tx_bind_ok, rule ins, rule tx_bind_ok, rule upd, rule tx_bind_ok_ex, rule out)
      (simp add: markInboxProcessed_def tx_modify_def)
qed


text \<open>C5: A valid payment is accepted. In every reachable store, a first delivery of a payment that
  passes \<open>validatePayment\<close>, with an order that passes \<open>validateOrder\<close> and texts of the lengths
  the period table allows, succeeds whenever the random identifiers, the order and the payment
  are unused: no other constraint of the database can refuse it.\<close>

theorem payment_accepted:
  assumes "sub_reachable st" and "first_delivery meta payment st"
    and "validatePayment meta payment = None" and "validateOrder payment order = None"
    and "text_fits payment order" and "fresh_ids ids payment st"
  shows "\<exists>t. applyPayment ids now meta payment order st = (Inr (), t)"
proof -
  have inv: "rows_inv st" and sch: "scheduled {} st"
    using assms(1) by (auto intro: reachable_rows reachable_scheduled)
  let ?row = "new_inbox_row meta (pay_PaymentID payment) (pay_UserID payment) None IbProcessing now"
  let ?st1 = "st\<lparr>st_inbox := st_inbox st @ [?row]\<rparr>"
  from assms(2) have inv1: "rows_inv ?st1"
    using tx_validD_Inr [OF keep_insertInbox inv insertInbox_fresh] by (auto simp: first_delivery_def)
  have fr: "fresh_ids ids payment (t\<lparr>st_subscriptions := st_subscriptions st\<rparr>)"
    if "st_periods t = st_periods st" "st_outbox t = st_outbox st" for t
    using assms(6) that by (simp add: fresh_ids_def)
  show ?thesis
  proof (cases "find_user (pay_UserID payment) st")
    case (Some s)
    then have mem: "s \<in> set (st_subscriptions st)" by (auto simp: find_user_def dest: find_SomeD)
    with inv have "find_subscription (sr_id s) ?st1 = Some s" "window_ok s"
      by (auto simp: rows_inv_def subs_inv_def find_subscription_def intro: find_unique)
    moreover have "sr_current_period_start s \<noteq> None" if "extends False (subscription_of_row s) now"
      using that mem sch by (auto simp: extends_def subscription_of_row_def scheduled_def sched_row_def)
    ultimately have gr: "\<exists>t. grant_period ids now meta payment order (subscription_of_row s, False) ?st1 = (Inr (), t)"
      using fr [of ?st1] by (intro grant_period_ok [OF inv1 _ _ _ assms(3-5), where ss = "st_subscriptions st"]) auto
    from Some have goc: "getOrCreateSubscription (ids_subscription ids) (pay_UserID payment) now ?st1 =
        (Inr (subscription_of_row s, False), ?st1)"
      by (simp add: getOrCreateSubscription_def tx_defs)
    from gr show ?thesis unfolding applyPayment_first [OF assms(2)] by (simp add: tx_bind_def goc)
  next
    case None
    define s where "s = \<lparr>sr_id = ids_subscription ids, sr_user_id = pay_UserID payment, sr_status = StatusPending,
                        sr_current_period_start = None, sr_current_period_end = None,
                        sr_grace_ends_at = None, sr_next_transition_at = None,
                        sr_transition_lease_until = None, sr_aggregate_sequence = 0,
                        sr_updated_at = now\<rparr>"
    define st2 where "st2 = ?st1\<lparr>st_subscriptions := st_subscriptions st @ [s]\<rparr>"
    from assms(6) have no: "find_subscription (ids_subscription ids) st = None"
      unfolding find_subscription_def find_None_key by (simp add: fresh_ids_def)
    with None have goc: "getOrCreateSubscription (ids_subscription ids) (pay_UserID payment) now ?st1 =
        (Inr (subscription_of_row s, True), st2)"
      by (simp add: getOrCreateSubscription_def tx_defs Let_def s_def st2_def)
    have inv2: "rows_inv st2" using tx_validD_Inr [OF keep_getOrCreate inv1 goc] .
    from no have "find_subscription (sr_id s) st2 = Some s"
      by (simp add: find_subscription_def st2_def find_append s_def)
    then have gr: "\<exists>t. grant_period ids now meta payment order (subscription_of_row s, True) st2 = (Inr (), t)"
      using fr [of st2]
      by (intro grant_period_ok [OF inv2 _ _ _ assms(3-5), where ss = "st_subscriptions st"])
        (auto simp: extends_def window_ok_def s_def st2_def)
    from gr show ?thesis unfolding applyPayment_first [OF assms(2)] by (simp add: tx_bind_def goc)
  qed
qed

theorem payment_accepted_witness:
  "\<exists>t. pay_sample ''0'' 1000 empty_sub_store = (Inr (), t)"
proof -
  have "first_delivery (sample_payment_meta ''0'' 1000) (sample_payment ''0'' 1000) empty_sub_store"
    "text_fits (sample_payment ''0'' 1000) (sample_order ''0'')" by code_simp+
  moreover have "fresh_ids (sample_ids ''0'') (sample_payment ''0'' 1000) empty_sub_store"
    by (simp add: fresh_ids_def empty_sub_store_def)
  ultimately show ?thesis unfolding pay_sample_def
    by (intro payment_accepted [OF reach_empty _ sample_validates(1,2)])
qed

text \<open>From here on the results of the primitive bodies are rewrite rules.\<close>

declare tx_results [simp]

end
