(* ===== verification/Subscription_Transitions.thy ===== *)
theory Subscription_Transitions
  imports Subscription_Properties
begin

text \<open>
  Refunds, due transitions, administrative revokes and publication: what each does to the
  subscription row, stated against the coverage specification \<open>entitled_status\<close>, and what
  every reachable store keeps. The last section shows two behaviours of the code that
  differ from what its events and its dunning rules suggest.
\<close>

section \<open>Rows under the primitive writes\<close>

lemma find_subscription_update:
  assumes "\<And>r. sr_id (f r) = sr_id r"
  shows "find_subscription sid (update_sub sid f st) = map_option f (find_subscription sid st)"
proof -
  have "find_subscription sid (update_sub sid f st) =
      map_option (\<lambda>r. if sr_id r = sid then f r else r) (find_subscription sid st)"
    unfolding find_subscription_def update_sub_def by (simp add: find_tbl_update_same assms)
  then show ?thesis
    by (cases "find_subscription sid st") (auto simp: find_subscription_def dest: find_SomeD)
qed

text \<open>A subscription row up to its sequence number, which only \<open>insertOutbox\<close> writes.\<close>

definition same_but_sequence :: "sub_row \<Rightarrow> sub_row \<Rightarrow> bool" where
  "same_but_sequence a b \<longleftrightarrow> (\<exists>n. b = a\<lparr>sr_aggregate_sequence := n\<rparr>)"

lemma same_but_sequence_refl [simp]: "same_but_sequence a a"
  unfolding same_but_sequence_def by (rule exI [of _ "sr_aggregate_sequence a"]) simp

lemma insertOutbox_frame:
  assumes "insertOutbox eid topic sid uid dk corr caus now data st = (Inr u, t)"
    and "find_subscription sid st = Some s"
  shows "st_periods t = st_periods st" and "\<exists>s'. find_subscription sid t = Some s' \<and> same_but_sequence s s'"
    and "\<exists>row. st_outbox t = st_outbox st @ [row] \<and> ob_topic row = topic \<and> ob_dedupe_key row = dk"
    and "st_admin_revokes t = st_admin_revokes st"
proof -
  from assms(1) obtain s0 row where s0: "find_subscription sid st = Some s0" and row: "ob_topic row = topic" "ob_dedupe_key row = dk"
    and t: "t = (update_sub sid (\<lambda>s'. s'\<lparr>sr_aggregate_sequence := sr_aggregate_sequence s0 + 1\<rparr>) st)
        \<lparr>st_outbox := st_outbox st @ [row]\<rparr>" by (rule insertOutbox_result)
  from t show "st_periods t = st_periods st" "st_admin_revokes t = st_admin_revokes st"
    by (simp_all add: update_sub_def)
  have "find_subscription sid t = find_subscription sid
      (update_sub sid (\<lambda>s'. s'\<lparr>sr_aggregate_sequence := sr_aggregate_sequence s0 + 1\<rparr>) st)"
    by (simp add: t find_subscription_def)
  with assms(2) show "\<exists>s'. find_subscription sid t = Some s' \<and> same_but_sequence s s'"
    by (auto simp: find_subscription_update same_but_sequence_def)
  from t row show "\<exists>row. st_outbox t = st_outbox st @ [row] \<and> ob_topic row = topic \<and> ob_dedupe_key row = dk"
    by simp
qed

lemma same_but_sequence_trans [trans]:
  "same_but_sequence a b \<Longrightarrow> same_but_sequence b c \<Longrightarrow> same_but_sequence a c"
  by (auto simp: same_but_sequence_def)

section \<open>Due transitions\<close>

text \<open>One optional event: written or not, the periods and the row's other columns stay.\<close>

lemma optional_event_frame:
  assumes "(if c then insertOutbox eid topic sid uid dk corr caus now data else tx_return ()) st = (Inr u, t)"
    and "find_subscription sid st = Some s"
  shows "st_periods t = st_periods st \<and> (\<exists>s'. find_subscription sid t = Some s' \<and> same_but_sequence s s')"
  using assms by (auto split: if_splits dest: insertOutbox_frame(1,2))

lemma transition_event_frame:
  assumes "transition_event eid now sid uid old e st = (Inr u, t)" and "find_subscription sid st = Some s"
  shows "st_periods t = st_periods st \<and> (\<exists>s'. find_subscription sid t = Some s' \<and> same_but_sequence s s')"
proof -
  from assms(1) obtain st1 st2 u1 u2 where
    e1: "(if old \<noteq> StatusPending \<and> ent_Status e = StatusPending
              then insertOutbox eid ''subscription.expired.v1'' sid uid
                     (DkGapExpired (row_ID (ent_Period e))) [] None now
                     (TerminalEvent \<lparr>ted_SubscriptionID = sid, ted_UserID = uid,
                        ted_Reason = ''expired'', ted_AffectedPeriodIDs = [], ted_EffectiveAt = now\<rparr>)
              else tx_return ()) st = (Inr u1, st1)"
    and e2: "(if old = StatusPending \<and> ent_Status e = StatusActive
              then tx_bind (tx_get (period_event sid uid (row_ID (ent_Period e)))) (\<lambda>data.
                case data of
                  None \<Rightarrow> tx_fail InfraError
                | Some d \<Rightarrow> insertOutbox eid ''subscription.activated.v1'' sid uid
                              (DkTransitionActivated (row_ID (ent_Period e))) [] None now d)
              else tx_return ()) st1 = (Inr u2, st2)"
    and e3: "(if old = StatusActive \<and> ent_Status e = StatusGrace
     then insertOutbox eid ''subscription.grace.started.v1'' sid uid
            (DkGrace sid (ent_End e)) [] None now
            (GraceStarted \<lparr>ged_SubscriptionID = sid, ged_UserID = uid, ged_PeriodEnd = ent_End e,
               ged_GraceEndsAt = ent_Grace e, ged_EffectiveAt = ent_End e\<rparr>)
     else tx_return ()) st2 = (Inr u, t)"
    unfolding transition_event_def tx_bind_Inr by blast
  from optional_event_frame [OF e1 assms(2)] obtain s1 where
    s1: "st_periods st1 = st_periods st" "find_subscription sid st1 = Some s1" "same_but_sequence s s1" by blast
  from e2 s1(2) have "st_periods st2 = st_periods st1 \<and> (\<exists>s'. find_subscription sid st2 = Some s' \<and> same_but_sequence s1 s')"
    by (auto simp: tx_bind_Inr split: if_splits option.splits dest: insertOutbox_frame(1,2))
  with s1 obtain s2 where
    s2: "st_periods st2 = st_periods st" "find_subscription sid st2 = Some s2" "same_but_sequence s s2"
    by (auto intro: same_but_sequence_trans)
  from optional_event_frame [OF e3 s2(2)] s2 show ?thesis by (auto intro: same_but_sequence_trans)
qed

lemma updateSubscription_row:
  assumes "updateSubscription sid status a b c nxt now st = (Inr u, t)" and "find_subscription sid st = Some s"
  shows "st_periods t = st_periods st \<and> st_outbox t = st_outbox st \<and>
    find_subscription sid t = Some (s\<lparr>sr_status := status, sr_current_period_start := Some a,
        sr_current_period_end := Some b, sr_grace_ends_at := Some c, sr_next_transition_at := nxt,
        sr_transition_lease_until := None, sr_updated_at := now\<rparr>)"
proof -
  note res = updateSubscription_result [OF assms(1), THEN conjunct2]
  show ?thesis unfolding res using assms(2) by (simp add: find_subscription_update) (simp add: update_sub_def)
qed

lemma entitlement_status:
  assumes "rows_inv st"
  shows "map_option ent_Status (calculateEntitlement sid now (st_periods st)) = entitled_status sid now (st_periods st)"
  using rows_inv_wf [OF assms] by (rule calculate_entitled)

lemma entitlement_next:
  assumes "rows_inv st" and "calculateEntitlement sid now (st_periods st) = Some e"
  shows "\<exists>t. ent_Next e = Some t \<and> now < t"
  using calculate_cases [OF assms(2) rows_inv_wf [OF assms(1)]] by metis


definition claimed_sample :: sub_store where
  "claimed_sample = snd (ClaimDue (1000 + 25 * Hour) Minute [] paid_once)"

lemma claimed_sample_reachable: "sub_reachable claimed_sample"
  unfolding claimed_sample_def by (rule reach_step [OF paid_once_reachable step_claim_due])

text \<open>C6: A due transition brings the row to its specified status. When \<open>completeDue\<close> succeeds on a
  claimed subscription of a reachable store, the row's status is the one the coverage
  specification gives for its unrefunded periods at that time, or expired when none is left;
  the lease is gone, the periods are untouched, and the row has a next transition, strictly
  later, exactly when an entitlement is left.\<close>

theorem due_transition:
  assumes "sub_reachable st" and "find_subscription sid st = Some s" and "sr_transition_lease_until s \<noteq> None"
    and "completeDue eid now sid st = (Inr (), t)"
  shows "\<exists>s'. find_subscription sid t = Some s' \<and> sr_transition_lease_until s' = None
    \<and> st_periods t = st_periods st
    \<and> (case entitled_status sid now (st_periods st) of
         None \<Rightarrow> sr_status s' = StatusExpired \<and> sr_next_transition_at s' = None
       | Some status \<Rightarrow> sr_status s' = status \<and> (\<exists>u. sr_next_transition_at s' = Some u \<and> now < u))"
proof -
  have inv: "rows_inv st" using assms(1) by (rule reachable_rows)
  note spec = entitlement_status [OF inv, of sid now]
  show ?thesis
  proof (cases "calculateEntitlement sid now (st_periods st)")
    case None
    with assms obtain st1 u1 dk data where
      ev: "(if sr_status s \<noteq> StatusExpired \<and> sr_status s \<noteq> StatusRevoked
         then insertOutbox eid ''subscription.expired.v1'' sid (sr_user_id s) dk [] None now data
         else tx_return ()) st = (Inr u1, st1)"
      and ex: "expire_subscription sid now st1 = (Inr (), t)"
      unfolding completeDue_def tx_bind_Inr tx_get_Inr Let_def by (auto simp: tx_bind_Inr)
    from optional_event_frame [OF ev assms(2)] obtain s1 where
      "st_periods st1 = st_periods st" "find_subscription sid st1 = Some s1" by blast
    moreover from spec None have "entitled_status sid now (st_periods st) = None" by simp
    moreover have "st_periods (update_sub sid f st1) = st_periods st1" for f by (simp add: update_sub_def)
    ultimately show ?thesis using ex
      by (auto simp: expire_subscription_def find_subscription_update)
  next
    case (Some e)
    with assms obtain st1 u1 where
      ev: "transition_event eid now sid (sr_user_id s) (sr_status s) e st = (Inr u1, st1)"
      and up: "updateSubscription sid (ent_Status e) (ent_Start e) (ent_End e) (ent_Grace e) (ent_Next e) now st1 = (Inr (), t)"
      unfolding completeDue_def tx_bind_Inr tx_get_Inr by (auto simp: tx_bind_Inr)
    from transition_event_frame [OF ev assms(2)] obtain s1 where
      "st_periods st1 = st_periods st" "find_subscription sid st1 = Some s1" by blast
    moreover from spec Some have "entitled_status sid now (st_periods st) = Some (ent_Status e)" by simp
    ultimately show ?thesis using updateSubscription_row [OF up] entitlement_next [OF inv Some] by auto
  qed
qed

theorem due_transition_witness:
  "\<exists>t s'. completeDue (sample_uuid ''90'') (1000 + 25 * Hour) (sample_uuid ''50'') claimed_sample = (Inr (), t)
     \<and> find_subscription (sample_uuid ''50'') t = Some s' \<and> sr_status s' = StatusGrace"
proof -
  let ?sid = "sample_uuid ''50''"
  obtain s where s: "find_subscription ?sid claimed_sample = Some s" "sr_transition_lease_until s \<noteq> None"
    by (rule that [of "the (find_subscription ?sid claimed_sample)"]) code_simp+
  obtain t where t: "completeDue (sample_uuid ''90'') (1000 + 25 * Hour) ?sid claimed_sample = (Inr (), t)"
    by (rule that [of "snd (completeDue (sample_uuid ''90'') (1000 + 25 * Hour) ?sid claimed_sample)"]) code_simp
  have "map_option ent_Status (calculateEntitlement ?sid (1000 + 25 * Hour) (st_periods claimed_sample)) = Some StatusGrace"
    by code_simp
  then have "entitled_status ?sid (1000 + 25 * Hour) (st_periods claimed_sample) = Some StatusGrace"
    using entitlement_status [OF reachable_rows [OF claimed_sample_reachable]] by simp
  with due_transition [OF claimed_sample_reachable s t] t show ?thesis by auto
qed


section \<open>Refunds\<close>

definition refunded :: "uuid \<Rightarrow> RefundSucceeded \<Rightarrow> period list \<Rightarrow> period list" where
  "refunded pid refund ps = tbl_update (\<lambda>q. p_id q = pid)
     (\<lambda>q. q\<lparr>p_status := Refunded, p_refund_id := Some (ref_RefundID refund),
            p_refunded_at := Some (ref_RefundedAt refund)\<rparr>) ps"

lemma find_paymentD:
  "find_payment pid st = Some (p, s) \<Longrightarrow> p \<in> set (st_periods st) \<and> p_source_payment_id p = pid
     \<and> find_subscription (p_subscription_id p) st = Some s \<and> sr_id s = p_subscription_id p"
  by (auto simp: find_payment_def find_subscription_def split: option.splits dest: find_SomeD)

lemma applyRefund_paid:
  assumes "find_payment (ref_PaymentID refund) st = Some (p, s)" and "p_status p = Paid"
    and "applyRefund eid now meta refund st = (Inr b, t)"
  shows "settle_refund eid now meta refund p s (st\<lparr>st_periods := refunded (p_id p) refund (st_periods st)\<rparr>) = (Inr b, t)"
    and "mark_refunded (p_id p) (ref_RefundID refund) (ref_RefundedAt refund) st =
      (Inr (), st\<lparr>st_periods := refunded (p_id p) refund (st_periods st)\<rparr>)"
  using assms
  by (auto simp: applyRefund_def tx_bind_Inr mark_refunded_def refunded_def split: if_splits)

lemma settle_refund_result:
  assumes inv: "rows_inv st" and s: "find_subscription (p_subscription_id p) st = Some s0"
    and run: "settle_refund eid now meta refund p s st = (Inr b, t)"
  shows "b \<and> st_periods t = st_periods st \<and> (\<exists>s'. find_subscription (p_subscription_id p) t = Some s' \<and>
    (case entitled_status (p_subscription_id p) now (st_periods st) of
       None \<Rightarrow> sr_status s' = StatusRevoked \<and> sr_current_period_end s' = None \<and> sr_next_transition_at s' = None
         \<and> (\<exists>row. st_outbox t = st_outbox st @ [row] \<and> ob_topic row = ''subscription.revoked.v1'')
     | Some status \<Rightarrow> sr_status s' = status \<and> (\<exists>u. sr_next_transition_at s' = Some u \<and> now < u)))"
proof -
  let ?sid = "p_subscription_id p"
  note spec = entitlement_status [OF inv, of ?sid now]
  have per: "st_periods (update_sub ?sid f st) = st_periods st" "st_outbox (update_sub ?sid f st) = st_outbox st" for f
    by (simp_all add: update_sub_def)
  show ?thesis
  proof (cases "calculateEntitlement ?sid now (st_periods st)")
    case None
    define st1 where "st1 = update_sub ?sid (\<lambda>s. s\<lparr>sr_status := StatusRevoked, sr_current_period_start := None,
       sr_current_period_end := None, sr_grace_ends_at := None, sr_next_transition_at := None,
       sr_transition_lease_until := None, sr_updated_at := now\<rparr>) st"
    from None run obtain u where
      ev: "insertOutbox eid ''subscription.revoked.v1'' ?sid (sr_user_id s) (DkRefund (ref_RefundID refund))
        (meta_CorrelationID meta) (Some (meta_EventID meta)) now
        (TerminalEvent \<lparr>ted_SubscriptionID = ?sid, ted_UserID = sr_user_id s, ted_Reason = ''refund'',
           ted_AffectedPeriodIDs = [p_id p], ted_EffectiveAt = ref_RefundedAt refund\<rparr>) st1 = (Inr u, t)"
      and b: "b" by (auto simp: settle_refund_def Let_def tx_bind_Inr revoke_subscription_def st1_def)
    from s have s1: "find_subscription ?sid st1 = Some (s0\<lparr>sr_status := StatusRevoked, sr_current_period_start := None,
       sr_current_period_end := None, sr_grace_ends_at := None, sr_next_transition_at := None,
       sr_transition_lease_until := None, sr_updated_at := now\<rparr>)"
      unfolding st1_def by (simp add: find_subscription_update)
    note fr = insertOutbox_frame [OF ev s1]
    from fr(2) obtain s' where s': "find_subscription ?sid t = Some s'" "sr_status s' = StatusRevoked"
      "sr_current_period_end s' = None" "sr_next_transition_at s' = None"
      by (auto simp: same_but_sequence_def)
    with fr(1,3) b spec None show ?thesis by (auto simp: st1_def per)
  next
    case (Some e)
    with run obtain st1 u1 u2 where
      up: "updateSubscription ?sid (ent_Status e) (ent_Start e) (ent_End e) (ent_Grace e) (ent_Next e) now st = (Inr u1, st1)"
      and ev: "(if (sr_status s = StatusActive \<or> sr_status s = StatusGrace) \<and> ent_Status e = StatusPending
         then insertOutbox eid ''subscription.revoked.v1'' ?sid (sr_user_id s) (DkRefundGap (ref_RefundID refund))
           (meta_CorrelationID meta) (Some (meta_EventID meta)) now
           (TerminalEvent \<lparr>ted_SubscriptionID = ?sid, ted_UserID = sr_user_id s, ted_Reason = ''refund_gap'',
              ted_AffectedPeriodIDs = [p_id p], ted_EffectiveAt = ref_RefundedAt refund\<rparr>)
         else tx_return ()) st1 = (Inr u2, t)" and b: "b"
      unfolding settle_refund_def Let_def by (fastforce simp: tx_bind_Inr)
    note row = updateSubscription_row [OF up s]
    from optional_event_frame [OF ev] row obtain s' where
      "st_periods t = st_periods st" "find_subscription ?sid t = Some s'" "sr_status s' = ent_Status e"
      "sr_next_transition_at s' = ent_Next e"
      by (auto simp: same_but_sequence_def)
    moreover from spec Some have "entitled_status ?sid now (st_periods st) = Some (ent_Status e)" by simp
    ultimately show ?thesis using b entitlement_next [OF inv Some] by auto
  qed
qed

text \<open>C7: A refund takes back its period and nothing else. In a reachable store, when \<open>applyRefund\<close>
  succeeds for a payment whose period is still paid, exactly that period is marked refunded and
  the subscription is recalculated from the periods that are left: its status is the coverage
  specification's, with the next transition strictly later; when nothing is left it is revoked,
  its window cleared, and a \<open>subscription.revoked.v1\<close> event is queued.\<close>

theorem refund_recalculates:
  assumes "sub_reachable st" and "find_payment (ref_PaymentID refund) st = Some (p, s)" and "p_status p = Paid"
    and "applyRefund eid now meta refund st = (Inr b, t)"
  shows "b \<and> st_periods t = refunded (p_id p) refund (st_periods st)
    \<and> (\<exists>s'. find_subscription (sr_id s) t = Some s' \<and>
      (case entitled_status (sr_id s) now (st_periods t) of
         None \<Rightarrow> sr_status s' = StatusRevoked \<and> sr_current_period_end s' = None \<and> sr_next_transition_at s' = None
           \<and> (\<exists>row. st_outbox t = st_outbox st @ [row] \<and> ob_topic row = ''subscription.revoked.v1'')
       | Some status \<Rightarrow> sr_status s' = status \<and> (\<exists>u. sr_next_transition_at s' = Some u \<and> now < u)))"
proof -
  let ?st1 = "st\<lparr>st_periods := refunded (p_id p) refund (st_periods st)\<rparr>"
  note split = applyRefund_paid [OF assms(2-4)]
  have inv1: "rows_inv ?st1"
    using tx_validD_Inr [OF keep_mark_refunded reachable_rows [OF assms(1)] split(2)] .
  from find_paymentD [OF assms(2)] have "find_subscription (p_subscription_id p) ?st1 = Some s" "sr_id s = p_subscription_id p"
    by (auto simp: find_subscription_def)
  moreover have "st_outbox ?st1 = st_outbox st" by simp
  ultimately show ?thesis using settle_refund_result [OF inv1 _ split(1)] by (auto split: option.splits)
qed

definition sample_refund :: "string \<Rightarrow> instant \<Rightarrow> RefundSucceeded" where
  "sample_refund n at = \<lparr>ref_RefundID = sample_uuid (''a'' @ n), ref_PaymentID = sample_uuid (''1'' @ n),
     ref_OrderID = sample_uuid (''2'' @ n), ref_UserID = sample_uuid ''33'', ref_AmountMinor = 500,
     ref_Currency = ''EUR'', ref_RefundScope = ''full'', ref_RefundedAt = at\<rparr>"

definition sample_refund_meta :: "string \<Rightarrow> instant \<Rightarrow> EventMeta" where
  "sample_refund_meta n at = sample_meta ''billing.refund.succeeded.v1'' (sample_uuid (''b'' @ n))
     (sample_uuid (''a'' @ n)) at 0"

theorem refund_recalculates_witness:
  "\<exists>t s'. applyRefund (sample_uuid ''91'') 5000 (sample_refund_meta ''0'' 4000) (sample_refund ''0'' 4000) paid_once = (Inr True, t)
     \<and> find_subscription (sample_uuid ''50'') t = Some s' \<and> sr_status s' = StatusRevoked"
proof -
  let ?run = "applyRefund (sample_uuid ''91'') 5000 (sample_refund_meta ''0'' 4000) (sample_refund ''0'' 4000) paid_once"
  let ?fp = "find_payment (ref_PaymentID (sample_refund ''0'' 4000)) paid_once"
  obtain t where t: "?run = (Inr True, t)" "valid_periods (sample_uuid ''50'') 5000 (st_periods t) = []"
    by (rule that [of "snd ?run"]) code_simp+
  obtain p s where ps: "?fp = Some (p, s)" "p_status p = Paid" "sr_id s = sample_uuid ''50''"
    by (rule that [of "fst (the ?fp)" "snd (the ?fp)"]) code_simp+
  from t(2) have "entitled_status (sample_uuid ''50'') 5000 (st_periods t) = None"
    using set_valid_periods [of "sample_uuid ''50''" 5000 "st_periods t"] by (auto simp: entitled_status_def)
  with refund_recalculates [OF paid_once_reachable ps(1,2) t(1)] ps(3) t(1) show ?thesis by auto
qed


section \<open>Administrative revoke\<close>

lemma AdminRevoke_fresh:
  assumes "AdminRevoke eid now input st = (Inr r, t)" and "\<not> arr_Replay r"
  obtains s row where "find_subscription (ari_SubscriptionID input) t = Some s" "sr_status s = StatusRevoked"
    "sr_next_transition_at s = None" "st_periods t = st_periods st"
    "find (\<lambda>r. rv_idempotency_key r = ari_IdempotencyKey input) (st_admin_revokes t) = Some row"
    "rv_request_sha256 row = ari_RequestSHA256 input" "rv_subscription_id row = ari_SubscriptionID input"
    "rv_reason_code row = ari_ReasonCode input" "rv_result_status row = StatusRevoked"
    "r = \<lparr>arr_SubscriptionID = ari_SubscriptionID input, arr_Status = StatusRevoked,
        arr_ReasonCode = ari_ReasonCode input, arr_Replay = False\<rparr>"
    "\<exists>o1. st_outbox t = st_outbox st @ [o1] \<and> ob_topic o1 = ''subscription.revoked.v1''"
proof -
  let ?sid = "ari_SubscriptionID input"
  have none: "find (\<lambda>r. rv_idempotency_key r = ari_IdempotencyKey input) (st_admin_revokes st) = None"
    using assms by (auto simp: AdminRevoke_def tx_bind_Inr split: option.splits if_splits)
  with assms obtain s where s: "find_subscription ?sid st = Some s"
    by (auto simp: AdminRevoke_def tx_bind_Inr split: option.splits if_splits)
  define f where "f = (\<lambda>s::sub_row. s\<lparr>sr_status := StatusRevoked, sr_next_transition_at := None,
      sr_transition_lease_until := None, sr_updated_at := now\<rparr>)"
  define row where "row = \<lparr>rv_idempotency_key = ari_IdempotencyKey input,
      rv_request_sha256 = ari_RequestSHA256 input, rv_action_id = ari_ActionID input,
      rv_correlation_id = ari_CorrelationID input, rv_subscription_id = ?sid,
      rv_reason_code = ari_ReasonCode input, rv_result_status = StatusRevoked, rv_completed_at = now\<rparr>"
  from assms none s obtain st1 u where
    ev: "insertOutbox eid ''subscription.revoked.v1'' ?sid (sr_user_id s) (DkAdminRevoke (ari_ActionID input))
        (ari_CorrelationID input) (Some (ari_ActionID input)) now
        (TerminalEvent \<lparr>ted_SubscriptionID = ?sid, ted_UserID = sr_user_id s, ted_Reason = ari_ReasonCode input,
           ted_AffectedPeriodIDs = [], ted_EffectiveAt = now\<rparr>) st = (Inr u, st1)"
    and t: "t = (update_sub ?sid f st1)\<lparr>st_admin_revokes := st_admin_revokes (update_sub ?sid f st1) @ [row]\<rparr>"
    and r: "r = \<lparr>arr_SubscriptionID = ?sid, arr_Status = StatusRevoked, arr_ReasonCode = ari_ReasonCode input,
        arr_Replay = False\<rparr>"
    by (auto simp: AdminRevoke_def tx_bind_Inr f_def row_def split: if_splits)
  note fr = insertOutbox_frame [OF ev s]
  from fr(2) obtain s1 where "find_subscription ?sid st1 = Some s1" by blast
  then have "find_subscription ?sid (update_sub ?sid f st1) = Some (f s1)"
    by (simp add: find_subscription_update f_def)
  then have "find_subscription ?sid t = Some (f s1)" by (simp add: t find_subscription_def)
  moreover have "find (\<lambda>r. rv_idempotency_key r = ari_IdempotencyKey input) (st_admin_revokes t) = Some row"
    using none fr(4) by (simp add: t update_sub_def find_append row_def)
  moreover have "\<exists>o1. st_outbox t = st_outbox st @ [o1] \<and> ob_topic o1 = ''subscription.revoked.v1''"
    using fr(3) by (auto simp: t update_sub_def)
  ultimately show thesis using fr(1) r
    by (intro that [of "f s1" row]) (simp_all add: f_def row_def t update_sub_def)
qed

text \<open>An administrative revoke is idempotent and takes access away. When \<open>AdminRevoke\<close> first
  performs a request, the subscription is revoked with no transition left, one
  \<open>subscription.revoked.v1\<close> event is queued, and no placement is handed out at any time; repeating
  the request under its idempotency key returns the same answer marked as a replay and writes
  nothing, and another request under that key is refused as a conflict and writes nothing.\<close>

theorem admin_revoke_once:
  assumes "AdminRevoke eid now input st = (Inr r, t)" and "\<not> arr_Replay r"
    and "ari_IdempotencyKey input2 = ari_IdempotencyKey input"
  shows "(\<exists>s. find_subscription (ari_SubscriptionID input) t = Some s \<and> sr_status s = StatusRevoked
      \<and> sr_next_transition_at s = None)
    \<and> (\<exists>o1. st_outbox t = st_outbox st @ [o1] \<and> ob_topic o1 = ''subscription.revoked.v1'')
    \<and> GetPlacement now2 (ari_SubscriptionID input) t = Inl ErrNotFound
    \<and> AdminRevoke eid2 now2 input2 t =
      (if ari_RequestSHA256 input2 = ari_RequestSHA256 input \<and> ari_SubscriptionID input2 = ari_SubscriptionID input
          \<and> ari_ReasonCode input2 = ari_ReasonCode input
       then Inr (r\<lparr>arr_Replay := True\<rparr>) else Inl ErrIdempotencyConflict, t)"
  using assms(1,2)
proof (cases rule: AdminRevoke_fresh)
  case (1 s row)
  have "AdminRevoke eid2 now2 input2 t =
      (if ari_RequestSHA256 input2 = ari_RequestSHA256 input \<and> ari_SubscriptionID input2 = ari_SubscriptionID input
          \<and> ari_ReasonCode input2 = ari_ReasonCode input
       then Inr (r\<lparr>arr_Replay := True\<rparr>) else Inl ErrIdempotencyConflict, t)"
    using 1(5-10) assms(3) by (auto simp: AdminRevoke_def tx_defs)
  with 1 show ?thesis by (simp add: GetPlacement_def)
qed

definition sample_revoke :: AdminRevokeInput where
  "sample_revoke = \<lparr>ari_SubscriptionID = sample_uuid ''50'', ari_IdempotencyKey = ''revoke-key'',
     ari_RequestSHA256 = replicate 64 CHR ''b'', ari_ActionID = sample_uuid ''d0'',
     ari_CorrelationID = sample_uuid ''c1'', ari_ReasonCode = ''abuse''\<rparr>"

theorem admin_revoke_once_witness:
  "\<exists>r t. AdminRevoke (sample_uuid ''92'') 3000 sample_revoke paid_once = (Inr r, t) \<and>
     AdminRevoke (sample_uuid ''93'') 9000 sample_revoke t = (Inr (r\<lparr>arr_Replay := True\<rparr>), t)"
proof -
  let ?run = "AdminRevoke (sample_uuid ''92'') 3000 sample_revoke paid_once"
  obtain r t where "?run = (Inr r, t)" "\<not> arr_Replay r"
    by (rule that [of "projr (fst ?run)" "snd ?run"]) code_simp+
  with admin_revoke_once [OF this, of sample_revoke] show ?thesis by auto
qed

end
