(* ===== verification/Subscription_History.thy ===== *)
theory Subscription_History
  imports Subscription_Transitions
begin

text \<open>
  What the subscription store keeps over any sequence of steps: the order of publication, and
  the history of the periods. A property of the period table alone is carried through every
  operation by the locale \<open>period_property\<close>, which asks only that appending a period and
  marking one refunded keep it. The last section follows two concrete histories through the
  code: a refund that makes a revoked subscription active again, and a due transition that
  can never complete.
\<close>

section \<open>Properties of the period table\<close>

locale period_property =
  fixes J :: "period list \<Rightarrow> bool"
  assumes keep_append: "J ps \<Longrightarrow> J (ps @ [p])"
    and keep_refund: "J ps \<Longrightarrow> J (tbl_update (\<lambda>p. p_id p = pid)
      (\<lambda>p. p\<lparr>p_status := Refunded, p_refund_id := Some rid, p_refunded_at := Some at\<rparr>) ps)"
begin

abbreviation I :: "sub_store \<Rightarrow> bool" where
  "I st \<equiv> J (st_periods st)"

lemma frame:
  assumes "\<And>st. st_periods (f st) = st_periods st"
  shows "tx_keeps I (tx_modify f)"
  by (rule tx_keeps_modify) (simp add: assms)

lemma keep_sub: "tx_keeps I (tx_modify (update_sub sid f))"
  and keep_inbox: "tx_keeps I (tx_modify (update_inbox eid g))"
  by (rule frame, simp add: update_sub_def update_inbox_def)+

lemma keep_writes:
  "tx_keeps I (tx_modify (\<lambda>st. st\<lparr>st_inbox := a st\<rparr>))"
  "tx_keeps I (tx_modify (\<lambda>st. st\<lparr>st_outbox := b st\<rparr>))"
  "tx_keeps I (tx_modify (\<lambda>st. st\<lparr>st_dead_letters := c st\<rparr>))"
  "tx_keeps I (tx_modify (\<lambda>st. st\<lparr>st_admin_revokes := d st\<rparr>))"
  "tx_keeps I (tx_modify (\<lambda>st. st\<lparr>st_subscriptions := e st\<rparr>))"
  by (rule frame, simp)+

lemmas writes = keep_sub keep_inbox keep_writes

lemma keep_period_insert: "tx_keeps I (insert_period p)"
  unfolding insert_period_def by (intro tx_keep tx_keeps_modify) (simp add: keep_append)

lemma keep_period_refund: "tx_keeps I (mark_refunded pid rid at)"
  unfolding mark_refunded_def by (intro tx_keep tx_keeps_modify) (simp add: keep_refund)

lemma keep_inbox_ops:
  "tx_keeps I (insertInbox meta pid uid payload state now)" (is ?ins)
  "tx_keeps I (markInboxProcessed eid now)" (is ?mark)
  "tx_keeps I (deadLetterInbox eid now reason)" (is ?dead)
proof -
  show ?ins unfolding insertInbox_def Let_def by (intro tx_keep writes)
  show ?mark unfolding markInboxProcessed_def by (rule writes)
  show ?dead unfolding deadLetterInbox_def by (intro tx_keep writes)
qed

lemma keep_outbox_insert: "tx_keeps I (insertOutbox eid topic sid uid dk corr caus now data)"
  unfolding insertOutbox_def Let_def by (intro tx_keep writes)

lemma keep_sub_ops:
  "tx_keeps I (updateSubscription sid status a b c nxt now)" (is ?upd)
  "tx_keeps I (getOrCreateSubscription newID uid now)" (is ?goc)
  "tx_keeps I (revoke_subscription sid now)" (is ?rev)
  "tx_keeps I (expire_subscription sid now)" (is ?exp)
proof -
  show ?upd unfolding updateSubscription_def by (intro tx_keep writes)
  show ?goc unfolding getOrCreateSubscription_def Let_def by (intro tx_keep writes)
  show ?rev unfolding revoke_subscription_def by (rule writes)
  show ?exp unfolding expire_subscription_def by (rule writes)
qed

lemmas ops = keep_period_insert keep_period_refund keep_inbox_ops keep_outbox_insert keep_sub_ops

lemma keep_refund_body: "tx_keeps I (applyRefund eid now meta refund)"
  unfolding applyRefund_def settle_refund_def Let_def by (intro tx_keep ops)

lemma keep_conflict_body: "tx_keeps I (dead_letter_conflict inboxID now err)"
  unfolding dead_letter_conflict_def by (intro tx_keep ops)

lemma keep_bodies:
  "tx_keeps I (applyPayment ids now meta payment order)" (is ?pay)
  "tx_keeps I (recordPaymentReplay now meta payment)" (is ?rep)
  "tx_keeps I (storeRefund eid now meta refund)" (is ?ref)
  "tx_keeps I (applyClaimedRefund eid now work delay)" (is ?cla)
  "tx_keeps I (completeDue eid now sid)" (is ?due)
  "tx_keeps I (AdminRevoke eid now input)" (is ?adm)
proof -
  show ?pay unfolding applyPayment_def grant_period_def Let_def by (intro tx_keep ops)
  show ?rep unfolding recordPaymentReplay_def by (intro tx_keep ops writes)
  show ?ref unfolding storeRefund_def by (intro tx_keep ops keep_refund_body keep_conflict_body)
  show ?cla unfolding applyClaimedRefund_def by (intro tx_keep ops writes keep_refund_body keep_conflict_body)
  show ?due unfolding completeDue_def transition_event_def Let_def by (intro tx_keep ops)
  show ?adm unfolding AdminRevoke_def by (intro tx_keep ops writes)
qed

lemma keep_step: "sub_step st st' \<Longrightarrow> I st \<Longrightarrow> I st'"
proof (induction rule: sub_step.induct)
  case (step_claim_refund st now lease locked)
  then show ?case by (simp add: ClaimRefund_def update_inbox_def split: option.splits)
next
  case (step_claim_due st now lease locked)
  then show ?case by (simp add: ClaimDue_def update_sub_def split: option.splits)
next
  case (step_claim_outbox st now lease locked)
  then show ?case by (simp add: ClaimOutbox_def split: prod.splits)
qed (auto simp: RecordDeadLetter_def CompleteOutbox_def RetryOutbox_def intro: run_tx_keeps [of I] keep_bodies)

end

text \<open>What a period never loses: its columns, except that it may become refunded once and for all.\<close>

definition kept_period :: "period \<Rightarrow> period \<Rightarrow> bool" where
  "kept_period p q \<longleftrightarrow>
     (\<exists>status rid at. q = p\<lparr>p_status := status, p_refund_id := rid, p_refunded_at := at\<rparr>
        \<and> (p_status p = Refunded \<longrightarrow> status = Refunded))"

definition kept_history :: "period list \<Rightarrow> period list \<Rightarrow> bool" where
  "kept_history ps qs \<longleftrightarrow> length ps \<le> length qs \<and> (\<forall>i < length ps. kept_period (ps ! i) (qs ! i))"

lemma kept_period_refl: "kept_period p p"
  unfolding kept_period_def
  by (intro exI [of _ "p_status p"] exI [of _ "p_refund_id p"] exI [of _ "p_refunded_at p"]) simp

lemma kept_period_refund:
  "kept_period p q \<Longrightarrow> kept_period p (q\<lparr>p_status := Refunded, p_refund_id := Some rid, p_refunded_at := Some at\<rparr>)"
  unfolding kept_period_def
  by (elim exE conjE, intro exI [of _ Refunded] exI [of _ "Some rid"] exI [of _ "Some at"]) simp

interpretation history: period_property "kept_history ps0" for ps0
proof (unfold_locales, goal_cases)
  case (1 ps p)
  then show ?case by (auto simp: kept_history_def nth_append)
next
  case (2 ps pid rid at)
  then show ?case by (auto simp: kept_history_def tbl_update_def kept_period_refund)
qed

inductive sub_steps :: "sub_store \<Rightarrow> sub_store \<Rightarrow> bool" where
  steps_refl: "sub_steps st st"
| steps_more: "sub_steps st st' \<Longrightarrow> sub_step st' st'' \<Longrightarrow> sub_steps st st''"

lemma steps_history: "sub_steps st st' \<Longrightarrow> kept_history (st_periods st) (st_periods st')"
proof (induction rule: sub_steps.induct)
  case (steps_refl st)
  then show ?case by (simp add: kept_history_def kept_period_refl)
next
  case (steps_more st st' st'')
  then show ?case by (auto intro: history.keep_step)
qed

lemma steps_reachable: "sub_steps st st' \<Longrightarrow> sub_reachable st \<Longrightarrow> sub_reachable st'"
  by (induction rule: sub_steps.induct) (auto intro: reach_step)

text \<open>C8: Periods are never lost or rewritten. From a reachable store, after any sequence of
  operations, faults included, every period is still at its place with the same owner, order,
  payment, plan, price and window; a refunded period stays refunded; and there is still one
  period per payment and per order and one subscription per user.\<close>

theorem periods_permanent:
  assumes "sub_reachable st" and "sub_steps st st'"
  shows "kept_history (st_periods st) (st_periods st')
    \<and> distinct (map p_source_payment_id (st_periods st')) \<and> distinct (map p_source_order_id (st_periods st'))
    \<and> distinct (map sr_user_id (st_subscriptions st'))"
  using steps_history [OF assms(2)] reachable_rows [OF steps_reachable [OF assms(2,1)]]
  by (auto simp: rows_inv_def periods_inv_def subs_inv_def)

theorem periods_permanent_witness:
  "kept_history (st_periods empty_sub_store) (st_periods paid_once) \<and> kept_history (st_periods paid_once) (st_periods claimed_sample)"
proof -
  have "sub_steps paid_once claimed_sample"
    unfolding claimed_sample_def by (rule steps_more [OF steps_refl step_claim_due])
  from periods_permanent [OF paid_once_reachable this] show ?thesis
    by (simp add: kept_history_def empty_sub_store_def)
qed

section \<open>The order of publication\<close>

text \<open>C9: Events of a subscription are published in order. In every reachable store, when an outbox
  row has been leased or published, every row of the same subscription with a smaller sequence
  number has been published: consumers see a prefix of each subscription's history.\<close>

theorem published_in_order:
  assumes "sub_reachable st" and "r \<in> set (st_outbox st)" and "p \<in> set (st_outbox st)"
    and "ob_aggregate_id p = ob_aggregate_id r" and "ob_sequence p = Some m" and "ob_sequence r = Some n"
    and "m < n" and "ob_state r \<noteq> ObPending"
  shows "ob_state p = ObPublished"
  using reachable_rows [OF assms(1)] assms(2-)
  by (auto simp: rows_inv_def outbox_inv_def precedes_def intro: in_orderD [of "st_outbox st" r p])


lemma paid_twice_validates: "validatePayment (sample_payment_meta ''1'' 2000) (sample_payment ''1'' 2000) = None"
  by code_simp

definition paid_twice :: sub_store where
  "paid_twice = snd (run_tx InfraError NoFault (pay_sample ''1'' 2000) paid_once)"

lemma paid_twice_reachable: "sub_reachable paid_twice"
  unfolding paid_twice_def pay_sample_def
  by (rule reach_step [OF paid_once_reachable step_payment [OF paid_twice_validates sample_validates(3)]])

definition published_sample :: sub_store where
  "published_sample = snd (ClaimOutbox 7000 Minute []
     (CompleteOutbox 6000 (sample_uuid ''70'') (snd (ClaimOutbox 5000 Minute [] paid_twice))))"

lemma published_sample_reachable: "sub_reachable published_sample"
  unfolding published_sample_def
  by (rule reach_step [OF _ step_claim_outbox], rule reach_step [OF _ step_complete_outbox],
      rule reach_step [OF paid_twice_reachable step_claim_outbox])

theorem published_in_order_witness:
  "ob_state (st_outbox published_sample ! 1) = ObProcessing \<and> ob_state (st_outbox published_sample ! 0) = ObPublished"
proof -
  let ?r = "st_outbox published_sample ! 1" and ?p = "st_outbox published_sample ! 0"
  have len: "length (st_outbox published_sample) = 2" by code_simp
  have facts: "ob_aggregate_id ?p = ob_aggregate_id ?r" "ob_sequence ?p = Some 1" "ob_sequence ?r = Some 2"
    "ob_state ?r = ObProcessing" by code_simp+
  from len have "?r \<in> set (st_outbox published_sample)" "?p \<in> set (st_outbox published_sample)" by simp_all
  from published_in_order [OF published_sample_reachable this facts(1-3)] facts(4) show ?thesis by simp
qed

section \<open>Two histories\<close>

definition revoked_sample :: sub_store where
  "revoked_sample = snd (run_tx InfraError NoFault (AdminRevoke (sample_uuid ''92'') 3000 sample_revoke) paid_twice)"

definition reactivated_sample :: sub_store where
  "reactivated_sample = snd (run_tx InfraError NoFault
     (storeRefund (sample_uuid ''94'') 5000 (sample_refund_meta ''1'' 4000) (sample_refund ''1'' 4000)) revoked_sample)"

text \<open>C12: A refund can undo an administrative revoke. There is a reachable store whose subscription an
  administrator has revoked for abuse, in which the refund of one of its two periods makes it
  active again without writing any event: \<open>applyRefund\<close> recalculates the status from the
  remaining paid period and does not look at the revoked status.\<close>

theorem refund_undoes_admin_revoke:
  "sub_reachable revoked_sample \<and> sub_step revoked_sample reactivated_sample
   \<and> map sr_status (st_subscriptions revoked_sample) = [StatusRevoked]
   \<and> map sr_status (st_subscriptions reactivated_sample) = [StatusActive]
   \<and> st_outbox reactivated_sample = st_outbox revoked_sample"
proof -
  have "sub_reachable revoked_sample"
    unfolding revoked_sample_def by (rule reach_step [OF paid_twice_reachable step_admin_revoke])
  moreover have "validateRefund (sample_refund_meta ''1'' 4000) (sample_refund ''1'' 4000) = None" by code_simp
  then have "sub_step revoked_sample reactivated_sample"
    unfolding reactivated_sample_def by (rule step_refund)
  moreover have "map sr_status (st_subscriptions revoked_sample) = [StatusRevoked]" by code_simp
  moreover have "map sr_status (st_subscriptions reactivated_sample) = [StatusActive]" by code_simp
  moreover have "st_outbox reactivated_sample = st_outbox revoked_sample" by code_simp
  ultimately show ?thesis by simp
qed


definition order_days :: "string \<Rightarrow> int \<Rightarrow> Order" where
  "order_days n days = (sample_order n)\<lparr>ord_PlanSnapshot := (ord_PlanSnapshot (sample_order n))\<lparr>snap_DurationDays := days\<rparr>\<rparr>"

definition pay_days :: "string \<Rightarrow> int \<Rightarrow> instant \<Rightarrow> sub_store \<Rightarrow> sub_store" where
  "pay_days n days at st = snd (run_tx InfraError NoFault
     (applyPayment (sample_ids n) at (sample_payment_meta n at) (sample_payment n at) (order_days n days)) st)"

definition run_due :: "uuid \<Rightarrow> instant \<Rightarrow> sub_store \<Rightarrow> sub_store" where
  "run_due eid now st = snd (run_tx InfraError NoFault (completeDue eid now (sample_uuid ''50''))
     (snd (ClaimDue now Minute [] st)))"

definition gap_sample :: sub_store where
  "gap_sample = run_due (sample_uuid ''95'') (1000 + 26 * Hour)
     (snd (run_tx InfraError NoFault
       (storeRefund (sample_uuid ''94'') 5000 (sample_refund_meta ''1'' 4000) (sample_refund ''1'' 4000))
       (pay_days ''2'' 1 3000 (pay_days ''1'' 3 2000 paid_once))))"

definition stuck_sample :: sub_store where
  "stuck_sample = snd (ClaimDue (1000 + 53 * Hour) Minute []
     (run_due (sample_uuid ''96'') (1000 + 51 * Hour) (pay_days ''3'' 1 (1000 + 27 * Hour) gap_sample)))"

lemma pay_days_step:
  assumes "validatePayment (sample_payment_meta n at) (sample_payment n at) = None"
    and "validateOrder (sample_payment n at) (order_days n days) = None" and "sub_reachable st"
  shows "sub_reachable (pay_days n days at st)"
  unfolding pay_days_def by (rule reach_step [OF assms(3) step_payment [OF assms(1,2)]])

lemma run_due_step: "sub_reachable st \<Longrightarrow> sub_reachable (run_due eid now st)"
  unfolding run_due_def by (rule reach_step [OF reach_step [OF _ step_claim_due] step_due])

lemma gap_sample_reachable: "sub_reachable gap_sample"
proof -
  have "validateRefund (sample_refund_meta ''1'' 4000) (sample_refund ''1'' 4000) = None" by code_simp
  note refund = reach_step [OF _ step_refund [OF this]]
  show ?thesis unfolding gap_sample_def
    by (rule run_due_step, rule refund, rule pay_days_step, code_simp, code_simp, rule pay_days_step,
        code_simp, code_simp, rule paid_once_reachable)
qed

lemma stuck_sample_reachable: "sub_reachable stuck_sample"
  unfolding stuck_sample_def
  by (rule reach_step [OF _ step_claim_due], rule run_due_step, rule pay_days_step, code_simp, code_simp,
      rule gap_sample_reachable)

text \<open>C13: A due transition can fail for ever. There is a reachable store with a claimed subscription
  whose due transition is refused as a conflict when it falls due and still one hour before the
  next paid period starts, whatever event identifier is drawn: the \<open>gap-expired\<close> key of the
  period ahead was used when the subscription first fell into the gap, a short payment in the gap
  revived it, and its second fall asks for the same key. The transaction is rolled back, so the
  row keeps its grace status although nothing covers it.\<close>

theorem gap_transition_stuck:
  "sub_reachable stuck_sample
   \<and> map sr_status (st_subscriptions stuck_sample) = [StatusGrace]
   \<and> entitled_status (sample_uuid ''50'') (1000 + 53 * Hour) (st_periods stuck_sample) = Some StatusPending
   \<and> fst (completeDue eid (1000 + 53 * Hour) (sample_uuid ''50'') stuck_sample) = Inl ErrConflict
   \<and> fst (completeDue eid (1000 + 95 * Hour) (sample_uuid ''50'') stuck_sample) = Inl ErrConflict"
proof -
  have "map_option ent_Status (calculateEntitlement (sample_uuid ''50'') (1000 + 53 * Hour) (st_periods stuck_sample))
      = Some StatusPending" by code_simp
  then have "entitled_status (sample_uuid ''50'') (1000 + 53 * Hour) (st_periods stuck_sample) = Some StatusPending"
    using entitlement_status [OF reachable_rows [OF stuck_sample_reachable]] by simp
  moreover have "map sr_status (st_subscriptions stuck_sample) = [StatusGrace]" by code_simp
  moreover have "fst (completeDue eid (1000 + 53 * Hour) (sample_uuid ''50'') stuck_sample) = Inl ErrConflict" by code_simp
  moreover have "fst (completeDue eid (1000 + 95 * Hour) (sample_uuid ''50'') stuck_sample) = Inl ErrConflict" by code_simp
  ultimately show ?thesis using stuck_sample_reachable by simp
qed

end
