(* ===== verification/Retry.thy ===== *)
theory Retry
  imports Prelude "HOL-Library.Signed_Division"
begin

text \<open>
  The retry delays of the workers: \<open>RetryBackoff\<close> of subscription and \<open>retryBackoff\<close> of
  billing, access, provisioning and notification. Durations are Go's \<open>int64\<close> nanoseconds,
  so every product is wrapped by \<open>int64\<close>, and \<open>/\<close> truncates (\<open>sdiv\<close>). SHA-256, which
  spreads the delays by key, is the parameter \<open>sha256\<close>, a function to a list of bytes.

  The contract a worker relies on is the locale \<open>retry_policy\<close>: for a base delay in range
  the delay is positive and bounded, whatever the attempt number. Each of the five functions
  interprets it, with the range of base delays for which no product overflows.
\<close>

section \<open>The five functions\<close>

definition clamp_attempt :: "int \<Rightarrow> int \<Rightarrow> int" where
  "clamp_attempt hi attempt = (let a = (if attempt < 1 then 1 else attempt) in if a > hi then hi else a)"

definition sub_RetryBackoff :: "nanos \<Rightarrow> int \<Rightarrow> string \<Rightarrow> nanos" where
  "sub_RetryBackoff base attempt key =
     (let a = clamp_attempt 8 attempt;
          delay = int64 (base * 2 ^ nat (a - 1))
      in if delay > 5 * Minute then 5 * Minute else delay)"

definition bill_retryBackoff :: "(string \<Rightarrow> 8 word list) \<Rightarrow> (int \<Rightarrow> string) \<Rightarrow> nanos \<Rightarrow> int \<Rightarrow> string \<Rightarrow> nanos"
where
  "bill_retryBackoff sha256 itoa base attempt key =
     (let a = clamp_attempt 8 attempt;
          delay0 = int64 (base * 2 ^ nat (a - 1));
          delay1 = (if delay0 > 5 * Minute then 5 * Minute else delay0);
          sum = sha256 (key @ '':'' @ itoa a);
          percent = 80 + uint (sum ! 0) mod 41;
          delay2 = int64 (delay1 * percent) sdiv 100
      in if delay2 > 5 * Minute then 5 * Minute else delay2)"

definition jitter_backoff :: "(string \<Rightarrow> 8 word list) \<Rightarrow> nanos \<Rightarrow> int \<Rightarrow> string \<Rightarrow> nanos" where
  "jitter_backoff sha256 base attempts key =
     (let attempts1 = (if attempts < 1 then 1 else attempts);
          exponent = (if attempts1 - 1 > 8 then 8 else attempts1 - 1);
          delay = int64 (base * 2 ^ nat exponent);
          sum = sha256 key;
          jitter = int64 ((uint (sum ! 0) * 256 + uint (sum ! 1)) * delay) sdiv 655350
      in int64 (delay + jitter))"

definition acc_retryBackoff :: "(string \<Rightarrow> 8 word list) \<Rightarrow> nanos \<Rightarrow> int \<Rightarrow> string \<Rightarrow> nanos" where
  "acc_retryBackoff = jitter_backoff"

definition prov_retryBackoff :: "(string \<Rightarrow> 8 word list) \<Rightarrow> nanos \<Rightarrow> int \<Rightarrow> string \<Rightarrow> nanos" where
  "prov_retryBackoff = jitter_backoff"

definition notif_retryBackoff :: "(string \<Rightarrow> 8 word list) \<Rightarrow> nanos \<Rightarrow> int \<Rightarrow> string \<Rightarrow> nanos" where
  "notif_retryBackoff = jitter_backoff"

section \<open>The contract\<close>

locale retry_policy =
  fixes backoff :: "nanos \<Rightarrow> int \<Rightarrow> string \<Rightarrow> nanos"
    and lo :: nanos and hi :: nanos
    and cap :: "nanos \<Rightarrow> nanos"
  assumes backoff_pos: "lo \<le> base \<Longrightarrow> base \<le> hi \<Longrightarrow> 0 < backoff base n key"
    and backoff_cap: "lo \<le> base \<Longrightarrow> base \<le> hi \<Longrightarrow> backoff base n key \<le> cap base"
begin

lemma retry_window:
  assumes "lo \<le> base" and "base \<le> hi"
  shows "now < now + backoff base n key \<and> now + backoff base n key \<le> now + cap base"
  using backoff_pos [OF assms] backoff_cap [OF assms] by simp

text \<open>A row that fails any sequence of attempts is due again within that many caps.\<close>

lemma total_delay:
  assumes "lo \<le> base" and "base \<le> hi"
  shows "sum_list (map (\<lambda>n. backoff base n key) ns) \<le> int (length ns) * cap base"
    and "int (length ns) \<le> sum_list (map (\<lambda>n. backoff base n key) ns)"
proof (induction ns)
  case (Cons n ns)
  { case 1 from Cons backoff_cap [OF assms, of n key] show ?case by (simp add: algebra_simps) }
  { case 2 from Cons backoff_pos [OF assms, of n key] show ?case by simp }
qed simp_all

end

section \<open>Bounds\<close>

lemma clamp_attempt_range: "1 \<le> hi \<Longrightarrow> 1 \<le> clamp_attempt hi a \<and> clamp_attempt hi a \<le> hi"
  by (simp add: clamp_attempt_def)

lemma pow2_bound: "e \<le> (n::nat) \<Longrightarrow> 1 \<le> (2::int) ^ e \<and> (2::int) ^ e \<le> 2 ^ n"
  by (simp add: power_increasing)

lemma scaled_base:
  assumes "0 \<le> base" and "e \<le> (n::nat)"
  shows "base \<le> base * (2::int) ^ e" and "base * (2::int) ^ e \<le> base * 2 ^ n"
  using assms pow2_bound [OF assms(2)] by (auto simp: mult_left_mono mult_le_cancel_left1)

lemma scaled_base7: "0 \<le> base \<Longrightarrow> e \<le> 7 \<Longrightarrow> base * (2::int) ^ e \<le> base * 128"
  using scaled_base(2) [of base e 7] by simp

lemma int64_small: "0 \<le> x \<Longrightarrow> x \<le> 4611686018427387904 \<Longrightarrow> int64 x = x"
  by (rule int64_id) auto

lemma sdiv_nonneg: "0 \<le> a \<Longrightarrow> 0 < b \<Longrightarrow> (a::int) sdiv b = a div b"
  by (cases "a = 0") (simp_all add: signed_divide_int_def)

lemma sub_RetryBackoff_shape:
  assumes "0 < base" and "base \<le> 2 ^ 55"
  shows "0 < sub_RetryBackoff base n key \<and> sub_RetryBackoff base n key \<le> 5 * Minute"
proof -
  let ?e = "nat (clamp_attempt 8 n - 1)"
  have e: "?e \<le> 7" using clamp_attempt_range [of 8 n] by linarith
  from assms have "base \<le> 36028797018963968" by simp
  with scaled_base(1) [OF _ e, of base] scaled_base7 [OF _ e, of base] assms(1)
  have "base \<le> base * 2 ^ ?e" "base * 2 ^ ?e \<le> 4611686018427387904" by linarith+
  with assms(1) have "int64 (base * 2 ^ ?e) = base * 2 ^ ?e" by (intro int64_small) linarith+
  with assms show ?thesis by (simp add: sub_RetryBackoff_def Let_def go_units)
qed

lemma jitter_bound:
  assumes "0 < delay" and "delay \<le> 2 ^ 46"
  shows "0 \<le> int64 ((uint (a :: 8 word) * 256 + uint (b :: 8 word)) * delay) sdiv 655350"
    and "int64 ((uint (a :: 8 word) * 256 + uint (b :: 8 word)) * delay) sdiv 655350 \<le> delay div 10"
proof -
  let ?u = "uint a * 256 + uint b"
  have ab: "0 \<le> uint a" "uint a \<le> 255" "0 \<le> uint b" "uint b \<le> 255"
    using uint_bounded [of a] uint_bounded [of b] by auto
  then have u: "0 \<le> ?u" "?u \<le> 65535" by auto
  then have le: "?u * delay \<le> 65535 * delay" and ge: "0 \<le> ?u * delay"
    using assms by (simp_all add: mult_right_mono)
  from assms have "delay \<le> 70368744177664" by simp
  with le ge have eq: "int64 (?u * delay) = ?u * delay" by (intro int64_small) linarith+
  show "0 \<le> int64 (?u * delay) sdiv 655350"
    using ge by (simp add: eq sdiv_nonneg)
  have "?u * delay div 655350 \<le> 65535 * delay div 655350"
    using le by (rule zdiv_mono1) simp
  also have "65535 * delay div 655350 = delay div 10"
    using zdiv_zmult2_eq [of 10 "65535 * delay" 65535] by simp
  finally show "int64 (?u * delay) sdiv 655350 \<le> delay div 10"
    using ge by (simp add: eq sdiv_nonneg)
qed

lemma jitter_backoff_shape:
  assumes "0 < base" and "base \<le> 2 ^ 38"
  shows "base \<le> jitter_backoff sha256 base n key \<and> jitter_backoff sha256 base n key \<le> 282 * base"
proof -
  define e where "e = nat (if (if n < 1 then 1 else n) - 1 > 8 then 8 else (if n < 1 then 1 else n) - 1)"
  define d where "d = base * 2 ^ e"
  have "e \<le> 8" unfolding e_def by (simp split: if_splits) linarith
  from scaled_base [OF _ this, of base] assms have d: "base \<le> d" "d \<le> base * 256"
    by (auto simp: d_def)
  with assms have d46: "0 < d" "d \<le> 2 ^ 46" by auto
  then have d_id: "int64 d = d" by (intro int64_id) auto
  let ?j = "int64 ((uint (sha256 key ! 0) * 256 + uint (sha256 key ! 1)) * d) sdiv 655350"
  have j: "0 \<le> ?j" "?j \<le> d div 10" using jitter_bound [OF d46] by auto
  with d46 have id: "int64 (d + ?j) = d + ?j" by (intro int64_id) auto
  have eq: "jitter_backoff sha256 base n key = d + ?j"
    using d_id id by (simp add: jitter_backoff_def Let_def d_def e_def)
  from j d assms have "base \<le> d + ?j" "d + ?j \<le> 282 * base" by linarith+
  with eq show ?thesis by simp
qed

lemma bill_retryBackoff_shape:
  assumes "2 \<le> base" and "base \<le> 2 ^ 55"
  shows "0 < bill_retryBackoff sha256 itoa base n key
    \<and> bill_retryBackoff sha256 itoa base n key \<le> 5 * Minute"
proof -
  let ?e = "nat (clamp_attempt 8 n - 1)"
  have e: "?e \<le> 7" using clamp_attempt_range [of 8 n] by linarith
  from assms have "base \<le> 36028797018963968" by simp
  with scaled_base(1) [OF _ e, of base] scaled_base7 [OF _ e, of base] assms(1)
  have sc: "base \<le> base * 2 ^ ?e" "base * 2 ^ ?e \<le> 4611686018427387904" by linarith+
  with assms(1) have d0: "int64 (base * 2 ^ ?e) = base * 2 ^ ?e" by (intro int64_small) linarith+
  define d1 where "d1 = (if base * 2 ^ ?e > 5 * Minute then 5 * Minute else base * 2 ^ ?e)"
  define p where "p = 80 + uint (sha256 (key @ '':'' @ itoa (clamp_attempt 8 n)) ! 0) mod 41"
  have "2 \<le> base * 2 ^ ?e" using sc(1) assms(1) by linarith
  then have d1: "2 \<le> d1" "d1 \<le> 300000000000" unfolding d1_def go_units by simp_all
  have p: "80 \<le> p" "p \<le> 120" unfolding p_def
    using pos_mod_bound [of 41 "uint (sha256 (key @ '':'' @ itoa (clamp_attempt 8 n)) ! 0)"] by auto
  from d1 p have "2 * 80 \<le> d1 * p" "d1 * p \<le> 300000000000 * 120"
    by (intro mult_mono; simp)+
  then have q: "int64 (d1 * p) sdiv 100 = d1 * p div 100" "0 < d1 * p div 100"
    by (auto simp: int64_id sdiv_nonneg)
  then show ?thesis
    unfolding bill_retryBackoff_def Let_def d0 d1_def [symmetric] p_def [symmetric]
    by (simp add: go_units)
qed

interpretation sub_retry: retry_policy sub_RetryBackoff 1 "2 ^ 55" "\<lambda>_. 5 * Minute"
  by unfold_locales (use sub_RetryBackoff_shape in auto)

interpretation bill_retry: retry_policy "bill_retryBackoff sha256 itoa" 2 "2 ^ 55" "\<lambda>_. 5 * Minute"
  for sha256 itoa
  by unfold_locales (use bill_retryBackoff_shape in auto)

lemma jitter_backoff_pos: "1 \<le> base \<Longrightarrow> base \<le> 2 ^ 38 \<Longrightarrow> 0 < jitter_backoff sha256 base n key"
  using jitter_backoff_shape [of base sha256 n key] by linarith

lemma jitter_backoff_cap:
  "1 \<le> base \<Longrightarrow> base \<le> 2 ^ 38 \<Longrightarrow> jitter_backoff sha256 base n key \<le> 282 * base"
  using jitter_backoff_shape [of base sha256 n key] by linarith

interpretation acc_retry: retry_policy "acc_retryBackoff sha256" 1 "2 ^ 38" "\<lambda>base. 282 * base"
  for sha256
  by unfold_locales (simp_all only: acc_retryBackoff_def jitter_backoff_pos jitter_backoff_cap)

interpretation prov_retry: retry_policy "prov_retryBackoff sha256" 1 "2 ^ 38" "\<lambda>base. 282 * base"
  for sha256
  by unfold_locales (simp_all only: prov_retryBackoff_def jitter_backoff_pos jitter_backoff_cap)

interpretation notif_retry: retry_policy "notif_retryBackoff sha256" 1 "2 ^ 38" "\<lambda>base. 282 * base"
  for sha256
  by unfold_locales (simp_all only: notif_retryBackoff_def jitter_backoff_pos jitter_backoff_cap)

end
