(* ===== verification/Kafka.thy ===== *)
theory Kafka
  imports Prelude
begin

text \<open>
  What the consumers share: the envelope of an event (\<open>internal/platform/kafka/kafka.go\<close>), a
  record as the Kafka client returns it, and the fetch positions that a consumer sets. The bytes
  of an envelope's data are kept as they are; a consumer's codec decodes them.
\<close>

record Envelope =
  envl_EventID :: uuid
  envl_EventType :: string
  envl_SchemaVersion :: int
  envl_OccurredAt :: instant
  envl_Producer :: string
  envl_CorrelationID :: string
  envl_CausationID :: "uuid option"
  envl_AggregateType :: string
  envl_AggregateID :: uuid
  envl_AggregateSequence :: int
  envl_PartitionKey :: string
  envl_Data :: string

record kafka_record =
  rec_topic :: string
  rec_partition :: int
  rec_offset :: int
  rec_key :: string
  rec_value :: string

type_synonym offsets = "string \<times> int \<Rightarrow> int option"

end
