(* ===== verification/Subscription_Service.thy ===== *)
theory Subscription_Service
  imports Subscription_Properties Retry Kafka
begin

text \<open>
  The subscription service above its store: the use cases of
  \<open>internal/application/service.go\<close>, the background worker of \<open>internal/application/worker.go\<close>,
  the order client of \<open>internal/billing/client.go\<close> and the Kafka consumer of
  \<open>internal/kafka/consumer.go\<close>.

  What the outside world answers while one record is handled or one worker round runs is an
  argument: the billing response, driver faults of each transaction, whether the dead-letter
  insert and the offset commit succeed, whether the context is cancelled. JSON decoding and
  SHA-256 are the fields of a \<open>codec\<close>: \<open>cd_envelope v = None\<close> says that \<open>strictDecode\<close> rejects
  the bytes \<open>v\<close>. The consumer's own effects are its commits, in order, and the offsets of its
  last \<open>SetOffsets\<close>. Metrics, logging, tracing and waiting are not part of the model.
\<close>

section \<open>Use cases\<close>

datatype order_response = Unreachable | HttpStatus int "Order option"

definition GetOrder :: "order_response \<Rightarrow> sub_error + Order" where
  "GetOrder resp = (case resp of
       Unreachable \<Rightarrow> Inl InfraError
     | HttpStatus status body \<Rightarrow>
         if status = 404 then Inl ErrNotFound
         else if status < 200 \<or> status \<ge> 300 then Inl InfraError
         else (case body of None \<Rightarrow> Inl InfraError | Some order \<Rightarrow> Inr order))"

record handle_env =
  he_now :: instant
  he_ids :: new_ids
  he_event :: uuid
  he_order :: order_response
  he_replay_fault :: fault
  he_apply_fault :: fault
  he_dead_ok :: bool
  he_commit_ok :: bool
  he_cancelled :: bool
  he_alive :: bool

definition HandlePayment :: "handle_env \<Rightarrow> EventMeta \<Rightarrow> PaymentSucceeded \<Rightarrow> sub_store \<Rightarrow> sub_error option \<times> sub_store" where
  "HandlePayment env meta payment st =
     (case validatePayment meta payment of
        Some err \<Rightarrow> (Some err, st)
      | None \<Rightarrow>
          (case run_tx InfraError (he_replay_fault env) (recordPaymentReplay (he_now env) meta payment) st of
             (Inl err, st1) \<Rightarrow> (Some err, st1)
           | (Inr known, st1) \<Rightarrow>
               if known then (None, st1)
               else (case GetOrder (he_order env) of
                  Inl err \<Rightarrow> (Some err, st1)
                | Inr order \<Rightarrow>
                    (case validateOrder payment order of
                       Some err \<Rightarrow> (Some err, st1)
                     | None \<Rightarrow>
                         (case run_tx InfraError (he_apply_fault env)
                             (applyPayment (he_ids env) (he_now env) meta payment order) st1 of
                            (Inl err, st2) \<Rightarrow> (Some err, st2)
                          | (Inr _, st2) \<Rightarrow> (None, st2))))))"

definition HandleRefund :: "handle_env \<Rightarrow> EventMeta \<Rightarrow> RefundSucceeded \<Rightarrow> sub_store \<Rightarrow> sub_error option \<times> sub_store" where
  "HandleRefund env meta refund st =
     (case validateRefund meta refund of
        Some err \<Rightarrow> (Some err, st)
      | None \<Rightarrow>
          (case run_tx InfraError (he_apply_fault env) (storeRefund (he_event env) (he_now env) meta refund) st of
             (Inl err, st1) \<Rightarrow> (Some err, st1)
           | (Inr _, st1) \<Rightarrow> (None, st1)))"

section \<open>The consumer\<close>

record codec =
  cd_envelope :: "string \<Rightarrow> Envelope option"
  cd_payment :: "string \<Rightarrow> PaymentSucceeded option"
  cd_refund :: "string \<Rightarrow> RefundSucceeded option"
  cd_sha256 :: "string \<Rightarrow> string"

definition event_meta :: "codec \<Rightarrow> Envelope \<Rightarrow> kafka_record \<Rightarrow> EventMeta" where
  "event_meta cd envelope record =
     \<lparr>meta_EventID = envl_EventID envelope, meta_EventType = envl_EventType envelope,
      meta_AggregateID = envl_AggregateID envelope, meta_CorrelationID = envl_CorrelationID envelope,
      meta_CausationID = envl_CausationID envelope, meta_OccurredAt = envl_OccurredAt envelope,
      meta_SourceTopic = rec_topic record, meta_SourcePartition = rec_partition record,
      meta_SourceOffset = rec_offset record, meta_PayloadSHA256 = cd_sha256 cd (rec_value record)\<rparr>"

definition process :: "codec \<Rightarrow> handle_env \<Rightarrow> kafka_record \<Rightarrow> sub_store \<Rightarrow> sub_error option \<times> sub_store" where
  "process cd env record st =
     (case cd_envelope cd (rec_value record) of
        None \<Rightarrow> (Some (ContractError ''invalid_envelope''), st)
      | Some envelope \<Rightarrow>
          if envl_SchemaVersion envelope \<noteq> 1 \<or> envl_EventType envelope \<noteq> rec_topic record
            \<or> envl_Producer envelope \<noteq> ''billing-service'' \<or> envl_PartitionKey envelope \<noteq> rec_key record
          then (Some (ContractError ''invalid_envelope_metadata''), st)
          else let meta = event_meta cd envelope record in
            if rec_topic record = ''billing.payment.succeeded.v1'' then
              if envl_AggregateType envelope \<noteq> ''payment''
              then (Some (ContractError ''invalid_payment_aggregate''), st)
              else (case cd_payment cd (envl_Data envelope) of
                  None \<Rightarrow> (Some (ContractError ''invalid_payment_payload''), st)
                | Some payment \<Rightarrow>
                    if envl_PartitionKey envelope \<noteq> ''user:'' @ pay_UserID payment
                    then (Some (ContractError ''invalid_payment_payload''), st)
                    else HandlePayment env meta payment st)
            else if rec_topic record = ''billing.refund.succeeded.v1'' then
              if envl_AggregateType envelope \<noteq> ''refund''
              then (Some (ContractError ''invalid_refund_aggregate''), st)
              else (case cd_refund cd (envl_Data envelope) of
                  None \<Rightarrow> (Some (ContractError ''invalid_refund_payload''), st)
                | Some refund \<Rightarrow>
                    if envl_PartitionKey envelope \<noteq> ''user:'' @ ref_UserID refund
                    then (Some (ContractError ''invalid_refund_payload''), st)
                    else HandleRefund env meta refund st)
            else (Some (ContractError ''unsupported_event_type''), st))"

fun rewind_offsets :: "kafka_record list \<Rightarrow> offsets \<Rightarrow> offsets" where
  "rewind_offsets [] offs = offs"
| "rewind_offsets (r # rs) offs =
     rewind_offsets rs
       (let k = (rec_topic r, rec_partition r) in
        case offs k of
          None \<Rightarrow> offs(k \<mapsto> rec_offset r)
        | Some current \<Rightarrow> if rec_offset r < current then offs(k \<mapsto> rec_offset r) else offs)"

record consumer_state =
  cons_store :: sub_store
  cons_committed :: "kafka_record list"
  cons_position :: offsets

definition rewind :: "kafka_record list \<Rightarrow> consumer_state \<Rightarrow> consumer_state" where
  "rewind records c = c\<lparr>cons_position := cons_position c ++ rewind_offsets records Map.empty\<rparr>"

fun pollOnce :: "codec \<Rightarrow> (handle_env \<times> kafka_record) list \<Rightarrow> consumer_state \<Rightarrow> bool \<times> consumer_state" where
  "pollOnce cd [] c = (True, c)"
| "pollOnce cd ((env, record) # rest) c =
     (if he_cancelled env then (False, rewind (record # map snd rest) c)
      else
        let (err, st1) = process cd env record (cons_store c);
            c1 = c\<lparr>cons_store := st1\<rparr>;
            commit = (\<lambda>c2. if he_commit_ok env
                       then pollOnce cd rest (c2\<lparr>cons_committed := cons_committed c2 @ [record]\<rparr>)
                       else (he_alive env, rewind (record # map snd rest) c2))
        in case err of
             None \<Rightarrow> commit c1
           | Some e \<Rightarrow>
               (case ContractErrorCode e of
                  Some code \<Rightarrow>
                    if he_dead_ok env
                    then commit (c1\<lparr>cons_store := RecordDeadLetter (rec_topic record) (rec_partition record)
                                  (rec_offset record) (cd_sha256 cd (rec_value record)) code st1\<rparr>)
                    else (he_alive env, rewind (record # map snd rest) c1)
                | None \<Rightarrow> (he_alive env, rewind (record # map snd rest) c1)))"

section \<open>The worker\<close>

record worker_env =
  we_now :: instant
  we_lease :: nanos
  we_retryDelay :: nanos
  we_event :: uuid
  we_locked :: "uuid list"
  we_fault :: fault
  we_publish_ok :: bool

definition reconcileRefund :: "worker_env \<Rightarrow> sub_store \<Rightarrow> sub_store" where
  "reconcileRefund env st =
     (case ClaimRefund (we_now env) (we_lease env) (we_locked env) st of
        (Inr (Some work), st1) \<Rightarrow>
          let delay = sub_RetryBackoff (we_retryDelay env) (rw_Attempts work) (rw_InboxID work)
          in snd (run_tx InfraError (we_fault env) (applyClaimedRefund (we_event env) (we_now env) work delay) st1)
      | (_, st1) \<Rightarrow> st1)"

definition advanceLifecycle :: "worker_env \<Rightarrow> sub_store \<Rightarrow> sub_store" where
  "advanceLifecycle env st =
     (case ClaimDue (we_now env) (we_lease env) (we_locked env) st of
        (Inr (Some sub), st1) \<Rightarrow>
          snd (run_tx InfraError (we_fault env) (completeDue (we_event env) (we_now env) (sub_SubscriptionID sub)) st1)
      | (_, st1) \<Rightarrow> st1)"

text \<open>The messages handed to the publisher, in order, are the second component.\<close>

definition publishOutbox :: "worker_env \<Rightarrow> sub_store \<Rightarrow> sub_store \<times> sub_envelope OutboxMessage list" where
  "publishOutbox env st =
     (case ClaimOutbox (we_now env) (we_lease env) (we_locked env) st of
        (Inr (Some message), st1) \<Rightarrow>
          if we_publish_ok env
          then (CompleteOutbox (we_now env) (msg_EventID message) st1, [message])
          else (RetryOutbox (we_now env)
                  (sub_RetryBackoff (we_retryDelay env) (msg_Attempts message) (msg_EventID message))
                  (msg_EventID message) st1, [])
      | (_, st1) \<Rightarrow> (st1, []))"

definition workOnce :: "worker_env \<Rightarrow> worker_env \<Rightarrow> worker_env \<Rightarrow> sub_store \<Rightarrow> sub_store \<times> sub_envelope OutboxMessage list" where
  "workOnce e1 e2 e3 st = publishOutbox e3 (advanceLifecycle e2 (reconcileRefund e1 st))"

section \<open>Everything the service does is a sequence of store steps\<close>

lemma HandlePayment_reachable:
  assumes "sub_reachable st"
  shows "sub_reachable (snd (HandlePayment env meta payment st))"
proof (cases "validatePayment meta payment")
  case None
  note v = this
  obtain x st1 where tx1: "run_tx InfraError (he_replay_fault env) (recordPaymentReplay (he_now env) meta payment) st = (x, st1)"
    by fastforce
  then have r1: "sub_reachable st1"
    using reach_step [OF assms step_replay [OF v, of st "he_replay_fault env" "he_now env"]] by simp
  have r2: "sub_reachable st2"
    if "validateOrder payment order = None" and "run_tx InfraError (he_apply_fault env)
      (applyPayment (he_ids env) (he_now env) meta payment order) st1 = (y, st2)" for order y st2
    using reach_step [OF r1 step_payment [OF v that(1), of st1 "he_apply_fault env" "he_ids env" "he_now env"]] that(2)
    by simp
  show ?thesis using v tx1 r1
    by (auto simp: HandlePayment_def split: sum.splits option.splits prod.splits dest: r2)
qed (simp add: HandlePayment_def assms)

lemma HandleRefund_reachable:
  assumes "sub_reachable st"
  shows "sub_reachable (snd (HandleRefund env meta refund st))"
proof (cases "validateRefund meta refund")
  case None
  obtain x st1 where "run_tx InfraError (he_apply_fault env) (storeRefund (he_event env) (he_now env) meta refund) st = (x, st1)"
    by fastforce
  with reach_step [OF assms step_refund [OF None, of st "he_apply_fault env" "he_event env" "he_now env"]] None
  show ?thesis by (simp add: HandleRefund_def split: sum.splits)
qed (simp add: HandleRefund_def assms)

lemma process_reachable: "sub_reachable st \<Longrightarrow> sub_reachable (snd (process cd env record st))"
  by (auto simp: process_def Let_def HandlePayment_reachable HandleRefund_reachable split: option.splits)

lemma pollOnce_reachable:
  "sub_reachable (cons_store c) \<Longrightarrow> sub_reachable (cons_store (snd (pollOnce cd rs c)))"
proof (induction rs arbitrary: c)
  case (Cons er rest)
  obtain env rc where er: "er = (env, rc)" by fastforce
  obtain err st1 where p: "process cd env rc (cons_store c) = (err, st1)" by fastforce
  with process_reachable [OF Cons.prems, of cd env rc] have r1: "sub_reachable st1" by simp
  then have dead: "sub_reachable (RecordDeadLetter a b d e f st1)" for a b d e f
    by (rule reach_step) (rule step_dead_letter)
  show ?case
    using Cons.prems p r1 dead er
    by (auto simp: rewind_def Let_def split: option.splits intro!: Cons.IH)
qed simp

lemma reconcileRefund_reachable: "sub_reachable st \<Longrightarrow> sub_reachable (reconcileRefund env st)"
  using reach_step [OF _ step_claim_refund, of st "we_now env" "we_lease env" "we_locked env"]
  by (auto simp: reconcileRefund_def Let_def split: prod.splits sum.splits option.splits
      intro: reach_step [OF _ step_claimed_refund])

lemma advanceLifecycle_reachable: "sub_reachable st \<Longrightarrow> sub_reachable (advanceLifecycle env st)"
  using reach_step [OF _ step_claim_due, of st "we_now env" "we_lease env" "we_locked env"]
  by (auto simp: advanceLifecycle_def split: prod.splits sum.splits option.splits
      intro: reach_step [OF _ step_due])

lemma publishOutbox_reachable: "sub_reachable st \<Longrightarrow> sub_reachable (fst (publishOutbox env st))"
  using reach_step [OF _ step_claim_outbox, of st "we_now env" "we_lease env" "we_locked env"]
  by (auto simp: publishOutbox_def split: prod.splits sum.splits option.splits
      intro: reach_step [OF _ step_complete_outbox] reach_step [OF _ step_retry_outbox])


section \<open>At least once: what a poll leaves behind\<close>

lemma rewind_offsets_covers:
  assumes "r \<in> set rs \<or> offs (rec_topic r, rec_partition r) = Some old \<and> old \<le> rec_offset r"
  shows "\<exists>n. rewind_offsets rs offs (rec_topic r, rec_partition r) = Some n \<and> n \<le> rec_offset r"
  using assms
proof (induction rs offs arbitrary: old rule: rewind_offsets.induct)
  case (2 q rs offs)
  let ?k = "(rec_topic r, rec_partition r)"
  let ?offs = "let k = (rec_topic q, rec_partition q) in case offs k of None \<Rightarrow> offs(k \<mapsto> rec_offset q)
        | Some current \<Rightarrow> if rec_offset q < current then offs(k \<mapsto> rec_offset q) else offs"
  have "r \<in> set rs \<or> (\<exists>m. ?offs ?k = Some m \<and> m \<le> rec_offset r)"
    using 2(2) by (auto simp: Let_def split: option.splits)
  with 2(1) show ?case by (simp only: rewind_offsets.simps) blast
qed auto

lemma rewind_offsets_source:
  "rewind_offsets rs offs k = Some n \<Longrightarrow> offs k = Some n \<or> (\<exists>r \<in> set rs. k = (rec_topic r, rec_partition r) \<and> n = rec_offset r)"
  by (induction rs offs rule: rewind_offsets.induct) (auto simp: Let_def split: option.splits if_splits)

text \<open>The records a poll commits are those it settled: processed, or refused for good.\<close>

definition settled :: "codec \<Rightarrow> handle_env \<times> kafka_record \<Rightarrow> bool" where
  "settled cd er \<longleftrightarrow> (\<exists>st. case fst (process cd (fst er) (snd er) st) of
       None \<Rightarrow> True | Some e \<Rightarrow> ContractErrorCode e \<noteq> None \<and> he_dead_ok (fst er))"

lemma pollOnce_result:
  "\<exists>k \<le> length ers. cons_committed (snd (pollOnce cd ers c)) = cons_committed c @ map snd (take k ers)
    \<and> list_all (settled cd) (take k ers)
    \<and> cons_position (snd (pollOnce cd ers c)) = cons_position c ++ rewind_offsets (map snd (drop k ers)) Map.empty"
proof (induction ers arbitrary: c)
  case (Cons er rest)
  obtain env rc where er: "er = (env, rc)" by fastforce
  obtain err st1 where p: "process cd env rc (cons_store c) = (err, st1)" by fastforce
  define good where "good = (case err of None \<Rightarrow> True | Some e \<Rightarrow> ContractErrorCode e \<noteq> None \<and> he_dead_ok env)"
  have stop: ?case if "snd (pollOnce cd ((env, rc) # rest) c) = rewind (rc # map snd rest) (c\<lparr>cons_store := st'\<rparr>)" for st'
    unfolding er that by (rule exI [of _ 0]) (simp add: rewind_def)
  show ?case
  proof (cases "\<not> he_cancelled env \<and> good \<and> he_commit_ok env")
    case True
    have set: "settled cd (env, rc)"
      using True p unfolding settled_def good_def
      by (intro exI [of _ "cons_store c"]) (simp split: option.splits)
    obtain st2 where step: "pollOnce cd ((env, rc) # rest) c =
        pollOnce cd rest (c\<lparr>cons_store := st2, cons_committed := cons_committed c @ [rc]\<rparr>)"
      and ih: "\<exists>k \<le> length rest. cons_committed (snd (pollOnce cd rest (c\<lparr>cons_store := st2, cons_committed := cons_committed c @ [rc]\<rparr>)))
          = (cons_committed c @ [rc]) @ map snd (take k rest) \<and> list_all (settled cd) (take k rest)
        \<and> cons_position (snd (pollOnce cd rest (c\<lparr>cons_store := st2, cons_committed := cons_committed c @ [rc]\<rparr>)))
          = cons_position c ++ rewind_offsets (map snd (drop k rest)) Map.empty"
      using True p Cons.IH [of "c\<lparr>cons_store := st', cons_committed := cons_committed c @ [rc]\<rparr>" for st']
      unfolding good_def by (auto simp: Let_def split: option.splits)
    from ih obtain k where "k \<le> length rest" "list_all (settled cd) (take k rest)"
      "cons_committed (snd (pollOnce cd rest (c\<lparr>cons_store := st2, cons_committed := cons_committed c @ [rc]\<rparr>)))
          = (cons_committed c @ [rc]) @ map snd (take k rest)"
      "cons_position (snd (pollOnce cd rest (c\<lparr>cons_store := st2, cons_committed := cons_committed c @ [rc]\<rparr>)))
          = cons_position c ++ rewind_offsets (map snd (drop k rest)) Map.empty" by blast
    with set show ?thesis unfolding er step by (intro exI [of _ "Suc k"]) simp
  next
    case False
    show ?thesis
    proof (cases "he_cancelled env")
      case True
      then show ?thesis by (intro stop [of "cons_store c"]) simp
    next
      case nc: False
      show ?thesis
      proof (cases "he_dead_ok env \<and> (\<exists>e. err = Some e \<and> ContractErrorCode e \<noteq> None)")
        case True
        then obtain e y where "err = Some e" "ContractErrorCode e = Some y" by auto
        with True False nc p show ?thesis
          by (intro stop [of "RecordDeadLetter (rec_topic rc) (rec_partition rc) (rec_offset rc)
                (cd_sha256 cd (rec_value rc)) y st1"]) (simp add: good_def Let_def)
      next
        case notdead: False
        with False nc p show ?thesis
          by (intro stop [of st1]) (auto simp: good_def Let_def split: option.splits)
      qed
    qed
  qed
qed simp



section \<open>Redelivery has no effect\<close>

lemma recorded_run_tx:
  "(\<And>r t. m st = (r, t) \<Longrightarrow> t = st) \<Longrightarrow> snd (run_tx err fl m st) = st"
  using run_tx_cases [of err fl m st] by auto

lemma recordPaymentReplay_True:
  assumes "recordPaymentReplay now meta payment st = (Inr True, t)"
  shows "snd (run_tx InfraError fl (recordPaymentReplay now2 meta payment) t) = t"
    and "\<And>b t2. run_tx InfraError fl (recordPaymentReplay now2 meta payment) t = (Inr b, t2) \<Longrightarrow> b"
proof -
  from assms obtain p s where ps: "find_payment (pay_PaymentID payment) st = Some (p, s)"
    by (auto simp: recordPaymentReplay_def tx_bind_Inr split: option.splits)
  with assms have ok: "\<not> (sr_user_id s \<noteq> pay_UserID payment \<or> p_source_order_id p \<noteq> pay_OrderID payment
             \<or> p_plan_id p \<noteq> pay_PlanID payment \<or> p_amount_minor p \<noteq> pay_AmountMinor payment
             \<or> p_currency p \<noteq> pay_Currency payment \<or> p_paid_at p \<noteq> pay_PaidAt payment)"
    by (auto simp: recordPaymentReplay_def tx_bind_Inr split: if_splits)
  with assms ps have "\<exists>b st1. insertInbox meta (pay_PaymentID payment) (pay_UserID payment) None IbProcessed now st = (Inr b, st1)
      \<and> (if b then tx_modify (update_inbox (meta_EventID meta) (\<lambda>r. r\<lparr>ib_processed_at := Some now\<rparr>)) else tx_return ()) st1 = (Inr () :: sub_error + unit, t)"
    by (simp add: recordPaymentReplay_def tx_bind_Inr split del: if_split)
  then obtain b st1 where ins: "insertInbox meta (pay_PaymentID payment) (pay_UserID payment) None IbProcessed now st = (Inr b, st1)"
    and fin: "(if b then tx_modify (update_inbox (meta_EventID meta) (\<lambda>r. r\<lparr>ib_processed_at := Some now\<rparr>)) else tx_return ()) st1 = (Inr () :: sub_error + unit, t)"
    by blast
  from fin have t: "t = (if b then update_inbox (meta_EventID meta) (\<lambda>r. r\<lparr>ib_processed_at := Some now\<rparr>) st1 else st1)"
    by (cases b) auto
  have "recorded meta (pay_PaymentID payment) (pay_UserID payment) t"
    using insertInbox_records [OF ins] recorded_update_inbox [OF insertInbox_records [OF ins]] unfolding t by simp
  note rec = insertInbox_recorded [OF this]
  from insertInbox_frame [OF ins] obtain ib where "t = st\<lparr>st_inbox := ib\<rparr>"
    unfolding t by (cases b) (auto simp: update_inbox_def)
  with ps have "find_payment (pay_PaymentID payment) t = Some (p, s)" by simp
  with ok rec have run: "recordPaymentReplay now2 meta payment t = (Inr True, t)"
    by (simp add: recordPaymentReplay_def tx_defs)
  then show "snd (run_tx InfraError fl (recordPaymentReplay now2 meta payment) t) = t"
    by (intro recorded_run_tx) simp
  show "b" if "run_tx InfraError fl (recordPaymentReplay now2 meta payment) t = (Inr b, t2)" for b t2
    using run_tx_Inr [OF that] run by simp
qed


lemma applyPayment_redelivered:
  assumes "recorded meta (pay_PaymentID payment) (pay_UserID payment) st"
  shows "snd (run_tx InfraError fl (applyPayment ids now meta payment order) st) = st"
  by (intro recorded_run_tx) (simp add: applyPayment_def tx_bind_def insertInbox_recorded [OF assms] tx_return_def)

lemma HandlePayment_redelivered:
  assumes reach: "sub_reachable st" and run: "HandlePayment env meta payment st = (None, t)"
  shows "snd (HandlePayment env2 meta payment t) = t"
proof -
  from run have v: "validatePayment meta payment = None" by (auto simp: HandlePayment_def split: option.splits)
  let ?rep = "\<lambda>e. run_tx InfraError (he_replay_fault e) (recordPaymentReplay (he_now e) meta payment)"
  from run v obtain b st1 where rep: "?rep env st = (Inr b, st1)"
    by (auto simp: HandlePayment_def split: sum.splits prod.splits)
  note rep' = run_tx_Inr [OF rep]
  show ?thesis
  proof (cases b)
    case True
    with run v rep have [simp]: "st1 = t" by (simp add: HandlePayment_def)
    from rep' True recordPaymentReplay_True [of "he_now env" meta payment st t "he_replay_fault env2" "he_now env2"]
    have "snd (?rep env2 t) = t" "\<And>b t2. ?rep env2 t = (Inr b, t2) \<Longrightarrow> b" by auto
    with v show ?thesis by (auto simp: HandlePayment_def split: sum.splits prod.splits)
  next
    case False
    with rep' have [simp]: "st1 = st" and nopay: "find_payment (pay_PaymentID payment) st = None"
      by (auto simp: recordPaymentReplay_def tx_bind_Inr split: option.splits if_splits prod.splits)
    from run v rep False obtain order where
      vo: "validateOrder payment order = None" and ap: "run_tx InfraError (he_apply_fault env)
        (applyPayment (he_ids env) (he_now env) meta payment order) st = (Inr (), t)"
      by (auto simp: HandlePayment_def split: sum.splits prod.splits option.splits)
    note ap' = run_tx_Inr [OF ap]
    have rec: "recorded meta (pay_PaymentID payment) (pay_UserID payment) t"
      using ap' by (rule applyPayment_records)
    have keep: "snd (?rep env2 t) = t"
    proof (rule recorded_run_tx)
      fix r t2 assume "recordPaymentReplay (he_now env2) meta payment t = (r, t2)"
      then show "t2 = t"
        by (auto simp: recordPaymentReplay_def tx_defs insertInbox_recorded [OF rec] split: option.splits if_splits)
    qed
    show ?thesis using v keep applyPayment_redelivered [OF rec]
      by (auto simp: HandlePayment_def split: sum.splits prod.splits option.splits) (metis snd_conv)+
  qed
qed

lemma applyRefund_inbox:
  "applyRefund eid now meta refund st = (r, t) \<Longrightarrow> st_inbox t = st_inbox st"
  by (auto simp: applyRefund_def settle_refund_def Let_def tx_defs mark_refunded_def revoke_subscription_def
      updateSubscription_def insertOutbox_def update_sub_def split: option.splits if_splits prod.splits sum.splits)

lemma storeRefund_records:
  assumes "storeRefund eid now meta refund st = (Inr (), t)"
  shows "recorded meta (ref_PaymentID refund) (ref_UserID refund) t"
proof -
  from assms obtain b st1 where
    ins: "insertInbox meta (ref_PaymentID refund) (ref_UserID refund) (Some refund) IbPending now st = (Inr b, st1)"
    and rest: "(if \<not> b then tx_return () else
       tx_try (applyRefund eid now meta refund) (dead_letter_conflict (meta_EventID meta) now)
         (\<lambda>applied. if applied then markInboxProcessed (meta_EventID meta) now else tx_return ())) st1 = (Inr (), t)"
    by (auto simp: storeRefund_def tx_bind_Inr)
  note rec1 = insertInbox_records [OF ins]
  obtain x st2 where ar: "applyRefund eid now meta refund st1 = (x, st2)" by fastforce
  from rec1 have rec2: "recorded meta (ref_PaymentID refund) (ref_UserID refund) st2"
    using applyRefund_inbox [OF ar] by (simp add: recorded_def)
  from rest have cases: "t = st1 \<or> t = st2 \<or> (\<exists>eid now. markInboxProcessed eid now st2 = (Inr (), t))
      \<or> (\<exists>eid now reason. deadLetterInbox eid now reason st2 = (Inr (), t))"
    by (auto simp: tx_try_def ar dead_letter_conflict_def split: if_splits sum.splits)
  have dead: "recorded meta (ref_PaymentID refund) (ref_UserID refund) t" if "deadLetterInbox eid now reason st2 = (Inr (), t)" for eid now reason
  proof -
    from that obtain f where f: "st_inbox t = st_inbox (update_inbox eid f st2)"
      "\<And>r. ib_event_id (f r) = ib_event_id r \<and> ib_event_type (f r) = ib_event_type r
      \<and> ib_aggregate_id (f r) = ib_aggregate_id r \<and> ib_source_payment_id (f r) = ib_source_payment_id r
      \<and> ib_user_id (f r) = ib_user_id r \<and> ib_correlation_id (f r) = ib_correlation_id r \<and> ib_source (f r) = ib_source r"
      by (auto simp: deadLetterInbox_def tx_bind_Inr split: option.splits if_splits)
    from recorded_update_inbox [OF rec2 f(2)] f(1) show ?thesis by (simp add: recorded_def)
  qed
  from cases rec1 rec2 dead show ?thesis by (auto intro: recorded_markInboxProcessed)
qed

lemma HandleRefund_redelivered:
  assumes "HandleRefund env meta refund st = (None, t)"
  shows "snd (HandleRefund env2 meta refund t) = t"
proof -
  from assms have v: "validateRefund meta refund = None"
    and run: "run_tx InfraError (he_apply_fault env) (storeRefund (he_event env) (he_now env) meta refund) st = (Inr (), t)"
    by (auto simp: HandleRefund_def split: option.splits sum.splits prod.splits)
  note rec = insertInbox_recorded [OF storeRefund_records [OF run_tx_Inr [OF run]]]
  have "snd (run_tx InfraError (he_apply_fault env2) (storeRefund (he_event env2) (he_now env2) meta refund) t) = t"
    by (rule recorded_run_tx) (simp add: storeRefund_def tx_bind_def rec tx_return_def)
  with v show ?thesis by (auto simp: HandleRefund_def split: sum.splits prod.splits)
qed

text \<open>A record that is processed without error reaches one of the two use cases.\<close>

lemma process_None:
  assumes "process cd env r st = (None, t)"
  obtains (payment) meta payment where "HandlePayment env meta payment st = (None, t)"
      "\<And>env2 st2. process cd env2 r st2 = HandlePayment env2 meta payment st2"
    | (refund) meta refund where "HandleRefund env meta refund st = (None, t)"
      "\<And>env2 st2. process cd env2 r st2 = HandleRefund env2 meta refund st2"
proof -
  from assms obtain e where e: "cd_envelope cd (rec_value r) = Some e"
    and ok: "\<not> (envl_SchemaVersion e \<noteq> 1 \<or> envl_EventType e \<noteq> rec_topic r
        \<or> envl_Producer e \<noteq> ''billing-service'' \<or> envl_PartitionKey e \<noteq> rec_key r)"
    unfolding process_def by (cases "cd_envelope cd (rec_value r)") (auto split: if_splits)
  let ?meta = "event_meta cd e r"
  consider "rec_topic r = ''billing.payment.succeeded.v1''" | "rec_topic r = ''billing.refund.succeeded.v1''"
    using assms ok by (auto simp: process_def e Let_def split: if_splits)
  then show thesis
  proof cases
    case 1
    with assms ok obtain p where "envl_AggregateType e = ''payment''" "cd_payment cd (envl_Data e) = Some p"
      "envl_PartitionKey e = ''user:'' @ pay_UserID p"
      by (cases "cd_payment cd (envl_Data e)") (auto simp: process_def e Let_def split: if_splits)
    with 1 e ok have "process cd env2 r st2 = HandlePayment env2 ?meta p st2" for env2 st2
      by (simp add: process_def)
    with assms show thesis by (intro payment) simp_all
  next
    case 2
    with assms ok obtain p where "envl_AggregateType e = ''refund''" "cd_refund cd (envl_Data e) = Some p"
      "envl_PartitionKey e = ''user:'' @ ref_UserID p"
      by (cases "cd_refund cd (envl_Data e)") (auto simp: process_def e Let_def split: if_splits)
    with 2 e ok have "process cd env2 r st2 = HandleRefund env2 ?meta p st2" for env2 st2
      by (simp add: process_def)
    with assms show thesis by (intro refund) simp_all
  qed
qed

text \<open>C10: Redelivery has no effect. Once a record has been processed without error in a reachable
  store, processing it again, at any later time in that store, with any billing answer, fresh
  identifiers and any driver faults, leaves the store exactly as it is. Together with the
  consumer's at-least-once delivery every payment and refund takes effect once.\<close>

theorem redelivery_no_effect:
  assumes "sub_reachable st" and "process cd env r st = (None, t)"
  shows "snd (process cd env2 r t) = t"
  using assms(2)
proof (cases rule: process_None)
  case (payment meta p)
  with HandlePayment_redelivered [OF assms(1)] show ?thesis by simp
next
  case (refund meta p)
  with HandleRefund_redelivered show ?thesis by simp
qed


definition sample_codec :: codec where
  "sample_codec = \<lparr>cd_envelope = (\<lambda>v. if v = ''doc'' then
       Some \<lparr>envl_EventID = sample_uuid ''40'', envl_EventType = ''billing.payment.succeeded.v1'', envl_SchemaVersion = 1,
         envl_OccurredAt = 1000, envl_Producer = ''billing-service'', envl_CorrelationID = sample_uuid ''c0'',
         envl_CausationID = None, envl_AggregateType = ''payment'', envl_AggregateID = sample_uuid ''10'',
         envl_AggregateSequence = 0, envl_PartitionKey = ''user:'' @ sample_uuid ''33'', envl_Data = ''payment''\<rparr> else None),
     cd_payment = (\<lambda>v. if v = ''payment'' then Some (sample_payment ''0'' 1000) else None),
     cd_refund = (\<lambda>v. None), cd_sha256 = (\<lambda>v. replicate 64 CHR ''a'')\<rparr>"

definition sample_record :: kafka_record where
  "sample_record = \<lparr>rec_topic = ''billing.payment.succeeded.v1'', rec_partition = 0, rec_offset = 0,
     rec_key = ''user:'' @ sample_uuid ''33'', rec_value = ''doc''\<rparr>"

definition sample_env :: handle_env where
  "sample_env = \<lparr>he_now = 1000, he_ids = sample_ids ''0'', he_event = sample_uuid ''99'',
     he_order = HttpStatus 200 (Some (sample_order ''0'')), he_replay_fault = NoFault, he_apply_fault = NoFault,
     he_dead_ok = True, he_commit_ok = True, he_cancelled = False, he_alive = True\<rparr>"

theorem redelivery_no_effect_witness:
  "\<exists>t. process sample_codec sample_env sample_record empty_sub_store = (None, t) \<and> length (st_periods t) = 1
     \<and> snd (process sample_codec (sample_env\<lparr>he_order := Unreachable, he_apply_fault := FaultAfterCommit\<rparr>) sample_record t) = t"
proof -
  let ?run = "process sample_codec sample_env sample_record empty_sub_store"
  obtain t where "?run = (None, t)" "length (st_periods t) = 1"
    by (rule that [of "snd ?run"]) code_simp+
  with redelivery_no_effect [OF reach_empty this(1)] show ?thesis by auto
qed

section \<open>What the worker publishes\<close>

text \<open>The worker publishes a subscription's events in their order. Whenever a round of
  \<open>publishOutbox\<close> on a reachable store hands a message to the publisher successfully, the message
  is the topic, key and payload of an outbox row not yet published, every earlier row of the same
  subscription had been published before, and afterwards the row is published.\<close>

theorem worker_publishes_in_order:
  assumes "sub_reachable st" and "publishOutbox env st = (t, [m])"
  shows "\<exists>r \<in> set (st_outbox st). ob_event_id r = msg_EventID m \<and> ob_topic r = msg_Topic m
    \<and> ob_partition_key r = msg_PartitionKey m \<and> ob_payload r = msg_Payload m \<and> ob_state r \<noteq> ObPublished
    \<and> list_all (\<lambda>p. precedes p r \<longrightarrow> ob_state p = ObPublished) (st_outbox st)
    \<and> (\<exists>r' \<in> set (st_outbox t). ob_identity r' = ob_identity r \<and> ob_state r' = ObPublished)"
proof -
  let ?now = "we_now env" and ?os = "st_outbox st"
  from reachable_rows [OF assms(1)] have dist: "distinct (map ob_event_id ?os)"
    by (simp add: rows_inv_def outbox_inv_def)
  obtain c rows1 where cl: "sub_ClaimOutbox ?now (we_lease env) (we_locked env) ?os = (c, rows1)" by fastforce
  with assms(2) have c: "c = Some m"
    and t: "t = CompleteOutbox ?now (msg_EventID m) (st\<lparr>st_outbox := rows1\<rparr>)"
    by (auto simp: publishOutbox_def ClaimOutbox_def split: option.splits if_splits)
  from cl c have cl': "sub_ClaimOutbox ?now (we_lease env) (we_locked env) ?os = (Some m, rows1)" by simp
  from sub_outbox.claim_some [OF cl'] obtain r where r: "r \<in> set ?os" "ob_state r \<noteq> ObPublished"
    and m: "m = message_of (take_lease ?now (we_lease env) r)"
    and rows1: "rows1 = tbl_update (\<lambda>q. ob_event_id q = ob_event_id r) (take_lease ?now (we_lease env)) ?os" by blast
  have id: "ob_event_id r = msg_EventID m" by (simp add: m message_of_def take_lease_def)
  have turn: "\<not> has_unpublished_predecessor ?os r"
    by (rule sub_outbox.claim_in_turn [OF cl' dist r(1) id])
  have "take_lease ?now (we_lease env) r \<in> set rows1" using r(1) by (auto simp: rows1 tbl_update_def)
  then have "(take_lease ?now (we_lease env) r)\<lparr>ob_state := ObPublished, ob_lease_until := None,
      ob_published_at := Some ?now\<rparr> \<in> set (st_outbox t)"
    using id unfolding t CompleteOutbox_def sub_CompleteOutbox_def publish_row_def
    by (simp, intro tbl_update_hit) (simp_all add: take_lease_def)
  then have "\<exists>r' \<in> set (st_outbox t). ob_identity r' = ob_identity r \<and> ob_state r' = ObPublished"
    by (rule rev_bexI) (simp add: ob_identity_def take_lease_def)
  moreover have "list_all (\<lambda>p. precedes p r \<longrightarrow> ob_state p = ObPublished) ?os"
    using turn by (auto simp: has_unpublished_predecessor_def precedes_def list_all_iff list_ex_iff)
  ultimately show ?thesis using r id
    by (intro bexI [of _ r]) (simp_all add: m message_of_def take_lease_def)
qed

definition sample_worker :: worker_env where
  "sample_worker = \<lparr>we_now = 5000, we_lease = Minute, we_retryDelay = Second, we_event = sample_uuid ''98'',
     we_locked = [], we_fault = NoFault, we_publish_ok = True\<rparr>"

theorem worker_publishes_in_order_witness:
  "\<exists>t m r. publishOutbox sample_worker paid_once = (t, [m]) \<and> r \<in> set (st_outbox paid_once) \<and> ob_event_id r = msg_EventID m
     \<and> msg_Topic m = ''subscription.activated.v1''"
proof -
  let ?run = "publishOutbox sample_worker paid_once"
  obtain t m where "?run = (t, [m])" "msg_Topic m = ''subscription.activated.v1''"
    by (rule that [of "fst ?run" "hd (snd ?run)"]) code_simp+
  with worker_publishes_in_order [OF paid_once_reachable this(1)] show ?thesis by blast
qed

end
