(* ===== verification/Billing_Provider.thy ===== *)
theory Billing_Provider
  imports Prelude "HOL-Library.Signed_Division"
begin

text \<open>
  The payment provider's client, \<open>services/billing/internal/yookassa/client.go\<close>, and the
  provider types and errors of \<open>internal/domain/types.go\<close>.

  Amounts travel as decimal text: \<open>formatMinor\<close> and \<open>parseMinor\<close> with what they use of
  \<open>fmt\<close>, \<open>strconv\<close> and \<open>strings\<close>. An HTTP exchange is its outcome (\<open>http_outcome\<close>): a
  transport error, a body that cannot be read or is too long, or a status with the decoded
  response if the body is JSON of the expected shape. \<open>do_request\<close> classifies it as the code
  does; \<open>normalizePayment\<close> checks and converts the response.
\<close>

section \<open>Decimal text\<close>

text \<open>\<open>%02d\<close>: padded with zeros to two characters, the sign included.\<close>

definition pad2 :: "int \<Rightarrow> string" where
  "pad2 i = (if 0 \<le> i \<and> i < 10 then CHR ''0'' # Itoa i else Itoa i)"

definition formatMinor :: "int \<Rightarrow> string" where
  "formatMinor value = Itoa (value sdiv 100) @ ''.'' @ pad2 (value smod 100)"

definition parseMinor :: "string \<Rightarrow> int option" where
  "parseMinor value =
     (case split_on CHR ''.'' value of
        [whole, frac] \<Rightarrow>
          if length frac \<noteq> 2 \<or> whole = [] then None
          else (case ParseInt whole of
              None \<Rightarrow> None
            | Some major \<Rightarrow>
                if major < 0 then None
                else (case ParseInt frac of
                    None \<Rightarrow> None
                  | Some minor \<Rightarrow>
                      if minor < 0 \<or> minor > 99 then None
                      else if major > (2 ^ 63 - 1 - minor) sdiv 100 then None
                      else Some (major * 100 + minor)))
      | _ \<Rightarrow> None)"

section \<open>Provider payments\<close>

record ProviderPayment =
  prv_ProviderPaymentID :: string
  prv_Status :: string
  prv_AmountMinor :: int
  prv_Currency :: string
  prv_ConfirmationURL :: "string option"
  prv_Test :: bool
  prv_AccountID :: string
  prv_MetadataOrderID :: string
  prv_MetadataPaymentID :: string
  prv_CapturedAt :: "instant option"
  prv_CanceledAt :: "instant option"

record ProviderCreateRequest =
  pcr_IdempotencyKey :: string
  pcr_OrderID :: uuid
  pcr_PaymentID :: uuid
  pcr_AmountMinor :: int
  pcr_Currency :: string

record ProviderError =
  pe_Kind :: string
  pe_Code :: string

definition IsProviderRetryable :: "ProviderError \<Rightarrow> bool" where
  "IsProviderRetryable err \<longleftrightarrow> pe_Kind err = ''ambiguous'' \<or> pe_Kind err = ''temporary''"

record amount =
  am_Value :: string
  am_Currency :: string

record createPaymentRequest =
  cpr_Amount :: amount
  cpr_Capture :: bool
  cpr_ReturnURL :: string
  cpr_Description :: string
  cpr_OrderID :: uuid
  cpr_PaymentID :: uuid

record paymentResponse =
  res_ID :: string
  res_Status :: string
  res_Amount :: amount
  res_ConfirmationURL :: "string option"
  res_MetadataOrderID :: string
  res_MetadataPaymentID :: string
  res_Test :: bool
  res_CapturedAt :: "instant option"
  res_CanceledAt :: "instant option"
  res_AccountID :: string

datatype http_outcome = BuildError string | TransportError | BodyError | HttpResponse int "paymentResponse option"

definition provider_error :: "string \<Rightarrow> string \<Rightarrow> ProviderError" where
  "provider_error kind code = \<lparr>pe_Kind = kind, pe_Code = code\<rparr>"

definition do_request :: "bool \<Rightarrow> http_outcome \<Rightarrow> ProviderError + paymentResponse" where
  "do_request ambiguous outcome = (case outcome of
       BuildError code \<Rightarrow> Inl (provider_error ''permanent'' code)
     | TransportError \<Rightarrow> Inl (provider_error (if ambiguous then ''ambiguous'' else ''temporary'') ''transport_error'')
     | BodyError \<Rightarrow> Inl (provider_error ''temporary'' ''invalid_response'')
     | HttpResponse status body \<Rightarrow>
         if status < 200 \<or> status \<ge> 300 then
           Inl (provider_error
             (if status = 429 then ''temporary''
              else if status \<ge> 500 then (if ambiguous then ''ambiguous'' else ''temporary'')
              else ''permanent'') (''http_'' @ Itoa status))
         else (case body of
             None \<Rightarrow> Inl (provider_error ''temporary'' ''invalid_json'')
           | Some response \<Rightarrow> Inr response))"

definition normalizePayment :: "paymentResponse \<Rightarrow> ProviderError + ProviderPayment" where
  "normalizePayment response =
     (case parseMinor (am_Value (res_Amount response)) of
        None \<Rightarrow> Inl (provider_error ''temporary'' ''invalid_payment'')
      | Some minor \<Rightarrow>
          if res_ID response = [] \<or> am_Currency (res_Amount response) = []
          then Inl (provider_error ''temporary'' ''invalid_payment'')
          else if res_Status response \<noteq> ''pending'' \<and> res_Status response \<noteq> ''succeeded'' \<and> res_Status response \<noteq> ''canceled''
          then Inl (provider_error ''temporary'' ''unknown_status'')
          else Inr \<lparr>prv_ProviderPaymentID = res_ID response, prv_Status = res_Status response,
             prv_AmountMinor = minor, prv_Currency = am_Currency (res_Amount response),
             prv_ConfirmationURL = (case res_ConfirmationURL response of
                None \<Rightarrow> None | Some u \<Rightarrow> if u = [] then None else Some u),
             prv_Test = res_Test response, prv_AccountID = res_AccountID response,
             prv_MetadataOrderID = res_MetadataOrderID response,
             prv_MetadataPaymentID = res_MetadataPaymentID response,
             prv_CapturedAt = res_CapturedAt response, prv_CanceledAt = res_CanceledAt response\<rparr>)"

definition shortID :: "string \<Rightarrow> string" where
  "shortID value = (if length value > 12 then take 12 value else value)"

text \<open>What is sent, and what becomes of the answer.\<close>

definition create_request :: "string \<Rightarrow> ProviderCreateRequest \<Rightarrow> createPaymentRequest" where
  "create_request returnURL input =
     \<lparr>cpr_Amount = \<lparr>am_Value = formatMinor (pcr_AmountMinor input), am_Currency = pcr_Currency input\<rparr>,
      cpr_Capture = True, cpr_ReturnURL = returnURL,
      cpr_Description = ''VPN order '' @ shortID (pcr_OrderID input),
      cpr_OrderID = pcr_OrderID input, cpr_PaymentID = pcr_PaymentID input\<rparr>"

definition provider_CreatePayment :: "string \<Rightarrow> (string \<Rightarrow> createPaymentRequest \<Rightarrow> http_outcome) \<Rightarrow>
    ProviderCreateRequest \<Rightarrow> ProviderError + ProviderPayment" where
  "provider_CreatePayment returnURL post input =
     (case do_request True (post (pcr_IdempotencyKey input) (create_request returnURL input)) of
        Inl err \<Rightarrow> Inl err | Inr response \<Rightarrow> normalizePayment response)"

definition provider_GetPayment :: "string \<Rightarrow> (string \<Rightarrow> http_outcome) \<Rightarrow> ProviderError + ProviderPayment" where
  "provider_GetPayment paymentID get =
     (if TrimSpace paymentID = [] \<or> list_ex (\<lambda>c. c \<in> set ''/?#'') paymentID
      then Inl (provider_error ''permanent'' ''invalid_payment_id'')
      else case do_request False (get paymentID) of Inl err \<Rightarrow> Inl err | Inr response \<Rightarrow> normalizePayment response)"

section \<open>Reading back what is written\<close>

lemma digit_char_between: "d < 10 \<Longrightarrow> char_between CHR ''0'' CHR ''9'' (digit_char d)"
  by (simp add: char_between_def digit_char_def less_eq_char_def)

lemma digit_char_value: "d < 10 \<Longrightarrow> int (of_char (digit_char d)) - 48 = int d"
  by (simp add: digit_char_def)

lemma digit_char_not: "d < 10 \<Longrightarrow> digit_char d \<noteq> CHR ''.'' \<and> digit_char d \<noteq> CHR ''-'' \<and> digit_char d \<noteq> CHR ''+''"
  using digit_char_between [of d] by (auto simp: char_between_def less_eq_char_def)

lemma digits_value_append:
  "digits_value acc (xs @ ys) = (case digits_value acc xs of None \<Rightarrow> None | Some n \<Rightarrow> digits_value n ys)"
  by (induction xs arbitrary: acc) auto

lemma digits_value_nat_text: "\<exists>k \<ge> 1. \<forall>acc. digits_value acc (nat_text n) = Some (acc * 10 ^ k + int n)"
proof (induction n rule: nat_text.induct)
  case (1 n)
  show ?case
  proof (cases "n < 10")
    case True
    then show ?thesis
      by (intro exI [of _ 1]) (simp add: nat_text.simps [of n] digit_char_between digit_char_value)
  next
    case False
    with 1 obtain k where k: "\<And>acc. digits_value acc (nat_text (n div 10)) = Some (acc * 10 ^ k + int (n div 10))" by blast
    have "digits_value acc (nat_text n) = Some (acc * 10 ^ Suc k + int n)" for acc
      unfolding nat_text.simps [of n] using False
      by (simp add: digits_value_append k digit_char_between digit_char_value algebra_simps)
        (metis (no_types) add.commute mult.commute mult_div_mod_eq of_nat_add of_nat_mult of_nat_numeral)
    then show ?thesis by (intro exI [of _ "Suc k"]) simp
  qed
qed

lemma set_nat_text: "c \<in> set (nat_text n) \<Longrightarrow> \<exists>d < 10. c = digit_char d"
proof (induction n rule: nat_text.induct)
  case (1 n)
  show ?case
  proof (cases "n < 10")
    case True
    with 1(2) show ?thesis by (auto simp: nat_text.simps [of n])
  next
    case False
    with 1(2) have "c \<in> set (nat_text (n div 10)) \<or> c = digit_char (n mod 10)"
      by (auto simp: nat_text.simps [of n])
    with 1(1) False show ?thesis by (auto intro: exI [of _ "n mod 10"])
  qed
qed

lemma nat_text_not_Nil [simp]: "nat_text n \<noteq> []"
  by (subst nat_text.simps) simp

lemma ParseInt_digits:
  assumes "\<And>c. c \<in> set ds \<Longrightarrow> \<exists>d < 10. c = digit_char d" and "ds \<noteq> []"
    and "digits_value 0 ds = Some n" and "n < 2 ^ 63"
  shows "ParseInt ds = Some n"
proof -
  obtain c cs where ds: "ds = c # cs" using assms(2) by (cases ds) auto
  with assms(1) digit_char_not have "c \<noteq> CHR ''-''" "c \<noteq> CHR ''+''" by force+
  with ds assms(3,4) show ?thesis by (simp add: ParseInt_def)
qed

lemma ParseInt_nat_text: "int n < 2 ^ 63 \<Longrightarrow> ParseInt (nat_text n) = Some (int n)"
  using digits_value_nat_text [of n] set_nat_text by (intro ParseInt_digits) auto

lemma pad2_digits:
  assumes "0 \<le> m" and "m < 100"
  shows "length (pad2 m) = 2" and "\<And>c. c \<in> set (pad2 m) \<Longrightarrow> \<exists>d < 10. c = digit_char d"
    and "ParseInt (pad2 m) = Some m"
proof -
  have zero: "CHR ''0'' = digit_char 0" unfolding digit_char_def by code_simp
  have two: "nat_text n = [digit_char (n div 10), digit_char (n mod 10)]" if "10 \<le> n" "n < 100" for n
    using that by (simp add: nat_text.simps [of n] nat_text.simps [of "n div 10"])
  have one: "nat_text n = [digit_char n]" if "n < 10" for n
    using that by (simp add: nat_text.simps)
  show "length (pad2 m) = 2"
    using assms two [of "nat m"] one [of "nat m"] by (auto simp: pad2_def Itoa_def)
  show ds: "\<exists>d < 10. c = digit_char d" if "c \<in> set (pad2 m)" for c
  proof -
    from that consider "c = digit_char 0" | n where "c \<in> set (nat_text n)"
      using assms zero by (auto simp: pad2_def Itoa_def split: if_splits)
    then show ?thesis by cases (auto intro: set_nat_text exI [of _ 0])
  qed
  have "digits_value 0 (pad2 m) = Some m"
  proof (cases "m < 10")
    case True
    then have "pad2 m = [digit_char 0, digit_char (nat m)]"
      using assms one [of "nat m"] by (simp add: pad2_def Itoa_def zero)
    with True assms digit_char_between [of 0] digit_char_between [of "nat m"] digit_char_value [of 0] digit_char_value [of "nat m"]
    show ?thesis by simp
  next
    case False
    with assms digits_value_nat_text [of "nat m"] show ?thesis by (auto simp: pad2_def Itoa_def)
  qed
  with ds \<open>length (pad2 m) = 2\<close> assms show "ParseInt (pad2 m) = Some m"
    by (intro ParseInt_digits) auto
qed

lemma split_on_clean: "sep \<notin> set s \<Longrightarrow> split_on sep s = [s]"
  by (induction s) auto

lemma split_on_append: "sep \<notin> set s \<Longrightarrow> split_on sep (s @ sep # t) = s # split_on sep t"
  by (induction s) auto

lemma no_dot: "(\<And>c. c \<in> set ds \<Longrightarrow> \<exists>d < 10. c = digit_char d) \<Longrightarrow> CHR ''.'' \<notin> set ds"
  using digit_char_not by force



lemma parseMinor_range: "parseMinor s = Some v \<Longrightarrow> 0 \<le> v \<and> v < 2 ^ 63"
proof -
  assume "parseMinor s = Some v"
  then obtain major minor where mm: "0 \<le> major" "0 \<le> minor" "minor \<le> 99" "v = major * 100 + minor"
    and "\<not> major > (2 ^ 63 - 1 - minor) sdiv 100"
    by (auto simp: parseMinor_def not_less split: list.splits if_splits option.splits)
  then have "major \<le> (2 ^ 63 - 1 - minor) div 100" by (simp add: signed_divide_int_def sgn_if split: if_splits)
  with mm show ?thesis by auto
qed

end
