(* ===== verification/Billing_Store.thy ===== *)
theory Billing_Store
  imports Billing_Provider Outbox
begin

text \<open>
  The billing service's data (\<open>internal/domain/types.go\<close>) and its store,
  \<open>services/billing/internal/postgres/store.go\<close>, one definition per function, over the tables
  of \<open>services/billing/migrations\<close>.

  Statuses are datatypes in place of the strings. The row triggers of the migrations are the
  guards \<open>order_transition\<close> and \<open>payment_transition\<close>: an UPDATE that would take a row through
  a forbidden transition is refused with a driver error (\<open>BInfra\<close>), as are violated keys and
  CHECKs. A statement of its own is written as a transaction body of one statement. \<open>now\<close> is
  the database clock, \<open>appNow\<close> the service's clock, new identifiers are arguments.
\<close>

section \<open>Data\<close>

datatype bill_error =
    BNotFound | BIdempotencyConflict | BStateConflict | BUserUnavailable | BConsentRequired
  | BProviderError ProviderError | BMismatch | BInfra

datatype order_status = OrderCreated | OrderPaymentPending | OrderPaid | OrderCanceled

datatype payment_status =
    PaymentCreated | PaymentVerificationPending | PaymentPending | PaymentSucceeded | PaymentCanceled | PaymentFailed

record bill_snapshot =
  bs_PlanID :: string
  bs_Name :: string
  bs_DurationDays :: int
  bs_GracePeriodHours :: int
  bs_AmountMinor :: int
  bs_Currency :: string
  bs_Region :: string
  bs_RegionPolicy :: string
  bs_TrafficPolicy :: string
  bs_PrimaryNodes :: int
  bs_FailoverNodes :: int

record bill_order =
  bo_OrderID :: uuid
  bo_UserID :: uuid
  bo_Status :: order_status
  bo_AmountMinor :: int
  bo_Currency :: string
  bo_AcceptedTermsVersion :: string
  bo_PlanSnapshot :: bill_snapshot
  bo_CreatedAt :: instant

record order_row = bill_order +
  or_plan_id :: string
  or_region :: string
  or_updated_at :: instant

record PaymentOperation =
  po_PaymentID :: uuid
  po_OrderID :: uuid
  po_Status :: payment_status
  po_AmountMinor :: int
  po_Currency :: string
  po_ConfirmationURL :: "string option"
  po_PaidAt :: "instant option"
  po_CreatedAt :: instant
  po_UserID :: uuid
  po_PlanID :: string
  po_Provider :: string
  po_ProviderPaymentID :: "string option"
  po_ProviderIdempotencyKey :: uuid
  po_ProviderCreateDeadline :: instant
  po_NextReconcileAt :: instant
  po_ReconcileAttempts :: int

record payment_row =
  pr_id :: uuid
  pr_order_id :: uuid
  pr_provider :: string
  pr_provider_payment_id :: "string option"
  pr_provider_key :: uuid
  pr_status :: payment_status
  pr_amount_minor :: int
  pr_currency :: string
  pr_confirmation_url :: "string option"
  pr_deadline :: instant
  pr_next_reconcile_at :: instant
  pr_lease_until :: "instant option"
  pr_attempts :: int
  pr_last_error :: "string option"
  pr_paid_at :: "instant option"
  pr_canceled_at :: "instant option"
  pr_created_at :: instant
  pr_updated_at :: instant

datatype idem_operation = CreateOrderOp | CreatePaymentOp

record idem_row =
  ik_subject :: uuid
  ik_operation :: idem_operation
  ik_key :: string
  ik_hash :: string
  ik_resource :: uuid

datatype webhook_state = WhPending | WhProcessing | WhProcessed | WhDead

record WebhookNotification =
  wn_InboxID :: uuid
  wn_EventType :: string
  wn_ProviderObjectID :: string
  wn_ObservedStatus :: string
  wn_Attempts :: int

record webhook_row =
  wh_id :: uuid
  wh_event_type :: string
  wh_object_id :: string
  wh_observed :: string
  wh_state :: webhook_state
  wh_attempts :: int
  wh_next_attempt_at :: instant
  wh_lease_until :: "instant option"
  wh_last_error :: "string option"
  wh_received_at :: instant
  wh_processed_at :: "instant option"

datatype payment_event_data =
    SucceededData uuid uuid uuid string int string instant
  | CanceledData uuid uuid uuid instant

record bill_envelope =
  be_EventID :: uuid
  be_EventType :: string
  be_OccurredAt :: instant
  be_CorrelationID :: uuid
  be_AggregateID :: uuid
  be_PartitionKey :: string
  be_Data :: payment_event_data

type_synonym bill_outbox_row = "(unit, bill_envelope) outbox_row"

record bill_store =
  b_orders :: "order_row list"
  b_payments :: "payment_row list"
  b_idempotency :: "idem_row list"
  b_webhooks :: "webhook_row list"
  b_outbox :: "bill_outbox_row list"

type_synonym 'a bill_tx = "(bill_store, bill_error, 'a) tx"

definition empty_bill_store :: bill_store where
  "empty_bill_store = \<lparr>b_orders = [], b_payments = [], b_idempotency = [], b_webhooks = [], b_outbox = []\<rparr>"

record CreateOrderInput =
  coi_UserID :: uuid
  coi_PlanID :: string
  coi_Region :: string
  coi_AcceptedTermsVersion :: string
  coi_IdempotencyKey :: string
  coi_RequestHash :: string
  coi_Snapshot :: bill_snapshot

record CreatePaymentInput =
  cpi_UserID :: uuid
  cpi_OrderID :: uuid
  cpi_IdempotencyKey :: string
  cpi_RequestHash :: string

section \<open>Constraints and triggers\<close>

definition open_order :: "order_status \<Rightarrow> bool" where
  "open_order s \<longleftrightarrow> s = OrderCreated \<or> s = OrderPaymentPending"

definition open_payment :: "payment_status \<Rightarrow> bool" where
  "open_payment s \<longleftrightarrow> s = PaymentCreated \<or> s = PaymentVerificationPending \<or> s = PaymentPending"

definition order_transition :: "order_status \<Rightarrow> order_status \<Rightarrow> bool" where
  "order_transition old new \<longleftrightarrow> new = old
     \<or> old = OrderCreated \<and> (new = OrderPaymentPending \<or> new = OrderCanceled)
     \<or> old = OrderPaymentPending \<and> (new = OrderPaid \<or> new = OrderCanceled)"

definition payment_transition :: "payment_status \<Rightarrow> payment_status \<Rightarrow> bool" where
  "payment_transition old new \<longleftrightarrow> new = old
     \<or> old = PaymentCreated \<and> (new = PaymentVerificationPending \<or> new = PaymentPending \<or> new = PaymentFailed)
     \<or> old = PaymentVerificationPending \<and> (new = PaymentPending \<or> new = PaymentSucceeded \<or> new = PaymentCanceled \<or> new = PaymentFailed)
     \<or> old = PaymentPending \<and> (new = PaymentSucceeded \<or> new = PaymentCanceled \<or> new = PaymentFailed)"

definition currency_check :: "string \<Rightarrow> bool" where
  "currency_check = match_runs [(char_between CHR ''A'' CHR ''Z'', 3)]"

definition order_check :: "order_row \<Rightarrow> bool" where
  "order_check r \<longleftrightarrow> bo_AmountMinor r > 0 \<and> currency_check (bo_Currency r)
     \<and> 1 \<le> pg_length (or_plan_id r) \<and> pg_length (or_plan_id r) \<le> 128
     \<and> 2 \<le> pg_length (or_region r) \<and> pg_length (or_region r) \<le> 64
     \<and> 1 \<le> pg_length (bo_AcceptedTermsVersion r) \<and> pg_length (bo_AcceptedTermsVersion r) \<le> 64"

definition idem_check :: "idem_row \<Rightarrow> bool" where
  "idem_check r \<longleftrightarrow> 8 \<le> pg_length (ik_key r) \<and> pg_length (ik_key r) \<le> 128
     \<and> length (ik_hash r) = 64 \<and> list_all is_lower_hex (ik_hash r)"

definition error_check :: "string option \<Rightarrow> bool" where
  "error_check code = (case code of None \<Rightarrow> True | Some c \<Rightarrow> pg_length c \<le> 64)"

definition payment_row_check :: "payment_row \<Rightarrow> bool" where
  "payment_row_check p \<longleftrightarrow> pr_provider p = ''yookassa''
     \<and> (case pr_provider_payment_id p of None \<Rightarrow> True | Some i \<Rightarrow> 1 \<le> pg_length i \<and> pg_length i \<le> 128)
     \<and> 1 \<le> pg_length (pr_provider_key p) \<and> pg_length (pr_provider_key p) \<le> 64
     \<and> pr_amount_minor p > 0 \<and> currency_check (pr_currency p)
     \<and> (case pr_confirmation_url p of None \<Rightarrow> True | Some u \<Rightarrow> pg_length u \<le> 2048 \<and> open_payment (pr_status p))
     \<and> pr_attempts p \<ge> 0 \<and> error_check (pr_last_error p)"

text \<open>An UPDATE of a table under its row trigger and its CHECKs.\<close>

definition update_orders :: "(order_row \<Rightarrow> bool) \<Rightarrow> (order_row \<Rightarrow> order_row) \<Rightarrow> unit bill_tx" where
  "update_orders p f =
     tx_bind (tx_get b_orders) (\<lambda>rows.
       if list_ex (\<lambda>r. p r \<and> \<not> order_transition (bo_Status r) (bo_Status (f r))) rows then tx_fail BInfra
       else tx_modify (\<lambda>st. st\<lparr>b_orders := tbl_update p f (b_orders st)\<rparr>))"

definition update_payments :: "(payment_row \<Rightarrow> bool) \<Rightarrow> (payment_row \<Rightarrow> payment_row) \<Rightarrow> unit bill_tx" where
  "update_payments p f =
     tx_bind (tx_get b_payments) (\<lambda>rows.
       if list_ex (\<lambda>r. p r \<and> (\<not> payment_transition (pr_status r) (pr_status (f r)) \<or> \<not> payment_row_check (f r))) rows
       then tx_fail BInfra
       else tx_modify (\<lambda>st. st\<lparr>b_payments := tbl_update p f (b_payments st)\<rparr>))"

section \<open>Reads\<close>

definition order_of_row :: "order_row \<Rightarrow> bill_order" where
  "order_of_row r = \<lparr>bo_OrderID = bo_OrderID r, bo_UserID = bo_UserID r, bo_Status = bo_Status r,
     bo_AmountMinor = bo_AmountMinor r, bo_Currency = bo_Currency r,
     bo_AcceptedTermsVersion = bo_AcceptedTermsVersion r, bo_PlanSnapshot = bo_PlanSnapshot r,
     bo_CreatedAt = bo_CreatedAt r\<rparr>"

definition getOrder :: "uuid \<Rightarrow> uuid \<Rightarrow> bill_order bill_tx" where
  "getOrder userID orderID =
     tx_bind (tx_get (\<lambda>st. find (\<lambda>r. bo_UserID r = userID \<and> bo_OrderID r = orderID) (b_orders st))) (\<lambda>found.
       case found of None \<Rightarrow> tx_fail BNotFound | Some r \<Rightarrow> tx_return (order_of_row r))"

definition operation_of :: "payment_row \<Rightarrow> order_row \<Rightarrow> PaymentOperation" where
  "operation_of p r = \<lparr>po_PaymentID = pr_id p, po_OrderID = pr_order_id p, po_Status = pr_status p,
     po_AmountMinor = pr_amount_minor p, po_Currency = pr_currency p,
     po_ConfirmationURL = pr_confirmation_url p, po_PaidAt = pr_paid_at p, po_CreatedAt = pr_created_at p,
     po_UserID = bo_UserID r, po_PlanID = or_plan_id r, po_Provider = pr_provider p,
     po_ProviderPaymentID = pr_provider_payment_id p, po_ProviderIdempotencyKey = pr_provider_key p,
     po_ProviderCreateDeadline = pr_deadline p, po_NextReconcileAt = pr_next_reconcile_at p,
     po_ReconcileAttempts = pr_attempts p\<rparr>"

text \<open>\<open>payments p JOIN orders o ON o.id = p.order_id WHERE condition\<close>.\<close>

definition find_operation :: "(payment_row \<Rightarrow> bool) \<Rightarrow> bill_store \<Rightarrow> PaymentOperation option" where
  "find_operation condition st =
     (case find condition (b_payments st) of
        None \<Rightarrow> None
      | Some p \<Rightarrow> map_option (operation_of p) (find (\<lambda>r. bo_OrderID r = pr_order_id p) (b_orders st)))"

definition bill_getPayment :: "(payment_row \<Rightarrow> bool) \<Rightarrow> PaymentOperation bill_tx" where
  "bill_getPayment condition =
     tx_bind (tx_get (find_operation condition)) (\<lambda>found.
       case found of None \<Rightarrow> tx_fail BNotFound | Some op \<Rightarrow> tx_return op)"

definition lookupIdempotency :: "uuid \<Rightarrow> idem_operation \<Rightarrow> string \<Rightarrow> string \<Rightarrow> uuid option bill_tx" where
  "lookupIdempotency subject operation key requestHash =
     tx_bind (tx_get (\<lambda>st. find (\<lambda>r. ik_subject r = subject \<and> ik_operation r = operation \<and> ik_key r = key)
                (b_idempotency st))) (\<lambda>found.
       case found of
         None \<Rightarrow> tx_return None
       | Some r \<Rightarrow> if ik_hash r \<noteq> requestHash then tx_fail BIdempotencyConflict
                   else tx_return (Some (ik_resource r)))"

definition insert_idempotency :: "idem_row \<Rightarrow> unit bill_tx" where
  "insert_idempotency row =
     tx_bind (tx_get b_idempotency) (\<lambda>rows.
       if \<not> idem_check row \<or> list_ex (\<lambda>r. ik_subject r = ik_subject row \<and> ik_operation r = ik_operation row
            \<and> ik_key r = ik_key row) rows
       then tx_fail BInfra
       else tx_modify (\<lambda>st. st\<lparr>b_idempotency := b_idempotency st @ [row]\<rparr>))"

definition FindOrderReplay :: "uuid \<Rightarrow> string \<Rightarrow> string \<Rightarrow> bill_order option bill_tx" where
  "FindOrderReplay userID idempotencyKey requestHash =
     tx_bind (lookupIdempotency userID CreateOrderOp idempotencyKey requestHash) (\<lambda>found.
       case found of None \<Rightarrow> tx_return None
       | Some resourceID \<Rightarrow> tx_bind (getOrder userID resourceID) (\<lambda>order. tx_return (Some order)))"

definition FindPaymentReplay :: "uuid \<Rightarrow> string \<Rightarrow> string \<Rightarrow> PaymentOperation option bill_tx" where
  "FindPaymentReplay userID idempotencyKey requestHash =
     tx_bind (lookupIdempotency userID CreatePaymentOp idempotencyKey requestHash) (\<lambda>found.
       case found of None \<Rightarrow> tx_return None
       | Some resourceID \<Rightarrow> tx_bind (bill_getPayment (\<lambda>p. pr_id p = resourceID)) (\<lambda>op. tx_return (Some op)))"

section \<open>Orders\<close>

definition new_order :: "uuid \<Rightarrow> instant \<Rightarrow> CreateOrderInput \<Rightarrow> order_row" where
  "new_order orderID now input =
     \<lparr>bo_OrderID = orderID, bo_UserID = coi_UserID input, bo_Status = OrderCreated,
      bo_AmountMinor = bs_AmountMinor (coi_Snapshot input), bo_Currency = bs_Currency (coi_Snapshot input),
      bo_AcceptedTermsVersion = coi_AcceptedTermsVersion input, bo_PlanSnapshot = coi_Snapshot input,
      bo_CreatedAt = now, or_plan_id = bs_PlanID (coi_Snapshot input), or_region = coi_Region input,
      or_updated_at = now\<rparr>"

text \<open>The INSERT with its partial unique index as arbiter, and the SELECT of the open order.\<close>

definition insert_order :: "uuid \<Rightarrow> instant \<Rightarrow> CreateOrderInput \<Rightarrow> (uuid \<times> bool) bill_tx" where
  "insert_order orderID now input =
     (let row = new_order orderID now input in
      tx_bind (tx_get b_orders) (\<lambda>rows.
        if \<not> order_check row then tx_fail BInfra
        else case find (\<lambda>r. bo_UserID r = coi_UserID input \<and> open_order (bo_Status r)) rows of
            Some r \<Rightarrow>
              if bo_PlanSnapshot r \<noteq> coi_Snapshot input \<or> bo_AcceptedTermsVersion r \<noteq> coi_AcceptedTermsVersion input
              then tx_fail BStateConflict
              else tx_return (bo_OrderID r, False)
          | None \<Rightarrow>
              if list_ex (\<lambda>r. bo_OrderID r = orderID) rows then tx_fail BInfra
              else tx_bind (tx_modify (\<lambda>st. st\<lparr>b_orders := b_orders st @ [row]\<rparr>))
                     (\<lambda>_. tx_return (orderID, True))))"

definition bill_CreateOrder :: "uuid \<Rightarrow> instant \<Rightarrow> CreateOrderInput \<Rightarrow> (bill_order \<times> bool) bill_tx" where
  "bill_CreateOrder orderID now input =
     tx_bind (lookupIdempotency (coi_UserID input) CreateOrderOp (coi_IdempotencyKey input) (coi_RequestHash input))
       (\<lambda>found.
     case found of
       Some resourceID \<Rightarrow> tx_bind (getOrder (coi_UserID input) resourceID) (\<lambda>order. tx_return (order, False))
     | None \<Rightarrow>
         tx_bind (insert_order orderID now input) (\<lambda>(insertedID, created).
         tx_bind (insert_idempotency \<lparr>ik_subject = coi_UserID input, ik_operation = CreateOrderOp,
                    ik_key = coi_IdempotencyKey input, ik_hash = coi_RequestHash input,
                    ik_resource = insertedID\<rparr>) (\<lambda>_.
         tx_bind (getOrder (coi_UserID input) insertedID) (\<lambda>order.
         tx_return (order, created)))))"

section \<open>Payments\<close>

definition new_payment :: "uuid \<Rightarrow> uuid \<Rightarrow> string \<Rightarrow> instant \<Rightarrow> instant \<Rightarrow> bill_order \<Rightarrow> payment_row" where
  "new_payment paymentID providerKey provider deadline now order =
     \<lparr>pr_id = paymentID, pr_order_id = bo_OrderID order, pr_provider = provider,
      pr_provider_payment_id = None, pr_provider_key = providerKey, pr_status = PaymentCreated,
      pr_amount_minor = bo_AmountMinor order, pr_currency = bo_Currency order, pr_confirmation_url = None,
      pr_deadline = deadline, pr_next_reconcile_at = now, pr_lease_until = None, pr_attempts = 0,
      pr_last_error = None, pr_paid_at = None, pr_canceled_at = None, pr_created_at = now,
      pr_updated_at = now\<rparr>"

definition payment_check :: "payment_row \<Rightarrow> payment_row list \<Rightarrow> bool" where
  "payment_check p rows \<longleftrightarrow> payment_row_check p
     \<and> \<not> list_ex (\<lambda>q. pr_id q = pr_id p \<or> pr_order_id q = pr_order_id p \<or> pr_provider_key q = pr_provider_key p) rows"

definition insert_payment :: "payment_row \<Rightarrow> unit bill_tx" where
  "insert_payment p =
     tx_bind (tx_get b_payments) (\<lambda>rows.
       if \<not> payment_check p rows then tx_fail BInfra
       else tx_modify (\<lambda>st. st\<lparr>b_payments := b_payments st @ [p]\<rparr>))"

definition set_order_status :: "order_status \<Rightarrow> instant \<Rightarrow> order_row \<Rightarrow> order_row" where
  "set_order_status s now r = r\<lparr>bo_Status := s, or_updated_at := now\<rparr>"

definition bill_CreatePayment :: "uuid \<Rightarrow> uuid \<Rightarrow> instant \<Rightarrow> instant \<Rightarrow> CreatePaymentInput \<Rightarrow> string \<Rightarrow> nanos \<Rightarrow>
    (PaymentOperation \<times> bool) bill_tx" where
  "bill_CreatePayment paymentID providerKey now appNow input provider createWindow =
     tx_bind (lookupIdempotency (cpi_UserID input) CreatePaymentOp (cpi_IdempotencyKey input) (cpi_RequestHash input))
       (\<lambda>found.
     case found of
       Some resourceID \<Rightarrow> tx_bind (bill_getPayment (\<lambda>p. pr_id p = resourceID)) (\<lambda>op. tx_return (op, False))
     | None \<Rightarrow>
         tx_bind (getOrder (cpi_UserID input) (cpi_OrderID input)) (\<lambda>order.
         if \<not> open_order (bo_Status order) then tx_fail BStateConflict
         else
           tx_bind (tx_get (find_operation (\<lambda>p. pr_order_id p = cpi_OrderID input))) (\<lambda>existing.
           tx_bind (case existing of
               Some op \<Rightarrow> tx_return (op, False)
             | None \<Rightarrow>
                 tx_bind (insert_payment (new_payment paymentID providerKey provider (appNow + createWindow) now order)) (\<lambda>_.
                 tx_bind (update_orders (\<lambda>r. bo_OrderID r = cpi_OrderID input) (set_order_status OrderPaymentPending now)) (\<lambda>_.
                 tx_bind (bill_getPayment (\<lambda>p. pr_id p = paymentID)) (\<lambda>op. tx_return (op, True))))) (\<lambda>(op, created).
           tx_bind (insert_idempotency \<lparr>ik_subject = cpi_UserID input, ik_operation = CreatePaymentOp,
                      ik_key = cpi_IdempotencyKey input, ik_hash = cpi_RequestHash input,
                      ik_resource = po_PaymentID op\<rparr>) (\<lambda>_.
           tx_return (op, created))))))"

definition fail_payment :: "string \<Rightarrow> instant \<Rightarrow> payment_row \<Rightarrow> payment_row" where
  "fail_payment code now p = p\<lparr>pr_status := PaymentFailed, pr_confirmation_url := None,
     pr_last_error := Some code, pr_lease_until := None, pr_updated_at := now\<rparr>"

definition cancel_open_order :: "uuid \<Rightarrow> instant \<Rightarrow> unit bill_tx" where
  "cancel_open_order orderID now =
     update_orders (\<lambda>r. bo_OrderID r = orderID \<and> open_order (bo_Status r)) (set_order_status OrderCanceled now)"

definition PrepareProviderCreate :: "instant \<Rightarrow> uuid \<Rightarrow> instant \<Rightarrow> (PaymentOperation \<times> bool) bill_tx" where
  "PrepareProviderCreate now paymentID observedAt =
     tx_bind (bill_getPayment (\<lambda>p. pr_id p = paymentID)) (\<lambda>op.
       let active = (po_Status op = PaymentCreated \<or> po_Status op = PaymentVerificationPending) in
       if \<not> active \<or> po_ProviderPaymentID op \<noteq> None then tx_return (op, False)
       else if \<not> observedAt < po_ProviderCreateDeadline op then
         tx_bind (update_payments (\<lambda>p. pr_id p = paymentID) (fail_payment ''create_window_expired'' now)) (\<lambda>_.
         tx_bind (cancel_open_order (po_OrderID op) now) (\<lambda>_.
         tx_bind (bill_getPayment (\<lambda>p. pr_id p = paymentID)) (\<lambda>op2. tx_return (op2, False))))
       else tx_return (op, True))"

definition apply_create_hit :: "uuid \<Rightarrow> string \<Rightarrow> payment_row \<Rightarrow> bool" where
  "apply_create_hit paymentID providerID p \<longleftrightarrow> pr_id p = paymentID \<and> open_payment (pr_status p)
     \<and> (pr_provider_payment_id p = None \<or> pr_provider_payment_id p = Some providerID)"

definition ApplyProviderCreate :: "instant \<Rightarrow> uuid \<Rightarrow> ProviderPayment \<Rightarrow> PaymentOperation bill_tx" where
  "ApplyProviderCreate now paymentID provider =
     (let status = (if prv_Status provider \<noteq> ''pending'' then PaymentVerificationPending else PaymentPending);
          pid = prv_ProviderPaymentID provider
      in tx_bind (tx_get b_payments) (\<lambda>rows.
         if list_ex (apply_create_hit paymentID pid) rows
           \<and> list_ex (\<lambda>q. pr_id q \<noteq> paymentID \<and> pr_provider_payment_id q = Some pid) rows
         then tx_fail BInfra
         else
           tx_bind (update_payments (apply_create_hit paymentID pid)
             (\<lambda>p. p\<lparr>pr_provider_payment_id := Some pid, pr_status := status,
                pr_confirmation_url := prv_ConfirmationURL provider, pr_next_reconcile_at := now,
                pr_lease_until := None, pr_last_error := None, pr_updated_at := now\<rparr>)) (\<lambda>_.
           if length (filter (apply_create_hit paymentID pid) rows) \<noteq> 1 then tx_fail BStateConflict
           else bill_getPayment (\<lambda>p. pr_id p = paymentID))))"

definition MarkProviderCreateAmbiguous :: "instant \<Rightarrow> uuid \<Rightarrow> string \<Rightarrow> nanos \<Rightarrow> unit bill_tx" where
  "MarkProviderCreateAmbiguous now paymentID code delay =
     update_payments (\<lambda>p. pr_id p = paymentID \<and> (pr_status p = PaymentCreated \<or> pr_status p = PaymentVerificationPending))
       (\<lambda>p. p\<lparr>pr_status := PaymentVerificationPending, pr_last_error := Some code,
          pr_next_reconcile_at := now + delay, pr_lease_until := None, pr_updated_at := now\<rparr>)"

definition MarkProviderCreateFailed :: "instant \<Rightarrow> uuid \<Rightarrow> string \<Rightarrow> unit bill_tx" where
  "MarkProviderCreateFailed now paymentID code =
     (let hit = (\<lambda>p. pr_id p = paymentID \<and> open_payment (pr_status p)) in
      tx_bind (tx_get (\<lambda>st. find hit (b_payments st))) (\<lambda>found.
        case found of
          None \<Rightarrow> tx_return ()
        | Some p \<Rightarrow>
            tx_bind (update_payments hit (fail_payment code now)) (\<lambda>_.
            cancel_open_order (pr_order_id p) now)))"

section \<open>Webhooks and reconciliation claims\<close>

definition webhook_check :: "WebhookNotification \<Rightarrow> bool" where
  "webhook_check n \<longleftrightarrow> wn_EventType n \<in> set [''payment.succeeded'', ''payment.canceled'']
     \<and> 1 \<le> pg_length (wn_ProviderObjectID n) \<and> pg_length (wn_ProviderObjectID n) \<le> 128
     \<and> wn_ObservedStatus n \<in> set [''pending'', ''succeeded'', ''canceled'']"

definition InsertWebhook :: "instant \<Rightarrow> WebhookNotification \<Rightarrow> bool bill_tx" where
  "InsertWebhook now n =
     tx_bind (tx_get b_webhooks) (\<lambda>rows.
       if \<not> webhook_check n then tx_fail BInfra
       else if list_ex (\<lambda>r. wh_id r = wn_InboxID n \<or> wh_event_type r = wn_EventType n
           \<and> wh_object_id r = wn_ProviderObjectID n \<and> wh_observed r = wn_ObservedStatus n) rows
       then tx_return False
       else tx_bind (tx_modify (\<lambda>st. st\<lparr>b_webhooks := b_webhooks st @
              [\<lparr>wh_id = wn_InboxID n, wh_event_type = wn_EventType n, wh_object_id = wn_ProviderObjectID n,
                wh_observed = wn_ObservedStatus n, wh_state = WhPending, wh_attempts = 0,
                wh_next_attempt_at = now, wh_lease_until = None, wh_last_error = None,
                wh_received_at = now, wh_processed_at = None\<rparr>]\<rparr>)) (\<lambda>_. tx_return True))"

definition update_webhook :: "uuid \<Rightarrow> (webhook_row \<Rightarrow> webhook_row) \<Rightarrow> unit bill_tx" where
  "update_webhook inboxID f =
     (let hit = (\<lambda>r. wh_id r = inboxID \<and> wh_state r = WhProcessing) in
      tx_bind (tx_get b_webhooks) (\<lambda>rows.
        if list_ex (\<lambda>r. hit r \<and> \<not> error_check (wh_last_error (f r))) rows then tx_fail BInfra
        else tx_modify (\<lambda>st. st\<lparr>b_webhooks := tbl_update hit f (b_webhooks st)\<rparr>)))"

definition lease_lapsed :: "instant \<Rightarrow> instant option \<Rightarrow> bool" where
  "lease_lapsed now l = (case l of None \<Rightarrow> False | Some t \<Rightarrow> t < now)"

definition ClaimWebhook :: "instant \<Rightarrow> nanos \<Rightarrow> uuid list \<Rightarrow> WebhookNotification option bill_tx" where
  "ClaimWebhook now lease locked st =
     (case first_by wh_received_at (filter (\<lambda>r. (wh_state r = WhPending \<and> wh_next_attempt_at r \<le> now
             \<or> wh_state r = WhProcessing \<and> lease_lapsed now (wh_lease_until r)) \<and> wh_id r \<notin> set locked) (b_webhooks st)) of
        None \<Rightarrow> (Inr None, st)
      | Some r \<Rightarrow>
          (Inr (Some \<lparr>wn_InboxID = wh_id r, wn_EventType = wh_event_type r, wn_ProviderObjectID = wh_object_id r,
              wn_ObservedStatus = wh_observed r, wn_Attempts = wh_attempts r + 1\<rparr>),
           st\<lparr>b_webhooks := tbl_update (\<lambda>q. wh_id q = wh_id r) (\<lambda>q. q\<lparr>wh_state := WhProcessing,
              wh_attempts := wh_attempts q + 1, wh_lease_until := Some (now + lease)\<rparr>) (b_webhooks st)\<rparr>))"

definition finishWebhook :: "instant \<Rightarrow> uuid \<Rightarrow> webhook_state \<Rightarrow> string \<Rightarrow> unit bill_tx" where
  "finishWebhook now inboxID state code =
     update_webhook inboxID (\<lambda>r. r\<lparr>wh_state := state, wh_last_error := (if code = [] then None else Some code),
       wh_lease_until := None, wh_processed_at := Some now\<rparr>)"

definition CompleteWebhook :: "instant \<Rightarrow> uuid \<Rightarrow> string \<Rightarrow> unit bill_tx" where
  "CompleteWebhook now inboxID code = finishWebhook now inboxID WhProcessed code"

definition RejectWebhook :: "instant \<Rightarrow> uuid \<Rightarrow> string \<Rightarrow> unit bill_tx" where
  "RejectWebhook now inboxID code = finishWebhook now inboxID WhDead code"

definition RetryWebhook :: "instant \<Rightarrow> uuid \<Rightarrow> string \<Rightarrow> nanos \<Rightarrow> unit bill_tx" where
  "RetryWebhook now inboxID code delay =
     update_webhook inboxID (\<lambda>r. r\<lparr>wh_state := WhPending, wh_last_error := Some code,
       wh_lease_until := None, wh_next_attempt_at := now + delay\<rparr>)"

definition ClaimPaymentForReconcile :: "instant \<Rightarrow> nanos \<Rightarrow> uuid list \<Rightarrow> PaymentOperation option bill_tx" where
  "ClaimPaymentForReconcile now lease locked st =
     (case first_by pr_next_reconcile_at (filter (\<lambda>p. open_payment (pr_status p) \<and> pr_next_reconcile_at p \<le> now
             \<and> (pr_lease_until p = None \<or> lease_lapsed now (pr_lease_until p)) \<and> pr_id p \<notin> set locked) (b_payments st)) of
        None \<Rightarrow> (Inr None, st)
      | Some p \<Rightarrow>
          (let st1 = st\<lparr>b_payments := tbl_update (\<lambda>q. pr_id q = pr_id p) (\<lambda>q. q\<lparr>pr_lease_until := Some (now + lease),
                  pr_attempts := pr_attempts q + 1\<rparr>) (b_payments st)\<rparr>
           in (case find_operation (\<lambda>q. pr_id q = pr_id p) st1 of
                 None \<Rightarrow> (Inl BNotFound, st1)
               | Some op \<Rightarrow> (Inr (Some op), st1))))"

definition ReschedulePayment :: "instant \<Rightarrow> uuid \<Rightarrow> string \<Rightarrow> nanos \<Rightarrow> unit bill_tx" where
  "ReschedulePayment now paymentID code delay =
     update_payments (\<lambda>p. pr_id p = paymentID \<and> open_payment (pr_status p))
       (\<lambda>p. p\<lparr>pr_last_error := (if code = [] then None else Some code),
          pr_next_reconcile_at := now + delay, pr_lease_until := None, pr_updated_at := now\<rparr>)"

section \<open>The verified state of a payment\<close>

definition buildPaymentEvent :: "PaymentOperation \<Rightarrow> ProviderPayment \<Rightarrow> uuid \<Rightarrow> uuid \<Rightarrow>
    bill_error + (string \<times> instant \<times> bill_envelope)" where
  "buildPaymentEvent op provider correlationID eventID =
     (let envelope = (\<lambda>topic at data. Inr (topic, at, \<lparr>be_EventID = eventID, be_EventType = topic, be_OccurredAt = at,
            be_CorrelationID = correlationID, be_AggregateID = po_PaymentID op,
            be_PartitionKey = ''user:'' @ po_UserID op, be_Data = data\<rparr>))
      in if prv_Status provider = ''succeeded'' then
           (case prv_CapturedAt provider of
              None \<Rightarrow> Inl BInfra
            | Some at \<Rightarrow> envelope ''billing.payment.succeeded.v1'' at
                (SucceededData (po_PaymentID op) (po_OrderID op) (po_UserID op) (po_PlanID op)
                   (po_AmountMinor op) (po_Currency op) at))
         else if prv_Status provider = ''canceled'' then
           (case prv_CanceledAt provider of
              None \<Rightarrow> Inl BInfra
            | Some at \<Rightarrow> envelope ''billing.payment.canceled.v1'' at
                (CanceledData (po_PaymentID op) (po_OrderID op) (po_UserID op) at))
         else Inl BInfra)"

definition bill_insert_outbox :: "instant \<Rightarrow> uuid \<Rightarrow> string \<Rightarrow> PaymentOperation \<Rightarrow> bill_envelope \<Rightarrow> unit bill_tx" where
  "bill_insert_outbox now eventID topic op payload =
     tx_bind (tx_get b_outbox) (\<lambda>rows.
       if list_ex (\<lambda>r. ob_topic r = topic \<and> ob_aggregate_id r = po_PaymentID op) rows then tx_return ()
       else if list_ex (\<lambda>r. ob_event_id r = eventID) rows then tx_fail BInfra
       else tx_modify (\<lambda>st. st\<lparr>b_outbox := b_outbox st @
         [\<lparr>ob_event_id = eventID, ob_topic = topic, ob_partition_key = ''user:'' @ po_UserID op,
           ob_aggregate_id = po_PaymentID op, ob_sequence = None, ob_dedupe_key = (), ob_payload = payload,
           ob_state = ObPending, ob_attempts = 0, ob_next_attempt_at = now, ob_lease_until = None,
           ob_created_at = now, ob_published_at = None\<rparr>]\<rparr>))"

definition settle_payment :: "instant \<Rightarrow> payment_status \<Rightarrow> instant \<Rightarrow> payment_row \<Rightarrow> payment_row" where
  "settle_payment now status at p =
     (let q = p\<lparr>pr_status := status, pr_confirmation_url := None, pr_lease_until := None,
                pr_last_error := None, pr_updated_at := now\<rparr>
      in if status = PaymentSucceeded then q\<lparr>pr_paid_at := Some at\<rparr> else q\<lparr>pr_canceled_at := Some at\<rparr>)"

definition ApplyVerifiedPayment :: "uuid \<Rightarrow> instant \<Rightarrow> PaymentOperation \<Rightarrow> ProviderPayment \<Rightarrow> uuid \<Rightarrow> unit bill_tx" where
  "ApplyVerifiedPayment eventID now expected provider correlationID =
     tx_bind (bill_getPayment (\<lambda>p. pr_id p = po_PaymentID expected)) (\<lambda>current.
       let same = (po_Status current = PaymentSucceeded \<and> prv_Status provider = ''succeeded''
                   \<or> po_Status current = PaymentCanceled \<and> prv_Status provider = ''canceled'') in
       if po_Status current = PaymentSucceeded \<or> po_Status current = PaymentCanceled then
         (if same then tx_return () else tx_fail BStateConflict)
       else if prv_Status provider = ''pending'' then
         update_payments (\<lambda>p. pr_id p = po_PaymentID current)
           (\<lambda>p. p\<lparr>pr_status := PaymentPending, pr_next_reconcile_at := now + Minute, pr_lease_until := None,
              pr_last_error := None, pr_updated_at := now\<rparr>)
       else case buildPaymentEvent current provider correlationID eventID of
           Inl err \<Rightarrow> tx_fail err
         | Inr (topic, occurredAt, payload) \<Rightarrow>
             (let ok = (prv_Status provider = ''succeeded'') in
              tx_bind (update_payments (\<lambda>p. pr_id p = po_PaymentID current)
                (settle_payment now (if ok then PaymentSucceeded else PaymentCanceled) occurredAt)) (\<lambda>_.
              tx_bind (update_orders (\<lambda>r. bo_OrderID r = po_OrderID current)
                (set_order_status (if ok then OrderPaid else OrderCanceled) now)) (\<lambda>_.
              bill_insert_outbox now eventID topic current payload))))"

end
