(* ===== verification/Billing_Service.thy ===== *)
theory Billing_Service
  imports Billing_Store Retry
begin

text \<open>
  The billing service above its store: the use cases of \<open>internal/application/service.go\<close> and
  the worker of \<open>internal/application/worker.go\<close>.

  A use case is a sequence of store calls, each its own transaction (\<open>run_tx\<close>): an error ends
  it and what was committed before stays. The record \<open>bill_env\<close> has what the outside world
  answers during one call: driver faults (\<open>bv_fault i\<close> for the \<open>i\<close>-th store call), the clocks,
  fresh identifiers, and the answers of identity, catalog and provider to whatever they are asked. \<open>bc_url_ok\<close> stands for
  \<open>url.Parse\<close> yielding an https URL with a host, \<open>bc_sha256hex\<close> and \<open>bc_sha256\<close> for SHA-256.
  Timeouts of contexts, and failures of the random source that makes identifiers, are driver
  faults of the store call they prevent; logging and metrics are not modelled.
\<close>

record bill_config =
  bc_shopID :: string
  bc_returnURL :: string
  bc_createWindow :: nanos
  bc_retryDelay :: nanos
  bc_lease :: nanos
  bc_url_ok :: "string \<Rightarrow> bool"
  bc_sha256hex :: "string \<Rightarrow> string"
  bc_sha256 :: "string \<Rightarrow> 8 word list"

record bill_env =
  bv_fault :: "nat \<Rightarrow> fault"
  bv_now :: instant
  bv_appNow :: instant
  bv_orderID :: uuid
  bv_paymentID :: uuid
  bv_providerKey :: uuid
  bv_eventID :: uuid
  bv_correlationID :: uuid
  bv_identity :: "uuid \<Rightarrow> string \<Rightarrow> bill_error option"
  bv_catalog :: "string \<Rightarrow> string \<Rightarrow> bill_error + bill_snapshot"
  bv_post :: "string \<Rightarrow> createPaymentRequest \<Rightarrow> http_outcome"
  bv_get :: "string \<Rightarrow> http_outcome"
  bv_cancelled :: bool
  bv_locked :: "uuid list"
  bv_publish_ok :: bool

definition call :: "bill_env \<Rightarrow> nat \<Rightarrow> 'a bill_tx \<Rightarrow> 'a bill_tx" where
  "call env i m = run_tx BInfra (bv_fault env i) m"

section \<open>Use cases\<close>

definition hashParts :: "bill_config \<Rightarrow> string list \<Rightarrow> string" where
  "hashParts cfg parts = bc_sha256hex cfg (concat (map (\<lambda>part. TrimSpace part @ [CHR 0x00]) parts))"

definition validateProviderPayment :: "bill_config \<Rightarrow> PaymentOperation \<Rightarrow> ProviderPayment \<Rightarrow> bool \<Rightarrow> bool" where
  "validateProviderPayment cfg expected actual requireConfirmation \<longleftrightarrow>
     \<not> (case po_ProviderPaymentID expected of None \<Rightarrow> False | Some i \<Rightarrow> i \<noteq> prv_ProviderPaymentID actual)
     \<and> \<not> (\<not> prv_Test actual \<or> prv_AccountID actual \<noteq> bc_shopID cfg \<or> prv_AmountMinor actual \<noteq> po_AmountMinor expected
          \<or> prv_Currency actual \<noteq> po_Currency expected \<or> prv_MetadataOrderID actual \<noteq> po_OrderID expected
          \<or> prv_MetadataPaymentID actual \<noteq> po_PaymentID expected)
     \<and> (requireConfirmation \<and> prv_Status actual = ''pending'' \<longrightarrow>
          (case prv_ConfirmationURL actual of None \<Rightarrow> False | Some u \<Rightarrow> bc_url_ok cfg u))"

definition CreateOrder :: "bill_config \<Rightarrow> bill_env \<Rightarrow> uuid \<Rightarrow> string \<Rightarrow> string \<Rightarrow> string \<Rightarrow> string \<Rightarrow>
    (bill_order \<times> bool) bill_tx" where
  "CreateOrder cfg env userID planID region termsVersion idempotencyKey =
     (let requestHash = hashParts cfg [userID, planID, region, termsVersion] in
      tx_bind (call env 0 (FindOrderReplay userID idempotencyKey requestHash)) (\<lambda>replayed.
      case replayed of
        Some order \<Rightarrow> tx_return (order, False)
      | None \<Rightarrow>
          (case bv_identity env userID termsVersion of
             Some err \<Rightarrow> tx_fail err
           | None \<Rightarrow>
               (case bv_catalog env planID region of
                  Inl err \<Rightarrow> tx_fail err
                | Inr snapshot \<Rightarrow>
                    call env 1 (bill_CreateOrder (bv_orderID env) (bv_now env)
                      \<lparr>coi_UserID = userID, coi_PlanID = planID, coi_Region = region,
                       coi_AcceptedTermsVersion = termsVersion, coi_IdempotencyKey = idempotencyKey,
                       coi_RequestHash = requestHash, coi_Snapshot = snapshot\<rparr>)))))"

definition bill_GetOrder :: "bill_env \<Rightarrow> uuid \<Rightarrow> uuid \<Rightarrow> bill_order bill_tx" where
  "bill_GetOrder env userID orderID = call env 0 (getOrder userID orderID)"

definition GetPaymentStatus :: "bill_env \<Rightarrow> uuid \<Rightarrow> uuid \<Rightarrow> uuid \<Rightarrow> PaymentOperation bill_tx" where
  "GetPaymentStatus env userID orderID paymentID =
     tx_bind (call env 0 (bill_getPayment (\<lambda>p. pr_id p = paymentID))) (\<lambda>payment.
       if po_UserID payment \<noteq> userID \<or> po_OrderID payment \<noteq> orderID then tx_fail BNotFound
       else tx_return payment)"

definition markProviderCreateFailed :: "bill_env \<Rightarrow> nat \<Rightarrow> uuid \<Rightarrow> string \<Rightarrow> unit bill_tx" where
  "markProviderCreateFailed env i paymentID code = call env i (MarkProviderCreateFailed (bv_now env) paymentID code)"

definition createAtProvider :: "bill_config \<Rightarrow> bill_env \<Rightarrow> PaymentOperation \<Rightarrow> PaymentOperation bill_tx" where
  "createAtProvider cfg env operation0 =
     (if bv_cancelled env then tx_fail BInfra
      else tx_bind (call env 3 (PrepareProviderCreate (bv_now env) (po_PaymentID operation0) (bv_appNow env)))
        (\<lambda>(operation, allowed).
        if \<not> allowed then tx_return operation
        else
          (case provider_CreatePayment (bc_returnURL cfg) (bv_post env)
                  \<lparr>pcr_IdempotencyKey = po_ProviderIdempotencyKey operation, pcr_OrderID = po_OrderID operation,
                   pcr_PaymentID = po_PaymentID operation, pcr_AmountMinor = po_AmountMinor operation,
                   pcr_Currency = po_Currency operation\<rparr> of
             Inl err \<Rightarrow>
               if IsProviderRetryable err then
                 tx_bind (call env 4 (MarkProviderCreateAmbiguous (bv_now env) (po_PaymentID operation)
                            (pe_Code err) (bc_retryDelay cfg))) (\<lambda>_.
                 call env 5 (bill_getPayment (\<lambda>p. pr_id p = po_PaymentID operation)))
               else
                 tx_bind (markProviderCreateFailed env 4 (po_PaymentID operation) (pe_Code err)) (\<lambda>_.
                 tx_fail (BProviderError err))
           | Inr providerPayment \<Rightarrow>
               if \<not> validateProviderPayment cfg operation providerPayment True then
                 tx_bind (markProviderCreateFailed env 4 (po_PaymentID operation) ''provider_mismatch'') (\<lambda>_.
                 tx_fail BMismatch)
               else call env 4 (ApplyProviderCreate (bv_now env) (po_PaymentID operation) providerPayment))))"

definition CreatePayment :: "bill_config \<Rightarrow> bill_env \<Rightarrow> uuid \<Rightarrow> uuid \<Rightarrow> string \<Rightarrow> (PaymentOperation \<times> bool) bill_tx" where
  "CreatePayment cfg env userID orderID idempotencyKey =
     (let requestHash = hashParts cfg [userID, orderID] in
      tx_bind (call env 0 (FindPaymentReplay userID idempotencyKey requestHash)) (\<lambda>replayed.
      case replayed of
        Some op \<Rightarrow> tx_return (op, False)
      | None \<Rightarrow>
          tx_bind (call env 1 (getOrder userID orderID)) (\<lambda>order.
          case bv_identity env userID (bo_AcceptedTermsVersion order) of
            Some err \<Rightarrow> tx_fail err
          | None \<Rightarrow>
              tx_bind (call env 2 (bill_CreatePayment (bv_paymentID env) (bv_providerKey env) (bv_now env) (bv_appNow env)
                 \<lparr>cpi_UserID = userID, cpi_OrderID = orderID, cpi_IdempotencyKey = idempotencyKey,
                  cpi_RequestHash = requestHash\<rparr> ''yookassa'' (bc_createWindow cfg))) (\<lambda>(operation, created).
              if po_Status operation \<noteq> PaymentCreated \<and> po_Status operation \<noteq> PaymentVerificationPending
              then tx_return (operation, created)
              else if po_ProviderPaymentID operation \<noteq> None then tx_return (operation, created)
              else tx_bind (createAtProvider cfg env operation) (\<lambda>payment. tx_return (payment, created))))))"

section \<open>The worker\<close>

definition applyProviderState :: "bill_env \<Rightarrow> PaymentOperation \<Rightarrow> ProviderPayment \<Rightarrow> unit bill_tx" where
  "applyProviderState env operation providerPayment =
     (if prv_Status providerPayment = ''pending''
      then call env 6 (ReschedulePayment (bv_now env) (po_PaymentID operation) [] Minute)
      else if prv_Status providerPayment = ''succeeded'' \<and> prv_CapturedAt providerPayment = None then tx_fail BInfra
      else
        let provider2 = (if prv_Status providerPayment = ''canceled'' \<and> prv_CanceledAt providerPayment = None
                         then providerPayment\<lparr>prv_CanceledAt := Some (bv_appNow env)\<rparr> else providerPayment)
        in call env 6 (ApplyVerifiedPayment (bv_eventID env) (bv_now env) operation provider2 (bv_correlationID env)))"

definition processWebhook :: "bill_config \<Rightarrow> bill_env \<Rightarrow> unit bill_tx" where
  "processWebhook cfg env =
     tx_bind (call env 8 (ClaimWebhook (bv_now env) (bc_lease cfg) (bv_locked env))) (\<lambda>claimed.
     case claimed of
       None \<Rightarrow> tx_return ()
     | Some n \<Rightarrow>
         let reject = (\<lambda>code. call env 7 (RejectWebhook (bv_now env) (wn_InboxID n) code));
             again = (\<lambda>code. call env 7 (RetryWebhook (bv_now env) (wn_InboxID n) code
                        (bill_retryBackoff (bc_sha256 cfg) Itoa (bc_retryDelay cfg) (wn_Attempts n) (wn_InboxID n))))
         in tx_try (call env 0 (bill_getPayment (\<lambda>p. pr_provider_payment_id p = Some (wn_ProviderObjectID n))))
              (\<lambda>err. if err = BNotFound then reject ''unknown_payment'' else again ''database_error'')
              (\<lambda>operation.
                 case provider_GetPayment (wn_ProviderObjectID n) (bv_get env) of
                   Inl err \<Rightarrow> if IsProviderRetryable err then again (pe_Code err) else reject (pe_Code err)
                 | Inr providerPayment \<Rightarrow>
                     if \<not> validateProviderPayment cfg operation providerPayment False then reject ''provider_mismatch''
                     else tx_try (applyProviderState env operation providerPayment)
                            (\<lambda>err. if err = BStateConflict then reject ''state_conflict'' else again ''apply_failed'')
                            (\<lambda>_. call env 7 (CompleteWebhook (bv_now env) (wn_InboxID n) ''verified''))))"

definition reconcilePayment :: "bill_config \<Rightarrow> bill_env \<Rightarrow> unit bill_tx" where
  "reconcilePayment cfg env =
     tx_bind (call env 8 (ClaimPaymentForReconcile (bv_now env) (bc_lease cfg) (bv_locked env))) (\<lambda>claimed.
     case claimed of
       None \<Rightarrow> tx_return ()
     | Some operation \<Rightarrow>
         let delay = bill_retryBackoff (bc_sha256 cfg) Itoa (bc_retryDelay cfg) (po_ReconcileAttempts operation)
                       (po_PaymentID operation)
         in case po_ProviderPaymentID operation of
              None \<Rightarrow>
                tx_bind (createAtProvider cfg env operation) (\<lambda>created.
                if \<not> open_payment (po_Status created) then tx_return ()
                else call env 7 (ReschedulePayment (bv_now env) (po_PaymentID created) [] delay))
            | Some providerID \<Rightarrow>
                (case provider_GetPayment providerID (bv_get env) of
                   Inl err \<Rightarrow>
                     if IsProviderRetryable err
                     then call env 7 (ReschedulePayment (bv_now env) (po_PaymentID operation) (pe_Code err) delay)
                     else call env 7 (MarkProviderCreateFailed (bv_now env) (po_PaymentID operation) (pe_Code err))
                 | Inr providerPayment \<Rightarrow>
                     if \<not> validateProviderPayment cfg operation providerPayment False
                     then call env 7 (MarkProviderCreateFailed (bv_now env) (po_PaymentID operation) ''provider_mismatch'')
                     else applyProviderState env operation providerPayment))"

text \<open>The outbox statements on the whole store; \<open>bill_publishOutbox\<close> returns what reached the broker.\<close>

definition claim_outbox :: "instant \<Rightarrow> nanos \<Rightarrow> uuid list \<Rightarrow> bill_envelope OutboxMessage option bill_tx" where
  "claim_outbox now lease locked st =
     (case bill_ClaimOutbox now lease locked (b_outbox st) of (m, rows) \<Rightarrow> (Inr m, st\<lparr>b_outbox := rows\<rparr>))"

definition complete_outbox :: "instant \<Rightarrow> uuid \<Rightarrow> unit bill_tx" where
  "complete_outbox now eid = tx_modify (\<lambda>st. st\<lparr>b_outbox := bill_CompleteOutbox now eid (b_outbox st)\<rparr>)"

definition retry_outbox :: "instant \<Rightarrow> nanos \<Rightarrow> uuid \<Rightarrow> unit bill_tx" where
  "retry_outbox now delay eid = tx_modify (\<lambda>st. st\<lparr>b_outbox := bill_RetryOutbox now delay eid (b_outbox st)\<rparr>)"

definition bill_publishOutbox :: "bill_config \<Rightarrow> bill_env \<Rightarrow> bill_envelope OutboxMessage list bill_tx" where
  "bill_publishOutbox cfg env =
     tx_bind (call env 9 (claim_outbox (bv_now env) (bc_lease cfg) (bv_locked env))) (\<lambda>claimed.
     case claimed of
       None \<Rightarrow> tx_return []
     | Some message \<Rightarrow>
         if bv_publish_ok env
         then tx_try (call env 10 (complete_outbox (bv_now env) (msg_EventID message)))
                (\<lambda>_. tx_return [message]) (\<lambda>_. tx_return [message])
         else tx_bind (call env 10 (retry_outbox (bv_now env)
                  (bill_retryBackoff (bc_sha256 cfg) Itoa (bc_retryDelay cfg) (msg_Attempts message) (msg_EventID message))
                  (msg_EventID message))) (\<lambda>_. tx_return []))"

definition bill_workOnce :: "bill_config \<Rightarrow> bill_env \<Rightarrow> bill_env \<Rightarrow> bill_env \<Rightarrow> bill_store \<Rightarrow> bill_store" where
  "bill_workOnce cfg e1 e2 e3 st =
     snd (bill_publishOutbox cfg e3 (snd (reconcilePayment cfg e2 (snd (processWebhook cfg e1 st)))))"

end
