(* ===== verification/Billing_Invariants.thy ===== *)
theory Billing_Invariants
  imports Billing_Service
begin

text \<open>
  The books of billing. \<open>bill_step\<close> is the transition system of the store, one rule per store
  operation with any arguments and any driver fault; use cases and worker rounds are sequences
  of such steps. \<open>books\<close> is the invariant of its reachable states: keys are unique, a user has
  one open order, a payment has its order's amount and currency and a status that agrees with
  the order's, and the outbox has exactly one event for each payment that succeeded or was
  canceled, with the data of its order.

  Inside a transaction the books are out of balance between two statements, so they are not
  kept by every primitive write; \<open>balanced_change\<close> shows that changing a payment together with
  its order keeps them, and each operation is an instance.
\<close>

section \<open>The invariant\<close>

definition order_status_of :: "payment_status \<Rightarrow> order_status" where
  "order_status_of s = (case s of
       PaymentSucceeded \<Rightarrow> OrderPaid
     | PaymentCanceled \<Rightarrow> OrderCanceled
     | PaymentFailed \<Rightarrow> OrderCanceled
     | _ \<Rightarrow> OrderPaymentPending)"

definition agrees :: "payment_row \<Rightarrow> order_row \<Rightarrow> bool" where
  "agrees p r \<longleftrightarrow> bo_OrderID r = pr_order_id p \<and> pr_amount_minor p = bo_AmountMinor r
     \<and> pr_currency p = bo_Currency r \<and> bo_Status r = order_status_of (pr_status p)"

definition one_open :: "order_row list \<Rightarrow> bool" where
  "one_open rs \<longleftrightarrow> distinct (map bo_UserID (filter (\<lambda>r. open_order (bo_Status r)) rs))"

definition ledger :: "order_row list \<Rightarrow> payment_row list \<Rightarrow> bool" where
  "ledger rs ps \<longleftrightarrow>
     distinct (map bo_OrderID rs) \<and> distinct (map pr_id ps) \<and> distinct (map pr_order_id ps) \<and> one_open rs
     \<and> (\<forall>p \<in> set ps. \<exists>r \<in> set rs. agrees p r)
     \<and> (\<forall>r \<in> set rs. bo_Status r \<noteq> OrderCreated \<longrightarrow> bo_OrderID r \<in> pr_order_id ` set ps)"

definition event_of :: "payment_row \<Rightarrow> order_row \<Rightarrow> bill_outbox_row \<Rightarrow> bool" where
  "event_of p r e \<longleftrightarrow> ob_aggregate_id e = pr_id p \<and>
     (pr_status p = PaymentSucceeded \<and> ob_topic e = ''billing.payment.succeeded.v1''
        \<and> (\<exists>at. pr_paid_at p = Some at \<and> be_Data (ob_payload e) =
             SucceededData (pr_id p) (bo_OrderID r) (bo_UserID r) (or_plan_id r) (bo_AmountMinor r) (bo_Currency r) at)
      \<or> pr_status p = PaymentCanceled \<and> ob_topic e = ''billing.payment.canceled.v1''
        \<and> (\<exists>at. pr_canceled_at p = Some at \<and> be_Data (ob_payload e) =
             CanceledData (pr_id p) (bo_OrderID r) (bo_UserID r) at))"

definition settled_payment :: "payment_status \<Rightarrow> bool" where
  "settled_payment s \<longleftrightarrow> s = PaymentSucceeded \<or> s = PaymentCanceled"

definition events_ok :: "order_row list \<Rightarrow> payment_row list \<Rightarrow> bill_outbox_row list \<Rightarrow> bool" where
  "events_ok rs ps es \<longleftrightarrow> distinct (map ob_aggregate_id es)
     \<and> (\<forall>e \<in> set es. \<exists>p \<in> set ps. \<exists>r \<in> set rs. bo_OrderID r = pr_order_id p \<and> event_of p r e)
     \<and> (\<forall>p \<in> set ps. settled_payment (pr_status p) \<longrightarrow> pr_id p \<in> ob_aggregate_id ` set es)"

definition books :: "bill_store \<Rightarrow> bool" where
  "books st \<longleftrightarrow> ledger (b_orders st) (b_payments st) \<and> events_ok (b_orders st) (b_payments st) (b_outbox st)
     \<and> distinct (map ob_event_id (b_outbox st))"

lemma books_empty: "books empty_bill_store"
  by (simp add: books_def empty_bill_store_def ledger_def events_ok_def one_open_def)

section \<open>Changing a payment together with its order\<close>

lemma ledgerD:
  assumes "ledger rs ps"
  shows "distinct (map bo_OrderID rs)" "distinct (map pr_id ps)" "distinct (map pr_order_id ps)" "one_open rs"
    "p \<in> set ps \<Longrightarrow> \<exists>r \<in> set rs. agrees p r"
    "r \<in> set rs \<Longrightarrow> bo_Status r \<noteq> OrderCreated \<Longrightarrow> bo_OrderID r \<in> pr_order_id ` set ps"
  using assms by (auto simp: ledger_def)

lemma one_open_update:
  assumes "one_open rs" and "\<And>x. R x \<Longrightarrow> bo_UserID (g x) = bo_UserID x"
    and "\<And>x. R x \<Longrightarrow> open_order (bo_Status (g x)) \<Longrightarrow> open_order (bo_Status x)"
  shows "one_open (tbl_update R g rs)"
  using assms
proof (induction rs)
  case (Cons a rs)
  have sub: "bo_UserID ` set (filter (\<lambda>r. open_order (bo_Status r)) (tbl_update R g rs))
      \<subseteq> bo_UserID ` set (filter (\<lambda>r. open_order (bo_Status r)) rs)"
    using Cons.prems(2,3) by (fastforce elim!: in_tbl_updateE)
  from Cons show ?case using sub by (auto simp: one_open_def split: if_splits)
qed simp

lemma balanced_change:
  assumes led: "ledger rs ps" and p: "p \<in> set ps" and r: "r \<in> set rs" "bo_OrderID r = pr_order_id p"
    and P: "\<And>q. q \<in> set ps \<Longrightarrow> P q = (q = p)" and R: "\<And>x. x \<in> set rs \<Longrightarrow> R x = (x = r)"
    and f: "\<And>q. pr_id (f q) = pr_id q \<and> pr_order_id (f q) = pr_order_id q
        \<and> pr_amount_minor (f q) = pr_amount_minor q \<and> pr_currency (f q) = pr_currency q"
    and g: "\<And>x. bo_OrderID (g x) = bo_OrderID x \<and> bo_UserID (g x) = bo_UserID x
        \<and> bo_AmountMinor (g x) = bo_AmountMinor x \<and> bo_Currency (g x) = bo_Currency x"
    and s: "bo_Status (g r) = order_status_of (pr_status (f p))"
    and o: "open_order (bo_Status (g r)) \<Longrightarrow> open_order (bo_Status r)"
  shows "ledger (tbl_update R g rs) (tbl_update P f ps)"
proof -
  note D = ledgerD [OF led]
  let ?rs = "tbl_update R g rs" and ?ps = "tbl_update P f ps"
  have up: "tbl_update R g rs = tbl_update (\<lambda>x. x = r) g rs" using R by (auto simp: tbl_update_def)
  have keys: "map bo_OrderID ?rs = map bo_OrderID rs" "map pr_id ?ps = map pr_id ps" "map pr_order_id ?ps = map pr_order_id ps"
    using f g by (auto intro!: map_tbl_update)
  have open1: "one_open ?rs" unfolding up
    by (rule one_open_update [OF D(4)]) (use g o in auto)
  have match: "x = r" if "agrees q x" "x \<in> set rs" "q = p" for q x
    using that r distinct_key_eq [OF D(1), of x r] by (auto simp: agrees_def)
  have "\<exists>x \<in> set ?rs. agrees q' x" if "q' \<in> set ?ps" for q'
    using that
  proof (cases rule: in_tbl_updateE)
    case (hit q)
    with P have [simp]: "q = p" by simp
    from D(5) [OF p] obtain x where x: "x \<in> set rs" "agrees p x" by blast
    with match have [simp]: "x = r" by simp
    have "g r \<in> set ?rs" using r(1) R by (auto intro: tbl_update_hit)
    moreover have "agrees (f p) (g r)" using x f g s by (simp add: agrees_def)
    ultimately show ?thesis using hit by auto
  next
    case miss
    then have q: "q' \<in> set ps" "q' \<noteq> p" using P p by auto
    from D(5) [OF q(1)] obtain x where x: "x \<in> set rs" "agrees q' x" by blast
    have "x \<noteq> r"
    proof
      assume "x = r"
      with x r have "pr_order_id q' = pr_order_id p" by (simp add: agrees_def)
      with distinct_key_eq [OF D(3) q(1) p] q(2) show False by simp
    qed
    with x R have "x \<in> set ?rs" by (auto simp: tbl_update_def)
    with x show ?thesis by blast
  qed
  moreover have "bo_OrderID x \<in> pr_order_id ` set ?ps" if "x \<in> set ?rs" "bo_Status x \<noteq> OrderCreated" for x
  proof -
    have ids: "pr_order_id ` set ?ps = pr_order_id ` set ps" using keys(3) by (metis set_map)
    from that(1) show ?thesis
    proof (cases rule: in_tbl_updateE)
      case (hit y)
      with R have "y = r" by simp
      with hit g r(2) p ids show ?thesis by auto
    next
      case miss
      with D(6) that(2) ids show ?thesis by auto
    qed
  qed
  ultimately show ?thesis using D(1-3) keys open1 by (simp add: ledger_def)
qed

section \<open>Events\<close>

definition keeps_terms :: "(order_row \<Rightarrow> order_row) \<Rightarrow> bool" where
  "keeps_terms g \<longleftrightarrow> (\<forall>x. bo_OrderID (g x) = bo_OrderID x \<and> bo_UserID (g x) = bo_UserID x
     \<and> bo_AmountMinor (g x) = bo_AmountMinor x \<and> bo_Currency (g x) = bo_Currency x \<and> or_plan_id (g x) = or_plan_id x)"

definition keeps_identity :: "(payment_row \<Rightarrow> payment_row) \<Rightarrow> bool" where
  "keeps_identity f \<longleftrightarrow> (\<forall>q. pr_id (f q) = pr_id q \<and> pr_order_id (f q) = pr_order_id q
     \<and> pr_amount_minor (f q) = pr_amount_minor q \<and> pr_currency (f q) = pr_currency q)"

lemma event_of_terms: "keeps_terms g \<Longrightarrow> event_of p (g r) e = event_of p r e"
  by (simp add: keeps_terms_def event_of_def)

lemma event_of_settled: "event_of p r e \<Longrightarrow> settled_payment (pr_status p) \<and> ob_aggregate_id e = pr_id p"
  by (auto simp: event_of_def settled_payment_def)

lemma order_after:
  assumes "keeps_terms g" and "r \<in> set rs"
  shows "\<exists>r' \<in> set (tbl_update R g rs). bo_OrderID r' = bo_OrderID r \<and> (\<forall>p e. event_of p r' e = event_of p r e)"
proof (cases "R r")
  case True
  with assms have "g r \<in> set (tbl_update R g rs)" by (simp add: tbl_update_hit)
  with assms(1) show ?thesis by (intro bexI [of _ "g r"]) (auto simp: event_of_terms keeps_terms_def)
next
  case False
  with assms(2) have "r \<in> set (tbl_update R g rs)" by (auto simp: set_tbl_update)
  then show ?thesis by blast
qed

lemma no_event_yet:
  assumes "distinct (map pr_id ps)" and "events_ok rs ps es" and "p \<in> set ps" and "\<not> settled_payment (pr_status p)"
  shows "pr_id p \<notin> ob_aggregate_id ` set es"
proof
  assume "pr_id p \<in> ob_aggregate_id ` set es"
  then obtain e where "e \<in> set es" "ob_aggregate_id e = pr_id p" by auto
  with assms(2) obtain q r where "q \<in> set ps" "event_of q r e" by (auto simp: events_ok_def)
  with \<open>ob_aggregate_id e = pr_id p\<close> have "pr_id q = pr_id p" "settled_payment (pr_status q)"
    by (auto dest: event_of_settled)
  with \<open>q \<in> set ps\<close> assms(1,3,4) show False by (auto dest: distinct_key_eq)
qed

lemma events_keep:
  assumes d: "distinct (map pr_id ps)" and ev: "events_ok rs ps es" and p: "p \<in> set ps" "\<not> settled_payment (pr_status p)"
    and P: "\<And>q. q \<in> set ps \<Longrightarrow> P q = (q = p)" and g: "keeps_terms g" and e: "e \<in> set es"
  shows "\<exists>q \<in> set (tbl_update P f ps). \<exists>r \<in> set (tbl_update R g rs). bo_OrderID r = pr_order_id q \<and> event_of q r e"
proof -
  from ev e obtain q r where q: "q \<in> set ps" "r \<in> set rs" "bo_OrderID r = pr_order_id q" "event_of q r e"
    by (auto simp: events_ok_def)
  with event_of_settled p(2) have "q \<noteq> p" by blast
  with q(1) P have "q \<in> set (tbl_update P f ps)" by (auto simp: set_tbl_update)
  moreover from order_after [OF g q(2), of R] obtain r' where
    "r' \<in> set (tbl_update R g rs)" "bo_OrderID r' = bo_OrderID r" "event_of q r' e" using q(4) by blast
  ultimately show ?thesis using q(3) by auto
qed

lemma events_unsettled:
  assumes d: "distinct (map pr_id ps)" and ev: "events_ok rs ps es" and p: "p \<in> set ps" "\<not> settled_payment (pr_status p)"
    and P: "\<And>q. q \<in> set ps \<Longrightarrow> P q = (q = p)" and g: "keeps_terms g" and s: "\<not> settled_payment (pr_status (f p))"
  shows "events_ok (tbl_update R g rs) (tbl_update P f ps) es"
  unfolding events_ok_def
proof (intro conjI ballI impI)
  show "distinct (map ob_aggregate_id es)" using ev by (simp add: events_ok_def)
next
  fix e assume "e \<in> set es"
  then show "\<exists>q \<in> set (tbl_update P f ps). \<exists>r \<in> set (tbl_update R g rs). bo_OrderID r = pr_order_id q \<and> event_of q r e"
    by (intro events_keep [OF d ev p _ g] P)
next
  fix q assume "q \<in> set (tbl_update P f ps)" "settled_payment (pr_status q)"
  then show "pr_id q \<in> ob_aggregate_id ` set es"
    using ev s P by (auto elim!: in_tbl_updateE simp: events_ok_def)
qed

lemma events_settled:
  assumes d: "distinct (map pr_id ps)" and ev: "events_ok rs ps es" and p: "p \<in> set ps" "\<not> settled_payment (pr_status p)"
    and P: "\<And>q. q \<in> set ps \<Longrightarrow> P q = (q = p)" and g: "keeps_terms g" and f: "keeps_identity f"
    and r: "r \<in> set rs" "bo_OrderID r = pr_order_id p" and new: "event_of (f p) r e"
  shows "events_ok (tbl_update R g rs) (tbl_update P f ps) (es @ [e])"
  unfolding events_ok_def
proof (intro conjI ballI impI)
  from new f have agg: "ob_aggregate_id e = pr_id p" by (auto simp: event_of_def keeps_identity_def)
  with no_event_yet [OF d ev p] ev show "distinct (map ob_aggregate_id (es @ [e]))"
    by (simp add: events_ok_def)
  fix e' assume "e' \<in> set (es @ [e])"
  then consider "e' \<in> set es" | "e' = e" by auto
  then show "\<exists>q \<in> set (tbl_update P f ps). \<exists>r \<in> set (tbl_update R g rs). bo_OrderID r = pr_order_id q \<and> event_of q r e'"
  proof cases
    case 1
    then show ?thesis by (intro events_keep [OF d ev p _ g] P)
  next
    case 2
    from order_after [OF g r(1), of R] obtain r' where
      "r' \<in> set (tbl_update R g rs)" "bo_OrderID r' = bo_OrderID r" "event_of (f p) r' e" using new by blast
    moreover have "f p \<in> set (tbl_update P f ps)" using p(1) P by (simp add: tbl_update_hit)
    ultimately show ?thesis using 2 r(2) f
      by (intro bexI [of _ "f p"] bexI [of _ r']) (auto simp: keeps_identity_def)
  qed
next
  from new f have agg: "ob_aggregate_id e = pr_id p" by (auto simp: event_of_def keeps_identity_def)
  fix q assume "q \<in> set (tbl_update P f ps)" "settled_payment (pr_status q)"
  then show "pr_id q \<in> ob_aggregate_id ` set (es @ [e])"
    using ev P agg f by (auto elim!: in_tbl_updateE simp: events_ok_def keeps_identity_def)
qed

section \<open>Balanced changes of the store\<close>

definition changed :: "(payment_row \<Rightarrow> bool) \<Rightarrow> (payment_row \<Rightarrow> payment_row) \<Rightarrow> (order_row \<Rightarrow> bool) \<Rightarrow>
    (order_row \<Rightarrow> order_row) \<Rightarrow> bill_store \<Rightarrow> bill_store" where
  "changed P f R g st = st\<lparr>b_payments := tbl_update P f (b_payments st), b_orders := tbl_update R g (b_orders st)\<rparr>"

text \<open>The payment \<open>p\<close> with its order \<open>r\<close>, and changes that touch these two rows only.\<close>

definition about :: "payment_row \<Rightarrow> order_row \<Rightarrow> bill_store \<Rightarrow> bool" where
  "about p r st \<longleftrightarrow> p \<in> set (b_payments st) \<and> r \<in> set (b_orders st) \<and> bo_OrderID r = pr_order_id p"

definition hits :: "(payment_row \<Rightarrow> bool) \<Rightarrow> (order_row \<Rightarrow> bool) \<Rightarrow> payment_row \<Rightarrow> order_row \<Rightarrow> bill_store \<Rightarrow> bool" where
  "hits P R p r st \<longleftrightarrow> (\<forall>q \<in> set (b_payments st). P q = (q = p)) \<and> (\<forall>x \<in> set (b_orders st). R x = (x = r))"

lemma books_change:
  assumes bk: "books st" and pr: "about p r st" and h: "hits P R p r st"
    and f: "keeps_identity f" and g: "keeps_terms g"
    and s: "bo_Status (g r) = order_status_of (pr_status (f p))"
    and o: "open_order (bo_Status (g r)) \<Longrightarrow> open_order (bo_Status r)" and u: "\<not> settled_payment (pr_status p)"
  shows "\<not> settled_payment (pr_status (f p)) \<Longrightarrow> books (changed P f R g st)"
    and "event_of (f p) r e \<Longrightarrow> ob_event_id e \<notin> ob_event_id ` set (b_outbox st) \<Longrightarrow>
      books ((changed P f R g st)\<lparr>b_outbox := b_outbox st @ [e]\<rparr>)"
proof -
  from bk have led: "ledger (b_orders st) (b_payments st)" and ev: "events_ok (b_orders st) (b_payments st) (b_outbox st)"
    and d: "distinct (map ob_event_id (b_outbox st))" by (auto simp: books_def)
  from pr have p: "p \<in> set (b_payments st)" and r: "r \<in> set (b_orders st)" "bo_OrderID r = pr_order_id p"
    by (auto simp: about_def)
  have P: "\<And>q. q \<in> set (b_payments st) \<Longrightarrow> P q = (q = p)" and R: "\<And>x. x \<in> set (b_orders st) \<Longrightarrow> R x = (x = r)"
    using h by (auto simp: hits_def)
  have led': "ledger (tbl_update R g (b_orders st)) (tbl_update P f (b_payments st))"
    by (rule balanced_change [OF led p r P R]) (use f g s o in \<open>auto simp: keeps_identity_def keeps_terms_def\<close>)
  note dp = ledgerD(2) [OF led]
  show "books (changed P f R g st)" if "\<not> settled_payment (pr_status (f p))"
    using led' d that events_unsettled [OF dp ev p u _ g, of P f R] P by (simp add: books_def changed_def)
  show "books ((changed P f R g st)\<lparr>b_outbox := b_outbox st @ [e]\<rparr>)"
    if "event_of (f p) r e" "ob_event_id e \<notin> ob_event_id ` set (b_outbox st)"
    using led' d events_settled [OF dp ev p u _ g f r, of P e R] P that by (simp add: books_def changed_def)
qed

lemma changed_id: "(\<And>x. x \<in> set (b_orders st) \<Longrightarrow> \<not> R x) \<Longrightarrow> changed P f R g st = st\<lparr>b_payments := tbl_update P f (b_payments st)\<rparr>"
  by (simp add: changed_def tbl_update_id)

text \<open>A payment alone may move among the open statuses.\<close>

lemma books_open_payment:
  assumes bk: "books st" and p: "p \<in> set (b_payments st)" and P: "\<And>q. q \<in> set (b_payments st) \<Longrightarrow> P q = (q = p)"
    and f: "keeps_identity f" and s: "open_payment (pr_status p)" "open_payment (pr_status (f p))"
  shows "books (st\<lparr>b_payments := tbl_update P f (b_payments st)\<rparr>)"
proof -
  from bk p obtain r where r: "r \<in> set (b_orders st)" "agrees p r" by (auto simp: books_def dest: ledgerD(5))
  then have ab: "about p r st" and st: "bo_Status r = OrderPaymentPending" using p s(1)
    by (auto simp: about_def agrees_def order_status_of_def open_payment_def)
  have "changed P f (\<lambda>x. x = r) (\<lambda>x. x) st = st\<lparr>b_payments := tbl_update P f (b_payments st)\<rparr>"
    by (simp add: changed_def tbl_update_def)
  moreover have "books (changed P f (\<lambda>x. x = r) (\<lambda>x. x) st)"
    using s st by (intro books_change(1) [OF bk ab _ f])
      (auto simp: hits_def P keeps_terms_def order_status_of_def open_payment_def settled_payment_def)
  ultimately show ?thesis by simp
qed

lemma about_agrees: "books st \<Longrightarrow> about p r st \<Longrightarrow> agrees p r"
proof -
  assume bk: "books st" and ab: "about p r st"
  from bk ab obtain x where x: "x \<in> set (b_orders st)" "agrees p x" by (auto simp: books_def about_def dest: ledgerD(5))
  with bk ab have "x = r"
    by (intro distinct_key_eq [of bo_OrderID "b_orders st"]) (auto simp: books_def ledger_def about_def agrees_def)
  with x show ?thesis by simp
qed

lemma books_update_id:
  assumes "books st" and "\<And>q. q \<in> set (b_payments st) \<Longrightarrow> \<not> P q"
  shows "books (st\<lparr>b_payments := tbl_update P f (b_payments st)\<rparr>)"
  using assms tbl_update_id [of "b_payments st" P f] by simp

lemma books_open_update:
  assumes bk: "books st" and P: "\<And>q. P q \<Longrightarrow> pr_id q = pid \<and> open_payment (pr_status q) \<and> open_payment (pr_status (f q))"
    and f: "keeps_identity f"
  shows "books (st\<lparr>b_payments := tbl_update P f (b_payments st)\<rparr>)"
proof (cases "\<exists>p \<in> set (b_payments st). P p")
  case True
  then obtain p where p: "p \<in> set (b_payments st)" "P p" by blast
  have "P q = (q = p)" if "q \<in> set (b_payments st)" for q
    using that p P bk by (auto simp: books_def dest!: ledgerD(2) dest: distinct_key_eq [of pr_id])
  with bk p P f show ?thesis by (intro books_open_payment) auto
next
  case False
  with bk show ?thesis by (intro books_update_id) auto
qed

section \<open>What the operations write\<close>

declare tx_results [simp]

lemma update_payments_Inr:
  "update_payments P f st = (Inr u, t) \<longleftrightarrow>
   (\<forall>q \<in> set (b_payments st). P q \<longrightarrow> payment_transition (pr_status q) (pr_status (f q)) \<and> payment_row_check (f q))
   \<and> t = st\<lparr>b_payments := tbl_update P f (b_payments st)\<rparr>"
  by (auto simp: update_payments_def tx_bind_Inr list_ex_iff)

lemma update_orders_Inr:
  "update_orders R g st = (Inr u, t) \<longleftrightarrow>
   (\<forall>x \<in> set (b_orders st). R x \<longrightarrow> order_transition (bo_Status x) (bo_Status (g x)))
   \<and> t = st\<lparr>b_orders := tbl_update R g (b_orders st)\<rparr>"
  by (auto simp: update_orders_def tx_bind_Inr list_ex_iff)

lemma find_operation_Some:
  assumes "find_operation c st = Some op"
  obtains p r where "find c (b_payments st) = Some p" "p \<in> set (b_payments st)" "c p" "r \<in> set (b_orders st)"
    "bo_OrderID r = pr_order_id p" "op = operation_of p r" "about p r st"
  using assms that
  by (auto simp: find_operation_def about_def split: option.splits dest!: find_SomeD)

lemma bill_getPayment_Inr:
  "bill_getPayment c st = (Inr op, t) \<longleftrightarrow> find_operation c st = Some op \<and> t = st"
  by (auto simp: bill_getPayment_def tx_bind_Inr split: option.splits)

lemma getOrder_Inr:
  "getOrder uid oid st = (Inr x, t) \<longleftrightarrow>
   (\<exists>r. find (\<lambda>r. bo_UserID r = uid \<and> bo_OrderID r = oid) (b_orders st) = Some r \<and> x = order_of_row r) \<and> t = st"
  by (auto simp: getOrder_def tx_bind_Inr split: option.splits)

lemma lookupIdempotency_state: "lookupIdempotency a b c d st = (Inr x, t) \<Longrightarrow> t = st"
  by (auto simp: lookupIdempotency_def tx_bind_Inr split: option.splits if_splits)

lemma insert_idempotency_state: "insert_idempotency row st = (Inr u, t) \<Longrightarrow> t = st\<lparr>b_idempotency := b_idempotency st @ [row]\<rparr>"
  by (auto simp: insert_idempotency_def tx_bind_Inr split: if_splits)

lemma books_frame:
  "b_orders t = b_orders st \<Longrightarrow> b_payments t = b_payments st \<Longrightarrow> b_outbox t = b_outbox st \<Longrightarrow> books t = books st"
  by (simp add: books_def)

section \<open>Every operation keeps the books\<close>

lemma books_new_order:
  assumes bk: "books st" and new: "bo_OrderID row \<notin> bo_OrderID ` set (b_orders st)" "bo_Status row = OrderCreated"
    and op: "find (\<lambda>r. bo_UserID r = bo_UserID row \<and> open_order (bo_Status r)) (b_orders st) = None"
  shows "books (st\<lparr>b_orders := b_orders st @ [row]\<rparr>)"
proof -
  from op have "bo_UserID row \<notin> bo_UserID ` set (filter (\<lambda>r. open_order (bo_Status r)) (b_orders st))"
    by (auto dest: find_NoneD)
  with bk new show ?thesis
    by (fastforce simp: books_def ledger_def one_open_def events_ok_def)
qed

lemma insert_order_books:
  assumes "books st" and "insert_order oid now input st = (Inr x, t)"
  shows "books t"
proof (cases "find (\<lambda>r. bo_UserID r = coi_UserID input \<and> open_order (bo_Status r)) (b_orders st)")
  case None
  with assms(2) have t: "t = st\<lparr>b_orders := b_orders st @ [new_order oid now input]\<rparr>"
    and fr: "\<not> list_ex (\<lambda>r. bo_OrderID r = oid) (b_orders st)"
    by (auto simp: insert_order_def Let_def tx_bind_Inr split: if_splits)
  from fr have "bo_OrderID (new_order oid now input) \<notin> bo_OrderID ` set (b_orders st)"
    by (auto simp: new_order_def list_ex_iff)
  with None assms(1) show ?thesis unfolding t by (intro books_new_order) (simp_all add: new_order_def)
next
  case (Some r)
  with assms show ?thesis by (auto simp: insert_order_def Let_def tx_bind_Inr split: if_splits)
qed

lemma CreateOrder_books: "books st \<Longrightarrow> bill_CreateOrder oid now input st = (Inr x, t) \<Longrightarrow> books t"
proof -
  assume bk: "books st" and run: "bill_CreateOrder oid now input st = (Inr x, t)"
  from run obtain found where look: "lookupIdempotency (coi_UserID input) CreateOrderOp (coi_IdempotencyKey input) (coi_RequestHash input) st = (Inr found, st)"
    unfolding bill_CreateOrder_def tx_bind_Inr using lookupIdempotency_state by blast
  show "books t"
  proof (cases found)
    case None
    with run look obtain i st1 where ins: "insert_order oid now input st = (Inr i, st1)"
      and t: "b_orders t = b_orders st1" "b_payments t = b_payments st1" "b_outbox t = b_outbox st1"
      by (auto simp: bill_CreateOrder_def tx_bind_Inr getOrder_Inr dest!: insert_idempotency_state)
    from insert_order_books [OF bk ins] books_frame [OF t] show ?thesis by simp
  next
    case (Some y)
    with run look bk show ?thesis by (auto simp: bill_CreateOrder_def tx_bind_Inr getOrder_Inr)
  qed
qed

lemma books_new_payment:
  assumes bk: "books st" and r: "r \<in> set (b_orders st)" "open_order (bo_Status r)"
    and fresh: "pr_id p \<notin> pr_id ` set (b_payments st)" "pr_order_id p \<notin> pr_order_id ` set (b_payments st)"
    and p: "pr_order_id p = bo_OrderID r" "pr_amount_minor p = bo_AmountMinor r" "pr_currency p = bo_Currency r"
      "pr_status p = PaymentCreated"
  shows "books (st\<lparr>b_payments := b_payments st @ [p],
    b_orders := tbl_update (\<lambda>x. bo_OrderID x = bo_OrderID r) (set_order_status OrderPaymentPending now) (b_orders st)\<rparr>)"
proof -
  let ?g = "set_order_status OrderPaymentPending now" and ?R = "\<lambda>x. bo_OrderID x = bo_OrderID r"
  let ?rs = "tbl_update ?R ?g (b_orders st)" and ?ps = "b_payments st @ [p]"
  from bk have led: "ledger (b_orders st) (b_payments st)" and ev: "events_ok (b_orders st) (b_payments st) (b_outbox st)"
    by (auto simp: books_def)
  note D = ledgerD [OF led]
  have gk: "keeps_terms ?g" by (simp add: keeps_terms_def set_order_status_def)
  have R: "?R x = (x = r)" if "x \<in> set (b_orders st)" for x
    using that r(1) D(1) by (auto dest: distinct_key_eq)
  have keys: "map bo_OrderID ?rs = map bo_OrderID (b_orders st)"
    by (rule map_tbl_update) (simp add: set_order_status_def)
  have up: "?rs = tbl_update (\<lambda>x. x = r) ?g (b_orders st)"
    using R by (auto simp: tbl_update_def)
  have open1: "one_open ?rs" unfolding up
    by (rule one_open_update [OF D(4)]) (use r(2) in \<open>auto simp: set_order_status_def open_order_def\<close>)
  have "\<exists>x \<in> set ?rs. agrees q x" if q: "q \<in> set ?ps" for q
  proof (cases "q = p")
    case True
    have "?g r \<in> set ?rs" using r(1) by (intro tbl_update_hit) simp_all
    then show ?thesis using True p
      by (intro bexI [of _ "?g r"]) (auto simp: agrees_def set_order_status_def order_status_of_def)
  next
    case False
    with q have "q \<in> set (b_payments st)" by simp
    with D(5) obtain x where x: "x \<in> set (b_orders st)" "agrees q x" by blast
    with fresh(2) p(1) \<open>q \<in> set (b_payments st)\<close> have "\<not> ?R x" by (auto simp: agrees_def image_iff)
    with x show ?thesis by (auto simp: set_tbl_update)
  qed
  moreover have "bo_OrderID x \<in> pr_order_id ` set ?ps" if "x \<in> set ?rs" "bo_Status x \<noteq> OrderCreated" for x
    using that D(6) p(1) by (auto elim!: in_tbl_updateE simp: set_order_status_def)
  ultimately have "ledger ?rs ?ps" using D(1-3) keys open1 fresh by (simp add: ledger_def)
  moreover have "events_ok ?rs ?ps (b_outbox st)"
    unfolding events_ok_def
  proof (intro conjI ballI impI)
    fix e assume "e \<in> set (b_outbox st)"
    with ev obtain q x where q: "q \<in> set (b_payments st)" "x \<in> set (b_orders st)" "bo_OrderID x = pr_order_id q" "event_of q x e"
      by (auto simp: events_ok_def)
    from order_after [OF gk q(2), of ?R] q show "\<exists>q \<in> set ?ps. \<exists>r \<in> set ?rs. bo_OrderID r = pr_order_id q \<and> event_of q r e"
      by (intro bexI [of _ q]) auto
  qed (use ev p(4) in \<open>auto simp: events_ok_def settled_payment_def\<close>)
  ultimately show ?thesis using bk by (simp add: books_def)
qed

lemma CreatePayment_books:
  assumes bk: "books st"
    and run: "bill_CreatePayment pid key now appNow input provider window st = (Inr x, t)"
  shows "books t"
proof -
  from run obtain found where look: "lookupIdempotency (cpi_UserID input) CreatePaymentOp (cpi_IdempotencyKey input) (cpi_RequestHash input) st = (Inr found, st)"
    unfolding bill_CreatePayment_def tx_bind_Inr using lookupIdempotency_state by blast
  show ?thesis
  proof (cases found)
    case (Some y)
    with run look bk show ?thesis by (auto simp: bill_CreatePayment_def tx_bind_Inr bill_getPayment_Inr)
  next
    case None
    with run look obtain r where r: "find (\<lambda>r. bo_UserID r = cpi_UserID input \<and> bo_OrderID r = cpi_OrderID input) (b_orders st) = Some r"
      and open1: "open_order (bo_Status (order_of_row r))"
      by (auto simp: bill_CreatePayment_def tx_bind_Inr getOrder_Inr split: if_splits)
    from find_SomeD [OF r] open1 have rm: "r \<in> set (b_orders st)" "bo_OrderID r = cpi_OrderID input" "open_order (bo_Status r)"
      by (simp_all add: order_of_row_def)
    show ?thesis
    proof (cases "find_operation (\<lambda>p. pr_order_id p = cpi_OrderID input) st")
      case (Some op)
      with None look r open1 run have "t = st\<lparr>b_idempotency := b_idempotency t\<rparr>"
        by (auto simp: bill_CreatePayment_def tx_bind_Inr getOrder_Inr dest!: insert_idempotency_state)
      then have "b_orders t = b_orders st" "b_payments t = b_payments st" "b_outbox t = b_outbox st"
        by (metis bill_store.select_convs bill_store.surjective bill_store.update_convs(3))+
      with bk books_frame show ?thesis by blast
    next
      case none: None
      define p where "p = new_payment pid key provider (appNow + window) now (order_of_row r)"
      from None look r open1 none run obtain st1 where
        ins: "payment_check p (b_payments st)"
        and t: "b_orders t = tbl_update (\<lambda>x. bo_OrderID x = cpi_OrderID input) (set_order_status OrderPaymentPending now) (b_orders st)"
          "b_payments t = b_payments st @ [p]" "b_outbox t = b_outbox st"
        by (auto simp: bill_CreatePayment_def tx_bind_Inr getOrder_Inr insert_payment_def update_orders_Inr bill_getPayment_Inr
            p_def [symmetric] split: if_splits dest!: insert_idempotency_state)
      have pf: "pr_order_id p = bo_OrderID r" "pr_amount_minor p = bo_AmountMinor r" "pr_currency p = bo_Currency r" "pr_status p = PaymentCreated"
        by (simp_all add: p_def new_payment_def order_of_row_def)
      from ins have fr: "pr_id p \<notin> pr_id ` set (b_payments st)" "pr_order_id p \<notin> pr_order_id ` set (b_payments st)"
        by (auto simp: payment_check_def list_ex_iff)
      from books_new_payment [OF bk rm(1,3) fr pf, of now] t rm(2)
        books_frame [of t "st\<lparr>b_payments := b_payments st @ [p],
          b_orders := tbl_update (\<lambda>x. bo_OrderID x = bo_OrderID r) (set_order_status OrderPaymentPending now) (b_orders st)\<rparr>"]
      show ?thesis by simp
    qed
  qed
qed

text \<open>A failed payment takes its order with it.\<close>

lemma books_fail:
  assumes bk: "books st" and p: "p \<in> set (b_payments st)" "open_payment (pr_status p)"
    and P: "\<And>q. q \<in> set (b_payments st) \<Longrightarrow> P q = (q = p)"
  shows "books (st\<lparr>b_payments := tbl_update P (fail_payment code now) (b_payments st),
    b_orders := tbl_update (\<lambda>x. bo_OrderID x = pr_order_id p \<and> open_order (bo_Status x)) (set_order_status OrderCanceled now) (b_orders st)\<rparr>)"
proof -
  from bk p obtain r where r: "r \<in> set (b_orders st)" "agrees p r" by (auto simp: books_def dest: ledgerD(5))
  from bk have d: "distinct (map bo_OrderID (b_orders st))" by (simp add: books_def ledger_def)
  let ?R = "\<lambda>x. bo_OrderID x = pr_order_id p \<and> open_order (bo_Status x)"
  have st: "bo_Status r = OrderPaymentPending" "bo_OrderID r = pr_order_id p" using r(2) p(2)
    by (auto simp: agrees_def order_status_of_def open_payment_def)
  have R: "?R x = (x = r)" if "x \<in> set (b_orders st)" for x
    using that r(1) st distinct_key_eq [OF d that r(1)] by (auto simp: open_order_def)
  have "books (changed P (fail_payment code now) ?R (set_order_status OrderCanceled now) st)"
  proof (rule books_change(1) [OF bk])
    show "about p r st" using p r st by (simp add: about_def)
    show "hits P ?R p r st" using P R by (simp add: hits_def)
  qed (use p in \<open>auto simp: keeps_identity_def keeps_terms_def fail_payment_def set_order_status_def order_status_of_def
      open_order_def open_payment_def settled_payment_def\<close>)
  then show ?thesis by (simp add: changed_def)
qed

lemma same_payment:
  assumes "books st" and "p \<in> set (b_payments st)" and "q \<in> set (b_payments st)"
  shows "pr_id q = pr_id p \<longleftrightarrow> q = p"
  using assms by (auto simp: books_def dest!: ledgerD(2) dest: distinct_key_eq)

lemma PrepareProviderCreate_cases:
  assumes run: "PrepareProviderCreate now pid at st = (Inr x, t)"
  obtains (kept) "t = st"
    | (expired) p where "p \<in> set (b_payments st)" "pr_id p = pid" "open_payment (pr_status p)"
      "t = st\<lparr>b_payments := tbl_update (\<lambda>q. pr_id q = pid) (fail_payment ''create_window_expired'' now) (b_payments st),
        b_orders := tbl_update (\<lambda>x. bo_OrderID x = pr_order_id p \<and> open_order (bo_Status x)) (set_order_status OrderCanceled now) (b_orders st)\<rparr>"
proof -
  from run obtain op where op: "find_operation (\<lambda>p. pr_id p = pid) st = Some op"
    by (auto simp: PrepareProviderCreate_def tx_bind_Inr bill_getPayment_Inr)
  then obtain p r where p: "p \<in> set (b_payments st)" "pr_id p = pid" "op = operation_of p r"
    by (rule find_operation_Some) auto
  show thesis
  proof (cases "t = st")
    case False
    with run op p show thesis
      by (intro expired [of p]) (auto simp: PrepareProviderCreate_def tx_bind_Inr bill_getPayment_Inr Let_def update_payments_Inr
          cancel_open_order_def update_orders_Inr operation_of_def open_payment_def split: if_splits)
  qed (rule kept)
qed

lemma PrepareProviderCreate_books:
  assumes bk: "books st" and run: "PrepareProviderCreate now pid at st = (Inr x, t)"
  shows "books t"
  using run
proof (cases rule: PrepareProviderCreate_cases)
  case (expired p)
  then show ?thesis using same_payment [OF bk expired(1)] by (auto intro!: books_fail [OF bk expired(1,3)])
qed (use bk in simp)

lemma MarkProviderCreateFailed_books:
  assumes bk: "books st" and run: "MarkProviderCreateFailed now pid code st = (Inr x, t)"
  shows "books t"
proof (cases "find (\<lambda>p. pr_id p = pid \<and> open_payment (pr_status p)) (b_payments st)")
  case None
  with run bk show ?thesis by (auto simp: MarkProviderCreateFailed_def Let_def tx_bind_Inr)
next
  case (Some p)
  then have p: "p \<in> set (b_payments st)" "pr_id p = pid" "open_payment (pr_status p)" by (auto dest: find_SomeD)
  from run Some have t: "t = st\<lparr>b_payments := tbl_update (\<lambda>q. pr_id q = pid \<and> open_payment (pr_status q)) (fail_payment code now) (b_payments st),
        b_orders := tbl_update (\<lambda>x. bo_OrderID x = pr_order_id p \<and> open_order (bo_Status x)) (set_order_status OrderCanceled now) (b_orders st)\<rparr>"
    by (auto simp: MarkProviderCreateFailed_def Let_def tx_bind_Inr update_payments_Inr cancel_open_order_def update_orders_Inr)
  show ?thesis unfolding t using same_payment [OF bk p(1)] p by (intro books_fail [OF bk p(1,3)]) auto
qed

lemma open_updates_books:
  assumes "books st"
  shows "MarkProviderCreateAmbiguous now pid code delay st = (Inr u, t) \<Longrightarrow> books t"
    and "ReschedulePayment now pid code delay st = (Inr u, t) \<Longrightarrow> books t"
    and "ApplyProviderCreate now pid provider st = (Inr op, t) \<Longrightarrow> books t"
    and "ClaimPaymentForReconcile now lease locked st = (x, t) \<Longrightarrow> books t"
proof -
  show "books t" if "MarkProviderCreateAmbiguous now pid code delay st = (Inr u, t)"
    using that assms by (auto simp: MarkProviderCreateAmbiguous_def update_payments_Inr keeps_identity_def open_payment_def
        intro!: books_open_update [where pid = pid])
  show "books t" if "ReschedulePayment now pid code delay st = (Inr u, t)"
    using that assms by (auto simp: ReschedulePayment_def update_payments_Inr keeps_identity_def open_payment_def
        intro!: books_open_update [where pid = pid])
  show "books t" if "ApplyProviderCreate now pid provider st = (Inr op, t)"
    using that assms by (auto simp: ApplyProviderCreate_def Let_def tx_bind_Inr update_payments_Inr bill_getPayment_Inr keeps_identity_def
        open_payment_def apply_create_hit_def split: if_splits intro!: books_open_update [where pid = pid])
  show "books t" if run: "ClaimPaymentForReconcile now lease locked st = (x, t)"
  proof (cases "t = st")
    case False
    let ?f = "\<lambda>q. q\<lparr>pr_lease_until := Some (now + lease), pr_attempts := pr_attempts q + 1\<rparr>"
    from run False obtain p where "first_by pr_next_reconcile_at (filter (\<lambda>p. open_payment (pr_status p) \<and> pr_next_reconcile_at p \<le> now
             \<and> (pr_lease_until p = None \<or> lease_lapsed now (pr_lease_until p)) \<and> pr_id p \<notin> set locked) (b_payments st)) = Some p"
      and t: "t = st\<lparr>b_payments := tbl_update (\<lambda>q. pr_id q = pr_id p) ?f (b_payments st)\<rparr>"
      by (auto simp: ClaimPaymentForReconcile_def Let_def split: option.splits)
    then have p: "p \<in> set (b_payments st)" "open_payment (pr_status p)" by (auto dest: first_by_Some)
    show ?thesis unfolding t
      by (rule books_open_payment [OF assms p(1)]) (use p same_payment [OF assms p(1)] in \<open>auto simp: keeps_identity_def\<close>)
  qed (use assms in simp)
qed

section \<open>The verified state\<close>

lemma operation_of_fields [simp]:
  "po_PaymentID (operation_of p r) = pr_id p" "po_OrderID (operation_of p r) = pr_order_id p"
  "po_Status (operation_of p r) = pr_status p" "po_UserID (operation_of p r) = bo_UserID r"
  "po_PlanID (operation_of p r) = or_plan_id r" "po_AmountMinor (operation_of p r) = pr_amount_minor p"
  "po_Currency (operation_of p r) = pr_currency p" "po_ProviderPaymentID (operation_of p r) = pr_provider_payment_id p"
  by (simp_all add: operation_of_def)

lemma settle_transition:
  "payment_transition s PaymentSucceeded \<Longrightarrow> s \<noteq> PaymentSucceeded \<Longrightarrow> open_payment s"
  "payment_transition s PaymentCanceled \<Longrightarrow> s \<noteq> PaymentCanceled \<Longrightarrow> open_payment s"
  "payment_transition s PaymentPending \<Longrightarrow> open_payment s"
  by (auto simp: payment_transition_def open_payment_def)

text \<open>
  What \<open>ApplyVerifiedPayment\<close> does when it succeeds: nothing to a payment already in the
  reported state, a new reconciliation time for a pending one, and otherwise the payment, its
  order and the event in one transaction.
\<close>

lemma ApplyVerifiedPayment_cases:
  assumes run: "ApplyVerifiedPayment eid now expected provider corr st = (Inr u, t)" and bk: "books st"
  obtains (already) "t = st" "\<exists>p \<in> set (b_payments st). pr_id p = po_PaymentID expected \<and> settled_payment (pr_status p)"
    | (pending) p where "p \<in> set (b_payments st)" "pr_id p = po_PaymentID expected" "open_payment (pr_status p)"
      "prv_Status provider = ''pending''"
      "t = st\<lparr>b_payments := tbl_update (\<lambda>q. pr_id q = pr_id p) (\<lambda>p. p\<lparr>pr_status := PaymentPending, pr_next_reconcile_at := now + Minute,
         pr_lease_until := None, pr_last_error := None, pr_updated_at := now\<rparr>) (b_payments st)\<rparr>"
    | (settled) p r s at e where "about p r st" "pr_id p = po_PaymentID expected" "open_payment (pr_status p)"
      "s = (if prv_Status provider = ''succeeded'' then PaymentSucceeded else PaymentCanceled)"
      "prv_Status provider = ''succeeded'' \<or> prv_Status provider = ''canceled''"
      "event_of (settle_payment now s at p) r e" "ob_event_id e = eid" "eid \<notin> ob_event_id ` set (b_outbox st)"
      "t = (changed (\<lambda>q. pr_id q = pr_id p) (settle_payment now s at) (\<lambda>x. bo_OrderID x = pr_order_id p)
             (set_order_status (order_status_of s) now) st)\<lparr>b_outbox := b_outbox st @ [e]\<rparr>"
      "(if prv_Status provider = ''succeeded'' then prv_CapturedAt provider else prv_CanceledAt provider) = Some at"
proof -
  from run obtain op where op: "find_operation (\<lambda>p. pr_id p = po_PaymentID expected) st = Some op"
    by (auto simp: ApplyVerifiedPayment_def tx_bind_Inr bill_getPayment_Inr)
  then obtain p r where p: "p \<in> set (b_payments st)" "pr_id p = po_PaymentID expected" "op = operation_of p r" and ab: "about p r st"
    by (rule find_operation_Some) auto
  note run1 = run [unfolded ApplyVerifiedPayment_def tx_bind_Inr bill_getPayment_Inr op option.inject p(3) Let_def operation_of_fields, simplified]
  show thesis
  proof (cases "settled_payment (pr_status p)")
    case True
    with run1 p show thesis by (intro already) (auto simp: settled_payment_def split: if_splits)
  next
    case ns: False
    show thesis
    proof (cases "prv_Status provider = ''pending''")
      case True
      with ns run1 p have "payment_transition (pr_status p) PaymentPending"
        "t = st\<lparr>b_payments := tbl_update (\<lambda>q. pr_id q = pr_id p) (\<lambda>p. p\<lparr>pr_status := PaymentPending, pr_next_reconcile_at := now + Minute,
         pr_lease_until := None, pr_last_error := None, pr_updated_at := now\<rparr>) (b_payments st)\<rparr>"
        by (auto simp: settled_payment_def update_payments_Inr)
      with True p show thesis by (intro pending) (auto dest: settle_transition)
    next
      case np: False
      with ns run1 obtain topic at payload where
        ev: "buildPaymentEvent (operation_of p r) provider corr eid = Inr (topic, at, payload)"
        by (auto simp: settled_payment_def split: sum.splits)
      define s where "s = (if prv_Status provider = ''succeeded'' then PaymentSucceeded else PaymentCanceled)"
      define e where "e = \<lparr>ob_event_id = eid, ob_topic = topic, ob_partition_key = ''user:'' @ bo_UserID r,
           ob_aggregate_id = pr_id p, ob_sequence = None, ob_dedupe_key = (), ob_payload = payload,
           ob_state = ObPending, ob_attempts = 0, ob_next_attempt_at = now, ob_lease_until = None,
           ob_created_at = now, ob_published_at = None\<rparr>"
      from run1 ns np ev p obtain st1 where tr: "payment_transition (pr_status p) s"
        and st1: "st1 = changed (\<lambda>q. pr_id q = pr_id p) (settle_payment now s at) (\<lambda>x. bo_OrderID x = pr_order_id p)
             (set_order_status (order_status_of s) now) st"
        and ins: "bill_insert_outbox now eid topic (operation_of p r) payload st1 = (Inr (), t)"
        by (auto simp: settled_payment_def tx_bind_Inr update_payments_Inr update_orders_Inr changed_def s_def order_status_of_def
            settle_payment_def split: if_splits)
      from tr ns have op1: "open_payment (pr_status p)"
        by (auto simp: s_def settled_payment_def dest: settle_transition split: if_splits)
      have "pr_id p \<notin> ob_aggregate_id ` set (b_outbox st)"
        using bk p ns by (intro no_event_yet [of "b_payments st" "b_orders st"]) (auto simp: books_def dest: ledgerD(2))
      then have "\<not> list_ex (\<lambda>x. ob_topic x = topic \<and> ob_aggregate_id x = pr_id p) (b_outbox st)"
        by (auto simp: list_ex_iff image_iff)
      moreover have ob: "b_outbox st1 = b_outbox st" by (simp add: st1 changed_def)
      ultimately have "\<not> list_ex (\<lambda>x. ob_event_id x = eid) (b_outbox st)" and t: "t = st1\<lparr>b_outbox := b_outbox st @ [e]\<rparr>"
        using ins by (auto simp: bill_insert_outbox_def tx_bind_Inr e_def split: if_splits)
      then have fresh: "eid \<notin> ob_event_id ` set (b_outbox st)" by (auto simp: list_ex_iff image_iff)
      from about_agrees [OF bk ab] have "agrees p r" .
      then have "event_of (settle_payment now s at p) r e" and
        "prv_Status provider = ''succeeded'' \<or> prv_Status provider = ''canceled''"
        using ev ab unfolding buildPaymentEvent_def Let_def
        by (auto simp: event_of_def s_def e_def settle_payment_def about_def agrees_def split: if_splits option.splits)
      moreover have "(if prv_Status provider = ''succeeded'' then prv_CapturedAt provider else prv_CanceledAt provider) = Some at"
        using ev by (auto simp: buildPaymentEvent_def Let_def split: if_splits option.splits)
      ultimately show thesis using ab p(2) op1 s_def t fresh st1 by (intro settled) (auto simp: e_def)
    qed
  qed
qed

lemma ApplyVerifiedPayment_books:
  assumes bk: "books st" and run: "ApplyVerifiedPayment eid now expected provider corr st = (Inr u, t)"
  shows "books t"
  using run bk
proof (cases rule: ApplyVerifiedPayment_cases)
  case (pending p)
  then show ?thesis using same_payment [OF bk pending(1)]
    by (auto simp: keeps_identity_def open_payment_def intro!: books_open_payment [OF bk pending(1)])
next
  case (settled p r s at e)
  from about_agrees [OF bk settled(1)] settled(3) have st: "bo_Status r = OrderPaymentPending"
    by (auto simp: agrees_def order_status_of_def open_payment_def)
  have h: "hits (\<lambda>q. pr_id q = pr_id p) (\<lambda>x. bo_OrderID x = pr_order_id p) p r st"
    using bk settled(1) unfolding hits_def
    by (auto simp: about_def books_def ledger_def dest: distinct_key_eq [of pr_id] distinct_key_eq [of bo_OrderID])
  show ?thesis unfolding settled(9)
  proof (rule books_change(2) [OF bk settled(1) h])
    show "event_of (settle_payment now s at p) r e" "ob_event_id e \<notin> ob_event_id ` set (b_outbox st)"
      using settled(6-8) by simp_all
  qed (use settled(3,4) st in \<open>auto simp: keeps_identity_def keeps_terms_def settle_payment_def Let_def set_order_status_def
      open_order_def open_payment_def settled_payment_def\<close>)
qed (use bk in simp)

section \<open>Publication\<close>

lemma books_outbox:
  assumes bk: "books st" and adv: "advances (b_outbox st) rows"
  shows "books (st\<lparr>b_outbox := rows\<rparr>)"
proof -
  from adv have ids: "map ob_identity rows = map ob_identity (b_outbox st)" by (simp add: advances_def)
  have col: "map g rows = map g (b_outbox st)" if "g = h \<circ> ob_identity" for g :: "bill_outbox_row \<Rightarrow> 'x" and h
    using arg_cong [OF ids, of "map h"] that by simp
  have agg: "map ob_aggregate_id rows = map ob_aggregate_id (b_outbox st)" and eid: "map ob_event_id rows = map ob_event_id (b_outbox st)"
    by (rule col [of _ "\<lambda>(a, b, c, d, e). d"], simp add: fun_eq_iff ob_identity_def)
       (rule col [of _ fst], simp add: fun_eq_iff ob_identity_def)
  have same: "event_of p r e = event_of p r e'" if "ob_identity e = ob_identity e'" for p r e e'
    using that by (simp add: event_of_def ob_identity_def)
  have "\<exists>p \<in> set (b_payments st). \<exists>r \<in> set (b_orders st). bo_OrderID r = pr_order_id p \<and> event_of p r e" if e: "e \<in> set rows" for e
  proof -
    from e have "ob_identity e \<in> set (map ob_identity (b_outbox st))" unfolding ids [symmetric] by simp
    then obtain e' where "e' \<in> set (b_outbox st)" "ob_identity e = ob_identity e'" by auto
    moreover from bk this(1) obtain p r where "p \<in> set (b_payments st)" "r \<in> set (b_orders st)" "bo_OrderID r = pr_order_id p" "event_of p r e'"
      unfolding books_def events_ok_def by blast
    ultimately show ?thesis using same by blast
  qed
  moreover have "ob_aggregate_id ` set rows = ob_aggregate_id ` set (b_outbox st)" using agg by (metis set_map)
  ultimately show ?thesis using bk agg eid by (simp add: books_def events_ok_def)
qed

end
