(* ===== verification/Billing_Lifecycle.thy ===== *)
theory Billing_Lifecycle
  imports Billing_Invariants
begin

text \<open>
  The transition system of billing: \<open>bill_step\<close> has one rule per store operation, with any
  arguments and any driver fault, so its runs are the interleavings of any number of request
  handlers and workers. \<open>use_cases_are_steps\<close> shows that the service's entry points are
  sequences of such steps. Two theorems hold of every run: the books balance, and what is
  decided about a payment or promised to a user never changes (\<open>kept\<close>).
\<close>

section \<open>Steps\<close>

inductive bill_step :: "bill_store \<Rightarrow> bill_store \<Rightarrow> bool" where
  bs_order: "bill_step st (snd (run_tx BInfra fl (bill_CreateOrder oid now oinput) st))"
| bs_payment: "bill_step st (snd (run_tx BInfra fl (bill_CreatePayment pid key now appNow pinput provider window) st))"
| bs_prepare: "bill_step st (snd (run_tx BInfra fl (PrepareProviderCreate now pid at) st))"
| bs_applied: "bill_step st (snd (run_tx BInfra fl (ApplyProviderCreate now pid payment) st))"
| bs_ambiguous: "bill_step st (snd (run_tx BInfra fl (MarkProviderCreateAmbiguous now pid code delay) st))"
| bs_failed: "bill_step st (snd (run_tx BInfra fl (MarkProviderCreateFailed now pid code) st))"
| bs_reschedule: "bill_step st (snd (run_tx BInfra fl (ReschedulePayment now pid code delay) st))"
| bs_verified: "bill_step st (snd (run_tx BInfra fl (ApplyVerifiedPayment eid now expected payment corr) st))"
| bs_claim: "bill_step st (snd (run_tx BInfra fl (ClaimPaymentForReconcile now lease locked) st))"
| bs_notify: "bill_step st (snd (run_tx BInfra fl (InsertWebhook now n) st))"
| bs_claim_webhook: "bill_step st (snd (run_tx BInfra fl (ClaimWebhook now lease locked) st))"
| bs_complete_webhook: "bill_step st (snd (run_tx BInfra fl (CompleteWebhook now i code) st))"
| bs_reject_webhook: "bill_step st (snd (run_tx BInfra fl (RejectWebhook now i code) st))"
| bs_retry_webhook: "bill_step st (snd (run_tx BInfra fl (RetryWebhook now i code delay) st))"
| bs_claim_outbox: "bill_step st (snd (run_tx BInfra fl (claim_outbox now lease locked) st))"
| bs_complete_outbox: "bill_step st (snd (run_tx BInfra fl (complete_outbox now eid) st))"
| bs_retry_outbox: "bill_step st (snd (run_tx BInfra fl (retry_outbox now delay eid) st))"

inductive bill_reachable :: "bill_store \<Rightarrow> bool" where
  br_empty: "bill_reachable empty_bill_store"
| br_step: "bill_reachable st \<Longrightarrow> bill_step st t \<Longrightarrow> bill_reachable t"

lemma br_steps: "bill_step\<^sup>*\<^sup>* st t \<Longrightarrow> bill_reachable st \<Longrightarrow> bill_reachable t"
  by (induction rule: rtranclp_induct) (auto intro: br_step)

section \<open>Frames\<close>

definition same_money :: "bill_store \<Rightarrow> bill_store \<Rightarrow> bool" where
  "same_money st t \<longleftrightarrow> b_orders t = b_orders st \<and> b_payments t = b_payments st \<and> b_idempotency t = b_idempotency st
     \<and> b_outbox t = b_outbox st"

lemma same_money_refl [simp]: "same_money st st"
  by (simp add: same_money_def)

lemma webhook_frame:
  "InsertWebhook now n st = (r1, t) \<Longrightarrow> same_money st t"
  "ClaimWebhook now lease locked st = (r2, t) \<Longrightarrow> same_money st t"
  "CompleteWebhook now i code st = (r3, t) \<Longrightarrow> same_money st t"
  "RejectWebhook now i code st = (r3, t) \<Longrightarrow> same_money st t"
  "RetryWebhook now i code delay st = (r3, t) \<Longrightarrow> same_money st t"
  by (auto simp: InsertWebhook_def ClaimWebhook_def CompleteWebhook_def RejectWebhook_def RetryWebhook_def finishWebhook_def
      update_webhook_def same_money_def Let_def tx_defs split: if_splits option.splits)

lemma webhook_steps:
  "same_money st (snd (run_tx BInfra fl (InsertWebhook now n) st))"
  "same_money st (snd (run_tx BInfra fl (ClaimWebhook now lease locked) st))"
  "same_money st (snd (run_tx BInfra fl (CompleteWebhook now i code) st))"
  "same_money st (snd (run_tx BInfra fl (RejectWebhook now i code) st))"
  "same_money st (snd (run_tx BInfra fl (RetryWebhook now i code delay) st))"
  by (rule run_tx_post, erule webhook_frame, simp)+

lemma outbox_steps:
  assumes "distinct (map ob_event_id (b_outbox st))"
    and "\<And>rows. advances (b_outbox st) rows \<Longrightarrow> P (st\<lparr>b_outbox := rows\<rparr>)"
  shows "P st \<Longrightarrow> P (snd (run_tx BInfra fl (claim_outbox now lease locked) st))"
    and "P st \<Longrightarrow> P (snd (run_tx BInfra fl (complete_outbox now eid) st))"
    and "P st \<Longrightarrow> P (snd (run_tx BInfra fl (retry_outbox now delay eid) st))"
proof -
  show "P (snd (run_tx BInfra fl (claim_outbox now lease locked) st))" if "P st"
    using bill_outbox.claim_advances [OF assms(1), of now lease locked] assms(2) that
    by (intro run_tx_post [where Q = P]) (auto simp: claim_outbox_def split: prod.splits)
  show "P (snd (run_tx BInfra fl (complete_outbox now eid) st))" if "P st"
    using assms(2) [OF bill_outbox.complete_advances [of "b_outbox st" now eid]] that
    by (intro run_tx_post [where Q = P]) (auto simp: complete_outbox_def)
  show "P (snd (run_tx BInfra fl (retry_outbox now delay eid) st))" if "P st"
    using assms(2) [OF bill_outbox.retry_advances [of "b_outbox st" now delay eid]] that
    by (intro run_tx_post [where Q = P]) (auto simp: retry_outbox_def)
qed

section \<open>The books balance\<close>

lemma books_same_money: "books st \<Longrightarrow> same_money st t \<Longrightarrow> books t"
  using books_frame [of t st] by (simp add: same_money_def)

lemma books_distinct: "books st \<Longrightarrow> distinct (map ob_event_id (b_outbox st))"
  by (simp add: books_def)

lemma step_books:
  assumes "bill_step st t" and bk: "books st"
  shows "books t"
  using assms(1)
proof cases
qed (simp_all,
  (rule run_tx_post [where Q = books, OF _ bk], erule CreateOrder_books [OF bk] CreatePayment_books [OF bk] PrepareProviderCreate_books [OF bk]
     open_updates_books [OF bk] MarkProviderCreateFailed_books [OF bk] ApplyVerifiedPayment_books [OF bk]
   | rule books_same_money [OF bk], rule webhook_steps
   | rule outbox_steps [where P = books], rule books_distinct [OF bk], erule books_outbox [OF bk], rule bk)+)

lemma reachable_books: "bill_reachable st \<Longrightarrow> books st"
  by (induction rule: bill_reachable.induct) (auto simp: books_empty intro: step_books)

section \<open>What never changes\<close>

text \<open>
  A payment keeps its identity, terms and provider key, its provider id once it has one, and
  its outcome once it is decided; an order keeps its terms, and its status once it is paid or
  canceled.
\<close>

definition payment_kept :: "payment_row \<Rightarrow> payment_row \<Rightarrow> bool" where
  "payment_kept p q \<longleftrightarrow> pr_id q = pr_id p \<and> pr_order_id q = pr_order_id p \<and> pr_amount_minor q = pr_amount_minor p
     \<and> pr_currency q = pr_currency p \<and> pr_provider q = pr_provider p \<and> pr_provider_key q = pr_provider_key p
     \<and> (pr_provider_payment_id p \<noteq> None \<longrightarrow> pr_provider_payment_id q = pr_provider_payment_id p)
     \<and> (\<not> open_payment (pr_status p) \<longrightarrow> pr_status q = pr_status p \<and> pr_paid_at q = pr_paid_at p \<and> pr_canceled_at q = pr_canceled_at p)"

definition order_kept :: "order_row \<Rightarrow> order_row \<Rightarrow> bool" where
  "order_kept r x \<longleftrightarrow> bo_OrderID x = bo_OrderID r \<and> bo_UserID x = bo_UserID r \<and> bo_AmountMinor x = bo_AmountMinor r
     \<and> bo_Currency x = bo_Currency r \<and> bo_AcceptedTermsVersion x = bo_AcceptedTermsVersion r \<and> bo_PlanSnapshot x = bo_PlanSnapshot r
     \<and> (\<not> open_order (bo_Status r) \<longrightarrow> bo_Status x = bo_Status r)"

definition event_kept :: "bill_outbox_row \<Rightarrow> bill_outbox_row \<Rightarrow> bool" where
  "event_kept e x \<longleftrightarrow> ob_identity x = ob_identity e \<and> (ob_state e = ObPublished \<longrightarrow> ob_state x = ObPublished)"

definition kept :: "bill_store \<Rightarrow> bill_store \<Rightarrow> bool" where
  "kept st t \<longleftrightarrow> rows_kept payment_kept (b_payments st) (b_payments t) \<and> rows_kept order_kept (b_orders st) (b_orders t)
     \<and> rows_kept event_kept (b_outbox st) (b_outbox t) \<and> (\<exists>ks. b_idempotency t = b_idempotency st @ ks)"

lemma kept_rows_refl [simp]: "payment_kept p p" "order_kept r r" "event_kept e e"
  by (simp_all add: payment_kept_def order_kept_def event_kept_def)

lemma kept_rows_trans:
  "payment_kept p q \<Longrightarrow> payment_kept q q' \<Longrightarrow> payment_kept p q'"
  "order_kept r x \<Longrightarrow> order_kept x x' \<Longrightarrow> order_kept r x'"
  "event_kept e y \<Longrightarrow> event_kept y y' \<Longrightarrow> event_kept e y'"
  by (auto simp: payment_kept_def order_kept_def event_kept_def)

lemma kept_refl [simp]: "kept st st"
  by (simp add: kept_def)

lemma kept_trans: "kept st t \<Longrightarrow> kept t u \<Longrightarrow> kept st u"
  unfolding kept_def
  by (elim conjE exE, intro conjI)
    ((erule (1) rows_kept_trans [rotated], erule (1) kept_rows_trans)+, simp)

lemma kept_same_money: "same_money st t \<Longrightarrow> kept st t"
  by (simp add: kept_def same_money_def)

text \<open>Changes of the payments and orders under the guards of the store.\<close>

lemma status_kept: "order_transition (bo_Status x) s \<Longrightarrow> order_kept x (set_order_status s now x)"
  by (auto simp: order_kept_def set_order_status_def order_transition_def open_order_def)

lemma kept_changed:
  assumes "\<And>q. q \<in> set (b_payments st) \<Longrightarrow> P q \<Longrightarrow> payment_kept q (f q)"
    and "\<And>x. x \<in> set (b_orders st) \<Longrightarrow> R x \<Longrightarrow> order_kept x (g x)"
  shows "kept st (changed P f R g st)"
  using assms by (simp add: kept_def changed_def rows_kept_update)

lemma kept_payments:
  "(\<And>q. q \<in> set (b_payments st) \<Longrightarrow> P q \<Longrightarrow> payment_kept q (f q)) \<Longrightarrow> kept st (st\<lparr>b_payments := tbl_update P f (b_payments st)\<rparr>)"
  by (simp add: kept_def rows_kept_update)

lemma kept_append:
  assumes "kept st t"
  shows "kept st (t\<lparr>b_orders := b_orders t @ rs\<rparr>)" and "kept st (t\<lparr>b_payments := b_payments t @ ps\<rparr>)"
    and "kept st (t\<lparr>b_outbox := b_outbox t @ es\<rparr>)" and "kept st (t\<lparr>b_idempotency := b_idempotency t @ is\<rparr>)"
  using assms by (auto simp: kept_def intro!: rows_kept_append)

lemma keep_primitives [tx_keep]:
  "tx_keeps (kept st0) (getOrder uid oid)"
  "tx_keeps (kept st0) (bill_getPayment c)"
  "tx_keeps (kept st0) (lookupIdempotency a b k h)"
  "tx_keeps (kept st0) (insert_idempotency row)"
  "tx_keeps (kept st0) (insert_order o1 now oin)"
  "tx_keeps (kept st0) (insert_payment p)"
  unfolding getOrder_def bill_getPayment_def lookupIdempotency_def insert_idempotency_def insert_order_def Let_def insert_payment_def
  by (intro tx_keep tx_keeps_modify kept_append; assumption)+

lemma keep_order_status [tx_keep]: "tx_keeps (kept st0) (update_orders R (set_order_status s now))"
proof (rule tx_validI, goal_cases)
  case (1 st u t)
  then have "kept st (changed (\<lambda>_. False) (\<lambda>q. q) R (set_order_status s now) st)"
    by (intro kept_changed) (auto simp: update_orders_Inr set_order_status_def intro: status_kept [unfolded set_order_status_def])
  with 1 show ?case by (auto simp: update_orders_Inr changed_def tbl_update_def intro: kept_trans)
qed (auto simp: update_orders_def tx_defs split: if_splits)

lemma keep_payments:
  assumes "\<And>q. P q \<Longrightarrow> payment_kept q (f q)"
  shows "tx_keeps (kept st0) (update_payments P f)"
proof (rule tx_validI, goal_cases)
  case (1 st u t)
  then show ?case using kept_payments [of st P f] assms by (auto simp: update_payments_Inr intro: kept_trans)
qed (auto simp: update_payments_def tx_defs split: if_splits)

lemma keep_operations:
  "tx_keeps (kept st0) (bill_CreateOrder oid now oinput)"
  "tx_keeps (kept st0) (bill_CreatePayment pid key now appNow pinput provider window)"
  "tx_keeps (kept st0) (ApplyProviderCreate now pid payment)"
  "tx_keeps (kept st0) (MarkProviderCreateAmbiguous now pid code delay)"
  "tx_keeps (kept st0) (MarkProviderCreateFailed now pid code)"
  "tx_keeps (kept st0) (ReschedulePayment now pid code delay)"
  unfolding bill_CreateOrder_def bill_CreatePayment_def ApplyProviderCreate_def Let_def MarkProviderCreateAmbiguous_def
    MarkProviderCreateFailed_def ReschedulePayment_def cancel_open_order_def
  by ((intro tx_keep keep_payments)?; (auto simp: payment_kept_def apply_create_hit_def open_payment_def fail_payment_def; fail)?)+

lemma kept_Prepare:
  assumes run: "PrepareProviderCreate now pid at st = (Inr x, t)" and bk: "books st"
  shows "kept st t"
  using run
proof (cases rule: PrepareProviderCreate_cases)
  case (expired p)
  have "t = changed (\<lambda>q. pr_id q = pid) (fail_payment ''create_window_expired'' now)
     (\<lambda>x. bo_OrderID x = pr_order_id p \<and> open_order (bo_Status x)) (set_order_status OrderCanceled now) st"
    using expired(4) by (simp add: changed_def)
  also have "kept st \<dots>"
    using same_payment [OF bk expired(1)] expired
    by (intro kept_changed status_kept) (auto simp: payment_kept_def fail_payment_def order_transition_def open_order_def)
  finally show "kept st t" .
qed simp

lemma kept_Verified:
  assumes run: "ApplyVerifiedPayment eid now expected provider corr st = (Inr u, t)" and bk: "books st"
  shows "kept st t"
  using run bk
proof (cases rule: ApplyVerifiedPayment_cases)
  case (pending p)
  show ?thesis unfolding pending(5)
    using same_payment [OF bk pending(1)] pending(2,3) by (intro kept_payments) (auto simp: payment_kept_def)
next
  case (settled p r s at e)
  let ?t = "changed (\<lambda>q. pr_id q = pr_id p) (settle_payment now s at) (\<lambda>x. bo_OrderID x = pr_order_id p)
             (set_order_status (order_status_of s) now) st"
  from about_agrees [OF bk settled(1)] settled(3) have st: "bo_Status r = OrderPaymentPending" "r \<in> set (b_orders st)" "bo_OrderID r = pr_order_id p"
    using settled(1) by (auto simp: agrees_def order_status_of_def open_payment_def about_def)
  have r: "x = r" if "x \<in> set (b_orders st)" "bo_OrderID x = pr_order_id p" for x
    using that st bk by (auto simp: books_def ledger_def dest: distinct_key_eq)
  have q: "q = p" if "q \<in> set (b_payments st)" "pr_id q = pr_id p" for q
    using that same_payment [OF bk, of p q] settled(1) by (simp add: about_def)
  have "payment_kept p (settle_payment now s at p)" using settled(3)
    by (simp add: payment_kept_def settle_payment_def Let_def)
  moreover have "order_transition (bo_Status r) (order_status_of s)"
    using st(1) settled(4) by (simp add: order_transition_def order_status_of_def)
  ultimately have "kept st ?t" using q r by (intro kept_changed status_kept) blast+
  from kept_append(3) [OF this, of "[e]"] show ?thesis unfolding settled(9) by (simp add: changed_def)
qed simp

lemma kept_claim: "kept st (snd (run_tx BInfra fl (ClaimPaymentForReconcile now lease locked) st))"
  by (rule run_tx_post [where Q = "kept st"]) (auto simp: ClaimPaymentForReconcile_def Let_def payment_kept_def split: option.splits intro!: kept_payments)

lemma kept_outbox:
  assumes "advances (b_outbox st) rows"
  shows "kept st (st\<lparr>b_outbox := rows\<rparr>)"
proof -
  from assms have len: "length rows = length (b_outbox st)" unfolding advances_def by (metis length_map)
  have "\<exists>y \<in> set rows. event_kept x y" if "x \<in> set (b_outbox st)" for x
  proof -
    from that obtain i where i: "i < length (b_outbox st)" "x = b_outbox st ! i" by (auto simp: in_set_conv_nth)
    with assms len have "event_kept x (rows ! i)" unfolding event_kept_def advances_def by (metis nth_map)
    with i len show ?thesis by (auto intro: bexI [of _ "rows ! i"])
  qed
  then have "rows_kept event_kept (b_outbox st) rows" by (simp add: rows_kept_def)
  then show ?thesis by (simp add: kept_def)
qed

lemmas kept_of_tx = run_tx_keeps [where I = "kept st" and s = st for st, OF _ kept_refl]

lemma step_kept:
  assumes "bill_step st t" and bk: "books st"
  shows "kept st t"
  using assms(1)
proof cases
  case bs_prepare
  then show ?thesis using kept_Prepare bk by (auto intro!: run_tx_post [where Q = "kept st"])
next
  case bs_verified
  then show ?thesis using kept_Verified bk by (auto intro!: run_tx_post [where Q = "kept st"])
qed (simp_all add: kept_claim,
  (rule kept_of_tx, rule keep_operations
   | rule kept_same_money, rule webhook_steps
   | rule outbox_steps [where P = "kept st"], rule books_distinct [OF bk], erule kept_outbox, rule kept_refl)+)

lemma steps_kept: "bill_step\<^sup>*\<^sup>* st t \<Longrightarrow> books st \<Longrightarrow> kept st t \<and> books t"
proof (induction rule: rtranclp_induct)
  case (step y z)
  then show ?case using step_kept step_books kept_trans by blast
qed simp

end
