(* ===== verification/Billing_Properties.thy ===== *)
theory Billing_Properties
  imports Billing_Lifecycle
begin

text \<open>
  What billing promises: its entry points are sequences of store steps, the books balance in
  every reachable state, decisions are final, requests are idempotent, and a payment is
  settled only by what the provider itself confirms about it.
\<close>

section \<open>Use cases are sequences of steps\<close>

abbreviation after_steps :: "bill_store \<Rightarrow> bill_store \<Rightarrow> bool" where
  "after_steps st0 \<equiv> bill_step\<^sup>*\<^sup>* st0"

lemma after_call:
  assumes "\<And>st fl. bill_step st (snd (run_tx BInfra fl m st))"
  shows "tx_keeps (after_steps st0) (call env i m)"
proof (rule tx_validI)
  fix s a t assume "after_steps st0 s" "call env i m s = (Inr a, t)"
  with assms [of s "bv_fault env i"] show "after_steps st0 t" by (auto simp: call_def)
next
  fix s e t assume "after_steps st0 s" "call env i m s = (Inl e, t)"
  with assms [of s "bv_fault env i"] show "after_steps st0 t" by (auto simp: call_def)
qed

lemma after_read:
  assumes "\<And>st. snd (m st) = st"
  shows "tx_keeps (after_steps st0) (call env i m)"
proof -
  have "snd (call env i m st) = st" for st
    using run_tx_cases [of BInfra "bv_fault env i" m st] assms [of st] by (auto simp: call_def)
  then show ?thesis by (intro tx_validI) (metis snd_conv)+
qed

lemma reads_only:
  "snd (getOrder u o1 st) = st" "snd (bill_getPayment c st) = st" "snd (lookupIdempotency u op k h st) = st"
  by (auto simp: getOrder_def bill_getPayment_def lookupIdempotency_def tx_defs split: option.splits if_splits)

lemma replay_reads_only: "snd (FindOrderReplay u k h st) = st" "snd (FindPaymentReplay u k h st) = st"
proof -
  have bind: "snd (tx_bind m f s) = s" if "\<And>s. snd (m s) = s" "\<And>a s. snd (f a s) = s"
    for m :: "'x bill_tx" and f :: "'x \<Rightarrow> 'y bill_tx" and s
    using that by (auto simp: tx_bind_def split: prod.splits sum.splits) (metis snd_conv)+
  show "snd (FindOrderReplay u k h st) = st" "snd (FindPaymentReplay u k h st) = st"
    unfolding FindOrderReplay_def FindPaymentReplay_def
    by (intro bind reads_only; auto intro!: bind reads_only simp: tx_return_def split: option.splits)+
qed

lemmas after_ops [tx_keep] =
  after_read [of "getOrder u o1" for u o1, OF reads_only(1)]
  after_read [of "bill_getPayment c" for c, OF reads_only(2)]
  after_read [of "FindOrderReplay u k h" for u k h, OF replay_reads_only(1)]
  after_read [of "FindPaymentReplay u k h" for u k h, OF replay_reads_only(2)]
  after_call [OF bs_order] after_call [OF bs_payment] after_call [OF bs_prepare] after_call [OF bs_applied]
  after_call [OF bs_ambiguous] after_call [OF bs_failed] after_call [OF bs_reschedule] after_call [OF bs_verified]
  after_call [OF bs_claim] after_call [OF bs_claim_webhook] after_call [OF bs_claim_outbox] after_call [OF bs_complete_outbox]
  after_call [OF bs_retry_outbox] after_call [OF bs_notify] after_call [OF bs_complete_webhook] after_call [OF bs_reject_webhook] after_call [OF bs_retry_webhook]

lemma after_createAtProvider [tx_keep]: "tx_keeps (after_steps st0) (createAtProvider cfg env op)"
  unfolding createAtProvider_def markProviderCreateFailed_def by (intro tx_keep)

lemma after_applyProviderState [tx_keep]: "tx_keeps (after_steps st0) (applyProviderState env op payment)"
  unfolding applyProviderState_def Let_def by (intro tx_keep)

lemma after_use_cases:
  "tx_keeps (after_steps st0) (CreateOrder cfg env u p r terms k)"
  "tx_keeps (after_steps st0) (CreatePayment cfg env u o1 k)"
  "tx_keeps (after_steps st0) (processWebhook cfg env)"
  "tx_keeps (after_steps st0) (reconcilePayment cfg env)"
  "tx_keeps (after_steps st0) (bill_publishOutbox cfg env)"
  unfolding CreateOrder_def CreatePayment_def processWebhook_def reconcilePayment_def bill_publishOutbox_def Let_def by (intro tx_keep)+

text \<open>Refinement: whatever the environment does during the call, each entry point of the
  service (the use cases, and the worker's three tasks run in turn) is a sequence of store
  steps. Every statement about \<open>bill_step\<close> therefore holds of any interleaving of them.
\<close>
theorem use_cases_are_steps:
  "bill_step\<^sup>*\<^sup>* st (snd (CreateOrder cfg env u p r terms k st))
   \<and> bill_step\<^sup>*\<^sup>* st (snd (CreatePayment cfg env u o1 k st))
   \<and> bill_step\<^sup>*\<^sup>* st (bill_workOnce cfg e1 e2 e3 st)"
proof (intro conjI)
  show "bill_step\<^sup>*\<^sup>* st (snd (CreateOrder cfg env u p r terms k st))"
    by (rule tx_keeps_snd [OF after_use_cases(1)]) simp
  show "bill_step\<^sup>*\<^sup>* st (snd (CreatePayment cfg env u o1 k st))"
    by (rule tx_keeps_snd [OF after_use_cases(2)]) simp
  show "bill_step\<^sup>*\<^sup>* st (bill_workOnce cfg e1 e2 e3 st)" unfolding bill_workOnce_def
    by (intro tx_keeps_snd [OF after_use_cases(5)] tx_keeps_snd [OF after_use_cases(4)] tx_keeps_snd [OF after_use_cases(3)]) simp
qed

section \<open>Books and decisions\<close>

text \<open>C21: In every reachable state a payment belongs to exactly one order, has its amount and
  currency and the status that fits it; if it succeeded or was canceled, the outbox has
  exactly one event for it, of the right topic and with the data of the order, and otherwise
  none.
\<close>
theorem books_balance:
  assumes "bill_reachable st" and "p \<in> set (b_payments st)"
  shows "\<exists>r. filter (\<lambda>r. bo_OrderID r = pr_order_id p) (b_orders st) = [r] \<and> agrees p r \<and>
      (if settled_payment (pr_status p)
       then \<exists>e. filter (\<lambda>e. ob_aggregate_id e = pr_id p) (b_outbox st) = [e] \<and> event_of p r e
       else filter (\<lambda>e. ob_aggregate_id e = pr_id p) (b_outbox st) = [])"
proof -
  note bk = reachable_books [OF assms(1)]
  then have led: "ledger (b_orders st) (b_payments st)" and ev: "events_ok (b_orders st) (b_payments st) (b_outbox st)"
    by (simp_all add: books_def)
  note D = ledgerD [OF led]
  from D(5) [OF assms(2)] obtain r where r: "r \<in> set (b_orders st)" "agrees p r" by blast
  have rest: "if settled_payment (pr_status p)
       then \<exists>e. filter (\<lambda>e. ob_aggregate_id e = pr_id p) (b_outbox st) = [e] \<and> event_of p r e
       else filter (\<lambda>e. ob_aggregate_id e = pr_id p) (b_outbox st) = []"
  proof (cases "settled_payment (pr_status p)")
    case True
    with ev assms(2) obtain e where e: "e \<in> set (b_outbox st)" "ob_aggregate_id e = pr_id p"
      by (auto simp: events_ok_def image_iff)
    with ev obtain q x where q: "q \<in> set (b_payments st)" "x \<in> set (b_orders st)" "bo_OrderID x = pr_order_id q" "event_of q x e"
      unfolding events_ok_def by blast
    with e event_of_settled have "q = p" using distinct_key_eq [OF D(2) q(1) assms(2)] by metis
    moreover from this q r have "x = r" using distinct_key_eq [OF D(1) q(2) r(1)] by (simp add: agrees_def)
    ultimately show ?thesis using True q(4) e ev filter_key [of ob_aggregate_id "b_outbox st" e]
      by (auto simp: events_ok_def)
  next
    case False
    with no_event_yet [OF D(2) ev assms(2)] show ?thesis by (auto simp: filter_empty_conv image_iff)
  qed
  moreover have "filter (\<lambda>x. bo_OrderID x = pr_order_id p) (b_orders st) = [r]"
    using filter_key [OF D(1) r(1)] r(2) by (simp add: agrees_def)
  ultimately show ?thesis using r(2) by blast
qed

text \<open>C23: Decisions are final. Along any run a payment keeps its order, amount, currency and
  provider idempotency key, and its provider id once known; once it succeeded, was canceled
  or failed it keeps that outcome and its times. An order keeps its terms and, once paid or
  canceled, its status.
\<close>
theorem decisions_final:
  assumes "bill_reachable st" and "bill_step\<^sup>*\<^sup>* st t"
  shows "rows_kept payment_kept (b_payments st) (b_payments t) \<and> rows_kept order_kept (b_orders st) (b_orders t)
    \<and> rows_kept event_kept (b_outbox st) (b_outbox t)"
  using steps_kept [OF assms(2) reachable_books [OF assms(1)]] by (simp add: kept_def)

text \<open>A user never has two open orders.\<close>
theorem one_open_order:
  assumes "bill_reachable st" and "r \<in> set (b_orders st)" and "x \<in> set (b_orders st)" and "bo_UserID r = bo_UserID x"
    and "open_order (bo_Status r)" and "open_order (bo_Status x)"
  shows "r = x"
proof -
  from reachable_books [OF assms(1)] have "one_open (b_orders st)" by (simp add: books_def ledger_def)
  then show ?thesis unfolding one_open_def using assms(2-6)
    by (intro distinct_key_eq [of bo_UserID "filter (\<lambda>r. open_order (bo_Status r)) (b_orders st)"]) auto
qed

section \<open>Idempotent requests\<close>

abbreviation idem_key :: "uuid \<Rightarrow> idem_operation \<Rightarrow> string \<Rightarrow> idem_row \<Rightarrow> bool" where
  "idem_key u op k r \<equiv> ik_subject r = u \<and> ik_operation r = op \<and> ik_key r = k"

text \<open>The key \<open>k\<close> of user \<open>u\<close> is bound to the request hash \<open>h\<close> and the resource \<open>res\<close>.\<close>

definition bound :: "uuid \<Rightarrow> idem_operation \<Rightarrow> string \<Rightarrow> string \<Rightarrow> uuid \<Rightarrow> bill_store \<Rightarrow> bool" where
  "bound u op k h res st \<longleftrightarrow> (\<exists>row. find (idem_key u op k) (b_idempotency st) = Some row \<and> ik_hash row = h \<and> ik_resource row = res)"

lemma bound_kept: "bound u op k h res st \<Longrightarrow> kept st t \<Longrightarrow> bound u op k h res t"
  by (auto simp: bound_def kept_def find_append)

lemma lookup_bound:
  "bound u op k h res st \<Longrightarrow> lookupIdempotency u op k h' st = (if h = h' then (Inr (Some res), st) else (Inl BIdempotencyConflict, st))"
  by (auto simp: bound_def lookupIdempotency_def tx_defs)

lemma lookup_Inr:
  "lookupIdempotency u op k h st = (Inr x, t) \<longleftrightarrow> t = st \<and>
     (case x of None \<Rightarrow> find (idem_key u op k) (b_idempotency st) = None | Some res \<Rightarrow> bound u op k h res st)"
  by (auto simp: lookupIdempotency_def tx_bind_Inr bound_def split: option.splits if_splits)

lemma insert_binds:
  assumes "insert_idempotency \<lparr>ik_subject = u, ik_operation = op, ik_key = k, ik_hash = h, ik_resource = res\<rparr> st = (Inr x, t)"
  shows "bound u op k h res t"
proof -
  from assms have "find (idem_key u op k) (b_idempotency st) = None"
    by (auto simp: insert_idempotency_def tx_bind_Inr find_None_iff list_ex_iff split: if_splits)
  with insert_idempotency_state [OF assms] show ?thesis by (simp add: bound_def find_append)
qed

lemma bound_frame: "bound u op k h res (st\<lparr>b_orders := rs\<rparr>) = bound u op k h res st"
  by (simp add: bound_def)

lemma order_bound:
  assumes "bill_CreateOrder oid now input st = (Inr (order, created), t)"
  shows "bound (coi_UserID input) CreateOrderOp (coi_IdempotencyKey input) (coi_RequestHash input) (bo_OrderID order) t"
    and "\<exists>r \<in> set (b_orders t). order = order_of_row r \<and> bo_UserID r = coi_UserID input"
  using assms unfolding bill_CreateOrder_def
  by (auto simp: tx_bind_Inr lookup_Inr getOrder_Inr order_of_row_def split: option.splits dest!: find_SomeD dest: insert_binds)

lemma getOrder_kept:
  assumes "kept st t" and "books t" and "r \<in> set (b_orders st)" and "bo_UserID r = u"
  shows "\<exists>x. getOrder u (bo_OrderID r) t = (Inr (order_of_row x), t) \<and> order_kept r x"
proof -
  from assms(1,3) obtain x where x: "x \<in> set (b_orders t)" "order_kept r x" by (auto simp: kept_def rows_kept_def)
  then have k: "bo_UserID x = u \<and> bo_OrderID x = bo_OrderID r" using assms(4) by (simp add: order_kept_def)
  have "find (\<lambda>y. bo_UserID y = u \<and> bo_OrderID y = bo_OrderID r) (b_orders t) = Some x"
  proof (cases "find (\<lambda>y. bo_UserID y = u \<and> bo_OrderID y = bo_OrderID r) (b_orders t)")
    case None
    with x k show ?thesis by (auto dest: find_NoneD)
  next
    case (Some y)
    then have "y \<in> set (b_orders t)" "bo_OrderID y = bo_OrderID x" using k by (auto dest: find_SomeD)
    with x(1) assms(2) Some show ?thesis by (auto simp: books_def ledger_def dest: distinct_key_eq)
  qed
  then have "getOrder u (bo_OrderID r) t = (Inr (order_of_row x), t)" by (simp add: getOrder_def tx_defs)
  with x show ?thesis by blast
qed

lemma getPayment_kept:
  assumes "kept st t" and "books t" and "p \<in> set (b_payments st)"
  shows "\<exists>q x. bill_getPayment (\<lambda>y. pr_id y = pr_id p) t = (Inr (operation_of q x), t) \<and> payment_kept p q \<and> about q x t"
proof -
  from assms(1,3) obtain q where q: "q \<in> set (b_payments t)" "payment_kept p q" by (auto simp: kept_def rows_kept_def)
  then have id: "pr_id q = pr_id p" by (simp add: payment_kept_def)
  have fp: "find (\<lambda>y. pr_id y = pr_id p) (b_payments t) = Some q"
  proof (cases "find (\<lambda>y. pr_id y = pr_id p) (b_payments t)")
    case None
    with q id show ?thesis by (auto dest: find_NoneD)
  next
    case (Some y)
    then have "y \<in> set (b_payments t)" "pr_id y = pr_id q" using id by (auto dest: find_SomeD)
    with q(1) Some show ?thesis using same_payment [OF assms(2)] by auto
  qed
  from assms(2) q(1) obtain r where "r \<in> set (b_orders t)" "agrees q r" by (auto simp: books_def dest: ledgerD(5))
  then have "find (\<lambda>r. bo_OrderID r = pr_order_id q) (b_orders t) \<noteq> None" by (auto simp: find_None_iff agrees_def)
  then obtain x where x: "find (\<lambda>r. bo_OrderID r = pr_order_id q) (b_orders t) = Some x" by blast
  then have "about q x t" using q(1) by (auto simp: about_def dest: find_SomeD)
  with fp x q(2) show ?thesis by (auto simp: bill_getPayment_def find_operation_def tx_defs)
qed

lemma call_ok: "bv_fault env i = NoFault \<Longrightarrow> m st = (Inr a, t) \<Longrightarrow> call env i m st = (Inr a, t)"
  and call_error: "bv_fault env i = NoFault \<Longrightarrow> m st = (Inl e, t) \<Longrightarrow> call env i m st = (Inl e, st)"
  by (simp_all add: call_def run_tx_NoFault)

text \<open>An order request is idempotent. Once its transaction committed (whether or not the
  caller heard of it), after any further steps the same request returns the same order
  without changing anything, and the key with another request is refused.
\<close>
theorem order_idempotent:
  assumes "bill_reachable st" and "bill_CreateOrder oid now input st = (Inr (order, created), t)"
    and "coi_UserID input = u" and "coi_IdempotencyKey input = k" and "coi_RequestHash input = hashParts cfg [u, plan, region, terms]"
    and "bill_step\<^sup>*\<^sup>* t t'" and "bv_fault env 0 = NoFault"
  shows "(\<exists>order'. CreateOrder cfg env u plan region terms k t' = (Inr (order', False), t') \<and> bo_OrderID order' = bo_OrderID order
      \<and> bo_UserID order' = u \<and> bo_AmountMinor order' = bo_AmountMinor order \<and> bo_PlanSnapshot order' = bo_PlanSnapshot order)
    \<and> (hashParts cfg [u, plan2, region2, terms2] \<noteq> hashParts cfg [u, plan, region, terms] \<longrightarrow>
         CreateOrder cfg env u plan2 region2 terms2 k t' = (Inl BIdempotencyConflict, t'))"
proof -
  note bk = CreateOrder_books [OF reachable_books [OF assms(1)] assms(2)]
  from steps_kept [OF assms(6) bk] have kp: "kept t t'" and bk': "books t'" by auto
  note b = bound_kept [OF order_bound(1) [OF assms(2)] kp, unfolded assms(3-5)]
  from order_bound(2) [OF assms(2)] obtain r where r: "r \<in> set (b_orders t)" "order = order_of_row r" "bo_UserID r = u"
    using assms(3) by blast
  from getOrder_kept [OF kp bk' r(1,3)] obtain x where
    x: "getOrder u (bo_OrderID order) t' = (Inr (order_of_row x), t')" "order_kept r x" using r(2) by (auto simp: order_of_row_def)
  have "call env 0 (FindOrderReplay u k (hashParts cfg [u, plan, region, terms])) t' = (Inr (Some (order_of_row x)), t')"
    by (rule call_ok [OF assms(7)]) (use x(1) in \<open>simp add: FindOrderReplay_def tx_bind_def lookup_bound [OF b] tx_return_def\<close>)
  then have "CreateOrder cfg env u plan region terms k t' = (Inr (order_of_row x, False), t')"
    by (simp add: CreateOrder_def Let_def tx_bind_def tx_return_def)
  moreover have "CreateOrder cfg env u plan2 region2 terms2 k t' = (Inl BIdempotencyConflict, t')"
    if "hashParts cfg [u, plan2, region2, terms2] \<noteq> hashParts cfg [u, plan, region, terms]"
  proof -
    have "call env 0 (FindOrderReplay u k (hashParts cfg [u, plan2, region2, terms2])) t' = (Inl BIdempotencyConflict, t')"
      by (rule call_error [OF assms(7)]) (use that in \<open>simp add: FindOrderReplay_def tx_bind_def lookup_bound [OF b]\<close>)
    then show ?thesis by (simp add: CreateOrder_def Let_def tx_bind_def)
  qed
  ultimately show ?thesis using x(2) r by (auto simp: order_kept_def order_of_row_def)
qed

lemma payment_bound:
  assumes "bill_CreatePayment pid key now appNow input provider window st = (Inr (op, created), t)"
  shows "bound (cpi_UserID input) CreatePaymentOp (cpi_IdempotencyKey input) (cpi_RequestHash input) (po_PaymentID op) t"
    and "\<exists>p \<in> set (b_payments t). \<exists>r. op = operation_of p r"
proof -
  have found: "\<exists>p \<in> set (b_payments st1). \<exists>r. op = operation_of p r \<and> c p" if "find_operation c st1 = Some op" for c st1
    using that by (rule find_operation_Some) auto
  show "bound (cpi_UserID input) CreatePaymentOp (cpi_IdempotencyKey input) (cpi_RequestHash input) (po_PaymentID op) t"
    "\<exists>p \<in> set (b_payments t). \<exists>r. op = operation_of p r"
    using assms unfolding bill_CreatePayment_def
    by (auto simp: tx_bind_Inr lookup_Inr bill_getPayment_Inr getOrder_Inr split: option.splits if_splits
        dest!: found dest: insert_binds insert_idempotency_state)
      (force dest!: found insert_idempotency_state)+
qed

end
