(* ===== verification/Billing_Settlement.thy ===== *)
theory Billing_Settlement
  imports Billing_Properties
begin

text \<open>
  Where settled payments come from. A webhook is only a hint: what settles a payment is the
  provider's own answer to \<open>GetPayment\<close>, checked against the payment, its order and the shop.
  The last section is about the payment the service gave up on and the provider did not.
\<close>

section \<open>Payment requests are idempotent\<close>

text \<open>A payment request is idempotent. Once its transaction committed, after any further
  steps the same request returns the same payment, with the provider idempotency key it had,
  and changes nothing; the key with another order is refused.
\<close>
theorem payment_idempotent:
  assumes "bill_reachable st" and "bill_CreatePayment pid key now appNow input provider window st = (Inr (op, created), t)"
    and "cpi_UserID input = u" and "cpi_IdempotencyKey input = k" and "cpi_RequestHash input = hashParts cfg [u, o1]"
    and "bill_step\<^sup>*\<^sup>* t t'" and "bv_fault env 0 = NoFault"
  shows "(\<exists>op'. CreatePayment cfg env u o1 k t' = (Inr (op', False), t') \<and> po_PaymentID op' = po_PaymentID op
      \<and> po_OrderID op' = po_OrderID op \<and> po_AmountMinor op' = po_AmountMinor op
      \<and> po_ProviderIdempotencyKey op' = po_ProviderIdempotencyKey op)
    \<and> (hashParts cfg [u, o2] \<noteq> hashParts cfg [u, o1] \<longrightarrow> CreatePayment cfg env u o2 k t' = (Inl BIdempotencyConflict, t'))"
proof -
  note bk = CreatePayment_books [OF reachable_books [OF assms(1)] assms(2)]
  from steps_kept [OF assms(6) bk] have kp: "kept t t'" and bk': "books t'" by auto
  note b = bound_kept [OF payment_bound(1) [OF assms(2)] kp, unfolded assms(3-5)]
  from payment_bound(2) [OF assms(2)] obtain p r where p: "p \<in> set (b_payments t)" "op = operation_of p r" by blast
  from getPayment_kept [OF kp bk' p(1)] obtain q x where
    q: "bill_getPayment (\<lambda>y. pr_id y = po_PaymentID op) t' = (Inr (operation_of q x), t')" "payment_kept p q" using p(2) by auto
  have "call env 0 (FindPaymentReplay u k (hashParts cfg [u, o1])) t' = (Inr (Some (operation_of q x)), t')"
    by (rule call_ok [OF assms(7)]) (use q(1) in \<open>simp add: FindPaymentReplay_def tx_bind_def lookup_bound [OF b] tx_return_def\<close>)
  then have "CreatePayment cfg env u o1 k t' = (Inr (operation_of q x, False), t')"
    by (simp add: CreatePayment_def Let_def tx_bind_def tx_return_def)
  moreover have "CreatePayment cfg env u o2 k t' = (Inl BIdempotencyConflict, t')" if "hashParts cfg [u, o2] \<noteq> hashParts cfg [u, o1]"
  proof -
    have "call env 0 (FindPaymentReplay u k (hashParts cfg [u, o2])) t' = (Inl BIdempotencyConflict, t')"
      by (rule call_error [OF assms(7)]) (use that in \<open>simp add: FindPaymentReplay_def tx_bind_def lookup_bound [OF b]\<close>)
    then show ?thesis by (simp add: CreatePayment_def Let_def tx_bind_def)
  qed
  ultimately show ?thesis using q(2) p(2) by (auto simp: payment_kept_def operation_of_def)
qed

section \<open>Only the provider settles a payment\<close>

definition confirmed :: "bill_config \<Rightarrow> bill_env \<Rightarrow> payment_row \<Rightarrow> bool" where
  "confirmed cfg env q \<longleftrightarrow> (\<exists>i pp. pr_provider_payment_id q = Some i \<and> provider_GetPayment i (bv_get env) = Inr pp
     \<and> prv_ProviderPaymentID pp = i \<and> prv_Test pp \<and> prv_AccountID pp = bc_shopID cfg
     \<and> prv_AmountMinor pp = pr_amount_minor q \<and> prv_Currency pp = pr_currency q
     \<and> prv_MetadataOrderID pp = pr_order_id q \<and> prv_MetadataPaymentID pp = pr_id q
     \<and> (pr_status q = PaymentSucceeded \<and> prv_Status pp = ''succeeded'' \<and> pr_paid_at q = prv_CapturedAt pp
        \<or> pr_status q = PaymentCanceled \<and> prv_Status pp = ''canceled''
           \<and> (prv_CanceledAt pp = None \<or> pr_canceled_at q = prv_CanceledAt pp)))"

definition honest :: "bill_config \<Rightarrow> bill_env \<Rightarrow> bill_store \<Rightarrow> bill_store \<Rightarrow> bool" where
  "honest cfg env st s \<longleftrightarrow> (\<forall>q \<in> set (b_payments s). settled_payment (pr_status q) \<longrightarrow> q \<in> set (b_payments st) \<or> confirmed cfg env q)"

lemma honest_refl [simp]: "honest cfg env st st"
  by (simp add: honest_def)

lemma honest_frame: "honest cfg env st s \<Longrightarrow> b_payments t = b_payments s \<Longrightarrow> honest cfg env st t"
  by (simp add: honest_def)

lemma call_keeps: "tx_keeps I m \<Longrightarrow> tx_keeps I (call env i m)"
  by (rule tx_validI) (metis call_def fst_conv run_tx_keeps snd_conv)+

lemma honest_update:
  assumes "\<And>q. P q \<Longrightarrow> \<not> settled_payment (pr_status (f q))"
  shows "tx_keeps (honest cfg env st0) (update_payments P f)"
  using assms by (auto simp: tx_valid_def update_payments_def tx_defs honest_def elim!: in_tbl_updateE)

lemma honest_primitives:
  "tx_keeps (honest cfg env st0) (getOrder uid oid)"
  "tx_keeps (honest cfg env st0) (bill_getPayment c)"
  "tx_keeps (honest cfg env st0) (lookupIdempotency a b k h)"
  "tx_keeps (honest cfg env st0) (insert_idempotency row)"
  "tx_keeps (honest cfg env st0) (insert_order o1 now oin)"
  "\<not> settled_payment (pr_status p) \<Longrightarrow> tx_keeps (honest cfg env st0) (insert_payment p)"
  "tx_keeps (honest cfg env st0) (update_orders R g)"
  "tx_keeps (honest cfg env st0) (update_webhook i w)"
  "tx_keeps (honest cfg env st0) (ClaimWebhook now lease locked)"
  unfolding getOrder_def bill_getPayment_def lookupIdempotency_def insert_idempotency_def insert_order_def Let_def insert_payment_def
    update_orders_def update_webhook_def
  by (intro tx_keep tx_keeps_modify; auto simp: honest_def)+
     (auto simp: tx_valid_def ClaimWebhook_def honest_def split: option.splits)

lemma honest_operations:
  "tx_keeps (honest cfg env st0) (bill_CreateOrder oid now oinput)"
  "tx_keeps (honest cfg env st0) (bill_CreatePayment pid key now appNow pinput provider window)"
  "tx_keeps (honest cfg env st0) (PrepareProviderCreate now pid at)"
  "tx_keeps (honest cfg env st0) (ApplyProviderCreate now pid payment)"
  "tx_keeps (honest cfg env st0) (MarkProviderCreateAmbiguous now pid code delay)"
  "tx_keeps (honest cfg env st0) (MarkProviderCreateFailed now pid code)"
  "tx_keeps (honest cfg env st0) (ReschedulePayment now pid code delay)"
  "tx_keeps (honest cfg env st0) (CompleteWebhook now i code)"
  "tx_keeps (honest cfg env st0) (RejectWebhook now i code)"
  "tx_keeps (honest cfg env st0) (RetryWebhook now i code delay)"
  unfolding bill_CreateOrder_def bill_CreatePayment_def ApplyProviderCreate_def Let_def MarkProviderCreateAmbiguous_def
    MarkProviderCreateFailed_def ReschedulePayment_def cancel_open_order_def PrepareProviderCreate_def
    CompleteWebhook_def RejectWebhook_def RetryWebhook_def finishWebhook_def
  by ((intro tx_keep honest_primitives honest_update)?;
      (auto simp: settled_payment_def apply_create_hit_def open_payment_def fail_payment_def new_payment_def; fail)?)+

lemmas honest_calls = honest_operations [THEN call_keeps] honest_primitives(1,2,9) [THEN call_keeps]

lemma honest_replays [tx_keep]:
  "tx_keeps (honest cfg env st0) (call e i (FindOrderReplay u k h))"
  "tx_keeps (honest cfg env st0) (call e i (FindPaymentReplay u k h))"
  unfolding FindOrderReplay_def FindPaymentReplay_def by (intro call_keeps tx_keep honest_primitives)+

lemma honest_createAtProvider: "tx_keeps (honest cfg env st0) (createAtProvider cfg' env' op)"
  unfolding createAtProvider_def markProviderCreateFailed_def by (intro tx_keep honest_calls)

lemma honest_CreatePayment: "tx_keeps (honest cfg env st0) (CreatePayment cfg' env' u o1 k)"
  unfolding CreatePayment_def Let_def by (intro tx_keep honest_calls honest_createAtProvider)

text \<open>What a payment becomes when the verified state is applied to it.\<close>

lemma apply_confirmed:
  assumes bk: "books s" and op: "find_operation c s = Some op" and i: "po_ProviderPaymentID op = Some i"
    and get: "provider_GetPayment i (bv_get env) = Inr pp" and v: "validateProviderPayment cfg op pp False"
    and pp': "pp' = pp \<or> prv_Status pp = ''canceled'' \<and> prv_CanceledAt pp = None \<and> pp' = pp\<lparr>prv_CanceledAt := at0\<rparr>"
    and run: "ApplyVerifiedPayment eid now op pp' corr s = (Inr u, t)"
  shows "honest cfg env s t"
  using run bk
proof (cases rule: ApplyVerifiedPayment_cases)
  case (pending p)
  then show ?thesis by (auto simp: honest_def settled_payment_def elim!: in_tbl_updateE)
next
  case (settled p r st at e)
  from op obtain p0 r0 where p0: "p0 \<in> set (b_payments s)" "op = operation_of p0 r0" by (rule find_operation_Some) auto
  have p: "p \<in> set (b_payments s)" using settled(1) by (simp add: about_def)
  with same_payment [OF bk p0(1)] settled(2) p0(2) have [simp]: "p0 = p" by simp
  have m: "pr_provider_payment_id p = Some i" "prv_ProviderPaymentID pp = i" "prv_Test pp" "prv_AccountID pp = bc_shopID cfg"
    "prv_AmountMinor pp = pr_amount_minor p" "prv_Currency pp = pr_currency p" "prv_MetadataOrderID pp = pr_order_id p"
    "prv_MetadataPaymentID pp = pr_id p"
    using i v p0(2) by (auto simp: validateProviderPayment_def)
  have st: "prv_Status pp' = prv_Status pp" "prv_CapturedAt pp' = prv_CapturedAt pp" "prv_CanceledAt pp \<noteq> None \<longrightarrow> pp' = pp" using pp' by auto
  have "confirmed cfg env (settle_payment now st at p)"
    unfolding confirmed_def settled(4) st(1)
    by (intro exI [of _ i] exI [of _ pp]) (use m get st settled(5,10) in \<open>auto simp: settle_payment_def Let_def\<close>)
  then show ?thesis using same_payment [OF bk p] unfolding settled(9)
    by (auto simp: honest_def changed_def elim!: in_tbl_updateE)
qed simp

lemma honest_trans: "honest cfg env st s \<Longrightarrow> honest cfg env s t \<Longrightarrow> honest cfg env st t"
  unfolding honest_def by blast

lemma honest_apply:
  assumes "books s" and "find_operation c s = Some op" and "po_ProviderPaymentID op = Some i"
    and "provider_GetPayment i (bv_get env) = Inr pp" and "validateProviderPayment cfg op pp False"
  shows "honest cfg env s (snd (applyProviderState env op pp s))"
proof -
  have again: "honest cfg env s (snd (call env 6 (ReschedulePayment now pid code delay) s))" for now pid code delay
    by (rule tx_keeps_snd [OF honest_calls(7)]) simp
  have verified: "honest cfg env s (snd (call env 6 (ApplyVerifiedPayment eid now op pp' corr) s))"
    if "pp' = pp \<or> prv_Status pp = ''canceled'' \<and> prv_CanceledAt pp = None \<and> pp' = pp\<lparr>prv_CanceledAt := at0\<rparr>" for eid now pp' corr at0
    unfolding call_def by (rule run_tx_post [where Q = "honest cfg env s"]) (use apply_confirmed [OF assms that] in auto)
  consider "prv_Status pp = ''pending''" | "prv_Status pp \<noteq> ''pending''" "prv_Status pp = ''succeeded'' \<and> prv_CapturedAt pp = None"
    | "prv_Status pp \<noteq> ''pending''" "\<not> (prv_Status pp = ''succeeded'' \<and> prv_CapturedAt pp = None)" by blast
  then show ?thesis
  proof cases
    case 3
    then show ?thesis
      using verified [of pp] verified [of "pp\<lparr>prv_CanceledAt := Some (bv_appNow env)\<rparr>" "Some (bv_appNow env)"]
      unfolding applyProviderState_def Let_def if_not_P [OF 3(1)] if_not_P [OF 3(2)] by simp
  qed (simp_all add: applyProviderState_def again tx_fail_def)
qed

text \<open>The precondition under which the provider's answer is applied: it was asked about a payment of the store.\<close>

definition asked :: "bill_config \<Rightarrow> bill_env \<Rightarrow> bill_store \<Rightarrow> PaymentOperation \<Rightarrow> bill_store \<Rightarrow> bool" where
  "asked cfg env st op s \<longleftrightarrow> books s \<and> honest cfg env st s \<and> (\<exists>c. find_operation c s = Some op)"

lemma asked_apply:
  assumes "po_ProviderPaymentID op = Some i" and "provider_GetPayment i (bv_get env) = Inr pp" and "validateProviderPayment cfg op pp False"
  shows "tx_valid (asked cfg env st op) (applyProviderState env op pp) (\<lambda>_. honest cfg env st) (\<lambda>_. honest cfg env st)"
proof (rule tx_validI)
  have *: "honest cfg env st (snd (applyProviderState env op pp s))" if "asked cfg env st op s" for s
    using that assms honest_apply [of s _ op i env pp cfg] by (auto simp: asked_def intro: honest_trans)
  show "honest cfg env st t" if "asked cfg env st op s" "applyProviderState env op pp s = (Inr a, t)" for s a t
    using *[OF that(1)] that(2) by simp
  show "honest cfg env st t" if "asked cfg env st op s" "applyProviderState env op pp s = (Inl a, t)" for s a t
    using *[OF that(1)] that(2) by simp
qed

lemma asked_weaken:
  "tx_keeps (honest cfg env st) m \<Longrightarrow> tx_valid (asked cfg env st op) m (\<lambda>_. honest cfg env st) (\<lambda>_. honest cfg env st)"
  by (erule tx_valid_weaken) (auto simp: asked_def)

lemma call_read_valid:
  "tx_valid (\<lambda>s. books s \<and> honest cfg env st s) (call e i (bill_getPayment c))
     (\<lambda>op s. asked cfg env st op s \<and> find_operation c s = Some op) (\<lambda>_. honest cfg env st)"
proof (rule tx_validI)
  fix s a t assume *: "books s \<and> honest cfg env st s"
  show "asked cfg env st a t \<and> find_operation c t = Some a" if "call e i (bill_getPayment c) s = (Inr a, t)"
    using * run_tx_Inr [OF that [unfolded call_def]] by (auto simp: bill_getPayment_Inr asked_def)
  show "honest cfg env st t" if "call e i (bill_getPayment c) s = (Inl b, t)" for b
    using tx_keeps_snd [OF honest_calls(12), of cfg env st s e i c] * that by simp
qed

lemma claim_valid:
  assumes "books st"
  shows "tx_valid (\<lambda>s. s = st) (call e i (ClaimWebhook now lease locked))
      (\<lambda>_ s. books s \<and> honest cfg env st s) (\<lambda>_. honest cfg env st)"
    and "tx_valid (\<lambda>s. s = st) (call e i (ClaimPaymentForReconcile now lease locked))
      (\<lambda>claimed s. books s \<and> honest cfg env st s \<and> (\<forall>op. claimed = Some op \<longrightarrow> asked cfg env st op s)) (\<lambda>_. honest cfg env st)"
proof -
  note [simp] = call_def
  show "tx_valid (\<lambda>s. s = st) (call e i (ClaimWebhook now lease locked))
      (\<lambda>_ s. books s \<and> honest cfg env st s) (\<lambda>_. honest cfg env st)"
    using webhook_steps(2) [of st "bv_fault e i" now lease locked] books_same_money [OF assms]
    by (intro tx_validI) (auto simp: same_money_def honest_def)
  let ?m = "ClaimPaymentForReconcile now lease locked"
  have hon: "honest cfg env st (snd (run_tx BInfra fl ?m st))" for fl
  proof (rule run_tx_post [where Q = "honest cfg env st"])
    fix a t assume r: "?m st = (Inr a, t)"
    show "honest cfg env st t"
    proof (cases "t = st")
      case False
      with r obtain p where "first_by pr_next_reconcile_at (filter (\<lambda>p. open_payment (pr_status p) \<and> pr_next_reconcile_at p \<le> now
             \<and> (pr_lease_until p = None \<or> lease_lapsed now (pr_lease_until p)) \<and> pr_id p \<notin> set locked) (b_payments st)) = Some p"
        and t: "b_payments t = tbl_update (\<lambda>q. pr_id q = pr_id p) (\<lambda>q. q\<lparr>pr_lease_until := Some (now + lease), pr_attempts := pr_attempts q + 1\<rparr>) (b_payments st)"
        by (auto simp: ClaimPaymentForReconcile_def Let_def split: option.splits)
      then have p: "p \<in> set (b_payments st)" "open_payment (pr_status p)" by (auto dest: first_by_Some)
      then show ?thesis using same_payment [OF assms p(1)] unfolding honest_def t
        by (auto simp: open_payment_def settled_payment_def elim!: in_tbl_updateE)
    qed simp
  qed simp
  show "tx_valid (\<lambda>s. s = st) (call e i ?m)
      (\<lambda>claimed s. books s \<and> honest cfg env st s \<and> (\<forall>op. claimed = Some op \<longrightarrow> asked cfg env st op s)) (\<lambda>_. honest cfg env st)"
  proof (intro tx_validI)
    fix s a t assume s: "s = st" and run: "call e i ?m s = (Inr a, t)"
    from run have r: "?m st = (Inr a, t)" unfolding s call_def by (rule run_tx_Inr)
    have "books t" using open_updates_books(4) [OF assms r] .
    moreover have "honest cfg env st t" using hon [of "bv_fault e i"] run s by simp
    moreover have "\<exists>c. find_operation c t = Some op" if "a = Some op" for op
      using r that by (auto simp: ClaimPaymentForReconcile_def Let_def split: option.splits)
    ultimately show "books t \<and> honest cfg env st t \<and> (\<forall>op. a = Some op \<longrightarrow> asked cfg env st op t)" by (auto simp: asked_def)
  next
    fix s b t assume "s = st" "call e i ?m s = (Inl b, t)"
    then show "honest cfg env st t" using hon [of "bv_fault e i"] by simp
  qed
qed

lemma asked_id: "find_operation (\<lambda>p. pr_provider_payment_id p = Some i) s = Some op \<Longrightarrow> po_ProviderPaymentID op = Some i"
  by (erule find_operation_Some) simp

lemma honest_ends:
  assumes "tx_keeps (honest cfg env st) m" and "\<And>s. P s \<Longrightarrow> honest cfg env st s"
  shows "tx_valid P m (\<lambda>_. honest cfg env st) (\<lambda>_. honest cfg env st)"
  by (rule tx_valid_weaken [OF assms(1)]) (use assms(2) in auto)

lemma honest_webhook: "books st \<Longrightarrow> honest cfg env st (snd (processWebhook cfg env st))"
proof -
  assume bk: "books st"
  let ?H = "honest cfg env st"
  have "tx_valid (\<lambda>s. s = st) (processWebhook cfg env) (\<lambda>_. ?H) (\<lambda>_. ?H)"
    unfolding processWebhook_def Let_def
  proof (rule tx_valid_bind [OF claim_valid(1) [OF bk]], rule tx_valid_option, goal_cases)
    case (1 a)
    show ?case by (rule tx_valid_return) simp
  next
    case (2 a n)
    show ?case
    proof (rule tx_valid_try [OF call_read_valid], goal_cases)
      case (1 e)
      show ?case by (intro tx_keep honest_calls)
    next
      case (2 op)
      let ?i = "wn_ProviderObjectID n"
      show ?case
      proof (rule tx_valid_pure [where c = "po_ProviderPaymentID op = Some ?i"], goal_cases)
        case (1 s)
        then show ?case using asked_id by blast
      next
        case i: 2
        show ?case
        proof (cases "provider_GetPayment ?i (bv_get env)")
          case (Inl e)
          show ?thesis unfolding Inl sum.case by (rule honest_ends, intro tx_keep honest_calls) (simp add: asked_def)
        next
          case (Inr pp)
          have ap: "tx_valid (\<lambda>s. asked cfg env st op s \<and> find_operation (\<lambda>p. pr_provider_payment_id p = Some ?i) s = Some op)
              (applyProviderState env op pp) (\<lambda>_. ?H) (\<lambda>_. ?H)" if "validateProviderPayment cfg op pp False"
            by (rule tx_valid_weaken [OF asked_apply [OF i Inr that]]) auto
          show ?thesis unfolding Inr sum.case
          proof (rule tx_valid_if)
            show "tx_valid (\<lambda>s. asked cfg env st op s \<and> find_operation (\<lambda>p. pr_provider_payment_id p = Some ?i) s = Some op)
              (call env 7 (RejectWebhook (bv_now env) (wn_InboxID n) ''provider_mismatch'')) (\<lambda>_. ?H) (\<lambda>_. ?H)"
              by (rule honest_ends, rule honest_calls) (simp add: asked_def)
          qed (rule tx_valid_try [OF ap], simp, intro tx_keep honest_calls, intro tx_keep honest_calls)
        qed
      qed
    qed
  qed
  then show ?thesis by (rule tx_keeps_snd) simp
qed

lemma honest_reconcile: "books st \<Longrightarrow> honest cfg env st (snd (reconcilePayment cfg env st))"
proof -
  assume bk: "books st"
  let ?H = "honest cfg env st"
  have "tx_valid (\<lambda>s. s = st) (reconcilePayment cfg env) (\<lambda>_. ?H) (\<lambda>_. ?H)"
    unfolding reconcilePayment_def Let_def
  proof (rule tx_valid_bind [OF claim_valid(2) [OF bk]], rule tx_valid_option, goal_cases)
    case (1 a)
    show ?case by (rule tx_valid_return) simp
  next
    case (2 a op)
    show ?case
    proof (cases "po_ProviderPaymentID op")
      case None
      show ?thesis unfolding None option.case
        by (rule honest_ends, intro tx_keep honest_calls honest_createAtProvider) simp
    next
      case (Some i)
      show ?thesis
      proof (cases "provider_GetPayment i (bv_get env)")
        case (Inl e)
        show ?thesis unfolding Some option.case Inl sum.case by (rule honest_ends, intro tx_keep honest_calls) simp
      next
        case (Inr pp)
        show ?thesis unfolding Some option.case Inr sum.case
        proof (rule tx_valid_if)
          assume "\<not> \<not> validateProviderPayment cfg op pp False"
          then have v: "validateProviderPayment cfg op pp False" by simp
          show "tx_valid (\<lambda>s. books s \<and> ?H s \<and> (\<forall>op. a = Some op \<longrightarrow> asked cfg env st op s)) (applyProviderState env op pp) (\<lambda>_. ?H) (\<lambda>_. ?H)"
            by (rule tx_valid_weaken [OF asked_apply [OF Some Inr v]]) (use 2 in auto)
        qed (rule honest_ends, rule honest_calls, simp)
      qed
    qed
  qed
  then show ?thesis by (rule tx_keeps_snd) simp
qed

text \<open>C22: Only the provider settles a payment. After a webhook was processed, a payment
  reconciled or a payment requested, a payment that succeeded or was canceled either was in
  that state before, or the provider's own answer to a query of its provider id says so: for
  the configured shop, in test mode, with the payment's amount and currency, and naming its
  order and payment; and the time of payment is the provider's.
\<close>
theorem settled_only_by_provider:
  assumes "bill_reachable st"
    and "t \<in> {snd (processWebhook cfg env st), snd (reconcilePayment cfg env st), snd (CreatePayment cfg env u o1 k st)}"
    and "q \<in> set (b_payments t)" and "settled_payment (pr_status q)"
  shows "q \<in> set (b_payments st) \<or> confirmed cfg env q"
proof -
  note bk = reachable_books [OF assms(1)]
  have "honest cfg env st (snd (CreatePayment cfg env u o1 k st))" by (rule tx_keeps_snd [OF honest_CreatePayment]) simp
  with assms(2) honest_webhook [OF bk] honest_reconcile [OF bk] have "honest cfg env st t" by auto
  with assms(3,4) show ?thesis by (simp add: honest_def)
qed

section \<open>The payment the service gave up on\<close>

lemma ApplyVerified_failed:
  assumes bk: "books s" and op: "find_operation c s = Some op" and f: "po_Status op = PaymentFailed"
    and pp: "prv_Status pp = ''succeeded''" "prv_CapturedAt pp = Some at"
  shows "\<exists>t. ApplyVerifiedPayment eid now op pp corr s = (Inl BInfra, t)"
proof -
  from op obtain p r where p: "p \<in> set (b_payments s)" "op = operation_of p r" by (rule find_operation_Some) auto
  from getPayment_kept [OF kept_refl bk p(1)] obtain q x where
    q: "bill_getPayment (\<lambda>y. pr_id y = pr_id p) s = (Inr (operation_of q x), s)" "payment_kept p q" by blast
  from q(2) f p(2) have st: "pr_status q = PaymentFailed" "pr_id q = pr_id p" by (auto simp: payment_kept_def open_payment_def)
  have "list_ex (\<lambda>r. pr_id r = pr_id q \<and> (\<not> payment_transition (pr_status r) (pr_status (settle_payment now PaymentSucceeded at r))
      \<or> \<not> payment_row_check (settle_payment now PaymentSucceeded at r))) (b_payments s)"
    using p f st(2) by (auto simp: list_ex_iff payment_transition_def settle_payment_def Let_def intro!: bexI [of _ p])
  then have "update_payments (\<lambda>y. pr_id y = pr_id q) (settle_payment now PaymentSucceeded at) s = (Inl BInfra, s)"
    by (simp add: update_payments_def tx_defs)
  then show ?thesis using q(1) p(2) st pp
    by (simp add: ApplyVerifiedPayment_def buildPaymentEvent_def Let_def tx_bind_def)
qed

lemma claimed_row:
  assumes "ClaimWebhook now lease locked st = (Inr (Some n), s)" and "w \<in> set (b_webhooks s)" and "wh_id w = wn_InboxID n"
  shows "wh_state w = WhProcessing"
  using assms by (auto simp: ClaimWebhook_def split: option.splits elim!: in_tbl_updateE)

lemma RetryWebhook_run:
  assumes "pg_length code \<le> 64"
  shows "RetryWebhook now i code delay st = (Inr (), st\<lparr>b_webhooks := tbl_update (\<lambda>r. wh_id r = i \<and> wh_state r = WhProcessing)
    (\<lambda>r. r\<lparr>wh_state := WhPending, wh_last_error := Some code, wh_lease_until := None, wh_next_attempt_at := now + delay\<rparr>) (b_webhooks st)\<rparr>)"
  using assms by (simp add: RetryWebhook_def update_webhook_def Let_def tx_defs error_check_def list_ex_iff)

text \<open>A payment marked failed that the provider reports as captured is never settled: the
  status trigger refuses the change, the worker takes the refusal for a passing database
  error, and the webhook goes back to \<open>pending\<close> with \<open>apply_failed\<close>, whatever its number of
  attempts. Orders, payments and events stay as they are.
\<close>
theorem failed_payment_retried_forever:
  assumes "bill_reachable st" and "\<And>i. bv_fault env i = NoFault"
    and "ClaimWebhook (bv_now env) (bc_lease cfg) (bv_locked env) st = (Inr (Some n), s)"
    and "find_operation (\<lambda>p. pr_provider_payment_id p = Some (wn_ProviderObjectID n)) st = Some op" and "po_Status op = PaymentFailed"
    and "provider_GetPayment (wn_ProviderObjectID n) (bv_get env) = Inr pp" and "validateProviderPayment cfg op pp False"
    and "prv_Status pp = ''succeeded''" and "prv_CapturedAt pp = Some at"
  shows "same_money st (snd (processWebhook cfg env st)) \<and>
    (\<forall>w \<in> set (b_webhooks (snd (processWebhook cfg env st))). wh_id w = wn_InboxID n \<longrightarrow>
       wh_state w = WhPending \<and> wh_last_error w = Some ''apply_failed'')"
proof -
  let ?c = "\<lambda>p. pr_provider_payment_id p = Some (wn_ProviderObjectID n)"
  have sm: "same_money st s" by (rule webhook_frame(2) [OF assms(3)])
  then have bk: "books s" by (rule books_same_money [OF reachable_books [OF assms(1)]])
  from sm assms(4) have op: "find_operation ?c s = Some op" by (simp add: find_operation_def same_money_def cong: option.case_cong)
  have c8: "call env 8 (ClaimWebhook (bv_now env) (bc_lease cfg) (bv_locked env)) st = (Inr (Some n), s)"
    by (rule call_ok [OF assms(2)]) (rule assms(3))
  have c0: "call env 0 (bill_getPayment ?c) s = (Inr op, s)"
    by (rule call_ok [OF assms(2)]) (simp add: bill_getPayment_Inr op)
  from ApplyVerified_failed [OF bk op assms(5,8,9)] obtain t where
    "ApplyVerifiedPayment (bv_eventID env) (bv_now env) op pp (bv_correlationID env) s = (Inl BInfra, t)" by blast
  then have c6: "applyProviderState env op pp s = (Inl BInfra, s)"
    using assms(8,9) by (auto simp: applyProviderState_def Let_def intro: call_error [OF assms(2)])
  define d where "d = bill_retryBackoff (bc_sha256 cfg) Itoa (bc_retryDelay cfg) (wn_Attempts n) (wn_InboxID n)"
  define u where "u = snd (RetryWebhook (bv_now env) (wn_InboxID n) ''apply_failed'' d s)"
  have code: "pg_length ''apply_failed'' \<le> 64" by (simp add: pg_length_def)
  have c7: "call env 7 (RetryWebhook (bv_now env) (wn_InboxID n) ''apply_failed'' d) s = (Inr (), u)"
    unfolding u_def RetryWebhook_run [OF code] by (rule call_ok [OF assms(2)]) (simp add: RetryWebhook_run [OF code])
  have "processWebhook cfg env st = (Inr (), u)"
    unfolding processWebhook_def Let_def tx_bind_def c8 using c7
    by (simp add: tx_try_def c0 assms(6,7) c6 d_def)
  moreover have "same_money st u" using sm by (simp add: u_def RetryWebhook_run [OF code] same_money_def)
  moreover have "wh_state w = WhPending \<and> wh_last_error w = Some ''apply_failed''" if "w \<in> set (b_webhooks u)" "wh_id w = wn_InboxID n" for w
    using that claimed_row [OF assms(3)] by (auto simp: u_def RetryWebhook_run [OF code] elim!: in_tbl_updateE)
  ultimately show ?thesis by simp
qed

end
