(* ===== verification/Billing_Witnesses.thy ===== *)
theory Billing_Witnesses
  imports Billing_Settlement
begin

text \<open>
  A run of billing on concrete data, on which the theorems about billing are applied: a user
  orders a plan, asks for a payment, the provider creates it, a webhook arrives and the
  provider confirms the payment. A second run has the payment marked failed first. The
  stores are evaluated once (\<open>*_value\<close>), and later evaluations start from them.
\<close>

section \<open>The run\<close>

definition wit_cfg :: bill_config where
  "wit_cfg = \<lparr>bc_shopID = ''shop'', bc_returnURL = ''https://bot/back'', bc_createWindow = 1000, bc_retryDelay = 10, bc_lease = 60,
     bc_url_ok = (\<lambda>u. take 8 u = ''https://''),
     bc_sha256hex = (\<lambda>s. replicate 63 (CHR ''0'') @ [if even (length s) then CHR ''0'' else CHR ''1'']),
     bc_sha256 = (\<lambda>_. replicate 32 0)\<rparr>"

definition wit_snapshot :: bill_snapshot where
  "wit_snapshot = \<lparr>bs_PlanID = ''plan'', bs_Name = ''Month'', bs_DurationDays = 30, bs_GracePeriodHours = 24,
     bs_AmountMinor = 19900, bs_Currency = ''RUB'', bs_Region = ''eu'', bs_RegionPolicy = ''auto'',
     bs_TrafficPolicy = ''unlimited'', bs_PrimaryNodes = 1, bs_FailoverNodes = 1\<rparr>"

definition wit_order :: CreateOrderInput where
  "wit_order = \<lparr>coi_UserID = ''u1'', coi_PlanID = ''plan'', coi_Region = ''eu'', coi_AcceptedTermsVersion = ''v1'',
     coi_IdempotencyKey = ''order-key-1'', coi_RequestHash = hashParts wit_cfg [''u1'', ''plan'', ''eu'', ''v1''],
     coi_Snapshot = wit_snapshot\<rparr>"

definition wit_payment :: CreatePaymentInput where
  "wit_payment = \<lparr>cpi_UserID = ''u1'', cpi_OrderID = ''o1'', cpi_IdempotencyKey = ''pay-key-1'',
     cpi_RequestHash = hashParts wit_cfg [''u1'', ''o1'']\<rparr>"

definition wit_response :: "string \<Rightarrow> instant option \<Rightarrow> paymentResponse" where
  "wit_response status captured = \<lparr>res_ID = ''yk1'', res_Status = status,
     res_Amount = \<lparr>am_Value = ''199.00'', am_Currency = ''RUB''\<rparr>, res_ConfirmationURL = Some ''https://pay/1'',
     res_MetadataOrderID = ''o1'', res_MetadataPaymentID = ''p1'', res_Test = True, res_CapturedAt = captured,
     res_CanceledAt = None, res_AccountID = ''shop''\<rparr>"

definition wit_env :: "http_outcome \<Rightarrow> bill_env" where
  "wit_env http = \<lparr>bv_fault = (\<lambda>_. NoFault), bv_now = 100, bv_appNow = 100, bv_orderID = ''o9'', bv_paymentID = ''p9'',
     bv_providerKey = ''key9'', bv_eventID = ''e1'', bv_correlationID = ''c1'', bv_identity = (\<lambda>_ _. None),
     bv_catalog = (\<lambda>_ _. Inr wit_snapshot), bv_post = (\<lambda>_ _. TransportError), bv_get = (\<lambda>_. http), bv_cancelled = False, bv_locked = [], bv_publish_ok = True\<rparr>"

definition wit_paid :: bill_env where
  "wit_paid = wit_env (HttpResponse 200 (Some (wit_response ''succeeded'' (Some 90))))"

definition wit_ordered :: bill_store where
  "wit_ordered = snd (run_tx BInfra NoFault (bill_CreateOrder ''o1'' 1 wit_order) empty_bill_store)"

definition wit_requested :: bill_store where
  "wit_requested = snd (run_tx BInfra NoFault (bill_CreatePayment ''p1'' ''key1'' 2 2 wit_payment ''yookassa'' 1000) wit_ordered)"

definition wit_provider :: ProviderPayment where
  "wit_provider = \<lparr>prv_ProviderPaymentID = ''yk1'', prv_Status = ''pending'', prv_AmountMinor = 19900, prv_Currency = ''RUB'',
     prv_ConfirmationURL = Some ''https://pay/1'', prv_Test = True, prv_AccountID = ''shop'', prv_MetadataOrderID = ''o1'',
     prv_MetadataPaymentID = ''p1'', prv_CapturedAt = None, prv_CanceledAt = None\<rparr>"

definition wit_webhook :: WebhookNotification where
  "wit_webhook = \<lparr>wn_InboxID = ''w1'', wn_EventType = ''payment.succeeded'', wn_ProviderObjectID = ''yk1'',
     wn_ObservedStatus = ''succeeded'', wn_Attempts = 0\<rparr>"

definition wit_pending :: bill_store where
  "wit_pending = snd (run_tx BInfra NoFault (InsertWebhook 4 wit_webhook)
     (snd (run_tx BInfra NoFault (ApplyProviderCreate 3 ''p1'' wit_provider) wit_requested)))"

lemma wit_pending_value [code]: "wit_pending =
     \<lparr>b_orders = [\<lparr>bo_OrderID = ''o1'', bo_UserID = ''u1'', bo_Status = OrderPaymentPending, bo_AmountMinor = 19900, bo_Currency = ''RUB'',
     bo_AcceptedTermsVersion = ''v1'', bo_PlanSnapshot = \<lparr>bs_PlanID = ''plan'', bs_Name = ''Month'', bs_DurationDays = 30, bs_GracePeriodHours
     = 24, bs_AmountMinor = 19900, bs_Currency = ''RUB'', bs_Region = ''eu'', bs_RegionPolicy = ''auto'', bs_TrafficPolicy = ''unlimited'',
     bs_PrimaryNodes = 1, bs_FailoverNodes = 1\<rparr>, bo_CreatedAt = 1, or_plan_id = ''plan'', or_region = ''eu'', or_updated_at = 2\<rparr>],
     b_payments = [\<lparr>pr_id = ''p1'', pr_order_id = ''o1'', pr_provider = ''yookassa'', pr_provider_payment_id = Some ''yk1'', pr_provider_key =
     ''key1'', pr_status = PaymentPending, pr_amount_minor = 19900, pr_currency = ''RUB'', pr_confirmation_url = Some ''https://pay/1'', pr_deadline =
     1002, pr_next_reconcile_at = 3, pr_lease_until = None, pr_attempts = 0, pr_last_error = None, pr_paid_at = None, pr_canceled_at = None,
     pr_created_at = 2, pr_updated_at = 3\<rparr>], b_idempotency = [\<lparr>ik_subject = ''u1'', ik_operation = CreateOrderOp, ik_key =
     ''order-key-1'', ik_hash = replicate 64 CHR ''0'', ik_resource = ''o1''\<rparr>, \<lparr>ik_subject = ''u1'', ik_operation = CreatePaymentOp,
     ik_key = ''pay-key-1'', ik_hash = replicate 64 CHR ''0'', ik_resource = ''p1''\<rparr>], b_webhooks = [\<lparr>wh_id = ''w1'', wh_event_type =
     ''payment.succeeded'', wh_object_id = ''yk1'', wh_observed = ''succeeded'', wh_state = WhPending, wh_attempts = 0, wh_next_attempt_at = 4,
     wh_lease_until = None, wh_last_error = None, wh_received_at = 4, wh_processed_at = None\<rparr>], b_outbox = []\<rparr>"
  by code_simp

definition wit_settled :: bill_store where
  "wit_settled = snd (processWebhook wit_cfg wit_paid wit_pending)"

lemma wit_settled_value [code]: "wit_settled =
     \<lparr>b_orders = [\<lparr>bo_OrderID = ''o1'', bo_UserID = ''u1'', bo_Status = OrderPaid, bo_AmountMinor = 19900, bo_Currency = ''RUB'',
     bo_AcceptedTermsVersion = ''v1'', bo_PlanSnapshot = \<lparr>bs_PlanID = ''plan'', bs_Name = ''Month'', bs_DurationDays = 30, bs_GracePeriodHours
     = 24, bs_AmountMinor = 19900, bs_Currency = ''RUB'', bs_Region = ''eu'', bs_RegionPolicy = ''auto'', bs_TrafficPolicy = ''unlimited'',
     bs_PrimaryNodes = 1, bs_FailoverNodes = 1\<rparr>, bo_CreatedAt = 1, or_plan_id = ''plan'', or_region = ''eu'', or_updated_at = 100\<rparr>],
     b_payments = [\<lparr>pr_id = ''p1'', pr_order_id = ''o1'', pr_provider = ''yookassa'', pr_provider_payment_id = Some ''yk1'', pr_provider_key =
     ''key1'', pr_status = PaymentSucceeded, pr_amount_minor = 19900, pr_currency = ''RUB'', pr_confirmation_url = None, pr_deadline = 1002,
     pr_next_reconcile_at = 3, pr_lease_until = None, pr_attempts = 0, pr_last_error = None, pr_paid_at = Some 90, pr_canceled_at = None,
     pr_created_at = 2, pr_updated_at = 100\<rparr>], b_idempotency = [\<lparr>ik_subject = ''u1'', ik_operation = CreateOrderOp, ik_key =
     ''order-key-1'', ik_hash = replicate 64 CHR ''0'', ik_resource = ''o1''\<rparr>, \<lparr>ik_subject = ''u1'', ik_operation = CreatePaymentOp,
     ik_key = ''pay-key-1'', ik_hash = replicate 64 CHR ''0'', ik_resource = ''p1''\<rparr>], b_webhooks = [\<lparr>wh_id = ''w1'', wh_event_type =
     ''payment.succeeded'', wh_object_id = ''yk1'', wh_observed = ''succeeded'', wh_state = WhProcessed, wh_attempts = 1, wh_next_attempt_at = 4,
     wh_lease_until = None, wh_last_error = Some ''verified'', wh_received_at = 4, wh_processed_at = Some 100\<rparr>], b_outbox =
     [\<lparr>ob_event_id = ''e1'', ob_topic = ''billing.payment.succeeded.v1'', ob_partition_key = ''user:u1'', ob_aggregate_id = ''p1'', ob_sequence
     = None, ob_dedupe_key = (), ob_payload = \<lparr>be_EventID = ''e1'', be_EventType = ''billing.payment.succeeded.v1'', be_OccurredAt = 90,
     be_CorrelationID = ''c1'', be_AggregateID = ''p1'', be_PartitionKey = ''user:u1'', be_Data = SucceededData ''p1'' ''o1'' ''u1'' ''plan'' 19900
     ''RUB'' 90\<rparr>, ob_state = ObPending, ob_attempts = 0, ob_next_attempt_at = 100, ob_lease_until = None, ob_created_at = 100, ob_published_at
     = None\<rparr>]\<rparr>"
  by code_simp

definition wit_failed :: bill_store where
  "wit_failed = snd (run_tx BInfra NoFault (MarkProviderCreateFailed 5 ''p1'' ''http_403'') wit_pending)"

lemma wit_reachable:
  "bill_reachable wit_ordered" "bill_reachable wit_requested" "bill_reachable wit_pending" "bill_reachable wit_failed"
  unfolding wit_failed_def wit_pending_def wit_requested_def wit_ordered_def
  by (intro br_step [OF _ bs_order] br_step [OF _ bs_payment] br_step [OF _ bs_applied] br_step [OF _ bs_notify]
      br_step [OF _ bs_failed] br_empty)+

lemma wit_settles: "bill_step\<^sup>*\<^sup>* wit_pending wit_settled"
  unfolding wit_settled_def by (rule tx_keeps_snd [OF after_use_cases(3)]) simp

lemma wit_statuses:
  "map pr_status (b_payments wit_pending) = [PaymentPending]"
  "map pr_status (b_payments wit_settled) = [PaymentSucceeded]"
  "map bo_Status (b_orders wit_settled) = [OrderPaid]"
  "map ob_topic (b_outbox wit_settled) = [''billing.payment.succeeded.v1'']"
  "map pr_status (b_payments wit_failed) = [PaymentFailed]"
  by code_simp+

section \<open>The theorems on it\<close>

lemma wit_settled_reachable: "bill_reachable wit_settled"
  by (rule br_steps [OF wit_settles wit_reachable(3)])

theorem books_balance_witness:
  "\<exists>p r e. b_payments wit_settled = [p] \<and> pr_status p = PaymentSucceeded \<and> agrees p r
     \<and> filter (\<lambda>e. ob_aggregate_id e = pr_id p) (b_outbox wit_settled) = [e] \<and> event_of p r e"
proof -
  from wit_statuses(2) obtain p where p: "b_payments wit_settled = [p]" "pr_status p = PaymentSucceeded" by auto
  with books_balance [OF wit_settled_reachable, of p] show ?thesis by (auto simp: settled_payment_def)
qed

theorem decisions_final_witness:
  "rows_kept payment_kept (b_payments wit_pending) (b_payments wit_settled) \<and> b_payments wit_pending \<noteq> b_payments wit_settled"
proof
  show "rows_kept payment_kept (b_payments wit_pending) (b_payments wit_settled)"
    using decisions_final [OF wit_reachable(3) wit_settles] by simp
  show "b_payments wit_pending \<noteq> b_payments wit_settled" using wit_statuses(1,2) by auto
qed

theorem one_open_order_witness:
  "\<exists>r \<in> set (b_orders wit_ordered). bo_UserID r = ''u1'' \<and> (\<forall>x \<in> set (b_orders wit_ordered).
     bo_UserID x = ''u1'' \<and> open_order (bo_Status x) \<longrightarrow> r = x)"
proof -
  have "map (\<lambda>r. (bo_UserID r, bo_Status r)) (b_orders wit_ordered) = [(''u1'', OrderCreated)]" by code_simp
  then obtain r where r: "r \<in> set (b_orders wit_ordered)" "bo_UserID r = ''u1''" "open_order (bo_Status r)"
    by (auto simp: open_order_def)
  have "r = x" if "x \<in> set (b_orders wit_ordered)" "bo_UserID x = ''u1''" "open_order (bo_Status x)" for x
    by (rule one_open_order [OF wit_reachable(1) r(1) that(1)]) (simp_all add: r that)
  with r show ?thesis by blast
qed

lemma inr_pair: "map_sum f (\<lambda>(x, b). (g x, b)) r = Inr (i, c) \<Longrightarrow> \<exists>x. r = Inr (x, c) \<and> g x = i"
  by (cases r) auto

lemma committed: "fst (m st) = Inr a \<Longrightarrow> m st = (Inr a, snd (run_tx err NoFault m st))"
  by (cases "m st") (simp add: run_tx_def)

lemma wit_create_order: "\<exists>order. bill_CreateOrder ''o1'' 1 wit_order empty_bill_store = (Inr (order, True), wit_ordered) \<and> bo_OrderID order = ''o1''"
proof -
  have "map_sum id (\<lambda>(x, b). (bo_OrderID x, b)) (fst (bill_CreateOrder ''o1'' 1 wit_order empty_bill_store)) = Inr (''o1'', True)"
    by code_simp
  from inr_pair [OF this] obtain x where x: "fst (bill_CreateOrder ''o1'' 1 wit_order empty_bill_store) = Inr (x, True)" "bo_OrderID x = ''o1''" by blast
  from committed [of "bill_CreateOrder ''o1'' 1 wit_order" empty_bill_store, OF x(1), of BInfra] x(2) show ?thesis unfolding wit_ordered_def by (intro exI [of _ x]) simp
qed

lemma wit_run:
  "bill_step\<^sup>*\<^sup>* a st \<Longrightarrow> bill_step\<^sup>*\<^sup>* a (snd (run_tx BInfra fl (InsertWebhook now n) st))"
  "bill_step\<^sup>*\<^sup>* a st \<Longrightarrow> bill_step\<^sup>*\<^sup>* a (snd (run_tx BInfra fl (ApplyProviderCreate now pid payment) st))"
  "bill_step\<^sup>*\<^sup>* a st \<Longrightarrow> bill_step\<^sup>*\<^sup>* a (snd (run_tx BInfra fl (bill_CreatePayment pid key now appNow pinput provider window) st))"
  by (erule rtranclp.rtrancl_into_rtrancl, rule bill_step.intros)+

theorem order_idempotent_witness:
  "(\<exists>order. CreateOrder wit_cfg wit_paid ''u1'' ''plan'' ''eu'' ''v1'' ''order-key-1'' wit_settled = (Inr (order, False), wit_settled)
      \<and> bo_OrderID order = ''o1'')
   \<and> CreateOrder wit_cfg wit_paid ''u1'' ''plan'' ''usa'' ''v1'' ''order-key-1'' wit_settled = (Inl BIdempotencyConflict, wit_settled)"
proof -
  from wit_create_order obtain order where o: "bill_CreateOrder ''o1'' 1 wit_order empty_bill_store = (Inr (order, True), wit_ordered)"
    "bo_OrderID order = ''o1''" by blast
  have steps: "bill_step\<^sup>*\<^sup>* wit_ordered wit_settled"
    by (rule rtranclp_trans [OF _ wit_settles], unfold wit_pending_def wit_requested_def)
      (intro wit_run rtranclp.rtrancl_refl)
  have in1: "coi_UserID wit_order = ''u1''" "coi_IdempotencyKey wit_order = ''order-key-1''"
    "coi_RequestHash wit_order = hashParts wit_cfg [''u1'', ''plan'', ''eu'', ''v1'']" by (simp_all add: wit_order_def)
  have nf: "bv_fault wit_paid 0 = NoFault" by (simp add: wit_paid_def wit_env_def)
  have neq: "hashParts wit_cfg [''u1'', ''plan'', ''usa'', ''v1''] \<noteq> hashParts wit_cfg [''u1'', ''plan'', ''eu'', ''v1'']" by code_simp
  from order_idempotent [OF br_empty o(1) in1 steps nf, of "''plan''" "''usa''" "''v1''"] neq o(2) show ?thesis by auto
qed

lemma wit_create_payment:
  "\<exists>op. bill_CreatePayment ''p1'' ''key1'' 2 2 wit_payment ''yookassa'' 1000 wit_ordered = (Inr (op, True), wit_requested) \<and> po_PaymentID op = ''p1''"
proof -
  have "map_sum id (\<lambda>(x, b). (po_PaymentID x, b)) (fst (bill_CreatePayment ''p1'' ''key1'' 2 2 wit_payment ''yookassa'' 1000 wit_ordered))
      = Inr (''p1'', True)" by code_simp
  from inr_pair [OF this] obtain x where x: "fst (bill_CreatePayment ''p1'' ''key1'' 2 2 wit_payment ''yookassa'' 1000 wit_ordered) = Inr (x, True)" "po_PaymentID x = ''p1''" by blast
  from committed [of "bill_CreatePayment ''p1'' ''key1'' 2 2 wit_payment ''yookassa'' 1000" wit_ordered, OF x(1), of BInfra] x(2) show ?thesis unfolding wit_requested_def by (intro exI [of _ x]) simp
qed

theorem payment_idempotent_witness:
  "(\<exists>op. CreatePayment wit_cfg wit_paid ''u1'' ''o1'' ''pay-key-1'' wit_settled = (Inr (op, False), wit_settled) \<and> po_PaymentID op = ''p1'')
   \<and> CreatePayment wit_cfg wit_paid ''u1'' ''o22'' ''pay-key-1'' wit_settled = (Inl BIdempotencyConflict, wit_settled)"
proof -
  from wit_create_payment obtain op where o: "bill_CreatePayment ''p1'' ''key1'' 2 2 wit_payment ''yookassa'' 1000 wit_ordered
      = (Inr (op, True), wit_requested)" "po_PaymentID op = ''p1''" by blast
  have steps: "bill_step\<^sup>*\<^sup>* wit_requested wit_settled"
    by (rule rtranclp_trans [OF _ wit_settles], unfold wit_pending_def)
      (intro wit_run rtranclp.rtrancl_refl)
  have in1: "cpi_UserID wit_payment = ''u1''" "cpi_IdempotencyKey wit_payment = ''pay-key-1''"
    "cpi_RequestHash wit_payment = hashParts wit_cfg [''u1'', ''o1'']" by (simp_all add: wit_payment_def)
  have nf: "bv_fault wit_paid 0 = NoFault" by (simp add: wit_paid_def wit_env_def)
  have neq: "hashParts wit_cfg [''u1'', ''o22''] \<noteq> hashParts wit_cfg [''u1'', ''o1'']" by code_simp
  from payment_idempotent [OF wit_reachable(1) o(1) in1 steps nf, of "''o22''"] neq o(2) show ?thesis by auto
qed

theorem settled_only_by_provider_witness:
  "\<exists>q. b_payments wit_settled = [q] \<and> q \<notin> set (b_payments wit_pending) \<and> confirmed wit_cfg wit_paid q"
proof -
  from wit_statuses(2) obtain q where q: "b_payments wit_settled = [q]" "pr_status q = PaymentSucceeded" by auto
  with wit_statuses(1) have "q \<notin> set (b_payments wit_pending)" by auto
  with settled_only_by_provider [OF wit_reachable(3), of wit_settled wit_cfg wit_paid _ _ _ q] q show ?thesis
    by (auto simp: wit_settled_def settled_payment_def)
qed

theorem failed_payment_retried_forever_witness:
  "map (\<lambda>w. (wh_state w, wh_last_error w)) (b_webhooks (snd (processWebhook wit_cfg wit_paid wit_failed))) = [(WhPending, Some ''apply_failed'')]
   \<and> same_money wit_failed (snd (processWebhook wit_cfg wit_paid wit_failed))"
proof -
  define n where "n = wit_webhook\<lparr>wn_Attempts := 1\<rparr>"
  define s where "s = snd (ClaimWebhook 100 60 [] wit_failed)"
  have "fst (ClaimWebhook 100 60 [] wit_failed) = Inr (Some n)" unfolding n_def by code_simp
  then have claim: "ClaimWebhook (bv_now wit_paid) (bc_lease wit_cfg) (bv_locked wit_paid) wit_failed = (Inr (Some n), s)"
    by (simp add: s_def wit_paid_def wit_env_def wit_cfg_def prod_eq_iff)
  have op: "map_option po_Status (find_operation (\<lambda>p. pr_provider_payment_id p = Some ''yk1'') wit_failed) = Some PaymentFailed"
    by code_simp
  then obtain op where op: "find_operation (\<lambda>p. pr_provider_payment_id p = Some ''yk1'') wit_failed = Some op" "po_Status op = PaymentFailed"
    by auto
  define pp where "pp = wit_provider\<lparr>prv_Status := ''succeeded'', prv_CapturedAt := Some 90\<rparr>"
  have get: "provider_GetPayment ''yk1'' (bv_get wit_paid) = Inr pp" unfolding pp_def by code_simp
  have "map_option (\<lambda>op. validateProviderPayment wit_cfg op (wit_provider\<lparr>prv_Status := ''succeeded'', prv_CapturedAt := Some 90\<rparr>) False)
      (find_operation (\<lambda>p. pr_provider_payment_id p = Some ''yk1'') wit_failed) = Some True" by code_simp
  then have v: "validateProviderPayment wit_cfg op pp False" using op by (simp add: pp_def)
  have nf: "bv_fault wit_paid i = NoFault" for i by (simp add: wit_paid_def wit_env_def)
  have n: "wn_ProviderObjectID n = ''yk1''" "wn_InboxID n = ''w1''" by (simp_all add: n_def wit_webhook_def)
  have pp: "prv_Status pp = ''succeeded''" "prv_CapturedAt pp = Some 90" by (simp_all add: pp_def)
  note res = failed_payment_retried_forever [OF wit_reachable(4) nf claim, unfolded n, OF op get v pp]
  have "map wh_id (b_webhooks (snd (processWebhook wit_cfg wit_paid wit_failed))) = [''w1'']" by code_simp
  with res show ?thesis by auto
qed

end
