(* ===== verification/Node_Domain.thy ===== *)
theory Node_Domain
  imports Prelude "HOL-Library.AList" "HOL-Library.Multiset"
begin

text \<open>
  The node agent's data (\<open>services/node-agent/internal/domain/types.go\<close>), the checks of
  \<open>internal/application/service.go\<close> and the rendering of the Xray configuration,
  \<open>internal/xray/render.go\<close>.

  A Go map is an association list with distinct keys, in the order the next iteration happens
  to visit it; \<open>render_order_free\<close> shows that this order is not visible in the rendered
  configuration. The configuration is the JSON value \<open>json.MarshalIndent\<close> is given; its text
  is not modelled.
\<close>

section \<open>Data\<close>

datatype json = JString string | JInt int | JBool bool | JArray "json list" | JObject "(string \<times> json) list"

record DesiredState =
  ds_OperationID :: string
  ds_CredentialID :: string
  ds_DesiredRevision :: int
  ds_State :: string
  ds_Protocol :: string
  ds_VLESSClientUUID :: string

record ApplyResult =
  ar_OperationID :: string
  ar_CredentialID :: string
  ar_DesiredRevision :: int
  ar_State :: string
  ar_ConfigRevision :: int
  ar_AppliedAt :: instant

record NodeCredential =
  nc_CredentialID :: string
  nc_DesiredRevision :: int
  nc_State :: string
  nc_Protocol :: string
  nc_VLESSClientUUID :: string

record Snapshot =
  sn_NodeID :: string
  sn_ConfigRevision :: int
  sn_Credentials :: "(string \<times> NodeCredential) list"

record JournalEntry =
  je_OperationID :: string
  je_RequestHash :: string
  je_Result :: ApplyResult
  je_CompletedAt :: instant

type_synonym journal = "(string \<times> JournalEntry) list"

record CredentialState =
  cs_CredentialID :: string
  cs_DesiredRevision :: int
  cs_State :: string
  cs_ConfigRevision :: int

section \<open>Checks\<close>

definition node_uuidPattern :: "string \<Rightarrow> bool" where
  "node_uuidPattern = match_runs
     [(is_hex, 8), ((=) CHR ''-'', 1), (is_hex, 4), ((=) CHR ''-'', 1), (is_hex, 4), ((=) CHR ''-'', 1),
      (\<lambda>c. c \<in> set ''89abAB'', 1), (is_hex, 3), ((=) CHR ''-'', 1), (is_hex, 12)]"

definition validateDesired :: "DesiredState \<Rightarrow> bool" where
  "validateDesired desired \<longleftrightarrow>
     \<not> (\<not> node_uuidPattern (ds_OperationID desired) \<or> \<not> node_uuidPattern (ds_CredentialID desired)
        \<or> ds_DesiredRevision desired < 1
        \<or> (ds_State desired \<noteq> ''present'' \<and> ds_State desired \<noteq> ''absent''))
     \<and> (if ds_State desired = ''present''
        then \<not> (ds_Protocol desired \<noteq> ''vless_reality'' \<or> \<not> node_uuidPattern (ds_VLESSClientUUID desired))
        else \<not> (ds_Protocol desired \<noteq> [] \<or> ds_VLESSClientUUID desired \<noteq> []))"

definition validateSnapshot :: "Snapshot \<Rightarrow> bool" where
  "validateSnapshot snapshot \<longleftrightarrow>
     \<not> (\<not> node_uuidPattern (sn_NodeID snapshot) \<or> sn_ConfigRevision snapshot < 0)
     \<and> list_all (\<lambda>(credentialID, credential).
          \<not> (nc_CredentialID credential \<noteq> credentialID
             \<or> \<not> validateDesired \<lparr>ds_OperationID = ''00000000-0000-4000-8000-000000000000'', ds_CredentialID = credentialID,
                  ds_DesiredRevision = nc_DesiredRevision credential, ds_State = nc_State credential,
                  ds_Protocol = nc_Protocol credential, ds_VLESSClientUUID = nc_VLESSClientUUID credential\<rparr>))
        (sn_Credentials snapshot)"

definition sameDesired :: "NodeCredential \<Rightarrow> DesiredState \<Rightarrow> bool" where
  "sameDesired current desired \<longleftrightarrow> nc_State current = ds_State desired \<and> nc_Protocol current = ds_Protocol desired
     \<and> nc_VLESSClientUUID current = ds_VLESSClientUUID desired"

section \<open>Rendering\<close>

record RenderConfig =
  rc_ListenAddress :: string
  rc_ListenPort :: int
  rc_RealityTarget :: string
  rc_ServerNames :: "string list"
  rc_RealityPrivateKey :: string
  rc_ShortIDs :: "string list"

definition render_config_ok :: "RenderConfig \<Rightarrow> bool" where
  "render_config_ok cfg \<longleftrightarrow>
     \<not> (rc_ListenAddress cfg = [] \<or> rc_ListenPort cfg < 1 \<or> rc_ListenPort cfg > 65535 \<or> rc_RealityTarget cfg = []
        \<or> length (rc_ServerNames cfg) = 0 \<or> length (rc_RealityPrivateKey cfg) \<noteq> 43 \<or> length (rc_ShortIDs cfg) = 0)"

definition present_ids :: "Snapshot \<Rightarrow> string list" where
  "present_ids snapshot = map fst (filter (\<lambda>(credentialID, credential). nc_State credential = ''present'') (sn_Credentials snapshot))"

definition client_json :: "NodeCredential \<Rightarrow> json" where
  "client_json credential = JObject
     [(''id'', JString (nc_VLESSClientUUID credential)), (''level'', JInt 0), (''flow'', JString ''xtls-rprx-vision'')]"

fun render_clients :: "Snapshot \<Rightarrow> string list \<Rightarrow> json list option" where
  "render_clients snapshot [] = Some []"
| "render_clients snapshot (credentialID # ids) =
     (case map_of (sn_Credentials snapshot) credentialID of
        None \<Rightarrow> None
      | Some credential \<Rightarrow>
          if nc_Protocol credential \<noteq> ''vless_reality'' \<or> nc_VLESSClientUUID credential = [] then None
          else map_option ((#) (client_json credential)) (render_clients snapshot ids))"

definition config_json :: "RenderConfig \<Rightarrow> json list \<Rightarrow> json" where
  "config_json cfg clients = JObject
     [(''log'', JObject [(''access'', JString ''none''), (''dnsLog'', JBool False), (''loglevel'', JString ''warning'')]),
      (''inbounds'', JArray [JObject
        [(''listen'', JString (rc_ListenAddress cfg)), (''port'', JInt (rc_ListenPort cfg)), (''protocol'', JString ''vless''),
         (''tag'', JString ''vless-reality''),
         (''settings'', JObject [(''clients'', JArray clients), (''decryption'', JString ''none'')]),
         (''streamSettings'', JObject
           [(''network'', JString ''raw''), (''security'', JString ''reality''),
            (''realitySettings'', JObject
              [(''show'', JBool False), (''target'', JString (rc_RealityTarget cfg)), (''xver'', JInt 0),
               (''serverNames'', JArray (map JString (rc_ServerNames cfg))),
               (''privateKey'', JString (rc_RealityPrivateKey cfg)),
               (''shortIds'', JArray (map JString (rc_ShortIDs cfg)))])])]]),
      (''outbounds'', JArray
        [JObject [(''protocol'', JString ''freedom''), (''tag'', JString ''direct'')],
         JObject [(''protocol'', JString ''blackhole''), (''tag'', JString ''blocked'')]])]"

definition Render :: "Snapshot \<Rightarrow> RenderConfig \<Rightarrow> json option" where
  "Render snapshot cfg =
     (if \<not> render_config_ok cfg then None
      else map_option (config_json cfg) (render_clients snapshot (sort (present_ids snapshot))))"

definition private_key_char :: "char \<Rightarrow> bool" where
  "private_key_char c \<longleftrightarrow> \<not> (\<not> char_between CHR ''A'' CHR ''Z'' c \<and> \<not> char_between CHR ''a'' CHR ''z'' c
     \<and> \<not> char_between CHR ''0'' CHR ''9'' c \<and> c \<noteq> CHR ''_'' \<and> c \<noteq> CHR ''-'')"

definition LoadPrivateKey :: "string option \<Rightarrow> string option" where
  "LoadPrivateKey contents = (case contents of
       None \<Rightarrow> None
     | Some text \<Rightarrow>
         let key = TrimSpace text
         in if length key \<noteq> 43 \<or> \<not> list_all private_key_char key then None else Some key)"

section \<open>What is rendered\<close>

definition client_of :: "json \<Rightarrow> string option" where
  "client_of j = (case j of JObject ((k, JString u) # _) \<Rightarrow> if k = ''id'' then Some u else None | _ \<Rightarrow> None)"

lemma render_clients_Some:
  assumes "\<And>i. i \<in> set ids \<Longrightarrow> \<exists>c. map_of (sn_Credentials sn) i = Some c \<and> nc_Protocol c = ''vless_reality'' \<and> nc_VLESSClientUUID c \<noteq> []"
  shows "render_clients sn ids = Some (map (\<lambda>i. client_json (the (map_of (sn_Credentials sn) i))) ids)"
  using assms by (induction ids) fastforce+

lemma present_in:
  assumes "i \<in> set (present_ids sn)" and "distinct (map fst (sn_Credentials sn))"
  shows "\<exists>c. map_of (sn_Credentials sn) i = Some c \<and> nc_State c = ''present'' \<and> (i, c) \<in> set (sn_Credentials sn)"
  using assms by (auto simp: present_ids_def)

lemma valid_uuid_nonempty: "node_uuidPattern u \<Longrightarrow> u \<noteq> []"
  unfolding node_uuidPattern_def by (drule match_runs_length) auto

text \<open>A valid snapshot always renders, to one client per present credential in the order of the identifiers.\<close>

lemma Render_valid:
  assumes v: "validateSnapshot sn" and d: "distinct (map fst (sn_Credentials sn))" and c: "render_config_ok cfg"
  shows "Render sn cfg = Some (config_json cfg
    (map (\<lambda>i. client_json (the (map_of (sn_Credentials sn) i))) (sort (present_ids sn))))"
proof -
  have "\<exists>c. map_of (sn_Credentials sn) i = Some c \<and> nc_Protocol c = ''vless_reality'' \<and> nc_VLESSClientUUID c \<noteq> []"
    if "i \<in> set (sort (present_ids sn))" for i
  proof -
    from that present_in [OF _ d, of i] obtain c where
      c: "map_of (sn_Credentials sn) i = Some c" "nc_State c = ''present''" "(i, c) \<in> set (sn_Credentials sn)" by auto
    with v have "nc_Protocol c = ''vless_reality''" "node_uuidPattern (nc_VLESSClientUUID c)"
      by (auto simp: validateSnapshot_def list_all_iff validateDesired_def split: if_splits)
    with c(1) valid_uuid_nonempty show ?thesis by blast
  qed
  then have "render_clients sn (sort (present_ids sn))
      = Some (map (\<lambda>i. client_json (the (map_of (sn_Credentials sn) i))) (sort (present_ids sn)))"
    by (intro render_clients_Some)
  with c show ?thesis by (simp add: Render_def)
qed

lemma present_ids_mset:
  "mset (sn_Credentials sn) = mset (sn_Credentials sn') \<Longrightarrow> sort (present_ids sn) = sort (present_ids sn')"
  by (rule properties_for_sort) (auto simp: present_ids_def)

lemma render_clients_map_of:
  "map_of (sn_Credentials sn) = map_of (sn_Credentials sn') \<Longrightarrow> render_clients sn ids = render_clients sn' ids"
  by (induction ids) (auto split: option.splits)

lemma render_mset:
  assumes "distinct (map fst (sn_Credentials sn))" and "mset (sn_Credentials sn) = mset (sn_Credentials sn')"
  shows "Render sn cfg = Render sn' cfg"
proof -
  have "mset (map fst (sn_Credentials sn)) = mset (map fst (sn_Credentials sn'))" using assms(2) by simp
  then have "distinct (map fst (sn_Credentials sn'))" using assms(1) mset_eq_imp_distinct_iff by blast
  moreover have "set (sn_Credentials sn) = set (sn_Credentials sn')" using assms(2) by (rule mset_eq_setD)
  ultimately have "map_of (sn_Credentials sn) = map_of (sn_Credentials sn')" using assms(1) map_of_inject_set by blast
  from render_clients_map_of [OF this, of "sort (present_ids sn')"] present_ids_mset [OF assms(2)]
  show ?thesis by (simp add: Render_def)
qed

section \<open>The rendered configuration is determined by the desired state\<close>

text \<open>Two renderings of the same desired state are equal, whatever order the iteration over
  Go's map takes, and a valid desired state renders to one client per present credential, in
  the order of the credential identifiers, with that credential's client id and no other client.\<close>
theorem render_order_free:
  assumes "validateSnapshot sn" and "distinct (map fst (sn_Credentials sn))" and "render_config_ok cfg"
    and "mset (sn_Credentials sn) = mset (sn_Credentials sn')"
  shows "Render sn' cfg = Render sn cfg \<and> Render sn cfg = Some (config_json cfg
    (map (\<lambda>i. client_json (the (map_of (sn_Credentials sn) i))) (sort (present_ids sn))))"
  using Render_valid [OF assms(1-3)] render_mset [OF assms(2,4), of cfg] by simp

definition sample_credential :: "string \<Rightarrow> string \<Rightarrow> NodeCredential" where
  "sample_credential i state = \<lparr>nc_CredentialID = i, nc_DesiredRevision = 1, nc_State = state,
     nc_Protocol = (if state = ''present'' then ''vless_reality'' else []),
     nc_VLESSClientUUID = (if state = ''present'' then ''aaaaaaaa-0000-4000-8000-00000000000'' @ [last i] else [])\<rparr>"

definition sample_snapshot :: "string list \<Rightarrow> Snapshot" where
  "sample_snapshot ids = \<lparr>sn_NodeID = ''00000000-0000-4000-8000-000000000009'', sn_ConfigRevision = 2,
     sn_Credentials = map (\<lambda>i. (i, sample_credential i (if last i = CHR ''3'' then ''absent'' else ''present''))) ids\<rparr>"

definition sample_ids :: "string list" where
  "sample_ids = [''00000000-0000-4000-8000-000000000001'', ''00000000-0000-4000-8000-000000000002'', ''00000000-0000-4000-8000-000000000003'']"

definition sample_render :: RenderConfig where
  "sample_render = \<lparr>rc_ListenAddress = ''0.0.0.0'', rc_ListenPort = 443, rc_RealityTarget = ''example.com:443'',
     rc_ServerNames = [''example.com''], rc_RealityPrivateKey = replicate 43 CHR ''A'', rc_ShortIDs = [''ab'']\<rparr>"

theorem render_order_free_witness:
  "Render (sample_snapshot (rev sample_ids)) sample_render = Render (sample_snapshot sample_ids) sample_render
   \<and> map_option (\<lambda>_. present_ids (sample_snapshot sample_ids)) (Render (sample_snapshot sample_ids) sample_render)
     = Some (take 2 sample_ids)"
proof -
  have v: "validateSnapshot (sample_snapshot sample_ids)" by code_simp
  have d: "distinct (map fst (sn_Credentials (sample_snapshot sample_ids)))" by code_simp
  have c: "render_config_ok sample_render" by code_simp
  have m: "mset (sn_Credentials (sample_snapshot sample_ids)) = mset (sn_Credentials (sample_snapshot (rev sample_ids)))"
    by (simp add: sample_snapshot_def)
  have p: "present_ids (sample_snapshot sample_ids) = take 2 sample_ids" by code_simp
  from render_order_free [OF v d c m] p show ?thesis by simp
qed

end
