(* ===== verification/Node_Xray.thy ===== *)
theory Node_Xray
  imports Node_Domain
begin

text \<open>
  The two managers of the Xray process: \<open>Manager\<close> owns the process
  (\<open>services/node-agent/internal/xray/manager.go\<close>), \<open>SystemdManager\<close> drives a systemd unit
  (\<open>systemd_manager.go\<close>). Both install a candidate configuration, and put the last known good
  one back when the process does not come up with it.

  The world is the configuration directory (\<open>config.json\<close> and \<open>last-known-good.json\<close>; the
  candidate is a value) and the process: the configuration file content it was started with
  and whether it is alive. \<open>xray_env\<close> has the outcomes of system calls and child processes,
  by the number of the call within the operation. Contexts that expire are failures of the
  calls they cut short. The contract is the locale \<open>xray_manager\<close>.
\<close>

section \<open>The world\<close>

record xray_process =
  xp_config :: "json option"
  xp_alive :: bool

record xray_world =
  xw_current :: "json option"
  xw_backup :: "json option"
  xw_process :: "xray_process option"

datatype wait_event = CtxDone | Deadline bool | Tick bool

record xray_env =
  xv_write_ok :: bool
  xv_validate :: "json \<Rightarrow> bool"
  xv_stop_ok :: "nat \<Rightarrow> bool"
  xv_rename_ok :: "nat \<Rightarrow> bool"
  xv_remove_ok :: "nat \<Rightarrow> bool"
  xv_stat_ok :: bool
  xv_start_ok :: "nat \<Rightarrow> bool"
  xv_up :: "nat \<Rightarrow> json option \<Rightarrow> bool"
  xv_control_ok :: "nat \<Rightarrow> bool"
  xv_waits :: "nat \<Rightarrow> wait_event list"
  xv_after_failure :: "nat \<Rightarrow> xray_process option"

datatype reload_outcome = Reload_success | Reload_error | Validation_error | Rollback_restored | Rollback_failed

text \<open>Files: \<open>rename\<close> needs its source, \<open>remove\<close> of a missing file does nothing.\<close>

definition rename_to_backup :: "xray_env \<Rightarrow> nat \<Rightarrow> xray_world \<Rightarrow> bool \<times> xray_world" where
  "rename_to_backup env i w =
     (if xv_rename_ok env i \<and> xw_current w \<noteq> None then (True, w\<lparr>xw_backup := xw_current w, xw_current := None\<rparr>) else (False, w))"

definition rename_to_current :: "xray_env \<Rightarrow> nat \<Rightarrow> xray_world \<Rightarrow> bool \<times> xray_world" where
  "rename_to_current env i w =
     (if xv_rename_ok env i \<and> xw_backup w \<noteq> None then (True, w\<lparr>xw_current := xw_backup w, xw_backup := None\<rparr>) else (False, w))"

definition install_candidate :: "xray_env \<Rightarrow> nat \<Rightarrow> json \<Rightarrow> xray_world \<Rightarrow> bool \<times> xray_world" where
  "install_candidate env i candidate w =
     (if xv_rename_ok env i then (True, w\<lparr>xw_current := Some candidate\<rparr>) else (False, w))"

definition remove_backup :: "xray_env \<Rightarrow> nat \<Rightarrow> xray_world \<Rightarrow> xray_world" where
  "remove_backup env i w = (if xv_remove_ok env i then w\<lparr>xw_backup := None\<rparr> else w)"

definition remove_current :: "xray_env \<Rightarrow> nat \<Rightarrow> xray_world \<Rightarrow> xray_world" where
  "remove_current env i w = (if xv_remove_ok env i then w\<lparr>xw_current := None\<rparr> else w)"

definition writeCandidate :: "xray_env \<Rightarrow> RenderConfig \<Rightarrow> Snapshot \<Rightarrow> json option" where
  "writeCandidate env cfg snapshot = (case Render snapshot cfg of None \<Rightarrow> None | Some contents \<Rightarrow> if xv_write_ok env then Some contents else None)"

section \<open>The manager that owns the process\<close>

definition stopLocked :: "xray_env \<Rightarrow> nat \<Rightarrow> xray_world \<Rightarrow> bool \<times> xray_world" where
  "stopLocked env i w = (case xw_process w of
       None \<Rightarrow> (True, w)
     | Some p \<Rightarrow>
         if \<not> xp_alive p then (True, w\<lparr>xw_process := None\<rparr>)
         else (xv_stop_ok env i, w\<lparr>xw_process := None\<rparr>))"

definition startLocked :: "xray_env \<Rightarrow> nat \<Rightarrow> xray_world \<Rightarrow> bool \<times> xray_world" where
  "startLocked env i w =
     (if xv_start_ok env i
      then (True, w\<lparr>xw_process := Some \<lparr>xp_config = xw_current w, xp_alive = xv_up env i (xw_current w)\<rparr>\<rparr>)
      else (False, w))"

definition waitHealthyLocked :: "xray_world \<Rightarrow> bool" where
  "waitHealthyLocked w = (case xw_process w of None \<Rightarrow> False | Some p \<Rightarrow> xp_alive p)"

definition restoreCurrentLocked :: "xray_env \<Rightarrow> nat \<Rightarrow> xray_world \<Rightarrow> bool \<times> xray_world" where
  "restoreCurrentLocked env i w =
     (case startLocked env i w of (False, w1) \<Rightarrow> (False, w1) | (True, w1) \<Rightarrow> (waitHealthyLocked w1, w1))"

definition restore_outcome :: "bool \<times> xray_world \<Rightarrow> reload_outcome \<times> xray_world" where
  "restore_outcome r = (if fst r then Rollback_restored else Rollback_failed, snd r)"

definition mgr_Start :: "RenderConfig \<Rightarrow> xray_env \<Rightarrow> Snapshot \<Rightarrow> xray_world \<Rightarrow> bool \<times> xray_world" where
  "mgr_Start cfg env snapshot w =
     (case writeCandidate env cfg snapshot of
        None \<Rightarrow> (False, w)
      | Some candidate \<Rightarrow>
          if \<not> xv_validate env candidate then (False, w)
          else case install_candidate env 0 candidate w of
              (False, w1) \<Rightarrow> (False, w1)
            | (True, w1) \<Rightarrow>
                (case startLocked env 0 w1 of
                   (False, w2) \<Rightarrow> (False, w2)
                 | (True, w2) \<Rightarrow>
                     if \<not> waitHealthyLocked w2 then (False, snd (stopLocked env 0 w2)) else (True, w2)))"

definition mgr_apply :: "RenderConfig \<Rightarrow> xray_env \<Rightarrow> Snapshot \<Rightarrow> xray_world \<Rightarrow> reload_outcome \<times> xray_world" where
  "mgr_apply cfg env snapshot w =
     (case writeCandidate env cfg snapshot of
        None \<Rightarrow> (Reload_error, w)
      | Some candidate \<Rightarrow>
          if \<not> xv_validate env candidate then (Validation_error, w)
          else case stopLocked env 0 w of
              (False, w1) \<Rightarrow> restore_outcome (restoreCurrentLocked env 0 w1)
            | (True, w1) \<Rightarrow>
                (case rename_to_backup env 0 (remove_backup env 0 w1) of
                   (False, w2) \<Rightarrow> restore_outcome (restoreCurrentLocked env 0 w2)
                 | (True, w2) \<Rightarrow>
                     (case install_candidate env 1 candidate w2 of
                        (False, w3) \<Rightarrow> restore_outcome (restoreCurrentLocked env 0 (snd (rename_to_current env 2 w3)))
                      | (True, w3) \<Rightarrow>
                          (case startLocked env 1 w3 of (started, w4) \<Rightarrow>
                             if started \<and> waitHealthyLocked w4 then (Reload_success, remove_backup env 1 w4)
                             else
                               (case rename_to_current env 3 (remove_current env 2 (snd (stopLocked env 1 w4))) of
                                  (False, w5) \<Rightarrow> (Rollback_failed, w5)
                                | (True, w5) \<Rightarrow> restore_outcome (restoreCurrentLocked env 2 w5))))))"

section \<open>The manager of a systemd unit\<close>

fun wait_loop :: "wait_event list \<Rightarrow> bool" where
  "wait_loop [] = False"
| "wait_loop (CtxDone # es) = False"
| "wait_loop (Deadline status # es) = status"
| "wait_loop (Tick status # es) = (if status then True else wait_loop es)"

text \<open>\<open>control reload\<close> followed by \<open>waitHealthy\<close>: the unit runs the current file when both succeed.\<close>

definition reload_unit :: "xray_env \<Rightarrow> nat \<Rightarrow> xray_world \<Rightarrow> bool \<times> xray_world" where
  "reload_unit env i w =
     (if xv_control_ok env i \<and> wait_loop (xv_waits env i)
      then (True, w\<lparr>xw_process := Some \<lparr>xp_config = xw_current w, xp_alive = True\<rparr>\<rparr>)
      else (False, w\<lparr>xw_process := xv_after_failure env i\<rparr>))"

definition sd_install :: "RenderConfig \<Rightarrow> xray_env \<Rightarrow> Snapshot \<Rightarrow> bool \<Rightarrow> xray_world \<Rightarrow> reload_outcome \<times> xray_world" where
  "sd_install cfg env snapshot keepPrevious w =
     (case writeCandidate env cfg snapshot of
        None \<Rightarrow> (Reload_error, w)
      | Some candidate \<Rightarrow>
          if \<not> xv_validate env candidate then (Validation_error, w)
          else if \<not> xv_stat_ok env then (Reload_error, w)
          else
            let hadCurrent = (xw_current w \<noteq> None);
                kept = (if hadCurrent then rename_to_backup env 0 (remove_backup env 0 w) else (True, w))
            in case kept of
                 (False, w1) \<Rightarrow> (Reload_error, w1)
               | (True, w1) \<Rightarrow>
                   (case install_candidate env 1 candidate w1 of
                      (False, w2) \<Rightarrow>
                        if hadCurrent then
                          (case rename_to_current env 2 w2 of
                             (False, w3) \<Rightarrow> (Rollback_failed, w3)
                           | (True, w3) \<Rightarrow> (Rollback_restored, w3))
                        else (Reload_error, w2)
                    | (True, w2) \<Rightarrow>
                        (case reload_unit env 0 w2 of
                           (True, w3) \<Rightarrow> (Reload_success, if keepPrevious then w3 else remove_backup env 1 w3)
                         | (False, w3) \<Rightarrow>
                             let w4 = remove_current env 2 w3
                             in if \<not> hadCurrent then (Rollback_failed, w4)
                                else (case rename_to_current env 3 w4 of
                                        (False, w5) \<Rightarrow> (Rollback_failed, w5)
                                      | (True, w5) \<Rightarrow> restore_outcome (reload_unit env 1 w5)))))"

definition sd_Start :: "RenderConfig \<Rightarrow> xray_env \<Rightarrow> Snapshot \<Rightarrow> xray_world \<Rightarrow> bool \<times> xray_world" where
  "sd_Start cfg env snapshot w = (case sd_install cfg env snapshot False w of (outcome, w1) \<Rightarrow> (outcome = Reload_success, w1))"

definition sd_Apply :: "RenderConfig \<Rightarrow> xray_env \<Rightarrow> Snapshot \<Rightarrow> xray_world \<Rightarrow> reload_outcome \<times> xray_world" where
  "sd_Apply cfg env snapshot w = sd_install cfg env snapshot True w"

section \<open>The contract of a manager\<close>

text \<open>
  The world serves a desired state: the configuration rendered from it is installed, and the
  process was started from that configuration and is alive.
\<close>

definition serves :: "RenderConfig \<Rightarrow> xray_world \<Rightarrow> Snapshot \<Rightarrow> bool" where
  "serves cfg w snapshot \<longleftrightarrow> (\<exists>c. Render snapshot cfg = Some c \<and> xw_current w = Some c
     \<and> xw_process w = Some \<lparr>xp_config = Some c, xp_alive = True\<rparr>)"

text \<open>Xray exits when its configuration file is missing.\<close>

definition needs_config :: "xray_env \<Rightarrow> bool" where
  "needs_config env \<longleftrightarrow> (\<forall>i. \<not> xv_up env i None)"

locale xray_manager =
  fixes apply_op :: "'e \<Rightarrow> Snapshot \<Rightarrow> 'w \<Rightarrow> reload_outcome \<times> 'w"
    and start_op :: "'e \<Rightarrow> Snapshot \<Rightarrow> 'w \<Rightarrow> bool \<times> 'w"
    and serving :: "'w \<Rightarrow> Snapshot \<Rightarrow> bool"
    and env_ok :: "'e \<Rightarrow> bool"
  assumes apply_success: "env_ok e \<Longrightarrow> apply_op e sn w = (Reload_success, w') \<Longrightarrow> serving w' sn"
    and apply_restores: "env_ok e \<Longrightarrow> apply_op e sn w = (out, w') \<Longrightarrow> out \<noteq> Reload_success \<Longrightarrow> out \<noteq> Rollback_failed \<Longrightarrow>
      serving w sn0 \<Longrightarrow> serving w' sn0"
    and start_success: "env_ok e \<Longrightarrow> start_op e sn w = (True, w') \<Longrightarrow> serving w' sn"

lemmas file_ops = rename_to_backup_def rename_to_current_def install_candidate_def remove_backup_def remove_current_def

lemma writeCandidate_Some: "writeCandidate env cfg sn = Some c \<Longrightarrow> Render sn cfg = Some c"
  by (auto simp: writeCandidate_def split: option.splits if_splits)

lemma mgr_apply_success:
  assumes "mgr_apply cfg env sn w = (Reload_success, w')"
  shows "serves cfg w' sn"
  using assms unfolding mgr_apply_def
  by (auto simp: restore_outcome_def file_ops startLocked_def waitHealthyLocked_def serves_def split: option.splits if_splits prod.splits bool.splits
      dest: writeCandidate_Some)

lemmas process_ops = restore_outcome_def restoreCurrentLocked_def startLocked_def stopLocked_def waitHealthyLocked_def reload_unit_def
lemmas op_splits = option.splits if_splits prod.splits bool.splits

lemma restore_serves:
  assumes "needs_config env" and "restore_outcome (restoreCurrentLocked env i w) = (out, w')" and "out \<noteq> Rollback_failed"
    and "xw_current w = None \<or> xw_current w = Some c" and "Render sn cfg = Some c"
  shows "serves cfg w' sn"
  using assms by (auto simp: process_ops needs_config_def serves_def split: if_splits)

lemma mgr_apply_restores:
  assumes env: "needs_config env" and run: "mgr_apply cfg env sn w = (out, w')" and out: "out \<noteq> Reload_success" "out \<noteq> Rollback_failed"
    and sv: "serves cfg w sn0"
  shows "serves cfg w' sn0"
proof -
  from sv obtain c where c: "Render sn0 cfg = Some c" "xw_current w = Some c" "xw_process w = Some \<lparr>xp_config = Some c, xp_alive = True\<rparr>"
    by (auto simp: serves_def)
  note restored = restore_serves [OF env _ out(2) _ c(1)]
  let ?w1 = "w\<lparr>xw_process := None\<rparr>" and ?w2 = "w\<lparr>xw_process := None, xw_current := None, xw_backup := Some c\<rparr>"
  consider (early) "writeCandidate env cfg sn = None" | (invalid) cand where "writeCandidate env cfg sn = Some cand" "\<not> xv_validate env cand"
    | (valid) cand where "writeCandidate env cfg sn = Some cand" "xv_validate env cand" by blast
  then show ?thesis
  proof cases
    case (valid cand)
    have stop: "stopLocked env 0 w = (xv_stop_ok env 0, ?w1)" using c(3) by (simp add: stopLocked_def)
    have move: "rename_to_backup env 0 (remove_backup env 0 ?w1) = (if xv_rename_ok env 0 then (True, ?w2) else (False, remove_backup env 0 ?w1))"
      using c(2) by (simp add: file_ops)
    obtain started w4 where start: "startLocked env 1 (?w2\<lparr>xw_current := Some cand\<rparr>) = (started, w4)" by fastforce
    then have w4: "xw_backup w4 = Some c" by (auto simp: startLocked_def split: if_splits)
    let ?w5 = "remove_current env 2 (snd (stopLocked env 1 w4))"
    have w5: "xw_backup ?w5 = Some c" using w4 by (auto simp: remove_current_def stopLocked_def split: option.splits)
    note eq = run [unfolded mgr_apply_def valid(1) option.case, simplified valid(2) not_True_eq_False if_False stop prod.case]
    consider "\<not> xv_stop_ok env 0" | "xv_stop_ok env 0" "\<not> xv_rename_ok env 0" | "xv_stop_ok env 0" "xv_rename_ok env 0" "\<not> xv_rename_ok env 1"
      | "xv_stop_ok env 0" "xv_rename_ok env 0" "xv_rename_ok env 1" by blast
    then show ?thesis
    proof cases
      case 1
      with eq c(2) show ?thesis by (intro restored [of 0 ?w1]) auto
    next
      case 2
      with eq have "restore_outcome (restoreCurrentLocked env 0 (remove_backup env 0 ?w1)) = (out, w')" by (simp add: move)
      then show ?thesis using c(2) by (intro restored [of 0 "remove_backup env 0 ?w1"]) (simp_all add: remove_backup_def)
    next
      case 3
      with eq show ?thesis by (intro restored [of 0 "snd (rename_to_current env 2 ?w2)"]) (auto simp: move install_candidate_def rename_to_current_def)
    next
      case 4
      with eq out start have "(case rename_to_current env 3 ?w5 of (False, w5) \<Rightarrow> (Rollback_failed, w5)
          | (True, w5) \<Rightarrow> restore_outcome (restoreCurrentLocked env 2 w5)) = (out, w')"
        by (auto simp: move install_candidate_def split: if_splits)
      with out w5 show ?thesis by (intro restored [of 2 "?w5\<lparr>xw_current := Some c, xw_backup := None\<rparr>"])
        (auto simp: rename_to_current_def split: if_splits)
    qed
  qed (use run sv in \<open>simp_all add: mgr_apply_def\<close>)
qed

lemma mgr_Start_success: "mgr_Start cfg env sn w = (True, w') \<Longrightarrow> serves cfg w' sn"
  unfolding mgr_Start_def by (auto simp: process_ops file_ops serves_def split: op_splits dest: writeCandidate_Some)

lemma sd_install_success: "sd_install cfg env sn keep w = (Reload_success, w') \<Longrightarrow> serves cfg w' sn"
  unfolding sd_install_def Let_def by (auto simp: process_ops file_ops serves_def split: op_splits dest: writeCandidate_Some)

lemma sd_install_restores:
  assumes "sd_install cfg env sn keep w = (out, w')" and "out \<noteq> Reload_success" "out \<noteq> Rollback_failed" and "serves cfg w sn0"
  shows "serves cfg w' sn0"
  using assms unfolding sd_install_def Let_def
  by (auto simp: process_ops file_ops serves_def split: op_splits)

interpretation owned: xray_manager "mgr_apply cfg" "mgr_Start cfg" "serves cfg" needs_config for cfg
  by unfold_locales (auto intro: mgr_apply_success mgr_apply_restores mgr_Start_success)

interpretation unit_manager: xray_manager "sd_Apply cfg" "sd_Start cfg" "serves cfg" "\<lambda>_. True" for cfg
  by unfold_locales (auto simp: sd_Apply_def sd_Start_def split: prod.splits intro: sd_install_success sd_install_restores)

end
