(* ===== verification/Node_Agent.thy ===== *)
theory Node_Agent
  imports Node_Xray
begin

text \<open>
  The node agent's service (\<open>services/node-agent/internal/application/service.go\<close>) over its
  state files (\<open>internal/state/store.go\<close>). \<open>Apply\<close> brings one credential to a desired state:
  the operation journal makes it idempotent, revisions make it monotonic, and the Xray
  process, the state file and the memory move together.

  The manager is an argument of the service, the \<open>apply_op\<close> of an \<open>xray_manager\<close>. Files are
  values: \<open>writeJSONAtomic\<close> either replaces the file or leaves it (the rename is its last
  step). \<open>av_hash\<close> stands for the SHA-256 of the JSON of a request. \<open>SaveJournal\<close> prunes the
  very map the service holds, so its result is the service's journal too; the order in which
  the pruning loop visits the map is \<open>av_iter\<close>.
\<close>

section \<open>State\<close>

datatype agent_error = AErrConflict | AErrStale | AErrXray reload_outcome | AErrPersist "reload_outcome option" | AErrJournal
  | AErrInvalid | AErrLoad | AErrStart

record node_disk =
  nd_snapshot :: "Snapshot option"
  nd_journal :: "journal option"

record 'w agent =
  ag_nodeID :: string
  ag_snapshot :: Snapshot
  ag_journal :: journal
  ag_disk :: node_disk
  ag_world :: 'w

record 'e agent_env =
  av_now :: instant
  av_hash :: "DesiredState \<Rightarrow> string"
  av_iter :: "nat \<Rightarrow> journal \<Rightarrow> journal"
  av_save_snapshot :: bool
  av_save_journal :: bool
  av_xray :: "nat \<Rightarrow> 'e"

section \<open>The state files\<close>

text \<open>
  The scan for the oldest entry, in iteration order: \<open>oldestKey\<close> starts as the empty string,
  and only a strictly older entry replaces it. The loop of \<open>SaveJournal\<close> stops making
  progress only on a journal with an empty key, which no operation writes
  (\<open>prune_journal_length\<close>); there the model stops.
\<close>

fun oldest_key :: "journal \<Rightarrow> journal \<Rightarrow> string \<Rightarrow> string" where
  "oldest_key entries [] oldestKey = oldestKey"
| "oldest_key entries ((key, entry) # rest) oldestKey =
     oldest_key entries rest
       (if oldestKey = [] \<or> (case map_of entries oldestKey of None \<Rightarrow> False | Some b \<Rightarrow> je_CompletedAt entry < je_CompletedAt b)
        then key else oldestKey)"

definition drop_oldest :: "journal \<Rightarrow> journal" where
  "drop_oldest entries = AList.delete (oldest_key entries entries []) entries"

function prune_journal :: "(nat \<Rightarrow> journal \<Rightarrow> journal) \<Rightarrow> nat \<Rightarrow> nat \<Rightarrow> journal \<Rightarrow> journal" where
  "prune_journal iter maxJournal round entries =
     (if length entries > maxJournal \<and> length (drop_oldest (iter round entries)) < length entries
      then prune_journal iter maxJournal (Suc round) (drop_oldest (iter round entries))
      else entries)"
  by pat_completeness auto
termination by (relation "measure (\<lambda>(_, _, _, entries). length entries)") auto

declare prune_journal.simps [simp del]

definition SaveSnapshot :: "bool \<Rightarrow> Snapshot \<Rightarrow> node_disk \<Rightarrow> bool \<times> node_disk" where
  "SaveSnapshot ok snapshot disk = (if ok then (True, disk\<lparr>nd_snapshot := Some snapshot\<rparr>) else (False, disk))"

definition SaveJournal :: "bool \<Rightarrow> (nat \<Rightarrow> journal \<Rightarrow> journal) \<Rightarrow> nat \<Rightarrow> journal \<Rightarrow> node_disk \<Rightarrow> bool \<times> journal \<times> node_disk" where
  "SaveJournal ok iter maxJournal journal disk =
     (let pruned = prune_journal iter maxJournal 0 journal
      in if ok then (True, pruned, disk\<lparr>nd_journal := Some pruned\<rparr>) else (False, pruned, disk))"

definition Load :: "string \<Rightarrow> node_disk \<Rightarrow> (Snapshot \<times> journal) option" where
  "Load nodeID disk =
     (let snapshot = (case nd_snapshot disk of
            None \<Rightarrow> \<lparr>sn_NodeID = nodeID, sn_ConfigRevision = 0, sn_Credentials = []\<rparr> | Some s \<Rightarrow> s)
      in if sn_NodeID snapshot \<noteq> nodeID \<or> sn_ConfigRevision snapshot < 0 then None
         else Some (snapshot, case nd_journal disk of None \<Rightarrow> [] | Some j \<Rightarrow> j))"

section \<open>The service\<close>

definition newResult :: "instant \<Rightarrow> DesiredState \<Rightarrow> int \<Rightarrow> ApplyResult" where
  "newResult now desired configRevision =
     \<lparr>ar_OperationID = ds_OperationID desired, ar_CredentialID = ds_CredentialID desired,
      ar_DesiredRevision = ds_DesiredRevision desired, ar_State = ds_State desired,
      ar_ConfigRevision = configRevision, ar_AppliedAt = now\<rparr>"

definition recordJournal :: "nat \<Rightarrow> 'e agent_env \<Rightarrow> string \<Rightarrow> ApplyResult \<Rightarrow> 'w agent \<Rightarrow> bool \<times> 'w agent" where
  "recordJournal maxJournal env requestHash result a =
     (let entry = \<lparr>je_OperationID = ar_OperationID result, je_RequestHash = requestHash, je_Result = result,
                    je_CompletedAt = ar_AppliedAt result\<rparr>
      in case SaveJournal (av_save_journal env) (av_iter env) maxJournal
                (AList.update (ar_OperationID result) entry (ag_journal a)) (ag_disk a) of
           (True, journal, disk) \<Rightarrow> (True, a\<lparr>ag_journal := journal, ag_disk := disk\<rparr>)
         | (False, journal, disk) \<Rightarrow>
             (False, a\<lparr>ag_journal := AList.delete (ar_OperationID result) journal, ag_disk := disk\<rparr>))"

definition desired_credential :: "DesiredState \<Rightarrow> NodeCredential" where
  "desired_credential desired =
     (let credential = \<lparr>nc_CredentialID = ds_CredentialID desired, nc_DesiredRevision = ds_DesiredRevision desired,
            nc_State = ds_State desired, nc_Protocol = ds_Protocol desired, nc_VLESSClientUUID = ds_VLESSClientUUID desired\<rparr>
      in if ds_State desired = ''absent'' then credential\<lparr>nc_Protocol := [], nc_VLESSClientUUID := []\<rparr> else credential)"

definition next_snapshot :: "DesiredState \<Rightarrow> Snapshot \<Rightarrow> Snapshot" where
  "next_snapshot desired snapshot =
     snapshot\<lparr>sn_ConfigRevision := int64 (sn_ConfigRevision snapshot + 1),
       sn_Credentials := AList.update (ds_CredentialID desired) (desired_credential desired) (sn_Credentials snapshot)\<rparr>"

definition record_result :: "nat \<Rightarrow> 'e agent_env \<Rightarrow> DesiredState \<Rightarrow> 'w agent \<Rightarrow> (agent_error + ApplyResult) \<times> 'w agent" where
  "record_result maxJournal env desired a =
     (let result = newResult (av_now env) desired (sn_ConfigRevision (ag_snapshot a))
      in case recordJournal maxJournal env (av_hash env desired) result a of
           (False, b) \<Rightarrow> (Inl AErrJournal, b)
         | (True, b) \<Rightarrow> (Inr result, b))"

definition agent_Apply :: "('e \<Rightarrow> Snapshot \<Rightarrow> 'w \<Rightarrow> reload_outcome \<times> 'w) \<Rightarrow> nat \<Rightarrow> 'e agent_env \<Rightarrow> DesiredState \<Rightarrow> 'w agent \<Rightarrow>
    (agent_error + ApplyResult) \<times> 'w agent" where
  "agent_Apply xray_Apply maxJournal env desired a =
     (if \<not> validateDesired desired then (Inl AErrConflict, a)
      else case map_of (ag_journal a) (ds_OperationID desired) of
          Some existing \<Rightarrow>
            if je_RequestHash existing \<noteq> av_hash env desired then (Inl AErrConflict, a) else (Inr (je_Result existing), a)
        | None \<Rightarrow>
            let current = map_of (sn_Credentials (ag_snapshot a)) (ds_CredentialID desired);
                older = (case current of None \<Rightarrow> False | Some c \<Rightarrow> ds_DesiredRevision desired < nc_DesiredRevision c);
                same_revision = (case current of None \<Rightarrow> False | Some c \<Rightarrow> ds_DesiredRevision desired = nc_DesiredRevision c)
            in if older then (Inl AErrStale, a)
               else if same_revision then
                 (if \<not> sameDesired (the current) desired then (Inl AErrConflict, a)
                  else record_result maxJournal env desired a)
               else
                 let previous = ag_snapshot a; nxt = next_snapshot desired (ag_snapshot a)
                 in case xray_Apply (av_xray env 0) nxt (ag_world a) of (outcome, w1) \<Rightarrow>
                      if outcome \<noteq> Reload_success then (Inl (AErrXray outcome), a\<lparr>ag_world := w1\<rparr>)
                      else case SaveSnapshot (av_save_snapshot env) nxt (ag_disk a) of
                          (False, disk) \<Rightarrow>
                            (case xray_Apply (av_xray env 1) previous w1 of (undo, w2) \<Rightarrow>
                               (Inl (AErrPersist (if undo \<noteq> Reload_success then Some undo else None)),
                                a\<lparr>ag_world := w2, ag_disk := disk\<rparr>))
                        | (True, disk) \<Rightarrow>
                            record_result maxJournal env desired (a\<lparr>ag_world := w1, ag_disk := disk, ag_snapshot := nxt\<rparr>))"

definition agent_CredentialState :: "'w agent \<Rightarrow> string \<Rightarrow> CredentialState" where
  "agent_CredentialState a credentialID =
     (case map_of (sn_Credentials (ag_snapshot a)) credentialID of
        None \<Rightarrow> \<lparr>cs_CredentialID = credentialID, cs_DesiredRevision = 0, cs_State = ''absent'',
                 cs_ConfigRevision = sn_ConfigRevision (ag_snapshot a)\<rparr>
      | Some credential \<Rightarrow> \<lparr>cs_CredentialID = credentialID, cs_DesiredRevision = nc_DesiredRevision credential,
                 cs_State = nc_State credential, cs_ConfigRevision = sn_ConfigRevision (ag_snapshot a)\<rparr>)"

record NodeStatus =
  st_NodeID :: string
  st_ConfigRevision :: int
  st_ActiveClients :: nat
  st_XrayHealthy :: bool
  st_AgentVersion :: string
  st_XrayVersion :: string

definition active_clients :: "'w agent \<Rightarrow> nat" where
  "active_clients a = length (filter (\<lambda>(_, credential). nc_State credential = ''present'') (sn_Credentials (ag_snapshot a)))"

text \<open>\<open>Healthy\<close> and \<open>Version\<close> of the manager are arguments of \<open>Status\<close>.\<close>

definition agent_Status :: "string \<Rightarrow> bool \<Rightarrow> string \<Rightarrow> 'w agent \<Rightarrow> NodeStatus" where
  "agent_Status agentVersion healthy version a =
     \<lparr>st_NodeID = ag_nodeID a, st_ConfigRevision = sn_ConfigRevision (ag_snapshot a), st_ActiveClients = active_clients a,
      st_XrayHealthy = healthy, st_AgentVersion = agentVersion, st_XrayVersion = version\<rparr>"

definition agent_NewService :: "('e \<Rightarrow> Snapshot \<Rightarrow> 'w \<Rightarrow> bool \<times> 'w) \<Rightarrow> 'e \<Rightarrow> string \<Rightarrow> string \<Rightarrow> node_disk \<Rightarrow> 'w \<Rightarrow>
    agent_error + 'w agent" where
  "agent_NewService xray_Start env nodeID agentVersion disk w =
     (if \<not> node_uuidPattern nodeID \<or> agentVersion = [] then Inl AErrInvalid
      else case Load nodeID disk of
          None \<Rightarrow> Inl AErrLoad
        | Some (snapshot, journal) \<Rightarrow>
            if \<not> validateSnapshot snapshot then Inl AErrInvalid
            else case xray_Start env snapshot w of
                (False, _) \<Rightarrow> Inl AErrStart
              | (True, w1) \<Rightarrow> Inr \<lparr>ag_nodeID = nodeID, ag_snapshot = snapshot, ag_journal = journal, ag_disk = disk, ag_world = w1\<rparr>)"

section \<open>The HTTP handlers\<close>

text \<open>\<open>body\<close> is what \<open>strictDecode\<close> makes of the request body, \<open>None\<close> when it is not one JSON value of the right shape.\<close>

datatype 'a http_reply = HttpError int string | HttpOK 'a

definition node_ApplyDesiredState :: "('e \<Rightarrow> Snapshot \<Rightarrow> 'w \<Rightarrow> reload_outcome \<times> 'w) \<Rightarrow> nat \<Rightarrow> 'e agent_env \<Rightarrow> string \<Rightarrow>
    DesiredState option \<Rightarrow> 'w agent \<Rightarrow> ApplyResult http_reply \<times> 'w agent" where
  "node_ApplyDesiredState xray_Apply maxJournal env path body a =
     (let credentialID = TrimSpace path in
      if \<not> node_uuidPattern credentialID then (HttpError 400 ''invalid_credential_id'', a)
      else case body of
          None \<Rightarrow> (HttpError 400 ''invalid_desired_state'', a)
        | Some desired \<Rightarrow>
            if ds_CredentialID desired \<noteq> credentialID then (HttpError 400 ''invalid_desired_state'', a)
            else case agent_Apply xray_Apply maxJournal env desired a of
                (Inl err, b) \<Rightarrow>
                  (if err = AErrStale then HttpError 409 ''stale_revision''
                   else if err = AErrConflict then HttpError 409 ''operation_conflict''
                   else HttpError 503 ''apply_failed'', b)
              | (Inr result, b) \<Rightarrow> (HttpOK result, b))"

definition node_CredentialState :: "string \<Rightarrow> 'w agent \<Rightarrow> CredentialState http_reply" where
  "node_CredentialState path a =
     (let credentialID = TrimSpace path in
      if \<not> node_uuidPattern credentialID then HttpError 400 ''invalid_credential_id''
      else HttpOK (agent_CredentialState a credentialID))"

definition node_Readiness :: "bool \<Rightarrow> string http_reply" where
  "node_Readiness healthy = (if \<not> healthy then HttpError 503 ''not_ready'' else HttpOK ''ready'')"

section \<open>Pruning the journal\<close>

text \<open>An iteration visits every entry of the map once.\<close>

definition visits_all :: "(nat \<Rightarrow> journal \<Rightarrow> journal) \<Rightarrow> bool" where
  "visits_all iter \<longleftrightarrow> (\<forall>i j. mset (iter i j) = mset j)"

definition journal_ok :: "journal \<Rightarrow> bool" where
  "journal_ok j \<longleftrightarrow> distinct (map fst j) \<and> [] \<notin> fst ` set j"

lemma oldest_key_min:
  assumes "journal_ok entries" and "set rest \<subseteq> set entries" and "k0 = [] \<and> rest \<noteq> [] \<or> (k0, e0) \<in> set entries"
  shows "\<exists>e. (oldest_key entries rest k0, e) \<in> set entries
    \<and> (\<forall>x \<in> set rest. je_CompletedAt e \<le> je_CompletedAt (snd x)) \<and> (k0 \<noteq> [] \<longrightarrow> je_CompletedAt e \<le> je_CompletedAt e0)"
  using assms(2,3)
proof (induction rest arbitrary: k0 e0)
  case Nil
  with assms(1) show ?case by (auto simp: journal_ok_def)
next
  case (Cons x rest)
  obtain key entry where x: "x = (key, entry)" by force
  with Cons.prems(1) have in1: "(key, entry) \<in> set entries" by simp
  with assms(1) have "key \<noteq> []" by (force simp: journal_ok_def)
  have look: "map_of entries k0 = Some e0" if "k0 \<noteq> []" using that Cons.prems(2) assms(1) by (auto simp: journal_ok_def)
  show ?case
  proof (cases "k0 = [] \<or> je_CompletedAt entry < je_CompletedAt e0")
    case True
    then have eq: "oldest_key entries (x # rest) k0 = oldest_key entries rest key" using look by (auto simp: x)
    from Cons.IH [of key entry] Cons.prems(1) in1 \<open>key \<noteq> []\<close> obtain e where
      "(oldest_key entries rest key, e) \<in> set entries" "\<forall>y \<in> set rest. je_CompletedAt e \<le> je_CompletedAt (snd y)"
      "je_CompletedAt e \<le> je_CompletedAt entry" by auto
    with True eq show ?thesis by (intro exI [of _ e]) (auto simp: x)
  next
    case False
    then have eq: "oldest_key entries (x # rest) k0 = oldest_key entries rest k0" using look by (auto simp: x)
    from Cons.IH [of k0 e0] Cons.prems False obtain e where
      "(oldest_key entries rest k0, e) \<in> set entries" "\<forall>y \<in> set rest. je_CompletedAt e \<le> je_CompletedAt (snd y)"
      "je_CompletedAt e \<le> je_CompletedAt e0" by auto
    with False eq show ?thesis by (intro exI [of _ e]) (auto simp: x)
  qed
qed

lemma drop_oldest_props:
  assumes "journal_ok entries" and "entries \<noteq> []"
  shows "\<exists>x \<in> set entries. set (drop_oldest entries) = set entries - {x} \<and> length (drop_oldest entries) = length entries - 1
    \<and> (\<forall>y \<in> set entries. je_CompletedAt (snd x) \<le> je_CompletedAt (snd y))"
proof -
  let ?k = "oldest_key entries entries []"
  from oldest_key_min [OF assms(1), of entries "[]"] assms(2) obtain e where
    e: "(?k, e) \<in> set entries" "\<forall>y \<in> set entries. je_CompletedAt e \<le> je_CompletedAt (snd y)" by auto
  from assms(1) have d: "distinct (map fst entries)" by (simp add: journal_ok_def)
  have del: "AList.delete ?k entries = filter (\<lambda>y. fst y \<noteq> ?k) entries" by (auto simp: AList.delete_eq case_prod_unfold intro!: filter_cong)
  have one: "filter (\<lambda>y. fst y = ?k) entries = [(?k, e)]" using filter_key [OF d e(1)] by simp
  have "length (filter (\<lambda>y. fst y = ?k) entries) + length (filter (\<lambda>y. fst y \<noteq> ?k) entries) = length entries"
    by (rule sum_length_filter_compl)
  with one have len: "length (AList.delete ?k entries) = length entries - 1" unfolding del by simp
  have "set (AList.delete ?k entries) = set entries - {(?k, e)}"
  proof -
    have "set (filter (\<lambda>y. fst y \<noteq> ?k) entries) = set entries - set (filter (\<lambda>y. fst y = ?k) entries)" by auto
    then show ?thesis unfolding del one by simp
  qed
  with len e show ?thesis unfolding drop_oldest_def by (intro bexI [of _ "(?k, e)"]) auto
qed

lemma drop_oldest_ok: "journal_ok entries \<Longrightarrow> journal_ok (drop_oldest entries)"
  unfolding journal_ok_def drop_oldest_def by (auto simp: AList.distinct_delete) (auto simp: AList.delete_eq image_iff)

lemma iter_ok: "visits_all iter \<Longrightarrow> journal_ok j \<Longrightarrow> journal_ok (iter i j) \<and> length (iter i j) = length j \<and> set (iter i j) = set j"
proof -
  assume "visits_all iter" "journal_ok j"
  then have m: "mset (iter i j) = mset j" by (simp add: visits_all_def)
  then have "mset (map fst (iter i j)) = mset (map fst j)" by simp
  then have "distinct (map fst (iter i j)) = distinct (map fst j)" by (rule mset_eq_imp_distinct_iff)
  with m mset_eq_setD [OF m] mset_eq_length [OF m] \<open>journal_ok j\<close> show ?thesis by (simp add: journal_ok_def)
qed

definition prunes_to :: "nat \<Rightarrow> journal \<Rightarrow> journal \<Rightarrow> bool" where
  "prunes_to m j p \<longleftrightarrow> journal_ok p \<and> set p \<subseteq> set j \<and> length p = min m (length j)
     \<and> (\<forall>x \<in> set j - set p. \<forall>y \<in> set p. je_CompletedAt (snd x) \<le> je_CompletedAt (snd y))"

lemma prune_journal_length:
  assumes iter: "visits_all iter" and "journal_ok j"
  shows "prunes_to m j (prune_journal iter m i j)"
  using assms(2)
proof (induction "length j" arbitrary: j i rule: less_induct)
  case less
  let ?d = "drop_oldest (iter i j)"
  from iter_ok [OF iter less.prems, of i] have it: "journal_ok (iter i j)" "length (iter i j) = length j" "set (iter i j) = set j" by auto
  show ?case
  proof (cases "length j > m")
    case False
    then have "prune_journal iter m i j = j" by (simp add: prune_journal.simps)
    with False less.prems show ?thesis by (simp add: prunes_to_def)
  next
    case True
    with it(2) have "iter i j \<noteq> []" by auto
    from drop_oldest_props [OF it(1) this] it obtain x where
      x: "x \<in> set j" "set ?d = set j - {x}" "length ?d = length j - 1" "\<forall>y \<in> set j. je_CompletedAt (snd x) \<le> je_CompletedAt (snd y)" by auto
    with True have shorter: "length ?d < length j" by auto
    with True have eq: "prune_journal iter m i j = prune_journal iter m (Suc i) ?d" by (simp add: prune_journal.simps [of iter m i j])
    from less.hyps [OF shorter drop_oldest_ok [OF it(1)], of "Suc i"]
    have IH: "prunes_to m ?d (prune_journal iter m (Suc i) ?d)" .
    let ?p = "prune_journal iter m (Suc i) ?d"
    from IH x(2) have sub: "set ?p \<subseteq> set j" unfolding prunes_to_def by blast
    have "je_CompletedAt (snd z) \<le> je_CompletedAt (snd y)" if "z \<in> set j - set ?p" "y \<in> set ?p" for z y
    proof (cases "z = x")
      case True
      with x(4) sub that(2) show ?thesis by blast
    next
      case False
      with that x(2) IH show ?thesis unfolding prunes_to_def by blast
    qed
    with IH sub x(3) True show ?thesis unfolding eq prunes_to_def by simp
  qed
qed

end
