(* ===== verification/Node_Properties.thy ===== *)
theory Node_Properties
  imports Node_Agent
begin

text \<open>
  What the node agent promises. \<open>agent_steps n\<close> is a run with \<open>n\<close> applied requests, in which
  the process may be killed and restarted from its files at any point, also between the steps
  of \<open>Apply\<close> (the world it restarts with is arbitrary), and Xray may crash. Runs are shorter
  than \<open>2\<^sup>6\<^sup>3\<close> requests, so that the configuration revision does not wrap.
\<close>

section \<open>Runs\<close>

inductive agent_steps :: "('e \<Rightarrow> Snapshot \<Rightarrow> 'w \<Rightarrow> reload_outcome \<times> 'w) \<Rightarrow> ('e \<Rightarrow> Snapshot \<Rightarrow> 'w \<Rightarrow> bool \<times> 'w) \<Rightarrow>
    nat \<Rightarrow> nat \<Rightarrow> 'w agent \<Rightarrow> 'w agent \<Rightarrow> bool"
  for ap stt mj where
  as_refl: "agent_steps ap stt mj 0 a a"
| as_apply: "agent_steps ap stt mj n a b \<Longrightarrow> agent_steps ap stt mj (Suc n) a (snd (agent_Apply ap mj env d b))"
| as_restart: "agent_steps ap stt mj n a b \<Longrightarrow> agent_NewService stt e (ag_nodeID b) ver (ag_disk b) w = Inr c \<Longrightarrow>
    agent_steps ap stt mj n a c"
| as_world: "agent_steps ap stt mj n a b \<Longrightarrow> agent_steps ap stt mj n a (b\<lparr>ag_world := w\<rparr>)"

section \<open>What \<open>Apply\<close> does to the state\<close>

definition loads :: "'w agent \<Rightarrow> bool" where
  "loads a \<longleftrightarrow> (\<exists>j. Load (ag_nodeID a) (ag_disk a) = Some (ag_snapshot a, j))"

definition snapshot_ok :: "Snapshot \<Rightarrow> bool" where
  "snapshot_ok sn \<longleftrightarrow> validateSnapshot sn \<and> distinct (map fst (sn_Credentials sn))"

lemma record_result_state:
  "record_result mj env d a = (r, b) \<Longrightarrow> ag_snapshot b = ag_snapshot a \<and> ag_world b = ag_world a \<and> ag_nodeID b = ag_nodeID a
     \<and> nd_snapshot (ag_disk b) = nd_snapshot (ag_disk a)"
  by (auto simp: record_result_def recordJournal_def SaveJournal_def Let_def split: if_splits prod.splits)

text \<open>The cases of \<open>Apply\<close> by what becomes of the desired state.\<close>

lemma Apply_cases:
  assumes "agent_Apply ap mj env d a = (r, b)"
  obtains (kept) "ag_snapshot b = ag_snapshot a" "ag_world b = ag_world a" "ag_nodeID b = ag_nodeID a"
      "nd_snapshot (ag_disk b) = nd_snapshot (ag_disk a)" "\<And>res. r = Inr res \<Longrightarrow> validateDesired d"
      "\<And>res. map_of (ag_journal a) (ds_OperationID d) = None \<Longrightarrow> r = Inr res \<Longrightarrow>
        \<exists>c. map_of (sn_Credentials (ag_snapshot a)) (ds_CredentialID d) = Some c \<and> sameDesired c d \<and> nc_DesiredRevision c = ds_DesiredRevision d"
    | (xray) out w where "ap (av_xray env 0) (next_snapshot d (ag_snapshot a)) (ag_world a) = (out, w)" "out \<noteq> Reload_success"
      "b = a\<lparr>ag_world := w\<rparr>" "r = Inl (AErrXray out)"
    | (persist) w1 undo w2 where "ap (av_xray env 0) (next_snapshot d (ag_snapshot a)) (ag_world a) = (Reload_success, w1)"
      "ap (av_xray env 1) (ag_snapshot a) w1 = (undo, w2)" "b = a\<lparr>ag_world := w2\<rparr>"
      "r = Inl (AErrPersist (if undo \<noteq> Reload_success then Some undo else None))"
    | (applied) w1 where "validateDesired d" "ap (av_xray env 0) (next_snapshot d (ag_snapshot a)) (ag_world a) = (Reload_success, w1)"
      "ag_snapshot b = next_snapshot d (ag_snapshot a)" "ag_world b = w1" "ag_nodeID b = ag_nodeID a"
      "nd_snapshot (ag_disk b) = Some (next_snapshot d (ag_snapshot a))"
      "\<And>c. map_of (sn_Credentials (ag_snapshot a)) (ds_CredentialID d) = Some c \<Longrightarrow> nc_DesiredRevision c < ds_DesiredRevision d"
proof (cases "validateDesired d")
  case False
  with assms kept show thesis by (auto simp: agent_Apply_def)
next
  case v: True
  show thesis
  proof (cases "map_of (ag_journal a) (ds_OperationID d)")
    case (Some existing)
    with v assms kept show thesis by (auto simp: agent_Apply_def split: if_splits)
  next
    case None
    let ?cur = "map_of (sn_Credentials (ag_snapshot a)) (ds_CredentialID d)"
    show thesis
    proof (cases "\<exists>c. ?cur = Some c \<and> ds_DesiredRevision d \<le> nc_DesiredRevision c")
      case True
      then obtain c where c: "?cur = Some c" "ds_DesiredRevision d \<le> nc_DesiredRevision c" by blast
      show thesis
      proof (cases "ds_DesiredRevision d = nc_DesiredRevision c \<and> sameDesired c d")
        case True
        with v None c assms have "record_result mj env d a = (r, b)" by (simp add: agent_Apply_def Let_def)
        from record_result_state [OF this] v True c show thesis by (intro kept) auto
      next
        case False
        with v None c assms have "b = a" "r = Inl AErrStale \<or> r = Inl AErrConflict"
          by (auto simp: agent_Apply_def Let_def split: if_splits)
        then show thesis by (intro kept) auto
      qed
    next
      case newer: False
      then have rev: "\<And>c. ?cur = Some c \<Longrightarrow> nc_DesiredRevision c < ds_DesiredRevision d" by auto
      obtain out w1 where x: "ap (av_xray env 0) (next_snapshot d (ag_snapshot a)) (ag_world a) = (out, w1)" by fastforce
      obtain undo w2 where u: "ap (av_xray env 1) (ag_snapshot a) w1 = (undo, w2)" by fastforce
      have run: "agent_Apply ap mj env d a =
        (if out \<noteq> Reload_success then (Inl (AErrXray out), a\<lparr>ag_world := w1\<rparr>)
         else if av_save_snapshot env
           then record_result mj env d (a\<lparr>ag_world := w1, ag_disk := (ag_disk a)\<lparr>nd_snapshot := Some (next_snapshot d (ag_snapshot a))\<rparr>,
                  ag_snapshot := next_snapshot d (ag_snapshot a)\<rparr>)
           else (Inl (AErrPersist (if undo \<noteq> Reload_success then Some undo else None)), a\<lparr>ag_world := w2\<rparr>))"
        using v None rev x u by (auto simp: agent_Apply_def Let_def SaveSnapshot_def split: option.splits)
      consider "out \<noteq> Reload_success" | "out = Reload_success" "\<not> av_save_snapshot env" | "out = Reload_success" "av_save_snapshot env" by blast
      then show thesis
      proof cases
        case 1
        with run assms x show thesis by (intro xray) auto
      next
        case 2
        with run assms x u show thesis by (intro persist) auto
      next
        case 3
        with run assms have "record_result mj env d (a\<lparr>ag_world := w1, ag_disk := (ag_disk a)\<lparr>nd_snapshot := Some (next_snapshot d (ag_snapshot a))\<rparr>,
                  ag_snapshot := next_snapshot d (ag_snapshot a)\<rparr>) = (r, b)" by simp
        from record_result_state [OF this] v x 3 rev show thesis by (intro applied) auto
      qed
    qed
  qed
qed

section \<open>The desired state stays valid and on disk\<close>

lemma set_update: "x \<in> set (AList.update k v xs) \<Longrightarrow> x = (k, v) \<or> x \<in> set xs"
  by (induction xs) (auto split: if_splits)

lemma desired_credential_valid:
  assumes "validateDesired d"
  shows "nc_CredentialID (desired_credential d) = ds_CredentialID d"
    and "nc_DesiredRevision (desired_credential d) = ds_DesiredRevision d" and "nc_State (desired_credential d) = ds_State d"
    and "sameDesired (desired_credential d) d"
    and "validateDesired \<lparr>ds_OperationID = ''00000000-0000-4000-8000-000000000000'', ds_CredentialID = ds_CredentialID d,
                  ds_DesiredRevision = nc_DesiredRevision (desired_credential d), ds_State = nc_State (desired_credential d),
                  ds_Protocol = nc_Protocol (desired_credential d), ds_VLESSClientUUID = nc_VLESSClientUUID (desired_credential d)\<rparr>"
proof -
  have u: "node_uuidPattern ''00000000-0000-4000-8000-000000000000''" by code_simp
  show "nc_CredentialID (desired_credential d) = ds_CredentialID d" "nc_DesiredRevision (desired_credential d) = ds_DesiredRevision d"
    "nc_State (desired_credential d) = ds_State d" by (simp_all add: desired_credential_def Let_def)
  show "sameDesired (desired_credential d) d" using assms
    by (auto simp: sameDesired_def desired_credential_def Let_def validateDesired_def split: if_splits)
  show "validateDesired \<lparr>ds_OperationID = ''00000000-0000-4000-8000-000000000000'', ds_CredentialID = ds_CredentialID d,
                  ds_DesiredRevision = nc_DesiredRevision (desired_credential d), ds_State = nc_State (desired_credential d),
                  ds_Protocol = nc_Protocol (desired_credential d), ds_VLESSClientUUID = nc_VLESSClientUUID (desired_credential d)\<rparr>"
    using assms u by (auto simp: validateDesired_def desired_credential_def Let_def split: if_splits)
qed

lemma next_revision:
  "0 \<le> sn_ConfigRevision sn \<Longrightarrow> sn_ConfigRevision sn < 2 ^ 63 - 1 \<Longrightarrow> sn_ConfigRevision (next_snapshot d sn) = sn_ConfigRevision sn + 1"
  by (simp add: next_snapshot_def int64_id)

lemma next_snapshot_ok:
  assumes "snapshot_ok sn" and "validateDesired d" and "sn_ConfigRevision sn < 2 ^ 63 - 1"
  shows "snapshot_ok (next_snapshot d sn)"
proof -
  let ?ok = "\<lambda>(credentialID, credential). \<not> (nc_CredentialID credential \<noteq> credentialID
             \<or> \<not> validateDesired \<lparr>ds_OperationID = ''00000000-0000-4000-8000-000000000000'', ds_CredentialID = credentialID,
                  ds_DesiredRevision = nc_DesiredRevision credential, ds_State = nc_State credential,
                  ds_Protocol = nc_Protocol credential, ds_VLESSClientUUID = nc_VLESSClientUUID credential\<rparr>)"
  from assms(1) have old: "list_all ?ok (sn_Credentials sn)" "0 \<le> sn_ConfigRevision sn" "node_uuidPattern (sn_NodeID sn)"
    and dist: "distinct (map fst (sn_Credentials sn))"
    by (simp_all add: snapshot_ok_def validateSnapshot_def)
  have "?ok (ds_CredentialID d, desired_credential d)" using desired_credential_valid [OF assms(2)] by simp
  then have "list_all ?ok (AList.update (ds_CredentialID d) (desired_credential d) (sn_Credentials sn))"
    using old(1) set_update unfolding list_all_iff by fast
  moreover have "distinct (map fst (AList.update (ds_CredentialID d) (desired_credential d) (sn_Credentials sn)))"
    using dist by (rule distinct_update)
  moreover have "0 \<le> sn_ConfigRevision (next_snapshot d sn)" using next_revision [OF old(2) assms(3)] old(2) by simp
  ultimately show ?thesis using old(3) by (simp add: snapshot_ok_def validateSnapshot_def next_snapshot_def)
qed

text \<open>After \<open>n\<close> requests.\<close>

definition agent_inv :: "int \<Rightarrow> 'w agent \<Rightarrow> bool" where
  "agent_inv n a \<longleftrightarrow> snapshot_ok (ag_snapshot a) \<and> loads a \<and> sn_NodeID (ag_snapshot a) = ag_nodeID a
     \<and> node_uuidPattern (ag_nodeID a) \<and> sn_ConfigRevision (ag_snapshot a) \<le> n"

lemma loads_frame:
  "ag_nodeID b = ag_nodeID a \<Longrightarrow> nd_snapshot (ag_disk b) = nd_snapshot (ag_disk a) \<Longrightarrow> ag_snapshot b = ag_snapshot a \<Longrightarrow> loads a \<Longrightarrow> loads b"
  by (auto simp: loads_def Load_def Let_def split: if_splits)

lemma Apply_inv:
  assumes inv: "agent_inv n a" and n: "n < 2 ^ 63 - 1" and run: "agent_Apply ap mj env d a = (r, b)"
  shows "agent_inv (n + 1) b"
  using run
proof (cases rule: Apply_cases)
  case kept
  with inv loads_frame [of b a] show ?thesis by (simp add: agent_inv_def)
next
  case (xray out w)
  with inv show ?thesis by (simp add: agent_inv_def loads_def)
next
  case (persist w1 undo w2)
  with inv show ?thesis by (simp add: agent_inv_def loads_def)
next
  case (applied w1)
  from inv n have r: "0 \<le> sn_ConfigRevision (ag_snapshot a)" "sn_ConfigRevision (ag_snapshot a) < 2 ^ 63 - 1"
    by (auto simp: agent_inv_def snapshot_ok_def validateSnapshot_def)
  from next_snapshot_ok [OF _ applied(1) r(2)] inv have "snapshot_ok (ag_snapshot b)" using applied(3) by (simp add: agent_inv_def)
  moreover have "sn_NodeID (ag_snapshot b) = ag_nodeID b" using inv applied(3,5) by (simp add: agent_inv_def next_snapshot_def)
  moreover from this have "loads b" using applied(3,5,6) next_revision [OF r, of d] r
    by (auto simp: loads_def Load_def Let_def)
  ultimately show ?thesis using inv applied(3,5) next_revision [OF r, of d] by (simp add: agent_inv_def)
qed

lemma NewService_Inr:
  assumes "agent_NewService stt e nid ver disk w = Inr a"
  shows "loads a" "validateSnapshot (ag_snapshot a)" "ag_nodeID a = nid" "sn_NodeID (ag_snapshot a) = nid" "ag_disk a = disk"
    "node_uuidPattern nid" "\<exists>w'. stt e (ag_snapshot a) w = (True, w') \<and> ag_world a = w'"
  using assms by (auto simp: agent_NewService_def loads_def Load_def Let_def split: if_splits option.splits prod.splits bool.splits)

lemma restart_snapshot:
  assumes "loads b" and "agent_NewService stt e (ag_nodeID b) ver (ag_disk b) w = Inr c"
  shows "ag_snapshot c = ag_snapshot b"
  using assms by (auto simp: agent_NewService_def loads_def split: if_splits option.splits prod.splits bool.splits)

lemma steps_inv:
  assumes "agent_steps ap stt mj n a b" and "agent_inv k a" and "k + int n < 2 ^ 63"
  shows "agent_inv (k + int n) b"
  using assms
proof (induction rule: agent_steps.induct)
  case (as_apply n a b env d)
  then have "agent_inv (k + int n + 1) (snd (agent_Apply ap mj env d b))"
    using Apply_inv [of "k + int n" b ap mj env d] by (cases "agent_Apply ap mj env d b") simp
  then show ?case by (simp add: algebra_simps)
next
  case (as_restart n a b e ver w c)
  then have b: "agent_inv (k + int n) b" by simp
  with restart_snapshot [OF _ as_restart.hyps(2)] NewService_Inr [OF as_restart.hyps(2)] show ?case by (simp add: agent_inv_def)
next
  case (as_world n a b w)
  then show ?case by (simp add: agent_inv_def loads_def)
qed simp

definition fresh_disk :: node_disk where
  "fresh_disk = \<lparr>nd_snapshot = None, nd_journal = None\<rparr>"

lemma fresh_inv: "agent_NewService stt e nid ver fresh_disk w = Inr a \<Longrightarrow> agent_inv 0 a"
  by (auto simp: agent_NewService_def agent_inv_def loads_def Load_def fresh_disk_def snapshot_ok_def Let_def
      split: if_splits option.splits prod.splits bool.splits)


section \<open>Revisions only grow\<close>

definition newer :: "Snapshot \<Rightarrow> Snapshot \<Rightarrow> bool" where
  "newer sn sn' \<longleftrightarrow> sn_ConfigRevision sn \<le> sn_ConfigRevision sn' \<and>
     (\<forall>i c. map_of (sn_Credentials sn) i = Some c \<longrightarrow> (\<exists>c'. map_of (sn_Credentials sn') i = Some c'
        \<and> nc_DesiredRevision c \<le> nc_DesiredRevision c' \<and> (nc_DesiredRevision c = nc_DesiredRevision c' \<longrightarrow> c' = c)))"

lemma newer_refl [simp]: "newer sn sn"
  by (simp add: newer_def)

lemma newer_trans:
  assumes "newer a b" and "newer b c"
  shows "newer a c"
  unfolding newer_def
proof (intro conjI allI impI)
  show "sn_ConfigRevision a \<le> sn_ConfigRevision c" using assms by (simp add: newer_def)
  fix i x assume "map_of (sn_Credentials a) i = Some x"
  with assms(1) obtain y where y: "map_of (sn_Credentials b) i = Some y" "nc_DesiredRevision x \<le> nc_DesiredRevision y"
    "nc_DesiredRevision x = nc_DesiredRevision y \<Longrightarrow> y = x" unfolding newer_def by blast
  with assms(2) obtain z where z: "map_of (sn_Credentials c) i = Some z" "nc_DesiredRevision y \<le> nc_DesiredRevision z"
    "nc_DesiredRevision y = nc_DesiredRevision z \<Longrightarrow> z = y" unfolding newer_def by blast
  have "z = x" if "nc_DesiredRevision x = nc_DesiredRevision z"
  proof -
    from that y(2) z(2) have "nc_DesiredRevision x = nc_DesiredRevision y" "nc_DesiredRevision y = nc_DesiredRevision z" by linarith+
    then show ?thesis using y(3) z(3) by simp
  qed
  moreover have "nc_DesiredRevision x \<le> nc_DesiredRevision z" using y(2) z(2) by linarith
  ultimately show "\<exists>z. map_of (sn_Credentials c) i = Some z \<and> nc_DesiredRevision x \<le> nc_DesiredRevision z
      \<and> (nc_DesiredRevision x = nc_DesiredRevision z \<longrightarrow> z = x)" using z(1) by blast
qed

lemma Apply_newer:
  assumes "agent_inv n a" and "n < 2 ^ 63 - 1" and "agent_Apply ap mj env d a = (r, b)"
  shows "newer (ag_snapshot a) (ag_snapshot b)"
  using assms(3)
proof (cases rule: Apply_cases)
  case (applied w1)
  from assms(1,2) have r: "0 \<le> sn_ConfigRevision (ag_snapshot a)" "sn_ConfigRevision (ag_snapshot a) < 2 ^ 63 - 1"
    by (auto simp: agent_inv_def snapshot_ok_def validateSnapshot_def)
  have m: "map_of (sn_Credentials (ag_snapshot b)) = (map_of (sn_Credentials (ag_snapshot a)))(ds_CredentialID d \<mapsto> desired_credential d)"
    by (simp add: applied(3) next_snapshot_def update_conv')
  show ?thesis unfolding newer_def
  proof (intro conjI allI impI)
    show "sn_ConfigRevision (ag_snapshot a) \<le> sn_ConfigRevision (ag_snapshot b)" using next_revision [OF r, of d] applied(3) by simp
    fix i c assume c: "map_of (sn_Credentials (ag_snapshot a)) i = Some c"
    then show "\<exists>c'. map_of (sn_Credentials (ag_snapshot b)) i = Some c' \<and> nc_DesiredRevision c \<le> nc_DesiredRevision c'
        \<and> (nc_DesiredRevision c = nc_DesiredRevision c' \<longrightarrow> c' = c)"
      using applied(7) [of c] desired_credential_valid(2) [OF applied(1)] by (auto simp: m)
  qed
qed simp_all

lemma steps_newer:
  assumes "agent_steps ap stt mj n a b" and "agent_inv k a" and "k + int n < 2 ^ 63"
  shows "newer (ag_snapshot a) (ag_snapshot b)"
  using assms
proof (induction rule: agent_steps.induct)
  case (as_apply n a b env d)
  then have inv: "agent_inv (k + int n) b" by (intro steps_inv [of ap stt mj]) auto
  obtain r c where run: "agent_Apply ap mj env d b = (r, c)" by fastforce
  with as_apply Apply_newer [OF inv _ run] show ?case by (auto intro: newer_trans)
next
  case (as_restart n a b e ver w c)
  then have "agent_inv (k + int n) b" by (intro steps_inv [of ap stt mj]) auto
  then have "ag_snapshot c = ag_snapshot b" using restart_snapshot [OF _ as_restart.hyps(2)] by (simp add: agent_inv_def)
  with as_restart show ?case by simp
qed simp_all

text \<open>C28: Revisions only grow: along any run the revision of a credential never decreases, and while it
  stays the same the credential stays the same; the configuration revision never decreases.\<close>
theorem revisions_monotone:
  assumes "agent_NewService stt e0 nid ver0 fresh_disk w0 = Inr a" and "agent_steps ap stt mj n a b" and "agent_steps ap stt mj m b c"
    and "int n + int m < 2 ^ 63"
  shows "newer (ag_snapshot b) (ag_snapshot c)"
proof -
  from steps_inv [OF assms(2) fresh_inv [OF assms(1)]] assms(4) have "agent_inv (int n) b" by simp
  from steps_newer [OF assms(3) this] assms(4) show ?thesis by simp
qed

section \<open>Xray serves the acknowledged state\<close>

text \<open>The two ways a request can leave Xray behind: a failed rollback, or a failed undo of a state that could not be saved.\<close>

definition left_behind :: "agent_error + ApplyResult \<Rightarrow> bool" where
  "left_behind r \<longleftrightarrow> r = Inl (AErrXray Rollback_failed) \<or> (\<exists>undo. r = Inl (AErrPersist (Some undo)))"

context xray_manager
begin

lemma Apply_serves:
  assumes run: "agent_Apply apply_op mj env d a = (r, b)" and ok: "\<And>i. env_ok (av_xray env i)"
    and sv: "serving (ag_world a) (ag_snapshot a)" and nb: "\<not> left_behind r"
  shows "serving (ag_world b) (ag_snapshot b)"
  using run
proof (cases rule: Apply_cases)
  case (xray out w)
  with apply_restores [OF ok xray(1)] sv nb show ?thesis by (auto simp: left_behind_def)
next
  case (persist w1 undo w2)
  with apply_success [OF ok] nb show ?thesis by (auto simp: left_behind_def split: if_splits)
next
  case (applied w1)
  with apply_success [OF ok applied(2)] show ?thesis by simp
qed (use sv in simp)

lemma restart_serves: "env_ok e \<Longrightarrow> agent_NewService start_op e nid ver disk w = Inr a \<Longrightarrow> serving (ag_world a) (ag_snapshot a)"
  using NewService_Inr(7) start_success by metis

end

text \<open>Xray serves what the agent acknowledged. With either manager, a request that was handled
  (successfully or with an error, other than a failed rollback or undo) leaves Xray running
  the configuration of the agent's desired state if it did before, and a started agent serves
  it from the beginning.\<close>
theorem xray_in_sync:
  assumes "ap = mgr_apply cfg \<and> stt = mgr_Start cfg \<or> ap = sd_Apply cfg \<and> stt = sd_Start cfg" and "\<And>i. needs_config (av_xray env i)"
    and "serves cfg (ag_world a) (ag_snapshot a)" and "agent_Apply ap mj env d a = (r, b)" and "\<not> left_behind r"
  shows "serves cfg (ag_world b) (ag_snapshot b)
    \<and> (\<forall>e nid ver disk w c. needs_config e \<longrightarrow> agent_NewService stt e nid ver disk w = Inr c \<longrightarrow> serves cfg (ag_world c) (ag_snapshot c))"
  using assms(1)
proof
  assume "ap = mgr_apply cfg \<and> stt = mgr_Start cfg"
  then show ?thesis using owned.Apply_serves [of cfg mj env d a r b] owned.restart_serves assms(2-5) by blast
next
  assume "ap = sd_Apply cfg \<and> stt = sd_Start cfg"
  then show ?thesis using unit_manager.Apply_serves [of cfg mj env d a r b] unit_manager.restart_serves assms(3-5) by blast
qed

section \<open>A new operation takes effect\<close>

lemma Apply_effect:
  assumes "agent_Apply ap mj env d a = (Inr res, b)" and "map_of (ag_journal a) (ds_OperationID d) = None"
  shows "\<exists>c. map_of (sn_Credentials (ag_snapshot b)) (ds_CredentialID d) = Some c \<and> nc_State c = ds_State d
    \<and> nc_DesiredRevision c = ds_DesiredRevision d \<and> nc_VLESSClientUUID c = ds_VLESSClientUUID d"
  using assms(1)
proof (cases rule: Apply_cases)
  case kept
  from kept(6) [OF assms(2)] kept(1) show ?thesis by (auto simp: sameDesired_def)
next
  case (applied w1)
  with desired_credential_valid [OF applied(1)] show ?thesis by (auto simp: next_snapshot_def update_conv' sameDesired_def)
qed simp_all


section \<open>The journal makes requests idempotent\<close>

lemma Apply_records:
  assumes "agent_Apply ap mj env d a = (Inr res, b)" and "map_of (ag_journal a) (ds_OperationID d) = None"
  shows "validateDesired d \<and> (\<exists>a'. record_result mj env d a' = (Inr res, b) \<and> ag_journal a' = ag_journal a)"
  using assms unfolding agent_Apply_def Let_def
  by (auto simp: SaveSnapshot_def split: if_splits option.splits prod.splits)

definition journal_entry :: "'e agent_env \<Rightarrow> DesiredState \<Rightarrow> ApplyResult \<Rightarrow> JournalEntry" where
  "journal_entry env d res = \<lparr>je_OperationID = ds_OperationID d, je_RequestHash = av_hash env d, je_Result = res, je_CompletedAt = av_now env\<rparr>"

lemma record_result_journal:
  assumes "record_result mj env d a = (Inr res, b)"
  shows "ag_journal b = prune_journal (av_iter env) mj 0 (AList.update (ds_OperationID d) (journal_entry env d res) (ag_journal a))"
  using assms by (auto simp: record_result_def recordJournal_def SaveJournal_def newResult_def journal_entry_def Let_def split: if_splits prod.splits)

lemma update_ok:
  assumes "journal_ok j" and "k \<noteq> []"
  shows "journal_ok (AList.update k e j)"
proof -
  have "fst ` set (AList.update k e j) \<subseteq> insert k (fst ` set j)" using set_update [of _ k e j] by force
  with assms distinct_update [of j k e] show ?thesis by (auto simp: journal_ok_def)
qed

lemma update_has: "(k, e) \<in> set (AList.update k e j)"
  by (induction j) auto

lemma newest_survives:
  assumes p: "prunes_to m (AList.update k e j) q" and m: "0 < m" and old: "\<And>x. x \<in> set j \<Longrightarrow> je_CompletedAt (snd x) < je_CompletedAt e"
  shows "map_of q k = Some e"
proof -
  have "(k, e) \<in> set q"
  proof (rule ccontr)
    assume "(k, e) \<notin> set q"
    with update_has p have le: "\<forall>y \<in> set q. je_CompletedAt e \<le> je_CompletedAt (snd y)" unfolding prunes_to_def by force
    have "0 < length (AList.update k e j)" using update_has [of k e j] by (rule length_pos_if_in_set)
    with p m have "0 < length q" by (simp add: prunes_to_def)
    then obtain y where y: "y \<in> set q" by (cases q) auto
    with p have "y \<in> set (AList.update k e j)" by (auto simp: prunes_to_def)
    with set_update \<open>(k, e) \<notin> set q\<close> y have "y \<in> set j" by fast
    with old le y show False by fastforce
  qed
  with p show ?thesis by (auto simp: prunes_to_def journal_ok_def)
qed

text \<open>A request is idempotent. When a new operation was answered with success and the clock has
  moved since the entries of the journal, the same request is answered with the same result
  and changes nothing, the operation id with another request is refused, and the journal
  keeps its bound.\<close>
theorem apply_idempotent:
  assumes "journal_ok (ag_journal a)" and "visits_all (av_iter env)" and "0 < mj"
    and "\<And>x. x \<in> set (ag_journal a) \<Longrightarrow> je_CompletedAt (snd x) < av_now env"
    and "map_of (ag_journal a) (ds_OperationID d) = None" and "agent_Apply ap mj env d a = (Inr res, b)" and "av_hash env' = av_hash env"
  shows "agent_Apply ap mj env' d b = (Inr res, b)
    \<and> (\<forall>d'. ds_OperationID d' = ds_OperationID d \<and> av_hash env d' \<noteq> av_hash env d \<longrightarrow> agent_Apply ap mj env' d' b = (Inl AErrConflict, b))
    \<and> journal_ok (ag_journal b) \<and> length (ag_journal b) \<le> mj"
proof -
  from Apply_records [OF assms(6,5)] obtain a' where v: "validateDesired d" and r: "record_result mj env d a' = (Inr res, b)" "ag_journal a' = ag_journal a"
    by blast
  from v have "ds_OperationID d \<noteq> []" by (auto simp: validateDesired_def dest: valid_uuid_nonempty)
  from prune_journal_length [OF assms(2) update_ok [OF assms(1) this], of mj _ 0] record_result_journal [OF r(1)] r(2)
  have p: "prunes_to mj (AList.update (ds_OperationID d) (journal_entry env d res) (ag_journal a)) (ag_journal b)" by simp
  from newest_survives [OF p assms(3)] assms(4) have e: "map_of (ag_journal b) (ds_OperationID d) = Some (journal_entry env d res)"
    by (simp add: journal_entry_def)
  have "agent_Apply ap mj env' d b = (Inr res, b)" using v e assms(7) by (simp add: agent_Apply_def journal_entry_def)
  moreover have "agent_Apply ap mj env' d' b = (Inl AErrConflict, b)" if "ds_OperationID d' = ds_OperationID d" "av_hash env d' \<noteq> av_hash env d" for d'
    using e assms(7) that by (auto simp: agent_Apply_def journal_entry_def)
  moreover have "journal_ok (ag_journal b)" "length (ag_journal b) \<le> mj" using p by (auto simp: prunes_to_def)
  ultimately show ?thesis by blast
qed

text \<open>C29: The journal is bounded: saving it leaves at most \<open>maxJournal\<close> entries, all from before, and
  drops only entries that are not newer than any it keeps, whatever order Go's map iteration
  takes.\<close>
theorem journal_bounded:
  assumes "journal_ok j" and "visits_all iter"
  shows "\<exists>p. SaveJournal ok iter mj j disk = (ok, p, if ok then disk\<lparr>nd_journal := Some p\<rparr> else disk)
    \<and> set p \<subseteq> set j \<and> length p = min mj (length j)
    \<and> (\<forall>x \<in> set j - set p. \<forall>y \<in> set p. je_CompletedAt (snd x) \<le> je_CompletedAt (snd y))"
  using prune_journal_length [OF assms(2,1), of mj 0] by (auto simp: SaveJournal_def prunes_to_def Let_def)

text \<open>C27: With either manager a reload ends in one of two ways unless a rollback itself fails: the new
  desired state is served, or, if the old one was served before, it is served again. The
  outcome is \<open>success\<close> exactly in the first case.\<close>
theorem reload_all_or_nothing:
  assumes "needs_config env" and "r = mgr_apply cfg env sn w \<or> r = sd_Apply cfg env sn w" and "fst r \<noteq> Rollback_failed"
  shows "if fst r = Reload_success then serves cfg (snd r) sn else serves cfg w sn0 \<longrightarrow> serves cfg (snd r) sn0"
proof (cases "fst r = Reload_success")
  case True
  with assms(1,2) owned.apply_success [of env cfg sn w "snd r"] unit_manager.apply_success [of cfg env sn w "snd r"]
  show ?thesis by (auto simp: prod_eq_iff)
next
  case False
  with assms owned.apply_restores [of env cfg sn w "fst r" "snd r" sn0] unit_manager.apply_restores [of cfg env sn w "fst r" "snd r" sn0]
  show ?thesis by auto
qed

end
