(* ===== verification/Node_Witnesses.thy ===== *)
theory Node_Witnesses
  imports Node_Properties
begin

text \<open>A node with the process-owning manager on which the theorems about the agent are applied: it boots,
  admits a credential, revokes it, and is restarted.\<close>

definition node_xenv :: xray_env where
  "node_xenv = \<lparr>xv_write_ok = True, xv_validate = (\<lambda>_. True), xv_stop_ok = (\<lambda>_. True), xv_rename_ok = (\<lambda>_. True),
     xv_remove_ok = (\<lambda>_. True), xv_stat_ok = True, xv_start_ok = (\<lambda>_. True), xv_up = (\<lambda>_ c. c \<noteq> None),
     xv_control_ok = (\<lambda>_. True), xv_waits = (\<lambda>_. [Tick True]), xv_after_failure = (\<lambda>_. None)\<rparr>"

definition node_env :: "instant \<Rightarrow> xray_env agent_env" where
  "node_env now = \<lparr>av_now = now, av_hash = ds_State, av_iter = (\<lambda>_ j. rev j), av_save_snapshot = True, av_save_journal = True,
     av_xray = (\<lambda>_. node_xenv)\<rparr>"

definition node_id :: string where
  "node_id = ''00000000-0000-4000-8000-000000000009''"

definition empty_world :: xray_world where
  "empty_world = \<lparr>xw_current = None, xw_backup = None, xw_process = None\<rparr>"

definition node_booted :: "xray_world agent" where
  "node_booted = \<lparr>ag_nodeID = node_id, ag_snapshot = \<lparr>sn_NodeID = node_id, sn_ConfigRevision = 0, sn_Credentials = []\<rparr>,
     ag_journal = [], ag_disk = fresh_disk,
     ag_world = snd (mgr_Start sample_render node_xenv \<lparr>sn_NodeID = node_id, sn_ConfigRevision = 0, sn_Credentials = []\<rparr> empty_world)\<rparr>"

definition node_admit :: DesiredState where
  "node_admit = \<lparr>ds_OperationID = ''00000000-0000-4000-8000-0000000000a1'', ds_CredentialID = ''00000000-0000-4000-8000-000000000001'',
     ds_DesiredRevision = 1, ds_State = ''present'', ds_Protocol = ''vless_reality'',
     ds_VLESSClientUUID = ''aaaaaaaa-0000-4000-8000-000000000001''\<rparr>"

definition node_revoke :: DesiredState where
  "node_revoke = \<lparr>ds_OperationID = ''00000000-0000-4000-8000-0000000000a2'', ds_CredentialID = ''00000000-0000-4000-8000-000000000001'',
     ds_DesiredRevision = 2, ds_State = ''absent'', ds_Protocol = [], ds_VLESSClientUUID = []\<rparr>"

definition node_admitted :: "xray_world agent" where
  "node_admitted = snd (agent_Apply (mgr_apply sample_render) 2 (node_env 10) node_admit node_booted)"

definition node_revoked :: "xray_world agent" where
  "node_revoked = snd (agent_Apply (mgr_apply sample_render) 2 (node_env 20) node_revoke node_admitted)"

lemma node_boots: "agent_NewService (mgr_Start sample_render) node_xenv node_id ''v1'' fresh_disk empty_world = Inr node_booted"
  by code_simp

lemma node_runs:
  "agent_steps (mgr_apply sample_render) (mgr_Start sample_render) 2 1 node_booted node_admitted"
  "agent_steps (mgr_apply sample_render) (mgr_Start sample_render) 2 1 node_admitted node_revoked"
  unfolding node_revoked_def
  using as_apply [OF as_refl, of "mgr_apply sample_render" "mgr_Start sample_render" 2 node_booted "node_env 10" node_admit]
    as_apply [OF as_refl, of "mgr_apply sample_render" "mgr_Start sample_render" 2 node_admitted "node_env 20" node_revoke]
  by (simp_all add: node_admitted_def)

lemma node_needs: "needs_config (av_xray (node_env t) i)" "needs_config node_xenv"
  by (simp_all add: needs_config_def node_env_def node_xenv_def)

lemma node_config: "render_config_ok sample_render"
  by code_simp

lemma node_booted_serves: "serves sample_render (ag_world node_booted) (ag_snapshot node_booted)"
  by (rule owned.restart_serves [OF node_needs(2) node_boots])

lemma node_admit_ok: "\<not> left_behind (fst (agent_Apply (mgr_apply sample_render) 2 (node_env 10) node_admit node_booted))"
  "\<exists>res. fst (agent_Apply (mgr_apply sample_render) 2 (node_env 20) node_revoke node_admitted) = Inr res"
proof -
  have "map_sum id ar_ConfigRevision (fst (agent_Apply (mgr_apply sample_render) 2 (node_env 10) node_admit node_booted)) = Inr 1" by code_simp
  then show "\<not> left_behind (fst (agent_Apply (mgr_apply sample_render) 2 (node_env 10) node_admit node_booted))"
    by (auto simp: left_behind_def)
  have "map_sum id ar_ConfigRevision (fst (agent_Apply (mgr_apply sample_render) 2 (node_env 20) node_revoke node_admitted)) = Inr 2" by code_simp
  then show "\<exists>res. fst (agent_Apply (mgr_apply sample_render) 2 (node_env 20) node_revoke node_admitted) = Inr res"
    by (cases "fst (agent_Apply (mgr_apply sample_render) 2 (node_env 20) node_revoke node_admitted)") auto
qed


theorem revisions_monotone_witness:
  "newer (ag_snapshot node_admitted) (ag_snapshot node_revoked)
   \<and> sn_ConfigRevision (ag_snapshot node_admitted) < sn_ConfigRevision (ag_snapshot node_revoked)"
proof -
  have "sn_ConfigRevision (ag_snapshot node_admitted) < sn_ConfigRevision (ag_snapshot node_revoked)" by code_simp
  with revisions_monotone [OF node_boots node_runs] show ?thesis by simp
qed

theorem xray_in_sync_witness: "serves sample_render (ag_world node_admitted) (ag_snapshot node_admitted)"
proof -
  have run: "agent_Apply (mgr_apply sample_render) 2 (node_env 10) node_admit node_booted
      = (fst (agent_Apply (mgr_apply sample_render) 2 (node_env 10) node_admit node_booted), node_admitted)"
    by (simp add: node_admitted_def)
  from xray_in_sync [OF _ node_needs(1) node_booted_serves run node_admit_ok(1)] show ?thesis by blast
qed


theorem apply_idempotent_witness:
  "agent_Apply (mgr_apply sample_render) 2 (node_env 30) node_revoke node_revoked
     = agent_Apply (mgr_apply sample_render) 2 (node_env 20) node_revoke node_admitted
   \<and> map fst (ag_journal node_revoked) = [ds_OperationID node_admit, ds_OperationID node_revoke]"
proof -
  from node_admit_ok(2) obtain res where run: "agent_Apply (mgr_apply sample_render) 2 (node_env 20) node_revoke node_admitted = (Inr res, node_revoked)"
    unfolding node_revoked_def by (metis prod.collapse)
  have new: "map_of (ag_journal node_admitted) (ds_OperationID node_revoke) = None" by code_simp
  have ok: "journal_ok (ag_journal node_admitted)" unfolding journal_ok_def by code_simp
  have it: "visits_all (av_iter (node_env 20))" by (simp add: visits_all_def node_env_def)
  have "list_all (\<lambda>x. je_CompletedAt (snd x) < 20) (ag_journal node_admitted)" by code_simp
  then have old: "\<And>x. x \<in> set (ag_journal node_admitted) \<Longrightarrow> je_CompletedAt (snd x) < av_now (node_env 20)"
    by (simp add: list_all_iff node_env_def)
  have h: "av_hash (node_env 30) = av_hash (node_env 20)" by (simp add: node_env_def)
  have "map fst (ag_journal node_revoked) = [ds_OperationID node_admit, ds_OperationID node_revoke]" by code_simp
  with apply_idempotent [OF ok it _ old new run h] run show ?thesis by simp
qed

theorem journal_bounded_witness:
  "\<exists>p. SaveJournal True (\<lambda>_. rev) 1 (ag_journal node_revoked) fresh_disk = (True, p, fresh_disk\<lparr>nd_journal := Some p\<rparr>) \<and> length p = 1"
proof -
  have ok: "journal_ok (ag_journal node_revoked)" unfolding journal_ok_def by code_simp
  have it: "visits_all (\<lambda>_. rev)" by (simp add: visits_all_def)
  have "length (ag_journal node_revoked) = 2" by code_simp
  with journal_bounded [OF ok it, of True 1 fresh_disk] show ?thesis by auto
qed

definition node_broken :: xray_env where
  "node_broken = node_xenv\<lparr>xv_start_ok := (\<lambda>i. i \<noteq> 1)\<rparr>"

theorem reload_all_or_nothing_witness:
  "serves sample_render (snd (mgr_apply sample_render node_xenv (sample_snapshot sample_ids) (ag_world node_booted))) (sample_snapshot sample_ids)
   \<and> fst (mgr_apply sample_render node_broken (sample_snapshot sample_ids) (ag_world node_booted)) = Rollback_restored
   \<and> serves sample_render (snd (mgr_apply sample_render node_broken (sample_snapshot sample_ids) (ag_world node_booted))) (ag_snapshot node_booted)"
proof -
  have nb: "needs_config node_broken" by (simp add: needs_config_def node_broken_def node_xenv_def)
  have ok: "fst (mgr_apply sample_render node_xenv (sample_snapshot sample_ids) (ag_world node_booted)) = Reload_success" by code_simp
  have rb: "fst (mgr_apply sample_render node_broken (sample_snapshot sample_ids) (ag_world node_booted)) = Rollback_restored" by code_simp
  from reload_all_or_nothing [OF node_needs(2) disjI1 [OF refl], of sample_render "sample_snapshot sample_ids" "ag_world node_booted"] ok
  have "serves sample_render (snd (mgr_apply sample_render node_xenv (sample_snapshot sample_ids) (ag_world node_booted))) (sample_snapshot sample_ids)"
    by simp
  moreover from reload_all_or_nothing [OF nb disjI1 [OF refl], of sample_render "sample_snapshot sample_ids" "ag_world node_booted" "ag_snapshot node_booted"]
    rb node_booted_serves
  have "serves sample_render (snd (mgr_apply sample_render node_broken (sample_snapshot sample_ids) (ag_world node_booted))) (ag_snapshot node_booted)"
    by simp
  ultimately show ?thesis using rb by blast
qed

end
