(* ===== verification/Provisioning_Store.thy ===== *)
theory Provisioning_Store
  imports Outbox "HOL-Library.AList"
begin

text \<open>
  The provisioning service's data (\<open>internal/domain/types.go\<close>) and its store,
  \<open>services/provisioning/internal/postgres/store.go\<close>, one definition per function, over the
  tables of \<open>services/provisioning/migrations\<close>: nodes and their capacity, the command cursor and
  inbox of each credential, operations, allocations, outcome events.

  Columns with an enumerated CHECK are datatypes. Violated keys and CHECKs are driver errors
  (\<open>PInfra\<close>), except where the code turns a unique violation into \<open>ErrConflict\<close>. \<open>now\<close> is the
  database clock, \<open>appNow\<close> the service's clock; new identifiers are arguments, and so are the
  rows other transactions hold locked (\<open>FOR UPDATE SKIP LOCKED\<close>). A statement of its own is
  written as a transaction of one statement; those that report a conflict do so when they touch
  no row, their keys exclude two.
\<close>

section \<open>Data\<close>

datatype prov_error = PErrNotFound | PErrConflict | PErrSequenceGap | PErrCapacity | PContractError string | PInfra

record ProvMeta =
  pm_EventID :: uuid
  pm_EventType :: string
  pm_AggregateID :: uuid
  pm_AggregateSequence :: int
  pm_PartitionKey :: string
  pm_CorrelationID :: uuid
  pm_CausationID :: "uuid option"
  pm_OccurredAt :: instant
  pm_SourceTopic :: string
  pm_SourcePartition :: int
  pm_SourceOffset :: int
  pm_PayloadSHA256 :: string

record Command =
  cmd_OperationID :: uuid
  cmd_CredentialID :: uuid
  cmd_DesiredRevision :: int

datatype op_kind = OpProvision | OpRevoke

record Operation =
  opn_ID :: uuid
  opn_CredentialID :: uuid
  opn_Kind :: op_kind
  opn_DesiredRevision :: int
  opn_CommandSequence :: int
  opn_Attempts :: int
  opn_MaxAttempts :: int
  opn_AllocationRevision :: int
  opn_CorrelationID :: uuid
  opn_CausationEventID :: uuid

record prov_Placement =
  ppl_SubscriptionID :: uuid
  ppl_PeriodID :: uuid
  ppl_Region :: string
  ppl_PrimaryNodes :: int
  ppl_FailoverNodes :: int
  ppl_ValidUntil :: instant

record Node =
  node_ID :: uuid
  node_Region :: string
  node_ManagementURL :: string
  node_ManagementSPIFFEID :: string
  node_CapacityLimit :: int
  node_ReservePercent :: int
  node_AllocatedClients :: int
  node_PublicAddress :: string
  node_PublicPort :: int
  node_ServerName :: string
  node_RealityPublicKey :: string
  node_ShortID :: string
  node_SpiderX :: string
  node_Label :: string

datatype alloc_role = AlPrimary | AlFailover
datatype alloc_state = AlPending | AlActive | AlFailed | AlRevoked
datatype alloc_target = Present | Absent

record Allocation =
  alc_ID :: uuid
  alc_CredentialID :: uuid
  alc_DesiredOperationID :: uuid
  alc_Node :: Node
  alc_Role :: alloc_role
  alc_Protocol :: string
  alc_DesiredRevision :: int
  alc_DesiredState :: alloc_target
  alc_AllocationRevision :: int
  alc_State :: alloc_state
  alc_AppliedConfigRevision :: int

record ReconciliationCandidate =
  rc_Allocation :: Allocation
  rc_ClaimID :: uuid

record Endpoint =
  ep_NodeID :: uuid
  ep_Role :: alloc_role
  ep_Address :: string
  ep_Port :: int
  ep_ServerName :: string
  ep_RealityPublicKey :: string
  ep_ShortID :: string
  ep_SpiderX :: string
  ep_Label :: string

record AgentStatus =
  ast_NodeID :: uuid
  ast_ConfigRevision :: int
  ast_ActiveClients :: int
  ast_XrayHealthy :: bool
  ast_AgentVersion :: string
  ast_XrayVersion :: string

record NodeSeed =
  seed_ID :: uuid
  seed_Region :: string
  seed_ManagementURL :: string
  seed_ManagementSPIFFEID :: string
  seed_CapacityLimit :: int
  seed_ReservePercent :: int
  seed_PublicAddress :: string
  seed_PublicPort :: int
  seed_ServerName :: string
  seed_RealityPublicKey :: string
  seed_ShortID :: string
  seed_SpiderX :: string
  seed_Label :: string

section \<open>Tables\<close>

datatype node_status = NodeActive | NodeDraining | NodeOffline

record node_row = Node +
  nr_status :: node_status
  nr_agent_version :: "string option"
  nr_xray_version :: "string option"
  nr_config_revision :: int
  nr_last_seen_at :: "instant option"
  nr_updated_at :: instant

record cursor_row =
  cu_credential_id :: uuid
  cu_last_sequence :: int
  cu_last_desired_revision :: int

record command_row =
  ci_event_id :: uuid
  ci_event_type :: string
  ci_credential_id :: uuid
  ci_operation_id :: uuid
  ci_sequence :: int
  ci_revision :: int
  ci_correlation_id :: uuid
  ci_topic :: string
  ci_partition :: int
  ci_offset :: int
  ci_sha256 :: string

datatype op_state = OpPending | OpProcessing | OpRetry | OpSucceeded | OpFailed | OpSuperseded

record operation_row =
  opr_id :: uuid
  opr_credential_id :: uuid
  opr_kind :: op_kind
  opr_desired_revision :: int
  opr_command_sequence :: int
  opr_state :: op_state
  opr_attempts :: int
  opr_max_attempts :: int
  opr_next_attempt_at :: instant
  opr_lease_until :: "instant option"
  opr_allocation_revision :: int
  opr_last_error :: "string option"
  opr_correlation_id :: uuid
  opr_causation_event_id :: uuid
  opr_created_at :: instant
  opr_completed_at :: "instant option"

record allocation_row =
  al_id :: uuid
  al_credential_id :: uuid
  al_operation_id :: uuid
  al_desired_operation_id :: uuid
  al_node_id :: uuid
  al_role :: alloc_role
  al_protocol :: string
  al_desired_revision :: int
  al_desired_state :: alloc_target
  al_allocation_revision :: int
  al_state :: alloc_state
  al_applied_config_revision :: "int option"
  al_last_error :: "string option"
  al_created_at :: instant
  al_applied_at :: "instant option"
  al_revoked_at :: "instant option"
  al_next_reconcile_at :: instant
  al_reconcile_lease_until :: "instant option"
  al_reconcile_claim_id :: "uuid option"
  al_reconcile_attempts :: int

record health_row =
  hr_node_id :: uuid
  hr_observed_at :: instant
  hr_config_revision :: int
  hr_active_clients :: int
  hr_xray_healthy :: bool
  hr_agent_version :: string
  hr_xray_version :: string

datatype replay_state = RpAvailable | RpRequested | RpReplayed

record prov_dead_letter =
  pdl_topic :: string
  pdl_partition :: int
  pdl_offset :: int
  pdl_sha256 :: string
  pdl_reason :: string
  pdl_replay :: replay_state

text \<open>
  The data of an event; a list of pending nodes is omitted from the JSON when it is empty. The
  constructors of \<open>prov_dedupe\<close> are the prefixes of the dedupe keys.
\<close>

datatype prov_event_data =
    ProvisionSucceededData uuid uuid int string "uuid list" "Endpoint list" instant
  | ProvisionFailedData uuid uuid int string string instant "uuid list"
  | RevokeSucceededData uuid uuid int int "uuid list" instant
  | RevokeFailedData uuid uuid int string instant "uuid list"
  | ConsumerDeadLetterData string int int string string

datatype prov_dedupe =
  PdProvisionSucceeded uuid | PdProvisionFailed uuid | PdRevokeSucceeded uuid | PdRevokeFailed uuid | PdDeadLetter string int int

record prov_envelope =
  pe_EventID :: uuid
  pe_EventType :: string
  pe_OccurredAt :: instant
  pe_CorrelationID :: uuid
  pe_CausationID :: "uuid option"
  pe_AggregateType :: string
  pe_AggregateID :: uuid
  pe_AggregateSequence :: int
  pe_PartitionKey :: string
  pe_Data :: prov_event_data

type_synonym prov_outbox_row = "(prov_dedupe, prov_envelope) outbox_row"

record prov_store =
  pv_nodes :: "node_row list"
  pv_cursors :: "cursor_row list"
  pv_inbox :: "command_row list"
  pv_operations :: "operation_row list"
  pv_allocations :: "allocation_row list"
  pv_outcomes :: "(uuid \<times> int) list"
  pv_outbox :: "prov_outbox_row list"
  pv_dead_letters :: "prov_dead_letter list"
  pv_health :: "health_row list"

type_synonym 'a prov_tx = "(prov_store, prov_error, 'a) tx"

definition empty_prov_store :: prov_store where
  "empty_prov_store = \<lparr>pv_nodes = [], pv_cursors = [], pv_inbox = [], pv_operations = [], pv_allocations = [],
     pv_outcomes = [], pv_outbox = [], pv_dead_letters = [], pv_health = []\<rparr>"

abbreviation set_operations :: "(operation_row \<Rightarrow> bool) \<Rightarrow> (operation_row \<Rightarrow> operation_row) \<Rightarrow> prov_store \<Rightarrow> prov_store" where
  "set_operations p f st \<equiv> st\<lparr>pv_operations := tbl_update p f (pv_operations st)\<rparr>"

abbreviation set_allocations :: "(allocation_row \<Rightarrow> bool) \<Rightarrow> (allocation_row \<Rightarrow> allocation_row) \<Rightarrow> prov_store \<Rightarrow> prov_store" where
  "set_allocations p f st \<equiv> st\<lparr>pv_allocations := tbl_update p f (pv_allocations st)\<rparr>"

abbreviation set_nodes :: "(node_row \<Rightarrow> bool) \<Rightarrow> (node_row \<Rightarrow> node_row) \<Rightarrow> prov_store \<Rightarrow> prov_store" where
  "set_nodes p f st \<equiv> st\<lparr>pv_nodes := tbl_update p f (pv_nodes st)\<rparr>"

text \<open>The CHECKs. \<open>integer\<close> and \<open>bigint\<close> columns bound their values.\<close>

definition sha_check :: "string \<Rightarrow> bool" where
  "sha_check = match_runs [(is_lower_hex, 64)]"

definition command_check :: "command_row \<Rightarrow> bool" where
  "command_check c \<longleftrightarrow>
     (ci_event_type c = ''access.provision.request.v1'' \<or> ci_event_type c = ''access.revoke.request.v1'')
     \<and> 0 < ci_sequence c \<and> ci_sequence c < 2 ^ 63 \<and> 0 < ci_revision c \<and> ci_revision c < 2 ^ 31
     \<and> ci_topic c = ci_event_type c \<and> 0 \<le> ci_partition c \<and> 0 \<le> ci_offset c \<and> sha_check (ci_sha256 c)"

definition node_key_char :: "char \<Rightarrow> bool" where
  "node_key_char c \<longleftrightarrow> char_between CHR ''A'' CHR ''Z'' c \<or> char_between CHR ''a'' CHR ''z'' c
     \<or> char_between CHR ''0'' CHR ''9'' c \<or> c = CHR ''_'' \<or> c = CHR ''-''"

definition between :: "nat \<Rightarrow> nat \<Rightarrow> string \<Rightarrow> bool" where
  "between lo hi s \<longleftrightarrow> lo \<le> pg_length s \<and> pg_length s \<le> hi"

definition node_check :: "node_row \<Rightarrow> bool" where
  "node_check n \<longleftrightarrow> between 2 64 (node_Region n) \<and> has_prefix (node_ManagementURL n) ''https://''
     \<and> has_prefix (node_ManagementSPIFFEID n) ''spiffe://''
     \<and> 1 \<le> node_CapacityLimit n \<and> node_CapacityLimit n \<le> 1000000
     \<and> 20 \<le> node_ReservePercent n \<and> node_ReservePercent n \<le> 90
     \<and> 0 \<le> node_AllocatedClients n \<and> node_AllocatedClients n \<le> node_CapacityLimit n
     \<and> between 1 255 (node_PublicAddress n) \<and> 1 \<le> node_PublicPort n \<and> node_PublicPort n \<le> 65535
     \<and> between 1 255 (node_ServerName n) \<and> match_runs [(node_key_char, 43)] (node_RealityPublicKey n)
     \<and> length (node_ShortID n) \<le> 16 \<and> even (length (node_ShortID n)) \<and> list_all is_lower_hex (node_ShortID n)
     \<and> pg_length (node_SpiderX n) \<le> 255 \<and> between 1 64 (node_Label n) \<and> 0 \<le> nr_config_revision n
     \<and> (case nr_agent_version n of None \<Rightarrow> True | Some v \<Rightarrow> pg_length v \<le> 64)
     \<and> (case nr_xray_version n of None \<Rightarrow> True | Some v \<Rightarrow> pg_length v \<le> 64)"

section \<open>Commands\<close>

definition new_command :: "ProvMeta \<Rightarrow> Command \<Rightarrow> command_row" where
  "new_command meta command =
     \<lparr>ci_event_id = pm_EventID meta, ci_event_type = pm_EventType meta, ci_credential_id = cmd_CredentialID command,
      ci_operation_id = cmd_OperationID command, ci_sequence = pm_AggregateSequence meta,
      ci_revision = cmd_DesiredRevision command, ci_correlation_id = pm_CorrelationID meta,
      ci_topic = pm_SourceTopic meta, ci_partition = pm_SourcePartition meta, ci_offset = pm_SourceOffset meta,
      ci_sha256 = pm_PayloadSHA256 meta\<rparr>"

text \<open>All columns but the event id are compared, and that is the key of the lookup.\<close>

definition same_command :: "command_row \<Rightarrow> ProvMeta \<Rightarrow> Command \<Rightarrow> bool" where
  "same_command existing meta command \<longleftrightarrow>
     \<not> (ci_event_type existing \<noteq> pm_EventType meta \<or> ci_credential_id existing \<noteq> cmd_CredentialID command
        \<or> ci_operation_id existing \<noteq> cmd_OperationID command \<or> ci_sequence existing \<noteq> pm_AggregateSequence meta
        \<or> ci_revision existing \<noteq> cmd_DesiredRevision command \<or> ci_correlation_id existing \<noteq> pm_CorrelationID meta
        \<or> ci_topic existing \<noteq> pm_SourceTopic meta \<or> ci_partition existing \<noteq> pm_SourcePartition meta
        \<or> ci_offset existing \<noteq> pm_SourceOffset meta \<or> ci_sha256 existing \<noteq> pm_PayloadSHA256 meta)"

definition find_cursor :: "uuid \<Rightarrow> prov_store \<Rightarrow> cursor_row option" where
  "find_cursor cid st = find (\<lambda>c. cu_credential_id c = cid) (pv_cursors st)"

definition create_cursor :: "uuid \<Rightarrow> prov_store \<Rightarrow> prov_store" where
  "create_cursor cid st =
     (if find_cursor cid st \<noteq> None then st
      else st\<lparr>pv_cursors := pv_cursors st @ [\<lparr>cu_credential_id = cid, cu_last_sequence = 0, cu_last_desired_revision = 0\<rparr>]\<rparr>)"

definition insert_command :: "command_row \<Rightarrow> unit prov_tx" where
  "insert_command c =
     tx_bind (tx_get pv_inbox) (\<lambda>rows.
       if \<not> command_check c then tx_fail PInfra
       else if list_ex (\<lambda>r. ci_event_id r = ci_event_id c
              \<or> ci_credential_id r = ci_credential_id c \<and> ci_sequence r = ci_sequence c
              \<or> ci_topic r = ci_topic c \<and> ci_partition r = ci_partition c \<and> ci_offset r = ci_offset c) rows
       then tx_fail PErrConflict
       else tx_modify (\<lambda>st. st\<lparr>pv_inbox := pv_inbox st @ [c]\<rparr>))"

definition new_operation :: "instant \<Rightarrow> ProvMeta \<Rightarrow> Command \<Rightarrow> op_kind \<Rightarrow> int \<Rightarrow> operation_row" where
  "new_operation now meta command kind maxAttempts =
     \<lparr>opr_id = cmd_OperationID command, opr_credential_id = cmd_CredentialID command, opr_kind = kind,
      opr_desired_revision = cmd_DesiredRevision command, opr_command_sequence = pm_AggregateSequence meta,
      opr_state = OpPending, opr_attempts = 0, opr_max_attempts = maxAttempts, opr_next_attempt_at = now,
      opr_lease_until = None, opr_allocation_revision = 0, opr_last_error = None,
      opr_correlation_id = pm_CorrelationID meta, opr_causation_event_id = pm_EventID meta,
      opr_created_at = now, opr_completed_at = None\<rparr>"

definition insert_operation :: "operation_row \<Rightarrow> unit prov_tx" where
  "insert_operation o1 =
     tx_bind (tx_get pv_operations) (\<lambda>rows.
       if \<not> (1 \<le> opr_max_attempts o1 \<and> opr_max_attempts o1 \<le> 32 \<and> 0 < opr_desired_revision o1 \<and> 0 < opr_command_sequence o1)
       then tx_fail PInfra
       else if list_ex (\<lambda>r. opr_id r = opr_id o1
              \<or> opr_credential_id r = opr_credential_id o1 \<and> opr_command_sequence r = opr_command_sequence o1
              \<or> opr_credential_id r = opr_credential_id o1 \<and> opr_desired_revision r = opr_desired_revision o1) rows
       then tx_fail PErrConflict
       else tx_modify (\<lambda>st. st\<lparr>pv_operations := pv_operations st @ [o1]\<rparr>))"

definition open_state :: "op_state \<Rightarrow> bool" where
  "open_state s \<longleftrightarrow> s = OpPending \<or> s = OpProcessing \<or> s = OpRetry"

definition supersede :: "instant \<Rightarrow> operation_row \<Rightarrow> operation_row" where
  "supersede now o1 = o1\<lparr>opr_state := OpSuperseded, opr_lease_until := None,
     opr_last_error := Some ''superseded_by_higher_revision'', opr_completed_at := Some now\<rparr>"

definition advance_allocation :: "instant \<Rightarrow> Command \<Rightarrow> op_kind \<Rightarrow> allocation_row \<Rightarrow> allocation_row" where
  "advance_allocation now command kind a =
     a\<lparr>al_desired_operation_id := cmd_OperationID command, al_desired_revision := cmd_DesiredRevision command,
       al_desired_state := (if kind = OpProvision then Present else Absent),
       al_allocation_revision := (if kind = OpProvision then cmd_DesiredRevision command else al_allocation_revision a),
       al_state := (if kind = OpProvision \<and> al_state a \<noteq> AlRevoked then AlPending else al_state a),
       al_last_error := None, al_next_reconcile_at := now, al_reconcile_lease_until := None\<rparr>"

definition RecordCommand :: "instant \<Rightarrow> ProvMeta \<Rightarrow> Command \<Rightarrow> op_kind \<Rightarrow> int \<Rightarrow> unit prov_tx" where
  "RecordCommand now meta command kind maxAttempts =
     (let cid = cmd_CredentialID command; rev = cmd_DesiredRevision command in
      tx_bind (tx_get (\<lambda>st. find (\<lambda>r. ci_event_id r = pm_EventID meta) (pv_inbox st))) (\<lambda>found.
      case found of
        Some existing \<Rightarrow> if \<not> same_command existing meta command then tx_fail PErrConflict else tx_return ()
      | None \<Rightarrow>
          tx_bind (tx_modify (create_cursor cid)) (\<lambda>_.
          tx_bind (tx_get (find_cursor cid)) (\<lambda>cursor.
          case cursor of
            None \<Rightarrow> tx_fail PInfra
          | Some cu \<Rightarrow>
              if pm_AggregateSequence meta > int64 (cu_last_sequence cu + 1) then tx_fail PErrSequenceGap
              else if pm_AggregateSequence meta \<le> cu_last_sequence cu \<or> rev \<le> cu_last_desired_revision cu then tx_fail PErrConflict
              else
                tx_bind (insert_command (new_command meta command)) (\<lambda>_.
                tx_bind (insert_operation (new_operation now meta command kind maxAttempts)) (\<lambda>_.
                tx_bind (tx_modify (set_operations (\<lambda>o1. opr_credential_id o1 = cid \<and> opr_id o1 \<noteq> cmd_OperationID command
                   \<and> opr_desired_revision o1 < rev \<and> open_state (opr_state o1)) (supersede now))) (\<lambda>_.
                tx_bind (tx_modify (set_allocations (\<lambda>a. al_credential_id a = cid \<and> al_desired_revision a < rev)
                   (advance_allocation now command kind))) (\<lambda>_.
                tx_modify (\<lambda>st. st\<lparr>pv_cursors := tbl_update (\<lambda>c. cu_credential_id c = cid)
                   (\<lambda>c. c\<lparr>cu_last_sequence := pm_AggregateSequence meta, cu_last_desired_revision := rev\<rparr>) (pv_cursors st)\<rparr>)))))))))"

section \<open>Events\<close>

definition outcome_topic :: "string \<Rightarrow> bool" where
  "outcome_topic t \<longleftrightarrow> t \<in> set [''access.provision.succeeded.v1'', ''access.provision.failed.v1'',
     ''access.revoke.succeeded.v1'', ''access.revoke.failed.v1'']"

definition prov_eventPayload :: "string \<Rightarrow> uuid \<Rightarrow> uuid \<Rightarrow> int \<Rightarrow> string \<Rightarrow> string \<Rightarrow> uuid \<Rightarrow> uuid option \<Rightarrow> instant \<Rightarrow>
    prov_event_data \<Rightarrow> prov_envelope" where
  "prov_eventPayload topic eventID aggregateID seq aggregateType partitionKey correlationID causationID occurredAt data =
     \<lparr>pe_EventID = eventID, pe_EventType = topic, pe_OccurredAt = occurredAt, pe_CorrelationID = correlationID,
      pe_CausationID = causationID, pe_AggregateType = aggregateType, pe_AggregateID = aggregateID,
      pe_AggregateSequence = seq, pe_PartitionKey = partitionKey, pe_Data = data\<rparr>"

definition prov_new_row :: "instant \<Rightarrow> uuid \<Rightarrow> string \<Rightarrow> string \<Rightarrow> uuid \<Rightarrow> int \<Rightarrow> prov_dedupe \<Rightarrow> prov_envelope \<Rightarrow> prov_outbox_row" where
  "prov_new_row now eventID topic key aggregateID seq dedupe payload =
     \<lparr>ob_event_id = eventID, ob_topic = topic, ob_partition_key = key, ob_aggregate_id = aggregateID,
      ob_sequence = (if seq = 0 then None else Some seq), ob_dedupe_key = dedupe, ob_payload = payload,
      ob_state = ObPending, ob_attempts = 0, ob_next_attempt_at = now, ob_lease_until = None,
      ob_created_at = now, ob_published_at = None\<rparr>"

definition prov_row_check :: "prov_outbox_row \<Rightarrow> bool" where
  "prov_row_check r \<longleftrightarrow> between 1 249 (ob_topic r) \<and> between 1 192 (ob_partition_key r)
     \<and> (case ob_sequence r of None \<Rightarrow> True | Some n \<Rightarrow> 0 < n) \<and> outcome_topic (ob_topic r) = (ob_sequence r \<noteq> None)"

definition prov_insertOutbox :: "instant \<Rightarrow> uuid \<Rightarrow> string \<Rightarrow> string \<Rightarrow> uuid \<Rightarrow> int \<Rightarrow> prov_dedupe \<Rightarrow> prov_envelope \<Rightarrow> unit prov_tx" where
  "prov_insertOutbox now eventID topic key aggregateID seq dedupe payload =
     (let row = prov_new_row now eventID topic key aggregateID seq dedupe payload in
      tx_bind (tx_get pv_outbox) (\<lambda>rows.
        if \<not> prov_row_check row then tx_fail PInfra
        else if list_ex (\<lambda>r. ob_dedupe_key r = dedupe) rows then tx_fail PErrConflict
        else if list_ex (\<lambda>r. ob_event_id r = eventID
               \<or> ob_aggregate_id r = aggregateID \<and> ob_sequence r \<noteq> None \<and> ob_sequence r = ob_sequence row) rows
        then tx_fail PInfra
        else tx_modify (\<lambda>st. st\<lparr>pv_outbox := pv_outbox st @ [row]\<rparr>)))"

definition prov_RecordDeadLetter :: "uuid \<Rightarrow> instant \<Rightarrow> instant \<Rightarrow> string \<Rightarrow> int \<Rightarrow> int \<Rightarrow> string \<Rightarrow> string \<Rightarrow> unit prov_tx" where
  "prov_RecordDeadLetter eventID now appNow topic part offset payloadHash reason =
     tx_bind (tx_get pv_dead_letters) (\<lambda>rows.
       if \<not> (0 \<le> part \<and> 0 \<le> offset \<and> sha_check payloadHash \<and> between 1 64 reason) then tx_fail PInfra
       else if list_ex (\<lambda>d. pdl_topic d = topic \<and> pdl_partition d = part \<and> pdl_offset d = offset) rows then tx_return ()
       else
         tx_bind (tx_modify (\<lambda>st. st\<lparr>pv_dead_letters := pv_dead_letters st @
           [\<lparr>pdl_topic = topic, pdl_partition = part, pdl_offset = offset, pdl_sha256 = payloadHash,
             pdl_reason = reason, pdl_replay = RpAvailable\<rparr>]\<rparr>)) (\<lambda>_.
         let dlqTopic = topic @ ''.dlq'' in
         prov_insertOutbox now eventID dlqTopic (''source:'' @ topic) eventID 0 (PdDeadLetter topic part offset)
           (prov_eventPayload dlqTopic eventID eventID 0 ''consumer_record'' (''source:'' @ topic) eventID None appNow
              (ConsumerDeadLetterData topic part offset payloadHash reason))))"

definition dead_letter_at :: "string \<Rightarrow> int \<Rightarrow> int \<Rightarrow> prov_dead_letter \<Rightarrow> bool" where
  "dead_letter_at topic part offset d \<longleftrightarrow> pdl_topic d = topic \<and> pdl_partition d = part \<and> pdl_offset d = offset"

definition RequestDeadLetterReplay :: "string \<Rightarrow> int \<Rightarrow> int \<Rightarrow> string prov_tx" where
  "RequestDeadLetterReplay topic part offset =
     tx_bind (tx_get (\<lambda>st. find (\<lambda>d. dead_letter_at topic part offset d
         \<and> (pdl_replay d = RpAvailable \<or> pdl_replay d = RpRequested)) (pv_dead_letters st))) (\<lambda>found.
       case found of
         None \<Rightarrow> tx_fail PErrNotFound
       | Some d \<Rightarrow>
           tx_bind (tx_modify (\<lambda>st. st\<lparr>pv_dead_letters := tbl_update (\<lambda>d. dead_letter_at topic part offset d
               \<and> (pdl_replay d = RpAvailable \<or> pdl_replay d = RpRequested))
             (\<lambda>d. d\<lparr>pdl_replay := RpRequested\<rparr>) (pv_dead_letters st)\<rparr>)) (\<lambda>_. tx_return (pdl_sha256 d)))"

definition CompleteDeadLetterReplay :: "string \<Rightarrow> int \<Rightarrow> int \<Rightarrow> unit prov_tx" where
  "CompleteDeadLetterReplay topic part offset =
     (let p = (\<lambda>d. dead_letter_at topic part offset d \<and> pdl_replay d = RpRequested) in
      tx_bind (tx_get (\<lambda>st. length (filter p (pv_dead_letters st)))) (\<lambda>n.
      tx_bind (tx_modify (\<lambda>st. st\<lparr>pv_dead_letters := tbl_update p (\<lambda>d. d\<lparr>pdl_replay := RpReplayed\<rparr>) (pv_dead_letters st)\<rparr>)) (\<lambda>_.
      if n \<noteq> 1 then tx_fail PErrConflict else tx_return ())))"

section \<open>Operations\<close>

definition operation_of_row :: "operation_row \<Rightarrow> Operation" where
  "operation_of_row o1 =
     \<lparr>opn_ID = opr_id o1, opn_CredentialID = opr_credential_id o1, opn_Kind = opr_kind o1,
      opn_DesiredRevision = opr_desired_revision o1, opn_CommandSequence = opr_command_sequence o1,
      opn_Attempts = opr_attempts o1, opn_MaxAttempts = opr_max_attempts o1,
      opn_AllocationRevision = opr_allocation_revision o1, opn_CorrelationID = opr_correlation_id o1,
      opn_CausationEventID = opr_causation_event_id o1\<rparr>"

definition operation_candidates :: "instant \<Rightarrow> uuid list \<Rightarrow> operation_row list \<Rightarrow> operation_row list" where
  "operation_candidates now locked rows =
     filter (\<lambda>o1. ((opr_state o1 = OpPending \<or> opr_state o1 = OpRetry) \<and> opr_next_attempt_at o1 \<le> now
                   \<or> opr_state o1 = OpProcessing \<and> (case opr_lease_until o1 of None \<Rightarrow> False | Some t \<Rightarrow> t < now))
                  \<and> \<not> list_ex (\<lambda>p. opr_credential_id p = opr_credential_id o1 \<and> opr_command_sequence p < opr_command_sequence o1
                         \<and> open_state (opr_state p)) rows
                  \<and> opr_id o1 \<notin> set locked) rows"

definition ClaimOperation :: "instant \<Rightarrow> nanos \<Rightarrow> uuid list \<Rightarrow> Operation option prov_tx" where
  "ClaimOperation now lease locked =
     tx_bind (tx_get (\<lambda>st. first_by (\<lambda>o1. (opr_next_attempt_at o1, opr_created_at o1, opr_id o1))
         (operation_candidates now locked (pv_operations st)))) (\<lambda>found.
       case found of
         None \<Rightarrow> tx_return None
       | Some o1 \<Rightarrow>
           tx_bind (tx_modify (set_operations (\<lambda>r. opr_id r = opr_id o1)
             (\<lambda>r. r\<lparr>opr_state := OpProcessing, opr_attempts := opr_attempts o1 + 1, opr_lease_until := Some (now + lease),
                    opr_last_error := None\<rparr>))) (\<lambda>_.
           tx_return (Some ((operation_of_row o1)\<lparr>opn_Attempts := opr_attempts o1 + 1\<rparr>))))"

definition RetryOperation :: "instant \<Rightarrow> uuid \<Rightarrow> string \<Rightarrow> nanos \<Rightarrow> unit prov_tx" where
  "RetryOperation now operationID reason delay =
     (let p = (\<lambda>o1. opr_id o1 = operationID \<and> opr_state o1 = OpProcessing) in
      tx_bind (tx_get (\<lambda>st. length (filter p (pv_operations st)))) (\<lambda>n.
      if n > 0 \<and> \<not> pg_length reason \<le> 64 then tx_fail PInfra
      else tx_bind (tx_modify (set_operations p (\<lambda>o1. o1\<lparr>opr_state := OpRetry, opr_lease_until := None,
             opr_next_attempt_at := now + delay, opr_last_error := Some reason\<rparr>))) (\<lambda>_.
           if n \<noteq> 1 then tx_fail PErrConflict else tx_return ())))"

section \<open>Allocations\<close>

definition node_of_row :: "node_row \<Rightarrow> Node" where
  "node_of_row n =
     \<lparr>node_ID = node_ID n, node_Region = node_Region n, node_ManagementURL = node_ManagementURL n,
      node_ManagementSPIFFEID = node_ManagementSPIFFEID n, node_CapacityLimit = node_CapacityLimit n,
      node_ReservePercent = node_ReservePercent n, node_AllocatedClients = node_AllocatedClients n,
      node_PublicAddress = node_PublicAddress n, node_PublicPort = node_PublicPort n, node_ServerName = node_ServerName n,
      node_RealityPublicKey = node_RealityPublicKey n, node_ShortID = node_ShortID n, node_SpiderX = node_SpiderX n,
      node_Label = node_Label n\<rparr>"

definition scanAllocation :: "allocation_row \<Rightarrow> node_row \<Rightarrow> Allocation" where
  "scanAllocation a n =
     \<lparr>alc_ID = al_id a, alc_CredentialID = al_credential_id a, alc_DesiredOperationID = al_desired_operation_id a,
      alc_Node = node_of_row n, alc_Role = al_role a, alc_Protocol = al_protocol a, alc_DesiredRevision = al_desired_revision a,
      alc_DesiredState = al_desired_state a, alc_AllocationRevision = al_allocation_revision a, alc_State = al_state a,
      alc_AppliedConfigRevision = (case al_applied_config_revision a of None \<Rightarrow> 0 | Some r \<Rightarrow> r)\<rparr>"

definition find_node :: "uuid \<Rightarrow> prov_store \<Rightarrow> node_row option" where
  "find_node nid st = find (\<lambda>n. node_ID n = nid) (pv_nodes st)"

text \<open>\<open>allocations a JOIN nodes n ON n.id = a.node_id\<close>, for the rows with a property.\<close>

definition joined :: "(allocation_row \<Rightarrow> bool) \<Rightarrow> prov_store \<Rightarrow> Allocation list" where
  "joined p st = List.map_filter (\<lambda>a. map_option (scanAllocation a) (find_node (al_node_id a) st)) (filter p (pv_allocations st))"

definition ListAllocations :: "uuid \<Rightarrow> prov_store \<Rightarrow> Allocation list" where
  "ListAllocations credentialID st =
     sort_key (\<lambda>a. (if alc_Role a = AlPrimary then 0 else 1 :: nat, node_ID (alc_Node a)))
       (joined (\<lambda>a. al_credential_id a = credentialID) st)"

definition capacity_ceiling :: "'a Node_scheme \<Rightarrow> int" where
  "capacity_ceiling n = node_CapacityLimit n * (100 - node_ReservePercent n) div 100"

text \<open>The UPDATE that takes a place on a node, under the CHECK of the column.\<close>

definition reserve_node :: "instant \<Rightarrow> uuid \<Rightarrow> unit prov_tx" where
  "reserve_node now nid =
     tx_bind (tx_get pv_nodes) (\<lambda>rows.
       if list_ex (\<lambda>n. node_ID n = nid \<and> \<not> node_AllocatedClients n + 1 \<le> node_CapacityLimit n) rows then tx_fail PInfra
       else tx_modify (set_nodes (\<lambda>n. node_ID n = nid)
              (\<lambda>n. n\<lparr>node_AllocatedClients := node_AllocatedClients n + 1, nr_updated_at := now\<rparr>)))"

fun reserve_retained :: "instant \<Rightarrow> Operation \<Rightarrow> prov_Placement \<Rightarrow> string \<Rightarrow> Allocation list \<Rightarrow> unit prov_tx" where
  "reserve_retained now operation placement protocol [] = tx_return ()"
| "reserve_retained now operation placement protocol (a # as) =
     (if alc_DesiredOperationID a \<noteq> opn_ID operation \<or> alc_DesiredRevision a \<noteq> opn_DesiredRevision operation
        \<or> alc_DesiredState a \<noteq> Present \<or> alc_Protocol a \<noteq> protocol
      then tx_fail PErrConflict
      else if alc_State a \<noteq> AlRevoked then reserve_retained now operation placement protocol as
      else tx_bind (tx_get (find_node (node_ID (alc_Node a)))) (\<lambda>found.
        case found of
          None \<Rightarrow> tx_fail PInfra
        | Some n \<Rightarrow>
            (case nr_last_seen_at n of
               None \<Rightarrow> tx_fail PInfra
             | Some lastSeen \<Rightarrow>
                 if nr_status n \<noteq> NodeActive \<or> node_Region n \<noteq> ppl_Region placement \<or> lastSeen < now - 45 * Second
                   \<or> capacity_ceiling n \<le> node_AllocatedClients n
                 then tx_fail PErrCapacity
                 else tx_bind (reserve_node now (node_ID n)) (\<lambda>_. reserve_retained now operation placement protocol as))))"

definition bind_operation :: "Operation \<Rightarrow> prov_store \<Rightarrow> prov_store" where
  "bind_operation operation = set_operations (\<lambda>o1. opr_id o1 = opn_ID operation \<and> opr_state o1 = OpProcessing)
     (\<lambda>o1. o1\<lparr>opr_allocation_revision := opn_DesiredRevision operation\<rparr>)"

definition bound_to :: "Operation \<Rightarrow> allocation_row \<Rightarrow> bool" where
  "bound_to operation a \<longleftrightarrow> al_credential_id a = opn_CredentialID operation
     \<and> al_desired_operation_id a = opn_ID operation \<and> al_desired_revision a = opn_DesiredRevision operation"

definition retain_allocations :: "instant \<Rightarrow> Operation \<Rightarrow> prov_Placement \<Rightarrow> string \<Rightarrow> Allocation list \<Rightarrow> unit prov_tx" where
  "retain_allocations now operation placement protocol allocations =
     (if length allocations \<noteq> 2 then tx_fail PErrConflict
      else
        tx_bind (reserve_retained now operation placement protocol allocations) (\<lambda>_.
        if AlPrimary \<notin> set (map alc_Role allocations) then tx_fail PErrConflict
        else if AlFailover \<notin> set (map alc_Role allocations) then tx_fail PErrConflict
        else tx_bind (tx_get (\<lambda>st. length (filter (bound_to operation) (pv_allocations st)))) (\<lambda>n.
          tx_bind (tx_modify (set_allocations (bound_to operation)
            (\<lambda>a. a\<lparr>al_desired_state := Present, al_allocation_revision := opn_DesiredRevision operation, al_state := AlPending,
                   al_applied_config_revision := None, al_applied_at := None, al_revoked_at := None, al_last_error := None,
                   al_next_reconcile_at := now, al_reconcile_lease_until := None\<rparr>))) (\<lambda>_.
          if n \<noteq> length allocations then tx_fail PErrConflict
          else tx_modify (bind_operation operation)))))"

definition placeable :: "instant \<Rightarrow> uuid list \<Rightarrow> string \<Rightarrow> node_row \<Rightarrow> bool" where
  "placeable now locked region n \<longleftrightarrow> node_Region n = region \<and> nr_status n = NodeActive
     \<and> (case nr_last_seen_at n of None \<Rightarrow> False | Some t \<Rightarrow> t \<ge> now - 45 * Second)
     \<and> node_AllocatedClients n < capacity_ceiling n \<and> node_ID n \<notin> set locked"

text \<open>
  \<open>ORDER BY allocated_clients::numeric / capacity_limit, id\<close>: the quotients are compared by
  cross multiplication (capacities are positive, and at most a million, so that the digits
  \<open>numeric\<close> keeps separate two different quotients).
\<close>

definition less_loaded :: "node_row \<Rightarrow> node_row \<Rightarrow> bool" where
  "less_loaded n m \<longleftrightarrow>
     (let l = node_AllocatedClients n * node_CapacityLimit m; r = node_AllocatedClients m * node_CapacityLimit n
      in l < r \<or> l = r \<and> node_ID n \<le> node_ID m)"

fun least_loaded :: "node_row list \<Rightarrow> node_row option" where
  "least_loaded [] = None"
| "least_loaded (n # ns) = (case least_loaded ns of None \<Rightarrow> Some n | Some m \<Rightarrow> Some (if less_loaded n m then n else m))"

definition choose_nodes :: "instant \<Rightarrow> uuid list \<Rightarrow> string \<Rightarrow> node_row list \<Rightarrow> node_row list" where
  "choose_nodes now locked region rows =
     (case least_loaded (filter (placeable now locked region) rows) of
        None \<Rightarrow> []
      | Some n \<Rightarrow>
          (case least_loaded (filter (\<lambda>m. placeable now locked region m \<and> node_ID m \<noteq> node_ID n) rows) of
             None \<Rightarrow> [n]
           | Some m \<Rightarrow> [n, m]))"

definition new_allocation :: "uuid \<Rightarrow> instant \<Rightarrow> Operation \<Rightarrow> string \<Rightarrow> uuid \<Rightarrow> alloc_role \<Rightarrow> allocation_row" where
  "new_allocation allocationID now operation protocol nodeID role =
     \<lparr>al_id = allocationID, al_credential_id = opn_CredentialID operation, al_operation_id = opn_ID operation,
      al_desired_operation_id = opn_ID operation, al_node_id = nodeID, al_role = role, al_protocol = protocol,
      al_desired_revision = opn_DesiredRevision operation, al_desired_state = Present,
      al_allocation_revision = opn_DesiredRevision operation, al_state = AlPending, al_applied_config_revision = None,
      al_last_error = None, al_created_at = now, al_applied_at = None, al_revoked_at = None, al_next_reconcile_at = now,
      al_reconcile_lease_until = None, al_reconcile_claim_id = None, al_reconcile_attempts = 0\<rparr>"

definition insert_allocation :: "allocation_row \<Rightarrow> unit prov_tx" where
  "insert_allocation a =
     tx_bind (tx_get pv_allocations) (\<lambda>rows.
       if \<not> 0 < al_desired_revision a \<or> list_ex (\<lambda>r. al_id r = al_id a
            \<or> al_credential_id r = al_credential_id a \<and> (al_node_id r = al_node_id a \<or> al_role r = al_role a)) rows
       then tx_fail PInfra
       else tx_modify (\<lambda>st. st\<lparr>pv_allocations := pv_allocations st @ [a]\<rparr>))"

definition allocate_node :: "uuid \<Rightarrow> instant \<Rightarrow> Operation \<Rightarrow> string \<Rightarrow> alloc_role \<Rightarrow> uuid \<Rightarrow> unit prov_tx" where
  "allocate_node allocationID now operation protocol role nid =
     tx_bind (insert_allocation (new_allocation allocationID now operation protocol nid role)) (\<lambda>_. reserve_node now nid)"

definition EnsureAllocations :: "uuid \<Rightarrow> uuid \<Rightarrow> instant \<Rightarrow> uuid list \<Rightarrow> Operation \<Rightarrow> prov_Placement \<Rightarrow> string \<Rightarrow>
    Allocation list prov_tx" where
  "EnsureAllocations id1 id2 now locked operation placement protocol =
     (if ppl_PrimaryNodes placement \<noteq> 1 \<or> ppl_FailoverNodes placement \<noteq> 1 \<or> protocol \<noteq> ''vless_reality'' then tx_fail PErrConflict
      else
        tx_bind (tx_get (\<lambda>st. find (\<lambda>o1. opr_id o1 = opn_ID operation \<and> opr_credential_id o1 = opn_CredentialID operation
            \<and> opr_desired_revision o1 = opn_DesiredRevision operation) (pv_operations st))) (\<lambda>found.
        case found of
          None \<Rightarrow> tx_fail PInfra
        | Some o1 \<Rightarrow>
            if opr_state o1 \<noteq> OpProcessing then tx_fail PErrConflict
            else if \<not> ppl_ValidUntil placement > now then tx_fail PErrConflict
            else
              tx_bind (tx_get (ListAllocations (opn_CredentialID operation))) (\<lambda>allocations.
              tx_bind (if allocations \<noteq> [] then retain_allocations now operation placement protocol allocations
                 else tx_bind (tx_get (\<lambda>st. choose_nodes now locked (ppl_Region placement) (pv_nodes st))) (\<lambda>nodes.
                   case nodes of
                     [n1, n2] \<Rightarrow>
                       tx_bind (allocate_node id1 now operation protocol AlPrimary (node_ID n1)) (\<lambda>_.
                       tx_bind (allocate_node id2 now operation protocol AlFailover (node_ID n2)) (\<lambda>_.
                       tx_modify (set_operations (\<lambda>r. opr_id r = opn_ID operation)
                         (\<lambda>r. r\<lparr>opr_allocation_revision := opn_DesiredRevision operation\<rparr>))))
                   | _ \<Rightarrow> tx_fail PErrCapacity)) (\<lambda>_.
              tx_get (ListAllocations (opn_CredentialID operation))))))"

text \<open>
  The conditions of the UPDATEs that join \<open>allocations\<close> with \<open>operations\<close> by the operation's id:
  the allocation belongs to the credential and the revision of an operation in a given state.
\<close>

definition serves_operation :: "op_state list \<Rightarrow> uuid \<Rightarrow> prov_store \<Rightarrow> allocation_row \<Rightarrow> bool" where
  "serves_operation states operationID st a \<longleftrightarrow>
     list_ex (\<lambda>o1. opr_id o1 = operationID \<and> opr_state o1 \<in> set states \<and> al_desired_operation_id a = opr_id o1
        \<and> al_credential_id a = opr_credential_id o1 \<and> al_desired_revision a = opr_desired_revision o1) (pv_operations st)"

text \<open>An UPDATE of allocations that reports how many rows it touched, under a CHECK of the new values.\<close>

definition update_allocations :: "bool \<Rightarrow> (prov_store \<Rightarrow> allocation_row \<Rightarrow> bool) \<Rightarrow> (allocation_row \<Rightarrow> allocation_row) \<Rightarrow> nat prov_tx" where
  "update_allocations check p f =
     tx_bind (tx_get (\<lambda>st. length (filter (p st) (pv_allocations st)))) (\<lambda>n.
       if n > 0 \<and> \<not> check then tx_fail PInfra
       else tx_bind (tx_modify (\<lambda>st. set_allocations (p st) f st)) (\<lambda>_. tx_return n))"

definition PrepareRevoke :: "instant \<Rightarrow> Operation \<Rightarrow> unit prov_tx" where
  "PrepareRevoke now operation =
     tx_bind (update_allocations True
       (\<lambda>st a. list_ex (\<lambda>o1. opr_id o1 = opn_ID operation \<and> opr_credential_id o1 = opn_CredentialID operation
            \<and> opr_desired_revision o1 = opn_DesiredRevision operation) (pv_operations st)
          \<and> serves_operation [OpProcessing] (opn_ID operation) st a \<and> al_desired_state a = Absent)
       (\<lambda>a. a\<lparr>al_desired_state := Absent, al_last_error := None, al_next_reconcile_at := now, al_reconcile_lease_until := None\<rparr>))
     (\<lambda>n. if n = 0 then tx_fail PErrNotFound else tx_return ())"

definition MarkAllocationApplied :: "instant \<Rightarrow> uuid \<Rightarrow> uuid \<Rightarrow> int \<Rightarrow> unit prov_tx" where
  "MarkAllocationApplied now operationID nodeID configRevision =
     tx_bind (update_allocations (configRevision > 0)
       (\<lambda>st a. serves_operation [OpProcessing, OpSucceeded] operationID st a \<and> al_desired_state a = Present
          \<and> al_node_id a = nodeID \<and> (al_state a = AlPending \<or> al_state a = AlFailed \<or> al_state a = AlActive))
       (\<lambda>a. a\<lparr>al_state := AlActive, al_applied_config_revision := Some configRevision, al_applied_at := Some now,
              al_revoked_at := None, al_last_error := None, al_next_reconcile_at := now, al_reconcile_lease_until := None\<rparr>))
     (\<lambda>n. if n \<noteq> 1 then tx_fail PErrConflict else tx_return ())"

definition release_node :: "instant \<Rightarrow> uuid \<Rightarrow> prov_store \<Rightarrow> prov_store" where
  "release_node now nid = set_nodes (\<lambda>n. node_ID n = nid)
     (\<lambda>n. n\<lparr>node_AllocatedClients := max (node_AllocatedClients n - 1) 0, nr_updated_at := now\<rparr>)"

definition MarkAllocationRevoked :: "instant \<Rightarrow> uuid \<Rightarrow> uuid \<Rightarrow> int \<Rightarrow> unit prov_tx" where
  "MarkAllocationRevoked now operationID nodeID configRevision =
     tx_bind (tx_get (\<lambda>st. find (\<lambda>a. serves_operation [OpProcessing, OpSucceeded, OpFailed] operationID st a
         \<and> al_desired_state a = Absent \<and> al_node_id a = nodeID) (pv_allocations st))) (\<lambda>found.
       case found of
         None \<Rightarrow> tx_fail PErrConflict
       | Some a \<Rightarrow>
           if al_state a = AlRevoked then tx_return ()
           else if \<not> configRevision > 0 then tx_fail PInfra
           else
             tx_bind (tx_modify (set_allocations (\<lambda>r. al_id r = al_id a)
               (\<lambda>r. r\<lparr>al_state := AlRevoked, al_applied_config_revision := Some configRevision, al_revoked_at := Some now,
                      al_last_error := None, al_next_reconcile_at := now, al_reconcile_lease_until := None\<rparr>))) (\<lambda>_.
             tx_modify (release_node now nodeID)))"

definition MarkAllocationFailed :: "uuid \<Rightarrow> uuid \<Rightarrow> string \<Rightarrow> unit prov_tx" where
  "MarkAllocationFailed operationID nodeID reason =
     tx_bind (update_allocations (pg_length reason \<le> 64)
       (\<lambda>st a. serves_operation [OpProcessing] operationID st a \<and> al_node_id a = nodeID \<and> al_state a \<noteq> AlRevoked)
       (\<lambda>a. a\<lparr>al_state := AlFailed, al_last_error := Some reason\<rparr>))
     (\<lambda>n. if n \<noteq> 1 then tx_fail PErrConflict else tx_return ())"

section \<open>Outcomes\<close>

text \<open>\<open>INSERT \<dots> ON CONFLICT DO UPDATE SET last_sequence = last_sequence + 1 RETURNING last_sequence\<close>.\<close>

definition next_outcome :: "uuid \<Rightarrow> int prov_tx" where
  "next_outcome cid =
     tx_bind (tx_get (\<lambda>st. map_of (pv_outcomes st) cid)) (\<lambda>last.
       let n = (case last of None \<Rightarrow> 1 | Some k \<Rightarrow> k + 1) in
       tx_bind (tx_modify (\<lambda>st. st\<lparr>pv_outcomes := AList.update cid n (pv_outcomes st)\<rparr>)) (\<lambda>_. tx_return n))"

definition completeOperationWithEvent :: "uuid \<Rightarrow> instant \<Rightarrow> instant \<Rightarrow> Operation \<Rightarrow> string \<Rightarrow> prov_dedupe \<Rightarrow> prov_event_data \<Rightarrow>
    unit prov_tx" where
  "completeOperationWithEvent eventID now appNow operation topic dedupe data =
     tx_bind (tx_get (\<lambda>st. find (\<lambda>o1. opr_id o1 = opn_ID operation) (pv_operations st))) (\<lambda>found.
       case found of
         None \<Rightarrow> tx_fail PInfra
       | Some o1 \<Rightarrow>
           if opr_state o1 = OpSucceeded \<or> opr_state o1 = OpFailed then tx_return ()
           else if opr_state o1 \<noteq> OpProcessing then tx_fail PErrConflict
           else tx_bind (tx_get (find_cursor (opn_CredentialID operation))) (\<lambda>cursor.
             case cursor of
               None \<Rightarrow> tx_fail PInfra
             | Some cu \<Rightarrow>
                 if cu_last_desired_revision cu \<noteq> opn_DesiredRevision operation then tx_fail PErrConflict
                 else
                   tx_bind (next_outcome (opn_CredentialID operation)) (\<lambda>seq.
                   tx_bind (prov_insertOutbox now eventID topic (''credential:'' @ opn_CredentialID operation)
                      (opn_CredentialID operation) seq dedupe
                      (prov_eventPayload topic eventID (opn_CredentialID operation) seq ''credential''
                         (''credential:'' @ opn_CredentialID operation) (opn_CorrelationID operation)
                         (Some (opn_CausationEventID operation)) appNow data)) (\<lambda>_.
                   let terminal = (if topic = ''access.provision.failed.v1'' \<or> topic = ''access.revoke.failed.v1''
                                   then OpFailed else OpSucceeded) in
                   tx_modify (set_operations (\<lambda>r. opr_id r = opn_ID operation)
                     (\<lambda>r. r\<lparr>opr_state := terminal, opr_lease_until := None, opr_last_error := None, opr_completed_at := Some now\<rparr>))))))"

definition endpointFromAllocation :: "Allocation \<Rightarrow> Endpoint" where
  "endpointFromAllocation a = (let n = alc_Node a in
     \<lparr>ep_NodeID = node_ID n, ep_Role = alc_Role a, ep_Address = node_PublicAddress n, ep_Port = node_PublicPort n,
      ep_ServerName = node_ServerName n, ep_RealityPublicKey = node_RealityPublicKey n, ep_ShortID = node_ShortID n,
      ep_SpiderX = node_SpiderX n, ep_Label = node_Label n\<rparr>)"

definition active_endpoints :: "Allocation list \<Rightarrow> Endpoint list" where
  "active_endpoints allocations = map endpointFromAllocation (filter (\<lambda>a. alc_State a = AlActive) allocations)"

definition CompleteProvision :: "uuid \<Rightarrow> instant \<Rightarrow> instant \<Rightarrow> Operation \<Rightarrow> string \<Rightarrow> Allocation list \<Rightarrow> unit prov_tx" where
  "CompleteProvision eventID now appNow operation status allocations =
     (if status \<noteq> ''active'' \<and> status \<noteq> ''degraded'' then tx_fail PErrConflict
      else if list_ex (\<lambda>a. alc_DesiredOperationID a \<noteq> opn_ID operation \<or> alc_DesiredRevision a \<noteq> opn_DesiredRevision operation
             \<or> alc_DesiredState a \<noteq> Present \<or> alc_AllocationRevision a \<noteq> opn_DesiredRevision operation) allocations
      then tx_fail PErrConflict
      else
        let assigned = map (\<lambda>a. node_ID (alc_Node a)) allocations;
            endpoints = active_endpoints allocations;
            primaryActive = list_ex (\<lambda>a. alc_State a = AlActive \<and> alc_Role a = AlPrimary) allocations
        in if length assigned \<noteq> 2 \<or> assigned ! 0 = assigned ! 1 \<or> \<not> primaryActive
             \<or> status = ''active'' \<and> length endpoints \<noteq> 2 \<or> status = ''degraded'' \<and> length endpoints \<noteq> 1
           then tx_fail PErrConflict
           else completeOperationWithEvent eventID now appNow operation ''access.provision.succeeded.v1''
             (PdProvisionSucceeded (opn_ID operation))
             (ProvisionSucceededData (opn_ID operation) (opn_CredentialID operation) (opn_DesiredRevision operation) status
                (sort assigned) (sort_key (\<lambda>e. (if ep_Role e = AlPrimary then 0 else 1 :: nat, ep_NodeID e)) endpoints) appNow))"

definition CompleteProvisionFailure :: "uuid \<Rightarrow> instant \<Rightarrow> instant \<Rightarrow> Operation \<Rightarrow> string \<Rightarrow> string \<Rightarrow> uuid list \<Rightarrow> unit prov_tx" where
  "CompleteProvisionFailure eventID now appNow operation scope reason pending =
     completeOperationWithEvent eventID now appNow operation ''access.provision.failed.v1'' (PdProvisionFailed (opn_ID operation))
       (ProvisionFailedData (opn_ID operation) (opn_CredentialID operation) (opn_DesiredRevision operation) scope reason appNow pending)"

definition CompleteRevoke :: "uuid \<Rightarrow> instant \<Rightarrow> instant \<Rightarrow> Operation \<Rightarrow> Allocation list \<Rightarrow> unit prov_tx" where
  "CompleteRevoke eventID now appNow operation allocations =
     (if list_ex (\<lambda>a. alc_DesiredOperationID a \<noteq> opn_ID operation \<or> alc_DesiredRevision a \<noteq> opn_DesiredRevision operation
          \<or> alc_DesiredState a \<noteq> Absent \<or> alc_State a \<noteq> AlRevoked) allocations
      then tx_fail PErrConflict
      else completeOperationWithEvent eventID now appNow operation ''access.revoke.succeeded.v1'' (PdRevokeSucceeded (opn_ID operation))
        (RevokeSucceededData (opn_ID operation) (opn_CredentialID operation) (opn_DesiredRevision operation)
           (foldl max 0 (map alc_AllocationRevision allocations)) (sort (map (\<lambda>a. node_ID (alc_Node a)) allocations)) appNow))"

definition CompleteRevokeFailure :: "uuid \<Rightarrow> instant \<Rightarrow> instant \<Rightarrow> Operation \<Rightarrow> string \<Rightarrow> uuid list \<Rightarrow> unit prov_tx" where
  "CompleteRevokeFailure eventID now appNow operation reason pending =
     completeOperationWithEvent eventID now appNow operation ''access.revoke.failed.v1'' (PdRevokeFailed (opn_ID operation))
       (RevokeFailedData (opn_ID operation) (opn_CredentialID operation) (opn_DesiredRevision operation) reason appNow pending)"

section \<open>Nodes\<close>

definition seeded :: "NodeSeed \<Rightarrow> node_row \<Rightarrow> node_row" where
  "seeded seed n =
     n\<lparr>node_Region := seed_Region seed, node_ManagementURL := seed_ManagementURL seed,
       node_ManagementSPIFFEID := seed_ManagementSPIFFEID seed, node_CapacityLimit := seed_CapacityLimit seed,
       node_ReservePercent := seed_ReservePercent seed, node_PublicAddress := seed_PublicAddress seed,
       node_PublicPort := seed_PublicPort seed, node_ServerName := seed_ServerName seed,
       node_RealityPublicKey := seed_RealityPublicKey seed, node_ShortID := seed_ShortID seed,
       node_SpiderX := seed_SpiderX seed, node_Label := seed_Label seed\<rparr>"

definition new_node :: "instant \<Rightarrow> NodeSeed \<Rightarrow> node_row" where
  "new_node now seed =
     \<lparr>node_ID = seed_ID seed, node_Region = seed_Region seed, node_ManagementURL = seed_ManagementURL seed,
      node_ManagementSPIFFEID = seed_ManagementSPIFFEID seed, node_CapacityLimit = seed_CapacityLimit seed,
      node_ReservePercent = seed_ReservePercent seed, node_AllocatedClients = 0, node_PublicAddress = seed_PublicAddress seed,
      node_PublicPort = seed_PublicPort seed, node_ServerName = seed_ServerName seed,
      node_RealityPublicKey = seed_RealityPublicKey seed, node_ShortID = seed_ShortID seed, node_SpiderX = seed_SpiderX seed,
      node_Label = seed_Label seed, nr_status = NodeActive, nr_agent_version = None, nr_xray_version = None,
      nr_config_revision = 0, nr_last_seen_at = None, nr_updated_at = now\<rparr>"

definition address_taken :: "NodeSeed \<Rightarrow> node_row list \<Rightarrow> bool" where
  "address_taken seed rows = list_ex (\<lambda>n. node_ID n \<noteq> seed_ID seed
     \<and> (node_ManagementURL n = seed_ManagementURL seed \<or> node_ManagementSPIFFEID n = seed_ManagementSPIFFEID seed)) rows"

definition seed_node :: "instant \<Rightarrow> NodeSeed \<Rightarrow> unit prov_tx" where
  "seed_node now seed =
     tx_bind (tx_get pv_nodes) (\<lambda>rows.
       if \<not> node_check (new_node now seed) then tx_fail PInfra
       else case find (\<lambda>n. node_ID n = seed_ID seed) rows of
           None \<Rightarrow>
             if address_taken seed rows then tx_fail PInfra
             else tx_modify (\<lambda>st. st\<lparr>pv_nodes := pv_nodes st @ [new_node now seed]\<rparr>)
         | Some n \<Rightarrow>
             if node_AllocatedClients n \<noteq> 0 then tx_return ()
             else if address_taken seed rows then tx_fail PInfra
             else tx_modify (set_nodes (\<lambda>n. node_ID n = seed_ID seed) (\<lambda>n. (seeded seed n)\<lparr>nr_updated_at := now\<rparr>)))"

fun SeedNodes :: "instant \<Rightarrow> NodeSeed list \<Rightarrow> unit prov_tx" where
  "SeedNodes now [] = tx_return ()"
| "SeedNodes now (seed # seeds) = tx_bind (seed_node now seed) (\<lambda>_. SeedNodes now seeds)"

definition ListNodes :: "prov_store \<Rightarrow> Node list" where
  "ListNodes st = map node_of_row (sort_key node_ID (filter (\<lambda>n. nr_status n \<noteq> NodeDraining) (pv_nodes st)))"

definition RecordNodeHealth :: "instant \<Rightarrow> AgentStatus \<Rightarrow> nanos \<Rightarrow> unit prov_tx" where
  "RecordNodeHealth now status staleAfter =
     tx_bind (tx_get (\<lambda>st. length (filter (\<lambda>n. node_ID n = ast_NodeID status) (pv_nodes st)))) (\<lambda>n.
       if n > 0 \<and> \<not> (pg_length (ast_AgentVersion status) \<le> 64 \<and> pg_length (ast_XrayVersion status) \<le> 64 \<and> 0 \<le> ast_ConfigRevision status)
       then tx_fail PInfra
       else
         tx_bind (tx_modify (set_nodes (\<lambda>n. node_ID n = ast_NodeID status)
           (\<lambda>n. n\<lparr>nr_status := (if ast_XrayHealthy status then NodeActive else NodeOffline),
                  nr_agent_version := Some (ast_AgentVersion status), nr_xray_version := Some (ast_XrayVersion status),
                  nr_config_revision := ast_ConfigRevision status, nr_last_seen_at := Some now, nr_updated_at := now\<rparr>))) (\<lambda>_.
         if n \<noteq> 1 then tx_fail PErrNotFound
         else if \<not> (0 \<le> ast_ConfigRevision status \<and> 0 \<le> ast_ActiveClients status \<and> between 1 64 (ast_AgentVersion status)
                  \<and> between 1 64 (ast_XrayVersion status))
         then tx_fail PInfra
         else
           tx_bind (tx_modify (\<lambda>st. st\<lparr>pv_health := pv_health st @
             [\<lparr>hr_node_id = ast_NodeID status, hr_observed_at = now, hr_config_revision = ast_ConfigRevision status,
               hr_active_clients = ast_ActiveClients status, hr_xray_healthy = ast_XrayHealthy status,
               hr_agent_version = ast_AgentVersion status, hr_xray_version = ast_XrayVersion status\<rparr>]\<rparr>)) (\<lambda>_.
           tx_modify (set_nodes (\<lambda>n. nr_status n = NodeActive
               \<and> (case nr_last_seen_at n of None \<Rightarrow> False | Some t \<Rightarrow> t < now - staleAfter))
             (\<lambda>n. n\<lparr>nr_status := NodeOffline, nr_updated_at := now\<rparr>)))))"

definition MarkNodeOffline :: "instant \<Rightarrow> uuid \<Rightarrow> unit prov_tx" where
  "MarkNodeOffline now nid = tx_modify (set_nodes (\<lambda>n. node_ID n = nid) (\<lambda>n. n\<lparr>nr_status := NodeOffline, nr_updated_at := now\<rparr>))"

section \<open>Reconciliation\<close>

definition reconcile_due :: "instant \<Rightarrow> uuid list \<Rightarrow> prov_store \<Rightarrow> allocation_row \<Rightarrow> bool" where
  "reconcile_due now locked st a \<longleftrightarrow>
     list_ex (\<lambda>n. node_ID n = al_node_id a \<and> (nr_status n = NodeActive \<or> nr_status n = NodeDraining)) (pv_nodes st)
     \<and> list_ex (\<lambda>o1. opr_id o1 = al_desired_operation_id a
         \<and> (al_desired_state a = Absent \<or> al_desired_state a = Present \<and> opr_state o1 = OpSucceeded)) (pv_operations st)
     \<and> al_next_reconcile_at a \<le> now
     \<and> (case al_reconcile_lease_until a of None \<Rightarrow> True | Some t \<Rightarrow> t < now) \<and> al_id a \<notin> set locked"

definition due_rows :: "instant \<Rightarrow> uuid list \<Rightarrow> nat \<Rightarrow> prov_store \<Rightarrow> allocation_row list" where
  "due_rows now locked limit st =
     take limit (sort_key (\<lambda>a. (al_next_reconcile_at a, al_created_at a, al_id a)) (filter (reconcile_due now locked st) (pv_allocations st)))"

fun lease_candidates :: "instant \<Rightarrow> nanos \<Rightarrow> (Allocation \<times> uuid) list \<Rightarrow> ReconciliationCandidate list prov_tx" where
  "lease_candidates now lease [] = tx_return []"
| "lease_candidates now lease ((a, claimID) # rest) =
     tx_bind (update_allocations True (\<lambda>_ r. al_id r = alc_ID a)
       (\<lambda>r. r\<lparr>al_reconcile_claim_id := Some claimID, al_reconcile_lease_until := Some (now + lease),
              al_reconcile_attempts := al_reconcile_attempts r + 1\<rparr>)) (\<lambda>n.
     if n \<noteq> 1 then tx_fail PErrConflict
     else tx_bind (lease_candidates now lease rest) (\<lambda>cs. tx_return (\<lparr>rc_Allocation = a, rc_ClaimID = claimID\<rparr> # cs)))"

text \<open>\<open>claimIDs i\<close> is the identifier made for the \<open>i\<close>-th candidate.\<close>

definition ClaimReconciliationCandidates :: "instant \<Rightarrow> uuid list \<Rightarrow> (nat \<Rightarrow> uuid) \<Rightarrow> int \<Rightarrow> nanos \<Rightarrow> ReconciliationCandidate list prov_tx" where
  "ClaimReconciliationCandidates now locked claimIDs limit lease =
     (if limit < 1 \<or> limit > 1000 \<or> lease \<le> 0 then tx_fail PErrConflict
      else tx_bind (tx_get (\<lambda>st. List.map_filter (\<lambda>a. map_option (scanAllocation a) (find_node (al_node_id a) st))
             (due_rows now locked (nat limit) st))) (\<lambda>candidates.
        lease_candidates now lease (zip candidates (map claimIDs [0..<length candidates]))))"

definition RescheduleReconciliation :: "instant \<Rightarrow> uuid \<Rightarrow> uuid \<Rightarrow> nanos \<Rightarrow> unit prov_tx" where
  "RescheduleReconciliation now allocationID claimID delay =
     (if delay < 0 then tx_fail PErrConflict
      else tx_bind (update_allocations True (\<lambda>_ a. al_id a = allocationID \<and> al_reconcile_claim_id a = Some claimID)
        (\<lambda>a. a\<lparr>al_next_reconcile_at := now + delay, al_reconcile_lease_until := None, al_reconcile_claim_id := None\<rparr>)) (\<lambda>n.
        if n \<noteq> 1 then tx_fail PErrConflict else tx_return ()))"

section \<open>Reads for support, and the outbox\<close>

record SupportAllocation =
  sa_NodeID :: uuid
  sa_NodeLabel :: string
  sa_Region :: string
  sa_NodeStatus :: node_status
  sa_Role :: alloc_role
  sa_DesiredRevision :: int
  sa_DesiredState :: alloc_target
  sa_AllocationRevision :: int
  sa_State :: alloc_state
  sa_LastErrorCode :: "string option"

record SupportSnapshot =
  ss_CredentialID :: uuid
  ss_OperationID :: uuid
  ss_Kind :: op_kind
  ss_DesiredRevision :: int
  ss_State :: op_state
  ss_Attempts :: int
  ss_MaxAttempts :: int
  ss_LastErrorCode :: "string option"
  ss_CreatedAt :: instant
  ss_CompletedAt :: "instant option"
  ss_Allocations :: "SupportAllocation list"

definition support_allocation :: "allocation_row \<Rightarrow> node_row \<Rightarrow> SupportAllocation" where
  "support_allocation a n =
     \<lparr>sa_NodeID = al_node_id a, sa_NodeLabel = node_Label n, sa_Region = node_Region n, sa_NodeStatus = nr_status n,
      sa_Role = al_role a, sa_DesiredRevision = al_desired_revision a, sa_DesiredState = al_desired_state a,
      sa_AllocationRevision = al_allocation_revision a, sa_State = al_state a, sa_LastErrorCode = al_last_error a\<rparr>"

definition GetSupportSnapshot :: "uuid \<Rightarrow> prov_store \<Rightarrow> prov_error + SupportSnapshot" where
  "GetSupportSnapshot credentialID st =
     (case first_by (\<lambda>o1. (- opr_desired_revision o1, - opr_created_at o1))
             (filter (\<lambda>o1. opr_credential_id o1 = credentialID) (pv_operations st)) of
        None \<Rightarrow> Inl PErrNotFound
      | Some o1 \<Rightarrow> Inr
          \<lparr>ss_CredentialID = opr_credential_id o1, ss_OperationID = opr_id o1, ss_Kind = opr_kind o1,
           ss_DesiredRevision = opr_desired_revision o1, ss_State = opr_state o1, ss_Attempts = opr_attempts o1,
           ss_MaxAttempts = opr_max_attempts o1, ss_LastErrorCode = opr_last_error o1, ss_CreatedAt = opr_created_at o1,
           ss_CompletedAt = opr_completed_at o1,
           ss_Allocations = sort_key (\<lambda>s. (if sa_Role s = AlPrimary then 0 else 1 :: nat, sa_NodeID s))
             (List.map_filter (\<lambda>a. map_option (support_allocation a) (find_node (al_node_id a) st))
               (filter (\<lambda>a. al_credential_id a = credentialID) (pv_allocations st)))\<rparr>)"

definition prov_claim :: "instant \<Rightarrow> nanos \<Rightarrow> uuid list \<Rightarrow> prov_envelope OutboxMessage option prov_tx" where
  "prov_claim now lease locked st = (case prov_ClaimOutbox now lease locked (pv_outbox st) of (m, rows) \<Rightarrow> (Inr m, st\<lparr>pv_outbox := rows\<rparr>))"

definition prov_complete :: "instant \<Rightarrow> uuid \<Rightarrow> unit prov_tx" where
  "prov_complete now eid st = (case prov_CompleteOutbox now eid (pv_outbox st) of
     (Inl _, rows) \<Rightarrow> (Inl PErrConflict, st\<lparr>pv_outbox := rows\<rparr>) | (Inr _, rows) \<Rightarrow> (Inr (), st\<lparr>pv_outbox := rows\<rparr>))"

definition prov_retry :: "instant \<Rightarrow> nanos \<Rightarrow> uuid \<Rightarrow> unit prov_tx" where
  "prov_retry now delay eid st = (case prov_RetryOutbox now delay eid (pv_outbox st) of
     (Inl _, rows) \<Rightarrow> (Inl PErrConflict, st\<lparr>pv_outbox := rows\<rparr>) | (Inr _, rows) \<Rightarrow> (Inr (), st\<lparr>pv_outbox := rows\<rparr>))"

end
