(* ===== verification/Provisioning_Capacity.thy ===== *)
theory Provisioning_Capacity
  imports Provisioning_Store "HOL-Library.Multiset"
begin

text \<open>
  The places on the nodes. \<open>allocated_clients\<close> of a node is the number of its allocations that
  are not revoked, and it never exceeds the capacity that the reserve leaves. Inside a
  transaction the counter and the rows disagree between two statements; the operations change
  them together, and the lemmas here take each committed transaction as a whole.

  The invariant is stated over what it reads of the two tables (\<open>node_view\<close>, \<open>alloc_view\<close>), so
  that an operation that writes none of it keeps the invariant by rewriting.
\<close>

section \<open>The invariant\<close>

definition node_view :: "'a Node_scheme \<Rightarrow> uuid \<times> int \<times> int \<times> int" where
  "node_view n = (node_ID n, node_AllocatedClients n, node_CapacityLimit n, node_ReservePercent n)"

definition alloc_view :: "allocation_row \<Rightarrow> uuid \<times> uuid \<times> uuid \<times> alloc_role \<times> bool" where
  "alloc_view a = (al_id a, al_credential_id a, al_node_id a, al_role a, al_state a = AlRevoked)"

definition placed :: "uuid \<Rightarrow> allocation_row list \<Rightarrow> nat" where
  "placed nid rows = length (filter (\<lambda>a. al_node_id a = nid \<and> al_state a \<noteq> AlRevoked) rows)"

definition alloc_keys :: "allocation_row list \<Rightarrow> bool" where
  "alloc_keys rows \<longleftrightarrow> distinct (map al_id rows) \<and> distinct (map (\<lambda>a. (al_credential_id a, al_node_id a)) rows)
     \<and> distinct (map (\<lambda>a. (al_credential_id a, al_role a)) rows)"

definition node_room :: "allocation_row list \<Rightarrow> 'a Node_scheme \<Rightarrow> bool" where
  "node_room rows n \<longleftrightarrow> node_AllocatedClients n = int (placed (node_ID n) rows)
     \<and> node_AllocatedClients n \<le> capacity_ceiling n \<and> 1 \<le> node_CapacityLimit n
     \<and> 20 \<le> node_ReservePercent n \<and> node_ReservePercent n \<le> 90"

definition capacity_ok :: "prov_store \<Rightarrow> bool" where
  "capacity_ok st \<longleftrightarrow> distinct (map node_ID (pv_nodes st)) \<and> alloc_keys (pv_allocations st)
     \<and> (\<forall>a \<in> set (pv_allocations st). al_node_id a \<in> node_ID ` set (pv_nodes st))
     \<and> (\<forall>n \<in> set (pv_nodes st). node_room (pv_allocations st) n)"

lemma capacity_empty: "capacity_ok empty_prov_store"
  by (simp add: capacity_ok_def empty_prov_store_def alloc_keys_def)

lemma placed_eq: "placed nid rows = length (filter (\<lambda>(i, c, n, r, b). n = nid \<and> \<not> b) (map alloc_view rows))"
  by (simp add: placed_def filter_map comp_def alloc_view_def)

lemma placed_view: "map alloc_view rows = map alloc_view rows' \<Longrightarrow> placed nid rows = placed nid rows'"
  by (simp add: placed_eq)

lemma alloc_keys_view:
  assumes "map alloc_view rows = map alloc_view rows'"
  shows "alloc_keys rows = alloc_keys rows'"
proof -
  have "map (f \<circ> alloc_view) rows = map (f \<circ> alloc_view) rows'" for f :: "_ \<Rightarrow> 'b"
    using assms by (metis map_map)
  from this [of fst] this [of "\<lambda>(i, c, n, r, b). (c, n)"] this [of "\<lambda>(i, c, n, r, b). (c, r)"]
  show ?thesis by (simp add: alloc_keys_def alloc_view_def comp_def)
qed

lemma set_view: "map v xs = map v ys \<Longrightarrow> x \<in> set xs \<Longrightarrow> \<exists>y \<in> set ys. v y = v x"
  by (metis image_eqI image_iff set_map)

lemma capacity_frame:
  assumes "map node_view (pv_nodes t) = map node_view (pv_nodes st)"
    and "map alloc_view (pv_allocations t) = map alloc_view (pv_allocations st)" and "capacity_ok st"
  shows "capacity_ok t"
proof -
  have ids: "map node_ID (pv_nodes t) = map node_ID (pv_nodes st)"
    using arg_cong [OF assms(1), of "map fst"] by (simp add: node_view_def comp_def)
  then have idset: "node_ID ` set (pv_nodes t) = node_ID ` set (pv_nodes st)" by (metis set_map)
  have "al_node_id a \<in> node_ID ` set (pv_nodes t)" if "a \<in> set (pv_allocations t)" for a
  proof -
    from set_view [OF assms(2) that] obtain b where "b \<in> set (pv_allocations st)" "al_node_id b = al_node_id a"
      by (auto simp: alloc_view_def)
    with assms(3) show ?thesis unfolding idset by (metis capacity_ok_def)
  qed
  moreover have "node_room (pv_allocations t) n" if "n \<in> set (pv_nodes t)" for n
  proof -
    from set_view [OF assms(1) that] obtain m where "m \<in> set (pv_nodes st)" "node_view m = node_view n" by blast
    with assms(3) placed_view [OF assms(2), of "node_ID n"] show ?thesis
      by (auto simp: capacity_ok_def node_room_def node_view_def capacity_ceiling_def)
  qed
  ultimately show ?thesis using assms(3) ids alloc_keys_view [OF assms(2)] by (simp add: capacity_ok_def)
qed

lemmas capacity_frame_same = capacity_frame [OF refl refl]

lemma capacity_allocations:
  assumes "capacity_ok st" and "\<And>a. p a \<Longrightarrow> alloc_view (f a) = alloc_view a" and "pv_nodes t = pv_nodes st"
    and "pv_allocations t = tbl_update p f (pv_allocations st)"
  shows "capacity_ok t"
  using assms by (intro capacity_frame [OF _ _ assms(1)]) (simp_all add: map_tbl_update)

lemma capacity_nodes:
  assumes "capacity_ok st" and "\<And>n. p n \<Longrightarrow> node_view (f n) = node_view n" and "pv_allocations t = pv_allocations st"
    and "pv_nodes t = tbl_update p f (pv_nodes st)"
  shows "capacity_ok t"
  using assms by (intro capacity_frame [OF _ _ assms(1)]) (simp_all add: map_tbl_update)

lemma capacity_set_allocations:
  "capacity_ok st \<Longrightarrow> (\<And>a. p a \<Longrightarrow> alloc_view (f a) = alloc_view a) \<Longrightarrow> capacity_ok (set_allocations p f st)"
  by (erule capacity_allocations) simp_all

lemma capacity_set_nodes:
  "capacity_ok st \<Longrightarrow> (\<And>n. p n \<Longrightarrow> node_view (f n) = node_view n) \<Longrightarrow> capacity_ok (set_nodes p f st)"
  by (erule capacity_nodes) simp_all

section \<open>Joins lose no allocation\<close>

definition node_at :: "prov_store \<Rightarrow> allocation_row \<Rightarrow> node_row" where
  "node_at st a = the (find_node (al_node_id a) st)"

lemma node_atD:
  assumes "capacity_ok st" and "a \<in> set (pv_allocations st)"
  shows "find_node (al_node_id a) st = Some (node_at st a)" and "node_at st a \<in> set (pv_nodes st)" and "node_ID (node_at st a) = al_node_id a"
proof -
  from assms obtain n where n: "n \<in> set (pv_nodes st)" "node_ID n = al_node_id a" by (auto simp: capacity_ok_def)
  with assms(1) have "find_node (al_node_id a) st = Some n"
    by (simp add: find_node_def capacity_ok_def find_unique)
  with n show "find_node (al_node_id a) st = Some (node_at st a)" "node_at st a \<in> set (pv_nodes st)" "node_ID (node_at st a) = al_node_id a"
    by (simp_all add: node_at_def)
qed

lemma joined_eq:
  assumes "capacity_ok st"
  shows "joined p st = map (\<lambda>a. scanAllocation a (node_at st a)) (filter p (pv_allocations st))"
proof -
  have "List.map_filter (\<lambda>a. map_option (scanAllocation a) (find_node (al_node_id a) st)) rows
      = map (\<lambda>a. scanAllocation a (node_at st a)) rows" if "set rows \<subseteq> set (pv_allocations st)" for rows
    using that by (induction rows) (auto simp: List.map_filter_simps node_atD(1) [OF assms])
  then show ?thesis by (simp add: joined_def)
qed

lemma mset_ListAllocations:
  assumes "capacity_ok st"
  shows "mset (ListAllocations cid st) = mset (map (\<lambda>a. scanAllocation a (node_at st a)) (filter (\<lambda>a. al_credential_id a = cid) (pv_allocations st)))"
  by (simp add: ListAllocations_def joined_eq [OF assms])

lemma length_ListAllocations:
  assumes "capacity_ok st"
  shows "length (ListAllocations cid st) = length (filter (\<lambda>a. al_credential_id a = cid) (pv_allocations st))"
  by (simp add: ListAllocations_def joined_eq [OF assms])

lemma in_ListAllocations:
  assumes "capacity_ok st"
  shows "x \<in> set (ListAllocations cid st) \<longleftrightarrow>
    (\<exists>a \<in> set (pv_allocations st). al_credential_id a = cid \<and> x = scanAllocation a (node_at st a))"
  using arg_cong [OF mset_ListAllocations [OF assms, of cid], of set_mset] by auto

section \<open>Taking places\<close>

text \<open>\<open>k nid\<close> places more on each node, within the ceiling.\<close>

definition bumped :: "(uuid \<Rightarrow> nat) \<Rightarrow> node_row list \<Rightarrow> node_row list \<Rightarrow> bool" where
  "bumped k = list_all2 (\<lambda>n m. node_ID m = node_ID n \<and> node_CapacityLimit m = node_CapacityLimit n
     \<and> node_ReservePercent m = node_ReservePercent n \<and> node_AllocatedClients m = node_AllocatedClients n + int (k (node_ID n))
     \<and> (k (node_ID n) > 0 \<longrightarrow> node_AllocatedClients m \<le> capacity_ceiling n))"

lemma bumped_0 [simp]: "bumped (\<lambda>_. 0) ns ns"
  by (simp add: bumped_def list_all2_refl)

lemma bumped_ids: "bumped k ns ms \<Longrightarrow> map node_ID ms = map node_ID ns"
  unfolding bumped_def by (induction rule: list_all2_induct) auto

lemma bumped_trans:
  assumes "bumped k ns ms" and "bumped l ms rs"
  shows "bumped (\<lambda>i. k i + l i) ns rs"
  using assms unfolding bumped_def
proof (induction ns ms arbitrary: rs rule: list_all2_induct)
  case (Cons n ns m ms)
  then obtain r rs' where [simp]: "rs = r # rs'" by (cases rs) auto
  from Cons show ?case by (auto simp: capacity_ceiling_def)
qed simp

lemma bumped_reserve:
  assumes "distinct (map node_ID ns)" and "n \<in> set ns" and "node_AllocatedClients n < capacity_ceiling n"
  shows "bumped (\<lambda>i. if i = node_ID n then 1 else 0) ns
    (tbl_update (\<lambda>m. node_ID m = node_ID n) (\<lambda>m. m\<lparr>node_AllocatedClients := node_AllocatedClients m + 1, nr_updated_at := now\<rparr>) ns)"
proof -
  have same: "ns ! i = n" if "i < length ns" "node_ID (ns ! i) = node_ID n" for i
    using distinct_key_eq [OF assms(1) nth_mem [OF that(1)] assms(2) that(2)] .
  have "node_AllocatedClients (ns ! i) + 1 \<le> capacity_ceiling (ns ! i)" if "i < length ns" "node_ID (ns ! i) = node_ID n" for i
    using same [OF that] assms(3) by simp
  then show ?thesis by (auto simp: bumped_def tbl_update_def list_all2_conv_all_nth)
qed

lemma reserve_node_nodes:
  assumes "reserve_node now nid st = (Inr u, t)"
  shows "t = set_nodes (\<lambda>n. node_ID n = nid) (\<lambda>n. n\<lparr>node_AllocatedClients := node_AllocatedClients n + 1, nr_updated_at := now\<rparr>) st"
  using assms by (auto simp: reserve_node_def tx_defs split: if_splits)

text \<open>The revoked allocations of a list on a node.\<close>

definition revoked_on :: "Allocation list \<Rightarrow> uuid \<Rightarrow> nat" where
  "revoked_on as nid = length (filter (\<lambda>a. alc_State a = AlRevoked \<and> node_ID (alc_Node a) = nid) as)"

lemma reserve_retained_bumps:
  assumes "reserve_retained now operation placement protocol as st = (Inr u, t)" and "distinct (map node_ID (pv_nodes st))"
  shows "t = st\<lparr>pv_nodes := pv_nodes t\<rparr> \<and> bumped (revoked_on as) (pv_nodes st) (pv_nodes t)
    \<and> (\<forall>a \<in> set as. alc_DesiredOperationID a = opn_ID operation \<and> alc_DesiredRevision a = opn_DesiredRevision operation
        \<and> alc_DesiredState a = Present)"
  using assms
proof (induction as arbitrary: st)
  case Nil
  have "revoked_on [] = (\<lambda>_. 0)" by (simp add: fun_eq_iff revoked_on_def)
  with Nil show ?case by (simp add: tx_return_def)
next
  case (Cons a as)
  show ?case
  proof (cases "alc_State a = AlRevoked")
    case False
    have "revoked_on (a # as) = revoked_on as" using False by (simp add: fun_eq_iff revoked_on_def)
    moreover from Cons.prems(1) False have "reserve_retained now operation placement protocol as st = (Inr u, t)"
      and "alc_DesiredOperationID a = opn_ID operation \<and> alc_DesiredRevision a = opn_DesiredRevision operation \<and> alc_DesiredState a = Present"
      by (auto simp: tx_fail_def split: if_splits)
    ultimately show ?thesis using Cons.IH [of st] Cons.prems(2) by simp
  next
    case True
    from Cons.prems(1) True obtain n st1 u1 where n: "find_node (node_ID (alc_Node a)) st = Some n"
      and room: "node_AllocatedClients n < capacity_ceiling n" and res: "reserve_node now (node_ID n) st = (Inr u1, st1)"
      and rest: "reserve_retained now operation placement protocol as st1 = (Inr u, t)"
      and head: "alc_DesiredOperationID a = opn_ID operation \<and> alc_DesiredRevision a = opn_DesiredRevision operation \<and> alc_DesiredState a = Present"
      by (auto simp: tx_bind_Inr tx_results split: if_splits option.splits)
    have nin: "n \<in> set (pv_nodes st)" "node_ID n = node_ID (alc_Node a)" using n by (auto simp: find_node_def dest!: find_SomeD)
    have st1: "st1 = st\<lparr>pv_nodes := pv_nodes st1\<rparr>" using reserve_node_nodes [OF res] by simp
    have b1: "bumped (\<lambda>i. if i = node_ID n then 1 else 0) (pv_nodes st) (pv_nodes st1)"
      using bumped_reserve [OF Cons.prems(2) nin(1) room, of now] reserve_node_nodes [OF res] by simp
    from Cons.IH [OF rest] b1 Cons.prems(2) have ih: "t = st1\<lparr>pv_nodes := pv_nodes t\<rparr>" "bumped (revoked_on as) (pv_nodes st1) (pv_nodes t)"
      "\<forall>a \<in> set as. alc_DesiredOperationID a = opn_ID operation \<and> alc_DesiredRevision a = opn_DesiredRevision operation \<and> alc_DesiredState a = Present"
      by (simp_all add: bumped_ids)
    have "revoked_on (a # as) = (\<lambda>i. (if i = node_ID n then 1 else 0) + revoked_on as i)"
      using True nin(2) by (auto simp: fun_eq_iff revoked_on_def)
    with bumped_trans [OF b1 ih(2)] have "bumped (revoked_on (a # as)) (pv_nodes st) (pv_nodes t)" by simp
    moreover have "t = st\<lparr>pv_nodes := pv_nodes t\<rparr>" by (subst ih(1), subst st1) simp
    ultimately show ?thesis using head ih(3) by simp
  qed
qed

lemma capacity_bumped:
  assumes cap: "capacity_ok st" and bump: "bumped k (pv_nodes st) (pv_nodes t)" and keys: "alloc_keys (pv_allocations t)"
    and count: "\<And>nid. placed nid (pv_allocations t) = placed nid (pv_allocations st) + k nid"
    and fk: "\<And>a. a \<in> set (pv_allocations t) \<Longrightarrow> al_node_id a \<in> node_ID ` set (pv_nodes st)"
  shows "capacity_ok t"
proof -
  have ids: "map node_ID (pv_nodes t) = map node_ID (pv_nodes st)" using bumped_ids [OF bump] .
  then have idset: "node_ID ` set (pv_nodes t) = node_ID ` set (pv_nodes st)" by (metis set_map)
  have "node_room (pv_allocations t) m" if "m \<in> set (pv_nodes t)" for m
  proof -
    from that obtain i where i: "i < length (pv_nodes t)" "m = pv_nodes t ! i" by (auto simp: in_set_conv_nth)
    with bump have len: "i < length (pv_nodes st)" by (simp add: bumped_def list_all2_lengthD)
    let ?n = "pv_nodes st ! i"
    from bump len i(2) have "node_ID m = node_ID ?n" "node_CapacityLimit m = node_CapacityLimit ?n"
      "node_ReservePercent m = node_ReservePercent ?n" "node_AllocatedClients m = node_AllocatedClients ?n + int (k (node_ID ?n))"
      "k (node_ID ?n) > 0 \<longrightarrow> node_AllocatedClients m \<le> capacity_ceiling ?n"
      by (auto simp: bumped_def dest: list_all2_nthD)
    moreover have "node_room (pv_allocations st) ?n" using cap len by (simp add: capacity_ok_def)
    ultimately show ?thesis using count [of "node_ID ?n"] by (auto simp: node_room_def capacity_ceiling_def)
  qed
  with cap keys fk idset ids show ?thesis by (simp add: capacity_ok_def)
qed

section \<open>The operations that move places\<close>

lemma placed_append: "placed nid (rows @ [a]) = placed nid rows + (if al_node_id a = nid \<and> al_state a \<noteq> AlRevoked then 1 else 0)"
  by (simp add: placed_def)

lemma allocate_node_capacity:
  assumes cap: "capacity_ok st" and n: "n \<in> set (pv_nodes st)" "node_AllocatedClients n < capacity_ceiling n"
    and run: "allocate_node i now operation protocol role (node_ID n) st = (Inr u, t)"
  shows "capacity_ok t" and "m \<in> set (pv_nodes st) \<Longrightarrow> node_ID m \<noteq> node_ID n \<Longrightarrow> m \<in> set (pv_nodes t)"
    and "t = st\<lparr>pv_nodes := pv_nodes t, pv_allocations := pv_allocations st @ [new_allocation i now operation protocol (node_ID n) role]\<rparr>"
proof -
  let ?a = "new_allocation i now operation protocol (node_ID n) role"
  from run obtain st1 u1 where ins: "insert_allocation ?a st = (Inr u1, st1)" and res: "reserve_node now (node_ID n) st1 = (Inr u, t)"
    by (auto simp: allocate_node_def tx_bind_Inr)
  from ins have st1: "st1 = st\<lparr>pv_allocations := pv_allocations st @ [?a]\<rparr>"
    and fresh: "\<forall>r \<in> set (pv_allocations st). \<not> (al_id r = al_id ?a
      \<or> al_credential_id r = al_credential_id ?a \<and> (al_node_id r = al_node_id ?a \<or> al_role r = al_role ?a))"
    by (auto simp: insert_allocation_def tx_defs list_ex_iff split: if_splits)
  note nodes = reserve_node_nodes [OF res]
  show shape: "t = st\<lparr>pv_nodes := pv_nodes t, pv_allocations := pv_allocations st @ [?a]\<rparr>" using nodes st1 by simp
  have allocs: "pv_allocations t = pv_allocations st @ [?a]" using nodes st1 by simp
  show "m \<in> set (pv_nodes t)" if "m \<in> set (pv_nodes st)" "node_ID m \<noteq> node_ID n"
    using that nodes st1 by (auto simp: set_tbl_update)
  have keys: "alloc_keys (pv_allocations t)" using cap fresh unfolding allocs capacity_ok_def alloc_keys_def by auto
  have bump: "bumped (\<lambda>i. if i = node_ID n then 1 else 0) (pv_nodes st) (pv_nodes t)"
    using bumped_reserve [of "pv_nodes st" n now] cap n nodes st1 by (simp add: capacity_ok_def)
  show "capacity_ok t"
    by (rule capacity_bumped [OF cap bump keys]) (use cap n(1) in \<open>auto simp: allocs placed_append new_allocation_def capacity_ok_def\<close>)
qed

lemma least_loaded_in: "least_loaded ns = Some n \<Longrightarrow> n \<in> set ns"
  by (induction ns arbitrary: n) (auto split: option.splits if_splits)

lemma choose_nodes_two:
  assumes "choose_nodes now locked region rows = [n1, n2]"
  shows "n1 \<in> set rows" "placeable now locked region n1" "n2 \<in> set rows" "placeable now locked region n2" "node_ID n2 \<noteq> node_ID n1"
  using assms by (auto simp: choose_nodes_def split: option.splits dest!: least_loaded_in)

definition rebound :: "instant \<Rightarrow> Operation \<Rightarrow> allocation_row \<Rightarrow> allocation_row" where
  "rebound now operation a = a\<lparr>al_desired_state := Present, al_allocation_revision := opn_DesiredRevision operation, al_state := AlPending,
     al_applied_config_revision := None, al_applied_at := None, al_revoked_at := None, al_last_error := None,
     al_next_reconcile_at := now, al_reconcile_lease_until := None\<rparr>"

lemma retain_result:
  assumes cap: "capacity_ok st"
    and run: "retain_allocations now operation placement protocol (ListAllocations (opn_CredentialID operation) st) st = (Inr u, t)"
  shows "bumped (revoked_on (ListAllocations (opn_CredentialID operation) st)) (pv_nodes st) (pv_nodes t)"
    and "pv_allocations t = tbl_update (\<lambda>a. al_credential_id a = opn_CredentialID operation) (rebound now operation) (pv_allocations st)"
    and "t = (bind_operation operation st)\<lparr>pv_nodes := pv_nodes t, pv_allocations := pv_allocations t\<rparr>"
    and "\<And>a. a \<in> set (pv_allocations st) \<Longrightarrow> al_credential_id a = opn_CredentialID operation \<Longrightarrow> bound_to operation a"
proof -
  let ?as = "ListAllocations (opn_CredentialID operation) st"
  from run obtain st1 u1 where res: "reserve_retained now operation placement protocol ?as st = (Inr u1, st1)"
    and n: "length (filter (bound_to operation) (pv_allocations st1)) = length ?as"
    and t: "t = bind_operation operation (set_allocations (bound_to operation) (rebound now operation) st1)"
    by (auto simp: retain_allocations_def tx_bind_Inr tx_results rebound_def [abs_def] split: if_splits)
  have d: "distinct (map node_ID (pv_nodes st))" using cap by (simp add: capacity_ok_def)
  note R = reserve_retained_bumps [OF res d]
  have allocs1: "pv_allocations st1 = pv_allocations st" by (subst R [THEN conjunct1]) simp
  have sub: "bound_to operation a \<longrightarrow> al_credential_id a = opn_CredentialID operation" for a by (simp add: bound_to_def)
  show all: "bound_to operation a" if "a \<in> set (pv_allocations st)" "al_credential_id a = opn_CredentialID operation" for a
    using R [THEN conjunct2, THEN conjunct2] in_ListAllocations [OF cap, of _ "opn_CredentialID operation"] that
    by (fastforce simp: bound_to_def scanAllocation_def)
  have eq: "bound_to operation a = (al_credential_id a = opn_CredentialID operation)" if "a \<in> set (pv_allocations st)" for a
    using that all sub by blast
  have "pv_allocations t = tbl_update (bound_to operation) (rebound now operation) (pv_allocations st)"
    unfolding t bind_operation_def by (simp add: allocs1)
  then show "pv_allocations t = tbl_update (\<lambda>a. al_credential_id a = opn_CredentialID operation) (rebound now operation) (pv_allocations st)"
    using eq by (simp add: tbl_update_def)
  show "bumped (revoked_on ?as) (pv_nodes st) (pv_nodes t)" using R t by (simp add: bind_operation_def)
  show "t = (bind_operation operation st)\<lparr>pv_nodes := pv_nodes t, pv_allocations := pv_allocations t\<rparr>"
    unfolding t bind_operation_def by (subst (1 2) R [THEN conjunct1]) simp
qed

lemma placed_rebound:
  "placed nid (tbl_update p (rebound now operation) rows) =
     placed nid rows + length (filter (\<lambda>a. p a \<and> al_state a = AlRevoked \<and> al_node_id a = nid) rows)"
  by (induction rows) (auto simp: placed_def rebound_def)

lemma revoked_on_list:
  assumes "capacity_ok st"
  shows "revoked_on (ListAllocations cid st) nid =
    length (filter (\<lambda>a. al_credential_id a = cid \<and> al_state a = AlRevoked \<and> al_node_id a = nid) (pv_allocations st))"
proof -
  have "size (filter_mset (\<lambda>x. alc_State x = AlRevoked \<and> node_ID (alc_Node x) = nid) (mset (ListAllocations cid st)))
    = size (filter_mset (\<lambda>a. al_credential_id a = cid \<and> al_state a = AlRevoked \<and> al_node_id a = nid) (mset (pv_allocations st)))"
    (is "?l = ?r")
  proof -
    have "?l = size (filter_mset (\<lambda>a. al_state a = AlRevoked \<and> node_ID (node_at st a) = nid)
        (mset (filter (\<lambda>a. al_credential_id a = cid) (pv_allocations st))))"
      by (simp add: mset_ListAllocations [OF assms] filter_mset_image_mset scanAllocation_def node_of_row_def comp_def)
    also have "\<dots> = size (filter_mset (\<lambda>a. al_state a = AlRevoked \<and> al_node_id a = nid)
        (mset (filter (\<lambda>a. al_credential_id a = cid) (pv_allocations st))))"
      using node_atD(3) [OF assms] by (intro arg_cong [of _ _ size] filter_mset_cong) auto
    also have "\<dots> = ?r" by (simp add: filter_filter_mset conj_ac)
    finally show ?thesis .
  qed
  from this [folded mset_filter] show ?thesis by (simp only: revoked_on_def size_mset)
qed

text \<open>What a committed \<open>EnsureAllocations\<close> has done: kept two allocations, or made two.\<close>

lemma EnsureAllocations_result:
  assumes "EnsureAllocations i1 i2 now locked operation placement protocol st = (Inr as, t)"
  obtains (kept) o1 u where "o1 \<in> set (pv_operations st)" "opr_id o1 = opn_ID operation"
      "opr_credential_id o1 = opn_CredentialID operation" "opr_desired_revision o1 = opn_DesiredRevision operation" "opr_state o1 = OpProcessing"
      "ListAllocations (opn_CredentialID operation) st \<noteq> []"
      "retain_allocations now operation placement protocol (ListAllocations (opn_CredentialID operation) st) st = (Inr u, t)"
    | (made) o1 n1 n2 u1 u2 st1 st2 where "o1 \<in> set (pv_operations st)" "opr_id o1 = opn_ID operation"
      "opr_credential_id o1 = opn_CredentialID operation" "opr_desired_revision o1 = opn_DesiredRevision operation" "opr_state o1 = OpProcessing"
      "ListAllocations (opn_CredentialID operation) st = []"
      "choose_nodes now locked (ppl_Region placement) (pv_nodes st) = [n1, n2]"
      "allocate_node i1 now operation protocol AlPrimary (node_ID n1) st = (Inr u1, st1)"
      "allocate_node i2 now operation protocol AlFailover (node_ID n2) st1 = (Inr u2, st2)"
      "t = set_operations (\<lambda>r. opr_id r = opn_ID operation) (\<lambda>r. r\<lparr>opr_allocation_revision := opn_DesiredRevision operation\<rparr>) st2"
proof -
  let ?as = "ListAllocations (opn_CredentialID operation) st"
  let ?made = "tx_bind (tx_get (\<lambda>st. choose_nodes now locked (ppl_Region placement) (pv_nodes st))) (\<lambda>nodes.
       case nodes of
         [n1, n2] \<Rightarrow>
           tx_bind (allocate_node i1 now operation protocol AlPrimary (node_ID n1)) (\<lambda>_.
           tx_bind (allocate_node i2 now operation protocol AlFailover (node_ID n2)) (\<lambda>_.
           tx_modify (set_operations (\<lambda>r. opr_id r = opn_ID operation)
             (\<lambda>r. r\<lparr>opr_allocation_revision := opn_DesiredRevision operation\<rparr>))))
       | _ \<Rightarrow> tx_fail PErrCapacity)"
  from assms obtain o1 where o1: "find (\<lambda>o1. opr_id o1 = opn_ID operation \<and> opr_credential_id o1 = opn_CredentialID operation
      \<and> opr_desired_revision o1 = opn_DesiredRevision operation) (pv_operations st) = Some o1" "opr_state o1 = OpProcessing"
    and mid: "\<exists>u. (if ?as \<noteq> [] then retain_allocations now operation placement protocol ?as else ?made) st = (Inr u, t)"
    unfolding EnsureAllocations_def by (simp add: tx_bind_Inr tx_results split: if_splits option.splits)
  from find_SomeD [OF o1(1)] have o1in: "o1 \<in> set (pv_operations st)" "opr_id o1 = opn_ID operation"
    "opr_credential_id o1 = opn_CredentialID operation" "opr_desired_revision o1 = opn_DesiredRevision operation" by auto
  show thesis
  proof (cases "?as = []")
    case False
    with mid obtain u where "retain_allocations now operation placement protocol ?as st = (Inr u, t)" by auto
    then show thesis using kept [OF o1in o1(2) False] by blast
  next
    case True
    with mid obtain u where m: "?made st = (Inr u, t)" by auto
    then obtain n1 n2 where ch: "choose_nodes now locked (ppl_Region placement) (pv_nodes st) = [n1, n2]"
      by (auto simp: tx_bind_Inr tx_results split: list.splits)
    from m show thesis
      by (auto simp: tx_bind_Inr tx_results ch intro: made [OF o1in o1(2) True ch])
  qed
qed

lemma EnsureAllocations_capacity:
  assumes cap: "capacity_ok st" and run: "EnsureAllocations i1 i2 now locked operation placement protocol st = (Inr as, t)"
  shows "capacity_ok t"
  using run
proof (cases rule: EnsureAllocations_result)
  case (kept o1 u)
  let ?as = "ListAllocations (opn_CredentialID operation) st"
  note R = retain_result [OF cap kept(7)]
  have keep: "map g (pv_allocations t) = map g (pv_allocations st)" if "\<And>a. g (rebound now operation a) = g a" for g :: "_ \<Rightarrow> 'z"
    unfolding R(2) using that by (simp add: map_tbl_update)
  have keys: "alloc_keys (pv_allocations t)"
    using cap keep [of al_id] keep [of "\<lambda>a. (al_credential_id a, al_node_id a)"] keep [of "\<lambda>a. (al_credential_id a, al_role a)"]
    by (simp add: capacity_ok_def alloc_keys_def rebound_def)
  show ?thesis
  proof (rule capacity_bumped [OF cap R(1) keys])
    show "placed nid (pv_allocations t) = placed nid (pv_allocations st) + revoked_on ?as nid" for nid
      unfolding R(2) placed_rebound revoked_on_list [OF cap] ..
    show "al_node_id a \<in> node_ID ` set (pv_nodes st)" if "a \<in> set (pv_allocations t)" for a
      using that cap unfolding R(2) by (auto simp: capacity_ok_def rebound_def elim!: in_tbl_updateE)
  qed
next
  case (made o1 n1 n2 u1 u2 st1 st2)
  note C = choose_nodes_two [OF made(7)]
  have room: "node_AllocatedClients n1 < capacity_ceiling n1" "node_AllocatedClients n2 < capacity_ceiling n2"
    using C by (auto simp: placeable_def)
  note A1 = allocate_node_capacity [OF cap C(1) room(1) made(8)]
  have "capacity_ok st2" by (rule allocate_node_capacity(1) [OF A1(1) A1(2) [OF C(3,5)] room(2) made(9)])
  then show ?thesis using made(10) by (intro capacity_frame [of t st2]) simp_all
qed

lemma placed_revoke:
  assumes "distinct (map al_id rows)" and "a \<in> set rows" and "al_state a \<noteq> AlRevoked"
    and "\<And>r. al_node_id (f r) = al_node_id r" and "\<And>r. al_state (f r) = AlRevoked"
  shows "placed nid rows = placed nid (tbl_update (\<lambda>r. al_id r = al_id a) f rows) + (if nid = al_node_id a then 1 else 0)"
  using assms(1,2)
proof (induction rows)
  case (Cons b rows)
  show ?case
  proof (cases "al_id b = al_id a")
    case True
    with Cons.prems have b: "b = a" and "tbl_update (\<lambda>r. al_id r = al_id a) f rows = rows"
      by (force, intro tbl_update_id, auto simp: image_iff)
    with assms show ?thesis by (simp add: placed_def)
  next
    case False
    with Cons show ?thesis by (auto simp: placed_def)
  qed
qed simp

lemma MarkAllocationRevoked_capacity:
  assumes cap: "capacity_ok st" and run: "MarkAllocationRevoked now oid nid cr st = (Inr u, t)"
  shows "capacity_ok t"
proof -
  let ?f = "\<lambda>r. r\<lparr>al_state := AlRevoked, al_applied_config_revision := Some cr, al_revoked_at := Some now,
       al_last_error := None, al_next_reconcile_at := now, al_reconcile_lease_until := None\<rparr>"
  from run have "t = st \<or> (\<exists>a \<in> set (pv_allocations st). al_node_id a = nid \<and> al_state a \<noteq> AlRevoked
      \<and> t = release_node now nid (set_allocations (\<lambda>r. al_id r = al_id a) ?f st))"
    by (auto simp: MarkAllocationRevoked_def tx_bind_Inr tx_results split: option.splits if_splits dest!: find_SomeD)
  then consider "t = st" | a where "a \<in> set (pv_allocations st)" "al_node_id a = nid" "al_state a \<noteq> AlRevoked"
    "t = release_node now nid (set_allocations (\<lambda>r. al_id r = al_id a) ?f st)" by blast
  then show ?thesis
  proof cases
    case (2 a)
    have d: "distinct (map al_id (pv_allocations st))" using cap by (simp add: capacity_ok_def alloc_keys_def)
    have allocs: "pv_allocations t = tbl_update (\<lambda>r. al_id r = al_id a) ?f (pv_allocations st)"
      and nodes: "pv_nodes t = tbl_update (\<lambda>n. node_ID n = nid)
        (\<lambda>n. n\<lparr>node_AllocatedClients := max (node_AllocatedClients n - 1) 0, nr_updated_at := now\<rparr>) (pv_nodes st)"
      using 2(4) by (simp_all add: release_node_def)
    have cnt: "placed x (pv_allocations st) = placed x (pv_allocations t) + (if x = nid then 1 else 0)" for x
      unfolding allocs using placed_revoke [OF d 2(1,3), of ?f x] 2(2) by simp
    have ids: "map node_ID (pv_nodes t) = map node_ID (pv_nodes st)" unfolding nodes by (simp add: map_tbl_update)
    have keep: "map g (pv_allocations t) = map g (pv_allocations st)" if "\<And>a. g (?f a) = g a" for g :: "_ \<Rightarrow> 'z"
      unfolding allocs using that by (simp add: map_tbl_update)
    have keys: "alloc_keys (pv_allocations t)"
      using cap keep [of al_id] keep [of "\<lambda>a. (al_credential_id a, al_node_id a)"] keep [of "\<lambda>a. (al_credential_id a, al_role a)"]
      by (simp add: capacity_ok_def alloc_keys_def)
    have "al_node_id x \<in> node_ID ` set (pv_nodes t)" if "x \<in> set (pv_allocations t)" for x
      using that cap ids unfolding allocs by (auto simp: capacity_ok_def simp flip: set_map elim!: in_tbl_updateE)
    moreover have "node_room (pv_allocations t) m" if "m \<in> set (pv_nodes t)" for m
      using that unfolding nodes
    proof (cases rule: in_tbl_updateE)
      case (hit n)
      then show ?thesis using cap cnt [of nid] by (auto simp: capacity_ok_def node_room_def capacity_ceiling_def)
    next
      case miss
      then show ?thesis using cap cnt [of "node_ID m"] by (auto simp: capacity_ok_def node_room_def)
    qed
    ultimately show ?thesis using cap ids keys by (simp add: capacity_ok_def)
  qed (use cap in simp)
qed

end
