(* ===== verification/Provisioning_Lifecycle.thy ===== *)
theory Provisioning_Lifecycle
  imports Provisioning_Capacity
begin

text \<open>
  The transition system of the provisioning store: \<open>prov_step\<close> has one rule per operation of the
  store, with any arguments and any driver fault, so its runs are the interleavings of any number
  of consumers, workers and replicas. The workers pass operations they have claimed (\<open>known\<close>), and
  place or complete one according to its kind; \<open>Provisioning_Worker\<close> shows that they do.

  Three invariants hold of every reachable store: the places on the nodes are accounted for
  (\<open>capacity_ok\<close>), commands of a credential are consecutive generations of which only the newest
  is open and owns the allocations (\<open>generations_ok\<close>), and outcomes are reported once each, in
  order (\<open>outcomes_ok\<close>).
\<close>

section \<open>Steps\<close>

definition same_operation :: "Operation \<Rightarrow> operation_row \<Rightarrow> bool" where
  "same_operation operation o1 \<longleftrightarrow> opr_id o1 = opn_ID operation \<and> opr_credential_id o1 = opn_CredentialID operation
     \<and> opr_kind o1 = opn_Kind operation \<and> opr_desired_revision o1 = opn_DesiredRevision operation
     \<and> opr_command_sequence o1 = opn_CommandSequence operation"

definition known :: "prov_store \<Rightarrow> Operation \<Rightarrow> bool" where
  "known st operation \<longleftrightarrow> list_ex (same_operation operation) (pv_operations st)"

inductive prov_step :: "prov_store \<Rightarrow> prov_store \<Rightarrow> bool" where
  ps_command: "prov_step st (snd (run_tx PInfra fl (RecordCommand now meta command kind maxAttempts) st))"
| ps_dead_letter: "prov_step st (snd (run_tx PInfra fl (prov_RecordDeadLetter eid now appNow topic part off sha reason) st))"
| ps_request: "prov_step st (snd (run_tx PInfra fl (RequestDeadLetterReplay topic part off) st))"
| ps_replayed: "prov_step st (snd (run_tx PInfra fl (CompleteDeadLetterReplay topic part off) st))"
| ps_claim: "prov_step st (snd (run_tx PInfra fl (ClaimOperation now lease locked) st))"
| ps_retry: "prov_step st (snd (run_tx PInfra fl (RetryOperation now oid reason delay) st))"
| ps_ensure: "known st operation \<Longrightarrow> opn_Kind operation = OpProvision \<Longrightarrow>
    prov_step st (snd (run_tx PInfra fl (EnsureAllocations i1 i2 now locked operation placement protocol) st))"
| ps_prepare: "prov_step st (snd (run_tx PInfra fl (PrepareRevoke now operation) st))"
| ps_applied: "prov_step st (snd (run_tx PInfra fl (MarkAllocationApplied now oid nid cr) st))"
| ps_revoked: "prov_step st (snd (run_tx PInfra fl (MarkAllocationRevoked now oid nid cr) st))"
| ps_failed: "prov_step st (snd (run_tx PInfra fl (MarkAllocationFailed oid nid reason) st))"
| ps_provisioned: "known st operation \<Longrightarrow> opn_Kind operation = OpProvision \<Longrightarrow>
    prov_step st (snd (run_tx PInfra fl (CompleteProvision eid now appNow operation status as) st))"
| ps_not_provisioned: "known st operation \<Longrightarrow> opn_Kind operation = OpProvision \<Longrightarrow>
    prov_step st (snd (run_tx PInfra fl (CompleteProvisionFailure eid now appNow operation scope reason pending) st))"
| ps_withdrawn: "known st operation \<Longrightarrow> opn_Kind operation = OpRevoke \<Longrightarrow>
    prov_step st (snd (run_tx PInfra fl (CompleteRevoke eid now appNow operation as) st))"
| ps_not_withdrawn: "known st operation \<Longrightarrow> opn_Kind operation = OpRevoke \<Longrightarrow>
    prov_step st (snd (run_tx PInfra fl (CompleteRevokeFailure eid now appNow operation reason pending) st))"
| ps_seed: "prov_step st (snd (run_tx PInfra fl (SeedNodes now seeds) st))"
| ps_health: "prov_step st (snd (run_tx PInfra fl (RecordNodeHealth now status staleAfter) st))"
| ps_offline: "prov_step st (snd (run_tx PInfra fl (MarkNodeOffline now nid) st))"
| ps_reconcile: "prov_step st (snd (run_tx PInfra fl (ClaimReconciliationCandidates now locked claimIDs limit lease) st))"
| ps_reschedule: "prov_step st (snd (run_tx PInfra fl (RescheduleReconciliation now aid claimID delay) st))"
| ps_outbox_claim: "prov_step st (snd (run_tx PInfra fl (prov_claim now lease locked) st))"
| ps_outbox_complete: "prov_step st (snd (run_tx PInfra fl (prov_complete now eid) st))"
| ps_outbox_retry: "prov_step st (snd (run_tx PInfra fl (prov_retry now delay eid) st))"

inductive prov_reachable :: "prov_store \<Rightarrow> bool" where
  pr_empty: "prov_reachable empty_prov_store"
| pr_step: "prov_reachable st \<Longrightarrow> prov_step st t \<Longrightarrow> prov_reachable t"

lemma pr_steps: "prov_step\<^sup>*\<^sup>* st t \<Longrightarrow> prov_reachable st \<Longrightarrow> prov_reachable t"
  by (induction rule: rtranclp_induct) (auto intro: pr_step)

section \<open>What a committed operation has written\<close>

lemma update_allocations_result:
  "update_allocations check p f st = (Inr n, t) \<longleftrightarrow>
     n = length (filter (p st) (pv_allocations st)) \<and> (n > 0 \<longrightarrow> check) \<and> t = set_allocations (p st) f st"
  by (auto simp: update_allocations_def tx_defs split: if_splits)

lemma RecordCommand_result:
  assumes "RecordCommand now meta command kind maxAttempts st = (Inr u, t)"
  obtains (replay) "t = st"
    | (recorded) cu where "find_cursor (cmd_CredentialID command) (create_cursor (cmd_CredentialID command) st) = Some cu"
      "cu_last_sequence cu < pm_AggregateSequence meta" "pm_AggregateSequence meta \<le> int64 (cu_last_sequence cu + 1)"
      "pm_AggregateSequence meta < 2 ^ 63"
      "cu_last_desired_revision cu < cmd_DesiredRevision command"
      "\<forall>o1 \<in> set (pv_operations st). opr_id o1 \<noteq> cmd_OperationID command"
      "t = (create_cursor (cmd_CredentialID command) st)\<lparr>
         pv_inbox := pv_inbox st @ [new_command meta command],
         pv_operations := tbl_update (\<lambda>o1. opr_credential_id o1 = cmd_CredentialID command \<and> opr_id o1 \<noteq> cmd_OperationID command
           \<and> opr_desired_revision o1 < cmd_DesiredRevision command \<and> open_state (opr_state o1)) (supersede now)
           (pv_operations st @ [new_operation now meta command kind maxAttempts]),
         pv_allocations := tbl_update (\<lambda>a. al_credential_id a = cmd_CredentialID command \<and> al_desired_revision a < cmd_DesiredRevision command)
           (advance_allocation now command kind) (pv_allocations st),
         pv_cursors := tbl_update (\<lambda>c. cu_credential_id c = cmd_CredentialID command)
           (\<lambda>c. c\<lparr>cu_last_sequence := pm_AggregateSequence meta, cu_last_desired_revision := cmd_DesiredRevision command\<rparr>)
           (pv_cursors (create_cursor (cmd_CredentialID command) st))\<rparr>"
proof -
  have c: "pv_inbox (create_cursor cid st) = pv_inbox st" "pv_operations (create_cursor cid st) = pv_operations st"
    "pv_allocations (create_cursor cid st) = pv_allocations st" for cid by (simp_all add: create_cursor_def)
  have keep: "command_check (new_command meta command) \<Longrightarrow> pm_AggregateSequence meta < 2 ^ 63"
    by (simp add: command_check_def new_command_def)
  from assms show thesis
    by (auto simp: RecordCommand_def Let_def insert_command_def insert_operation_def tx_bind_Inr tx_results c list_ex_iff new_operation_def
        split: option.splits if_splits intro: replay recorded keep)
qed

lemma completed_result:
  assumes "completeOperationWithEvent eid now appNow operation topic dedupe data st = (Inr u, t)"
  obtains (before) o1 where "o1 \<in> set (pv_operations st)" "opr_id o1 = opn_ID operation" "opr_state o1 = OpSucceeded \<or> opr_state o1 = OpFailed" "t = st"
    | (reported) o1 cu seq where "o1 \<in> set (pv_operations st)" "opr_id o1 = opn_ID operation" "opr_state o1 = OpProcessing"
      "find_cursor (opn_CredentialID operation) st = Some cu" "cu_last_desired_revision cu = opn_DesiredRevision operation"
      "seq = (case map_of (pv_outcomes st) (opn_CredentialID operation) of None \<Rightarrow> 1 | Some k \<Rightarrow> k + 1)"
      "prov_row_check (prov_new_row now eid topic (''credential:'' @ opn_CredentialID operation) (opn_CredentialID operation) seq dedupe
         (prov_eventPayload topic eid (opn_CredentialID operation) seq ''credential'' (''credential:'' @ opn_CredentialID operation)
            (opn_CorrelationID operation) (Some (opn_CausationEventID operation)) appNow data))"
      "\<forall>r \<in> set (pv_outbox st). ob_event_id r \<noteq> eid"
      "t = st\<lparr>pv_outcomes := AList.update (opn_CredentialID operation) seq (pv_outcomes st),
         pv_outbox := pv_outbox st @ [prov_new_row now eid topic (''credential:'' @ opn_CredentialID operation) (opn_CredentialID operation) seq dedupe
           (prov_eventPayload topic eid (opn_CredentialID operation) seq ''credential'' (''credential:'' @ opn_CredentialID operation)
              (opn_CorrelationID operation) (Some (opn_CausationEventID operation)) appNow data)],
         pv_operations := tbl_update (\<lambda>r. opr_id r = opn_ID operation)
           (\<lambda>r. r\<lparr>opr_state := (if topic = ''access.provision.failed.v1'' \<or> topic = ''access.revoke.failed.v1'' then OpFailed else OpSucceeded),
                  opr_lease_until := None, opr_last_error := None, opr_completed_at := Some now\<rparr>) (pv_operations st)\<rparr>"
proof -
  from assms obtain o1 where o1: "find (\<lambda>o1. opr_id o1 = opn_ID operation) (pv_operations st) = Some o1"
    by (auto simp: completeOperationWithEvent_def tx_bind_Inr tx_results split: option.splits)
  from find_SomeD [OF this] have in1: "o1 \<in> set (pv_operations st)" "opr_id o1 = opn_ID operation" by auto
  show thesis
  proof (cases "opr_state o1 = OpSucceeded \<or> opr_state o1 = OpFailed")
    case True
    with assms o1 have "t = st" by (simp add: completeOperationWithEvent_def tx_bind_Inr tx_results)
    with before [OF in1 True] show thesis by blast
  next
    case False
    from assms show thesis
      by (auto simp: completeOperationWithEvent_def next_outcome_def prov_insertOutbox_def Let_def tx_bind_Inr tx_results o1 False list_ex_iff
          split: option.splits if_splits intro: reported [OF in1])
  qed
qed

lemmas completions = CompleteProvision_def CompleteProvisionFailure_def CompleteRevoke_def CompleteRevokeFailure_def

lemma completion_is_event:
  "CompleteProvision eid now appNow operation status as st = (Inr u, t) \<Longrightarrow>
     completeOperationWithEvent eid now appNow operation ''access.provision.succeeded.v1'' (PdProvisionSucceeded (opn_ID operation))
       (ProvisionSucceededData (opn_ID operation) (opn_CredentialID operation) (opn_DesiredRevision operation) status
          (sort (map (\<lambda>a. node_ID (alc_Node a)) as))
          (sort_key (\<lambda>e. (if ep_Role e = AlPrimary then 0 else 1 :: nat, ep_NodeID e)) (active_endpoints as)) appNow) st = (Inr u, t)"
  "CompleteRevoke eid now appNow operation as st = (Inr u, t) \<Longrightarrow>
     completeOperationWithEvent eid now appNow operation ''access.revoke.succeeded.v1'' (PdRevokeSucceeded (opn_ID operation))
        (RevokeSucceededData (opn_ID operation) (opn_CredentialID operation) (opn_DesiredRevision operation)
           (foldl max 0 (map alc_AllocationRevision as)) (sort (map (\<lambda>a. node_ID (alc_Node a)) as)) appNow) st = (Inr u, t)"
  by (auto simp: completions Let_def tx_fail_def split: if_splits)

section \<open>Places\<close>

lemma completed_places:
  "completeOperationWithEvent eid now appNow operation topic dedupe data st = (Inr u, t) \<Longrightarrow>
     pv_nodes t = pv_nodes st \<and> pv_allocations t = pv_allocations st"
  by (erule completed_result) simp_all

lemma places_unchanged:
  "prov_RecordDeadLetter eid now appNow topic part off sha reason st = (Inr u, t) \<Longrightarrow> pv_nodes t = pv_nodes st \<and> pv_allocations t = pv_allocations st"
  "RequestDeadLetterReplay topic part off st = (Inr s, t) \<Longrightarrow> pv_nodes t = pv_nodes st \<and> pv_allocations t = pv_allocations st"
  "CompleteDeadLetterReplay topic part off st = (Inr u, t) \<Longrightarrow> pv_nodes t = pv_nodes st \<and> pv_allocations t = pv_allocations st"
  "ClaimOperation now lease locked st = (Inr c, t) \<Longrightarrow> pv_nodes t = pv_nodes st \<and> pv_allocations t = pv_allocations st"
  "RetryOperation now oid reason delay st = (Inr u, t) \<Longrightarrow> pv_nodes t = pv_nodes st \<and> pv_allocations t = pv_allocations st"
  "CompleteProvision eid now appNow operation status as st = (Inr u, t) \<Longrightarrow> pv_nodes t = pv_nodes st \<and> pv_allocations t = pv_allocations st"
  "CompleteProvisionFailure eid now appNow operation scope reason pending st = (Inr u, t) \<Longrightarrow> pv_nodes t = pv_nodes st \<and> pv_allocations t = pv_allocations st"
  "CompleteRevoke eid now appNow operation as st = (Inr u, t) \<Longrightarrow> pv_nodes t = pv_nodes st \<and> pv_allocations t = pv_allocations st"
  "CompleteRevokeFailure eid now appNow operation reason pending st = (Inr u, t) \<Longrightarrow> pv_nodes t = pv_nodes st \<and> pv_allocations t = pv_allocations st"
  "prov_claim now lease locked st = (Inr m, t) \<Longrightarrow> pv_nodes t = pv_nodes st \<and> pv_allocations t = pv_allocations st"
  "prov_complete now eid st = (Inr u, t) \<Longrightarrow> pv_nodes t = pv_nodes st \<and> pv_allocations t = pv_allocations st"
  "prov_retry now delay eid st = (Inr u, t) \<Longrightarrow> pv_nodes t = pv_nodes st \<and> pv_allocations t = pv_allocations st"
proof -
  show "prov_RecordDeadLetter eid now appNow topic part off sha reason st = (Inr u, t) \<Longrightarrow> pv_nodes t = pv_nodes st \<and> pv_allocations t = pv_allocations st"
    by (auto simp: prov_RecordDeadLetter_def prov_insertOutbox_def Let_def tx_bind_Inr tx_results split: if_splits)
  show "RequestDeadLetterReplay topic part off st = (Inr s, t) \<Longrightarrow> pv_nodes t = pv_nodes st \<and> pv_allocations t = pv_allocations st"
    by (auto simp: RequestDeadLetterReplay_def tx_bind_Inr tx_results split: option.splits)
  show "CompleteDeadLetterReplay topic part off st = (Inr u, t) \<Longrightarrow> pv_nodes t = pv_nodes st \<and> pv_allocations t = pv_allocations st"
    by (auto simp: CompleteDeadLetterReplay_def Let_def tx_bind_Inr tx_results split: if_splits)
  show "ClaimOperation now lease locked st = (Inr c, t) \<Longrightarrow> pv_nodes t = pv_nodes st \<and> pv_allocations t = pv_allocations st"
    by (auto simp: ClaimOperation_def tx_bind_Inr tx_results split: option.splits)
  show "RetryOperation now oid reason delay st = (Inr u, t) \<Longrightarrow> pv_nodes t = pv_nodes st \<and> pv_allocations t = pv_allocations st"
    by (auto simp: RetryOperation_def Let_def tx_bind_Inr tx_results split: if_splits)
qed (auto simp: completions Let_def tx_fail_def prov_claim_def prov_complete_def prov_retry_def dest: completed_places
     split: if_splits prod.splits sum.splits)

lemma RecordCommand_capacity:
  assumes "capacity_ok st" and "RecordCommand now meta command kind maxAttempts st = (Inr u, t)"
  shows "capacity_ok t"
  using assms(2)
proof (cases rule: RecordCommand_result)
  case recorded
  have "alloc_view (advance_allocation now command kind a) = alloc_view a" for a
    by (simp add: alloc_view_def advance_allocation_def)
  then show ?thesis using recorded(7)
    by (intro capacity_allocations [OF assms(1), where f = "advance_allocation now command kind"]) (auto simp: create_cursor_def)
qed (use assms in simp)

lemma allocation_updates_capacity:
  assumes "capacity_ok st"
  shows "PrepareRevoke now operation st = (Inr u, t) \<Longrightarrow> capacity_ok t"
    and "MarkAllocationApplied now oid nid cr st = (Inr u, t) \<Longrightarrow> capacity_ok t"
    and "MarkAllocationFailed oid nid reason st = (Inr u, t) \<Longrightarrow> capacity_ok t"
    and "RescheduleReconciliation now aid claimID delay st = (Inr u, t) \<Longrightarrow> capacity_ok t"
  using assms
  by (auto simp: PrepareRevoke_def MarkAllocationApplied_def MarkAllocationFailed_def RescheduleReconciliation_def tx_bind_Inr tx_results
      update_allocations_result alloc_view_def split: if_splits intro!: capacity_set_allocations)

lemma lease_candidates_capacity: "capacity_ok st \<Longrightarrow> lease_candidates now lease cs st = (Inr r, t) \<Longrightarrow> capacity_ok t"
proof (induction now lease cs arbitrary: st r rule: lease_candidates.induct)
  case (2 now lease a c cs)
  from 2(3) obtain st1 r1 where st1: "st1 = set_allocations (\<lambda>r. al_id r = alc_ID a) (\<lambda>r. r\<lparr>al_reconcile_claim_id := Some c,
      al_reconcile_lease_until := Some (now + lease), al_reconcile_attempts := al_reconcile_attempts r + 1\<rparr>) st"
    and rest: "lease_candidates now lease cs st1 = (Inr r1, t)"
    by (auto simp: tx_bind_Inr tx_results update_allocations_result split: if_splits)
  have "capacity_ok st1" using st1 by (intro capacity_allocations [OF 2(2)]) (auto simp: alloc_view_def)
  from 2(1) [OF _ this rest] show ?case by simp
qed (simp add: tx_return_def)

lemma node_updates_capacity:
  assumes "capacity_ok st"
  shows "RecordNodeHealth now status staleAfter st = (Inr u, t) \<Longrightarrow> capacity_ok t"
    and "MarkNodeOffline now nid st = (Inr u, t) \<Longrightarrow> capacity_ok t"
proof -
  assume "RecordNodeHealth now status staleAfter st = (Inr u, t)"
  then have "pv_allocations t = pv_allocations st" and "map node_view (pv_nodes t) = map node_view (pv_nodes st)"
    by (auto simp: RecordNodeHealth_def tx_bind_Inr tx_results map_tbl_update node_view_def split: if_splits)
  with assms show "capacity_ok t" by (auto intro: capacity_frame)
next
  assume "MarkNodeOffline now nid st = (Inr u, t)"
  with assms show "capacity_ok t"
    by (auto simp: MarkNodeOffline_def tx_defs node_view_def intro!: capacity_set_nodes)
qed

lemma seed_node_capacity:
  assumes cap: "capacity_ok st" and run: "seed_node now seed st = (Inr u, t)"
  shows "capacity_ok t"
proof -
  let ?new = "new_node now seed" and ?f = "\<lambda>n. (seeded seed n)\<lparr>nr_updated_at := now\<rparr>"
  have d: "distinct (map node_ID (pv_nodes st))" using cap by (simp add: capacity_ok_def)
  from run have check: "1 \<le> seed_CapacityLimit seed" "20 \<le> seed_ReservePercent seed" "seed_ReservePercent seed \<le> 90"
    by (auto simp: seed_node_def tx_bind_Inr tx_results node_check_def new_node_def split: if_splits)
  then have ceil: "0 \<le> seed_CapacityLimit seed * (100 - seed_ReservePercent seed) div 100" by (simp add: pos_imp_zdiv_nonneg_iff)
  consider "t = st"
    | "seed_ID seed \<notin> node_ID ` set (pv_nodes st)" "t = st\<lparr>pv_nodes := pv_nodes st @ [?new]\<rparr>"
    | n where "n \<in> set (pv_nodes st)" "node_ID n = seed_ID seed" "node_AllocatedClients n = 0"
        "t = set_nodes (\<lambda>n. node_ID n = seed_ID seed) ?f st"
  proof (cases "find (\<lambda>n. node_ID n = seed_ID seed) (pv_nodes st)")
    case None
    with run have "t = st\<lparr>pv_nodes := pv_nodes st @ [?new]\<rparr>"
      by (simp add: seed_node_def tx_bind_Inr tx_results split: if_splits)
    with None that(2) show ?thesis by (simp add: find_None_key)
  next
    case (Some n)
    with run have "t = st \<or> node_AllocatedClients n = 0 \<and> t = set_nodes (\<lambda>n. node_ID n = seed_ID seed) ?f st"
      by (simp add: seed_node_def tx_bind_Inr tx_results split: if_splits)
    with find_SomeD [OF Some] that(1) that(3) [of n] show ?thesis by blast
  qed
  then show ?thesis
  proof cases
    case 1
    with cap show ?thesis by simp
  next
    case 2
    have "al_node_id a \<noteq> seed_ID seed" if "a \<in> set (pv_allocations st)" for a
      using that cap 2(1) unfolding capacity_ok_def by metis
    then have "placed (seed_ID seed) (pv_allocations st) = 0" by (auto simp: placed_def filter_empty_conv)
    then have "node_room (pv_allocations st) ?new" using check ceil
      by (simp add: node_room_def new_node_def capacity_ceiling_def)
    with cap 2 show ?thesis by (auto simp: capacity_ok_def new_node_def)
  next
    case (3 n)
    have same: "m = n" if "m \<in> set (pv_nodes st)" "node_ID m = seed_ID seed" for m
      using distinct_key_eq [OF d that(1) 3(1)] that(2) 3(2) by simp
    have ids: "map node_ID (pv_nodes t) = map node_ID (pv_nodes st)" using 3(4) by (simp add: map_tbl_update seeded_def)
    have "node_room (pv_allocations st) (?f n)" using cap 3 check ceil
      by (auto simp: capacity_ok_def node_room_def seeded_def capacity_ceiling_def)
    then have "\<forall>m \<in> set (pv_nodes t). node_room (pv_allocations t) m"
      using cap same 3(4) by (auto simp: capacity_ok_def elim!: in_tbl_updateE)
    moreover have "\<forall>a \<in> set (pv_allocations t). al_node_id a \<in> node_ID ` set (pv_nodes t)"
      using cap ids 3(4) by (simp add: capacity_ok_def flip: set_map)
    ultimately show ?thesis using cap ids 3(4) by (simp add: capacity_ok_def)
  qed
qed

lemma SeedNodes_capacity: "capacity_ok st \<Longrightarrow> SeedNodes now seeds st = (Inr u, t) \<Longrightarrow> capacity_ok t"
  by (induction seeds arbitrary: st) (auto simp: tx_bind_Inr tx_results dest: seed_node_capacity)

lemma ClaimReconciliationCandidates_capacity:
  "capacity_ok st \<Longrightarrow> ClaimReconciliationCandidates now locked claimIDs limit lease st = (Inr r, t) \<Longrightarrow> capacity_ok t"
  by (auto simp: ClaimReconciliationCandidates_def tx_bind_Inr tx_results split: if_splits dest: lease_candidates_capacity)

lemma capacity_places: "capacity_ok st \<Longrightarrow> pv_nodes t = pv_nodes st \<and> pv_allocations t = pv_allocations st \<Longrightarrow> capacity_ok t"
  by (rule capacity_frame [of t st]) simp_all

lemma step_capacity:
  assumes "prov_step st t" and cap: "capacity_ok st"
  shows "capacity_ok t"
  using assms(1)
proof cases
qed (simp_all, (rule run_tx_post [where Q = capacity_ok, OF _ cap],
   ((rule capacity_places [OF cap], erule places_unchanged)
    | erule RecordCommand_capacity [OF cap] EnsureAllocations_capacity [OF cap] MarkAllocationRevoked_capacity [OF cap]
        allocation_updates_capacity [OF cap] SeedNodes_capacity [OF cap] node_updates_capacity [OF cap]
        ClaimReconciliationCandidates_capacity [OF cap]))+)

lemma reachable_capacity: "prov_reachable st \<Longrightarrow> capacity_ok st"
  by (induction rule: prov_reachable.induct) (auto simp: capacity_empty intro: step_capacity)

section \<open>Generations\<close>

text \<open>
  The commands of a credential are its generations: their operations have the sequence numbers
  from 1 up to the cursor's, and growing revisions of which the cursor keeps the last. Only an
  operation of the last generation is open, and it is the one every allocation is bound to.
\<close>

definition of_credential :: "uuid \<Rightarrow> operation_row list \<Rightarrow> operation_row list" where
  "of_credential cid rows = filter (\<lambda>o1. opr_credential_id o1 = cid) rows"

definition newest :: "uuid \<Rightarrow> operation_row list \<Rightarrow> int" where
  "newest cid rows = last (0 # map opr_desired_revision (of_credential cid rows))"

definition cursor_ok :: "operation_row list \<Rightarrow> cursor_row \<Rightarrow> bool" where
  "cursor_ok rows cu \<longleftrightarrow>
     map opr_command_sequence (of_credential (cu_credential_id cu) rows) = [1..cu_last_sequence cu] \<and> 0 \<le> cu_last_sequence cu
     \<and> sorted_wrt (<) (0 # map opr_desired_revision (of_credential (cu_credential_id cu) rows))
     \<and> cu_last_desired_revision cu = newest (cu_credential_id cu) rows"

definition owner_of :: "allocation_row \<Rightarrow> operation_row \<Rightarrow> bool" where
  "owner_of a o1 \<longleftrightarrow> opr_id o1 = al_desired_operation_id a \<and> opr_credential_id o1 = al_credential_id a
     \<and> opr_desired_revision o1 = al_desired_revision a \<and> (al_desired_state a = Present \<longleftrightarrow> opr_kind o1 = OpProvision)"

definition generations_ok :: "prov_store \<Rightarrow> bool" where
  "generations_ok st \<longleftrightarrow> distinct (map opr_id (pv_operations st)) \<and> distinct (map cu_credential_id (pv_cursors st))
     \<and> (\<forall>cu \<in> set (pv_cursors st). cursor_ok (pv_operations st) cu)
     \<and> (\<forall>o1 \<in> set (pv_operations st). opr_credential_id o1 \<in> cu_credential_id ` set (pv_cursors st))
     \<and> (\<forall>o1 \<in> set (pv_operations st). open_state (opr_state o1) \<longrightarrow> opr_desired_revision o1 = newest (opr_credential_id o1) (pv_operations st))
     \<and> (\<forall>a \<in> set (pv_allocations st). al_desired_revision a = newest (al_credential_id a) (pv_operations st)
          \<and> (\<exists>o1 \<in> set (pv_operations st). owner_of a o1))"

lemma generations_empty: "generations_ok empty_prov_store"
  by (simp add: generations_ok_def empty_prov_store_def)

definition op_ident :: "operation_row \<Rightarrow> uuid \<times> uuid \<times> op_kind \<times> int \<times> int" where
  "op_ident o1 = (opr_id o1, opr_credential_id o1, opr_kind o1, opr_desired_revision o1, opr_command_sequence o1)"

definition alloc_ident :: "allocation_row \<Rightarrow> uuid \<times> uuid \<times> int \<times> alloc_target" where
  "alloc_ident a = (al_credential_id a, al_desired_operation_id a, al_desired_revision a, al_desired_state a)"

lemma of_credential_update:
  assumes "\<And>o1. p o1 \<Longrightarrow> op_ident (f o1) = op_ident o1" and "\<And>o1. p o1 \<Longrightarrow> g (f o1) = g o1"
  shows "map g (of_credential cid (tbl_update p f rows)) = map g (of_credential cid rows)"
  using assms by (induction rows) (auto simp: of_credential_def op_ident_def)

lemma newest_update:
  assumes "\<And>o1. p o1 \<Longrightarrow> op_ident (f o1) = op_ident o1"
  shows "newest cid (tbl_update p f rows) = newest cid rows"
  using of_credential_update [OF assms, where g = opr_desired_revision] assms by (simp add: newest_def op_ident_def)

lemma cursor_ok_update:
  assumes "\<And>o1. p o1 \<Longrightarrow> op_ident (f o1) = op_ident o1"
  shows "cursor_ok (tbl_update p f rows) cu = cursor_ok rows cu"
  using newest_update [OF assms] of_credential_update [OF assms, where g = opr_desired_revision]
    of_credential_update [OF assms, where g = opr_command_sequence] assms
  by (simp add: cursor_ok_def op_ident_def)

text \<open>Updates that keep who an operation and an allocation are, and reopen no operation.\<close>

lemma generations_frame:
  assumes gen: "generations_ok st" and "pv_cursors t = pv_cursors st"
    and ops: "pv_operations t = tbl_update p f (pv_operations st)"
    and f: "\<And>o1. p o1 \<Longrightarrow> op_ident (f o1) = op_ident o1" "\<And>o1. o1 \<in> set (pv_operations st) \<Longrightarrow> p o1 \<Longrightarrow> open_state (opr_state (f o1)) \<Longrightarrow> open_state (opr_state o1)"
    and allocs: "map alloc_ident (pv_allocations t) = map alloc_ident (pv_allocations st)"
  shows "generations_ok t"
proof -
  have nw: "newest cid (pv_operations t) = newest cid (pv_operations st)" for cid
    unfolding ops by (rule newest_update [OF f(1)])
  have ids: "map g (pv_operations t) = map g (pv_operations st)" if "\<And>o1. p o1 \<Longrightarrow> g (f o1) = g o1" for g :: "_ \<Rightarrow> 'z"
    unfolding ops using that by (simp add: map_tbl_update)
  have "map opr_id (pv_operations t) = map opr_id (pv_operations st)"
    and creds: "map opr_credential_id (pv_operations t) = map opr_credential_id (pv_operations st)"
    using ids f(1) by (auto simp: op_ident_def)
  moreover have "opr_credential_id o1 \<in> cu_credential_id ` set (pv_cursors t)" if "o1 \<in> set (pv_operations t)" for o1
    using set_view [OF creds that] gen assms(2) unfolding generations_ok_def by metis
  moreover have "opr_desired_revision o1 = newest (opr_credential_id o1) (pv_operations t)"
    if o1: "o1 \<in> set (pv_operations t)" "open_state (opr_state o1)" for o1
    using o1(1) [unfolded ops]
  proof (cases rule: in_tbl_updateE)
    case (hit o0)
    with gen f [of o0] o1(2) show ?thesis unfolding nw by (auto simp: generations_ok_def op_ident_def)
  next
    case miss
    with gen o1(2) show ?thesis unfolding nw by (auto simp: generations_ok_def)
  qed
  moreover have "al_desired_revision a = newest (al_credential_id a) (pv_operations t) \<and> (\<exists>o1 \<in> set (pv_operations t). owner_of a o1)"
    if a: "a \<in> set (pv_allocations t)" for a
  proof -
    from set_view [OF allocs a] obtain b where b: "b \<in> set (pv_allocations st)" "alloc_ident b = alloc_ident a" by blast
    with gen obtain o1 where o1: "o1 \<in> set (pv_operations st)" "owner_of b o1" "al_desired_revision b = newest (al_credential_id b) (pv_operations st)"
      by (auto simp: generations_ok_def)
    have own: "(if p o1 then f o1 else o1) \<in> set (pv_operations t)" unfolding ops using o1(1) by (auto simp: tbl_update_def)
    have "owner_of a (if p o1 then f o1 else o1)" using o1(2) b(2) f(1) [of o1] by (auto simp: owner_of_def alloc_ident_def op_ident_def)
    with own o1(3) b(2) show ?thesis unfolding nw by (auto simp: alloc_ident_def)
  qed
  ultimately show ?thesis
    using gen assms(2) by (simp add: generations_ok_def ops cursor_ok_update [OF f(1)])
qed

lemma generations_same:
  assumes "generations_ok st" and "pv_cursors t = pv_cursors st" and "pv_operations t = pv_operations st"
    and "map alloc_ident (pv_allocations t) = map alloc_ident (pv_allocations st)"
  shows "generations_ok t"
  by (rule generations_frame [OF assms(1,2), of "\<lambda>_. False" id]) (use assms in \<open>simp_all add: tbl_update_def\<close>)

lemma create_cursor_ok:
  assumes "generations_ok st"
  shows "generations_ok (create_cursor cid st)" and "\<exists>cu. find_cursor cid (create_cursor cid st) = Some cu"
proof -
  show "\<exists>cu. find_cursor cid (create_cursor cid st) = Some cu"
    by (auto simp: create_cursor_def find_cursor_def find_append split: option.splits)
  show "generations_ok (create_cursor cid st)"
  proof (cases "find_cursor cid st")
    case None
    then have new: "cid \<notin> cu_credential_id ` set (pv_cursors st)" by (simp add: find_cursor_def find_None_key)
    with assms have "of_credential cid (pv_operations st) = []"
      by (auto simp: generations_ok_def of_credential_def filter_empty_conv)
    with assms new None show ?thesis
      by (simp add: generations_ok_def create_cursor_def cursor_ok_def newest_def)
  qed (use assms in \<open>simp add: create_cursor_def\<close>)
qed

lemma int64_next: "0 \<le> x \<Longrightarrow> x < y \<Longrightarrow> y \<le> int64 (x + 1) \<Longrightarrow> y < 2 ^ 63 \<Longrightarrow> y = x + 1"
  by (cases "x + 1 < 2 ^ 63") (auto simp: int64_id)

lemma of_credential_append:
  "of_credential cid (rows @ [o1]) = of_credential cid rows @ (if opr_credential_id o1 = cid then [o1] else [])"
  by (simp add: of_credential_def)

lemma sorted_last_le: "sorted_wrt (<) (x # xs) \<Longrightarrow> y \<in> set (x # xs) \<Longrightarrow> (y :: int) \<le> last (x # xs)"
  by (induction xs arbitrary: x) (auto split: if_splits)

lemma sorted_snoc: "sorted_wrt (<) (x # xs) \<Longrightarrow> last (x # xs) < y \<Longrightarrow> sorted_wrt (<) (x # xs @ [y :: int])"
  using sorted_last_le [of x xs] by (fastforce simp: sorted_wrt_append)

lemma rev_le_newest:
  assumes "generations_ok st" and "o1 \<in> set (pv_operations st)"
  shows "opr_desired_revision o1 \<le> newest (opr_credential_id o1) (pv_operations st)" and "0 < opr_desired_revision o1"
proof -
  from assms obtain cu where cu: "cu \<in> set (pv_cursors st)" "cu_credential_id cu = opr_credential_id o1" "cursor_ok (pv_operations st) cu"
    unfolding generations_ok_def by (metis imageE)
  then have s: "sorted_wrt (<) (0 # map opr_desired_revision (of_credential (opr_credential_id o1) (pv_operations st)))" by (simp add: cursor_ok_def)
  have m: "opr_desired_revision o1 \<in> set (map opr_desired_revision (of_credential (opr_credential_id o1) (pv_operations st)))"
    using assms(2) by (simp add: of_credential_def)
  show "opr_desired_revision o1 \<le> newest (opr_credential_id o1) (pv_operations st)"
    using sorted_last_le [OF s] m unfolding newest_def by simp
  show "0 < opr_desired_revision o1" using s m by auto
qed

lemma RecordCommand_generations:
  assumes gen: "generations_ok st" and run: "RecordCommand now meta command kind maxAttempts st = (Inr u, t)"
  shows "generations_ok t"
  using run
proof (cases rule: RecordCommand_result)
  case (recorded cu)
  let ?cid = "cmd_CredentialID command" and ?rev = "cmd_DesiredRevision command" and ?o = "new_operation now meta command kind maxAttempts"
  let ?st = "create_cursor ?cid st" and ?ops = "pv_operations st @ [?o]"
  let ?p = "\<lambda>o1. opr_credential_id o1 = ?cid \<and> opr_id o1 \<noteq> cmd_OperationID command \<and> opr_desired_revision o1 < ?rev \<and> open_state (opr_state o1)"
  have c: "pv_operations ?st = pv_operations st" "pv_allocations ?st = pv_allocations st" by (simp_all add: create_cursor_def)
  note gen1 = create_cursor_ok(1) [OF gen, of ?cid]
  have o: "opr_id ?o = cmd_OperationID command" "opr_credential_id ?o = ?cid" "opr_desired_revision ?o = ?rev" "opr_kind ?o = kind"
    "opr_command_sequence ?o = pm_AggregateSequence meta" by (simp_all add: new_operation_def)
  have cu: "cu \<in> set (pv_cursors ?st)" "cu_credential_id cu = ?cid" using recorded(1) by (auto simp: find_cursor_def dest!: find_SomeD)
  with gen1 have cuok: "cursor_ok (pv_operations st) cu" by (simp add: generations_ok_def c)
  have seq: "pm_AggregateSequence meta = cu_last_sequence cu + 1"
    using int64_next [OF _ recorded(2-4)] cuok by (simp add: cursor_ok_def)
  have top: "newest ?cid (pv_operations st) < ?rev" using cuok cu(2) recorded(5) by (simp add: cursor_ok_def)
  have sup: "op_ident (supersede now o1) = op_ident o1" for o1 by (simp add: op_ident_def supersede_def)
  have new1: "newest ?cid ?ops = ?rev" by (simp add: newest_def of_credential_append o)
  have new2: "newest cid ?ops = newest cid (pv_operations st)" if "cid \<noteq> ?cid" for cid
    using that by (simp add: newest_def of_credential_append o)
  have ops: "pv_operations t = tbl_update ?p (supersede now) ?ops" using recorded(7) by simp
  have nw: "newest cid (pv_operations t) = newest cid ?ops" for cid unfolding ops by (rule newest_update [OF sup])
  have cursor: "cursor_ok ?ops cu2" if "cu2 \<in> set (pv_cursors t)" for cu2
  proof (cases "cu_credential_id cu2 = ?cid")
    case True
    with that recorded(7) have eq: "cu_last_sequence cu2 = pm_AggregateSequence meta" "cu_last_desired_revision cu2 = ?rev"
      by (auto simp: set_tbl_update)
    from cuok cu(2) have "sorted_wrt (<) (0 # map opr_desired_revision (of_credential ?cid (pv_operations st)))" by (simp add: cursor_ok_def)
    from sorted_snoc [OF this top [unfolded newest_def]]
    have "sorted_wrt (<) (0 # map opr_desired_revision (of_credential ?cid ?ops))" by (simp add: of_credential_append o)
    moreover have "map opr_command_sequence (of_credential ?cid ?ops) = [1..cu_last_sequence cu + 1]"
      using cuok cu(2) by (simp add: cursor_ok_def of_credential_append o seq upto_rec2)
    ultimately show ?thesis using True eq seq new1 cuok by (simp add: cursor_ok_def)
  next
    case False
    with that recorded(7) have "cu2 \<in> set (pv_cursors ?st)" by (auto simp: set_tbl_update)
    with gen1 have "cursor_ok (pv_operations st) cu2" by (simp add: generations_ok_def c)
    with False new2 show ?thesis by (simp add: cursor_ok_def of_credential_append o)
  qed
  have cids: "map cu_credential_id (pv_cursors t) = map cu_credential_id (pv_cursors ?st)" using recorded(7) by (simp add: map_tbl_update)
  have ocids: "map opr_credential_id (pv_operations t) = map opr_credential_id ?ops" "map opr_id (pv_operations t) = map opr_id ?ops"
    unfolding ops by (rule map_tbl_update, simp add: supersede_def)+
  have "opr_credential_id o1 \<in> cu_credential_id ` set (pv_cursors t)" if "o1 \<in> set (pv_operations t)" for o1
  proof -
    from set_view [OF ocids(1) that] obtain o0 where "o0 \<in> set (pv_operations st) \<or> o0 = ?o" "opr_credential_id o0 = opr_credential_id o1" by auto
    with gen1 cu o(2) have "opr_credential_id o1 \<in> cu_credential_id ` set (pv_cursors ?st)"
      unfolding generations_ok_def c by (metis image_eqI)
    then show ?thesis using cids by (metis set_map)
  qed
  moreover have "opr_desired_revision o1 = newest (opr_credential_id o1) (pv_operations t)"
    if o1: "o1 \<in> set (pv_operations t)" "open_state (opr_state o1)" for o1
    using o1(1) [unfolded ops]
  proof (cases rule: in_tbl_updateE)
    case (hit o0)
    with o1(2) show ?thesis by (simp add: supersede_def open_state_def)
  next
    case miss
    show ?thesis
    proof (cases "opr_credential_id o1 = ?cid \<and> o1 \<noteq> ?o")
      case True
      with miss have in0: "o1 \<in> set (pv_operations st)" by simp
      with rev_le_newest(1) [OF gen in0] True top recorded(6) miss(2) o1(2) show ?thesis by force
    next
      case False
      with miss gen o1(2) new1 new2 o show ?thesis unfolding nw by (auto simp: generations_ok_def)
    qed
  qed
  moreover have "al_desired_revision a = newest (al_credential_id a) (pv_operations t) \<and> (\<exists>o1 \<in> set (pv_operations t). owner_of a o1)"
    if a: "a \<in> set (pv_allocations t)" for a
  proof -
    have o_in: "?o \<in> set (pv_operations t)" unfolding ops by (auto simp: tbl_update_def o)
    have allocs: "pv_allocations t = tbl_update (\<lambda>a. al_credential_id a = ?cid \<and> al_desired_revision a < ?rev) (advance_allocation now command kind) (pv_allocations st)"
      using recorded(7) by simp
    from a [unfolded allocs] show ?thesis
    proof (cases rule: in_tbl_updateE)
      case (hit b)
      then have "owner_of a ?o" "al_credential_id a = ?cid" "al_desired_revision a = ?rev"
        by (auto simp: owner_of_def advance_allocation_def o)
      with o_in new1 show ?thesis unfolding nw by auto
    next
      case miss
      with gen top have "al_credential_id a \<noteq> ?cid" by (auto simp: generations_ok_def)
      moreover from miss(1) gen obtain o1 where o1: "o1 \<in> set (pv_operations st)" "owner_of a o1"
        "al_desired_revision a = newest (al_credential_id a) (pv_operations st)" by (auto simp: generations_ok_def)
      ultimately have "o1 \<in> set (pv_operations t)" unfolding ops by (auto simp: set_tbl_update owner_of_def)
      with o1 \<open>al_credential_id a \<noteq> ?cid\<close> new2 show ?thesis unfolding nw by auto
    qed
  qed
  moreover have "distinct (map opr_id ?ops)" using gen recorded(6) o(1) by (auto simp: generations_ok_def)
  ultimately show ?thesis
    using gen1 cids ocids(2) cursor by (simp add: generations_ok_def ops cursor_ok_update [OF sup])
qed (use gen in simp)

lemma ClaimOperation_result:
  assumes "ClaimOperation now lease locked st = (Inr c, t)"
  obtains (idle) "c = None" "t = st"
    | (claimed) o1 where "o1 \<in> set (pv_operations st)" "open_state (opr_state o1)"
      "c = Some ((operation_of_row o1)\<lparr>opn_Attempts := opr_attempts o1 + 1\<rparr>)"
      "\<And>p. p \<in> set (pv_operations st) \<Longrightarrow> opr_credential_id p = opr_credential_id o1 \<Longrightarrow>
         opr_command_sequence p < opr_command_sequence o1 \<Longrightarrow> \<not> open_state (opr_state p)"
      "t = set_operations (\<lambda>r. opr_id r = opr_id o1)
         (\<lambda>r. r\<lparr>opr_state := OpProcessing, opr_attempts := opr_attempts o1 + 1, opr_lease_until := Some (now + lease), opr_last_error := None\<rparr>) st"
proof (cases "first_by (\<lambda>o1. (opr_next_attempt_at o1, opr_created_at o1, opr_id o1)) (operation_candidates now locked (pv_operations st))")
  case None
  with assms idle show ?thesis by (auto simp: ClaimOperation_def tx_bind_Inr tx_results)
next
  case (Some o1)
  from first_by_Some [OF Some] have "o1 \<in> set (operation_candidates now locked (pv_operations st))" by blast
  then have "o1 \<in> set (pv_operations st)" "open_state (opr_state o1)"
    "\<And>p. p \<in> set (pv_operations st) \<Longrightarrow> opr_credential_id p = opr_credential_id o1 \<Longrightarrow>
         opr_command_sequence p < opr_command_sequence o1 \<Longrightarrow> \<not> open_state (opr_state p)"
    by (auto simp: operation_candidates_def open_state_def list_ex_iff)
  with assms Some claimed [of o1] show ?thesis by (auto simp: ClaimOperation_def tx_bind_Inr tx_results)
qed

lemma operation_updates_generations:
  assumes gen: "generations_ok st"
  shows "ClaimOperation now lease locked st = (Inr c, t) \<Longrightarrow> generations_ok t"
    and "RetryOperation now oid reason delay st = (Inr u, t) \<Longrightarrow> generations_ok t"
    and "completeOperationWithEvent eid now appNow operation topic dedupe data st = (Inr u, t) \<Longrightarrow> generations_ok t"
proof -
  have d: "distinct (map opr_id (pv_operations st))" using gen by (simp add: generations_ok_def)
  assume "ClaimOperation now lease locked st = (Inr c, t)"
  then show "generations_ok t"
  proof (cases rule: ClaimOperation_result)
    case (claimed o1)
    have "o2 = o1" if "o2 \<in> set (pv_operations st)" "opr_id o2 = opr_id o1" for o2 using distinct_key_eq [OF d that(1) claimed(1) that(2)] .
    with claimed show ?thesis
      by (intro generations_frame [OF gen, of t "\<lambda>r. opr_id r = opr_id o1" "\<lambda>r. r\<lparr>opr_state := OpProcessing, opr_attempts := opr_attempts o1 + 1,
        opr_lease_until := Some (now + lease), opr_last_error := None\<rparr>"]) (auto simp: op_ident_def)
  qed (use gen in simp)
next
  assume "RetryOperation now oid reason delay st = (Inr u, t)"
  then have "t = set_operations (\<lambda>o1. opr_id o1 = oid \<and> opr_state o1 = OpProcessing) (\<lambda>o1. o1\<lparr>opr_state := OpRetry, opr_lease_until := None,
             opr_next_attempt_at := now + delay, opr_last_error := Some reason\<rparr>) st"
    by (auto simp: RetryOperation_def Let_def tx_bind_Inr tx_results split: if_splits)
  then show "generations_ok t"
    by (intro generations_frame [OF gen, of t "\<lambda>o1. opr_id o1 = oid \<and> opr_state o1 = OpProcessing" "\<lambda>o1. o1\<lparr>opr_state := OpRetry,
      opr_lease_until := None, opr_next_attempt_at := now + delay, opr_last_error := Some reason\<rparr>"]) (auto simp: op_ident_def open_state_def)
next
  assume "completeOperationWithEvent eid now appNow operation topic dedupe data st = (Inr u, t)"
  then show "generations_ok t"
  proof (cases rule: completed_result)
    case (reported o1 cu seq)
    then show ?thesis
      by (intro generations_frame [OF gen, of t "\<lambda>r. opr_id r = opn_ID operation" "\<lambda>r. r\<lparr>opr_state := (if topic = ''access.provision.failed.v1''
          \<or> topic = ''access.revoke.failed.v1'' then OpFailed else OpSucceeded), opr_lease_until := None, opr_last_error := None,
          opr_completed_at := Some now\<rparr>"]) (auto simp: op_ident_def open_state_def split: if_splits)
  qed (use gen in simp)
qed

text \<open>The allocations an operation writes stay bound to the operation they belong to.\<close>

lemma set_allocations_ident:
  "(\<And>a. p a \<Longrightarrow> alloc_ident (f a) = alloc_ident a) \<Longrightarrow> map alloc_ident (pv_allocations (set_allocations p f st)) = map alloc_ident (pv_allocations st)"
  by (simp add: map_tbl_update)

definition same_generations :: "prov_store \<Rightarrow> prov_store \<Rightarrow> bool" where
  "same_generations st t \<longleftrightarrow> pv_cursors t = pv_cursors st \<and> pv_operations t = pv_operations st
     \<and> map alloc_ident (pv_allocations t) = map alloc_ident (pv_allocations st)"

lemma same_generations_trans: "same_generations st t \<Longrightarrow> same_generations t r \<Longrightarrow> same_generations st r"
  by (simp add: same_generations_def)

lemma lease_candidates_generations: "lease_candidates now lease cs st = (Inr r, t) \<Longrightarrow> same_generations st t \<and> pv_outbox t = pv_outbox st \<and> pv_outcomes t = pv_outcomes st"
proof (induction now lease cs arbitrary: st r rule: lease_candidates.induct)
  case (2 now lease a c cs)
  from 2(2) obtain st1 r1 where st1: "st1 = set_allocations (\<lambda>r. al_id r = alc_ID a) (\<lambda>r. r\<lparr>al_reconcile_claim_id := Some c,
      al_reconcile_lease_until := Some (now + lease), al_reconcile_attempts := al_reconcile_attempts r + 1\<rparr>) st"
    and rest: "lease_candidates now lease cs st1 = (Inr r1, t)"
    by (auto simp: tx_bind_Inr tx_results update_allocations_result split: if_splits)
  have "same_generations st st1" using st1 by (auto simp: same_generations_def alloc_ident_def intro!: map_tbl_update)
  moreover have "same_generations st1 t \<and> pv_outbox t = pv_outbox st1 \<and> pv_outcomes t = pv_outcomes st1" using 2(1) [OF _ rest] by simp
  ultimately show ?case using st1 by (auto intro: same_generations_trans)
qed (simp add: tx_return_def same_generations_def)

lemma seed_nodes_only: "SeedNodes now seeds st = (Inr u, t) \<Longrightarrow> \<exists>ns. t = st\<lparr>pv_nodes := ns\<rparr>"
proof (induction seeds arbitrary: st)
  case Nil
  then show ?case by (intro exI [of _ "pv_nodes st"]) (simp add: tx_return_def)
next
  case (Cons seed seeds)
  then obtain u1 st1 where s: "seed_node now seed st = (Inr u1, st1)" and r: "SeedNodes now seeds st1 = (Inr u, t)" by (auto simp: tx_bind_Inr)
  have "\<exists>ns. st1 = st\<lparr>pv_nodes := ns\<rparr>"
  proof (rule exI [of _ "pv_nodes st1"])
    show "st1 = st\<lparr>pv_nodes := pv_nodes st1\<rparr>"
      using s by (auto simp: seed_node_def tx_bind_Inr tx_results split: if_splits option.splits)
  qed
  with Cons.IH [OF r] show ?case by auto
qed

lemma generations_unchanged:
  "prov_RecordDeadLetter eid now appNow topic part off sha reason st = (Inr u, t) \<Longrightarrow> same_generations st t"
  "RequestDeadLetterReplay topic part off st = (Inr s, t) \<Longrightarrow> same_generations st t"
  "CompleteDeadLetterReplay topic part off st = (Inr u, t) \<Longrightarrow> same_generations st t"
  "PrepareRevoke now operation st = (Inr u, t) \<Longrightarrow> same_generations st t"
  "MarkAllocationApplied now oid nid cr st = (Inr u, t) \<Longrightarrow> same_generations st t"
  "MarkAllocationRevoked now oid nid cr st = (Inr u, t) \<Longrightarrow> same_generations st t"
  "MarkAllocationFailed oid nid reason st = (Inr u, t) \<Longrightarrow> same_generations st t"
  "SeedNodes now seeds st = (Inr u, t) \<Longrightarrow> same_generations st t"
  "RecordNodeHealth now status staleAfter st = (Inr u, t) \<Longrightarrow> same_generations st t"
  "MarkNodeOffline now nid st = (Inr u, t) \<Longrightarrow> same_generations st t"
  "ClaimReconciliationCandidates now locked claimIDs limit lease st = (Inr r, t) \<Longrightarrow> same_generations st t"
  "RescheduleReconciliation now aid claimID delay st = (Inr u, t) \<Longrightarrow> same_generations st t"
  "prov_claim now lease locked st = (Inr m, t) \<Longrightarrow> same_generations st t"
  "prov_complete now eid st = (Inr u, t) \<Longrightarrow> same_generations st t"
  "prov_retry now delay eid st = (Inr u, t) \<Longrightarrow> same_generations st t"
proof -
  show "prov_RecordDeadLetter eid now appNow topic part off sha reason st = (Inr u, t) \<Longrightarrow> same_generations st t"
    by (auto simp: prov_RecordDeadLetter_def prov_insertOutbox_def Let_def tx_bind_Inr tx_results same_generations_def split: if_splits)
  show "RequestDeadLetterReplay topic part off st = (Inr s, t) \<Longrightarrow> same_generations st t"
    by (auto simp: RequestDeadLetterReplay_def tx_bind_Inr tx_results same_generations_def split: option.splits)
  show "CompleteDeadLetterReplay topic part off st = (Inr u, t) \<Longrightarrow> same_generations st t"
    by (auto simp: CompleteDeadLetterReplay_def Let_def tx_bind_Inr tx_results same_generations_def split: if_splits)
  show "PrepareRevoke now operation st = (Inr u, t) \<Longrightarrow> same_generations st t"
    by (auto simp: PrepareRevoke_def tx_bind_Inr tx_results update_allocations_result same_generations_def alloc_ident_def
        split: if_splits intro!: map_tbl_update)
  show "MarkAllocationApplied now oid nid cr st = (Inr u, t) \<Longrightarrow> same_generations st t"
    by (auto simp: MarkAllocationApplied_def tx_bind_Inr tx_results update_allocations_result same_generations_def alloc_ident_def
        split: if_splits intro!: map_tbl_update)
  show "MarkAllocationRevoked now oid nid cr st = (Inr u, t) \<Longrightarrow> same_generations st t"
    by (auto simp: MarkAllocationRevoked_def release_node_def tx_bind_Inr tx_results same_generations_def alloc_ident_def
        split: if_splits option.splits intro!: map_tbl_update)
  show "MarkAllocationFailed oid nid reason st = (Inr u, t) \<Longrightarrow> same_generations st t"
    by (auto simp: MarkAllocationFailed_def tx_bind_Inr tx_results update_allocations_result same_generations_def alloc_ident_def
        split: if_splits intro!: map_tbl_update)
  show "RescheduleReconciliation now aid claimID delay st = (Inr u, t) \<Longrightarrow> same_generations st t"
    by (auto simp: RescheduleReconciliation_def tx_bind_Inr tx_results update_allocations_result same_generations_def alloc_ident_def tx_fail_def
        split: if_splits intro!: map_tbl_update)
  show "RecordNodeHealth now status staleAfter st = (Inr u, t) \<Longrightarrow> same_generations st t"
    by (auto simp: RecordNodeHealth_def tx_bind_Inr tx_results same_generations_def split: if_splits)
  show "SeedNodes now seeds st = (Inr u, t) \<Longrightarrow> same_generations st t"
    by (drule seed_nodes_only) (auto simp: same_generations_def)
  show "ClaimReconciliationCandidates now locked claimIDs limit lease st = (Inr r, t) \<Longrightarrow> same_generations st t"
    by (auto simp: ClaimReconciliationCandidates_def tx_bind_Inr tx_results split: if_splits dest: lease_candidates_generations)
qed (auto simp: MarkNodeOffline_def tx_defs prov_claim_def prov_complete_def prov_retry_def same_generations_def split: prod.splits sum.splits)

lemma allocs_of_credential:
  assumes "generations_ok st" and "o1 \<in> set (pv_operations st)" and "open_state (opr_state o1)" and "opr_id o1 = i"
  shows "opr_desired_revision o1 = newest (opr_credential_id o1) (pv_operations st)"
  using assms by (simp add: generations_ok_def)

lemma EnsureAllocations_generations:
  assumes gen: "generations_ok st" and cap: "capacity_ok st" and known: "known st operation" "opn_Kind operation = OpProvision"
    and run: "EnsureAllocations i1 i2 now locked operation placement protocol st = (Inr as, t)"
  shows "generations_ok t"
  using run
proof (cases rule: EnsureAllocations_result)
  case (kept o1 u)
  note R = retain_result [OF cap kept(7)]
  have R3: "pv_cursors t = pv_cursors st" "pv_operations t = pv_operations (bind_operation operation st)"
    by (subst R(3), simp add: bind_operation_def)+
  have present: "al_desired_state a = Present" if "a \<in> set (pv_allocations st)" "al_credential_id a = opn_CredentialID operation" for a
  proof -
    have "bound_to operation a" by (rule R(4) [OF that])
    moreover from gen that(1) obtain o2 where o2: "o2 \<in> set (pv_operations st)" "owner_of a o2" by (auto simp: generations_ok_def)
    moreover from known obtain o3 where "o3 \<in> set (pv_operations st)" "same_operation operation o3" by (auto simp: known_def list_ex_iff)
    moreover have "distinct (map opr_id (pv_operations st))" using gen by (simp add: generations_ok_def)
    ultimately have "o2 = o3" by (intro distinct_key_eq [of opr_id "pv_operations st"]) (auto simp: bound_to_def owner_of_def same_operation_def)
    with known(2) \<open>owner_of a o2\<close> \<open>same_operation operation o3\<close> show ?thesis by (auto simp: owner_of_def same_operation_def)
  qed
  have allocs: "map alloc_ident (pv_allocations t) = map alloc_ident (pv_allocations st)"
    unfolding R(2) by (rule map_tbl_update) (auto simp: alloc_ident_def rebound_def present)
  show ?thesis
    by (rule generations_frame [OF gen R3(1) R3(2) [unfolded bind_operation_def, simplified] _ _ allocs]) (auto simp: op_ident_def open_state_def)
next
  case (made o1 n1 n2 u1 u2 st1 st2)
  note C = choose_nodes_two [OF made(7)]
  have room: "node_AllocatedClients n1 < capacity_ceiling n1" "node_AllocatedClients n2 < capacity_ceiling n2"
    using C by (auto simp: placeable_def)
  note A1 = allocate_node_capacity [OF cap C(1) room(1) made(8)]
  note A2 = allocate_node_capacity [OF A1(1) A1(2) [OF C(3,5)] room(2) made(9)]
  let ?a = "\<lambda>i n role. new_allocation i now operation protocol n role"
  have st2: "pv_cursors st2 = pv_cursors st" "pv_operations st2 = pv_operations st"
    "pv_allocations st2 = pv_allocations st @ [?a i1 (node_ID n1) AlPrimary, ?a i2 (node_ID n2) AlFailover]"
    by (subst A2(3), subst A1(3), simp)+
  have d: "distinct (map opr_id (pv_operations st))" using gen by (simp add: generations_ok_def)
  from known obtain o3 where o3: "o3 \<in> set (pv_operations st)" "same_operation operation o3" by (auto simp: known_def list_ex_iff)
  have "o3 = o1" by (rule distinct_key_eq [OF d o3(1) made(1)]) (use o3(2) made(2) in \<open>simp add: same_operation_def\<close>)
  with known(2) o3(2) made(2-4) have own: "owner_of (?a i n role) o1" for i n role
    by (simp add: owner_of_def new_allocation_def same_operation_def)
  have top: "opn_DesiredRevision operation = newest (opn_CredentialID operation) (pv_operations st)"
    using allocs_of_credential [OF gen made(1)] made(3-5) by (simp add: open_state_def)
  have "generations_ok st2" using gen st2 own made(1) top by (auto simp: generations_ok_def new_allocation_def)
  then show ?thesis using made(10)
    by (intro generations_frame [of st2 t "\<lambda>r. opr_id r = opn_ID operation" "\<lambda>r. r\<lparr>opr_allocation_revision := opn_DesiredRevision operation\<rparr>"])
      (auto simp: op_ident_def)
qed

lemma completion_generations:
  assumes "generations_ok st"
  shows "CompleteProvision eid now appNow operation status as st = (Inr u, t) \<Longrightarrow> generations_ok t"
    and "CompleteProvisionFailure eid now appNow operation scope reason pending st = (Inr u, t) \<Longrightarrow> generations_ok t"
    and "CompleteRevoke eid now appNow operation as st = (Inr u, t) \<Longrightarrow> generations_ok t"
    and "CompleteRevokeFailure eid now appNow operation reason pending st = (Inr u, t) \<Longrightarrow> generations_ok t"
  using assms by (auto simp: completions Let_def tx_fail_def split: if_splits intro: operation_updates_generations(3))

lemma generations_sameD: "generations_ok st \<Longrightarrow> same_generations st t \<Longrightarrow> generations_ok t"
  by (rule generations_same [of st t]) (simp_all add: same_generations_def)

lemma step_generations:
  assumes "prov_step st t" and cap: "capacity_ok st" and gen: "generations_ok st"
  shows "generations_ok t"
  using assms(1)
proof cases
qed (simp_all, (rule run_tx_post [where Q = generations_ok, OF _ gen],
   ((rule generations_sameD [OF gen], erule generations_unchanged)
    | erule RecordCommand_generations [OF gen] operation_updates_generations [OF gen] completion_generations [OF gen]
    | (rule EnsureAllocations_generations [OF gen cap], assumption, assumption, assumption)))+)

lemma reachable_generations: "prov_reachable st \<Longrightarrow> generations_ok st"
  by (induction rule: prov_reachable.induct) (auto simp: generations_empty intro: step_generations reachable_capacity)

end
