(* ===== verification/Provisioning_Outcomes.thy ===== *)
theory Provisioning_Outcomes
  imports Provisioning_Lifecycle
begin

text \<open>
  What provisioning tells the other services. The outcome events of a credential are numbered
  without gaps, their revisions grow, and each succeeded or failed operation has exactly one,
  with its data; no other operation has any. Events leave the outbox in that order
  (\<open>in_order\<close>, from the interpretation of \<open>ordered_outbox\<close> on provisioning's lease statements).
\<close>

section \<open>The invariant\<close>

text \<open>What an event says: operation, credential, revision, kind, and whether it succeeded.\<close>

definition outcome_of :: "prov_event_data \<Rightarrow> (uuid \<times> uuid \<times> int \<times> op_kind \<times> bool) option" where
  "outcome_of d = (case d of
       ProvisionSucceededData oid cid rv status nodes endpoints at \<Rightarrow> Some (oid, cid, rv, OpProvision, True)
     | ProvisionFailedData oid cid rv scope reason at pending \<Rightarrow> Some (oid, cid, rv, OpProvision, False)
     | RevokeSucceededData oid cid rv allocrev nodes at \<Rightarrow> Some (oid, cid, rv, OpRevoke, True)
     | RevokeFailedData oid cid rv reason at pending \<Rightarrow> Some (oid, cid, rv, OpRevoke, False)
     | ConsumerDeadLetterData topic part off sha reason \<Rightarrow> None)"

definition settled_state :: "op_state \<Rightarrow> bool" where
  "settled_state s \<longleftrightarrow> s = OpSucceeded \<or> s = OpFailed"

definition reports :: "prov_outbox_row \<Rightarrow> operation_row \<Rightarrow> bool" where
  "reports r o1 \<longleftrightarrow> ob_sequence r \<noteq> None \<and> ob_aggregate_id r = opr_credential_id o1
     \<and> outcome_of (pe_Data (ob_payload r)) =
         Some (opr_id o1, opr_credential_id o1, opr_desired_revision o1, opr_kind o1, opr_state o1 = OpSucceeded)"

definition row_revision :: "prov_outbox_row \<Rightarrow> int" where
  "row_revision r = (case outcome_of (pe_Data (ob_payload r)) of None \<Rightarrow> 0 | Some (oid, cid, rv, k, ok) \<Rightarrow> rv)"

definition outcome_rows :: "uuid \<Rightarrow> prov_outbox_row list \<Rightarrow> prov_outbox_row list" where
  "outcome_rows cid rows = filter (\<lambda>r. ob_aggregate_id r = cid \<and> ob_sequence r \<noteq> None) rows"

definition last_outcome :: "uuid \<Rightarrow> prov_store \<Rightarrow> int" where
  "last_outcome cid st = (case map_of (pv_outcomes st) cid of None \<Rightarrow> 0 | Some k \<Rightarrow> k)"

definition settled_view :: "operation_row list \<Rightarrow> ((uuid \<times> uuid \<times> op_kind \<times> int \<times> int) \<times> bool) set" where
  "settled_view rows = (\<lambda>o1. (op_ident o1, opr_state o1 = OpSucceeded)) ` {o1 \<in> set rows. settled_state (opr_state o1)}"

definition reported :: "prov_outbox_row \<Rightarrow> (uuid \<times> uuid \<times> op_kind \<times> int \<times> int) \<times> bool \<Rightarrow> bool" where
  "reported r = (\<lambda>((oid, cid, kind, rv, seq), ok). ob_sequence r \<noteq> None \<and> ob_aggregate_id r = cid
     \<and> outcome_of (pe_Data (ob_payload r)) = Some (oid, cid, rv, kind, ok))"

lemma reports_view: "reports r o1 \<longleftrightarrow> reported r (op_ident o1, opr_state o1 = OpSucceeded)"
  by (simp add: reports_def reported_def op_ident_def)

definition outcomes_ok :: "prov_store \<Rightarrow> bool" where
  "outcomes_ok st \<longleftrightarrow> distinct (map ob_event_id (pv_outbox st)) \<and> in_order (pv_outbox st)
     \<and> (\<forall>cid. 0 \<le> last_outcome cid st \<and> map ob_sequence (outcome_rows cid (pv_outbox st)) = map Some [1..last_outcome cid st]
          \<and> sorted_wrt (<) (map row_revision (outcome_rows cid (pv_outbox st))))
     \<and> (\<forall>r \<in> set (pv_outbox st). ob_sequence r \<noteq> None \<longrightarrow> (\<exists>v \<in> settled_view (pv_operations st). reported r v))
     \<and> (\<forall>v \<in> settled_view (pv_operations st). \<exists>r \<in> set (pv_outbox st). reported r v)"

lemma outcomes_empty: "outcomes_ok empty_prov_store"
  by (simp add: outcomes_ok_def empty_prov_store_def settled_view_def outcome_rows_def last_outcome_def)

lemma settled_view_update:
  assumes "\<And>o1. o1 \<in> set rows \<Longrightarrow> p o1 \<Longrightarrow> \<not> settled_state (opr_state o1) \<and> \<not> settled_state (opr_state (f o1))"
  shows "settled_view (tbl_update p f rows) = settled_view rows"
  using assms unfolding settled_view_def by (intro arg_cong [of _ _ "image _"]) (auto simp: set_tbl_update)

lemma outcomes_frame:
  assumes "outcomes_ok st" and "settled_view (pv_operations t) = settled_view (pv_operations st)"
    and "pv_outbox t = pv_outbox st" and "pv_outcomes t = pv_outcomes st"
  shows "outcomes_ok t"
  using assms by (simp add: outcomes_ok_def last_outcome_def)

lemma outcomes_set_operations:
  assumes "outcomes_ok st"
    and "\<And>o1. o1 \<in> set (pv_operations st) \<Longrightarrow> p o1 \<Longrightarrow> \<not> settled_state (opr_state o1) \<and> \<not> settled_state (opr_state (f o1))"
  shows "outcomes_ok (set_operations p f st)"
  by (rule outcomes_frame [OF assms(1)]) (use assms(2) in \<open>simp_all add: settled_view_update\<close>)

section \<open>Operations that settle nothing\<close>

lemma outbox_unchanged:
  "RequestDeadLetterReplay topic part off st = (Inr s, t) \<Longrightarrow> pv_outbox t = pv_outbox st \<and> pv_outcomes t = pv_outcomes st"
  "CompleteDeadLetterReplay topic part off st = (Inr u, t) \<Longrightarrow> pv_outbox t = pv_outbox st \<and> pv_outcomes t = pv_outcomes st"
  "PrepareRevoke now operation st = (Inr u, t) \<Longrightarrow> pv_outbox t = pv_outbox st \<and> pv_outcomes t = pv_outcomes st"
  "MarkAllocationApplied now oid nid cr st = (Inr u, t) \<Longrightarrow> pv_outbox t = pv_outbox st \<and> pv_outcomes t = pv_outcomes st"
  "MarkAllocationRevoked now oid nid cr st = (Inr u, t) \<Longrightarrow> pv_outbox t = pv_outbox st \<and> pv_outcomes t = pv_outcomes st"
  "MarkAllocationFailed oid nid reason st = (Inr u, t) \<Longrightarrow> pv_outbox t = pv_outbox st \<and> pv_outcomes t = pv_outcomes st"
  "SeedNodes now seeds st = (Inr u, t) \<Longrightarrow> pv_outbox t = pv_outbox st \<and> pv_outcomes t = pv_outcomes st"
  "RecordNodeHealth now status staleAfter st = (Inr u, t) \<Longrightarrow> pv_outbox t = pv_outbox st \<and> pv_outcomes t = pv_outcomes st"
  "MarkNodeOffline now nid st = (Inr u, t) \<Longrightarrow> pv_outbox t = pv_outbox st \<and> pv_outcomes t = pv_outcomes st"
  "ClaimReconciliationCandidates now locked claimIDs limit lease st = (Inr r, t) \<Longrightarrow> pv_outbox t = pv_outbox st \<and> pv_outcomes t = pv_outcomes st"
  "RescheduleReconciliation now aid claimID delay st = (Inr u, t) \<Longrightarrow> pv_outbox t = pv_outbox st \<and> pv_outcomes t = pv_outcomes st"
proof -
  show "RequestDeadLetterReplay topic part off st = (Inr s, t) \<Longrightarrow> pv_outbox t = pv_outbox st \<and> pv_outcomes t = pv_outcomes st"
    by (auto simp: RequestDeadLetterReplay_def tx_bind_Inr tx_results split: option.splits)
  show "CompleteDeadLetterReplay topic part off st = (Inr u, t) \<Longrightarrow> pv_outbox t = pv_outbox st \<and> pv_outcomes t = pv_outcomes st"
    by (auto simp: CompleteDeadLetterReplay_def Let_def tx_bind_Inr tx_results split: if_splits)
  show "MarkAllocationRevoked now oid nid cr st = (Inr u, t) \<Longrightarrow> pv_outbox t = pv_outbox st \<and> pv_outcomes t = pv_outcomes st"
    by (auto simp: MarkAllocationRevoked_def release_node_def tx_bind_Inr tx_results split: if_splits option.splits)
  show "SeedNodes now seeds st = (Inr u, t) \<Longrightarrow> pv_outbox t = pv_outbox st \<and> pv_outcomes t = pv_outcomes st"
    by (drule seed_nodes_only) auto
  show "RecordNodeHealth now status staleAfter st = (Inr u, t) \<Longrightarrow> pv_outbox t = pv_outbox st \<and> pv_outcomes t = pv_outcomes st"
    by (auto simp: RecordNodeHealth_def tx_bind_Inr tx_results split: if_splits)
  show "ClaimReconciliationCandidates now locked claimIDs limit lease st = (Inr r, t) \<Longrightarrow> pv_outbox t = pv_outbox st \<and> pv_outcomes t = pv_outcomes st"
    by (auto simp: ClaimReconciliationCandidates_def tx_bind_Inr tx_results split: if_splits dest: lease_candidates_generations)
qed (auto simp: PrepareRevoke_def MarkAllocationApplied_def MarkAllocationFailed_def RescheduleReconciliation_def MarkNodeOffline_def
     tx_bind_Inr tx_results update_allocations_result split: if_splits)

lemma outcomes_quiet:
  assumes "outcomes_ok st" and "same_generations st t" and "pv_outbox t = pv_outbox st \<and> pv_outcomes t = pv_outcomes st"
  shows "outcomes_ok t"
  using assms by (intro outcomes_frame [of st t]) (simp_all add: same_generations_def)

lemma RecordCommand_outcomes:
  assumes ok: "outcomes_ok st" and run: "RecordCommand now meta command kind maxAttempts st = (Inr u, t)"
  shows "outcomes_ok t"
  using run
proof (cases rule: RecordCommand_result)
  case (recorded cu)
  let ?p = "\<lambda>o1. opr_credential_id o1 = cmd_CredentialID command \<and> opr_id o1 \<noteq> cmd_OperationID command
     \<and> opr_desired_revision o1 < cmd_DesiredRevision command \<and> open_state (opr_state o1)"
  have "settled_view (tbl_update ?p (supersede now) (pv_operations st @ [new_operation now meta command kind maxAttempts]))
    = settled_view (pv_operations st @ [new_operation now meta command kind maxAttempts])"
    by (rule settled_view_update) (auto simp: supersede_def open_state_def settled_state_def)
  also have "\<dots> = settled_view (pv_operations st)"
    unfolding settled_view_def by (rule arg_cong [of _ _ "image _"]) (auto simp: new_operation_def settled_state_def)
  finally show ?thesis using recorded(7)
    by (intro outcomes_frame [OF ok]) (simp_all add: create_cursor_def)
qed (use ok in simp)

lemma operation_moves_outcomes:
  assumes ok: "outcomes_ok st" and gen: "generations_ok st"
  shows "ClaimOperation now lease locked st = (Inr c, t) \<Longrightarrow> outcomes_ok t"
    and "RetryOperation now oid reason delay st = (Inr u, t) \<Longrightarrow> outcomes_ok t"
proof -
  have d: "distinct (map opr_id (pv_operations st))" using gen by (simp add: generations_ok_def)
  assume "ClaimOperation now lease locked st = (Inr c, t)"
  then show "outcomes_ok t"
  proof (cases rule: ClaimOperation_result)
    case (claimed o1)
    have "\<not> settled_state (opr_state o2)" if "o2 \<in> set (pv_operations st)" "opr_id o2 = opr_id o1" for o2
      using distinct_key_eq [OF d that(1) claimed(1) that(2)] claimed(2) by (auto simp: settled_state_def open_state_def)
    then show ?thesis unfolding claimed(5) by (intro outcomes_set_operations [OF ok]) (simp add: settled_state_def)
  qed (use ok in simp)
next
  assume "RetryOperation now oid reason delay st = (Inr u, t)"
  then show "outcomes_ok t"
    by (auto simp: RetryOperation_def Let_def tx_bind_Inr tx_results settled_state_def split: if_splits
        intro!: outcomes_set_operations [OF ok])
qed

lemma EnsureAllocations_outcomes:
  assumes ok: "outcomes_ok st" and gen: "generations_ok st" and cap: "capacity_ok st"
    and run: "EnsureAllocations i1 i2 now locked operation placement protocol st = (Inr as, t)"
  shows "outcomes_ok t"
  using run
proof (cases rule: EnsureAllocations_result)
  case (kept o1 u)
  note R = retain_result [OF cap kept(7)]
  have "pv_outbox t = pv_outbox st" "pv_outcomes t = pv_outcomes st" "pv_operations t = pv_operations (bind_operation operation st)"
    by (subst R(3), simp add: bind_operation_def)+
  then show ?thesis
    by (intro outcomes_frame [OF ok]) (auto simp: bind_operation_def settled_state_def intro!: settled_view_update)
next
  case (made o1 n1 n2 u1 u2 st1 st2)
  note C = choose_nodes_two [OF made(7)]
  have room: "node_AllocatedClients n1 < capacity_ceiling n1" "node_AllocatedClients n2 < capacity_ceiling n2"
    using C by (auto simp: placeable_def)
  note A1 = allocate_node_capacity [OF cap C(1) room(1) made(8)]
  note A2 = allocate_node_capacity [OF A1(1) A1(2) [OF C(3,5)] room(2) made(9)]
  have st2: "pv_outbox st2 = pv_outbox st" "pv_outcomes st2 = pv_outcomes st" "pv_operations st2 = pv_operations st"
    by (subst A2(3), subst A1(3), simp)+
  have d: "distinct (map opr_id (pv_operations st))" using gen by (simp add: generations_ok_def)
  have "o2 = o1" if "o2 \<in> set (pv_operations st)" "opr_id o2 = opn_ID operation" for o2
    using distinct_key_eq [OF d that(1) made(1)] that(2) made(2) by simp
  with made(5) have "settled_view (pv_operations t) = settled_view (pv_operations st)"
    unfolding made(10) by (auto simp: st2 settled_state_def intro!: settled_view_update)
  then show ?thesis using made(10) st2 by (intro outcomes_frame [OF ok]) simp_all
qed

section \<open>Settling an operation\<close>

lemma operation_by_revision:
  assumes gen: "generations_ok st" and "o1 \<in> set (pv_operations st)" "o2 \<in> set (pv_operations st)"
    and "opr_credential_id o1 = opr_credential_id o2" and "opr_desired_revision o1 = opr_desired_revision o2"
  shows "o1 = o2"
proof -
  let ?ops = "of_credential (opr_credential_id o2) (pv_operations st)"
  from assms(1,3) obtain cu where "cu \<in> set (pv_cursors st)" "cu_credential_id cu = opr_credential_id o2" "cursor_ok (pv_operations st) cu"
    unfolding generations_ok_def by (metis imageE)
  then have "sorted_wrt (<) (map opr_desired_revision ?ops)" by (simp add: cursor_ok_def)
  then have "distinct (map opr_desired_revision ?ops)" by (simp add: strict_sorted_iff)
  moreover have "o1 \<in> set ?ops" "o2 \<in> set ?ops" using assms by (auto simp: of_credential_def)
  ultimately show ?thesis using assms(5) by (rule distinct_key_eq)
qed

lemma settled_view_settle:
  assumes "\<And>o2. o2 \<in> set rows \<Longrightarrow> p o2 = (o2 = o1)" and "o1 \<in> set rows" and "\<not> settled_state (opr_state o1)" and "settled_state (opr_state (f o1))"
  shows "settled_view (tbl_update p f rows) = insert (op_ident (f o1), opr_state (f o1) = OpSucceeded) (settled_view rows)"
proof -
  have "{o2 \<in> set (tbl_update p f rows). settled_state (opr_state o2)} = insert (f o1) {o2 \<in> set rows. settled_state (opr_state o2)}"
    using assms by (auto simp: set_tbl_update)
  then show ?thesis by (simp add: settled_view_def)
qed

lemma outcome_rows_append:
  "outcome_rows cid (rows @ [r]) = outcome_rows cid rows @ (if ob_aggregate_id r = cid \<and> ob_sequence r \<noteq> None then [r] else [])"
  by (simp add: outcome_rows_def)

lemma sequence_le_last:
  assumes "outcomes_ok st" and "r \<in> set (pv_outbox st)" and "ob_sequence r = Some n"
  shows "n \<le> last_outcome (ob_aggregate_id r) st"
proof -
  have "Some n \<in> set (map ob_sequence (outcome_rows (ob_aggregate_id r) (pv_outbox st)))"
    using assms(2,3) by (force simp: outcome_rows_def)
  with assms(1) have "Some n \<in> set (map Some [1..last_outcome (ob_aggregate_id r) st])" by (simp add: outcomes_ok_def)
  then show ?thesis by auto
qed

lemma completed_outcomes:
  assumes ok: "outcomes_ok st" and gen: "generations_ok st" and known: "known st operation"
    and run: "completeOperationWithEvent eid now appNow operation topic dedupe data st = (Inr u, t)"
    and data: "outcome_of data = Some (opn_ID operation, opn_CredentialID operation, opn_DesiredRevision operation, opn_Kind operation,
      \<not> (topic = ''access.provision.failed.v1'' \<or> topic = ''access.revoke.failed.v1''))"
  shows "outcomes_ok t"
  using run
proof (cases rule: completed_result)
  case (reported o1 cu seq)
  let ?cid = "opn_CredentialID operation" and ?ok = "\<not> (topic = ''access.provision.failed.v1'' \<or> topic = ''access.revoke.failed.v1'')"
  let ?row = "prov_new_row now eid topic (''credential:'' @ ?cid) ?cid seq dedupe
     (prov_eventPayload topic eid ?cid seq ''credential'' (''credential:'' @ ?cid) (opn_CorrelationID operation)
        (Some (opn_CausationEventID operation)) appNow data)"
  have d: "distinct (map opr_id (pv_operations st))" using gen by (simp add: generations_ok_def)
  from known obtain o3 where o3: "o3 \<in> set (pv_operations st)" "same_operation operation o3" by (auto simp: known_def list_ex_iff)
  have "o3 = o1" by (rule distinct_key_eq [OF d o3(1) reported(1)]) (use o3(2) reported(2) in \<open>simp add: same_operation_def\<close>)
  with o3(2) have same: "same_operation operation o1" by simp
  have seq: "seq = last_outcome ?cid st + 1" "seq > 0" using reported(6) ok by (auto simp: last_outcome_def outcomes_ok_def split: option.splits)
  obtain R where R: "R = ?row" by simp
  have row: "ob_sequence R = Some seq" "ob_aggregate_id R = ?cid" "ob_event_id R = eid" "ob_state R = ObPending"
    "row_revision R = opn_DesiredRevision operation" "pe_Data (ob_payload R) = data"
    unfolding R using seq(2) data by (simp_all add: prov_new_row_def row_revision_def prov_eventPayload_def)
  have outbox: "pv_outbox t = pv_outbox st @ [R]" and outcomes: "pv_outcomes t = AList.update ?cid seq (pv_outcomes st)"
    using reported(9) R by simp_all
  have last: "last_outcome cid t = (if cid = ?cid then seq else last_outcome cid st)" for cid
    by (simp add: last_outcome_def outcomes update_conv')
  have uniq: "o2 = o1" if "o2 \<in> set (pv_operations st)" "opr_id o2 = opn_ID operation" for o2
    using distinct_key_eq [OF d that(1) reported(1)] that(2) reported(2) by simp
  let ?v = "(op_ident o1, ?ok)"
  let ?f = "\<lambda>r. r\<lparr>opr_state := (if topic = ''access.provision.failed.v1'' \<or> topic = ''access.revoke.failed.v1'' then OpFailed else OpSucceeded),
      opr_lease_until := None, opr_last_error := None, opr_completed_at := Some now\<rparr>"
  have hit: "(opr_id o2 = opn_ID operation) = (o2 = o1)" if "o2 \<in> set (pv_operations st)" for o2
    using uniq [OF that] reported(2) by blast
  have ops: "pv_operations t = tbl_update (\<lambda>r. opr_id r = opn_ID operation) ?f (pv_operations st)" using reported(9) by simp
  have "settled_view (pv_operations t) = insert (op_ident (?f o1), opr_state (?f o1) = OpSucceeded) (settled_view (pv_operations st))"
    unfolding ops by (rule settled_view_settle [OF hit reported(1)]) (simp_all add: settled_state_def reported(3))
  also have "(op_ident (?f o1), opr_state (?f o1) = OpSucceeded) = ?v" by (simp add: op_ident_def)
  finally have settled: "settled_view (pv_operations t) = insert ?v (settled_view (pv_operations st))" .
  have rep: "Provisioning_Outcomes.reported R ?v" using row data same
    by (simp add: Provisioning_Outcomes.reported_def op_ident_def same_operation_def)
  have "\<not> precedes R p" if "p \<in> set (pv_outbox st)" for p
    using sequence_le_last [OF ok that] row(1,2) seq(1) by (cases "ob_sequence p") (auto simp: precedes_def)
  then have "newest_of_aggregate R (pv_outbox st)" using row by (simp add: newest_of_aggregate_def precedes_def)
  then have "in_order (pv_outbox t)" using ok unfolding outbox by (simp add: outcomes_ok_def in_order_append)
  moreover have "distinct (map ob_event_id (pv_outbox t))" using ok reported(8) row(3) unfolding outbox by (auto simp: outcomes_ok_def)
  moreover have "map ob_sequence (outcome_rows cid (pv_outbox t)) = map Some [1..last_outcome cid t]" for cid
    using ok row seq unfolding outbox last by (auto simp: outcome_rows_append outcomes_ok_def upto_rec2)
  moreover have "sorted_wrt (<) (map row_revision (outcome_rows cid (pv_outbox t)))" for cid
  proof -
    have "row_revision r < opn_DesiredRevision operation" if r: "r \<in> set (outcome_rows ?cid (pv_outbox st))" for r
    proof -
      from r ok obtain v where "v \<in> settled_view (pv_operations st)" "Provisioning_Outcomes.reported r v"
        by (auto simp: outcomes_ok_def outcome_rows_def)
      then obtain o2 where o2: "o2 \<in> set (pv_operations st)" "settled_state (opr_state o2)" "reports r o2"
        by (auto simp: settled_view_def reports_view)
      have cred: "opr_credential_id o2 = ?cid" using r o2(3) by (simp add: outcome_rows_def reports_def)
      have rv: "row_revision r = opr_desired_revision o2" using o2(3) by (simp add: reports_def row_revision_def)
      have "opr_desired_revision o2 \<noteq> opn_DesiredRevision operation"
        using operation_by_revision [OF gen o2(1) reported(1)] cred same o2(2) reported(3) by (auto simp: same_operation_def settled_state_def)
      moreover have "opn_DesiredRevision operation = newest ?cid (pv_operations st)"
        using gen reported(1,3) same by (auto simp: generations_ok_def open_state_def same_operation_def)
      ultimately show ?thesis using rev_le_newest(1) [OF gen o2(1)] cred rv by simp
    qed
    then show ?thesis using ok row unfolding outbox by (auto simp: outcome_rows_append outcomes_ok_def sorted_wrt_append)
  qed
  ultimately show ?thesis
    using ok seq rep unfolding outcomes_ok_def settled outbox last by (auto simp: row)
qed (use ok in simp)

lemma completion_outcomes:
  assumes ok: "outcomes_ok st" and gen: "generations_ok st" and known: "known st operation"
  shows "opn_Kind operation = OpProvision \<Longrightarrow> CompleteProvision eid now appNow operation status as st = (Inr u, t) \<Longrightarrow> outcomes_ok t"
    and "opn_Kind operation = OpProvision \<Longrightarrow> CompleteProvisionFailure eid now appNow operation scope reason pending st = (Inr u, t) \<Longrightarrow> outcomes_ok t"
    and "opn_Kind operation = OpRevoke \<Longrightarrow> CompleteRevoke eid now appNow operation as st = (Inr u, t) \<Longrightarrow> outcomes_ok t"
    and "opn_Kind operation = OpRevoke \<Longrightarrow> CompleteRevokeFailure eid now appNow operation reason pending st = (Inr u, t) \<Longrightarrow> outcomes_ok t"
proof -
  note C = completed_outcomes [OF ok gen known]
  show "opn_Kind operation = OpProvision \<Longrightarrow> CompleteProvision eid now appNow operation status as st = (Inr u, t) \<Longrightarrow> outcomes_ok t"
    by (drule completion_is_event(1), erule C) (simp add: outcome_of_def)
  show "opn_Kind operation = OpProvision \<Longrightarrow> CompleteProvisionFailure eid now appNow operation scope reason pending st = (Inr u, t) \<Longrightarrow> outcomes_ok t"
    unfolding CompleteProvisionFailure_def by (erule C) (simp add: outcome_of_def)
  show "opn_Kind operation = OpRevoke \<Longrightarrow> CompleteRevoke eid now appNow operation as st = (Inr u, t) \<Longrightarrow> outcomes_ok t"
    by (drule completion_is_event(2), erule C) (simp add: outcome_of_def)
  show "opn_Kind operation = OpRevoke \<Longrightarrow> CompleteRevokeFailure eid now appNow operation reason pending st = (Inr u, t) \<Longrightarrow> outcomes_ok t"
    unfolding CompleteRevokeFailure_def by (erule C) (simp add: outcome_of_def)
qed

section \<open>Dead letters and the lease protocol\<close>

lemma RecordDeadLetter_outcomes:
  assumes ok: "outcomes_ok st" and run: "prov_RecordDeadLetter eid now appNow topic part off sha reason st = (Inr u, t)"
  shows "outcomes_ok t"
proof -
  let ?r = "prov_new_row now eid (topic @ ''.dlq'') (''source:'' @ topic) eid 0 (PdDeadLetter topic part off)
      (prov_eventPayload (topic @ ''.dlq'') eid eid 0 ''consumer_record'' (''source:'' @ topic) eid None appNow
        (ConsumerDeadLetterData topic part off sha reason))"
  have "t = st \<or> (eid \<notin> ob_event_id ` set (pv_outbox st) \<and> pv_outbox t = pv_outbox st @ [?r] \<and> pv_outcomes t = pv_outcomes st
      \<and> pv_operations t = pv_operations st)"
    using run unfolding prov_RecordDeadLetter_def prov_insertOutbox_def Let_def
    by (auto simp: tx_bind_Inr tx_results list_ex_iff split: if_splits)
  moreover have "ob_sequence ?r = None" "ob_state ?r = ObPending" "ob_event_id ?r = eid" by (simp_all add: prov_new_row_def)
  ultimately consider "t = st" | r where "ob_sequence r = None" "ob_state r = ObPending" "ob_event_id r \<notin> ob_event_id ` set (pv_outbox st)"
      "pv_outbox t = pv_outbox st @ [r]" "pv_outcomes t = pv_outcomes st" "pv_operations t = pv_operations st"
    by metis
  then show ?thesis
  proof cases
    case (2 r)
    have "outcome_rows cid (pv_outbox t) = outcome_rows cid (pv_outbox st)" for cid using 2 by (simp add: outcome_rows_append)
    moreover have "in_order (pv_outbox t)" unfolding 2(4)
      by (rule in_order_append) (use ok 2 in \<open>auto simp: outcomes_ok_def newest_of_aggregate_def precedes_def\<close>)
    ultimately show ?thesis using ok 2 by (auto simp: outcomes_ok_def last_outcome_def)
  qed (use ok in simp)
qed

lemma outcomes_advance:
  assumes ok: "outcomes_ok st" and adv: "advances (pv_outbox st) rows" and ord: "in_order rows"
  shows "outcomes_ok (st\<lparr>pv_outbox := rows\<rparr>)"
proof -
  from adv have ids: "map ob_identity rows = map ob_identity (pv_outbox st)" by (simp add: advances_def)
  have keep: "map h (outcome_rows cid rows) = map h (outcome_rows cid (pv_outbox st))" if "\<And>x y. ob_identity x = ob_identity y \<Longrightarrow> h x = h y"
    for cid and h :: "_ \<Rightarrow> 'z"
    unfolding outcome_rows_def
  proof (rule filter_by_map [OF ids])
    fix x y :: prov_outbox_row assume eq: "ob_identity x = ob_identity y"
    then have "ob_aggregate_id x = ob_aggregate_id y" "ob_sequence x = ob_sequence y" by (simp_all add: ob_identity_def)
    with that [OF eq] show "(ob_aggregate_id x = cid \<and> ob_sequence x \<noteq> None) = (ob_aggregate_id y = cid \<and> ob_sequence y \<noteq> None) \<and> h x = h y"
      by simp
  qed
  have eids: "map ob_event_id rows = map ob_event_id (pv_outbox st)"
    using arg_cong [OF ids, of "map fst"] by (simp add: ob_identity_def comp_def)
  have rep: "reported x v = reported y v" if "ob_identity x = ob_identity y" for x y v
    using that by (auto simp: reported_def ob_identity_def split: prod.splits)
  have "\<exists>v \<in> settled_view (pv_operations st). reported r v" if "r \<in> set rows" "ob_sequence r \<noteq> None" for r
  proof -
    from set_view [OF ids that(1)] obtain q where q: "q \<in> set (pv_outbox st)" "ob_identity q = ob_identity r" by blast
    with that(2) have "ob_sequence q \<noteq> None" by (auto simp: ob_identity_def)
    with ok q(1) obtain v where "v \<in> settled_view (pv_operations st)" "reported q v" unfolding outcomes_ok_def by blast
    with rep [OF q(2)] show ?thesis by blast
  qed
  moreover have "\<exists>r \<in> set rows. reported r v" if "v \<in> settled_view (pv_operations st)" for v
  proof -
    from ok that obtain q where q: "q \<in> set (pv_outbox st)" "reported q v" by (auto simp: outcomes_ok_def)
    from set_view [OF ids [symmetric] q(1)] rep q(2) show ?thesis by blast
  qed
  ultimately show ?thesis
    using ok ord eids keep [of ob_sequence] keep [of row_revision]
    by (simp add: outcomes_ok_def last_outcome_def ob_identity_def row_revision_def)
qed

lemma lease_outcomes:
  assumes ok: "outcomes_ok st"
  shows "prov_claim now lease locked st = (Inr m, t) \<Longrightarrow> outcomes_ok t"
    and "prov_complete now eid st = (Inr u, t) \<Longrightarrow> outcomes_ok t"
    and "prov_retry now delay eid st = (Inr u, t) \<Longrightarrow> outcomes_ok t"
proof -
  from ok have d: "distinct (map ob_event_id (pv_outbox st))" "in_order (pv_outbox st)" by (simp_all add: outcomes_ok_def)
  show "prov_claim now lease locked st = (Inr m, t) \<Longrightarrow> outcomes_ok t"
    using prov_outbox.claim_advances [OF d(1)] prov_outbox.claim_in_order [OF d(2,1)]
    by (auto simp: prov_claim_def split: prod.splits intro!: outcomes_advance [OF ok])
  show "prov_complete now eid st = (Inr u, t) \<Longrightarrow> outcomes_ok t"
    using outcomes_advance [OF ok prov_outbox.complete_advances prov_outbox.complete_in_order [OF d(2)], of now eid]
    by (auto simp: prov_complete_def split: prod.splits sum.splits)
  show "prov_retry now delay eid st = (Inr u, t) \<Longrightarrow> outcomes_ok t"
    using outcomes_advance [OF ok prov_outbox.retry_advances prov_outbox.retry_in_order [OF d(2)], of now delay eid]
    by (auto simp: prov_retry_def split: prod.splits sum.splits)
qed

lemma step_outcomes:
  assumes "prov_step st t" and cap: "capacity_ok st" and gen: "generations_ok st" and ok: "outcomes_ok st"
  shows "outcomes_ok t"
  using assms(1)
proof cases
qed (simp_all, (rule run_tx_post [where Q = outcomes_ok, OF _ ok],
   (erule RecordCommand_outcomes [OF ok] operation_moves_outcomes [OF ok gen] RecordDeadLetter_outcomes [OF ok] lease_outcomes [OF ok]
        EnsureAllocations_outcomes [OF ok gen cap]
    | (erule completion_outcomes [OF ok gen, rotated 2], assumption, assumption)
    | (rule outcomes_quiet [OF ok], erule generations_unchanged, erule outbox_unchanged)))+)

lemma reachable_outcomes: "prov_reachable st \<Longrightarrow> outcomes_ok st"
  by (induction rule: prov_reachable.induct) (auto simp: outcomes_empty intro: step_outcomes reachable_capacity reachable_generations)

end
