(* ===== verification/Provisioning_Worker.thy ===== *)
theory Provisioning_Worker
  imports Provisioning_Outcomes Retry
begin

text \<open>
  The provisioning service above its store: the validation of commands
  (\<open>internal/application/service.go\<close>) and the workers of \<open>internal/application/worker.go\<close> that
  place credentials on nodes, take them away, reconcile nodes, publish the outbox and watch the
  nodes' health.

  A round of a worker is a sequence of store calls, each its own transaction, and of calls to
  node agents, which have a state of their own (\<open>'w\<close>). The record \<open>prov_env\<close> has what the outside
  answers during one round: driver faults and the database clock by the number of the store call,
  fresh identifiers, the answers of the access and the subscription service, and what a call does
  to an agent. An answer \<open>None\<close> is an error of the call; it may have taken effect all the same.
\<close>

section \<open>Commands\<close>

definition prov_uuid :: "string \<Rightarrow> bool" where
  "prov_uuid = match_runs [(is_hex, 8), ((=) CHR ''-'', 1), (is_hex, 4), ((=) CHR ''-'', 1), (is_hex, 4), ((=) CHR ''-'', 1),
     (\<lambda>c. c \<in> set ''89abAB'', 1), (is_hex, 3), ((=) CHR ''-'', 1), (is_hex, 12)]"

definition event_kind :: "string \<Rightarrow> op_kind option" where
  "event_kind eventType =
     (if eventType = ''access.provision.request.v1'' then Some OpProvision
      else if eventType = ''access.revoke.request.v1'' then Some OpRevoke
      else None)"

definition event_invariant :: "ProvMeta \<Rightarrow> Command \<Rightarrow> bool" where
  "event_invariant meta command \<longleftrightarrow>
     \<not> (\<not> prov_uuid (pm_EventID meta) \<or> \<not> prov_uuid (pm_AggregateID meta) \<or> \<not> prov_uuid (pm_CorrelationID meta)
        \<or> \<not> prov_uuid (cmd_OperationID command) \<or> \<not> prov_uuid (cmd_CredentialID command)
        \<or> cmd_CredentialID command \<noteq> pm_AggregateID meta \<or> cmd_DesiredRevision command < 1
        \<or> pm_AggregateSequence meta \<noteq> cmd_DesiredRevision command
        \<or> pm_PartitionKey meta \<noteq> ''credential:'' @ cmd_CredentialID command \<or> pm_OccurredAt meta = 0)
     \<and> (case pm_CausationID meta of None \<Rightarrow> True | Some c \<Rightarrow> prov_uuid c)"

text \<open>\<open>data\<close> is what \<open>strictDecode\<close> makes of the event's data.\<close>

definition ProcessEvent :: "instant \<Rightarrow> int \<Rightarrow> ProvMeta \<Rightarrow> Command option \<Rightarrow> unit prov_tx" where
  "ProcessEvent now maxAttempts meta data =
     (case event_kind (pm_EventType meta) of
        None \<Rightarrow> tx_fail (PContractError ''unsupported_event_type'')
      | Some kind \<Rightarrow>
          (case data of
             None \<Rightarrow> tx_fail (PContractError ''invalid_event_data'')
           | Some command \<Rightarrow>
               if \<not> event_invariant meta command then tx_fail (PContractError ''event_invariant_failed'')
               else RecordCommand now meta command kind maxAttempts))"

definition prov_ContractErrorCode :: "prov_error \<Rightarrow> string option" where
  "prov_ContractErrorCode err = (case err of
       PContractError code \<Rightarrow> Some code
     | PErrConflict \<Rightarrow> Some ''durable_state_conflict''
     | _ \<Rightarrow> None)"

section \<open>The world of a worker\<close>

record CredentialMaterial =
  mat_CredentialID :: uuid
  mat_SubscriptionID :: uuid
  mat_Revision :: int
  mat_Protocol :: string
  mat_VLESSClientUUID :: string

record AgentDesiredState =
  ads_OperationID :: uuid
  ads_CredentialID :: uuid
  ads_DesiredRevision :: int
  ads_State :: alloc_target
  ads_Protocol :: string
  ads_VLESSClientUUID :: string

record AgentResult =
  ars_OperationID :: uuid
  ars_CredentialID :: uuid
  ars_DesiredRevision :: int
  ars_State :: string
  ars_ConfigRevision :: int
  ars_AppliedAt :: instant

record CredentialActualState =
  cas_CredentialID :: uuid
  cas_DesiredRevision :: int
  cas_State :: string
  cas_ConfigRevision :: int

record 'w prov_env =
  wv_fault :: "nat \<Rightarrow> fault"
  wv_now :: "nat \<Rightarrow> instant"
  wv_appNow :: instant
  wv_eventID :: uuid
  wv_allocationID :: "nat \<Rightarrow> uuid"
  wv_claimIDs :: "nat \<Rightarrow> uuid"
  wv_locked :: "uuid list"
  wv_material :: "uuid \<Rightarrow> CredentialMaterial option"
  wv_placement :: "uuid \<Rightarrow> prov_Placement option"
  wv_apply :: "Node \<Rightarrow> AgentDesiredState \<Rightarrow> 'w \<Rightarrow> AgentResult option \<times> 'w"
  wv_actual :: "Node \<Rightarrow> uuid \<Rightarrow> 'w \<Rightarrow> CredentialActualState option"
  wv_status :: "Node \<Rightarrow> 'w \<Rightarrow> AgentStatus option"
  wv_publish_ok :: bool

record prov_config =
  pc_retryDelay :: nanos
  pc_lease :: nanos
  pc_interval :: nanos
  pc_batch :: int
  pc_staleAfter :: nanos
  pc_sha256 :: "string \<Rightarrow> 8 word list"

type_synonym ('w, 'a) work = "(prov_store \<times> 'w, prov_error, 'a) tx"

definition on_store :: "'w prov_env \<Rightarrow> nat \<Rightarrow> (instant \<Rightarrow> 'a prov_tx) \<Rightarrow> ('w, 'a) work" where
  "on_store env i m = (\<lambda>(st, w). case run_tx PInfra (wv_fault env i) (m (wv_now env i)) st of (r, t) \<Rightarrow> (r, (t, w)))"

definition on_agent :: "'w prov_env \<Rightarrow> Node \<Rightarrow> AgentDesiredState \<Rightarrow> ('w, AgentResult option) work" where
  "on_agent env n desired = (\<lambda>(st, w). case wv_apply env n desired w of (r, w1) \<Rightarrow> (Inr r, (st, w1)))"

text \<open>The error of a call is dropped: \<open>_ = call\<close>.\<close>

definition ignoring :: "('w, unit) work \<Rightarrow> ('w, unit) work" where
  "ignoring m = tx_try m (\<lambda>_. tx_return ()) (\<lambda>_. tx_return ())"

section \<open>Placing and taking away\<close>

definition validMaterial :: "CredentialMaterial \<Rightarrow> Operation \<Rightarrow> bool" where
  "validMaterial material operation \<longleftrightarrow> mat_CredentialID material = opn_CredentialID operation \<and> prov_uuid (mat_CredentialID material)
     \<and> prov_uuid (mat_SubscriptionID material) \<and> prov_uuid (mat_VLESSClientUUID material)
     \<and> mat_Revision material = opn_DesiredRevision operation \<and> mat_Protocol material = ''vless_reality''"

definition validPlacement :: "prov_Placement \<Rightarrow> uuid \<Rightarrow> bool" where
  "validPlacement placement subscriptionID \<longleftrightarrow> ppl_SubscriptionID placement = subscriptionID \<and> prov_uuid (ppl_SubscriptionID placement)
     \<and> prov_uuid (ppl_PeriodID placement) \<and> length (TrimSpace (ppl_Region placement)) \<ge> 2 \<and> length (ppl_Region placement) \<le> 64
     \<and> TrimSpace (ppl_Region placement) = ppl_Region placement \<and> ppl_PrimaryNodes placement = 1 \<and> ppl_FailoverNodes placement = 1
     \<and> ppl_ValidUntil placement \<noteq> 0"

definition target_text :: "alloc_target \<Rightarrow> string" where
  "target_text s = (case s of Present \<Rightarrow> ''present'' | Absent \<Rightarrow> ''absent'')"

definition validAgentResult :: "AgentResult \<Rightarrow> Operation \<Rightarrow> alloc_target \<Rightarrow> bool" where
  "validAgentResult result operation state \<longleftrightarrow> ars_OperationID result = opn_ID operation \<and> ars_CredentialID result = opn_CredentialID operation
     \<and> ars_DesiredRevision result = opn_DesiredRevision operation \<and> ars_State result = target_text state
     \<and> ars_ConfigRevision result > 0 \<and> ars_AppliedAt result \<noteq> 0"

definition roleActive :: "Allocation list \<Rightarrow> alloc_role \<Rightarrow> bool" where
  "roleActive allocations role = list_ex (\<lambda>a. alc_Role a = role \<and> alc_State a = AlActive) allocations"

definition pendingNodeIDs :: "Allocation list \<Rightarrow> uuid list" where
  "pendingNodeIDs allocations = sort (map (\<lambda>a. node_ID (alc_Node a)) (filter (\<lambda>a. alc_State a \<noteq> AlActive \<and> alc_State a \<noteq> AlRevoked) allocations))"

definition unrevokedNodeIDs :: "Allocation list \<Rightarrow> uuid list" where
  "unrevokedNodeIDs allocations = sort (map (\<lambda>a. node_ID (alc_Node a)) (filter (\<lambda>a. alc_State a \<noteq> AlRevoked) allocations))"

definition allocationsMatchOperation :: "Allocation list \<Rightarrow> Operation \<Rightarrow> alloc_target \<Rightarrow> bool" where
  "allocationsMatchOperation allocations operation desiredState =
     (\<not> list_ex (\<lambda>a. alc_DesiredOperationID a \<noteq> opn_ID operation \<or> alc_DesiredRevision a \<noteq> opn_DesiredRevision operation
        \<or> alc_DesiredState a \<noteq> desiredState) allocations)"

definition retry_later :: "prov_config \<Rightarrow> 'w prov_env \<Rightarrow> nat \<Rightarrow> Operation \<Rightarrow> string \<Rightarrow> ('w, unit) work" where
  "retry_later cfg env i operation reason = on_store env i (\<lambda>now. RetryOperation now (opn_ID operation) reason
     (prov_retryBackoff (pc_sha256 cfg) (pc_retryDelay cfg) (opn_Attempts operation) (opn_ID operation)))"

definition retryOrFailProvision :: "prov_config \<Rightarrow> 'w prov_env \<Rightarrow> nat \<Rightarrow> Operation \<Rightarrow> string \<Rightarrow> string \<Rightarrow> uuid list \<Rightarrow> ('w, unit) work" where
  "retryOrFailProvision cfg env i operation scope reason pending =
     (if opn_Attempts operation \<ge> opn_MaxAttempts operation
      then on_store env i (\<lambda>now. CompleteProvisionFailure (wv_eventID env) now (wv_appNow env) operation scope reason pending)
      else retry_later cfg env i operation reason)"

definition retryOrFailRevoke :: "prov_config \<Rightarrow> 'w prov_env \<Rightarrow> nat \<Rightarrow> Operation \<Rightarrow> string \<Rightarrow> uuid list \<Rightarrow> ('w, unit) work" where
  "retryOrFailRevoke cfg env i operation reason pending =
     (if opn_Attempts operation \<ge> opn_MaxAttempts operation
      then on_store env i (\<lambda>now. CompleteRevokeFailure (wv_eventID env) now (wv_appNow env) operation reason pending)
      else retry_later cfg env i operation reason)"

definition list_allocations :: "'w prov_env \<Rightarrow> nat \<Rightarrow> uuid \<Rightarrow> ('w, Allocation list) work" where
  "list_allocations env i cid = on_store env i (\<lambda>_. tx_get (ListAllocations cid))"

text \<open>The loops over the allocations; store calls 10, 11, \<dots> belong to them.\<close>

fun apply_all :: "'w prov_env \<Rightarrow> nat \<Rightarrow> Operation \<Rightarrow> CredentialMaterial \<Rightarrow> Allocation list \<Rightarrow> ('w, unit) work" where
  "apply_all env i operation material [] = tx_return ()"
| "apply_all env i operation material (a # as) =
     (if alc_State a = AlActive then apply_all env (i + 1) operation material as
      else tx_bind (on_agent env (alc_Node a)
          \<lparr>ads_OperationID = opn_ID operation, ads_CredentialID = opn_CredentialID operation, ads_DesiredRevision = opn_DesiredRevision operation,
           ads_State = Present, ads_Protocol = mat_Protocol material, ads_VLESSClientUUID = mat_VLESSClientUUID material\<rparr>) (\<lambda>result.
        if (case result of None \<Rightarrow> True | Some res \<Rightarrow> \<not> validAgentResult res operation Present)
        then tx_bind (ignoring (on_store env i (\<lambda>_. MarkAllocationFailed (opn_ID operation) (node_ID (alc_Node a)) ''agent_apply_failed'')))
               (\<lambda>_. apply_all env (i + 1) operation material as)
        else tx_bind (on_store env i (\<lambda>now. MarkAllocationApplied now (opn_ID operation) (node_ID (alc_Node a)) (ars_ConfigRevision (the result))))
               (\<lambda>_. apply_all env (i + 1) operation material as)))"

fun revoke_all :: "'w prov_env \<Rightarrow> nat \<Rightarrow> Operation \<Rightarrow> Allocation list \<Rightarrow> ('w, unit) work" where
  "revoke_all env i operation [] = tx_return ()"
| "revoke_all env i operation (a # as) =
     (if alc_State a = AlRevoked then revoke_all env (i + 1) operation as
      else tx_bind (on_agent env (alc_Node a)
          \<lparr>ads_OperationID = opn_ID operation, ads_CredentialID = opn_CredentialID operation, ads_DesiredRevision = opn_DesiredRevision operation,
           ads_State = Absent, ads_Protocol = [], ads_VLESSClientUUID = []\<rparr>) (\<lambda>result.
        if (case result of None \<Rightarrow> True | Some res \<Rightarrow> \<not> validAgentResult res operation Absent)
        then tx_bind (ignoring (on_store env i (\<lambda>_. MarkAllocationFailed (opn_ID operation) (node_ID (alc_Node a)) ''agent_revoke_failed'')))
               (\<lambda>_. revoke_all env (i + 1) operation as)
        else tx_bind (on_store env i (\<lambda>now. MarkAllocationRevoked now (opn_ID operation) (node_ID (alc_Node a)) (ars_ConfigRevision (the result))))
               (\<lambda>_. revoke_all env (i + 1) operation as)))"

definition finish_provision :: "prov_config \<Rightarrow> 'w prov_env \<Rightarrow> Operation \<Rightarrow> Allocation list \<Rightarrow> ('w, unit) work" where
  "finish_provision cfg env operation allocations =
     (if \<not> allocationsMatchOperation allocations operation Present then tx_fail PErrConflict
      else if \<not> roleActive allocations AlPrimary
      then retryOrFailProvision cfg env 3 operation ''primary'' ''primary_apply_failed'' (pendingNodeIDs allocations)
      else if \<not> roleActive allocations AlFailover then
        (if opn_Attempts operation \<ge> opn_MaxAttempts operation
         then on_store env 3 (\<lambda>now. CompleteProvision (wv_eventID env) now (wv_appNow env) operation ''degraded'' allocations)
         else retry_later cfg env 3 operation ''failover_apply_failed'')
      else on_store env 3 (\<lambda>now. CompleteProvision (wv_eventID env) now (wv_appNow env) operation ''active'' allocations))"

definition provision :: "prov_config \<Rightarrow> 'w prov_env \<Rightarrow> Operation \<Rightarrow> ('w, unit) work" where
  "provision cfg env operation =
     (case (case wv_material env (opn_CredentialID operation) of Some m \<Rightarrow> if validMaterial m operation then Some m else None | None \<Rightarrow> None) of
        None \<Rightarrow> retryOrFailProvision cfg env 1 operation ''all'' ''credential_material_unavailable'' []
      | Some material \<Rightarrow>
          (case (case wv_placement env (mat_SubscriptionID material) of
                   Some p \<Rightarrow> if validPlacement p (mat_SubscriptionID material) then Some p else None | None \<Rightarrow> None) of
             None \<Rightarrow> retryOrFailProvision cfg env 1 operation ''all'' ''placement_unavailable'' []
           | Some placement \<Rightarrow>
               tx_try (on_store env 0 (\<lambda>now. EnsureAllocations (wv_allocationID env 0) (wv_allocationID env 1) now (wv_locked env)
                         operation placement (mat_Protocol material)))
                 (\<lambda>err. if err = PErrCapacity then retryOrFailProvision cfg env 1 operation ''all'' ''capacity_exhausted'' []
                        else retryOrFailProvision cfg env 1 operation ''all'' ''allocation_failed'' [])
                 (\<lambda>allocations.
                    if \<not> allocationsMatchOperation allocations operation Present then tx_fail PErrConflict
                    else tx_bind (apply_all env 10 operation material allocations) (\<lambda>_.
                         tx_try (list_allocations env 2 (opn_CredentialID operation))
                           (\<lambda>_. retryOrFailProvision cfg env 3 operation ''all'' ''allocation_read_failed'' [])
                           (finish_provision cfg env operation)))))"

definition finish_revoke :: "prov_config \<Rightarrow> 'w prov_env \<Rightarrow> Operation \<Rightarrow> Allocation list \<Rightarrow> ('w, unit) work" where
  "finish_revoke cfg env operation allocations =
     (if \<not> allocationsMatchOperation allocations operation Absent then tx_fail PErrConflict
      else if unrevokedNodeIDs allocations \<noteq> [] then retryOrFailRevoke cfg env 3 operation ''revoke_incomplete'' (unrevokedNodeIDs allocations)
      else on_store env 3 (\<lambda>now. CompleteRevoke (wv_eventID env) now (wv_appNow env) operation allocations))"

definition revoke :: "prov_config \<Rightarrow> 'w prov_env \<Rightarrow> Operation \<Rightarrow> ('w, unit) work" where
  "revoke cfg env operation =
     (let go_on = tx_try (list_allocations env 1 (opn_CredentialID operation))
            (\<lambda>_. retryOrFailRevoke cfg env 3 operation ''allocation_read_failed'' [])
            (\<lambda>allocations.
               if \<not> allocationsMatchOperation allocations operation Absent then tx_fail PErrConflict
               else tx_bind (revoke_all env 10 operation allocations) (\<lambda>_.
                    tx_try (list_allocations env 2 (opn_CredentialID operation))
                      (\<lambda>_. retryOrFailRevoke cfg env 3 operation ''allocation_read_failed'' [])
                      (finish_revoke cfg env operation)))
      in tx_try (on_store env 0 (\<lambda>now. PrepareRevoke now operation))
           (\<lambda>err. if err = PErrNotFound then go_on else retryOrFailRevoke cfg env 3 operation ''revoke_prepare_failed'' [])
           (\<lambda>_. go_on))"

definition operation_workOnce :: "prov_config \<Rightarrow> 'w prov_env \<Rightarrow> ('w, unit) work" where
  "operation_workOnce cfg env =
     tx_bind (on_store env 4 (\<lambda>now. ClaimOperation now (pc_lease cfg) (wv_locked env))) (\<lambda>claimed.
       case claimed of
         None \<Rightarrow> tx_return ()
       | Some operation \<Rightarrow> if opn_Kind operation = OpProvision then provision cfg env operation else revoke cfg env operation)"

section \<open>Reconciliation, outbox, health\<close>

definition recordConvergence :: "'w prov_env \<Rightarrow> nat \<Rightarrow> Allocation \<Rightarrow> int \<Rightarrow> ('w, unit) work" where
  "recordConvergence env i a configRevision =
     (if configRevision < 1 then tx_fail PErrConflict
      else if alc_DesiredState a = Present then
        (if alc_State a = AlActive then tx_return ()
         else on_store env i (\<lambda>now. MarkAllocationApplied now (alc_DesiredOperationID a) (node_ID (alc_Node a)) configRevision))
      else if alc_State a = AlRevoked then tx_return ()
      else on_store env i (\<lambda>now. MarkAllocationRevoked now (alc_DesiredOperationID a) (node_ID (alc_Node a)) configRevision))"

definition reconcile_desired :: "Allocation \<Rightarrow> CredentialMaterial option \<Rightarrow> AgentDesiredState option" where
  "reconcile_desired a answer =
     (let desired = \<lparr>ads_OperationID = alc_DesiredOperationID a, ads_CredentialID = alc_CredentialID a,
            ads_DesiredRevision = alc_DesiredRevision a, ads_State = alc_DesiredState a, ads_Protocol = [], ads_VLESSClientUUID = []\<rparr>
      in if alc_DesiredState a = Present then
           (case answer of
              None \<Rightarrow> None
            | Some m \<Rightarrow>
                if mat_CredentialID m \<noteq> alc_CredentialID a \<or> mat_Revision m \<noteq> alc_DesiredRevision a \<or> mat_Protocol m \<noteq> alc_Protocol a
                then None else Some (desired\<lparr>ads_Protocol := mat_Protocol m, ads_VLESSClientUUID := mat_VLESSClientUUID m\<rparr>))
         else Some desired)"

definition reconcileOne :: "'w prov_env \<Rightarrow> nat \<Rightarrow> Allocation \<Rightarrow> ('w, unit) work" where
  "reconcileOne env i a =
     tx_bind (tx_get (\<lambda>(st, w). wv_actual env (alc_Node a) (alc_CredentialID a) w)) (\<lambda>answer.
       case answer of
         None \<Rightarrow> tx_fail PInfra
       | Some actual \<Rightarrow>
           if cas_DesiredRevision actual > alc_DesiredRevision a then tx_fail PErrConflict
           else if cas_DesiredRevision actual = alc_DesiredRevision a \<and> cas_State actual = target_text (alc_DesiredState a)
           then recordConvergence env i a (cas_ConfigRevision actual)
           else
             (case reconcile_desired a (wv_material env (alc_CredentialID a)) of
                None \<Rightarrow> tx_fail PErrConflict
              | Some desired \<Rightarrow>
                  tx_bind (on_agent env (alc_Node a) desired) (\<lambda>result.
                    case result of
                      None \<Rightarrow> tx_fail PInfra
                    | Some res \<Rightarrow>
                        if ars_OperationID res \<noteq> ads_OperationID desired \<or> ars_CredentialID res \<noteq> ads_CredentialID desired
                          \<or> ars_DesiredRevision res \<noteq> ads_DesiredRevision desired \<or> ars_State res \<noteq> target_text (ads_State desired)
                          \<or> ars_ConfigRevision res < 1 \<or> ars_AppliedAt res = 0
                        then tx_fail PErrConflict
                        else recordConvergence env i a (ars_ConfigRevision res))))"

fun reconcile_all :: "prov_config \<Rightarrow> 'w prov_env \<Rightarrow> nat \<Rightarrow> ReconciliationCandidate list \<Rightarrow> ('w, unit) work" where
  "reconcile_all cfg env i [] = tx_return ()"
| "reconcile_all cfg env i (c # cs) =
     tx_bind (ignoring (reconcileOne env i (rc_Allocation c))) (\<lambda>_.
     tx_bind (ignoring (on_store env (i + 1) (\<lambda>now. RescheduleReconciliation now (alc_ID (rc_Allocation c)) (rc_ClaimID c) (pc_interval cfg)))) (\<lambda>_.
     reconcile_all cfg env (i + 2) cs))"

definition reconcile :: "prov_config \<Rightarrow> 'w prov_env \<Rightarrow> ('w, unit) work" where
  "reconcile cfg env =
     tx_try (on_store env 0 (\<lambda>now. ClaimReconciliationCandidates now (wv_locked env) (wv_claimIDs env) (pc_batch cfg) (pc_lease cfg)))
       (\<lambda>_. tx_return ()) (reconcile_all cfg env 10)"

definition outbox_workOnce :: "prov_config \<Rightarrow> 'w prov_env \<Rightarrow> ('w, unit) work" where
  "outbox_workOnce cfg env =
     tx_bind (on_store env 0 (\<lambda>now. prov_claim now (pc_lease cfg) (wv_locked env))) (\<lambda>claimed.
       case claimed of
         None \<Rightarrow> tx_return ()
       | Some message \<Rightarrow>
           if \<not> wv_publish_ok env then on_store env 1 (\<lambda>now. prov_retry now
               (prov_retryBackoff (pc_sha256 cfg) (pc_retryDelay cfg) (msg_Attempts message) (msg_EventID message)) (msg_EventID message))
           else on_store env 1 (\<lambda>now. prov_complete now (msg_EventID message)))"

fun poll_nodes :: "prov_config \<Rightarrow> 'w prov_env \<Rightarrow> nat \<Rightarrow> Node list \<Rightarrow> ('w, unit) work" where
  "poll_nodes cfg env i [] = tx_return ()"
| "poll_nodes cfg env i (n # ns) =
     tx_bind (tx_get (\<lambda>(st, w). wv_status env n w)) (\<lambda>answer.
     tx_bind (ignoring (case answer of
         None \<Rightarrow> on_store env i (\<lambda>now. MarkNodeOffline now (node_ID n))
       | Some status \<Rightarrow>
           if ast_NodeID status \<noteq> node_ID n then on_store env i (\<lambda>now. MarkNodeOffline now (node_ID n))
           else on_store env i (\<lambda>now. RecordNodeHealth now status (pc_staleAfter cfg)))) (\<lambda>_.
     poll_nodes cfg env (i + 1) ns))"

definition health_poll :: "prov_config \<Rightarrow> 'w prov_env \<Rightarrow> ('w, unit) work" where
  "health_poll cfg env =
     tx_try (on_store env 0 (\<lambda>_. tx_get ListNodes)) (\<lambda>_. tx_return ()) (poll_nodes cfg env 1)"

end
