(* ===== verification/Provisioning_Rounds.thy ===== *)
theory Provisioning_Rounds
  imports Provisioning_Worker
begin

text \<open>
  The workers of \<open>Provisioning_Worker\<close> only take steps of \<open>prov_step\<close>: whatever the database, the
  other services and the agents answer, a round of a worker is a sequence of store operations
  that the transition system allows, so the invariants of \<open>Provisioning_Lifecycle\<close> and
  \<open>Provisioning_Outcomes\<close> hold with the workers running.

  A claimed operation stays known (\<open>known_step\<close>), which is what the steps that place or settle an
  operation ask for. The locale \<open>store_round\<close> has the rules for composing rounds that rely on such
  a stable fact; it is interpreted for rounds that rely on nothing and for the rounds of a claimed
  operation.
\<close>

section \<open>Operations do not disappear\<close>

definition idents :: "prov_store \<Rightarrow> (uuid \<times> uuid \<times> op_kind \<times> int \<times> int) set" where
  "idents st = op_ident ` set (pv_operations st)"

definition op_key :: "Operation \<Rightarrow> uuid \<times> uuid \<times> op_kind \<times> int \<times> int" where
  "op_key operation = (opn_ID operation, opn_CredentialID operation, opn_Kind operation, opn_DesiredRevision operation, opn_CommandSequence operation)"

lemma known_idents: "known st operation \<longleftrightarrow> op_key operation \<in> idents st"
  by (auto simp: known_def idents_def list_ex_iff same_operation_def op_key_def op_ident_def image_iff eq_commute)

lemma idents_update:
  assumes "pv_operations t = tbl_update p f (pv_operations st)" and "\<And>o1. p o1 \<Longrightarrow> op_ident (f o1) = op_ident o1"
  shows "idents t = idents st"
proof -
  have "map op_ident (pv_operations t) = map op_ident (pv_operations st)" unfolding assms(1) by (rule map_tbl_update) (rule assms(2))
  then show ?thesis unfolding idents_def by (metis set_map)
qed

lemma idents_command:
  assumes "RecordCommand now meta command kind maxAttempts st = (Inr u, t)"
  shows "t = st \<or> pv_inbox t \<noteq> pv_inbox st
    \<and> idents t = insert (cmd_OperationID command, cmd_CredentialID command, kind, cmd_DesiredRevision command, pm_AggregateSequence meta) (idents st)"
  using assms
proof (cases rule: RecordCommand_result)
  case (recorded cu)
  let ?st1 = "st\<lparr>pv_operations := pv_operations st @ [new_operation now meta command kind maxAttempts]\<rparr>"
  have "idents t = idents ?st1" unfolding recorded(7) by (rule idents_update, simp, simp add: supersede_def op_ident_def)
  moreover have "pv_inbox t \<noteq> pv_inbox st" unfolding recorded(7) by simp
  ultimately show ?thesis by (auto simp: idents_def op_ident_def new_operation_def)
qed simp

lemma idents_keep:
  "ClaimOperation now lease locked st = (Inr c, t) \<Longrightarrow> idents t = idents st"
  "RetryOperation now oid reason delay st = (Inr u, t) \<Longrightarrow> idents t = idents st"
  "completeOperationWithEvent eid now appNow operation topic dedupe data st = (Inr u, t) \<Longrightarrow> idents t = idents st"
proof -
  assume "ClaimOperation now lease locked st = (Inr c, t)"
  then show "idents t = idents st"
  proof (cases rule: ClaimOperation_result)
    case (claimed o1)
    show ?thesis unfolding claimed(5) by (rule idents_update, simp, simp add: op_ident_def)
  qed simp
next
  assume "RetryOperation now oid reason delay st = (Inr u, t)"
  then have "t = set_operations (\<lambda>o1. opr_id o1 = oid \<and> opr_state o1 = OpProcessing) (\<lambda>o1. o1\<lparr>opr_state := OpRetry, opr_lease_until := None,
             opr_next_attempt_at := now + delay, opr_last_error := Some reason\<rparr>) st"
    by (auto simp: RetryOperation_def Let_def tx_bind_Inr tx_results split: if_splits)
  then show "idents t = idents st" by (elim ssubst, intro idents_update, simp, simp add: op_ident_def)
next
  assume "completeOperationWithEvent eid now appNow operation topic dedupe data st = (Inr u, t)"
  then show "idents t = idents st"
  proof (cases rule: completed_result)
    case (reported o1 cu seq)
    show ?thesis unfolding reported(9) by (rule idents_update, simp, simp add: op_ident_def)
  qed simp
qed

lemma idents_ensure:
  assumes cap: "capacity_ok st" and "EnsureAllocations i1 i2 now locked operation placement protocol st = (Inr as, t)"
  shows "idents t = idents st"
  using assms(2)
proof (cases rule: EnsureAllocations_result)
  case (kept o1 u)
  have "pv_operations t = pv_operations (bind_operation operation st)"
    by (subst retain_result(3) [OF cap kept(7)]) simp
  then show ?thesis unfolding bind_operation_def by (rule idents_update [OF trans], simp, simp add: op_ident_def)
next
  case (made o1 n1 n2 u1 u2 st1 st2)
  note C = choose_nodes_two [OF made(7)]
  have room: "node_AllocatedClients n1 < capacity_ceiling n1" "node_AllocatedClients n2 < capacity_ceiling n2"
    using C by (auto simp: placeable_def)
  note A1 = allocate_node_capacity [OF cap C(1) room(1) made(8)]
  note A2 = allocate_node_capacity [OF A1(1) A1(2) [OF C(3,5)] room(2) made(9)]
  have "pv_operations st2 = pv_operations st" by (subst A2(3), subst A1(3), simp)
  then show ?thesis unfolding made(10) by (intro idents_update, simp, simp add: op_ident_def)
qed

lemma idents_complete:
  "CompleteProvision eid now appNow operation status as st = (Inr u, t) \<Longrightarrow> idents t = idents st"
  "CompleteProvisionFailure eid now appNow operation scope reason pending st = (Inr u, t) \<Longrightarrow> idents t = idents st"
  "CompleteRevoke eid now appNow operation as st = (Inr u, t) \<Longrightarrow> idents t = idents st"
  "CompleteRevokeFailure eid now appNow operation reason pending st = (Inr u, t) \<Longrightarrow> idents t = idents st"
  by (auto simp: completions Let_def tx_fail_def split: if_splits dest: idents_keep(3))

lemma idents_same: "same_generations st t \<Longrightarrow> idents t = idents st"
  by (simp add: same_generations_def idents_def)

text \<open>Operations never change, and only a recorded command, which the inbox then has, adds one.\<close>

definition grows :: "prov_store \<Rightarrow> prov_store \<Rightarrow> bool" where
  "grows st t \<longleftrightarrow> idents st \<subseteq> idents t \<and> (pv_inbox t = pv_inbox st \<longrightarrow> idents t = idents st)"

lemma grows_same: "idents t = idents st \<Longrightarrow> grows st t"
  by (simp add: grows_def)

lemma grows_command: "RecordCommand now meta command kind maxAttempts st = (Inr u, t) \<Longrightarrow> grows st t"
  by (drule idents_command) (auto simp: grows_def)

lemma grows_step:
  assumes "prov_step st t" and cap: "capacity_ok st"
  shows "grows st t"
  using assms(1)
proof cases
qed (simp_all, (rule run_tx_post [where Q = "grows st", OF _ grows_same [OF refl]],
   (erule grows_command | (rule grows_same, erule idents_keep idents_complete idents_ensure [OF cap]) | (rule grows_same, rule idents_same, erule generations_unchanged)))+)

lemma idents_step: "prov_step st t \<Longrightarrow> capacity_ok st \<Longrightarrow> idents st \<subseteq> idents t"
  using grows_step by (simp add: grows_def)

lemma known_step: "prov_reachable st \<Longrightarrow> prov_step st t \<Longrightarrow> known st operation \<Longrightarrow> known t operation"
  using idents_step reachable_capacity unfolding known_idents by blast

section \<open>Composing rounds\<close>

locale store_round =
  fixes K :: "prov_store \<Rightarrow> bool"
  assumes stable: "prov_reachable st \<Longrightarrow> prov_step st t \<Longrightarrow> K st \<Longrightarrow> K t"
begin

definition takes_steps :: "('w, 'a) work \<Rightarrow> bool" where
  "takes_steps m \<longleftrightarrow> (\<forall>st w. prov_reachable st \<longrightarrow> K st \<longrightarrow> prov_step\<^sup>*\<^sup>* st (fst (snd (m (st, w)))))"

lemma steps_keep: "prov_step\<^sup>*\<^sup>* st t \<Longrightarrow> prov_reachable st \<Longrightarrow> K st \<Longrightarrow> prov_reachable t \<and> K t"
  by (induction rule: rtranclp_induct) (auto intro: stable pr_step)

lemma takes_stepsD: "takes_steps m \<Longrightarrow> prov_reachable st \<Longrightarrow> K st \<Longrightarrow> m (st, w) = (r, (t, w1)) \<Longrightarrow> prov_step\<^sup>*\<^sup>* st t"
  unfolding takes_steps_def by (metis fst_conv snd_conv)

lemma ts_return: "takes_steps (tx_return a)"
  and ts_fail: "takes_steps (tx_fail e)"
  and ts_get: "takes_steps (tx_get f)"
  by (simp_all add: takes_steps_def tx_defs)

lemma ts_agent: "takes_steps (on_agent env n d)"
  by (simp add: takes_steps_def on_agent_def split: prod.splits)

lemma ts_store:
  assumes "\<And>st fl. prov_reachable st \<Longrightarrow> K st \<Longrightarrow> prov_step\<^sup>*\<^sup>* st (snd (run_tx PInfra fl (m (wv_now env i)) st))"
  shows "takes_steps (on_store env i m)"
  unfolding takes_steps_def on_store_def
  by (auto split: prod.splits) (metis assms snd_conv)

lemma ts_try:
  assumes m: "takes_steps m" and h: "\<And>e. takes_steps (h e)" and f: "\<And>a. takes_steps (f a)"
  shows "takes_steps (tx_try m h f)"
  unfolding takes_steps_def
proof (intro allI impI)
  fix st w
  assume st: "prov_reachable st" "K st"
  obtain r t w1 where run: "m (st, w) = (r, (t, w1))" by (metis prod.exhaust)
  note first = takes_stepsD [OF m st run]
  note t = steps_keep [OF first st]
  show "prov_step\<^sup>*\<^sup>* st (fst (snd (tx_try m h f (st, w))))"
    using first t f h by (cases r) (auto simp: tx_try_def run takes_steps_def intro: rtranclp_trans)
qed

lemma ts_bind: "takes_steps m \<Longrightarrow> (\<And>a. takes_steps (f a)) \<Longrightarrow> takes_steps (tx_bind m f)"
  using ts_try [OF _ ts_fail, of m f] by (simp add: tx_try_def tx_bind_def tx_fail_def [abs_def])

lemma ts_ignoring: "takes_steps m \<Longrightarrow> takes_steps (ignoring m)"
  unfolding ignoring_def by (intro ts_try ts_return)

lemma ts_if: "(b \<Longrightarrow> takes_steps m) \<Longrightarrow> (\<not> b \<Longrightarrow> takes_steps n) \<Longrightarrow> takes_steps (if b then m else n)"
  by simp

lemma ts_option:
  "(x = None \<Longrightarrow> takes_steps m) \<Longrightarrow> (\<And>a. x = Some a \<Longrightarrow> takes_steps (n a)) \<Longrightarrow> takes_steps (case x of None \<Rightarrow> m | Some a \<Rightarrow> n a)"
  by (cases x) auto

lemmas ts_intros = ts_return ts_fail ts_get ts_agent ts_try ts_bind ts_ignoring ts_if ts_option

lemma ts_read: "takes_steps (on_store env i (\<lambda>_. tx_get f))"
  by (rule ts_store) (simp add: run_tx_def tx_get_def)

lemma ts_step: "(\<And>st fl. prov_reachable st \<Longrightarrow> K st \<Longrightarrow> prov_step st (snd (run_tx PInfra fl (m (wv_now env i)) st))) \<Longrightarrow> takes_steps (on_store env i m)"
  by (rule ts_store) blast

lemma ts_apply_all: "takes_steps (apply_all env i operation material as)"
  by (induction env i operation material as rule: apply_all.induct) (auto intro!: ts_intros ts_step prov_step.intros)

lemma ts_revoke_all: "takes_steps (revoke_all env i operation as)"
  by (induction env i operation as rule: revoke_all.induct) (auto intro!: ts_intros ts_step prov_step.intros)

lemma ts_retry_later: "takes_steps (retry_later cfg env i operation reason)"
  unfolding retry_later_def by (intro ts_step prov_step.intros)

lemma ts_recordConvergence: "takes_steps (recordConvergence env i a cr)"
  unfolding recordConvergence_def by (intro ts_intros ts_step prov_step.intros)

lemma ts_reconcileOne: "takes_steps (reconcileOne env i a)"
  unfolding reconcileOne_def by (intro ts_intros ts_recordConvergence)

lemma ts_reconcile: "takes_steps (reconcile cfg env)"
proof -
  have "takes_steps (reconcile_all cfg env i cs)" for i cs
    by (induction cfg env i cs rule: reconcile_all.induct) (auto intro!: ts_intros ts_reconcileOne ts_step prov_step.intros)
  then show ?thesis unfolding reconcile_def by (intro ts_intros ts_step prov_step.intros)
qed

lemma ts_outbox: "takes_steps (outbox_workOnce cfg env)"
  unfolding outbox_workOnce_def by (intro ts_intros ts_step prov_step.intros)

lemma ts_health: "takes_steps (health_poll cfg env)"
proof -
  have "takes_steps (poll_nodes cfg env i ns)" for i ns
    by (induction cfg env i ns rule: poll_nodes.induct) (auto intro!: ts_intros ts_step prov_step.intros)
  then show ?thesis unfolding health_poll_def by (intro ts_intros ts_read)
qed

end

interpretation any_round: store_round "\<lambda>_. True"
  by unfold_locales simp

interpretation claimed_round: store_round "\<lambda>st. known st operation" for operation
  by unfold_locales (rule known_step)

section \<open>The rounds of an operation\<close>

lemma provision_steps:
  assumes "opn_Kind operation = OpProvision"
  shows "claimed_round.takes_steps operation (provision cfg env operation)"
  using assms unfolding provision_def finish_provision_def retryOrFailProvision_def list_allocations_def
  by (intro claimed_round.ts_intros claimed_round.ts_step claimed_round.ts_read claimed_round.ts_apply_all claimed_round.ts_retry_later
      prov_step.intros)

lemma revoke_steps:
  assumes "opn_Kind operation = OpRevoke"
  shows "claimed_round.takes_steps operation (revoke cfg env operation)"
  using assms unfolding revoke_def finish_revoke_def retryOrFailRevoke_def list_allocations_def Let_def
  by (intro claimed_round.ts_intros claimed_round.ts_step claimed_round.ts_read claimed_round.ts_revoke_all claimed_round.ts_retry_later
      prov_step.intros)

lemma claimed_known:
  assumes "ClaimOperation now lease locked st = (Inr (Some operation), t)"
  shows "known t operation"
  using assms
proof (cases rule: ClaimOperation_result)
  case (claimed o1)
  from idents_keep(1) [OF assms] claimed(1) have "op_ident o1 \<in> idents t" by (auto simp: idents_def)
  moreover have "op_key operation = op_ident o1" using claimed(3) by (simp add: op_key_def op_ident_def operation_of_row_def)
  ultimately show ?thesis by (simp add: known_idents)
qed simp

lemma workOnce_steps:
  assumes "prov_reachable st"
  shows "prov_step\<^sup>*\<^sup>* st (fst (snd (operation_workOnce cfg env (st, w))))"
proof -
  let ?claim = "run_tx PInfra (wv_fault env 4) (ClaimOperation (wv_now env 4) (pc_lease cfg) (wv_locked env)) st"
  obtain r t where run: "?claim = (r, t)" by (metis prod.exhaust)
  then have first: "prov_step st t" by (metis ps_claim snd_conv)
  then have t: "prov_reachable t" by (rule pr_step [OF assms])
  have open1: "operation_workOnce cfg env (st, w) = (case r of Inl e \<Rightarrow> (Inl e, (t, w)) | Inr claimed \<Rightarrow> (case claimed of None \<Rightarrow> (Inr (), (t, w))
      | Some operation \<Rightarrow> if opn_Kind operation = OpProvision then provision cfg env operation (t, w) else revoke cfg env operation (t, w)))"
    by (simp add: operation_workOnce_def tx_bind_def on_store_def run tx_return_def split: sum.splits option.splits)
  have rest: "prov_step\<^sup>*\<^sup>* t (fst (snd (if opn_Kind operation = OpProvision then provision cfg env operation (t, w) else revoke cfg env operation (t, w))))"
    if "r = Inr (Some operation)" for operation
  proof -
    from run that have "known t operation" by (metis run_tx_Inr claimed_known)
    then show ?thesis using t provision_steps [of operation cfg env] revoke_steps [of operation cfg env]
      by (cases "opn_Kind operation") (auto simp: claimed_round.takes_steps_def)
  qed
  from first rest show ?thesis unfolding open1
    by (auto split: sum.splits option.splits intro: converse_rtranclp_into_rtranclp)
qed

end
