(* ===== verification/Provisioning_Properties.thy ===== *)
theory Provisioning_Properties
  imports Provisioning_Rounds
begin

text \<open>
  What the provisioning service promises, over every interleaving of its consumers and workers
  (\<open>prov_reachable\<close>): places are never oversold, commands are consecutive generations of a
  credential, each settled operation is reported once and in order, a redelivered command changes
  nothing, and the workers do no more than the store's operations.
\<close>

section \<open>Commands\<close>

lemma inbox_appends:
  "RecordCommand now meta command kind maxAttempts st = (Inr u, t) \<Longrightarrow> \<exists>xs. pv_inbox t = pv_inbox st @ xs"
  by (erule RecordCommand_result) auto

lemma inbox_ensure:
  assumes cap: "capacity_ok st" and "EnsureAllocations i1 i2 now locked operation placement protocol st = (Inr as, t)"
  shows "pv_inbox t = pv_inbox st"
  using assms(2)
proof (cases rule: EnsureAllocations_result)
  case (kept o1 u)
  show ?thesis by (subst retain_result(3) [OF cap kept(7)]) (simp add: bind_operation_def)
next
  case (made o1 n1 n2 u1 u2 st1 st2)
  note C = choose_nodes_two [OF made(7)]
  have room: "node_AllocatedClients n1 < capacity_ceiling n1" "node_AllocatedClients n2 < capacity_ceiling n2"
    using C by (auto simp: placeable_def)
  note A1 = allocate_node_capacity [OF cap C(1) room(1) made(8)]
  note A2 = allocate_node_capacity [OF A1(1) A1(2) [OF C(3,5)] room(2) made(9)]
  show ?thesis unfolding made(10) by simp (subst A2(3), subst A1(3), simp)
qed

lemma completed_inbox: "completeOperationWithEvent eid now appNow operation topic dedupe data st = (Inr u, t) \<Longrightarrow> pv_inbox t = pv_inbox st"
  by (erule completed_result) simp_all

lemma lease_candidates_inbox: "lease_candidates now lease cs st = (Inr r, t) \<Longrightarrow> pv_inbox t = pv_inbox st"
  by (induction now lease cs arbitrary: st r rule: lease_candidates.induct)
    (auto simp: tx_bind_Inr tx_results update_allocations_result split: if_splits)

lemma inbox_unchanged:
  "prov_RecordDeadLetter eid now appNow topic part off sha reason st = (Inr u, t) \<Longrightarrow> pv_inbox t = pv_inbox st"
  "RequestDeadLetterReplay topic part off st = (Inr s, t) \<Longrightarrow> pv_inbox t = pv_inbox st"
  "CompleteDeadLetterReplay topic part off st = (Inr u, t) \<Longrightarrow> pv_inbox t = pv_inbox st"
  "ClaimOperation now lease locked st = (Inr c, t) \<Longrightarrow> pv_inbox t = pv_inbox st"
  "RetryOperation now oid reason delay st = (Inr u, t) \<Longrightarrow> pv_inbox t = pv_inbox st"
  "PrepareRevoke now operation st = (Inr u, t) \<Longrightarrow> pv_inbox t = pv_inbox st"
  "MarkAllocationApplied now oid nid cr st = (Inr u, t) \<Longrightarrow> pv_inbox t = pv_inbox st"
  "MarkAllocationRevoked now oid nid cr st = (Inr u, t) \<Longrightarrow> pv_inbox t = pv_inbox st"
  "MarkAllocationFailed oid nid reason st = (Inr u, t) \<Longrightarrow> pv_inbox t = pv_inbox st"
  "SeedNodes now seeds st = (Inr u, t) \<Longrightarrow> pv_inbox t = pv_inbox st"
  "RecordNodeHealth now status staleAfter st = (Inr u, t) \<Longrightarrow> pv_inbox t = pv_inbox st"
  "MarkNodeOffline now nid st = (Inr u, t) \<Longrightarrow> pv_inbox t = pv_inbox st"
  "ClaimReconciliationCandidates now locked claimIDs limit lease st = (Inr r, t) \<Longrightarrow> pv_inbox t = pv_inbox st"
  "RescheduleReconciliation now aid claimID delay st = (Inr u, t) \<Longrightarrow> pv_inbox t = pv_inbox st"
  by (auto simp: prov_RecordDeadLetter_def prov_insertOutbox_def RequestDeadLetterReplay_def CompleteDeadLetterReplay_def ClaimOperation_def
      RetryOperation_def PrepareRevoke_def MarkAllocationApplied_def MarkAllocationRevoked_def MarkAllocationFailed_def release_node_def
      RecordNodeHealth_def MarkNodeOffline_def ClaimReconciliationCandidates_def RescheduleReconciliation_def update_allocations_result
      Let_def tx_bind_Inr tx_results split: if_splits option.splits dest: lease_candidates_inbox seed_nodes_only)

lemma inbox_leases:
  "prov_claim now lease locked st = (Inr m, t) \<Longrightarrow> pv_inbox t = pv_inbox st"
  "prov_complete now eid st = (Inr u, t) \<Longrightarrow> pv_inbox t = pv_inbox st"
  "prov_retry now delay eid st = (Inr u, t) \<Longrightarrow> pv_inbox t = pv_inbox st"
  "CompleteProvision eid now appNow operation status as st = (Inr u, t) \<Longrightarrow> pv_inbox t = pv_inbox st"
  "CompleteProvisionFailure eid now appNow operation scope reason pending st = (Inr u, t) \<Longrightarrow> pv_inbox t = pv_inbox st"
  "CompleteRevoke eid now appNow operation as st = (Inr u, t) \<Longrightarrow> pv_inbox t = pv_inbox st"
  "CompleteRevokeFailure eid now appNow operation reason pending st = (Inr u, t) \<Longrightarrow> pv_inbox t = pv_inbox st"
  by (auto simp: prov_claim_def prov_complete_def prov_retry_def completions Let_def tx_fail_def dest: completed_inbox
      split: if_splits prod.splits sum.splits)

lemma inbox_same: "pv_inbox t = pv_inbox st \<Longrightarrow> \<exists>xs. pv_inbox t = pv_inbox st @ xs"
  by simp

lemma inbox_step:
  assumes "prov_step st t" and cap: "capacity_ok st"
  shows "\<exists>xs. pv_inbox t = pv_inbox st @ xs"
  using assms(1)
proof cases
qed (simp_all, (rule run_tx_post [where Q = "\<lambda>t. \<exists>xs. pv_inbox t = pv_inbox st @ xs"],
   (erule inbox_appends | (rule inbox_same, erule inbox_unchanged inbox_leases inbox_ensure [OF cap])), simp)+)

lemma inbox_steps:
  assumes "prov_step\<^sup>*\<^sup>* st t" and "prov_reachable st"
  shows "\<exists>xs. pv_inbox t = pv_inbox st @ xs"
  using assms
proof (induction rule: rtranclp_induct)
  case (step t r)
  from inbox_step [OF step.hyps(2)] pr_steps [OF step.hyps(1) step.prems] reachable_capacity obtain ys where "pv_inbox r = pv_inbox t @ ys" by blast
  with step.IH [OF step.prems] show ?case by auto
qed simp

lemma find_append_Some: "find p xs = Some x \<Longrightarrow> find p (xs @ ys) = Some x"
  by (induction xs) auto

lemma find_snoc: "find p xs = None \<Longrightarrow> p x \<Longrightarrow> find p (xs @ [x]) = Some x"
  by (induction xs) (auto split: if_splits)

text \<open>After a command has been accepted its inbox row is there, and says what the command says.\<close>

lemma accepted_row:
  assumes "RecordCommand now meta command kind maxAttempts st = (Inr u, t)"
  shows "\<exists>r. find (\<lambda>r. ci_event_id r = pm_EventID meta) (pv_inbox t) = Some r \<and> same_command r meta command"
proof (cases "find (\<lambda>r. ci_event_id r = pm_EventID meta) (pv_inbox st)")
  case (Some r)
  with assms show ?thesis by (auto simp: RecordCommand_def Let_def tx_bind_Inr tx_results split: if_splits)
next
  case None
  have "t \<noteq> st"
    using assms None by (auto simp: RecordCommand_def Let_def insert_command_def insert_operation_def tx_bind_Inr tx_results create_cursor_def
        split: option.splits if_splits dest!: arg_cong [of _ st pv_inbox])
  from assms this have "pv_inbox t = pv_inbox st @ [new_command meta command]" by (cases rule: RecordCommand_result) auto
  moreover have "ci_event_id (new_command meta command) = pm_EventID meta" "same_command (new_command meta command) meta command"
    by (simp_all add: new_command_def same_command_def)
  ultimately show ?thesis using find_snoc [OF None, of "new_command meta command"] by auto
qed

lemma ProcessEvent_records:
  assumes "ProcessEvent now ma meta data st = (Inr u, t)"
  shows "\<exists>command kind. data = Some command \<and> RecordCommand now meta command kind ma st = (Inr u, t)
    \<and> (\<forall>now' ma'. ProcessEvent now' ma' meta data = RecordCommand now' meta command kind ma')"
  using assms by (auto simp: ProcessEvent_def tx_fail_def split: if_splits option.splits)

text \<open>C39: A redelivered command changes nothing. Once a command event has been processed, processing it
  again at any later time succeeds without effect, and an event with the same id but other
  contents is refused as a conflict without effect.\<close>
theorem command_once:
  assumes "prov_reachable st" and "ProcessEvent now ma meta data st = (Inr u, t)" and "prov_step\<^sup>*\<^sup>* t r"
  shows "ProcessEvent now' ma' meta data r = (Inr (), r)
    \<and> (\<forall>meta' command' kind'. pm_EventID meta' = pm_EventID meta \<and> new_command meta' command' \<noteq> new_command meta (the data) \<longrightarrow>
         RecordCommand now' meta' command' kind' ma' r = (Inl PErrConflict, r))"
proof -
  from ProcessEvent_records [OF assms(2)] obtain command kind where c: "data = Some command"
    "RecordCommand now meta command kind ma st = (Inr u, t)" "\<And>now' ma'. ProcessEvent now' ma' meta data = RecordCommand now' meta command kind ma'"
    by blast
  have "prov_step st (snd (run_tx PInfra NoFault (RecordCommand now meta command kind ma) st))" by (rule ps_command)
  then have "prov_reachable t" using pr_step [OF assms(1)] c(2) by (simp add: run_tx_def)
  from inbox_steps [OF assms(3) this] obtain xs where xs: "pv_inbox r = pv_inbox t @ xs" by blast
  from accepted_row [OF c(2)] obtain row where
    row: "find (\<lambda>r. ci_event_id r = pm_EventID meta) (pv_inbox r) = Some row" "same_command row meta command"
    unfolding xs by (blast intro: find_append_Some)
  have again: "RecordCommand now' meta command kind ma' r = (Inr (), r)"
    using row by (simp add: RecordCommand_def Let_def tx_defs)
  have other: "RecordCommand now' meta' command' kind' ma' r = (Inl PErrConflict, r)"
    if "pm_EventID meta' = pm_EventID meta" "new_command meta' command' \<noteq> new_command meta command" for meta' command' kind'
  proof -
    have "\<not> same_command row meta' command'" using row(2) that by (auto simp: same_command_def new_command_def)
    with row(1) that(1) show ?thesis by (simp add: RecordCommand_def Let_def tx_defs)
  qed
  show ?thesis using again other c(1,3) by simp
qed

section \<open>Places\<close>

text \<open>C36: Nodes are never oversold. In every reachable state the client counter of a node is the number
  of allocations on it that are not revoked, it stays within the part of the capacity that is
  not reserved, and the allocations of a credential are on different nodes with different roles.\<close>
theorem capacity_respected:
  assumes "prov_reachable st" and "n \<in> set (pv_nodes st)"
  shows "node_AllocatedClients n = int (length (filter (\<lambda>a. al_node_id a = node_ID n \<and> al_state a \<noteq> AlRevoked) (pv_allocations st)))
    \<and> node_AllocatedClients n \<le> capacity_ceiling n \<and> 100 * node_AllocatedClients n \<le> 80 * node_CapacityLimit n
    \<and> distinct (map (\<lambda>a. (al_credential_id a, al_node_id a)) (pv_allocations st))
    \<and> distinct (map (\<lambda>a. (al_credential_id a, al_role a)) (pv_allocations st))"
proof -
  from reachable_capacity [OF assms(1)] assms(2) have n: "node_room (pv_allocations st) n" and k: "alloc_keys (pv_allocations st)"
    by (auto simp: capacity_ok_def)
  have "100 * capacity_ceiling n \<le> node_CapacityLimit n * (100 - node_ReservePercent n)" by (simp add: capacity_ceiling_def)
  also have "\<dots> \<le> node_CapacityLimit n * 80" by (rule mult_left_mono) (use n in \<open>auto simp: node_room_def\<close>)
  finally show ?thesis using n k by (simp add: node_room_def alloc_keys_def placed_def)
qed

section \<open>Generations\<close>

lemma ops_of_credential:
  assumes "generations_ok st" and "o1 \<in> set (pv_operations st)"
  shows "of_credential (opr_credential_id o1) (pv_operations st) \<noteq> []"
  using assms by (auto simp: of_credential_def filter_empty_conv)

lemma newest_is_last:
  assumes gen: "generations_ok st" and o1: "o1 \<in> set (pv_operations st)"
    and top: "opr_desired_revision o1 = newest (opr_credential_id o1) (pv_operations st)"
  shows "o1 = last (of_credential (opr_credential_id o1) (pv_operations st))"
proof -
  let ?ops = "of_credential (opr_credential_id o1) (pv_operations st)"
  have ne: "?ops \<noteq> []" by (rule ops_of_credential [OF gen o1])
  then have "last ?ops \<in> set ?ops" by simp
  then have l: "last ?ops \<in> set (pv_operations st)" "opr_credential_id (last ?ops) = opr_credential_id o1" by (auto simp: of_credential_def)
  have "opr_desired_revision o1 = opr_desired_revision (last ?ops)" using top ne by (simp add: newest_def last_map)
  from operation_by_revision [OF gen o1 l(1) l(2) [symmetric] this] show ?thesis .
qed

text \<open>C37: The commands of a credential are consecutive generations. Their operations carry the
  sequence numbers from 1 without a gap and strictly growing revisions; an operation still open
  is the last one, and every allocation of the credential is bound to the last one, present
  exactly when that is a provision.\<close>
theorem generations_gapless:
  assumes "prov_reachable st" and "o1 \<in> set (pv_operations st)"
  shows "let ops = filter (\<lambda>o2. opr_credential_id o2 = opr_credential_id o1) (pv_operations st) in
    map opr_command_sequence ops = [1..int (length ops)] \<and> sorted_wrt (<) (map opr_desired_revision ops)
    \<and> (open_state (opr_state o1) \<longrightarrow> o1 = last ops)
    \<and> (\<forall>a \<in> set (pv_allocations st). al_credential_id a = opr_credential_id o1 \<longrightarrow>
         al_desired_operation_id a = opr_id (last ops) \<and> al_desired_revision a = opr_desired_revision (last ops)
         \<and> (al_desired_state a = Present \<longleftrightarrow> opr_kind (last ops) = OpProvision))"
proof -
  let ?ops = "of_credential (opr_credential_id o1) (pv_operations st)"
  note gen = reachable_generations [OF assms(1)]
  from gen assms(2) obtain cu where "cu_credential_id cu = opr_credential_id o1" "cursor_ok (pv_operations st) cu"
    unfolding generations_ok_def by (metis imageE)
  then have seqs: "map opr_command_sequence ?ops = [1..cu_last_sequence cu]" "0 \<le> cu_last_sequence cu"
    and revs: "sorted_wrt (<) (map opr_desired_revision ?ops)" by (simp_all add: cursor_ok_def)
  have "length ?ops = length [1..cu_last_sequence cu]" using seqs(1) by (metis length_map)
  then have n: "cu_last_sequence cu = int (length ?ops)" using seqs(2) by simp
  have "open_state (opr_state o1) \<longrightarrow> o1 = last ?ops"
    using newest_is_last [OF gen assms(2)] gen assms(2) by (auto simp: generations_ok_def)
  moreover have "al_desired_operation_id a = opr_id (last ?ops) \<and> al_desired_revision a = opr_desired_revision (last ?ops)
         \<and> (al_desired_state a = Present \<longleftrightarrow> opr_kind (last ?ops) = OpProvision)"
    if a: "a \<in> set (pv_allocations st)" "al_credential_id a = opr_credential_id o1" for a
  proof -
    from gen a(1) obtain o2 where o2: "o2 \<in> set (pv_operations st)" "owner_of a o2" "al_desired_revision a = newest (al_credential_id a) (pv_operations st)"
      by (auto simp: generations_ok_def)
    then have "opr_desired_revision o2 = newest (opr_credential_id o2) (pv_operations st)" by (simp add: owner_of_def)
    from newest_is_last [OF gen o2(1) this] have "o2 = last ?ops" using o2(2) a(2) by (simp add: owner_of_def)
    with o2(2) show ?thesis by (simp add: owner_of_def)
  qed
  ultimately show ?thesis using seqs n revs by (simp add: Let_def of_credential_def)
qed

section \<open>Outcomes\<close>

lemma reports_unique:
  assumes ok: "outcomes_ok st" and r: "r1 \<in> set (pv_outbox st)" "r2 \<in> set (pv_outbox st)" and rep: "reports r1 o1" "reports r2 o1"
  shows "r1 = r2"
proof -
  let ?rows = "outcome_rows (opr_credential_id o1) (pv_outbox st)"
  have "sorted_wrt (<) (map row_revision ?rows)" using ok by (simp add: outcomes_ok_def)
  then have "distinct (map row_revision ?rows)" by (simp add: strict_sorted_iff)
  moreover have "r1 \<in> set ?rows" "r2 \<in> set ?rows" using r rep by (auto simp: outcome_rows_def reports_def)
  moreover have "row_revision r1 = row_revision r2" using rep by (simp add: row_revision_def reports_def)
  ultimately show ?thesis by (rule distinct_key_eq)
qed

lemma reports_settled:
  assumes gen: "generations_ok st" and ok: "outcomes_ok st" and o1: "o1 \<in> set (pv_operations st)"
    and r: "r \<in> set (pv_outbox st)" "reports r o1"
  shows "settled_state (opr_state o1)"
proof -
  from r have "ob_sequence r \<noteq> None" by (simp add: reports_def)
  with ok r(1) obtain v where v: "v \<in> settled_view (pv_operations st)" "reported r v" unfolding outcomes_ok_def by blast
  then obtain o2 where o2: "o2 \<in> set (pv_operations st)" "settled_state (opr_state o2)" "reports r o2"
    unfolding settled_view_def by (auto simp: reports_view)
  have "distinct (map opr_id (pv_operations st))" using gen by (simp add: generations_ok_def)
  then have "o1 = o2" by (rule distinct_key_eq [OF _ o1 o2(1)]) (use r(2) o2(3) in \<open>simp add: reports_def\<close>)
  with o2(2) show ?thesis by simp
qed

text \<open>C38: Each outcome is reported exactly once and in order. A succeeded or failed operation has
  exactly one outcome event, with its identifiers, kind and result; a pending, processing, retried
  or superseded one has none. The events of a credential are numbered from 1 without a gap, their
  revisions grow, and a later one does not leave the outbox before an earlier one.\<close>
theorem outcome_once_in_order:
  assumes "prov_reachable st" and "o1 \<in> set (pv_operations st)"
  shows "(if opr_state o1 = OpSucceeded \<or> opr_state o1 = OpFailed then \<exists>!r. r \<in> set (pv_outbox st) \<and> reports r o1
          else \<not> (\<exists>r \<in> set (pv_outbox st). reports r o1))
    \<and> (let events = outcome_rows (opr_credential_id o1) (pv_outbox st) in
         map ob_sequence events = map Some [1..int (length events)] \<and> sorted_wrt (<) (map row_revision events))
    \<and> in_order (pv_outbox st)"
proof -
  note gen = reachable_generations [OF assms(1)] and ok = reachable_outcomes [OF assms(1)]
  let ?rows = "outcome_rows (opr_credential_id o1) (pv_outbox st)"
  from ok have seqs: "map ob_sequence ?rows = map Some [1..last_outcome (opr_credential_id o1) st]" "0 \<le> last_outcome (opr_credential_id o1) st"
    and rest: "sorted_wrt (<) (map row_revision ?rows)" "in_order (pv_outbox st)" by (auto simp: outcomes_ok_def)
  have "length ?rows = length [1..last_outcome (opr_credential_id o1) st]" using seqs(1) by (metis length_map)
  then have n: "last_outcome (opr_credential_id o1) st = int (length ?rows)" using seqs(2) by simp
  have none: "\<not> (\<exists>r \<in> set (pv_outbox st). reports r o1)" if "\<not> settled_state (opr_state o1)"
    using that reports_settled [OF gen ok assms(2)] by blast
  have one: "\<exists>!r. r \<in> set (pv_outbox st) \<and> reports r o1" if "settled_state (opr_state o1)"
  proof -
    from that assms(2) have "(op_ident o1, opr_state o1 = OpSucceeded) \<in> settled_view (pv_operations st)" by (auto simp: settled_view_def)
    with ok obtain r where "r \<in> set (pv_outbox st)" "reports r o1" unfolding outcomes_ok_def reports_view by blast
    with reports_unique [OF ok] show ?thesis by blast
  qed
  show ?thesis using one none seqs(1) n rest by (auto simp: settled_state_def Let_def)
qed

section \<open>Workers\<close>

text \<open>C40: The workers refine the store's transition system. Whatever the database, the other services
  and the agents answer, a round of the operation worker, the reconciliation worker, the outbox
  worker or the health worker, and the processing of an event, are runs of \<open>prov_step\<close>.\<close>
theorem rounds_are_steps:
  assumes "prov_reachable st"
  shows "prov_step\<^sup>*\<^sup>* st (fst (snd (operation_workOnce cfg env (st, w))))
    \<and> prov_step\<^sup>*\<^sup>* st (fst (snd (reconcile cfg env (st, w))))
    \<and> prov_step\<^sup>*\<^sup>* st (fst (snd (outbox_workOnce cfg env (st, w))))
    \<and> prov_step\<^sup>*\<^sup>* st (fst (snd (health_poll cfg env (st, w))))
    \<and> prov_step\<^sup>*\<^sup>* st (snd (run_tx PInfra fl (ProcessEvent now ma meta data) st))"
proof -
  have "prov_step\<^sup>*\<^sup>* st (snd (run_tx PInfra fl (ProcessEvent now ma meta data) st))"
  proof (rule run_tx_post [where Q = "prov_step\<^sup>*\<^sup>* st"])
    fix u t
    assume "ProcessEvent now ma meta data st = (Inr u, t)"
    then obtain command kind where "RecordCommand now meta command kind ma st = (Inr u, t)" using ProcessEvent_records by blast
    then show "prov_step\<^sup>*\<^sup>* st t" using ps_command [of st NoFault now meta command kind ma] by (auto simp: run_tx_def)
  qed simp
  then show ?thesis
    using workOnce_steps [OF assms, of cfg env w] any_round.ts_reconcile [of cfg env] any_round.ts_outbox [of cfg env]
      any_round.ts_health [of cfg env] assms
    by (simp add: any_round.takes_steps_def)
qed

end
