(* ===== verification/Provisioning_Witnesses.thy ===== *)
theory Provisioning_Witnesses
  imports Provisioning_Properties
begin

text \<open>
  A run of provisioning on which its theorems are applied: two nodes are seeded and report healthy,
  a provision command arrives, and a round of the operation worker places the credential on both. The stores
  of the run are evaluated once (\<open>*_value\<close>), and later evaluations start from them.
\<close>

definition pw_seed :: "string \<Rightarrow> string \<Rightarrow> NodeSeed" where
  "pw_seed i label = \<lparr>seed_ID = ''00000000-0000-4000-8000-00000000000'' @ i, seed_Region = ''eu'', seed_ManagementURL = ''https://'' @ label,
     seed_ManagementSPIFFEID = ''spiffe://'' @ label, seed_CapacityLimit = 10, seed_ReservePercent = 20, seed_PublicAddress = label,
     seed_PublicPort = 443, seed_ServerName = ''s'', seed_RealityPublicKey = replicate 43 CHR ''A'', seed_ShortID = ''ab'',
     seed_SpiderX = ''/'', seed_Label = label\<rparr>"

definition pw_seeds :: "NodeSeed list" where
  "pw_seeds = [pw_seed ''1'' ''n1'', pw_seed ''2'' ''n2'']"

definition pw_status :: "NodeSeed \<Rightarrow> AgentStatus" where
  "pw_status s = \<lparr>ast_NodeID = seed_ID s, ast_ConfigRevision = 1, ast_ActiveClients = 0, ast_XrayHealthy = True,
     ast_AgentVersion = ''v1'', ast_XrayVersion = ''x1''\<rparr>"

definition pw_credential :: uuid where
  "pw_credential = ''00000000-0000-4000-8000-0000000000c1''"

definition pw_meta :: ProvMeta where
  "pw_meta = \<lparr>pm_EventID = ''00000000-0000-4000-8000-0000000000e1'', pm_EventType = ''access.provision.request.v1'',
     pm_AggregateID = pw_credential, pm_AggregateSequence = 1, pm_PartitionKey = ''credential:'' @ pw_credential,
     pm_CorrelationID = ''00000000-0000-4000-8000-0000000000f1'', pm_CausationID = None, pm_OccurredAt = 5,
     pm_SourceTopic = ''access.provision.request.v1'', pm_SourcePartition = 0, pm_SourceOffset = 7,
     pm_PayloadSHA256 = replicate 64 CHR ''0''\<rparr>"

definition pw_command :: Command where
  "pw_command = \<lparr>cmd_OperationID = ''00000000-0000-4000-8000-0000000000a1'', cmd_CredentialID = pw_credential, cmd_DesiredRevision = 1\<rparr>"

definition pw_result :: "AgentDesiredState \<Rightarrow> AgentResult" where
  "pw_result d = \<lparr>ars_OperationID = ads_OperationID d, ars_CredentialID = ads_CredentialID d, ars_DesiredRevision = ads_DesiredRevision d,
     ars_State = target_text (ads_State d), ars_ConfigRevision = 2, ars_AppliedAt = 30\<rparr>"

definition pw_env :: "unit prov_env" where
  "pw_env = \<lparr>wv_fault = (\<lambda>_. NoFault), wv_now = (\<lambda>_. 20), wv_appNow = 21, wv_eventID = ''00000000-0000-4000-8000-0000000000b1'',
     wv_allocationID = (\<lambda>i. if i = 0 then ''00000000-0000-4000-8000-0000000000d1'' else ''00000000-0000-4000-8000-0000000000d2''),
     wv_claimIDs = (\<lambda>_. []), wv_locked = [],
     wv_material = (\<lambda>_. Some \<lparr>mat_CredentialID = pw_credential, mat_SubscriptionID = ''00000000-0000-4000-8000-000000000051'',
       mat_Revision = 1, mat_Protocol = ''vless_reality'', mat_VLESSClientUUID = ''aaaaaaaa-0000-4000-8000-000000000001''\<rparr>),
     wv_placement = (\<lambda>_. Some \<lparr>ppl_SubscriptionID = ''00000000-0000-4000-8000-000000000051'', ppl_PeriodID = ''00000000-0000-4000-8000-000000000052'',
       ppl_Region = ''eu'', ppl_PrimaryNodes = 1, ppl_FailoverNodes = 1, ppl_ValidUntil = 1000\<rparr>),
     wv_apply = (\<lambda>n d w. (Some (pw_result d), w)), wv_actual = (\<lambda>n c w. None), wv_status = (\<lambda>n w. None), wv_publish_ok = True\<rparr>"

definition pw_config :: prov_config where
  "pw_config = \<lparr>pc_retryDelay = 10, pc_lease = 10, pc_interval = 10, pc_batch = 10, pc_staleAfter = 100, pc_sha256 = (\<lambda>_. [])\<rparr>"

definition pw_nodes_up :: prov_store where
  "pw_nodes_up = snd (run_tx PInfra NoFault (RecordNodeHealth 10 (pw_status (pw_seeds ! 1)) 100)
     (snd (run_tx PInfra NoFault (RecordNodeHealth 10 (pw_status (pw_seeds ! 0)) 100)
       (snd (run_tx PInfra NoFault (SeedNodes 1 pw_seeds) empty_prov_store)))))"

lemma pw_nodes_up_value [code]: "pw_nodes_up =
     \<lparr>pv_nodes = [\<lparr>node_ID = ''00000000-0000-4000-8000-000000000001'', node_Region = ''eu'', node_ManagementURL = ''https://n1'',
     node_ManagementSPIFFEID = ''spiffe://n1'', node_CapacityLimit = 10, node_ReservePercent = 20, node_AllocatedClients = 0, node_PublicAddress =
     ''n1'', node_PublicPort = 443, node_ServerName = ''s'', node_RealityPublicKey = replicate 43 CHR ''A'', node_ShortID = ''ab'', node_SpiderX =
     ''/'', node_Label = ''n1'', nr_status = NodeActive, nr_agent_version = Some ''v1'', nr_xray_version = Some ''x1'', nr_config_revision = 1,
     nr_last_seen_at = Some 10, nr_updated_at = 10\<rparr>, \<lparr>node_ID = ''00000000-0000-4000-8000-000000000002'', node_Region = ''eu'',
     node_ManagementURL = ''https://n2'', node_ManagementSPIFFEID = ''spiffe://n2'', node_CapacityLimit = 10, node_ReservePercent = 20,
     node_AllocatedClients = 0, node_PublicAddress = ''n2'', node_PublicPort = 443, node_ServerName = ''s'', node_RealityPublicKey = replicate 43 CHR
     ''A'', node_ShortID = ''ab'', node_SpiderX = ''/'', node_Label = ''n2'', nr_status = NodeActive, nr_agent_version = Some ''v1'', nr_xray_version
     = Some ''x1'', nr_config_revision = 1, nr_last_seen_at = Some 10, nr_updated_at = 10\<rparr>], pv_cursors = [], pv_inbox = [], pv_operations =
     [], pv_allocations = [], pv_outcomes = [], pv_outbox = [], pv_dead_letters = [], pv_health = [\<lparr>hr_node_id =
     ''00000000-0000-4000-8000-000000000001'', hr_observed_at = 10, hr_config_revision = 1, hr_active_clients = 0, hr_xray_healthy = True,
     hr_agent_version = ''v1'', hr_xray_version = ''x1''\<rparr>, \<lparr>hr_node_id = ''00000000-0000-4000-8000-000000000002'', hr_observed_at = 10,
     hr_config_revision = 1, hr_active_clients = 0, hr_xray_healthy = True, hr_agent_version = ''v1'', hr_xray_version = ''x1''\<rparr>]\<rparr>"
  by code_simp

definition pw_commanded :: prov_store where
  "pw_commanded = snd (run_tx PInfra NoFault (ProcessEvent 12 3 pw_meta (Some pw_command)) pw_nodes_up)"

lemma pw_commanded_value [code]: "pw_commanded =
     \<lparr>pv_nodes = [\<lparr>node_ID = ''00000000-0000-4000-8000-000000000001'', node_Region = ''eu'', node_ManagementURL = ''https://n1'',
     node_ManagementSPIFFEID = ''spiffe://n1'', node_CapacityLimit = 10, node_ReservePercent = 20, node_AllocatedClients = 0, node_PublicAddress =
     ''n1'', node_PublicPort = 443, node_ServerName = ''s'', node_RealityPublicKey = replicate 43 CHR ''A'', node_ShortID = ''ab'', node_SpiderX =
     ''/'', node_Label = ''n1'', nr_status = NodeActive, nr_agent_version = Some ''v1'', nr_xray_version = Some ''x1'', nr_config_revision = 1,
     nr_last_seen_at = Some 10, nr_updated_at = 10\<rparr>, \<lparr>node_ID = ''00000000-0000-4000-8000-000000000002'', node_Region = ''eu'',
     node_ManagementURL = ''https://n2'', node_ManagementSPIFFEID = ''spiffe://n2'', node_CapacityLimit = 10, node_ReservePercent = 20,
     node_AllocatedClients = 0, node_PublicAddress = ''n2'', node_PublicPort = 443, node_ServerName = ''s'', node_RealityPublicKey = replicate 43 CHR
     ''A'', node_ShortID = ''ab'', node_SpiderX = ''/'', node_Label = ''n2'', nr_status = NodeActive, nr_agent_version = Some ''v1'', nr_xray_version
     = Some ''x1'', nr_config_revision = 1, nr_last_seen_at = Some 10, nr_updated_at = 10\<rparr>], pv_cursors = [\<lparr>cu_credential_id =
     ''00000000-0000-4000-8000-0000000000c1'', cu_last_sequence = 1, cu_last_desired_revision = 1\<rparr>], pv_inbox = [\<lparr>ci_event_id =
     ''00000000-0000-4000-8000-0000000000e1'', ci_event_type = ''access.provision.request.v1'', ci_credential_id =
     ''00000000-0000-4000-8000-0000000000c1'', ci_operation_id = ''00000000-0000-4000-8000-0000000000a1'', ci_sequence = 1, ci_revision = 1,
     ci_correlation_id = ''00000000-0000-4000-8000-0000000000f1'', ci_topic = ''access.provision.request.v1'', ci_partition = 0, ci_offset = 7,
     ci_sha256 = replicate 64 CHR ''0''\<rparr>], pv_operations = [\<lparr>opr_id = ''00000000-0000-4000-8000-0000000000a1'', opr_credential_id =
     ''00000000-0000-4000-8000-0000000000c1'', opr_kind = OpProvision, opr_desired_revision = 1, opr_command_sequence = 1, opr_state = OpPending,
     opr_attempts = 0, opr_max_attempts = 3, opr_next_attempt_at = 12, opr_lease_until = None, opr_allocation_revision = 0, opr_last_error = None,
     opr_correlation_id = ''00000000-0000-4000-8000-0000000000f1'', opr_causation_event_id = ''00000000-0000-4000-8000-0000000000e1'', opr_created_at
     = 12, opr_completed_at = None\<rparr>], pv_allocations = [], pv_outcomes = [], pv_outbox = [], pv_dead_letters = [], pv_health =
     [\<lparr>hr_node_id = ''00000000-0000-4000-8000-000000000001'', hr_observed_at = 10, hr_config_revision = 1, hr_active_clients = 0,
     hr_xray_healthy = True, hr_agent_version = ''v1'', hr_xray_version = ''x1''\<rparr>, \<lparr>hr_node_id =
     ''00000000-0000-4000-8000-000000000002'', hr_observed_at = 10, hr_config_revision = 1, hr_active_clients = 0, hr_xray_healthy = True,
     hr_agent_version = ''v1'', hr_xray_version = ''x1''\<rparr>]\<rparr>"
  by code_simp

definition pw_provisioned :: prov_store where
  "pw_provisioned = fst (snd (operation_workOnce pw_config pw_env (pw_commanded, ())))"

lemma pw_provisioned_value [code]: "pw_provisioned =
     \<lparr>pv_nodes = [\<lparr>node_ID = ''00000000-0000-4000-8000-000000000001'', node_Region = ''eu'', node_ManagementURL = ''https://n1'',
     node_ManagementSPIFFEID = ''spiffe://n1'', node_CapacityLimit = 10, node_ReservePercent = 20, node_AllocatedClients = 1, node_PublicAddress =
     ''n1'', node_PublicPort = 443, node_ServerName = ''s'', node_RealityPublicKey = replicate 43 CHR ''A'', node_ShortID = ''ab'', node_SpiderX =
     ''/'', node_Label = ''n1'', nr_status = NodeActive, nr_agent_version = Some ''v1'', nr_xray_version = Some ''x1'', nr_config_revision = 1,
     nr_last_seen_at = Some 10, nr_updated_at = 20\<rparr>, \<lparr>node_ID = ''00000000-0000-4000-8000-000000000002'', node_Region = ''eu'',
     node_ManagementURL = ''https://n2'', node_ManagementSPIFFEID = ''spiffe://n2'', node_CapacityLimit = 10, node_ReservePercent = 20,
     node_AllocatedClients = 1, node_PublicAddress = ''n2'', node_PublicPort = 443, node_ServerName = ''s'', node_RealityPublicKey = replicate 43 CHR
     ''A'', node_ShortID = ''ab'', node_SpiderX = ''/'', node_Label = ''n2'', nr_status = NodeActive, nr_agent_version = Some ''v1'', nr_xray_version
     = Some ''x1'', nr_config_revision = 1, nr_last_seen_at = Some 10, nr_updated_at = 20\<rparr>], pv_cursors = [\<lparr>cu_credential_id =
     ''00000000-0000-4000-8000-0000000000c1'', cu_last_sequence = 1, cu_last_desired_revision = 1\<rparr>], pv_inbox = [\<lparr>ci_event_id =
     ''00000000-0000-4000-8000-0000000000e1'', ci_event_type = ''access.provision.request.v1'', ci_credential_id =
     ''00000000-0000-4000-8000-0000000000c1'', ci_operation_id = ''00000000-0000-4000-8000-0000000000a1'', ci_sequence = 1, ci_revision = 1,
     ci_correlation_id = ''00000000-0000-4000-8000-0000000000f1'', ci_topic = ''access.provision.request.v1'', ci_partition = 0, ci_offset = 7,
     ci_sha256 = replicate 64 CHR ''0''\<rparr>], pv_operations = [\<lparr>opr_id = ''00000000-0000-4000-8000-0000000000a1'', opr_credential_id =
     ''00000000-0000-4000-8000-0000000000c1'', opr_kind = OpProvision, opr_desired_revision = 1, opr_command_sequence = 1, opr_state = OpSucceeded,
     opr_attempts = 1, opr_max_attempts = 3, opr_next_attempt_at = 12, opr_lease_until = None, opr_allocation_revision = 1, opr_last_error = None,
     opr_correlation_id = ''00000000-0000-4000-8000-0000000000f1'', opr_causation_event_id = ''00000000-0000-4000-8000-0000000000e1'', opr_created_at
     = 12, opr_completed_at = Some 20\<rparr>], pv_allocations = [\<lparr>al_id = ''00000000-0000-4000-8000-0000000000d1'', al_credential_id =
     ''00000000-0000-4000-8000-0000000000c1'', al_operation_id = ''00000000-0000-4000-8000-0000000000a1'', al_desired_operation_id =
     ''00000000-0000-4000-8000-0000000000a1'', al_node_id = ''00000000-0000-4000-8000-000000000001'', al_role = AlPrimary, al_protocol =
     ''vless_reality'', al_desired_revision = 1, al_desired_state = Present, al_allocation_revision = 1, al_state = AlActive,
     al_applied_config_revision = Some 2, al_last_error = None, al_created_at = 20, al_applied_at = Some 20, al_revoked_at = None,
     al_next_reconcile_at = 20, al_reconcile_lease_until = None, al_reconcile_claim_id = None, al_reconcile_attempts = 0\<rparr>, \<lparr>al_id =
     ''00000000-0000-4000-8000-0000000000d2'', al_credential_id = ''00000000-0000-4000-8000-0000000000c1'', al_operation_id =
     ''00000000-0000-4000-8000-0000000000a1'', al_desired_operation_id = ''00000000-0000-4000-8000-0000000000a1'', al_node_id =
     ''00000000-0000-4000-8000-000000000002'', al_role = AlFailover, al_protocol = ''vless_reality'', al_desired_revision = 1, al_desired_state =
     Present, al_allocation_revision = 1, al_state = AlActive, al_applied_config_revision = Some 2, al_last_error = None, al_created_at = 20,
     al_applied_at = Some 20, al_revoked_at = None, al_next_reconcile_at = 20, al_reconcile_lease_until = None, al_reconcile_claim_id = None,
     al_reconcile_attempts = 0\<rparr>], pv_outcomes = [(''00000000-0000-4000-8000-0000000000c1'', 1)], pv_outbox = [\<lparr>ob_event_id =
     ''00000000-0000-4000-8000-0000000000b1'', ob_topic = ''access.provision.succeeded.v1'', ob_partition_key =
     ''credential:00000000-0000-4000-8000-0000000000c1'', ob_aggregate_id = ''00000000-0000-4000-8000-0000000000c1'', ob_sequence = Some 1,
     ob_dedupe_key = PdProvisionSucceeded ''00000000-0000-4000-8000-0000000000a1'', ob_payload = \<lparr>pe_EventID =
     ''00000000-0000-4000-8000-0000000000b1'', pe_EventType = ''access.provision.succeeded.v1'', pe_OccurredAt = 21, pe_CorrelationID =
     ''00000000-0000-4000-8000-0000000000f1'', pe_CausationID = Some ''00000000-0000-4000-8000-0000000000e1'', pe_AggregateType = ''credential'',
     pe_AggregateID = ''00000000-0000-4000-8000-0000000000c1'', pe_AggregateSequence = 1, pe_PartitionKey =
     ''credential:00000000-0000-4000-8000-0000000000c1'', pe_Data = ProvisionSucceededData ''00000000-0000-4000-8000-0000000000a1''
     ''00000000-0000-4000-8000-0000000000c1'' 1 ''active'' [''00000000-0000-4000-8000-000000000001'', ''00000000-0000-4000-8000-000000000002'']
     [\<lparr>ep_NodeID = ''00000000-0000-4000-8000-000000000001'', ep_Role = AlPrimary, ep_Address = ''n1'', ep_Port = 443, ep_ServerName = ''s'',
     ep_RealityPublicKey = replicate 43 CHR ''A'', ep_ShortID = ''ab'', ep_SpiderX = ''/'', ep_Label = ''n1''\<rparr>, \<lparr>ep_NodeID =
     ''00000000-0000-4000-8000-000000000002'', ep_Role = AlFailover, ep_Address = ''n2'', ep_Port = 443, ep_ServerName = ''s'', ep_RealityPublicKey =
     replicate 43 CHR ''A'', ep_ShortID = ''ab'', ep_SpiderX = ''/'', ep_Label = ''n2''\<rparr>] 21\<rparr>, ob_state = ObPending, ob_attempts = 0,
     ob_next_attempt_at = 20, ob_lease_until = None, ob_created_at = 20, ob_published_at = None\<rparr>], pv_dead_letters = [], pv_health =
     [\<lparr>hr_node_id = ''00000000-0000-4000-8000-000000000001'', hr_observed_at = 10, hr_config_revision = 1, hr_active_clients = 0,
     hr_xray_healthy = True, hr_agent_version = ''v1'', hr_xray_version = ''x1''\<rparr>, \<lparr>hr_node_id =
     ''00000000-0000-4000-8000-000000000002'', hr_observed_at = 10, hr_config_revision = 1, hr_active_clients = 0, hr_xray_healthy = True,
     hr_agent_version = ''v1'', hr_xray_version = ''x1''\<rparr>]\<rparr>"
  by code_simp

lemma pw_accepted: "ProcessEvent 12 3 pw_meta (Some pw_command) pw_nodes_up = (Inr (), pw_commanded)"
  by code_simp

lemma pw_placed: "length (pv_nodes pw_provisioned) = 2 \<and> map al_state (pv_allocations pw_provisioned) = [AlActive, AlActive]
  \<and> map opr_state (pv_operations pw_provisioned) = [OpSucceeded] \<and> map ob_sequence (pv_outbox pw_provisioned) = [Some 1]"
  by code_simp

lemma pw_up_reachable: "prov_reachable pw_nodes_up"
  unfolding pw_nodes_up_def by (rule pr_step, rule pr_step, rule pr_step [OF pr_empty], rule ps_seed, rule ps_health, rule ps_health)

lemma pw_commanded_reachable: "prov_reachable pw_commanded"
proof -
  have "ProcessEvent 12 3 pw_meta (Some pw_command) = RecordCommand 12 pw_meta pw_command OpProvision 3"
  proof -
    have "event_kind (pm_EventType pw_meta) = Some OpProvision \<and> event_invariant pw_meta pw_command" by code_simp
    then show ?thesis by (simp add: ProcessEvent_def)
  qed
  then show ?thesis unfolding pw_commanded_def by (metis pr_step [OF pw_up_reachable] ps_command)
qed

lemma pw_provisioned_reachable: "prov_reachable pw_provisioned"
  unfolding pw_provisioned_def by (rule pr_steps [OF workOnce_steps [OF pw_commanded_reachable] pw_commanded_reachable])

lemma pw_first: "hd (pv_nodes pw_provisioned) \<in> set (pv_nodes pw_provisioned)" "hd (pv_operations pw_provisioned) \<in> set (pv_operations pw_provisioned)"
  using pw_placed by (cases "pv_nodes pw_provisioned"; cases "pv_operations pw_provisioned"; simp)+

theorem command_once_witness: "ProcessEvent 50 3 pw_meta (Some pw_command) pw_commanded = (Inr (), pw_commanded)"
  using command_once [OF pw_up_reachable pw_accepted rtranclp.rtrancl_refl, of 50 3] by blast

theorem capacity_respected_witness:
  "node_AllocatedClients (hd (pv_nodes pw_provisioned)) \<le> capacity_ceiling (hd (pv_nodes pw_provisioned))"
  using capacity_respected [OF pw_provisioned_reachable pw_first(1)] by blast

theorem generations_gapless_witness:
  "let ops = filter (\<lambda>o2. opr_credential_id o2 = opr_credential_id (hd (pv_operations pw_provisioned))) (pv_operations pw_provisioned) in
     map opr_command_sequence ops = [1..int (length ops)]"
  using generations_gapless [OF pw_provisioned_reachable pw_first(2)] by (simp add: Let_def)

theorem outcome_once_in_order_witness: "\<exists>!r. r \<in> set (pv_outbox pw_provisioned) \<and> reports r (hd (pv_operations pw_provisioned))"
proof -
  have "opr_state (hd (pv_operations pw_provisioned)) = OpSucceeded" using pw_placed by (cases "pv_operations pw_provisioned") auto
  with outcome_once_in_order [OF pw_provisioned_reachable pw_first(2)] show ?thesis by simp
qed

theorem rounds_are_steps_witness: "prov_step\<^sup>*\<^sup>* pw_commanded pw_provisioned"
  using rounds_are_steps [OF pw_commanded_reachable, of pw_config pw_env "()"] unfolding pw_provisioned_def by blast

end
