(* ===== verification/Access_Store.thy ===== *)
theory Access_Store
  imports Outbox
begin

text \<open>
  The access service's data (\<open>internal/domain/types.go\<close>) and its store,
  \<open>services/access/internal/postgres/store.go\<close>, one definition per function, over the tables of
  \<open>services/access/migrations\<close>: credentials with their operations, endpoint and assignment
  snapshots, subscription tokens, the inbox and its two sequence cursors, and the outbox.

  Columns with an enumerated CHECK are datatypes; violated keys and CHECKs are driver errors
  (\<open>AccInfra\<close>). Bytes are characters. \<open>now\<close> is the database clock, new identifiers are arguments.
  Advisory and row locks make transactions serial. A query with LIMIT 1 and no total order may
  return any of its rows; where that matters the choice is an argument (\<open>pick\<close>).
\<close>

section \<open>Data\<close>

datatype acc_error =
    AccErrNotFound | AccErrNotReady | AccErrAlreadyIssued | AccErrIdempotencyReplay | AccErrIdempotencyConflict
  | AccErrDurableStateConflict | AccErrLifecycleSequenceGap | AccErrOutcomeSequenceGap | AccErrRecoveryNotAllowed
  | AccContractError string | AccInfra

datatype cred_status = CsProvisioning | CsActive | CsDegraded | CsFailed | CsRevoking | CsRevoked

record AccMeta =
  am_EventID :: uuid
  am_EventType :: string
  am_AggregateID :: uuid
  am_AggregateSequence :: int
  am_PartitionKey :: string
  am_CorrelationID :: uuid
  am_CausationID :: "uuid option"
  am_OccurredAt :: instant
  am_SourceTopic :: string
  am_SourcePartition :: int
  am_SourceOffset :: int
  am_PayloadSHA256 :: string

record PeriodEvent =
  per_SubscriptionID :: uuid
  per_UserID :: uuid
  per_PeriodID :: uuid
  per_SourceOrderID :: uuid
  per_SourcePaymentID :: uuid
  per_PeriodStart :: instant
  per_PeriodEnd :: instant
  per_GraceEndsAt :: instant

record AccPaymentSucceeded =
  aps_PaymentID :: uuid
  aps_OrderID :: uuid
  aps_UserID :: uuid
  aps_PlanID :: uuid
  aps_AmountMinor :: int
  aps_Currency :: string
  aps_PaidAt :: instant

record TerminalEvent =
  te_SubscriptionID :: uuid
  te_UserID :: uuid
  te_Reason :: string
  te_AffectedPeriodIDs :: "uuid list"
  te_EffectiveAt :: instant

record GraceEvent =
  ge_SubscriptionID :: uuid
  ge_UserID :: uuid
  ge_PeriodEnd :: instant
  ge_GraceEndsAt :: instant
  ge_EffectiveAt :: instant

record EndpointSnapshot =
  es_NodeID :: uuid
  es_Role :: string
  es_Address :: string
  es_Port :: int
  es_ServerName :: string
  es_RealityPublicKey :: string
  es_ShortID :: string
  es_SpiderX :: string
  es_Label :: string

record ProvisionSucceeded =
  pvs_OperationID :: uuid
  pvs_CredentialID :: uuid
  pvs_AppliedRevision :: int
  pvs_Status :: string
  pvs_AssignedNodeIDs :: "uuid list"
  pvs_Endpoints :: "EndpointSnapshot list"
  pvs_AppliedAt :: instant

record OperationFailed =
  opf_OperationID :: uuid
  opf_CredentialID :: uuid
  opf_FailedRevision :: int
  opf_FailureScope :: string
  opf_Terminal :: bool
  opf_ReasonCode :: string
  opf_PendingNodeIDs :: "uuid list"
  opf_FailedAt :: instant

record RevokeSucceeded =
  rvs_OperationID :: uuid
  rvs_CredentialID :: uuid
  rvs_DesiredRevision :: int
  rvs_AllocationRevision :: int
  rvs_AllAssignedNodesRemoved :: bool
  rvs_NodeIDs :: "uuid list"
  rvs_RevokedAt :: instant

record CredentialSeed =
  cseed_CredentialID :: uuid
  cseed_OperationID :: uuid
  cseed_Ciphertext :: string
  cseed_KeyVersion :: int

record TokenSeed =
  tseed_TokenID :: uuid
  tseed_LookupHMAC :: string
  tseed_LookupHMACVersion :: int
  tseed_IdempotencyKey :: string
  tseed_RequestSHA256 :: string

record AccessStatus =
  acs_SubscriptionID :: uuid
  acs_CredentialID :: uuid
  acs_AccessStatus :: string
  acs_ProvisioningStatus :: cred_status
  acs_TokenStatus :: string

record AdminRecoveryInput =
  ari_CredentialID :: uuid
  ari_OperationID :: uuid
  ari_IdempotencyKey :: string
  ari_RequestSHA256 :: string
  ari_ActionID :: uuid
  ari_CorrelationID :: uuid

record AdminRecoveryResult =
  arr_CredentialID :: uuid
  arr_OperationID :: uuid
  arr_DesiredRevision :: int
  arr_Status :: cred_status
  arr_Replay :: bool

record ProfileRecord =
  pfr_CredentialID :: uuid
  pfr_Ciphertext :: string
  pfr_KeyVersion :: int
  pfr_EntitlementExpiresAt :: instant
  pfr_Endpoints :: "EndpointSnapshot list"

record ProvisioningRecord =
  pvr_CredentialID :: uuid
  pvr_SubscriptionID :: uuid
  pvr_Revision :: int
  pvr_Ciphertext :: string
  pvr_KeyVersion :: int

section \<open>Tables\<close>

record credential_row =
  cr_id :: uuid
  cr_subscription_id :: uuid
  cr_user_id :: uuid
  cr_status :: cred_status
  cr_version :: int
  cr_ciphertext :: string
  cr_key_version :: int
  cr_entitlement_expires_at :: instant
  cr_revoked_at :: "instant option"
  cr_created_at :: instant
  cr_updated_at :: instant
  cr_allocation_revision :: int
  cr_outbox_sequence :: int
  cr_revocation_reason :: "string option"
  cr_notification_sequence :: int

record endpoint_row = EndpointSnapshot +
  er_credential_id :: uuid
  er_allocation_revision :: int
  er_created_at :: instant

record assignment_row =
  asg_credential_id :: uuid
  asg_allocation_revision :: int
  asg_node_id :: uuid
  asg_created_at :: instant

datatype acc_kind = AccProvision | AccRevoke
datatype aop_status = AopPending | AopSucceeded | AopFailed

record acc_operation_row =
  aop_id :: uuid
  aop_credential_id :: uuid
  aop_kind :: acc_kind
  aop_desired_revision :: int
  aop_status :: aop_status
  aop_causation_event_id :: uuid
  aop_failure_code :: "string option"
  aop_created_at :: instant
  aop_completed_at :: "instant option"
  aop_allocation_revision :: "int option"

datatype token_status = TkActive | TkRotated | TkRevoked | TkExpired

record token_row =
  tk_id :: uuid
  tk_credential_id :: uuid
  tk_lookup_hmac :: string
  tk_hmac_key_version :: int
  tk_status :: token_status
  tk_expires_at :: instant
  tk_rotated_from :: "uuid option"
  tk_last_used_at :: "instant option"
  tk_revoked_at :: "instant option"
  tk_created_at :: instant

datatype url_operation = UrlIssue | UrlRotate

record url_idempotency_row =
  ui_idempotency_key :: string
  ui_subscription_id :: uuid
  ui_operation :: url_operation
  ui_request_sha256 :: string
  ui_token_id :: uuid
  ui_completed_at :: instant

record acc_inbox_row =
  aib_event_id :: uuid
  aib_event_type :: string
  aib_aggregate_id :: uuid
  aib_correlation_id :: uuid
  aib_source_topic :: string
  aib_source_partition :: int
  aib_source_offset :: int
  aib_payload_sha256 :: string
  aib_aggregate_sequence :: int

record lifecycle_row =
  lc_subscription_id :: uuid
  lc_user_id :: uuid
  lc_last_applied_sequence :: int

record acc_dead_letter =
  adl_topic :: string
  adl_partition :: int
  adl_offset :: int
  adl_sha256 :: string
  adl_reason :: string

record audit_row =
  aud_event_id :: uuid
  aud_actor_service :: string
  aud_credential_id :: uuid
  aud_occurred_at :: instant

record recovery_row =
  rq_idempotency_key :: string
  rq_request_sha256 :: string
  rq_action_id :: uuid
  rq_correlation_id :: uuid
  rq_credential_id :: uuid
  rq_operation_id :: uuid
  rq_desired_revision :: int
  rq_completed_at :: instant

datatype fulfillment_kind = FkActivation | FkExtension

record sli_row =
  sli_payment_id :: uuid
  sli_user_id :: uuid
  sli_paid_at :: "instant option"
  sli_payment_event_id :: "uuid option"
  sli_fulfillment :: "(uuid \<times> fulfillment_kind \<times> uuid \<times> instant) option"

text \<open>The data of an event, and the dedupe keys by their prefixes.\<close>

datatype acc_event_data =
    AccCommandData uuid uuid int
  | AccReadyData uuid uuid uuid string instant
  | AccProvisioningFailedData uuid uuid uuid int string instant
  | AccRevokedData uuid uuid uuid int string instant

datatype acc_dedupe = AdCommand string uuid | AdReady uuid | AdProvisioningFailed uuid | AdRevoked uuid

record acc_envelope =
  ae_EventID :: uuid
  ae_EventType :: string
  ae_OccurredAt :: instant
  ae_CorrelationID :: uuid
  ae_CausationID :: uuid
  ae_AggregateType :: string
  ae_AggregateID :: uuid
  ae_AggregateSequence :: int
  ae_PartitionKey :: string
  ae_Data :: acc_event_data

type_synonym acc_outbox_row = "(acc_dedupe, acc_envelope) outbox_row"

record acc_store =
  ac_credentials :: "credential_row list"
  ac_endpoints :: "endpoint_row list"
  ac_assignments :: "assignment_row list"
  ac_operations :: "acc_operation_row list"
  ac_tokens :: "token_row list"
  ac_url_idempotency :: "url_idempotency_row list"
  ac_inbox :: "acc_inbox_row list"
  ac_lifecycle :: "lifecycle_row list"
  ac_outcomes :: "(uuid \<times> int) list"
  ac_dead_letters :: "acc_dead_letter list"
  ac_audit :: "audit_row list"
  ac_recoveries :: "recovery_row list"
  ac_sli :: "sli_row list"
  ac_outbox :: "acc_outbox_row list"

type_synonym 'a acc_tx = "(acc_store, acc_error, 'a) tx"

definition empty_acc_store :: acc_store where
  "empty_acc_store = \<lparr>ac_credentials = [], ac_endpoints = [], ac_assignments = [], ac_operations = [], ac_tokens = [],
     ac_url_idempotency = [], ac_inbox = [], ac_lifecycle = [], ac_outcomes = [], ac_dead_letters = [], ac_audit = [],
     ac_recoveries = [], ac_sli = [], ac_outbox = []\<rparr>"

abbreviation set_tokens :: "(token_row \<Rightarrow> bool) \<Rightarrow> (token_row \<Rightarrow> token_row) \<Rightarrow> acc_store \<Rightarrow> acc_store" where
  "set_tokens p f st \<equiv> st\<lparr>ac_tokens := tbl_update p f (ac_tokens st)\<rparr>"

abbreviation set_aops :: "(acc_operation_row \<Rightarrow> bool) \<Rightarrow> (acc_operation_row \<Rightarrow> acc_operation_row) \<Rightarrow> acc_store \<Rightarrow> acc_store" where
  "set_aops p f st \<equiv> st\<lparr>ac_operations := tbl_update p f (ac_operations st)\<rparr>"

definition acc_sha :: "string \<Rightarrow> bool" where
  "acc_sha s \<longleftrightarrow> match_runs [(is_lower_hex, 64)] s"

definition revocation_reasons :: "string list" where
  "revocation_reasons = [''expired'', ''refund'', ''refund_gap'', ''admin_block'', ''abuse'', ''deleted'']"

definition cred_check :: "credential_row \<Rightarrow> bool" where
  "cred_check c \<longleftrightarrow> 0 < cr_version c \<and> cr_version c < 2 ^ 31 \<and> 29 \<le> length (cr_ciphertext c) \<and> 0 < cr_key_version c
     \<and> (cr_status c = CsRevoked \<longleftrightarrow> cr_revoked_at c \<noteq> None) \<and> 0 \<le> cr_allocation_revision c \<and> 0 \<le> cr_outbox_sequence c
     \<and> (case cr_revocation_reason c of None \<Rightarrow> True | Some r \<Rightarrow> r \<in> set revocation_reasons)
     \<and> ((cr_status c = CsRevoking \<or> cr_status c = CsRevoked) \<longleftrightarrow> cr_revocation_reason c \<noteq> None)
     \<and> 0 \<le> cr_notification_sequence c"

text \<open>An UPDATE of the credential with a given id.\<close>

definition update_credential :: "uuid \<Rightarrow> (credential_row \<Rightarrow> credential_row) \<Rightarrow> unit acc_tx" where
  "update_credential cid f =
     tx_bind (tx_get ac_credentials) (\<lambda>rows.
       if list_ex (\<lambda>c. cr_id c = cid \<and> \<not> cred_check (f c)) rows then tx_fail AccInfra
       else tx_modify (\<lambda>st. st\<lparr>ac_credentials := tbl_update (\<lambda>c. cr_id c = cid) f (ac_credentials st)\<rparr>))"

definition find_credential :: "uuid \<Rightarrow> acc_store \<Rightarrow> credential_row option" where
  "find_credential cid st = find (\<lambda>c. cr_id c = cid) (ac_credentials st)"

text \<open>\<open>WHERE subscription_id = $1 AND status <> 'revoked'\<close>; a partial unique index leaves at most one.\<close>

definition current_credential :: "uuid \<Rightarrow> acc_store \<Rightarrow> credential_row option" where
  "current_credential sid st = find (\<lambda>c. cr_subscription_id c = sid \<and> cr_status c \<noteq> CsRevoked) (ac_credentials st)"

section \<open>The inbox and its cursors\<close>

definition isLifecycleEvent :: "string \<Rightarrow> bool" where
  "isLifecycleEvent t \<longleftrightarrow> t = ''subscription.activated.v1'' \<or> t = ''subscription.extended.v1'' \<or> t = ''subscription.grace.started.v1''
     \<or> t = ''subscription.expired.v1'' \<or> t = ''subscription.revoked.v1''"

definition isOutcomeEvent :: "string \<Rightarrow> bool" where
  "isOutcomeEvent t \<longleftrightarrow> t \<in> set [''access.provision.succeeded.v1'', ''access.provision.failed.v1'',
     ''access.revoke.succeeded.v1'', ''access.revoke.failed.v1'']"

definition acc_inbox_check :: "acc_inbox_row \<Rightarrow> bool" where
  "acc_inbox_check r \<longleftrightarrow> (aib_event_type r = ''billing.payment.succeeded.v1'' \<or> isLifecycleEvent (aib_event_type r) \<or> isOutcomeEvent (aib_event_type r))
     \<and> aib_source_topic r = aib_event_type r \<and> 0 \<le> aib_source_partition r \<and> 0 \<le> aib_source_offset r \<and> acc_sha (aib_payload_sha256 r)
     \<and> 0 < aib_aggregate_sequence r \<and> aib_aggregate_sequence r < 2 ^ 63"

definition acc_new_inbox :: "AccMeta \<Rightarrow> acc_inbox_row" where
  "acc_new_inbox meta =
     \<lparr>aib_event_id = am_EventID meta, aib_event_type = am_EventType meta, aib_aggregate_id = am_AggregateID meta,
      aib_correlation_id = am_CorrelationID meta, aib_source_topic = am_SourceTopic meta, aib_source_partition = am_SourcePartition meta,
      aib_source_offset = am_SourceOffset meta, aib_payload_sha256 = am_PayloadSHA256 meta, aib_aggregate_sequence = am_AggregateSequence meta\<rparr>"

text \<open>The unique keys: the event id, the Kafka position, and one index per kind of sequence.\<close>

definition inbox_clash :: "acc_inbox_row \<Rightarrow> acc_inbox_row \<Rightarrow> bool" where
  "inbox_clash r q \<longleftrightarrow> aib_event_id q = aib_event_id r
     \<or> aib_source_topic q = aib_source_topic r \<and> aib_source_partition q = aib_source_partition r \<and> aib_source_offset q = aib_source_offset r
     \<or> aib_aggregate_id q = aib_aggregate_id r \<and> aib_aggregate_sequence q = aib_aggregate_sequence r
       \<and> (isLifecycleEvent (aib_event_type r) \<and> isLifecycleEvent (aib_event_type q) \<or> isOutcomeEvent (aib_event_type r) \<and> isOutcomeEvent (aib_event_type q))"

definition inbox_like :: "AccMeta \<Rightarrow> acc_inbox_row \<Rightarrow> bool" where
  "inbox_like meta q \<longleftrightarrow> aib_event_id q = am_EventID meta
     \<or> aib_source_topic q = am_SourceTopic meta \<and> aib_source_partition q = am_SourcePartition meta \<and> aib_source_offset q = am_SourceOffset meta
     \<or> aib_aggregate_id q = am_AggregateID meta \<and> aib_aggregate_sequence q = am_AggregateSequence meta
       \<and> has_prefix (aib_event_type q) ''subscription.'' = isLifecycleEvent (am_EventType meta)"

definition acc_insertInbox :: "nat \<Rightarrow> AccMeta \<Rightarrow> bool acc_tx" where
  "acc_insertInbox pick meta =
     tx_bind (tx_get ac_inbox) (\<lambda>rows.
       let r = acc_new_inbox meta; found = filter (inbox_like meta) rows in
       if \<not> acc_inbox_check r then tx_fail AccInfra
       else if \<not> list_ex (inbox_clash r) rows
       then tx_bind (tx_modify (\<lambda>st. st\<lparr>ac_inbox := ac_inbox st @ [r]\<rparr>)) (\<lambda>_. tx_return True)
       else if found = [] then tx_fail AccInfra
       else let q = found ! (pick mod length found) in
         if aib_event_id q \<noteq> am_EventID meta \<or> aib_event_type q \<noteq> am_EventType meta \<or> aib_payload_sha256 q \<noteq> am_PayloadSHA256 meta
         then tx_fail AccErrDurableStateConflict
         else tx_return False)"

definition find_lifecycle :: "uuid \<Rightarrow> acc_store \<Rightarrow> lifecycle_row option" where
  "find_lifecycle sid st = find (\<lambda>l. lc_subscription_id l = sid) (ac_lifecycle st)"

definition init_lifecycle :: "uuid \<Rightarrow> uuid \<Rightarrow> acc_store \<Rightarrow> acc_store" where
  "init_lifecycle sid uid st =
     (if find_lifecycle sid st \<noteq> None then st
      else st\<lparr>ac_lifecycle := ac_lifecycle st @ [\<lparr>lc_subscription_id = sid, lc_user_id = uid, lc_last_applied_sequence = 0\<rparr>]\<rparr>)"

definition prepareLifecycle :: "nat \<Rightarrow> AccMeta \<Rightarrow> uuid \<Rightarrow> uuid \<Rightarrow> bool acc_tx" where
  "prepareLifecycle pick meta sid uid =
     (if am_AggregateSequence meta < 1 then tx_fail AccErrDurableStateConflict
      else tx_bind (tx_modify (init_lifecycle sid uid)) (\<lambda>_.
           tx_bind (tx_get (find_lifecycle sid)) (\<lambda>row.
           case row of
             None \<Rightarrow> tx_fail AccInfra
           | Some l \<Rightarrow>
               if lc_user_id l \<noteq> uid then tx_fail AccErrDurableStateConflict
               else if am_AggregateSequence meta > int64 (lc_last_applied_sequence l + 1) then tx_fail AccErrLifecycleSequenceGap
               else tx_bind (acc_insertInbox pick meta) (\<lambda>inserted.
                 if \<not> inserted then tx_return False
                 else if am_AggregateSequence meta \<le> lc_last_applied_sequence l then tx_fail AccErrDurableStateConflict
                 else tx_bind (tx_modify (\<lambda>st. st\<lparr>ac_lifecycle := tbl_update (\<lambda>r. lc_subscription_id r = sid)
                        (\<lambda>r. r\<lparr>lc_last_applied_sequence := am_AggregateSequence meta\<rparr>) (ac_lifecycle st)\<rparr>)) (\<lambda>_. tx_return True)))))"

definition init_outcome :: "uuid \<Rightarrow> acc_store \<Rightarrow> acc_store" where
  "init_outcome cid st =
     (if find_credential cid st = None \<or> map_of (ac_outcomes st) cid \<noteq> None then st
      else st\<lparr>ac_outcomes := ac_outcomes st @ [(cid, 0)]\<rparr>)"

definition prepareOutcome :: "nat \<Rightarrow> AccMeta \<Rightarrow> uuid \<Rightarrow> bool acc_tx" where
  "prepareOutcome pick meta cid =
     (if am_AggregateSequence meta < 1 then tx_fail AccErrDurableStateConflict
      else tx_bind (tx_modify (init_outcome cid)) (\<lambda>_.
           tx_bind (tx_get (\<lambda>st. map_of (ac_outcomes st) cid)) (\<lambda>row.
           case row of
             None \<Rightarrow> tx_fail AccErrDurableStateConflict
           | Some lastApplied \<Rightarrow>
               if am_AggregateSequence meta > int64 (lastApplied + 1) then tx_fail AccErrOutcomeSequenceGap
               else tx_bind (acc_insertInbox pick meta) (\<lambda>inserted.
                 if \<not> inserted then tx_return False
                 else if am_AggregateSequence meta \<le> lastApplied then tx_fail AccErrDurableStateConflict
                 else tx_bind (tx_modify (\<lambda>st. st\<lparr>ac_outcomes := map (\<lambda>(c, k). if c = cid then (c, am_AggregateSequence meta) else (c, k))
                        (ac_outcomes st)\<rparr>)) (\<lambda>_. tx_return True)))))"

section \<open>Operations and events\<close>

definition new_acc_operation :: "uuid \<Rightarrow> uuid \<Rightarrow> acc_kind \<Rightarrow> int \<Rightarrow> int option \<Rightarrow> uuid \<Rightarrow> instant \<Rightarrow> acc_operation_row" where
  "new_acc_operation oid cid kind rv arev causation now =
     \<lparr>aop_id = oid, aop_credential_id = cid, aop_kind = kind, aop_desired_revision = rv, aop_status = AopPending,
      aop_causation_event_id = causation, aop_failure_code = None, aop_created_at = now, aop_completed_at = None, aop_allocation_revision = arev\<rparr>"

definition aop_check :: "acc_operation_row \<Rightarrow> bool" where
  "aop_check o1 \<longleftrightarrow> 0 < aop_desired_revision o1 \<and> aop_desired_revision o1 < 2 ^ 31
     \<and> (aop_kind o1 = AccProvision \<longleftrightarrow> aop_allocation_revision o1 = None)
     \<and> (case aop_allocation_revision o1 of None \<Rightarrow> True | Some a \<Rightarrow> 0 \<le> a)
     \<and> (case aop_failure_code o1 of None \<Rightarrow> True | Some f \<Rightarrow> 1 \<le> pg_length f \<and> pg_length f \<le> 64)"

definition aop_clash :: "acc_operation_row \<Rightarrow> acc_operation_row \<Rightarrow> bool" where
  "aop_clash o1 q \<longleftrightarrow> aop_id q = aop_id o1
     \<or> aop_credential_id q = aop_credential_id o1 \<and> aop_kind q = aop_kind o1 \<and> aop_desired_revision q = aop_desired_revision o1
     \<or> aop_causation_event_id q = aop_causation_event_id o1 \<and> aop_kind q = aop_kind o1"

definition acc_insertOperation :: "uuid \<Rightarrow> uuid \<Rightarrow> acc_kind \<Rightarrow> int \<Rightarrow> int option \<Rightarrow> uuid \<Rightarrow> instant \<Rightarrow> unit acc_tx" where
  "acc_insertOperation oid cid kind rv arev causation now =
     (let o1 = new_acc_operation oid cid kind rv arev causation now in
      tx_bind (tx_get (\<lambda>st. \<not> aop_check o1 \<or> list_ex (aop_clash o1) (ac_operations st) \<or> find_credential cid st = None)) (\<lambda>bad.
        if bad then tx_fail AccInfra else tx_modify (\<lambda>st. st\<lparr>ac_operations := ac_operations st @ [o1]\<rparr>)))"

definition acc_new_row :: "uuid \<Rightarrow> AccMeta \<Rightarrow> instant \<Rightarrow> instant \<Rightarrow> string \<Rightarrow> string \<Rightarrow> uuid \<Rightarrow> acc_dedupe \<Rightarrow> string \<Rightarrow> acc_event_data \<Rightarrow>
    int \<Rightarrow> int \<Rightarrow> acc_outbox_row" where
  "acc_new_row eid meta now occurredAt topic partitionKey aggregateID dedupe aggregateType data sq eventSequence =
     \<lparr>ob_event_id = eid, ob_topic = topic, ob_partition_key = partitionKey, ob_aggregate_id = aggregateID, ob_sequence = Some sq,
      ob_dedupe_key = dedupe,
      ob_payload = \<lparr>ae_EventID = eid, ae_EventType = topic, ae_OccurredAt = occurredAt, ae_CorrelationID = am_CorrelationID meta,
        ae_CausationID = am_EventID meta, ae_AggregateType = aggregateType, ae_AggregateID = aggregateID,
        ae_AggregateSequence = eventSequence, ae_PartitionKey = partitionKey, ae_Data = data\<rparr>,
      ob_state = ObPending, ob_attempts = 0, ob_next_attempt_at = now, ob_lease_until = None, ob_created_at = occurredAt,
      ob_published_at = None\<rparr>"

text \<open>The clock of the column default is \<open>now\<close>; the envelope's sequence is always given by the caller.\<close>

definition acc_insertOutbox :: "uuid \<Rightarrow> AccMeta \<Rightarrow> instant \<Rightarrow> instant \<Rightarrow> string \<Rightarrow> string \<Rightarrow> uuid \<Rightarrow> acc_dedupe \<Rightarrow> string \<Rightarrow>
    acc_event_data \<Rightarrow> int \<Rightarrow> unit acc_tx" where
  "acc_insertOutbox eid meta now occurredAt topic partitionKey aggregateID dedupe aggregateType data eventSequence =
     tx_bind (update_credential aggregateID (\<lambda>c. c\<lparr>cr_outbox_sequence := cr_outbox_sequence c + 1\<rparr>)) (\<lambda>_.
     tx_bind (tx_get (find_credential aggregateID)) (\<lambda>found.
       case found of
         None \<Rightarrow> tx_fail AccInfra
       | Some c \<Rightarrow>
           tx_bind (tx_get ac_outbox) (\<lambda>rows.
             if pg_length partitionKey > 128
               \<or> list_ex (\<lambda>r. ob_event_id r = eid \<or> ob_dedupe_key r = dedupe
                    \<or> ob_aggregate_id r = aggregateID \<and> ob_sequence r = Some (cr_outbox_sequence c)) rows
             then tx_fail AccInfra
             else tx_modify (\<lambda>st. st\<lparr>ac_outbox := ac_outbox st
               @ [acc_new_row eid meta now occurredAt topic partitionKey aggregateID dedupe aggregateType data (cr_outbox_sequence c) eventSequence]\<rparr>))))"

definition insertOperationOutbox :: "uuid \<Rightarrow> AccMeta \<Rightarrow> instant \<Rightarrow> string \<Rightarrow> uuid \<Rightarrow> uuid \<Rightarrow> int \<Rightarrow> unit acc_tx" where
  "insertOperationOutbox eid meta now topic oid cid rv =
     acc_insertOutbox eid meta now now topic (''credential:'' @ cid) cid (AdCommand topic oid) ''credential'' (AccCommandData oid cid rv) rv"

definition insertNotificationOutbox :: "uuid \<Rightarrow> AccMeta \<Rightarrow> instant \<Rightarrow> instant \<Rightarrow> string \<Rightarrow> uuid \<Rightarrow> uuid \<Rightarrow> acc_dedupe \<Rightarrow> acc_event_data \<Rightarrow> unit acc_tx" where
  "insertNotificationOutbox eid meta now occurredAt topic uid cid dedupe data =
     tx_bind (update_credential cid (\<lambda>c. c\<lparr>cr_notification_sequence := cr_notification_sequence c + 1\<rparr>)) (\<lambda>_.
     tx_bind (tx_get (find_credential cid)) (\<lambda>found.
       case found of
         None \<Rightarrow> tx_fail AccInfra
       | Some c \<Rightarrow> acc_insertOutbox eid meta now occurredAt topic (''user:'' @ uid) cid dedupe ''access'' data (cr_notification_sequence c)))"

section \<open>Payments\<close>

definition ApplyPaymentSucceeded :: "nat \<Rightarrow> AccMeta \<Rightarrow> AccPaymentSucceeded \<Rightarrow> unit acc_tx" where
  "ApplyPaymentSucceeded pick meta event =
     tx_bind (acc_insertInbox pick meta) (\<lambda>inserted.
     if \<not> inserted then tx_return ()
     else tx_bind (tx_get ac_sli) (\<lambda>rows.
       let taken = list_ex (\<lambda>r. sli_payment_event_id r = Some (am_EventID meta) \<and> sli_payment_id r \<noteq> aps_PaymentID event) rows in
       case find (\<lambda>r. sli_payment_id r = aps_PaymentID event) rows of
         None \<Rightarrow>
           if taken then tx_fail AccInfra
           else tx_modify (\<lambda>st. st\<lparr>ac_sli := ac_sli st @ [\<lparr>sli_payment_id = aps_PaymentID event, sli_user_id = aps_UserID event,
                  sli_paid_at = Some (aps_PaidAt event), sli_payment_event_id = Some (am_EventID meta), sli_fulfillment = None\<rparr>]\<rparr>)
       | Some r \<Rightarrow>
           if \<not> (sli_user_id r = aps_UserID event \<and> (sli_paid_at r = None \<or> sli_paid_at r = Some (aps_PaidAt event)) \<and> sli_payment_event_id r = None)
           then tx_fail AccErrDurableStateConflict
           else if taken then tx_fail AccInfra
           else tx_modify (\<lambda>st. st\<lparr>ac_sli := tbl_update (\<lambda>q. sli_payment_id q = aps_PaymentID event)
                  (\<lambda>q. q\<lparr>sli_paid_at := Some (aps_PaidAt event), sli_payment_event_id := Some (am_EventID meta)\<rparr>) (ac_sli st)\<rparr>)))"

definition completePaymentAccessSLI :: "instant \<Rightarrow> AccMeta \<Rightarrow> PeriodEvent \<Rightarrow> fulfillment_kind \<Rightarrow> unit acc_tx" where
  "completePaymentAccessSLI now meta event kind =
     (if am_EventType meta \<noteq> ''subscription.activated.v1'' \<and> am_EventType meta \<noteq> ''subscription.extended.v1''
      then tx_fail AccErrDurableStateConflict
      else tx_bind (tx_get ac_sli) (\<lambda>rows.
        let fulfilled = Some (per_SubscriptionID event, kind, am_EventID meta, now);
            taken = list_ex (\<lambda>r. sli_payment_id r \<noteq> per_SourcePaymentID event
             \<and> (case sli_fulfillment r of None \<Rightarrow> False | Some (_, _, e, _) \<Rightarrow> e = am_EventID meta)) rows in
        case find (\<lambda>r. sli_payment_id r = per_SourcePaymentID event) rows of
          None \<Rightarrow>
            if taken then tx_fail AccInfra
            else tx_modify (\<lambda>st. st\<lparr>ac_sli := ac_sli st @ [\<lparr>sli_payment_id = per_SourcePaymentID event, sli_user_id = per_UserID event,
                   sli_paid_at = None, sli_payment_event_id = None, sli_fulfillment = fulfilled\<rparr>]\<rparr>)
        | Some r \<Rightarrow>
            if \<not> (sli_user_id r = per_UserID event \<and> sli_fulfillment r = None) then tx_fail AccErrDurableStateConflict
            else if taken then tx_fail AccInfra
            else tx_modify (\<lambda>st. st\<lparr>ac_sli := tbl_update (\<lambda>q. sli_payment_id q = per_SourcePaymentID event)
                   (\<lambda>q. q\<lparr>sli_fulfillment := fulfilled\<rparr>) (ac_sli st)\<rparr>)))"

section \<open>The subscription's lifecycle\<close>

definition new_credential_row :: "CredentialSeed \<Rightarrow> PeriodEvent \<Rightarrow> instant \<Rightarrow> credential_row" where
  "new_credential_row seed event now =
     \<lparr>cr_id = cseed_CredentialID seed, cr_subscription_id = per_SubscriptionID event, cr_user_id = per_UserID event,
      cr_status = CsProvisioning, cr_version = 1, cr_ciphertext = cseed_Ciphertext seed, cr_key_version = cseed_KeyVersion seed,
      cr_entitlement_expires_at = per_GraceEndsAt event, cr_revoked_at = None, cr_created_at = now, cr_updated_at = now,
      cr_allocation_revision = 0, cr_outbox_sequence = 0, cr_revocation_reason = None, cr_notification_sequence = 0\<rparr>"

definition insert_credential :: "credential_row \<Rightarrow> unit acc_tx" where
  "insert_credential c =
     tx_bind (tx_get ac_credentials) (\<lambda>rows.
       if \<not> cred_check c
         \<or> list_ex (\<lambda>q. cr_id q = cr_id c \<or> cr_subscription_id q = cr_subscription_id c \<and> cr_status q \<noteq> CsRevoked) rows
       then tx_fail AccInfra
       else tx_modify (\<lambda>st. st\<lparr>ac_credentials := ac_credentials st @ [c]\<rparr>))"

definition clear_endpoints :: "uuid \<Rightarrow> acc_store \<Rightarrow> acc_store" where
  "clear_endpoints cid st = st\<lparr>ac_endpoints := filter (\<lambda>e. er_credential_id e \<noteq> cid) (ac_endpoints st)\<rparr>"

definition start_provisioning :: "uuid \<Rightarrow> AccMeta \<Rightarrow> instant \<Rightarrow> uuid \<Rightarrow> uuid \<Rightarrow> int \<Rightarrow> unit acc_tx" where
  "start_provisioning eid meta now oid cid rv =
     tx_bind (acc_insertOperation oid cid AccProvision rv None (am_EventID meta) now) (\<lambda>_.
     insertOperationOutbox eid meta now ''access.provision.request.v1'' oid cid rv)"

definition ApplyPeriod :: "nat \<Rightarrow> uuid \<Rightarrow> instant \<Rightarrow> AccMeta \<Rightarrow> PeriodEvent \<Rightarrow> CredentialSeed \<Rightarrow> unit acc_tx" where
  "ApplyPeriod pick eid now meta event seed =
     tx_bind (prepareLifecycle pick meta (per_SubscriptionID event) (per_UserID event)) (\<lambda>apply.
     if \<not> apply then tx_return ()
     else if \<not> per_GraceEndsAt event > now then tx_return ()
     else tx_bind (tx_get (current_credential (per_SubscriptionID event))) (\<lambda>found.
       case found of
         None \<Rightarrow>
           tx_bind (insert_credential (new_credential_row seed event now)) (\<lambda>_.
           tx_bind (start_provisioning eid meta now (cseed_OperationID seed) (cseed_CredentialID seed) 1) (\<lambda>_.
           completePaymentAccessSLI now meta event FkActivation))
       | Some c \<Rightarrow>
           if cr_user_id c \<noteq> per_UserID event then tx_fail AccErrDurableStateConflict
           else
             tx_bind (if cr_status c = CsRevoking \<or> cr_status c = CsFailed
               then
                 tx_bind (update_credential (cr_id c) (\<lambda>r. r\<lparr>cr_status := CsProvisioning, cr_version := cr_version c + 1,
                     cr_allocation_revision := 0, cr_entitlement_expires_at := max (cr_entitlement_expires_at r) (per_GraceEndsAt event),
                     cr_revoked_at := None, cr_revocation_reason := None, cr_updated_at := now\<rparr>)) (\<lambda>_.
                 tx_bind (tx_modify (clear_endpoints (cr_id c))) (\<lambda>_.
                 start_provisioning eid meta now (cseed_OperationID seed) (cr_id c) (cr_version c + 1)))
               else
                 tx_bind (update_credential (cr_id c) (\<lambda>r. r\<lparr>cr_entitlement_expires_at :=
                     max (cr_entitlement_expires_at r) (per_GraceEndsAt event), cr_updated_at := now\<rparr>)) (\<lambda>_.
                 tx_modify (set_tokens (\<lambda>t. tk_credential_id t = cr_id c \<and> tk_status t = TkActive)
                   (\<lambda>t. t\<lparr>tk_expires_at := max (tk_expires_at t) (per_GraceEndsAt event)\<rparr>)))) (\<lambda>_.
             completePaymentAccessSLI now meta event FkExtension)))"

definition ApplyGrace :: "nat \<Rightarrow> AccMeta \<Rightarrow> GraceEvent \<Rightarrow> unit acc_tx" where
  "ApplyGrace pick meta event =
     tx_bind (prepareLifecycle pick meta (ge_SubscriptionID event) (ge_UserID event)) (\<lambda>_. tx_return ())"

definition end_tokens :: "token_status \<Rightarrow> uuid \<Rightarrow> instant \<Rightarrow> acc_store \<Rightarrow> acc_store" where
  "end_tokens s cid now = set_tokens (\<lambda>t. tk_credential_id t = cid \<and> tk_status t = TkActive) (\<lambda>t. t\<lparr>tk_status := s, tk_revoked_at := Some now\<rparr>)"

definition start_revoke :: "uuid \<Rightarrow> AccMeta \<Rightarrow> instant \<Rightarrow> uuid \<Rightarrow> uuid \<Rightarrow> int \<Rightarrow> int \<Rightarrow> unit acc_tx" where
  "start_revoke eid meta now oid cid rv arev =
     tx_bind (acc_insertOperation oid cid AccRevoke rv (Some arev) (am_EventID meta) now) (\<lambda>_.
     insertOperationOutbox eid meta now ''access.revoke.request.v1'' oid cid rv)"

definition ApplyTerminal :: "nat \<Rightarrow> uuid \<Rightarrow> instant \<Rightarrow> AccMeta \<Rightarrow> TerminalEvent \<Rightarrow> uuid \<Rightarrow> unit acc_tx" where
  "ApplyTerminal pick eid now meta event oid =
     tx_bind (prepareLifecycle pick meta (te_SubscriptionID event) (te_UserID event)) (\<lambda>apply.
     if \<not> apply then tx_return ()
     else tx_bind (tx_get (current_credential (te_SubscriptionID event))) (\<lambda>found.
       case found of
         None \<Rightarrow> tx_return ()
       | Some c \<Rightarrow>
           if am_EventType meta = ''subscription.expired.v1'' \<and> te_EffectiveAt event < cr_entitlement_expires_at c then tx_return ()
           else if cr_status c = CsRevoking then tx_return ()
           else
             tx_bind (update_credential (cr_id c) (\<lambda>r. r\<lparr>cr_status := CsRevoking, cr_version := cr_version c + 1,
                 cr_revocation_reason := Some (te_Reason event), cr_updated_at := now\<rparr>)) (\<lambda>_.
             tx_bind (tx_modify (end_tokens TkRevoked (cr_id c) now)) (\<lambda>_.
             start_revoke eid meta now oid (cr_id c) (cr_version c + 1) (cr_allocation_revision c)))))"

section \<open>Outcomes of provisioning\<close>

definition acc_find_operation :: "uuid \<Rightarrow> uuid \<Rightarrow> acc_kind \<Rightarrow> int \<Rightarrow> acc_store \<Rightarrow> (credential_row \<times> acc_operation_row) option" where
  "acc_find_operation cid oid kind rv st =
     (case find_credential cid st of
        None \<Rightarrow> None
      | Some c \<Rightarrow> map_option (Pair c) (find (\<lambda>o1. aop_credential_id o1 = cid \<and> aop_id o1 = oid \<and> aop_kind o1 = kind \<and> aop_desired_revision o1 = rv)
          (ac_operations st)))"

definition finish_operation :: "uuid \<Rightarrow> instant \<Rightarrow> acc_store \<Rightarrow> acc_store" where
  "finish_operation oid now = set_aops (\<lambda>o1. aop_id o1 = oid) (\<lambda>o1. o1\<lparr>aop_status := AopSucceeded, aop_completed_at := Some now\<rparr>)"

definition endpoint_char :: "char \<Rightarrow> bool" where
  "endpoint_char c \<longleftrightarrow> char_between CHR ''A'' CHR ''Z'' c \<or> char_between CHR ''a'' CHR ''z'' c \<or> char_between CHR ''0'' CHR ''9'' c
     \<or> c = CHR ''_'' \<or> c = CHR ''-''"

definition endpoint_check :: "endpoint_row \<Rightarrow> bool" where
  "endpoint_check e \<longleftrightarrow> (es_Role e = ''primary'' \<or> es_Role e = ''failover'') \<and> 1 \<le> pg_length (es_Address e) \<and> pg_length (es_Address e) \<le> 255
     \<and> 1 \<le> es_Port e \<and> es_Port e \<le> 65535 \<and> 1 \<le> pg_length (es_ServerName e) \<and> pg_length (es_ServerName e) \<le> 255
     \<and> match_runs [(endpoint_char, 43)] (es_RealityPublicKey e)
     \<and> length (es_ShortID e) \<le> 16 \<and> even (length (es_ShortID e)) \<and> list_all is_hex (es_ShortID e)
     \<and> pg_length (es_SpiderX e) \<le> 255 \<and> 1 \<le> pg_length (es_Label e) \<and> pg_length (es_Label e) \<le> 64
     \<and> 0 < er_allocation_revision e"

definition new_endpoint :: "uuid \<Rightarrow> int \<Rightarrow> instant \<Rightarrow> EndpointSnapshot \<Rightarrow> endpoint_row" where
  "new_endpoint cid rv now e = EndpointSnapshot.extend e (endpoint_row.fields cid rv now)"

fun insert_assignments :: "uuid \<Rightarrow> int \<Rightarrow> instant \<Rightarrow> uuid list \<Rightarrow> unit acc_tx" where
  "insert_assignments cid rv now [] = tx_return ()"
| "insert_assignments cid rv now (n # ns) =
     tx_bind (tx_get (\<lambda>st. list_ex (\<lambda>a. asg_credential_id a = cid \<and> asg_allocation_revision a = rv \<and> asg_node_id a = n) (ac_assignments st))) (\<lambda>taken.
     if taken \<or> rv \<le> 0 then tx_fail AccInfra
     else tx_bind (tx_modify (\<lambda>st. st\<lparr>ac_assignments := ac_assignments st @ [\<lparr>asg_credential_id = cid, asg_allocation_revision = rv,
            asg_node_id = n, asg_created_at = now\<rparr>]\<rparr>)) (\<lambda>_. insert_assignments cid rv now ns))"

fun insert_endpoints :: "uuid \<Rightarrow> int \<Rightarrow> instant \<Rightarrow> EndpointSnapshot list \<Rightarrow> unit acc_tx" where
  "insert_endpoints cid rv now [] = tx_return ()"
| "insert_endpoints cid rv now (e # es) =
     tx_bind (tx_get (\<lambda>st. list_ex (\<lambda>r. er_credential_id r = cid \<and> (es_NodeID r = es_NodeID e \<or> es_Role r = es_Role e)) (ac_endpoints st))) (\<lambda>taken.
     if taken \<or> \<not> endpoint_check (new_endpoint cid rv now e) then tx_fail AccInfra
     else tx_bind (tx_modify (\<lambda>st. st\<lparr>ac_endpoints := ac_endpoints st @ [new_endpoint cid rv now e]\<rparr>)) (\<lambda>_. insert_endpoints cid rv now es))"

definition replaceProvisionSnapshots :: "ProvisionSucceeded \<Rightarrow> instant \<Rightarrow> unit acc_tx" where
  "replaceProvisionSnapshots event now =
     (let cid = pvs_CredentialID event; rv = pvs_AppliedRevision event in
      tx_bind (tx_modify (\<lambda>st. st\<lparr>ac_assignments := filter (\<lambda>a. \<not> (asg_credential_id a = cid \<and> asg_allocation_revision a = rv)) (ac_assignments st)\<rparr>)) (\<lambda>_.
      tx_bind (insert_assignments cid rv now (pvs_AssignedNodeIDs event)) (\<lambda>_.
      tx_bind (tx_modify (clear_endpoints cid)) (\<lambda>_.
      insert_endpoints cid rv now (pvs_Endpoints event)))))"

text \<open>The status column takes the status of the event, \<open>active\<close> or \<open>degraded\<close> after validation.\<close>

definition ready_status :: "string \<Rightarrow> cred_status option" where
  "ready_status s = (if s = ''active'' then Some CsActive else if s = ''degraded'' then Some CsDegraded else None)"

definition capture_late :: "ProvisionSucceeded \<Rightarrow> instant \<Rightarrow> credential_row \<Rightarrow> unit acc_tx" where
  "capture_late event now c =
     tx_bind (replaceProvisionSnapshots event now) (\<lambda>_.
     tx_bind (tx_modify (finish_operation (pvs_OperationID event) now)) (\<lambda>_.
     tx_bind (update_credential (pvs_CredentialID event) (\<lambda>r. if cr_status r = CsRevoking
        then r\<lparr>cr_allocation_revision := pvs_AppliedRevision event, cr_updated_at := now\<rparr> else r)) (\<lambda>_.
     tx_bind (tx_get (\<lambda>st. length (filter (\<lambda>o1. aop_credential_id o1 = pvs_CredentialID event \<and> aop_kind o1 = AccRevoke
        \<and> aop_desired_revision o1 = cr_version c \<and> aop_status o1 = AopPending) (ac_operations st)))) (\<lambda>n.
     tx_bind (tx_modify (set_aops (\<lambda>o1. aop_credential_id o1 = pvs_CredentialID event \<and> aop_kind o1 = AccRevoke
        \<and> aop_desired_revision o1 = cr_version c \<and> aop_status o1 = AopPending)
        (\<lambda>o1. o1\<lparr>aop_allocation_revision := Some (pvs_AppliedRevision event)\<rparr>))) (\<lambda>_.
     if n \<noteq> 1 then tx_fail AccErrDurableStateConflict else tx_return ())))))"

definition ApplyProvisionSucceeded :: "nat \<Rightarrow> uuid \<Rightarrow> uuid \<Rightarrow> instant \<Rightarrow> AccMeta \<Rightarrow> ProvisionSucceeded \<Rightarrow> unit acc_tx" where
  "ApplyProvisionSucceeded pick eid revokeOperationID now meta event =
     (let cid = pvs_CredentialID event; oid = pvs_OperationID event; rv = pvs_AppliedRevision event in
      tx_bind (prepareOutcome pick meta cid) (\<lambda>apply.
      if \<not> apply then tx_return ()
      else tx_bind (tx_get (acc_find_operation cid oid AccProvision rv)) (\<lambda>found.
        case found of
          None \<Rightarrow> tx_fail AccErrDurableStateConflict
        | Some (c, o1) \<Rightarrow>
            if aop_status o1 \<noteq> AopPending then tx_return ()
            else if cr_status c = CsRevoked then tx_return ()
            else if cr_status c = CsRevoking then
              (if cr_version c \<le> rv then tx_return ()
               else if rv \<le> cr_allocation_revision c then tx_modify (finish_operation oid now)
               else capture_late event now c)
            else if cr_version c \<noteq> rv then tx_return ()
            else
              tx_bind (replaceProvisionSnapshots event now) (\<lambda>_.
              tx_bind (tx_modify (finish_operation oid now)) (\<lambda>_.
              if \<not> cr_entitlement_expires_at c > now then
                tx_bind (update_credential cid (\<lambda>r. r\<lparr>cr_status := CsRevoking, cr_version := rv + 1, cr_allocation_revision := rv,
                    cr_revocation_reason := Some ''expired'', cr_updated_at := now\<rparr>)) (\<lambda>_.
                tx_bind (tx_modify (end_tokens TkExpired cid now)) (\<lambda>_.
                start_revoke eid meta now revokeOperationID cid (rv + 1) rv))
              else
                case ready_status (pvs_Status event) of
                  None \<Rightarrow> tx_fail AccInfra
                | Some s \<Rightarrow>
                    tx_bind (update_credential cid (\<lambda>r. r\<lparr>cr_status := s, cr_allocation_revision := rv, cr_updated_at := now\<rparr>)) (\<lambda>_.
                    insertNotificationOutbox eid meta now now ''access.ready.v1'' (cr_user_id c) cid (AdReady oid)
                      (AccReadyData (cr_subscription_id c) cid (cr_user_id c) (pvs_Status event) now)))))))"

definition ApplyOperationFailed :: "nat \<Rightarrow> uuid \<Rightarrow> instant \<Rightarrow> AccMeta \<Rightarrow> OperationFailed \<Rightarrow> acc_kind \<Rightarrow> unit acc_tx" where
  "ApplyOperationFailed pick eid now meta event kind =
     (let cid = opf_CredentialID event; oid = opf_OperationID event in
      tx_bind (prepareOutcome pick meta cid) (\<lambda>apply.
      if \<not> apply then tx_return ()
      else tx_bind (tx_get (acc_find_operation cid oid kind (opf_FailedRevision event))) (\<lambda>found.
        case found of
          None \<Rightarrow> tx_fail AccErrDurableStateConflict
        | Some (c, o1) \<Rightarrow>
            if cr_version c \<noteq> opf_FailedRevision event \<or> aop_status o1 \<noteq> AopPending then tx_return ()
            else if \<not> opf_Terminal event then tx_return ()
            else if \<not> (1 \<le> pg_length (opf_ReasonCode event) \<and> pg_length (opf_ReasonCode event) \<le> 64) then tx_fail AccInfra
            else
              tx_bind (tx_modify (set_aops (\<lambda>o1. aop_id o1 = oid) (\<lambda>o1. o1\<lparr>aop_status := AopFailed,
                  aop_failure_code := Some (opf_ReasonCode event), aop_completed_at := Some (opf_FailedAt event)\<rparr>))) (\<lambda>_.
              if kind \<noteq> AccProvision then tx_return ()
              else
                tx_bind (update_credential cid (\<lambda>r. r\<lparr>cr_status := CsFailed, cr_updated_at := opf_FailedAt event\<rparr>)) (\<lambda>_.
                insertNotificationOutbox eid meta now (opf_FailedAt event) ''access.provisioning.failed.v1'' (cr_user_id c) cid (AdProvisioningFailed oid)
                  (AccProvisioningFailedData (cr_subscription_id c) cid (cr_user_id c) (opf_FailedRevision event) (opf_ReasonCode event)
                     (opf_FailedAt event)))))))"

definition listAssignedNodeIDs :: "uuid \<Rightarrow> int \<Rightarrow> acc_store \<Rightarrow> uuid list" where
  "listAssignedNodeIDs cid rv st =
     sort (map asg_node_id (filter (\<lambda>a. asg_credential_id a = cid \<and> asg_allocation_revision a = rv) (ac_assignments st)))"

definition sameNodeSet :: "uuid list \<Rightarrow> uuid list \<Rightarrow> bool" where
  "sameNodeSet expected actual \<longleftrightarrow> length expected = length actual \<and> distinct actual \<and> list_all (\<lambda>n. n \<in> set actual) expected"

text \<open>\<open>revocation_reason\<close> is scanned into a string, so a NULL is an error of the query.\<close>

definition ApplyRevokeSucceeded :: "nat \<Rightarrow> uuid \<Rightarrow> instant \<Rightarrow> AccMeta \<Rightarrow> RevokeSucceeded \<Rightarrow> unit acc_tx" where
  "ApplyRevokeSucceeded pick eid now meta event =
     (let cid = rvs_CredentialID event; oid = rvs_OperationID event in
      tx_bind (prepareOutcome pick meta cid) (\<lambda>apply.
      if \<not> apply then tx_return ()
      else tx_bind (tx_get (acc_find_operation cid oid AccRevoke (rvs_DesiredRevision event))) (\<lambda>found.
        case found of
          None \<Rightarrow> tx_fail AccErrDurableStateConflict
        | Some (c, o1) \<Rightarrow>
            (case cr_revocation_reason c of
               None \<Rightarrow> tx_fail AccInfra
             | Some reason \<Rightarrow>
                 if cr_version c \<noteq> rvs_DesiredRevision event \<or> aop_status o1 \<noteq> AopPending then tx_return ()
                 else if cr_allocation_revision c \<noteq> rvs_AllocationRevision event \<or> aop_allocation_revision o1 \<noteq> Some (rvs_AllocationRevision event)
                 then tx_fail AccErrDurableStateConflict
                 else tx_bind (tx_get (listAssignedNodeIDs cid (rvs_AllocationRevision event))) (\<lambda>assigned.
                   if \<not> sameNodeSet assigned (rvs_NodeIDs event) then tx_fail AccErrDurableStateConflict
                   else
                     tx_bind (update_credential cid (\<lambda>r. r\<lparr>cr_status := CsRevoked, cr_revoked_at := Some now, cr_updated_at := now\<rparr>)) (\<lambda>_.
                     tx_bind (tx_modify (finish_operation oid now)) (\<lambda>_.
                     insertNotificationOutbox eid meta now now ''access.revoked.v1'' (cr_user_id c) cid (AdRevoked oid)
                       (AccRevokedData (cr_subscription_id c) cid (cr_user_id c) (rvs_DesiredRevision event) reason now))))))))"

section \<open>Subscription URLs\<close>

definition insert_token :: "token_row \<Rightarrow> unit acc_tx" where
  "insert_token t =
     tx_bind (tx_get ac_tokens) (\<lambda>rows.
       if length (tk_lookup_hmac t) \<noteq> 32 \<or> tk_hmac_key_version t \<le> 0
         \<or> list_ex (\<lambda>q. tk_id q = tk_id t \<or> tk_lookup_hmac q = tk_lookup_hmac t
              \<or> tk_credential_id q = tk_credential_id t \<and> tk_status q = TkActive) rows
       then tx_fail AccInfra
       else tx_modify (\<lambda>st. st\<lparr>ac_tokens := ac_tokens st @ [t]\<rparr>))"

definition insert_url_idempotency :: "url_idempotency_row \<Rightarrow> unit acc_tx" where
  "insert_url_idempotency u =
     tx_bind (tx_get ac_url_idempotency) (\<lambda>rows.
       if pg_length (ui_idempotency_key u) < 8 \<or> pg_length (ui_idempotency_key u) > 128 \<or> \<not> acc_sha (ui_request_sha256 u)
         \<or> list_ex (\<lambda>q. ui_idempotency_key q = ui_idempotency_key u) rows
       then tx_fail AccInfra
       else tx_modify (\<lambda>st. st\<lparr>ac_url_idempotency := ac_url_idempotency st @ [u]\<rparr>))"

definition active_token :: "uuid \<Rightarrow> acc_store \<Rightarrow> token_row option" where
  "active_token cid st = find (\<lambda>t. tk_credential_id t = cid \<and> tk_status t = TkActive) (ac_tokens st)"

definition IssueToken :: "instant \<Rightarrow> uuid \<Rightarrow> url_operation \<Rightarrow> TokenSeed \<Rightarrow> unit acc_tx" where
  "IssueToken now sid operation seed =
     tx_bind (tx_get (\<lambda>st. find (\<lambda>u. ui_idempotency_key u = tseed_IdempotencyKey seed) (ac_url_idempotency st))) (\<lambda>existing.
     case existing of
       Some u \<Rightarrow>
         if ui_subscription_id u = sid \<and> ui_operation u = operation \<and> ui_request_sha256 u = tseed_RequestSHA256 seed
         then tx_fail AccErrIdempotencyReplay else tx_fail AccErrIdempotencyConflict
     | None \<Rightarrow>
         tx_bind (tx_get (current_credential sid)) (\<lambda>found.
         case found of
           None \<Rightarrow> tx_fail AccErrNotReady
         | Some c \<Rightarrow>
             if cr_status c \<noteq> CsActive \<and> cr_status c \<noteq> CsDegraded \<or> \<not> now < cr_entitlement_expires_at c then tx_fail AccErrNotReady
             else tx_bind (tx_get (active_token (cr_id c))) (\<lambda>previous.
               if operation = UrlIssue \<and> previous \<noteq> None then tx_fail AccErrAlreadyIssued
               else if operation \<noteq> UrlIssue \<and> previous = None then tx_fail AccErrNotFound
               else
                 tx_bind (case previous of
                     None \<Rightarrow> tx_return ()
                   | Some t \<Rightarrow> tx_modify (set_tokens (\<lambda>q. tk_id q = tk_id t) (\<lambda>q. q\<lparr>tk_status := TkRotated, tk_revoked_at := Some now\<rparr>))) (\<lambda>_.
                 tx_bind (insert_token \<lparr>tk_id = tseed_TokenID seed, tk_credential_id = cr_id c, tk_lookup_hmac = tseed_LookupHMAC seed,
                     tk_hmac_key_version = tseed_LookupHMACVersion seed, tk_status = TkActive, tk_expires_at = cr_entitlement_expires_at c,
                     tk_rotated_from = map_option tk_id previous, tk_last_used_at = None, tk_revoked_at = None, tk_created_at = now\<rparr>) (\<lambda>_.
                 insert_url_idempotency \<lparr>ui_idempotency_key = tseed_IdempotencyKey seed, ui_subscription_id = sid, ui_operation = operation,
                     ui_request_sha256 = tseed_RequestSHA256 seed, ui_token_id = tseed_TokenID seed, ui_completed_at = now\<rparr>)))))"

section \<open>Reads\<close>

definition token_text :: "token_status \<Rightarrow> string" where
  "token_text s = (case s of TkActive \<Rightarrow> ''active'' | TkRotated \<Rightarrow> ''rotated'' | TkRevoked \<Rightarrow> ''revoked'' | TkExpired \<Rightarrow> ''expired'')"

definition access_text :: "bool \<Rightarrow> cred_status \<Rightarrow> string \<Rightarrow> string" where
  "access_text elapsed status tokenStatus =
     (if elapsed \<and> status \<noteq> CsRevoking \<and> status \<noteq> CsRevoked then ''expired''
      else if status = CsActive \<or> status = CsDegraded then (if tokenStatus = ''active'' then ''active'' else ''ready'')
      else if status = CsFailed then ''failed''
      else if status = CsRevoking then ''revoking''
      else if status = CsRevoked then ''revoked''
      else ''pending'')"

definition GetAccessStatus :: "instant \<Rightarrow> uuid \<Rightarrow> acc_store \<Rightarrow> acc_error + AccessStatus" where
  "GetAccessStatus now sid st =
     (case first_by (\<lambda>c. - cr_created_at c) (filter (\<lambda>c. cr_subscription_id c = sid) (ac_credentials st)) of
        None \<Rightarrow> Inl AccErrNotFound
      | Some c \<Rightarrow>
          let elapsed = (cr_entitlement_expires_at c \<le> now);
              tokenStatus = (case first_by (\<lambda>t. - tk_created_at t) (filter (\<lambda>t. tk_credential_id t = cr_id c) (ac_tokens st)) of
                  None \<Rightarrow> ''not_issued''
                | Some t \<Rightarrow> if tk_status t = TkActive \<and> (tk_expires_at t \<le> now \<or> elapsed) then ''expired'' else token_text (tk_status t))
          in Inr \<lparr>acs_SubscriptionID = sid, acs_CredentialID = cr_id c, acs_AccessStatus = access_text elapsed (cr_status c) tokenStatus,
                  acs_ProvisioningStatus = cr_status c, acs_TokenStatus = tokenStatus\<rparr>)"

definition MaxTokenHMACKeys :: nat where
  "MaxTokenHMACKeys = 4"

definition servable :: "instant \<Rightarrow> string list \<Rightarrow> acc_store \<Rightarrow> token_row \<times> credential_row \<Rightarrow> bool" where
  "servable now lookups st = (\<lambda>(t, c). tk_lookup_hmac t \<in> set lookups \<and> tk_status t = TkActive \<and> tk_expires_at t > now
     \<and> cr_entitlement_expires_at c > now \<and> (cr_status c = CsActive \<or> cr_status c = CsDegraded) \<and> cr_id c = tk_credential_id t)"

definition list_endpoints :: "uuid \<Rightarrow> acc_store \<Rightarrow> EndpointSnapshot list" where
  "list_endpoints cid st = map EndpointSnapshot.truncate
     (sort_key (\<lambda>e. (if es_Role e = ''primary'' then 0 else 1 :: nat, es_NodeID e)) (filter (\<lambda>e. er_credential_id e = cid) (ac_endpoints st)))"

text \<open>
  The token and the endpoints are read by two statements, so there are two stores: \<open>st2\<close> is the
  store at the second. The result has the token's id, for the update of its last use.
\<close>

definition GetProfileByTokenHMACs :: "instant \<Rightarrow> string list \<Rightarrow> acc_store \<Rightarrow> acc_store \<Rightarrow> acc_error + uuid \<times> ProfileRecord" where
  "GetProfileByTokenHMACs now lookups st st2 =
     (if lookups = [] \<or> length lookups > MaxTokenHMACKeys then Inl AccErrNotFound
      else case find (servable now lookups st) (List.product (ac_tokens st) (ac_credentials st)) of
          None \<Rightarrow> Inl AccErrNotFound
        | Some (t, c) \<Rightarrow>
            let endpoints = list_endpoints (cr_id c) st2 in
            if endpoints = [] then Inl AccErrNotFound
            else Inr (tk_id t, \<lparr>pfr_CredentialID = cr_id c, pfr_Ciphertext = cr_ciphertext c, pfr_KeyVersion = cr_key_version c,
                 pfr_EntitlementExpiresAt = cr_entitlement_expires_at c, pfr_Endpoints = endpoints\<rparr>))"

definition touch_token :: "instant \<Rightarrow> uuid \<Rightarrow> unit acc_tx" where
  "touch_token now tid = tx_modify (set_tokens (\<lambda>t. tk_id t = tid
       \<and> (case tk_last_used_at t of None \<Rightarrow> True | Some u \<Rightarrow> u < now - 5 * Minute)) (\<lambda>t. t\<lparr>tk_last_used_at := Some now\<rparr>))"

definition GetProvisioningRecord :: "uuid \<Rightarrow> acc_store \<Rightarrow> acc_error + ProvisioningRecord" where
  "GetProvisioningRecord cid st =
     (case find (\<lambda>c. cr_id c = cid \<and> cr_status c \<noteq> CsRevoked) (ac_credentials st) of
        None \<Rightarrow> Inl AccErrNotFound
      | Some c \<Rightarrow> Inr \<lparr>pvr_CredentialID = cr_id c, pvr_SubscriptionID = cr_subscription_id c, pvr_Revision = cr_version c,
          pvr_Ciphertext = cr_ciphertext c, pvr_KeyVersion = cr_key_version c\<rparr>)"

section \<open>Administration, audit and dead letters\<close>

definition RecoverProvisioning :: "uuid \<Rightarrow> instant \<Rightarrow> AdminRecoveryInput \<Rightarrow> AdminRecoveryResult acc_tx" where
  "RecoverProvisioning eid now input =
     tx_bind (tx_get (\<lambda>st. find (\<lambda>q. rq_idempotency_key q = ari_IdempotencyKey input) (ac_recoveries st))) (\<lambda>existing.
     case existing of
       Some q \<Rightarrow>
         if rq_request_sha256 q \<noteq> ari_RequestSHA256 input \<or> rq_credential_id q \<noteq> ari_CredentialID input then tx_fail AccErrIdempotencyConflict
         else tx_return \<lparr>arr_CredentialID = rq_credential_id q, arr_OperationID = rq_operation_id q, arr_DesiredRevision = rq_desired_revision q,
                arr_Status = CsProvisioning, arr_Replay = True\<rparr>
     | None \<Rightarrow>
         tx_bind (tx_get (find_credential (ari_CredentialID input))) (\<lambda>found.
         case found of
           None \<Rightarrow> tx_fail AccErrNotFound
         | Some c \<Rightarrow>
             if cr_status c \<noteq> CsFailed \<or> \<not> cr_entitlement_expires_at c > now then tx_fail AccErrRecoveryNotAllowed
             else
               let rv = cr_version c + 1; meta = \<lparr>am_EventID = ari_ActionID input, am_EventType = [], am_AggregateID = [], am_AggregateSequence = 0,
                     am_PartitionKey = [], am_CorrelationID = ari_CorrelationID input, am_CausationID = None, am_OccurredAt = 0,
                     am_SourceTopic = [], am_SourcePartition = 0, am_SourceOffset = 0, am_PayloadSHA256 = []\<rparr> in
               tx_bind (update_credential (cr_id c) (\<lambda>r. r\<lparr>cr_status := CsProvisioning, cr_version := rv, cr_allocation_revision := 0,
                   cr_revocation_reason := None, cr_revoked_at := None, cr_updated_at := now\<rparr>)) (\<lambda>_.
               tx_bind (tx_modify (clear_endpoints (cr_id c))) (\<lambda>_.
               tx_bind (start_provisioning eid meta now (ari_OperationID input) (cr_id c) rv) (\<lambda>_.
               tx_bind (tx_get (\<lambda>st. pg_length (ari_IdempotencyKey input) < 8 \<or> pg_length (ari_IdempotencyKey input) > 128
                   \<or> \<not> acc_sha (ari_RequestSHA256 input) \<or> rv \<le> 1 \<or> list_ex (\<lambda>q. rq_action_id q = ari_ActionID input) (ac_recoveries st))) (\<lambda>bad.
               if bad then tx_fail AccInfra
               else tx_bind (tx_modify (\<lambda>st. st\<lparr>ac_recoveries := ac_recoveries st @ [\<lparr>rq_idempotency_key = ari_IdempotencyKey input,
                      rq_request_sha256 = ari_RequestSHA256 input, rq_action_id = ari_ActionID input, rq_correlation_id = ari_CorrelationID input,
                      rq_credential_id = ari_CredentialID input, rq_operation_id = ari_OperationID input, rq_desired_revision = rv,
                      rq_completed_at = now\<rparr>]\<rparr>)) (\<lambda>_.
                 tx_return \<lparr>arr_CredentialID = ari_CredentialID input, arr_OperationID = ari_OperationID input, arr_DesiredRevision = rv,
                   arr_Status = CsProvisioning, arr_Replay = False\<rparr>)))))))"

definition RecordCredentialMaterialAccess :: "uuid \<Rightarrow> instant \<Rightarrow> uuid \<Rightarrow> string \<Rightarrow> unit acc_tx" where
  "RecordCredentialMaterialAccess eid now cid actor =
     tx_bind (tx_get (\<lambda>st. pg_length actor < 1 \<or> pg_length actor > 64 \<or> find_credential cid st = None
        \<or> list_ex (\<lambda>a. aud_event_id a = eid) (ac_audit st))) (\<lambda>bad.
     if bad then tx_fail AccInfra
     else tx_modify (\<lambda>st. st\<lparr>ac_audit := ac_audit st @ [\<lparr>aud_event_id = eid, aud_actor_service = actor, aud_credential_id = cid,
            aud_occurred_at = now\<rparr>]\<rparr>))"

definition acc_RecordDeadLetter :: "string \<Rightarrow> int \<Rightarrow> int \<Rightarrow> string \<Rightarrow> string \<Rightarrow> unit acc_tx" where
  "acc_RecordDeadLetter topic part off sha reason =
     (if \<not> acc_sha sha \<or> pg_length reason < 1 \<or> pg_length reason > 64 then tx_fail AccInfra
      else tx_modify (\<lambda>st. if list_ex (\<lambda>d. adl_topic d = topic \<and> adl_partition d = part \<and> adl_offset d = off) (ac_dead_letters st) then st
        else st\<lparr>ac_dead_letters := ac_dead_letters st @ [\<lparr>adl_topic = topic, adl_partition = part, adl_offset = off, adl_sha256 = sha,
               adl_reason = reason\<rparr>]\<rparr>))"

definition acc_claim :: "instant \<Rightarrow> nanos \<Rightarrow> uuid list \<Rightarrow> acc_envelope OutboxMessage option acc_tx" where
  "acc_claim now lease locked st = (case acc_ClaimOutbox now lease locked (ac_outbox st) of (m, rows) \<Rightarrow> (Inr m, st\<lparr>ac_outbox := rows\<rparr>))"

definition acc_complete :: "instant \<Rightarrow> uuid \<Rightarrow> unit acc_tx" where
  "acc_complete now eid st = (case acc_CompleteOutbox now eid (ac_outbox st) of
     (Inl _, rows) \<Rightarrow> (Inl AccErrDurableStateConflict, st\<lparr>ac_outbox := rows\<rparr>) | (Inr _, rows) \<Rightarrow> (Inr (), st\<lparr>ac_outbox := rows\<rparr>))"

definition acc_retry :: "instant \<Rightarrow> nanos \<Rightarrow> uuid \<Rightarrow> unit acc_tx" where
  "acc_retry now delay eid st = (case acc_RetryOutbox now delay eid (ac_outbox st) of
     (Inl _, rows) \<Rightarrow> (Inl AccErrDurableStateConflict, st\<lparr>ac_outbox := rows\<rparr>) | (Inr _, rows) \<Rightarrow> (Inr (), st\<lparr>ac_outbox := rows\<rparr>))"

end
