(* ===== verification/Access_Profile.thy ===== *)
theory Access_Profile
  imports Access_Store
begin

text \<open>
  Credentials and profiles: the keyring that seals VLESS ids and the token hasher
  (\<open>internal/credential/crypto.go\<close>), and the validation and rendering of endpoints
  (\<open>internal/happ/render.go\<close>).

  AES-GCM and HMAC-SHA-256 are arguments (\<open>aead\<close>, \<open>hmac\<close>); what is used of AES-GCM is that
  opening a sealed text under the same key, nonce and associated data returns the text, and that
  sealing adds 16 bytes (\<open>aead_laws\<close>). Base64 decoding, \<open>net.ParseIP\<close> and \<open>url.URL.String\<close> are
  arguments too. A keyring's map of versions is the list of its entries.
\<close>

section \<open>The keyring\<close>

record aead =
  gcm_seal :: "string \<Rightarrow> string \<Rightarrow> string \<Rightarrow> string \<Rightarrow> string"
  gcm_open :: "string \<Rightarrow> string \<Rightarrow> string \<Rightarrow> string \<Rightarrow> string option"

definition gcm_nonce_size :: nat where "gcm_nonce_size = 12"

definition gcm_overhead :: nat where "gcm_overhead = 16"

definition aead_laws :: "aead \<Rightarrow> bool" where
  "aead_laws a \<longleftrightarrow> (\<forall>key nonce text ad. gcm_open a key nonce (gcm_seal a key nonce text ad) ad = Some text
     \<and> length (gcm_seal a key nonce text ad) = length text + gcm_overhead)"

definition KeyBytes :: nat where "KeyBytes = 32"

definition MaxKeyringKeys :: nat where "MaxKeyringKeys = 4"

record Keyring =
  kr_activeVersion :: int
  kr_keys :: "(int \<times> string) list"

definition keys_valid :: "int \<Rightarrow> (int \<times> string) list \<Rightarrow> bool" where
  "keys_valid activeVersion keys \<longleftrightarrow> \<not> (activeVersion \<le> 0 \<or> keys = [] \<or> length keys > MaxKeyringKeys)
     \<and> list_all (\<lambda>(version, key). \<not> (version \<le> 0 \<or> length key \<noteq> KeyBytes)) keys \<and> map_of keys activeVersion \<noteq> None"

definition NewKeyring :: "int \<Rightarrow> (int \<times> string) list \<Rightarrow> Keyring option" where
  "NewKeyring activeVersion keys =
     (if keys_valid activeVersion keys then Some \<lparr>kr_activeVersion = activeVersion, kr_keys = keys\<rparr> else None)"

text \<open>The key of a version, when \<open>aes.NewCipher\<close> takes it: 16, 24 or 32 bytes.\<close>

definition gcm :: "Keyring \<Rightarrow> int \<Rightarrow> string option" where
  "gcm k version = (case map_of (kr_keys k) version of
       None \<Rightarrow> None
     | Some key \<Rightarrow> if length key = 16 \<or> length key = 24 \<or> length key = 32 then Some key else None)"

definition Encrypt :: "aead \<Rightarrow> Keyring \<Rightarrow> string \<Rightarrow> string \<Rightarrow> string \<Rightarrow> (string \<times> int) option" where
  "Encrypt a k plaintext nonce binding = (case gcm k (kr_activeVersion k) of
       None \<Rightarrow> None
     | Some key \<Rightarrow>
         if length nonce \<noteq> gcm_nonce_size then None
         else if binding = [] then None
         else Some (nonce @ gcm_seal a key nonce plaintext binding, kr_activeVersion k))"

definition Decrypt :: "aead \<Rightarrow> Keyring \<Rightarrow> int \<Rightarrow> string \<Rightarrow> string \<Rightarrow> string option" where
  "Decrypt a k version envelope binding = (case gcm k version of
       None \<Rightarrow> None
     | Some key \<Rightarrow>
         if length envelope < gcm_nonce_size + gcm_overhead then None
         else if binding = [] then None
         else gcm_open a key (take gcm_nonce_size envelope) (drop gcm_nonce_size envelope) binding)"

section \<open>The token hasher\<close>

record TokenHasher =
  th_activeVersion :: int
  th_keys :: "(int \<times> string) list"
  th_versions :: "int list"

definition NewTokenHasherKeyring :: "int \<Rightarrow> (int \<times> string) list \<Rightarrow> TokenHasher option" where
  "NewTokenHasherKeyring activeVersion keys =
     (if keys_valid activeVersion keys
      then Some \<lparr>th_activeVersion = activeVersion, th_keys = keys, th_versions = sort (map fst keys)\<rparr> else None)"

text \<open>\<open>sum\<close>: a version that is not in the map has the empty key.\<close>

definition token_sum :: "(string \<Rightarrow> string \<Rightarrow> string) \<Rightarrow> TokenHasher \<Rightarrow> int \<Rightarrow> string \<Rightarrow> string" where
  "token_sum hmac h version token = hmac (case map_of (th_keys h) version of None \<Rightarrow> [] | Some key \<Rightarrow> key) token"

definition token_Sum :: "(string \<Rightarrow> string \<Rightarrow> string) \<Rightarrow> TokenHasher \<Rightarrow> string \<Rightarrow> string" where
  "token_Sum hmac h token = token_sum hmac h (th_activeVersion h) token"

definition Candidates :: "(string \<Rightarrow> string \<Rightarrow> string) \<Rightarrow> TokenHasher \<Rightarrow> string \<Rightarrow> string list" where
  "Candidates hmac h token = token_sum hmac h (th_activeVersion h) token
     # map (\<lambda>version. token_sum hmac h version token) (filter (\<lambda>version. version \<noteq> th_activeVersion h) (th_versions h))"

section \<open>Key sets\<close>

definition DecodeKey :: "(string \<Rightarrow> string option) \<Rightarrow> string \<Rightarrow> string option" where
  "DecodeKey base64 value = (case base64 value of None \<Rightarrow> None | Some decoded \<Rightarrow> if length decoded \<noteq> KeyBytes then None else Some decoded)"

text \<open>\<open>strings.Cut\<close> at one character.\<close>

fun cut_at :: "char \<Rightarrow> string \<Rightarrow> (string \<times> string) option" where
  "cut_at sep [] = None"
| "cut_at sep (c # cs) = (if c = sep then Some ([], cs) else map_option (\<lambda>(a, b). (c # a, b)) (cut_at sep cs))"

fun decode_items :: "(string \<Rightarrow> string option) \<Rightarrow> string list \<Rightarrow> (int \<times> string) list \<Rightarrow> (int \<times> string) list option" where
  "decode_items base64 [] keys = Some keys"
| "decode_items base64 (item # items) keys =
     (if length keys = MaxKeyringKeys then None
      else case cut_at CHR '':'' (TrimSpace item) of
          None \<Rightarrow> None
        | Some (versionText, encoded) \<Rightarrow>
            if versionText = [] \<or> encoded = [] then None
            else case ParseInt versionText of
                None \<Rightarrow> None
              | Some version \<Rightarrow>
                  if version \<le> 0 \<or> map_of keys version \<noteq> None then None
                  else case DecodeKey base64 encoded of None \<Rightarrow> None | Some key \<Rightarrow> decode_items base64 items (keys @ [(version, key)]))"

definition DecodeKeySet :: "(string \<Rightarrow> string option) \<Rightarrow> string \<Rightarrow> (int \<times> string) list option" where
  "DecodeKeySet base64 value =
     (if TrimSpace value = [] then None
      else case decode_items base64 (split_on CHR '','' value) [] of None \<Rightarrow> None | Some keys \<Rightarrow> if keys = [] then None else Some keys)"

section \<open>Endpoints\<close>

definition has_line_break :: "string \<Rightarrow> bool" where
  "has_line_break s \<longleftrightarrow> list_ex (\<lambda>c. c = CHR 0x0D \<or> c = CHR 0x0A) s"

definition host_char :: "char \<Rightarrow> bool" where
  "host_char c \<longleftrightarrow> char_between CHR ''a'' CHR ''z'' c \<or> char_between CHR ''A'' CHR ''Z'' c \<or> char_between CHR ''0'' CHR ''9'' c \<or> c = CHR ''-''"

definition host_label :: "string \<Rightarrow> bool" where
  "host_label l \<longleftrightarrow> \<not> (l = [] \<or> length l > 63 \<or> hd l = CHR ''-'' \<or> last l = CHR ''-'') \<and> list_all host_char l"

definition trim_dot :: "string \<Rightarrow> string" where
  "trim_dot s = (if s \<noteq> [] \<and> last s = CHR ''.'' then butlast s else s)"

definition validHost :: "(string \<Rightarrow> bool) \<Rightarrow> string \<Rightarrow> bool \<Rightarrow> bool" where
  "validHost isIP value allowIP =
     (if value = [] \<or> length value > 253 \<or> TrimSpace value \<noteq> value \<or> has_line_break value then False
      else if isIP value then allowIP
      else list_all host_label (split_on CHR ''.'' (trim_dot value)))"

definition ValidateEndpoint :: "(string \<Rightarrow> bool) \<Rightarrow> EndpointSnapshot \<Rightarrow> bool" where
  "ValidateEndpoint isIP e \<longleftrightarrow>
     \<not> (es_Role e \<noteq> ''primary'' \<and> es_Role e \<noteq> ''failover'')
     \<and> \<not> (\<not> validHost isIP (es_Address e) True \<or> es_Port e < 1 \<or> es_Port e > 65535)
     \<and> validHost isIP (es_ServerName e) False
     \<and> match_runs [(endpoint_char, 43)] (es_RealityPublicKey e)
     \<and> (length (es_ShortID e) \<le> 16 \<and> even (length (es_ShortID e)) \<and> list_all is_hex (es_ShortID e))
     \<and> \<not> (es_Label e = [] \<or> has_line_break (es_Label e) \<or> length (es_Label e) > 64)
     \<and> \<not> (has_line_break (es_SpiderX e) \<or> length (es_SpiderX e) > 255)"

definition uuidLike :: "string \<Rightarrow> bool" where
  "uuidLike value \<longleftrightarrow> length value = 36
     \<and> list_all (\<lambda>(i, c). if i \<in> {8, 13, 18, 23} then c = CHR ''-'' else is_hex c) (zip [0..<36] value)"

record vless_url =
  vu_Scheme :: string
  vu_User :: string
  vu_Host :: "string \<times> int"
  vu_Query :: "(string \<times> string) list"
  vu_Fragment :: string

definition renderEndpoint :: "(string \<Rightarrow> bool) \<Rightarrow> (vless_url \<Rightarrow> string) \<Rightarrow> string \<Rightarrow> EndpointSnapshot \<Rightarrow> string option" where
  "renderEndpoint isIP urlString vlessUUID e =
     (if \<not> ValidateEndpoint isIP e then None
      else Some (urlString \<lparr>vu_Scheme = ''vless'', vu_User = vlessUUID, vu_Host = (es_Address e, es_Port e),
         vu_Query = [(''encryption'', ''none''), (''flow'', ''xtls-rprx-vision''), (''fp'', ''chrome''), (''headerType'', ''none''),
           (''pbk'', es_RealityPublicKey e), (''security'', ''reality''), (''sid'', es_ShortID e), (''sni'', es_ServerName e), (''type'', ''tcp'')]
           @ (if es_SpiderX e \<noteq> [] then [(''spx'', es_SpiderX e)] else []),
         vu_Fragment = es_Label e\<rparr>))"

fun render_lines :: "(string \<Rightarrow> bool) \<Rightarrow> (vless_url \<Rightarrow> string) \<Rightarrow> string \<Rightarrow> EndpointSnapshot list \<Rightarrow> string list option" where
  "render_lines isIP urlString vlessUUID [] = Some []"
| "render_lines isIP urlString vlessUUID (e # es) =
     (case renderEndpoint isIP urlString vlessUUID e of
        None \<Rightarrow> None
      | Some line \<Rightarrow> map_option ((#) line) (render_lines isIP urlString vlessUUID es))"

definition render_order :: "EndpointSnapshot list \<Rightarrow> EndpointSnapshot list" where
  "render_order endpoints = sort_key (\<lambda>e. (if es_Role e = ''primary'' then 0 else 1 :: nat, es_NodeID e)) endpoints"

definition happ_Render :: "(string \<Rightarrow> bool) \<Rightarrow> (vless_url \<Rightarrow> string) \<Rightarrow> string \<Rightarrow> EndpointSnapshot list \<Rightarrow> string option" where
  "happ_Render isIP urlString vlessUUID endpoints =
     (if \<not> uuidLike vlessUUID then None
      else case render_lines isIP urlString vlessUUID (render_order endpoints) of
          None \<Rightarrow> None
        | Some lines \<Rightarrow> if lines = [] then None else Some (concat (map (\<lambda>l. l @ [CHR 0x0A]) lines)))"

section \<open>What the keys and the renderer guarantee\<close>

lemma Decrypt_Encrypt:
  assumes "aead_laws a" and "Encrypt a k1 plaintext nonce binding = Some (envelope, version)"
    and "map_of (kr_keys k2) version = map_of (kr_keys k1) version"
  shows "Decrypt a k2 version envelope binding = Some plaintext"
proof -
  from assms(2) obtain key where key: "gcm k1 (kr_activeVersion k1) = Some key" "length nonce = gcm_nonce_size" "binding \<noteq> []"
    "envelope = nonce @ gcm_seal a key nonce plaintext binding" "version = kr_activeVersion k1"
    by (auto simp: Encrypt_def split: option.splits if_splits)
  with assms(3) have "gcm k2 version = Some key" by (simp add: gcm_def)
  with key assms(1) show ?thesis by (simp add: Decrypt_def aead_laws_def)
qed

lemma Sum_in_Candidates:
  assumes "NewTokenHasherKeyring v2 keys2 = Some h2" and "map_of (th_keys h2) (th_activeVersion h1) = map_of (th_keys h1) (th_activeVersion h1)"
    and "map_of (th_keys h1) (th_activeVersion h1) \<noteq> None"
  shows "token_Sum hmac h1 token \<in> set (Candidates hmac h2 token)"
proof -
  from assms(1) have "th_keys h2 = keys2" "th_versions h2 = sort (map fst keys2)" by (auto simp: NewTokenHasherKeyring_def split: if_splits)
  moreover from assms(2,3) have "map_of (th_keys h2) (th_activeVersion h1) \<noteq> None" by simp
  ultimately have "th_activeVersion h1 \<in> set (th_versions h2)" by (simp add: map_of_eq_None_iff)
  moreover have "token_Sum hmac h1 token = token_sum hmac h2 (th_activeVersion h1) token" using assms(2) by (simp add: token_Sum_def token_sum_def)
  ultimately show ?thesis by (cases "th_activeVersion h1 = th_activeVersion h2") (auto simp: Candidates_def)
qed

lemma Candidates_length:
  assumes "NewTokenHasherKeyring version keys = Some h" and "distinct (map fst keys)"
  shows "Candidates hmac h token \<noteq> []" "length (Candidates hmac h token) \<le> MaxKeyringKeys"
proof -
  from assms(1) have h: "th_activeVersion h = version" "th_versions h = sort (map fst keys)" "keys_valid version keys"
    by (auto simp: NewTokenHasherKeyring_def split: if_splits)
  then have "version \<in> set (map fst keys)" and len: "length keys \<le> MaxKeyringKeys"
    by (auto simp: keys_valid_def map_of_eq_None_iff)
  then have "length (filter (\<lambda>v. v \<noteq> version) (sort (map fst keys))) < length (sort (map fst keys))"
    by (intro length_filter_less [of version]) auto
  with len show "length (Candidates hmac h token) \<le> MaxKeyringKeys" by (simp add: Candidates_def h)
  show "Candidates hmac h token \<noteq> []" by (simp add: Candidates_def)
qed

lemma render_lines_ok: "list_all (ValidateEndpoint isIP) es \<Longrightarrow> \<exists>ls. render_lines isIP urlString v es = Some ls \<and> length ls = length es"
proof (induction es)
  case (Cons e es)
  then obtain ls where "render_lines isIP urlString v es = Some ls" "length ls = length es" by auto
  with Cons.prems show ?case by (simp add: renderEndpoint_def)
qed simp

lemma Render_ok:
  assumes "uuidLike v" and "list_all (ValidateEndpoint isIP) es" and "es \<noteq> []"
  shows "happ_Render isIP urlString v es \<noteq> None"
proof -
  have "list_all (ValidateEndpoint isIP) (render_order es)" using assms(2) by (simp add: render_order_def list_all_iff)
  from render_lines_ok [OF this, of urlString v] obtain ls
    where "render_lines isIP urlString v (render_order es) = Some ls" "length ls = length (render_order es)" by blast
  with assms(1,3) show ?thesis by (auto simp: happ_Render_def render_order_def)
qed

end
