(* ===== verification/Access_Lifecycle.thy ===== *)
theory Access_Lifecycle
  imports Access_Store
begin

text \<open>
  The transition system of the access store, \<open>acc_step\<close>, with one rule per operation, any
  arguments and any driver fault, and the invariant of its reachable stores. The invariant speaks
  about one credential at a time: \<open>hist\<close> is what the other tables hold about it (its operations,
  its outbox rows, its active tokens and its endpoints), and \<open>fits\<close> says how that agrees with its
  row. An operation touches one credential; the others keep their \<open>hist\<close>.
\<close>

section \<open>Steps\<close>

inductive acc_step :: "acc_store \<Rightarrow> acc_store \<Rightarrow> bool" where
  as_payment: "acc_step st (snd (run_tx AccInfra fl (ApplyPaymentSucceeded pick meta payment) st))"
| as_period: "acc_step st (snd (run_tx AccInfra fl (ApplyPeriod pick eid now meta period seed) st))"
| as_grace: "acc_step st (snd (run_tx AccInfra fl (ApplyGrace pick meta grace) st))"
| as_terminal: "acc_step st (snd (run_tx AccInfra fl (ApplyTerminal pick eid now meta terminal oid) st))"
| as_provisioned: "acc_step st (snd (run_tx AccInfra fl (ApplyProvisionSucceeded pick eid oid now meta success) st))"
| as_failed: "acc_step st (snd (run_tx AccInfra fl (ApplyOperationFailed pick eid now meta failure kind) st))"
| as_revoked: "acc_step st (snd (run_tx AccInfra fl (ApplyRevokeSucceeded pick eid now meta revoked) st))"
| as_issue: "acc_step st (snd (run_tx AccInfra fl (IssueToken now sid operation tseed) st))"
| as_recover: "acc_step st (snd (run_tx AccInfra fl (RecoverProvisioning eid now input) st))"
| as_touch: "acc_step st (snd (run_tx AccInfra fl (touch_token now tid) st))"
| as_audit: "acc_step st (snd (run_tx AccInfra fl (RecordCredentialMaterialAccess eid now cid actor) st))"
| as_dead_letter: "acc_step st (snd (run_tx AccInfra fl (acc_RecordDeadLetter topic part off sha reason) st))"
| as_claim: "acc_step st (snd (run_tx AccInfra fl (acc_claim now lease locked) st))"
| as_complete: "acc_step st (snd (run_tx AccInfra fl (acc_complete now eid) st))"
| as_retry: "acc_step st (snd (run_tx AccInfra fl (acc_retry now delay eid) st))"

inductive acc_reachable :: "acc_store \<Rightarrow> bool" where
  ar_empty: "acc_reachable empty_acc_store"
| ar_step: "acc_reachable st \<Longrightarrow> acc_step st t \<Longrightarrow> acc_reachable t"

section \<open>The invariant\<close>

definition command_topic :: "acc_kind \<Rightarrow> string" where
  "command_topic k = (case k of AccProvision \<Rightarrow> ''access.provision.request.v1'' | AccRevoke \<Rightarrow> ''access.revoke.request.v1'')"

text \<open>
  A command: its topic, the sequence of its envelope, its operation, its revision, and whether the
  envelope, the row's key and the data all name the row's credential.
\<close>

type_synonym command_view = "string \<times> int \<times> uuid \<times> int \<times> bool"

definition row_command :: "acc_outbox_row \<Rightarrow> command_view option" where
  "row_command r = (case ae_Data (ob_payload r) of
       AccCommandData oid cid rv \<Rightarrow> Some (ob_topic r, ae_AggregateSequence (ob_payload r), oid, rv,
         cid = ob_aggregate_id r \<and> ae_AggregateID (ob_payload r) = cid \<and> ob_partition_key r = ''credential:'' @ cid
         \<and> ae_PartitionKey (ob_payload r) = ob_partition_key r \<and> ae_EventType (ob_payload r) = ob_topic r \<and> ae_EventID (ob_payload r) = ob_event_id r)
     | _ \<Rightarrow> None)"

definition op_command :: "acc_operation_row \<Rightarrow> command_view" where
  "op_command o1 = (command_topic (aop_kind o1), aop_desired_revision o1, aop_id o1, aop_desired_revision o1, True)"

definition status_fits :: "cred_status \<Rightarrow> acc_operation_row \<Rightarrow> bool" where
  "status_fits s o1 = (case s of
       CsProvisioning \<Rightarrow> aop_kind o1 = AccProvision \<and> aop_status o1 = AopPending
     | CsActive \<Rightarrow> aop_kind o1 = AccProvision \<and> aop_status o1 = AopSucceeded
     | CsDegraded \<Rightarrow> aop_kind o1 = AccProvision \<and> aop_status o1 = AopSucceeded
     | CsFailed \<Rightarrow> aop_kind o1 = AccProvision \<and> aop_status o1 = AopFailed
     | CsRevoking \<Rightarrow> aop_kind o1 = AccRevoke \<and> aop_status o1 \<noteq> AopSucceeded
     | CsRevoked \<Rightarrow> aop_kind o1 = AccRevoke \<and> aop_status o1 = AopSucceeded)"

definition ready :: "cred_status \<Rightarrow> bool" where
  "ready s \<longleftrightarrow> s = CsActive \<or> s = CsDegraded"

type_synonym cred_history = "acc_operation_row list \<times> (int option \<times> command_view option) list \<times> nat \<times> int list"

definition hist :: "uuid \<Rightarrow> acc_store \<Rightarrow> cred_history" where
  "hist cid st =
     (filter (\<lambda>o1. aop_credential_id o1 = cid) (ac_operations st),
      map (\<lambda>r. (ob_sequence r, row_command r)) (filter (\<lambda>r. ob_aggregate_id r = cid) (ac_outbox st)),
      length (filter (\<lambda>t. tk_credential_id t = cid \<and> tk_status t = TkActive) (ac_tokens st)),
      map er_allocation_revision (filter (\<lambda>e. er_credential_id e = cid) (ac_endpoints st)))"

definition fits :: "credential_row \<Rightarrow> cred_history \<Rightarrow> bool" where
  "fits c = (\<lambda>(os, rs, n, es).
     map aop_desired_revision os = [1..cr_version c] \<and> 1 \<le> cr_version c
     \<and> map fst rs = map Some [1..cr_outbox_sequence c] \<and> 0 \<le> cr_outbox_sequence c
     \<and> List.map_filter snd rs = map op_command os
     \<and> status_fits (cr_status c) (last os)
     \<and> n \<le> 1 \<and> (0 < n \<longrightarrow> ready (cr_status c))
     \<and> (ready (cr_status c) \<longrightarrow> cr_allocation_revision c = cr_version c \<and> list_all (\<lambda>r. r = cr_version c) es))"

definition one_current :: "credential_row list \<Rightarrow> bool" where
  "one_current rows \<longleftrightarrow> (\<forall>c \<in> set rows. \<forall>d \<in> set rows. cr_subscription_id c = cr_subscription_id d
     \<longrightarrow> cr_status c \<noteq> CsRevoked \<longrightarrow> cr_status d \<noteq> CsRevoked \<longrightarrow> cr_id c = cr_id d)"

definition keys_ok :: "acc_store \<Rightarrow> bool" where
  "keys_ok st \<longleftrightarrow> distinct (map aop_id (ac_operations st)) \<and> distinct (map ob_event_id (ac_outbox st)) \<and> in_order (ac_outbox st)
     \<and> distinct (map tk_id (ac_tokens st))"

definition acc_ok :: "acc_store \<Rightarrow> bool" where
  "acc_ok st \<longleftrightarrow> distinct (map cr_id (ac_credentials st)) \<and> one_current (ac_credentials st) \<and> keys_ok st
     \<and> (\<forall>c \<in> set (ac_credentials st). fits c (hist (cr_id c) st))
     \<and> (\<forall>cid. cid \<notin> cr_id ` set (ac_credentials st) \<longrightarrow> hist cid st = ([], [], 0, []))"

lemma acc_ok_empty: "acc_ok empty_acc_store"
  by (simp add: acc_ok_def one_current_def keys_ok_def empty_acc_store_def hist_def)

lemma acc_okD:
  assumes "acc_ok st" and "c \<in> set (ac_credentials st)"
  shows "distinct (map cr_id (ac_credentials st))" "fits c (hist (cr_id c) st)" "keys_ok st"
  using assms by (simp_all add: acc_ok_def)

lemma find_credentialD:
  assumes "acc_ok st" and "find_credential cid st = Some c"
  shows "c \<in> set (ac_credentials st)" "cr_id c = cid"
  using find_SomeD [OF assms(2) [unfolded find_credential_def]] by auto

text \<open>Only what the invariant reads matters.\<close>

lemma acc_ok_frame:
  assumes "acc_ok st" and "ac_credentials t = ac_credentials st" and "keys_ok t" and "\<And>cid. hist cid t = hist cid st"
  shows "acc_ok t"
  using assms by (simp add: acc_ok_def)

lemma acc_ok_same:
  assumes "acc_ok st" and "ac_credentials t = ac_credentials st" and "ac_operations t = ac_operations st" and "ac_outbox t = ac_outbox st"
    and "ac_tokens t = ac_tokens st" and "ac_endpoints t = ac_endpoints st"
  shows "acc_ok t"
  using assms by (simp add: acc_ok_def keys_ok_def hist_def)

text \<open>An operation on one credential.\<close>

lemma acc_ok_touch:
  assumes ok: "acc_ok st" and c: "c \<in> set (ac_credentials st)"
    and creds: "ac_credentials t = tbl_update (\<lambda>r. cr_id r = cr_id c) f (ac_credentials st)"
    and f: "cr_id (f c) = cr_id c" "cr_subscription_id (f c) = cr_subscription_id c" "cr_status c = CsRevoked \<Longrightarrow> cr_status (f c) = CsRevoked"
    and others: "\<And>cid. cid \<noteq> cr_id c \<Longrightarrow> hist cid t = hist cid st"
    and fit: "fits (f c) (hist (cr_id c) t)" and keys: "keys_ok t"
  shows "acc_ok t"
proof -
  from ok have d: "distinct (map cr_id (ac_credentials st))" and one: "one_current (ac_credentials st)" by (simp_all add: acc_ok_def)
  have same: "r = c" if "r \<in> set (ac_credentials st)" "cr_id r = cr_id c" for r using distinct_key_eq [OF d that(1) c that(2)] .
  have row: "r = f c \<or> r \<in> set (ac_credentials st) \<and> cr_id r \<noteq> cr_id c" if "r \<in> set (ac_credentials t)" for r
    using that unfolding creds by (auto elim!: in_tbl_updateE dest: same)
  have ids: "map cr_id (ac_credentials t) = map cr_id (ac_credentials st)"
    unfolding creds using same f(1) by (auto intro: map_tbl_update)
  have "one_current (ac_credentials t)" unfolding one_current_def
  proof (intro ballI impI)
    fix a b assume "a \<in> set (ac_credentials t)" "b \<in> set (ac_credentials t)"
      and s: "cr_subscription_id a = cr_subscription_id b" "cr_status a \<noteq> CsRevoked" "cr_status b \<noteq> CsRevoked"
    with row show "cr_id a = cr_id b" using one c f unfolding one_current_def by metis
  qed
  moreover have "fits r (hist (cr_id r) t)" if "r \<in> set (ac_credentials t)" for r
    using row [OF that] fit f(1) others [of "cr_id r"] ok by (auto simp: acc_ok_def)
  moreover have "hist cid t = ([], [], 0, [])" if "cid \<notin> cr_id ` set (ac_credentials t)" for cid
  proof -
    from that ids have "cid \<notin> cr_id ` set (ac_credentials st)" by (metis set_map)
    with c others [of cid] ok show ?thesis by (auto simp: acc_ok_def)
  qed
  ultimately show ?thesis using d ids keys by (simp add: acc_ok_def)
qed

section \<open>What the building blocks write\<close>

abbreviation set_cred :: "uuid \<Rightarrow> (credential_row \<Rightarrow> credential_row) \<Rightarrow> acc_store \<Rightarrow> acc_store" where
  "set_cred cid f st \<equiv> st\<lparr>ac_credentials := tbl_update (\<lambda>c. cr_id c = cid) f (ac_credentials st)\<rparr>"

lemma update_credential_result:
  "update_credential cid f st = (Inr u, t) \<longleftrightarrow> (\<forall>c \<in> set (ac_credentials st). cr_id c = cid \<longrightarrow> cred_check (f c)) \<and> t = set_cred cid f st"
  by (auto simp: update_credential_def tx_bind_Inr tx_results list_ex_iff)

lemma insertOperation_result:
  "acc_insertOperation oid cid kind rv arev causation now st = (Inr u, t) \<longleftrightarrow>
     aop_check (new_acc_operation oid cid kind rv arev causation now)
     \<and> \<not> list_ex (aop_clash (new_acc_operation oid cid kind rv arev causation now)) (ac_operations st) \<and> find_credential cid st \<noteq> None
     \<and> t = st\<lparr>ac_operations := ac_operations st @ [new_acc_operation oid cid kind rv arev causation now]\<rparr>"
  by (auto simp: acc_insertOperation_def Let_def tx_bind_Inr tx_results)

lemma find_set_cred:
  assumes "\<And>c. cr_id (f c) = cr_id c"
  shows "find_credential cid (set_cred cid f st) = map_option f (find_credential cid st)"
proof -
  have "find (\<lambda>c. cr_id c = cid) (tbl_update (\<lambda>c. cr_id c = cid) f rows) = map_option f (find (\<lambda>c. cr_id c = cid) rows)" for rows
    using assms by (induction rows) auto
  then show ?thesis by (simp add: find_credential_def)
qed

lemma acc_insertOutbox_result:
  assumes "acc_insertOutbox eid meta now occ topic key cid dedupe atype data esq st = (Inr u, t)"
  obtains c where "find_credential cid st = Some c" "\<forall>r \<in> set (ac_outbox st). ob_event_id r \<noteq> eid"
    "t = (set_cred cid (\<lambda>r. r\<lparr>cr_outbox_sequence := cr_outbox_sequence r + 1\<rparr>) st)\<lparr>ac_outbox := ac_outbox st
       @ [acc_new_row eid meta now occ topic key cid dedupe atype data (cr_outbox_sequence c + 1) esq]\<rparr>"
proof -
  let ?st1 = "set_cred cid (\<lambda>r. r\<lparr>cr_outbox_sequence := cr_outbox_sequence r + 1\<rparr>) st"
  have find1: "find_credential cid ?st1 = map_option (\<lambda>r. r\<lparr>cr_outbox_sequence := cr_outbox_sequence r + 1\<rparr>) (find_credential cid st)"
    by (rule find_set_cred) simp
  from assms obtain c where "find_credential cid st = Some c" "\<not> list_ex (\<lambda>r. ob_event_id r = eid) (ac_outbox st)"
    "t = ?st1\<lparr>ac_outbox := ac_outbox st @ [acc_new_row eid meta now occ topic key cid dedupe atype data (cr_outbox_sequence c + 1) esq]\<rparr>"
    unfolding acc_insertOutbox_def
    by (auto simp: tx_bind_Inr tx_results update_credential_result find1 list_ex_iff split: option.splits if_splits)
  then show thesis using that by (simp add: list_ex_iff)
qed

lemma insertNotification_result:
  assumes "insertNotificationOutbox eid meta now occ topic uid cid dedupe data st = (Inr u, t)"
  obtains c where "find_credential cid st = Some c" "\<forall>r \<in> set (ac_outbox st). ob_event_id r \<noteq> eid"
    "t = (set_cred cid (\<lambda>r. r\<lparr>cr_notification_sequence := cr_notification_sequence r + 1, cr_outbox_sequence := cr_outbox_sequence r + 1\<rparr>) st)\<lparr>
       ac_outbox := ac_outbox st @ [acc_new_row eid meta now occ topic (''user:'' @ uid) cid dedupe ''access'' data (cr_outbox_sequence c + 1)
         (cr_notification_sequence c + 1)]\<rparr>"
proof -
  let ?g = "\<lambda>r. r\<lparr>cr_notification_sequence := cr_notification_sequence r + 1\<rparr>"
  let ?st1 = "set_cred cid ?g st"
  have find1: "find_credential cid ?st1 = map_option ?g (find_credential cid st)" by (rule find_set_cred) simp
  from assms obtain c where c: "find_credential cid st = Some c"
    and rest: "acc_insertOutbox eid meta now occ topic (''user:'' @ uid) cid dedupe ''access'' data (cr_notification_sequence c + 1) ?st1 = (Inr u, t)"
    unfolding insertNotificationOutbox_def by (auto simp: tx_bind_Inr tx_results update_credential_result find1 split: option.splits)
  from rest obtain d where d: "find_credential cid ?st1 = Some d" "\<forall>r \<in> set (ac_outbox ?st1). ob_event_id r \<noteq> eid"
    "t = (set_cred cid (\<lambda>r. r\<lparr>cr_outbox_sequence := cr_outbox_sequence r + 1\<rparr>) ?st1)\<lparr>ac_outbox := ac_outbox ?st1
       @ [acc_new_row eid meta now occ topic (''user:'' @ uid) cid dedupe ''access'' data (cr_outbox_sequence d + 1) (cr_notification_sequence c + 1)]\<rparr>"
    by (rule acc_insertOutbox_result)
  have twice: "tbl_update (\<lambda>r. cr_id r = cid) (\<lambda>r. r\<lparr>cr_outbox_sequence := cr_outbox_sequence r + 1\<rparr>) (tbl_update (\<lambda>r. cr_id r = cid) ?g rows)
    = tbl_update (\<lambda>r. cr_id r = cid) (\<lambda>r. r\<lparr>cr_notification_sequence := cr_notification_sequence r + 1, cr_outbox_sequence := cr_outbox_sequence r + 1\<rparr>) rows"
    for rows by (simp add: tbl_update_def)
  from d(1) have "?g c = d" unfolding find1 c option.map by (rule option.inject [THEN iffD1])
  then have sq: "cr_outbox_sequence d = cr_outbox_sequence c" by auto
  show thesis
  proof (rule that [OF c])
    show "\<forall>r \<in> set (ac_outbox st). ob_event_id r \<noteq> eid" using d(2) by simp
    show "t = (set_cred cid (\<lambda>r. r\<lparr>cr_notification_sequence := cr_notification_sequence r + 1, cr_outbox_sequence := cr_outbox_sequence r + 1\<rparr>) st)\<lparr>
       ac_outbox := ac_outbox st @ [acc_new_row eid meta now occ topic (''user:'' @ uid) cid dedupe ''access'' data (cr_outbox_sequence c + 1)
         (cr_notification_sequence c + 1)]\<rparr>"
      unfolding d(3) sq by (simp add: twice)
  qed
qed

end
