(* ===== verification/Access_Invariants.thy ===== *)
theory Access_Invariants
  imports Access_Lifecycle
begin

text \<open>
  Every step of the access store keeps \<open>acc_ok\<close>. Four facts about one credential carry the
  proofs: a new generation appends one operation and one command (\<open>fits_next\<close>), a notification
  appends one row that is no command (\<open>fits_note\<close>), a change of an operation's status is a
  change of the list's last element or of none that the status reads (\<open>fits_ops\<close>), and a column
  the invariant does not read may change (\<open>fits_cong\<close>).
\<close>

section \<open>One credential\<close>

lemma map_filter_snoc: "List.map_filter f (xs @ [x]) = List.map_filter f xs @ (case f x of None \<Rightarrow> [] | Some y \<Rightarrow> [y])"
  by (induction xs) (simp_all add: List.map_filter_simps split: option.split)

lemma command_revisions:
  assumes "map op_command os' = map op_command os"
  shows "map aop_desired_revision os' = map aop_desired_revision os"
proof -
  have "map (fst \<circ> snd) (map op_command os') = map (fst \<circ> snd) (map op_command os)" by (simp only: assms)
  then show ?thesis by (simp add: op_command_def comp_def)
qed

lemma fits_next:
  assumes "fits c (os, rs, n, es)" and ops: "map op_command os' = map op_command os"
    and "aop_desired_revision o1 = cr_version c + 1" and "aop_status o1 = AopPending"
    and "cr_version d = cr_version c + 1" and "cr_outbox_sequence d = cr_outbox_sequence c + 1"
    and "cr_status d = (if aop_kind o1 = AccProvision then CsProvisioning else CsRevoking)"
  shows "fits d (os' @ [o1], rs @ [(Some (cr_outbox_sequence c + 1), Some (op_command o1))], 0, es')"
  using assms command_revisions [OF ops]
  by (cases "aop_kind o1") (simp_all add: fits_def status_fits_def ready_def upto_rec2 map_filter_snoc)

lemma fits_note:
  assumes "fits c (os, rs, n, es)" and "cr_version d = cr_version c" and "cr_outbox_sequence d = cr_outbox_sequence c + 1"
    and "cr_status d = cr_status c" and "cr_allocation_revision d = cr_allocation_revision c"
  shows "fits d (os, rs @ [(Some (cr_outbox_sequence c + 1), None)], n, es)"
  using assms by (simp add: fits_def upto_rec2 map_filter_snoc)

lemma fits_cong:
  assumes "fits c h" and "cr_version d = cr_version c" and "cr_outbox_sequence d = cr_outbox_sequence c"
    and "cr_status d = cr_status c" and "cr_allocation_revision d = cr_allocation_revision c"
  shows "fits d h"
  using assms by (auto simp: fits_def)

lemma fits_current:
  assumes "fits c (os, rs, n, es)" and "o1 \<in> set os" and "aop_desired_revision o1 = cr_version c"
  shows "last os = o1" and "distinct (map aop_desired_revision os)"
proof -
  from assms(1) have revs: "map aop_desired_revision os = [1..cr_version c]" and "1 \<le> cr_version c" by (simp_all add: fits_def)
  then have d: "distinct (map aop_desired_revision os)" and "os \<noteq> []" by auto
  have "last [1..k] = k" if "1 \<le> k" for k :: int using that by (simp add: upto_rec2)
  then have "aop_desired_revision (last os) = cr_version c" using revs \<open>os \<noteq> []\<close> \<open>1 \<le> cr_version c\<close> by (metis last_map)
  with d assms(2,3) \<open>os \<noteq> []\<close> show "last os = o1" by (intro distinct_key_eq [OF d]) auto
  show "distinct (map aop_desired_revision os)" by (rule d)
qed

lemma fits_ops:
  assumes "fits c (os, rs, n, es)" and "map op_command os' = map op_command os" and "status_fits (cr_status d) (last os')"
    and "cr_version d = cr_version c" and "cr_outbox_sequence d = cr_outbox_sequence c"
    and "0 < n \<Longrightarrow> ready (cr_status d)" and "ready (cr_status d) \<Longrightarrow> cr_allocation_revision d = cr_version d \<and> list_all (\<lambda>r. r = cr_version d) es'"
  shows "fits d (os', rs, n, es')"
  using assms command_revisions [OF assms(2)] by (auto simp: fits_def)

section \<open>Tables\<close>

lemma filter_tbl_other: "(\<And>r. r \<in> set rows \<Longrightarrow> p r \<Longrightarrow> \<not> q r \<and> \<not> q (f r)) \<Longrightarrow> filter q (tbl_update p f rows) = filter q rows"
  by (induction rows) auto

lemma filter_tbl_own: "(\<And>r. p r \<Longrightarrow> q (f r) = q r) \<Longrightarrow> filter q (tbl_update p f rows) = tbl_update p f (filter q rows)"
  by (induction rows) auto

lemma tbl_update_none: "tbl_update (\<lambda>_. False) f rows = rows"
  by (simp add: tbl_update_def)

lemma tbl_update_twice:
  "(\<And>r. p (f r) = p r) \<Longrightarrow> tbl_update p g (tbl_update p f rows) = tbl_update p (\<lambda>r. g (f r)) rows"
  by (simp add: tbl_update_def)

lemma hist_eqI:
  assumes "filter (\<lambda>o1. aop_credential_id o1 = cid) (ac_operations t) = filter (\<lambda>o1. aop_credential_id o1 = cid) (ac_operations st)"
    and "filter (\<lambda>r. ob_aggregate_id r = cid) (ac_outbox t) = filter (\<lambda>r. ob_aggregate_id r = cid) (ac_outbox st)"
    and "length (filter (\<lambda>t. tk_credential_id t = cid \<and> tk_status t = TkActive) (ac_tokens t))
      = length (filter (\<lambda>t. tk_credential_id t = cid \<and> tk_status t = TkActive) (ac_tokens st))"
    and "filter (\<lambda>e. er_credential_id e = cid) (ac_endpoints t) = filter (\<lambda>e. er_credential_id e = cid) (ac_endpoints st)"
  shows "hist cid t = hist cid st"
  using assms by (simp add: hist_def)

lemma keys_append_row:
  assumes ok: "acc_ok st" and c: "c \<in> set (ac_credentials st)"
    and R: "ob_aggregate_id R = cr_id c" "ob_sequence R = Some (cr_outbox_sequence c + 1)" "ob_state R = ObPending"
      "\<forall>r \<in> set (ac_outbox st). ob_event_id r \<noteq> ob_event_id R"
  shows "in_order (ac_outbox st @ [R])" "distinct (map ob_event_id (ac_outbox st @ [R]))"
proof -
  from ok have k: "in_order (ac_outbox st)" "distinct (map ob_event_id (ac_outbox st))" by (simp_all add: acc_ok_def keys_ok_def)
  from acc_okD(2) [OF ok c] have seqs: "map ob_sequence (filter (\<lambda>r. ob_aggregate_id r = cr_id c) (ac_outbox st)) = map Some [1..cr_outbox_sequence c]"
    by (simp add: fits_def hist_def comp_def)
  have "\<not> precedes R p" if p: "p \<in> set (ac_outbox st)" for p
  proof
    assume pr: "precedes R p"
    with R(1) p have "ob_sequence p \<in> set (map ob_sequence (filter (\<lambda>r. ob_aggregate_id r = cr_id c) (ac_outbox st)))" by (auto simp: precedes_def)
    with seqs have "ob_sequence p \<in> Some ` set [1..cr_outbox_sequence c]" by simp
    with pr R(2) show False by (auto simp: precedes_def)
  qed
  then have "newest_of_aggregate R (ac_outbox st)" using R(2,3) by (simp add: newest_of_aggregate_def precedes_def)
  with k(1) show "in_order (ac_outbox st @ [R])" by (rule in_order_append)
  show "distinct (map ob_event_id (ac_outbox st @ [R]))" using k(2) R(4) by auto
qed

lemma keys_new_row:
  assumes ok: "acc_ok st" and c: "cid \<notin> cr_id ` set (ac_credentials st)"
    and R: "ob_aggregate_id R = cid" "ob_sequence R = Some n" "ob_state R = ObPending" "\<forall>r \<in> set (ac_outbox st). ob_event_id r \<noteq> ob_event_id R"
  shows "in_order (ac_outbox st @ [R])" "distinct (map ob_event_id (ac_outbox st @ [R]))"
proof -
  from ok have k: "in_order (ac_outbox st)" "distinct (map ob_event_id (ac_outbox st))" by (simp_all add: acc_ok_def keys_ok_def)
  from ok c have "hist cid st = ([], [], 0, [])" by (simp add: acc_ok_def)
  then have "filter (\<lambda>r. ob_aggregate_id r = cid) (ac_outbox st) = []" by (simp add: hist_def)
  then have "newest_of_aggregate R (ac_outbox st)" using R by (auto simp: newest_of_aggregate_def precedes_def filter_empty_conv)
  with k(1) show "in_order (ac_outbox st @ [R])" by (rule in_order_append)
  show "distinct (map ob_event_id (ac_outbox st @ [R]))" using k(2) R(4) by auto
qed

lemma acc_ok_new:
  assumes ok: "acc_ok st" and new: "cr_id c \<notin> cr_id ` set (ac_credentials st)"
    and free: "\<forall>d \<in> set (ac_credentials st). cr_subscription_id d = cr_subscription_id c \<longrightarrow> cr_status d = CsRevoked"
    and creds: "ac_credentials t = ac_credentials st @ [c]" and others: "\<And>cid. cid \<noteq> cr_id c \<Longrightarrow> hist cid t = hist cid st"
    and fit: "fits c (hist (cr_id c) t)" and keys: "keys_ok t"
  shows "acc_ok t"
proof -
  from ok have "one_current (ac_credentials st)" by (simp add: acc_ok_def)
  with free have "one_current (ac_credentials t)" unfolding creds one_current_def by (metis Un_iff empty_iff empty_set insert_iff list.simps(15) set_append)
  moreover have "fits r (hist (cr_id r) t)" if "r \<in> set (ac_credentials t)" for r
  proof (cases "r = c")
    case False
    with that have r: "r \<in> set (ac_credentials st)" by (simp add: creds)
    with new have "cr_id r \<noteq> cr_id c" by (metis imageI)
    with others [of "cr_id r"] ok r show ?thesis by (simp add: acc_ok_def)
  qed (use fit in simp)
  moreover have "hist cid t = ([], [], 0, [])" if "cid \<notin> cr_id ` set (ac_credentials t)" for cid
    using that others [of cid] ok by (simp add: creds acc_ok_def)
  ultimately show ?thesis using ok new keys by (simp add: acc_ok_def creds)
qed

section \<open>What the invariant does not read\<close>

definition core :: "acc_store \<Rightarrow> credential_row list \<times> acc_operation_row list \<times> acc_outbox_row list \<times> token_row list \<times> endpoint_row list" where
  "core st = (ac_credentials st, ac_operations st, ac_outbox st, ac_tokens st, ac_endpoints st)"

lemma core_updates [simp]:
  "core (ac_sli_update f1 st) = core st" "core (ac_inbox_update f2 st) = core st" "core (ac_lifecycle_update f3 st) = core st"
  "core (ac_outcomes_update f4 st) = core st" "core (ac_dead_letters_update f5 st) = core st" "core (ac_audit_update f6 st) = core st"
  "core (ac_recoveries_update f7 st) = core st" "core (ac_assignments_update f8 st) = core st" "core (ac_url_idempotency_update f9 st) = core st"
  by (simp_all add: core_def)

lemma acc_ok_core: "core t = core st \<Longrightarrow> acc_ok st \<Longrightarrow> acc_ok t"
  by (rule acc_ok_same [of st]) (simp_all add: core_def)

lemma insertInbox_core: "acc_insertInbox pick meta st = (Inr b, t) \<Longrightarrow> core t = core st"
  by (auto simp: acc_insertInbox_def Let_def tx_bind_Inr tx_results split: if_splits)

lemma prepareLifecycle_core:
  assumes "prepareLifecycle pick meta sid uid st = (Inr b, t)"
  shows "core t = core st"
proof -
  have "core (init_lifecycle sid uid st) = core st" by (simp add: init_lifecycle_def)
  then show ?thesis using assms
    by (auto simp: prepareLifecycle_def tx_bind_Inr tx_results split: if_splits option.splits dest!: insertInbox_core)
qed

lemma prepareOutcome_core:
  assumes "prepareOutcome pick meta cid st = (Inr b, t)"
  shows "core t = core st"
proof -
  have "core (init_outcome cid st) = core st" by (simp add: init_outcome_def)
  then show ?thesis using assms
    by (auto simp: prepareOutcome_def tx_bind_Inr tx_results split: if_splits option.splits dest!: insertInbox_core)
qed

lemma complete_sli_core: "completePaymentAccessSLI now meta event kind st = (Inr u, t) \<Longrightarrow> core t = core st"
  by (auto simp: completePaymentAccessSLI_def Let_def tx_bind_Inr tx_results split: if_splits option.splits)

lemma quiet_core:
  "ApplyPaymentSucceeded pick meta payment st = (Inr u, t) \<Longrightarrow> core t = core st"
  "ApplyGrace pick meta grace st = (Inr u, t) \<Longrightarrow> core t = core st"
  "RecordCredentialMaterialAccess eid now cid actor st = (Inr u, t) \<Longrightarrow> core t = core st"
  "acc_RecordDeadLetter topic part off sha reason st = (Inr u, t) \<Longrightarrow> core t = core st"
proof -
  show "ApplyPaymentSucceeded pick meta payment st = (Inr u, t) \<Longrightarrow> core t = core st"
    unfolding ApplyPaymentSucceeded_def Let_def
    by (elim tx_bind_Inr [THEN iffD1, elim_format] exE conjE) (auto simp: tx_bind_Inr tx_results split: if_splits option.splits dest!: insertInbox_core)
  show "ApplyGrace pick meta grace st = (Inr u, t) \<Longrightarrow> core t = core st"
    by (auto simp: ApplyGrace_def tx_bind_Inr tx_results dest: prepareLifecycle_core)
  show "RecordCredentialMaterialAccess eid now cid actor st = (Inr u, t) \<Longrightarrow> core t = core st"
    by (auto simp: RecordCredentialMaterialAccess_def tx_bind_Inr tx_results split: if_splits)
  show "acc_RecordDeadLetter topic part off sha reason st = (Inr u, t) \<Longrightarrow> core t = core st"
    by (auto simp: acc_RecordDeadLetter_def tx_results split: if_splits)
qed

section \<open>A new generation\<close>

text \<open>Both kinds of command are an operation and an outbox row of the same revision.\<close>

definition start :: "uuid \<Rightarrow> AccMeta \<Rightarrow> instant \<Rightarrow> uuid \<Rightarrow> uuid \<Rightarrow> acc_kind \<Rightarrow> int \<Rightarrow> int option \<Rightarrow> unit acc_tx" where
  "start eid meta now oid cid kind rv arev =
     tx_bind (acc_insertOperation oid cid kind rv arev (am_EventID meta) now) (\<lambda>_. insertOperationOutbox eid meta now (command_topic kind) oid cid rv)"

lemma start_kinds:
  "start_provisioning eid meta now oid cid rv = start eid meta now oid cid AccProvision rv None"
  "start_revoke eid meta now oid cid rv arev = start eid meta now oid cid AccRevoke rv (Some arev)"
  by (simp_all add: start_def start_provisioning_def start_revoke_def command_topic_def)

lemma start_result:
  assumes "start eid meta now oid cid kind rv arev st = (Inr u, t)"
  obtains c o1 R where "find_credential cid st = Some c" "\<forall>q \<in> set (ac_operations st). aop_id q \<noteq> aop_id o1"
    "aop_credential_id o1 = cid" "aop_kind o1 = kind" "aop_desired_revision o1 = rv" "aop_status o1 = AopPending"
    "ob_aggregate_id R = cid" "ob_sequence R = Some (cr_outbox_sequence c + 1)" "ob_state R = ObPending" "row_command R = Some (op_command o1)"
    "\<forall>r \<in> set (ac_outbox st). ob_event_id r \<noteq> ob_event_id R"
    "t = (set_cred cid (\<lambda>r. r\<lparr>cr_outbox_sequence := cr_outbox_sequence r + 1\<rparr>) st)\<lparr>ac_operations := ac_operations st @ [o1], ac_outbox := ac_outbox st @ [R]\<rparr>"
proof -
  let ?o = "new_acc_operation oid cid kind rv arev (am_EventID meta) now"
  let ?st1 = "st\<lparr>ac_operations := ac_operations st @ [?o]\<rparr>"
  from assms have op: "\<not> list_ex (aop_clash ?o) (ac_operations st)"
    and out: "acc_insertOutbox eid meta now now (command_topic kind) (''credential:'' @ cid) cid (AdCommand (command_topic kind) oid)
        ''credential'' (AccCommandData oid cid rv) rv ?st1 = (Inr u, t)"
    unfolding start_def insertOperationOutbox_def by (auto simp: tx_bind_Inr insertOperation_result)
  from out obtain c where c: "find_credential cid ?st1 = Some c" "\<forall>r \<in> set (ac_outbox ?st1). ob_event_id r \<noteq> eid"
    and t: "t = (set_cred cid (\<lambda>r. r\<lparr>cr_outbox_sequence := cr_outbox_sequence r + 1\<rparr>) ?st1)\<lparr>ac_outbox := ac_outbox ?st1
       @ [acc_new_row eid meta now now (command_topic kind) (''credential:'' @ cid) cid (AdCommand (command_topic kind) oid)
        ''credential'' (AccCommandData oid cid rv) (cr_outbox_sequence c + 1) rv]\<rparr>"
    by (rule acc_insertOutbox_result)
  show thesis
  proof (rule that)
    show "find_credential cid st = Some c" using c(1) by (simp add: find_credential_def)
    show "\<forall>q \<in> set (ac_operations st). aop_id q \<noteq> aop_id ?o" using op by (auto simp: list_ex_iff aop_clash_def)
    show "row_command (acc_new_row eid meta now now (command_topic kind) (''credential:'' @ cid) cid (AdCommand (command_topic kind) oid)
        ''credential'' (AccCommandData oid cid rv) (cr_outbox_sequence c + 1) rv) = Some (op_command ?o)"
      by (simp add: row_command_def acc_new_row_def op_command_def new_acc_operation_def)
  qed (use c(2) t in \<open>simp_all add: acc_new_row_def new_acc_operation_def\<close>)
qed

abbreviation active_tokens :: "uuid \<Rightarrow> acc_store \<Rightarrow> nat" where
  "active_tokens cid st \<equiv> length (filter (\<lambda>t. tk_credential_id t = cid \<and> tk_status t = TkActive) (ac_tokens st))"

definition restates :: "uuid \<Rightarrow> (acc_operation_row \<Rightarrow> bool) \<Rightarrow> (acc_operation_row \<Rightarrow> acc_operation_row) \<Rightarrow> acc_operation_row list \<Rightarrow> bool" where
  "restates cid p g rows \<longleftrightarrow> (\<forall>o1. aop_id (g o1) = aop_id o1 \<and> aop_credential_id (g o1) = aop_credential_id o1 \<and> op_command (g o1) = op_command o1)
     \<and> (\<forall>o1 \<in> set rows. p o1 \<longrightarrow> aop_credential_id o1 = cid)"

lemma restates_filter:
  assumes "restates cid p g rows"
  shows "filter (\<lambda>o1. aop_credential_id o1 = x) (tbl_update p g rows) =
      (if x = cid then tbl_update p g (filter (\<lambda>o1. aop_credential_id o1 = x) rows) else filter (\<lambda>o1. aop_credential_id o1 = x) rows)"
    and "map op_command (tbl_update p g os) = map op_command os" and "map aop_id (tbl_update p g os) = map aop_id os"
proof -
  show "filter (\<lambda>o1. aop_credential_id o1 = x) (tbl_update p g rows) =
      (if x = cid then tbl_update p g (filter (\<lambda>o1. aop_credential_id o1 = x) rows) else filter (\<lambda>o1. aop_credential_id o1 = x) rows)"
    using assms by (induction rows) (auto simp: restates_def)
qed (use assms in \<open>auto simp: restates_def intro: map_tbl_update\<close>)

lemma generation_ok:
  assumes ok: "acc_ok st" and c: "c \<in> set (ac_credentials st)" "cr_status c \<noteq> CsRevoked"
    and creds: "ac_credentials s0 = tbl_update (\<lambda>r. cr_id r = cr_id c) F (ac_credentials st)"
    and F: "\<And>r. cr_id (F r) = cr_id r" "cr_subscription_id (F c) = cr_subscription_id c" "cr_version (F c) = cr_version c + 1"
      "cr_outbox_sequence (F c) = cr_outbox_sequence c" "cr_status (F c) = (if kind = AccProvision then CsProvisioning else CsRevoking)"
    and ops: "ac_operations s0 = tbl_update p g (ac_operations st)" "restates (cr_id c) p g (ac_operations st)"
    and outbox: "ac_outbox s0 = ac_outbox st"
    and tokens: "\<And>cid. active_tokens cid s0 = (if cid = cr_id c then 0 else active_tokens cid st)" and ids: "map tk_id (ac_tokens s0) = map tk_id (ac_tokens st)"
    and eps: "\<And>cid. cid \<noteq> cr_id c \<Longrightarrow> filter (\<lambda>e. er_credential_id e = cid) (ac_endpoints s0) = filter (\<lambda>e. er_credential_id e = cid) (ac_endpoints st)"
    and run: "start eid meta now oid (cr_id c) kind (cr_version c + 1) arev s0 = (Inr u, t)"
  shows "acc_ok t"
  using run
proof (rule start_result)
  fix d o1 R
  assume d: "find_credential (cr_id c) s0 = Some d" and fresh: "\<forall>q \<in> set (ac_operations s0). aop_id q \<noteq> aop_id o1"
    and o1: "aop_credential_id o1 = cr_id c" "aop_kind o1 = kind" "aop_desired_revision o1 = cr_version c + 1" "aop_status o1 = AopPending"
    and R: "ob_aggregate_id R = cr_id c" "ob_sequence R = Some (cr_outbox_sequence d + 1)" "ob_state R = ObPending" "row_command R = Some (op_command o1)"
      "\<forall>r \<in> set (ac_outbox s0). ob_event_id r \<noteq> ob_event_id R"
    and t: "t = (set_cred (cr_id c) (\<lambda>r. r\<lparr>cr_outbox_sequence := cr_outbox_sequence r + 1\<rparr>) s0)\<lparr>ac_operations := ac_operations s0 @ [o1], ac_outbox := ac_outbox s0 @ [R]\<rparr>"
  have "find_credential (cr_id c) st = Some c" unfolding find_credential_def by (rule find_unique [OF acc_okD(1) [OF ok c(1)] c(1) refl])
  then have "find_credential (cr_id c) s0 = Some (F c)"
    using find_set_cred [of F "cr_id c" st] F(1) by (simp add: find_credential_def creds)
  with d F(4) have sq: "cr_outbox_sequence d = cr_outbox_sequence c" by simp
  have tables: "ac_operations t = tbl_update p g (ac_operations st) @ [o1]" "ac_outbox t = ac_outbox st @ [R]" "ac_tokens t = ac_tokens s0" "ac_endpoints t = ac_endpoints s0"
    using t ops(1) outbox by simp_all
  note own = restates_filter [OF ops(2)]
  let ?os = "filter (\<lambda>o1. aop_credential_id o1 = cr_id c) (ac_operations st)"
  have keys: "in_order (ac_outbox st @ [R])" "distinct (map ob_event_id (ac_outbox st @ [R]))"
    by (rule keys_append_row [OF ok c(1)]; use R sq outbox in simp)+
  show ?thesis
  proof (rule acc_ok_touch [OF ok c(1), where f = "\<lambda>r. (F r)\<lparr>cr_outbox_sequence := cr_outbox_sequence (F r) + 1\<rparr>"])
    show "ac_credentials t = tbl_update (\<lambda>r. cr_id r = cr_id c) (\<lambda>r. (F r)\<lparr>cr_outbox_sequence := cr_outbox_sequence (F r) + 1\<rparr>) (ac_credentials st)"
      using t creds F(1) by (simp add: tbl_update_twice)
    show "hist cid t = hist cid st" if "cid \<noteq> cr_id c" for cid
      by (rule hist_eqI) (use that o1 R tokens [of cid] eps [OF that] in \<open>simp_all add: tables own\<close>)
    from acc_okD(2) [OF ok c(1)] have "fits c (?os, map (\<lambda>r. (ob_sequence r, row_command r)) (filter (\<lambda>r. ob_aggregate_id r = cr_id c) (ac_outbox st)),
      active_tokens (cr_id c) st, map er_allocation_revision (filter (\<lambda>e. er_credential_id e = cr_id c) (ac_endpoints st)))" by (simp add: hist_def)
    note fits_next [OF this own(2) [of ?os]]
    then show "fits ((F c)\<lparr>cr_outbox_sequence := cr_outbox_sequence (F c) + 1\<rparr>) (hist (cr_id c) t)"
      using o1 R F sq tokens [of "cr_id c"] by (simp add: hist_def tables own)
    have "distinct (map aop_id (ac_operations st))" "distinct (map tk_id (ac_tokens st))" using ok by (simp_all add: acc_ok_def keys_ok_def)
    moreover have "aop_id o1 \<notin> set (map aop_id (tbl_update p g (ac_operations st)))" using fresh ops(1) by auto
    ultimately show "keys_ok t" using keys by (simp add: keys_ok_def tables own(3) ids)
  qed (use F c(2) in simp_all)
qed

end
