(* ===== verification/Access_Steps.thy ===== *)
theory Access_Steps
  imports Access_Invariants
begin

text \<open>
  The operations of the access store keep \<open>acc_ok\<close>: each is a new generation, a restatement of
  one credential, a notification, or a change the invariant does not read.
\<close>

section \<open>Restating one credential\<close>

lemma last_tbl_update: "xs \<noteq> [] \<Longrightarrow> last (tbl_update p g xs) = (if p (last xs) then g (last xs) else last xs)"
  by (simp add: tbl_update_def last_map)

lemma restate_ok:
  assumes ok: "acc_ok st" and c: "c \<in> set (ac_credentials st)"
    and creds: "ac_credentials t = tbl_update (\<lambda>r. cr_id r = cr_id c) F (ac_credentials st)"
    and F: "cr_id (F c) = cr_id c" "cr_subscription_id (F c) = cr_subscription_id c" "cr_version (F c) = cr_version c"
      "cr_outbox_sequence (F c) = cr_outbox_sequence c" "cr_status c = CsRevoked \<Longrightarrow> cr_status (F c) = CsRevoked"
    and ops: "ac_operations t = tbl_update p g (ac_operations st)" "restates (cr_id c) p g (ac_operations st)"
    and outbox: "ac_outbox t = ac_outbox st"
    and tokens: "\<And>cid. active_tokens cid t = active_tokens cid st" and ids: "map tk_id (ac_tokens t) = map tk_id (ac_tokens st)"
    and eps: "\<And>cid. cid \<noteq> cr_id c \<Longrightarrow> filter (\<lambda>e. er_credential_id e = cid) (ac_endpoints t) = filter (\<lambda>e. er_credential_id e = cid) (ac_endpoints st)"
    and fit: "status_fits (cr_status (F c)) (last (tbl_update p g (filter (\<lambda>o1. aop_credential_id o1 = cr_id c) (ac_operations st))))"
      "0 < active_tokens (cr_id c) st \<Longrightarrow> ready (cr_status (F c))"
      "ready (cr_status (F c)) \<Longrightarrow> cr_allocation_revision (F c) = cr_version c
         \<and> (\<forall>e \<in> set (ac_endpoints t). er_credential_id e = cr_id c \<longrightarrow> er_allocation_revision e = cr_version c)"
  shows "acc_ok t"
proof (rule acc_ok_touch [OF ok c creds F(1,2)])
  note own = restates_filter [OF ops(2)]
  show "hist cid t = hist cid st" if "cid \<noteq> cr_id c" for cid
    by (rule hist_eqI) (use that tokens [of cid] eps [OF that] outbox in \<open>simp_all add: ops(1) own\<close>)
  let ?os = "filter (\<lambda>o1. aop_credential_id o1 = cr_id c) (ac_operations st)"
  from acc_okD(2) [OF ok c] have "fits c (?os, map (\<lambda>r. (ob_sequence r, row_command r)) (filter (\<lambda>r. ob_aggregate_id r = cr_id c) (ac_outbox st)),
      active_tokens (cr_id c) st, map er_allocation_revision (filter (\<lambda>e. er_credential_id e = cr_id c) (ac_endpoints st)))" by (simp add: hist_def)
  from fits_ops [OF this own(2) fit(1) F(3,4) fit(2)]
  show "fits (F c) (hist (cr_id c) t)" using fit(3) F(3) tokens [of "cr_id c"] outbox by (auto simp: hist_def ops(1) own list_all_iff)
  show "keys_ok t" using ok outbox own(3) ids by (simp add: acc_ok_def keys_ok_def ops(1))
qed (use F(5) in simp)

text \<open>A change of a credential's other columns, of its endpoints' order or of its tokens' times.\<close>

lemma restates_none: "restates cid (\<lambda>_. False) id rows"
  by (simp add: restates_def)

lemma status_of:
  assumes "acc_ok st" and "c \<in> set (ac_credentials st)"
  shows "status_fits (cr_status c) (last (filter (\<lambda>o1. aop_credential_id o1 = cr_id c) (ac_operations st)))"
    and "0 < active_tokens (cr_id c) st \<Longrightarrow> ready (cr_status c)" and "active_tokens (cr_id c) st \<le> 1"
    and "filter (\<lambda>o1. aop_credential_id o1 = cr_id c) (ac_operations st) \<noteq> []"
    and "ready (cr_status c) \<Longrightarrow> cr_allocation_revision c = cr_version c
         \<and> (\<forall>e \<in> set (ac_endpoints st). er_credential_id e = cr_id c \<longrightarrow> er_allocation_revision e = cr_version c)"
proof -
  from acc_okD(2) [OF assms] have f: "fits c (hist (cr_id c) st)" .
  then show "status_fits (cr_status c) (last (filter (\<lambda>o1. aop_credential_id o1 = cr_id c) (ac_operations st)))" "active_tokens (cr_id c) st \<le> 1"
    "0 < active_tokens (cr_id c) st \<Longrightarrow> ready (cr_status c)"
    by (simp_all add: fits_def hist_def)
  from f have "map aop_desired_revision (filter (\<lambda>o1. aop_credential_id o1 = cr_id c) (ac_operations st)) = [1..cr_version c]" "1 \<le> cr_version c"
    by (simp_all add: fits_def hist_def)
  then show "filter (\<lambda>o1. aop_credential_id o1 = cr_id c) (ac_operations st) \<noteq> []" by (metis map_is_Nil_conv upto_Nil2 not_less)
  from f show "ready (cr_status c) \<Longrightarrow> cr_allocation_revision c = cr_version c
         \<and> (\<forall>e \<in> set (ac_endpoints st). er_credential_id e = cr_id c \<longrightarrow> er_allocation_revision e = cr_version c)"
    by (auto simp: fits_def hist_def list_all_iff)
qed

lemma notify_ok:
  assumes ok: "acc_ok st" and run: "insertNotificationOutbox eid meta now occ topic uid cid dedupe data st = (Inr u, t)"
    and data: "\<nexists>oid x rv. data = AccCommandData oid x rv"
  shows "acc_ok t"
  using run
proof (rule insertNotification_result)
  fix c :: credential_row
  let ?R = "acc_new_row eid meta now occ topic (''user:'' @ uid) cid dedupe ''access'' data (cr_outbox_sequence c + 1) (cr_notification_sequence c + 1)"
  let ?F = "\<lambda>r :: credential_row. r\<lparr>cr_notification_sequence := cr_notification_sequence r + 1, cr_outbox_sequence := cr_outbox_sequence r + 1\<rparr>"
  assume found: "find_credential cid st = Some c" and fresh: "\<forall>r \<in> set (ac_outbox st). ob_event_id r \<noteq> eid"
    and t: "t = (set_cred cid ?F st)\<lparr>ac_outbox := ac_outbox st @ [?R]\<rparr>"
  obtain R where R: "R = ?R" by simp
  have row: "ob_aggregate_id R = cid" "ob_sequence R = Some (cr_outbox_sequence c + 1)" "ob_state R = ObPending" "row_command R = None" "ob_event_id R = eid"
    using data unfolding R by (auto simp: acc_new_row_def row_command_def split: acc_event_data.splits)
  note c = find_credentialD [OF ok found]
  have tables: "ac_credentials t = tbl_update (\<lambda>r. cr_id r = cr_id c) ?F (ac_credentials st)" "ac_operations t = ac_operations st"
    "ac_outbox t = ac_outbox st @ [R]" "ac_tokens t = ac_tokens st" "ac_endpoints t = ac_endpoints st"
    using t R c(2) by simp_all
  have keys: "in_order (ac_outbox st @ [R])" "distinct (map ob_event_id (ac_outbox st @ [R]))"
    by (rule keys_append_row [OF ok c(1)]; use row c(2) fresh in simp)+
  show ?thesis
  proof (rule acc_ok_touch [OF ok c(1) tables(1)])
    show "hist x t = hist x st" if "x \<noteq> cr_id c" for x by (rule hist_eqI) (use that row c(2) in \<open>simp_all add: tables\<close>)
    from acc_okD(2) [OF ok c(1)] show "fits (?F c) (hist (cr_id c) t)"
      unfolding hist_def tables using row c(2) by (auto intro!: fits_note)
    show "keys_ok t" using ok keys by (simp add: acc_ok_def keys_ok_def tables)
  qed simp_all
qed

section \<open>What the operations read and write\<close>

lemma acc_find_operationD:
  assumes ok: "acc_ok st" and found: "acc_find_operation cid oid kind rv st = Some (c, o1)"
  shows "c \<in> set (ac_credentials st)" "cr_id c = cid" "o1 \<in> set (ac_operations st)" "aop_credential_id o1 = cid" "aop_id o1 = oid"
    "aop_kind o1 = kind" "aop_desired_revision o1 = rv"
    "\<And>q. q \<in> set (ac_operations st) \<Longrightarrow> aop_id q = oid \<Longrightarrow> q = o1"
    "cr_version c = rv \<Longrightarrow> last (filter (\<lambda>o1. aop_credential_id o1 = cid) (ac_operations st)) = o1"
proof -
  from found have fc: "find_credential cid st = Some c"
    and fo: "find (\<lambda>o1. aop_credential_id o1 = cid \<and> aop_id o1 = oid \<and> aop_kind o1 = kind \<and> aop_desired_revision o1 = rv) (ac_operations st) = Some o1"
    by (auto simp: acc_find_operation_def split: option.splits)
  from find_credentialD [OF ok fc] show c: "c \<in> set (ac_credentials st)" "cr_id c = cid" .
  from find_SomeD [OF fo] show o1: "o1 \<in> set (ac_operations st)" "aop_credential_id o1 = cid" "aop_id o1 = oid" "aop_kind o1 = kind" "aop_desired_revision o1 = rv"
    by blast+
  from ok have d: "distinct (map aop_id (ac_operations st))" by (simp add: acc_ok_def keys_ok_def)
  show "\<And>q. q \<in> set (ac_operations st) \<Longrightarrow> aop_id q = oid \<Longrightarrow> q = o1" by (rule distinct_key_eq [OF d _ o1(1)]) (simp_all add: o1(3))
  show "last (filter (\<lambda>o1. aop_credential_id o1 = cid) (ac_operations st)) = o1" if "cr_version c = rv"
  proof -
    from acc_okD(2) [OF ok c(1)] c(2) obtain rs n es where f: "fits c (filter (\<lambda>o1. aop_credential_id o1 = cid) (ac_operations st), rs, n, es)"
      by (simp add: hist_def)
    show ?thesis by (rule fits_current(1) [OF f]) (use o1 that in simp_all)
  qed
qed

lemma current_credentialD:
  assumes "current_credential sid st = Some c"
  shows "c \<in> set (ac_credentials st)" "cr_subscription_id c = sid" "cr_status c \<noteq> CsRevoked"
  using find_SomeD [OF assms [unfolded current_credential_def]] by blast+

lemma restates_id:
  assumes "acc_ok st" and "acc_find_operation cid oid kind rv st = Some (c, o1)"
    and "\<And>q. aop_id (g q) = aop_id q \<and> aop_credential_id (g q) = aop_credential_id q \<and> op_command (g q) = op_command q"
  shows "restates (cr_id c) (\<lambda>q. aop_id q = oid) g (ac_operations st)"
  unfolding restates_def
proof (intro conjI allI ballI impI)
  fix q assume "q \<in> set (ac_operations st)" "aop_id q = oid"
  from acc_find_operationD(8) [OF assms(1,2) this] acc_find_operationD(2,4) [OF assms(1,2)] show "aop_credential_id q = cr_id c" by simp
qed (use assms(3) in blast)+

lemma insert_assignments_result:
  "insert_assignments cid rv now ns st = (Inr u, t) \<Longrightarrow> \<exists>as. t = st\<lparr>ac_assignments := as\<rparr>"
proof (induction ns arbitrary: st)
  case Nil
  then have "t = st\<lparr>ac_assignments := ac_assignments st\<rparr>" by (simp add: tx_results)
  then show ?case by blast
next
  case (Cons n ns)
  from Cons.prems obtain as where "insert_assignments cid rv now ns (st\<lparr>ac_assignments := as\<rparr>) = (Inr u, t)"
    by (auto simp: tx_bind_Inr tx_results split: if_splits)
  from Cons.IH [OF this] show ?case by auto
qed

lemma insert_endpoints_result:
  "insert_endpoints cid rv now es st = (Inr u, t) \<Longrightarrow> t = st\<lparr>ac_endpoints := ac_endpoints st @ map (new_endpoint cid rv now) es\<rparr>"
proof (induction es arbitrary: st)
  case (Cons e es)
  from Cons.prems have "insert_endpoints cid rv now es (st\<lparr>ac_endpoints := ac_endpoints st @ [new_endpoint cid rv now e]\<rparr>) = (Inr u, t)"
    by (auto simp: tx_bind_Inr tx_results split: if_splits)
  from Cons.IH [OF this] show ?case by simp
qed (simp add: tx_results)

lemma new_endpoint_fields [simp]:
  "er_credential_id (new_endpoint cid rv now e) = cid" "er_allocation_revision (new_endpoint cid rv now e) = rv"
  by (simp_all add: new_endpoint_def EndpointSnapshot.extend_def endpoint_row.fields_def)

lemma replace_result:
  assumes "replaceProvisionSnapshots event now st = (Inr u, t)"
  obtains as es where "t = st\<lparr>ac_assignments := as, ac_endpoints := es\<rparr>"
    "\<And>x. x \<noteq> pvs_CredentialID event \<Longrightarrow> filter (\<lambda>e. er_credential_id e = x) es = filter (\<lambda>e. er_credential_id e = x) (ac_endpoints st)"
    "\<forall>e \<in> set es. er_credential_id e = pvs_CredentialID event \<longrightarrow> er_allocation_revision e = pvs_AppliedRevision event"
proof -
  let ?cid = "pvs_CredentialID event" and ?rv = "pvs_AppliedRevision event"
  from assms obtain as st1 where "insert_assignments ?cid ?rv now (pvs_AssignedNodeIDs event) (st\<lparr>ac_assignments := as\<rparr>) = (Inr (), st1)"
    and rest: "insert_endpoints ?cid ?rv now (pvs_Endpoints event) (clear_endpoints ?cid st1) = (Inr u, t)"
    unfolding replaceProvisionSnapshots_def Let_def by (auto simp: tx_bind_Inr tx_results)
  with insert_assignments_result obtain as' where st1: "st1 = st\<lparr>ac_assignments := as'\<rparr>" by fastforce
  let ?es = "filter (\<lambda>e. er_credential_id e \<noteq> ?cid) (ac_endpoints st) @ map (new_endpoint ?cid ?rv now) (pvs_Endpoints event)"
  show thesis
  proof (rule that)
    show "t = st\<lparr>ac_assignments := as', ac_endpoints := ?es\<rparr>" using insert_endpoints_result [OF rest] by (simp add: st1 clear_endpoints_def)
    show "filter (\<lambda>e. er_credential_id e = x) ?es = filter (\<lambda>e. er_credential_id e = x) (ac_endpoints st)" if "x \<noteq> ?cid" for x
      using that by (auto simp: filter_empty_conv intro: filter_cong)
    show "\<forall>e \<in> set ?es. er_credential_id e = ?cid \<longrightarrow> er_allocation_revision e = ?rv" by auto
  qed
qed

lemma end_tokens_active:
  assumes "s \<noteq> TkActive"
  shows "active_tokens x (end_tokens s cid now st) = (if x = cid then 0 else active_tokens x st)"
proof -
  have "filter (\<lambda>t. tk_credential_id t = x \<and> tk_status t = TkActive)
      (tbl_update (\<lambda>t. tk_credential_id t = cid \<and> tk_status t = TkActive) (\<lambda>t. t\<lparr>tk_status := s, tk_revoked_at := Some now\<rparr>) rows)
    = (if x = cid then [] else filter (\<lambda>t. tk_credential_id t = x \<and> tk_status t = TkActive) rows)" for rows :: "token_row list"
    using assms by (induction rows) auto
  then show ?thesis by (simp add: end_tokens_def)
qed

lemma not_ready_tokens:
  assumes "acc_ok st" and "c \<in> set (ac_credentials st)" and "\<not> ready (cr_status c)"
  shows "active_tokens (cr_id c) st = 0"
  by (rule ccontr) (use status_of(2) [OF assms(1,2)] assms(3) in simp)

section \<open>The subscription's lifecycle\<close>

lemma ApplyTerminal_ok:
  assumes ok: "acc_ok st" and run: "ApplyTerminal pick eid now meta event oid st = (Inr u, t)"
  shows "acc_ok t"
proof -
  from run obtain b st1 where prep: "prepareLifecycle pick meta (te_SubscriptionID event) (te_UserID event) st = (Inr b, st1)"
    and rest: "t = st1 \<or> (\<exists>c. current_credential (te_SubscriptionID event) st1 = Some c
        \<and> start eid meta now oid (cr_id c) AccRevoke (cr_version c + 1) (Some (cr_allocation_revision c))
            (end_tokens TkRevoked (cr_id c) now (set_cred (cr_id c) (\<lambda>r. r\<lparr>cr_status := CsRevoking, cr_version := cr_version c + 1,
                 cr_revocation_reason := Some (te_Reason event), cr_updated_at := now\<rparr>) st1)) = (Inr u, t))"
    unfolding ApplyTerminal_def
    by (auto simp: tx_bind_Inr tx_results update_credential_result start_kinds split: if_splits option.splits)
  have ok1: "acc_ok st1" by (rule acc_ok_core [OF prepareLifecycle_core [OF prep] ok])
  from rest show ?thesis
  proof (elim disjE exE conjE)
    fix c :: credential_row
    let ?F = "\<lambda>r :: credential_row. r\<lparr>cr_status := CsRevoking, cr_version := cr_version c + 1, cr_revocation_reason := Some (te_Reason event), cr_updated_at := now\<rparr>"
    assume found: "current_credential (te_SubscriptionID event) st1 = Some c"
      and go: "start eid meta now oid (cr_id c) AccRevoke (cr_version c + 1) (Some (cr_allocation_revision c))
            (end_tokens TkRevoked (cr_id c) now (set_cred (cr_id c) ?F st1)) = (Inr u, t)"
    show ?thesis
      by (rule generation_ok [OF ok1 current_credentialD(1,3) [OF found] _ _ _ _ _ _ _ restates_none _ _ _ _ go, where F = ?F])
        (simp_all add: end_tokens_active tbl_update_none, simp_all add: end_tokens_def map_tbl_update)
  qed (use ok1 in simp)
qed

lemma insert_credential_result:
  "insert_credential c st = (Inr u, t) \<longleftrightarrow> cred_check c \<and> cr_id c \<notin> cr_id ` set (ac_credentials st)
     \<and> (\<forall>q \<in> set (ac_credentials st). cr_subscription_id q = cr_subscription_id c \<longrightarrow> cr_status q = CsRevoked)
     \<and> t = st\<lparr>ac_credentials := ac_credentials st @ [c]\<rparr>"
  unfolding insert_credential_def by (auto simp: tx_bind_Inr tx_results list_ex_iff image_iff) metis+

lemma new_credential_ok:
  assumes ok: "acc_ok st" and c: "cr_id c \<notin> cr_id ` set (ac_credentials st)" "cr_version c = 1" "cr_outbox_sequence c = 0" "cr_status c = CsProvisioning"
    and free: "\<forall>q \<in> set (ac_credentials st). cr_subscription_id q = cr_subscription_id c \<longrightarrow> cr_status q = CsRevoked"
    and run: "start eid meta now oid (cr_id c) AccProvision 1 None (st\<lparr>ac_credentials := ac_credentials st @ [c]\<rparr>) = (Inr u, t)"
  shows "acc_ok t"
  using run
proof (rule start_result)
  fix d o1 R
  let ?s = "st\<lparr>ac_credentials := ac_credentials st @ [c]\<rparr>" and ?g = "\<lambda>r :: credential_row. r\<lparr>cr_outbox_sequence := cr_outbox_sequence r + 1\<rparr>"
  assume d: "find_credential (cr_id c) ?s = Some d" and fresh: "\<forall>q \<in> set (ac_operations ?s). aop_id q \<noteq> aop_id o1"
    and o1: "aop_credential_id o1 = cr_id c" "aop_kind o1 = AccProvision" "aop_desired_revision o1 = 1" "aop_status o1 = AopPending"
    and R: "ob_aggregate_id R = cr_id c" "ob_sequence R = Some (cr_outbox_sequence d + 1)" "ob_state R = ObPending" "row_command R = Some (op_command o1)"
      "\<forall>r \<in> set (ac_outbox ?s). ob_event_id r \<noteq> ob_event_id R"
    and t: "t = (set_cred (cr_id c) ?g ?s)\<lparr>ac_operations := ac_operations ?s @ [o1], ac_outbox := ac_outbox ?s @ [R]\<rparr>"
  have "find (\<lambda>r. cr_id r = cr_id c) (ac_credentials st) = None" using c(1) by (auto simp: find_None_iff image_iff)
  with d have "d = c" by (simp add: find_credential_def find_append)
  with R(2) c(3) have sq: "ob_sequence R = Some 1" by simp
  have "tbl_update (\<lambda>r. cr_id r = cr_id c) ?g (ac_credentials st) = ac_credentials st" using c(1) by (intro tbl_update_id) (auto simp: image_iff)
  then have creds: "ac_credentials t = ac_credentials st @ [?g c]" using t by (simp add: tbl_update_def)
  have tables: "ac_operations t = ac_operations st @ [o1]" "ac_outbox t = ac_outbox st @ [R]" "ac_tokens t = ac_tokens st" "ac_endpoints t = ac_endpoints st"
    using t by simp_all
  have empty: "hist (cr_id c) st = ([], [], 0, [])" using ok c(1) by (simp add: acc_ok_def)
  have keys: "in_order (ac_outbox st @ [R])" "distinct (map ob_event_id (ac_outbox st @ [R]))"
    by (rule keys_new_row [OF ok c(1) R(1) sq R(3)]; use R(5) in simp)+
  show ?thesis
  proof (rule acc_ok_new [OF ok, where c = "?g c"])
    show "hist x t = hist x st" if "x \<noteq> cr_id (?g c)" for x by (rule hist_eqI) (use that o1 R in \<open>simp_all add: tables\<close>)
    show "fits (?g c) (hist (cr_id (?g c)) t)" using empty o1 R(1,4) sq c
      by (simp add: hist_def tables fits_def status_fits_def ready_def List.map_filter_simps)
    show "keys_ok t" using ok keys fresh by (auto simp: acc_ok_def keys_ok_def tables)
  qed (use c free creds in simp_all)
qed

text \<open>Restarting a failed or revoking credential, by a paid period or by an administrator.\<close>

lemma restart_ok:
  assumes ok: "acc_ok st" and c: "c \<in> set (ac_credentials st)" "cr_status c = CsRevoking \<or> cr_status c = CsFailed"
    and F: "\<And>r. cr_id (F r) = cr_id r" "cr_subscription_id (F c) = cr_subscription_id c" "cr_version (F c) = cr_version c + 1"
      "cr_outbox_sequence (F c) = cr_outbox_sequence c" "cr_status (F c) = CsProvisioning"
    and run: "start_provisioning eid meta now oid (cr_id c) (cr_version c + 1) (clear_endpoints (cr_id c) (set_cred (cr_id c) F st)) = (Inr u, t)"
  shows "acc_ok t"
proof (rule generation_ok [OF ok c(1) _ _ _ _ _ _ _ _ restates_none _ _ _ _ run [unfolded start_kinds], where F = F])
  show "cr_status c \<noteq> CsRevoked" using c(2) by auto
  have tk: "active_tokens (cr_id c) st = 0" by (rule not_ready_tokens [OF ok c(1)]) (use c(2) in \<open>auto simp: ready_def\<close>)
  show "active_tokens x (clear_endpoints (cr_id c) (set_cred (cr_id c) F st)) = (if x = cr_id c then 0 else active_tokens x st)" for x
    using tk by (simp add: clear_endpoints_def)
  show "filter (\<lambda>e. er_credential_id e = x) (ac_endpoints (clear_endpoints (cr_id c) (set_cred (cr_id c) F st))) = filter (\<lambda>e. er_credential_id e = x) (ac_endpoints st)"
    if "x \<noteq> cr_id c" for x using that by (auto simp: clear_endpoints_def intro: filter_cong)
qed (use F in \<open>simp_all add: clear_endpoints_def tbl_update_none\<close>)

lemma extend_ok:
  assumes ok: "acc_ok st" and c: "c \<in> set (ac_credentials st)"
  shows "acc_ok (set_tokens (\<lambda>t. tk_credential_id t = cr_id c \<and> tk_status t = TkActive) (\<lambda>t. t\<lparr>tk_expires_at := f t\<rparr>)
     (set_cred (cr_id c) (\<lambda>r. r\<lparr>cr_entitlement_expires_at := g r, cr_updated_at := now\<rparr>) st))" (is "acc_ok ?t")
proof (rule restate_ok [OF ok c, where p = "\<lambda>_. False" and g = id and F = "\<lambda>r. r\<lparr>cr_entitlement_expires_at := g r, cr_updated_at := now\<rparr>"])
  show "active_tokens x ?t = active_tokens x st" for x
    by (simp add: filter_tbl_own)
qed (use status_of [OF ok c] in \<open>simp_all add: tbl_update_none restates_none map_tbl_update\<close>)

lemma ApplyPeriod_ok:
  assumes ok: "acc_ok st" and run: "ApplyPeriod pick eid now meta event seed st = (Inr u, t)"
  shows "acc_ok t"
proof -
  from run obtain b st1 where prep: "prepareLifecycle pick meta (per_SubscriptionID event) (per_UserID event) st = (Inr b, st1)"
    unfolding ApplyPeriod_def by (auto simp: tx_bind_Inr)
  have ok1: "acc_ok st1" by (rule acc_ok_core [OF prepareLifecycle_core [OF prep] ok])
  show ?thesis
  proof (cases "b \<and> per_GraceEndsAt event > now")
    case False
    with run prep have "t = st1" unfolding ApplyPeriod_def by (auto simp: tx_bind_Inr tx_results split: if_splits)
    with ok1 show ?thesis by simp
  next
    case live: True
    show ?thesis
    proof (cases "current_credential (per_SubscriptionID event) st1")
      case None
      let ?c = "new_credential_row seed event now"
      from run prep live None obtain st2 where c: "cr_id ?c \<notin> cr_id ` set (ac_credentials st1)"
        "\<forall>q \<in> set (ac_credentials st1). cr_subscription_id q = cr_subscription_id ?c \<longrightarrow> cr_status q = CsRevoked"
        and go: "start eid meta now (cseed_OperationID seed) (cseed_CredentialID seed) AccProvision 1 None (st1\<lparr>ac_credentials := ac_credentials st1 @ [?c]\<rparr>) = (Inr (), st2)"
        and sli: "completePaymentAccessSLI now meta event FkActivation st2 = (Inr u, t)"
        unfolding ApplyPeriod_def by (auto simp: tx_bind_Inr tx_results insert_credential_result start_kinds)
      have "acc_ok st2" by (rule new_credential_ok [OF ok1 c(1) _ _ _ c(2)]) (use go in \<open>simp_all add: new_credential_row_def\<close>)
      with complete_sli_core [OF sli] show ?thesis by (rule acc_ok_core)
    next
      case (Some c)
      note c = current_credentialD(1) [OF Some]
      from run prep live Some obtain st2 where sli: "completePaymentAccessSLI now meta event FkExtension st2 = (Inr u, t)"
        and step: "if cr_status c = CsRevoking \<or> cr_status c = CsFailed
          then start_provisioning eid meta now (cseed_OperationID seed) (cr_id c) (cr_version c + 1) (clear_endpoints (cr_id c)
              (set_cred (cr_id c) (\<lambda>r. r\<lparr>cr_status := CsProvisioning, cr_version := cr_version c + 1,
                     cr_allocation_revision := 0, cr_entitlement_expires_at := max (cr_entitlement_expires_at r) (per_GraceEndsAt event),
                     cr_revoked_at := None, cr_revocation_reason := None, cr_updated_at := now\<rparr>) st1)) = (Inr (), st2)
          else st2 = set_tokens (\<lambda>t. tk_credential_id t = cr_id c \<and> tk_status t = TkActive)
                   (\<lambda>t. t\<lparr>tk_expires_at := max (tk_expires_at t) (per_GraceEndsAt event)\<rparr>)
              (set_cred (cr_id c) (\<lambda>r. r\<lparr>cr_entitlement_expires_at :=
                     max (cr_entitlement_expires_at r) (per_GraceEndsAt event), cr_updated_at := now\<rparr>) st1)"
        unfolding ApplyPeriod_def by (auto simp: tx_bind_Inr tx_results update_credential_result split: if_splits)
      have "acc_ok st2"
      proof (cases "cr_status c = CsRevoking \<or> cr_status c = CsFailed")
        case True
        from step [unfolded if_P [OF True]] show ?thesis by (rule restart_ok [OF ok1 c True, rotated 5]) simp_all
      next
        case False
        from step [unfolded if_not_P [OF False]] show ?thesis using extend_ok [OF ok1 c] by simp
      qed
      with complete_sli_core [OF sli] show ?thesis by (rule acc_ok_core)
    qed
  qed
qed

lemma RecoverProvisioning_ok:
  assumes ok: "acc_ok st" and run: "RecoverProvisioning eid now input st = (Inr u, t)"
  shows "acc_ok t"
proof (cases "find (\<lambda>q. rq_idempotency_key q = ari_IdempotencyKey input) (ac_recoveries st)")
  case (Some q)
  with run ok show ?thesis unfolding RecoverProvisioning_def by (auto simp: tx_bind_Inr tx_results split: if_splits)
next
  case None
  show ?thesis
  proof (cases "find_credential (ari_CredentialID input) st")
    case no: None
    with run None show ?thesis unfolding RecoverProvisioning_def by (simp add: tx_bind_Inr tx_results)
  next
    case (Some c)
    note c = find_credentialD [OF ok Some]
    from run None Some obtain st2 meta rs where failed: "cr_status c = CsFailed"
      and go: "start_provisioning eid meta now (ari_OperationID input) (cr_id c) (cr_version c + 1) (clear_endpoints (cr_id c)
          (set_cred (cr_id c) (\<lambda>r. r\<lparr>cr_status := CsProvisioning, cr_version := cr_version c + 1, cr_allocation_revision := 0,
                   cr_revocation_reason := None, cr_revoked_at := None, cr_updated_at := now\<rparr>) st)) = (Inr (), st2)"
      and t: "t = st2\<lparr>ac_recoveries := rs\<rparr>"
      unfolding RecoverProvisioning_def Let_def by (auto simp: tx_bind_Inr tx_results update_credential_result split: if_splits)
    from go have "acc_ok st2" by (rule restart_ok [OF ok c(1), rotated 6]) (simp_all add: failed)
    then show ?thesis unfolding t by (rule acc_ok_core [rotated]) simp
  qed
qed

section \<open>Outcomes of provisioning\<close>

lemma finish_old_ok:
  assumes ok: "acc_ok st" and found: "acc_find_operation cid oid kind rv st = Some (c, o1)" and old: "rv < cr_version c"
    and t: "core t = core (finish_operation oid now st)"
  shows "acc_ok t"
proof -
  note D = acc_find_operationD [OF ok found]
  let ?g = "\<lambda>o1. o1\<lparr>aop_status := AopSucceeded, aop_completed_at := Some now\<rparr>"
  let ?os = "filter (\<lambda>o1. aop_credential_id o1 = cr_id c) (ac_operations st)"
  have revs: "map aop_desired_revision ?os = [1..cr_version c]" and "1 \<le> cr_version c" using acc_okD(2) [OF ok D(1)] by (simp_all add: fits_def hist_def)
  have "last [1..k] = k" if "1 \<le> k" for k :: int using that by (simp add: upto_rec2)
  then have "aop_desired_revision (last ?os) = cr_version c" using revs status_of(4) [OF ok D(1)] \<open>1 \<le> cr_version c\<close> by (metis last_map)
  moreover have "last ?os \<in> set (ac_operations st)" using last_in_set [OF status_of(4) [OF ok D(1)]] by simp
  ultimately have "aop_id (last ?os) \<noteq> oid" using D(7,8) old by fastforce
  then have last: "last (tbl_update (\<lambda>q. aop_id q = oid) ?g ?os) = last ?os" using last_tbl_update [OF status_of(4) [OF ok D(1)]] by simp
  have "acc_ok (finish_operation oid now st)"
    by (rule restate_ok [OF ok D(1), where F = "\<lambda>r. r" and p = "\<lambda>q. aop_id q = oid" and g = ?g])
      (use restates_id [OF ok found, of ?g] last status_of [OF ok D(1)] in \<open>simp_all add: finish_operation_def op_command_def tbl_update_def\<close>)
  with t show ?thesis by (rule acc_ok_core)
qed

text \<open>The outcome of a credential's newest operation.\<close>

lemma settle_ok:
  assumes ok: "acc_ok st" and found: "acc_find_operation cid oid kind rv st = Some (c, o1)" and cur: "cr_version c = rv"
    and g: "\<And>q. aop_id (g q) = aop_id q \<and> aop_credential_id (g q) = aop_credential_id q \<and> op_command (g q) = op_command q"
    and creds: "ac_credentials t = tbl_update (\<lambda>r. cr_id r = cid) F (ac_credentials st)"
    and F: "cr_id (F c) = cr_id c" "cr_subscription_id (F c) = cr_subscription_id c" "cr_version (F c) = cr_version c"
      "cr_outbox_sequence (F c) = cr_outbox_sequence c" "cr_status c = CsRevoked \<Longrightarrow> cr_status (F c) = CsRevoked"
    and tables: "ac_operations t = tbl_update (\<lambda>q. aop_id q = oid) g (ac_operations st)" "ac_outbox t = ac_outbox st" "ac_tokens t = ac_tokens st"
    and eps: "\<And>x. x \<noteq> cid \<Longrightarrow> filter (\<lambda>e. er_credential_id e = x) (ac_endpoints t) = filter (\<lambda>e. er_credential_id e = x) (ac_endpoints st)"
    and fit: "status_fits (cr_status (F c)) (g o1)" "\<not> ready (cr_status c)"
      "ready (cr_status (F c)) \<Longrightarrow> cr_allocation_revision (F c) = cr_version c
         \<and> (\<forall>e \<in> set (ac_endpoints t). er_credential_id e = cid \<longrightarrow> er_allocation_revision e = cr_version c)"
  shows "acc_ok t"
proof -
  note D = acc_find_operationD [OF ok found]
  have "last (filter (\<lambda>o1. aop_credential_id o1 = cr_id c) (ac_operations st)) = o1" using D(9) [OF cur] D(2) by simp
  then have last: "last (tbl_update (\<lambda>q. aop_id q = oid) g (filter (\<lambda>o1. aop_credential_id o1 = cr_id c) (ac_operations st))) = g o1"
    using last_tbl_update [OF status_of(4) [OF ok D(1)]] D(5) by simp
  show ?thesis
  proof (rule restate_ok [OF ok D(1) creds [folded D(2)] F tables(1) restates_id [OF ok found g] tables(2)])
    show "0 < active_tokens (cr_id c) st \<Longrightarrow> ready (cr_status (F c))" using not_ready_tokens [OF ok D(1) fit(2)] by simp
  qed (use fit(1,3) last tables(3) eps D(2) in simp_all)
qed

lemma current_status:
  assumes "acc_ok st" and "acc_find_operation cid oid kind rv st = Some (c, o1)" and "cr_version c = rv" and "aop_status o1 = AopPending"
  shows "cr_status c = (case kind of AccProvision \<Rightarrow> CsProvisioning | AccRevoke \<Rightarrow> CsRevoking)"
proof -
  note D = acc_find_operationD [OF assms(1,2)]
  have "status_fits (cr_status c) o1" using status_of(1) [OF assms(1) D(1)] D(9) [OF assms(3)] D(2) by simp
  with assms(4) D(6) show ?thesis by (cases kind; cases "cr_status c") (auto simp: status_fits_def)
qed

lemma snapshots_ok:
  assumes ok: "acc_ok st" and c: "c \<in> set (ac_credentials st)" "cr_id c = pvs_CredentialID event" "\<not> ready (cr_status c)"
    and run: "replaceProvisionSnapshots event now st = (Inr u, t)"
  shows "acc_ok t"
    "ac_credentials t = ac_credentials st" "ac_operations t = ac_operations st" "ac_outbox t = ac_outbox st" "ac_tokens t = ac_tokens st"
    "\<forall>e \<in> set (ac_endpoints t). er_credential_id e = pvs_CredentialID event \<longrightarrow> er_allocation_revision e = pvs_AppliedRevision event"
    "acc_find_operation cid oid kind rv t = acc_find_operation cid oid kind rv st"
proof -
  from run obtain as es where t: "t = st\<lparr>ac_assignments := as, ac_endpoints := es\<rparr>"
    and es: "\<And>x. x \<noteq> pvs_CredentialID event \<Longrightarrow> filter (\<lambda>e. er_credential_id e = x) es = filter (\<lambda>e. er_credential_id e = x) (ac_endpoints st)"
      "\<forall>e \<in> set es. er_credential_id e = pvs_CredentialID event \<longrightarrow> er_allocation_revision e = pvs_AppliedRevision event"
    by (rule replace_result) blast
  show "acc_ok t"
    by (rule restate_ok [OF ok c(1), where F = "\<lambda>r. r" and p = "\<lambda>_. False" and g = id])
      (use status_of [OF ok c(1)] c(2,3) es(1) in \<open>simp_all add: t tbl_update_none restates_none, simp_all add: tbl_update_def\<close>)
  show "ac_credentials t = ac_credentials st" "ac_operations t = ac_operations st" "ac_outbox t = ac_outbox st" "ac_tokens t = ac_tokens st"
    "\<forall>e \<in> set (ac_endpoints t). er_credential_id e = pvs_CredentialID event \<longrightarrow> er_allocation_revision e = pvs_AppliedRevision event"
    "acc_find_operation cid oid kind rv t = acc_find_operation cid oid kind rv st"
    using es(2) by (simp_all add: t acc_find_operation_def find_credential_def split: option.split)
qed

lemma capture_ok:
  assumes ok: "acc_ok st" and found: "acc_find_operation (pvs_CredentialID event) (pvs_OperationID event) AccProvision (pvs_AppliedRevision event) st = Some (c, o1)"
    and c: "cr_status c = CsRevoking" "pvs_AppliedRevision event < cr_version c" and run: "capture_late event now c st = (Inr u, t)"
  shows "acc_ok t"
proof -
  let ?cid = "pvs_CredentialID event" and ?rv = "pvs_AppliedRevision event" and ?oid = "pvs_OperationID event"
  note D = acc_find_operationD [OF ok found]
  let ?F = "\<lambda>r. if cr_status r = CsRevoking then r\<lparr>cr_allocation_revision := ?rv, cr_updated_at := now\<rparr> else r"
  let ?p = "\<lambda>o1. aop_credential_id o1 = ?cid \<and> aop_kind o1 = AccRevoke \<and> aop_desired_revision o1 = cr_version c \<and> aop_status o1 = AopPending"
  let ?g = "\<lambda>o1. o1\<lparr>aop_allocation_revision := Some ?rv\<rparr>"
  from run obtain st1 where snap: "replaceProvisionSnapshots event now st = (Inr (), st1)"
    and t: "t = set_aops ?p ?g (set_cred ?cid ?F (finish_operation ?oid now st1))"
    unfolding capture_late_def by (auto simp: tx_bind_Inr tx_results update_credential_result split: if_splits)
  have "\<not> ready (cr_status c)" using c(1) by (simp add: ready_def)
  note S = snapshots_ok [OF ok D(1) D(2) this snap]
  let ?st2 = "finish_operation ?oid now st1"
  have ok2: "acc_ok ?st2" by (rule finish_old_ok [OF S(1) found [folded S(7)] c(2) refl])
  have c2: "c \<in> set (ac_credentials ?st2)" using D(1) S(2) by (simp add: finish_operation_def)
  show ?thesis
  proof (rule restate_ok [OF ok2 c2, where F = ?F and p = ?p and g = ?g])
    let ?os = "filter (\<lambda>o1. aop_credential_id o1 = cr_id c) (ac_operations ?st2)"
    have "status_fits (cr_status c) (last (tbl_update ?p ?g ?os))"
      using status_of(1,4) [OF ok2 c2] by (simp add: last_tbl_update status_fits_def split: cred_status.splits)
    then show "status_fits (cr_status (?F c)) (last (tbl_update ?p ?g ?os))" using c(1) by simp
    show "0 < active_tokens (cr_id c) ?st2 \<Longrightarrow> ready (cr_status (?F c))" using status_of(2) [OF ok2 c2] c(1) by simp
    show "ready (cr_status (?F c)) \<Longrightarrow> cr_allocation_revision (?F c) = cr_version c
         \<and> (\<forall>e \<in> set (ac_endpoints t). er_credential_id e = cr_id c \<longrightarrow> er_allocation_revision e = cr_version c)"
      using c(1) by (simp add: ready_def)
  qed (use c(1) D(2) in \<open>simp_all add: t restates_def op_command_def\<close>)
qed

text \<open>The two ends of a provision success that is still current: the entitlement has elapsed, or access is ready.\<close>

lemma provisioned_ok:
  assumes ok: "acc_ok st" and found: "acc_find_operation cid oid AccProvision rv st = Some (c, o1)"
    and cur: "cr_version c = rv" "cr_status c = CsProvisioning"
    and eps: "\<forall>e \<in> set (ac_endpoints st). er_credential_id e = cid \<longrightarrow> er_allocation_revision e = rv"
  shows "start_revoke eid meta now roid cid (rv + 1) rv (end_tokens TkExpired cid now (set_cred cid (\<lambda>r. r\<lparr>cr_status := CsRevoking, cr_version := rv + 1,
           cr_allocation_revision := rv, cr_revocation_reason := Some ''expired'', cr_updated_at := now\<rparr>) (finish_operation oid now st))) = (Inr u, t)
         \<Longrightarrow> acc_ok t"
    and "s = CsActive \<or> s = CsDegraded \<Longrightarrow> acc_ok (set_cred cid (\<lambda>r. r\<lparr>cr_status := s, cr_allocation_revision := rv, cr_updated_at := now\<rparr>)
           (finish_operation oid now st))"
proof -
  note D = acc_find_operationD [OF ok found]
  let ?g = "\<lambda>o1. o1\<lparr>aop_status := AopSucceeded, aop_completed_at := Some now\<rparr>"
  have g: "aop_id (?g q) = aop_id q \<and> aop_credential_id (?g q) = aop_credential_id q \<and> op_command (?g q) = op_command q" for q
    by (simp add: op_command_def)
  show "acc_ok t" if "start_revoke eid meta now roid cid (rv + 1) rv (end_tokens TkExpired cid now (set_cred cid (\<lambda>r. r\<lparr>cr_status := CsRevoking, cr_version := rv + 1,
      cr_allocation_revision := rv, cr_revocation_reason := Some ''expired'', cr_updated_at := now\<rparr>) (finish_operation oid now st))) = (Inr u, t)"
  proof -
    let ?F = "\<lambda>r. r\<lparr>cr_status := CsRevoking, cr_version := rv + 1, cr_allocation_revision := rv, cr_revocation_reason := Some ''expired'', cr_updated_at := now\<rparr>"
    note go = that [unfolded start_kinds, folded D(2) cur(1)]
    show ?thesis
      by (rule generation_ok [OF ok D(1) _ _ _ _ _ _ _ _ restates_id [OF ok found g] _ _ _ _ go, where F = ?F])
        (simp_all add: end_tokens_active cur, simp_all add: end_tokens_def finish_operation_def map_tbl_update cur D(2))
  qed
  assume s: "s = CsActive \<or> s = CsDegraded"
  let ?F = "\<lambda>r. r\<lparr>cr_status := s, cr_allocation_revision := rv, cr_updated_at := now\<rparr>"
  show "acc_ok (set_cred cid ?F (finish_operation oid now st))"
  proof (rule settle_ok [OF ok found cur(1) g, where F = ?F])
    show "status_fits (cr_status (?F c)) (?g o1)" using s D(6) by (auto simp: status_fits_def)
    show "\<not> ready (cr_status c)" using cur(2) by (simp add: ready_def)
  qed (use cur eps in \<open>simp_all add: finish_operation_def\<close>)
qed

text \<open>Every outcome handler is a cursor check, the lookup of its operation, and then its body.\<close>

lemma outcome_cases:
  assumes ok: "acc_ok st"
    and run: "tx_bind (prepareOutcome pick meta cid) (\<lambda>apply. if \<not> apply then tx_return () else tx_bind (tx_get (acc_find_operation cid oid kind rv))
        (\<lambda>found. case found of None \<Rightarrow> tx_fail e | Some (c, o1) \<Rightarrow> body c o1)) st = (Inr u, t)"
  obtains (skipped) "acc_ok t"
    | (applied) st1 c o1 where "acc_ok st1" "acc_find_operation cid oid kind rv st1 = Some (c, o1)" "body c o1 st1 = (Inr u, t)"
proof -
  from run obtain b st1 where prep: "prepareOutcome pick meta cid st = (Inr b, st1)"
    and rest: "(if \<not> b then tx_return () else tx_bind (tx_get (acc_find_operation cid oid kind rv))
        (\<lambda>found. case found of None \<Rightarrow> tx_fail e | Some (c, o1) \<Rightarrow> body c o1)) st1 = (Inr u, t)"
    by (auto simp: tx_bind_Inr)
  have ok1: "acc_ok st1" by (rule acc_ok_core [OF prepareOutcome_core [OF prep] ok])
  show thesis
  proof (cases b)
    case False
    with rest ok1 have "acc_ok t" by (simp add: tx_results)
    then show thesis by (rule skipped)
  next
    case True
    with rest ok1 show thesis by (cases "acc_find_operation cid oid kind rv st1") (auto simp: tx_bind_Inr tx_results intro: applied)
  qed
qed

lemma ApplyProvisionSucceeded_ok:
  assumes ok: "acc_ok st" and run: "ApplyProvisionSucceeded pick eid roid now meta event st = (Inr u, t)"
  shows "acc_ok t"
  using ok run [unfolded ApplyProvisionSucceeded_def Let_def]
proof (cases rule: outcome_cases)
  case (applied st1 c o1)
  let ?cid = "pvs_CredentialID event" and ?oid = "pvs_OperationID event" and ?rv = "pvs_AppliedRevision event"
  note ok1 = applied(1) and found = applied(2)
  note D = acc_find_operationD [OF ok1 found]
  consider "t = st1" | "pvs_AppliedRevision event < cr_version c" "t = finish_operation ?oid now st1"
    | "cr_status c = CsRevoking" "?rv < cr_version c" "capture_late event now c st1 = (Inr u, t)"
    | st2 where "aop_status o1 = AopPending" "cr_version c = ?rv" "replaceProvisionSnapshots event now st1 = (Inr (), st2)"
        "start_revoke eid meta now roid ?cid (?rv + 1) ?rv (end_tokens TkExpired ?cid now (set_cred ?cid (\<lambda>r. r\<lparr>cr_status := CsRevoking, cr_version := ?rv + 1,
          cr_allocation_revision := ?rv, cr_revocation_reason := Some ''expired'', cr_updated_at := now\<rparr>) (finish_operation ?oid now st2))) = (Inr u, t)"
    | st2 s where "aop_status o1 = AopPending" "cr_version c = ?rv" "replaceProvisionSnapshots event now st1 = (Inr (), st2)" "s = CsActive \<or> s = CsDegraded"
        "insertNotificationOutbox eid meta now now ''access.ready.v1'' (cr_user_id c) ?cid (AdReady ?oid)
            (AccReadyData (cr_subscription_id c) ?cid (cr_user_id c) (pvs_Status event) now)
          (set_cred ?cid (\<lambda>r. r\<lparr>cr_status := s, cr_allocation_revision := ?rv, cr_updated_at := now\<rparr>) (finish_operation ?oid now st2)) = (Inr u, t)"
    using applied(3) by (auto simp: tx_bind_Inr tx_results update_credential_result ready_status_def split: if_splits option.splits)
  then show ?thesis
  proof cases
    case 2
    then show ?thesis by (intro finish_old_ok [OF ok1 found 2(1)]) simp
  next
    case 3
    then show ?thesis by (rule capture_ok [OF ok1 found])
  next
    case (4 st2)
    have p: "cr_status c = CsProvisioning" using current_status [OF ok1 found 4(2,1)] by simp
    then have "\<not> ready (cr_status c)" by (simp add: ready_def)
    note S = snapshots_ok [OF ok1 D(1,2) this 4(3)]
    show ?thesis by (rule provisioned_ok(1) [OF S(1) found [folded S(7)] 4(2) p S(6) 4(4)])
  next
    case (5 st2 s)
    have p: "cr_status c = CsProvisioning" using current_status [OF ok1 found 5(2,1)] by simp
    then have "\<not> ready (cr_status c)" by (simp add: ready_def)
    note S = snapshots_ok [OF ok1 D(1,2) this 5(3)]
    show ?thesis by (rule notify_ok [OF provisioned_ok(2) [OF S(1) found [folded S(7)] 5(2) p S(6) 5(4)] 5(5)]) simp
  qed (use ok1 in simp)
qed

lemma ApplyOperationFailed_ok:
  assumes ok: "acc_ok st" and run: "ApplyOperationFailed pick eid now meta event kind st = (Inr u, t)"
  shows "acc_ok t"
  using ok run [unfolded ApplyOperationFailed_def Let_def]
proof (cases rule: outcome_cases)
  case (applied st1 c o1)
  let ?cid = "opf_CredentialID event" and ?oid = "opf_OperationID event" and ?rv = "opf_FailedRevision event"
  let ?g = "\<lambda>o1. o1\<lparr>aop_status := AopFailed, aop_failure_code := Some (opf_ReasonCode event), aop_completed_at := Some (opf_FailedAt event)\<rparr>"
  let ?F = "\<lambda>r. r\<lparr>cr_status := CsFailed, cr_updated_at := opf_FailedAt event\<rparr>"
  note ok1 = applied(1) and found = applied(2)
  have g: "aop_id (?g q) = aop_id q \<and> aop_credential_id (?g q) = aop_credential_id q \<and> op_command (?g q) = op_command q" for q
    by (simp add: op_command_def)
  consider "t = st1" | "cr_version c = ?rv" "aop_status o1 = AopPending" "kind = AccRevoke" "t = set_aops (\<lambda>o1. aop_id o1 = ?oid) ?g st1"
    | "cr_version c = ?rv" "aop_status o1 = AopPending" "kind = AccProvision"
      "insertNotificationOutbox eid meta now (opf_FailedAt event) ''access.provisioning.failed.v1'' (cr_user_id c) ?cid (AdProvisioningFailed ?oid)
          (AccProvisioningFailedData (cr_subscription_id c) ?cid (cr_user_id c) ?rv (opf_ReasonCode event) (opf_FailedAt event))
        (set_cred ?cid ?F (set_aops (\<lambda>o1. aop_id o1 = ?oid) ?g st1)) = (Inr u, t)"
    using applied(3) by (cases kind) (auto simp: tx_bind_Inr tx_results update_credential_result split: if_splits)
  then show ?thesis
  proof cases
    case 2
    show ?thesis
      by (rule settle_ok [OF ok1 found 2(1) g, where F = "\<lambda>r. r"])
        (use 2 current_status [OF ok1 found 2(1,2)] acc_find_operationD(6) [OF ok1 found] in \<open>simp_all add: status_fits_def ready_def, simp_all add: tbl_update_def\<close>)
  next
    case 3
    have "acc_ok (set_cred ?cid ?F (set_aops (\<lambda>o1. aop_id o1 = ?oid) ?g st1))"
      by (rule settle_ok [OF ok1 found 3(1) g, where F = ?F])
        (use 3(3) current_status [OF ok1 found 3(1,2)] acc_find_operationD(6) [OF ok1 found] in \<open>simp_all add: status_fits_def ready_def\<close>)
    then show ?thesis by (rule notify_ok [OF _ 3(4)]) simp
  qed (use ok1 in simp)
qed

lemma ApplyRevokeSucceeded_ok:
  assumes ok: "acc_ok st" and run: "ApplyRevokeSucceeded pick eid now meta event st = (Inr u, t)"
  shows "acc_ok t"
  using ok run [unfolded ApplyRevokeSucceeded_def Let_def]
proof (cases rule: outcome_cases)
  case (applied st1 c o1)
  let ?cid = "rvs_CredentialID event" and ?oid = "rvs_OperationID event" and ?rv = "rvs_DesiredRevision event"
  let ?g = "\<lambda>o1. o1\<lparr>aop_status := AopSucceeded, aop_completed_at := Some now\<rparr>"
  let ?F = "\<lambda>r. r\<lparr>cr_status := CsRevoked, cr_revoked_at := Some now, cr_updated_at := now\<rparr>"
  note ok1 = applied(1) and found = applied(2)
  have g: "aop_id (?g q) = aop_id q \<and> aop_credential_id (?g q) = aop_credential_id q \<and> op_command (?g q) = op_command q" for q
    by (simp add: op_command_def)
  consider "t = st1" | reason where "cr_version c = ?rv" "aop_status o1 = AopPending"
    "insertNotificationOutbox eid meta now now ''access.revoked.v1'' (cr_user_id c) ?cid (AdRevoked ?oid)
       (AccRevokedData (cr_subscription_id c) ?cid (cr_user_id c) ?rv reason now) (finish_operation ?oid now (set_cred ?cid ?F st1)) = (Inr u, t)"
    using applied(3) by (auto simp: tx_bind_Inr tx_results update_credential_result split: if_splits option.splits)
  then show ?thesis
  proof cases
    case (2 reason)
    have "acc_ok (finish_operation ?oid now (set_cred ?cid ?F st1))"
      by (rule settle_ok [OF ok1 found 2(1) g, where F = ?F])
        (use current_status [OF ok1 found 2(1,2)] acc_find_operationD(6) [OF ok1 found] in \<open>simp_all add: finish_operation_def status_fits_def ready_def\<close>)
    then show ?thesis by (rule notify_ok [OF _ 2(3)]) simp
  qed (use ok1 in simp)
qed

section \<open>Tokens and leases\<close>

lemma tokens_ok:
  assumes ok: "acc_ok st" and t: "core (t\<lparr>ac_tokens := []\<rparr>) = core (st\<lparr>ac_tokens := []\<rparr>)" and c: "c \<in> set (ac_credentials st)" "ready (cr_status c)"
    and tk: "active_tokens (cr_id c) t \<le> 1" "\<And>x. x \<noteq> cr_id c \<Longrightarrow> active_tokens x t = active_tokens x st" "distinct (map tk_id (ac_tokens t))"
  shows "acc_ok t"
proof -
  from t have same: "ac_credentials t = ac_credentials st" "ac_operations t = ac_operations st" "ac_outbox t = ac_outbox st" "ac_endpoints t = ac_endpoints st"
    by (simp_all add: core_def)
  show ?thesis
  proof (rule acc_ok_touch [OF ok c(1), where f = "\<lambda>r. r"])
    show "hist x t = hist x st" if "x \<noteq> cr_id c" for x by (rule hist_eqI) (use tk(2) [OF that] in \<open>simp_all add: same\<close>)
    show "fits c (hist (cr_id c) t)" using acc_okD(2) [OF ok c(1)] c(2) tk(1) by (simp add: hist_def same fits_def)
    show "keys_ok t" using ok tk(3) by (simp add: acc_ok_def keys_ok_def same)
  qed (simp_all add: same tbl_update_def)
qed

lemma touch_ok: "acc_ok st \<Longrightarrow> touch_token now tid st = (Inr u, t) \<Longrightarrow> acc_ok t"
  unfolding touch_token_def tx_results
  by (rule acc_ok_frame [of st]) (auto simp: acc_ok_def keys_ok_def filter_tbl_own map_tbl_update intro!: hist_eqI)

lemma insert_tokenD:
  assumes "insert_token tok st = (Inr u, t)"
  shows "\<forall>q \<in> set (ac_tokens st). tk_id q \<noteq> tk_id tok \<and> tk_lookup_hmac q \<noteq> tk_lookup_hmac tok
      \<and> \<not> (tk_credential_id q = tk_credential_id tok \<and> tk_status q = TkActive)"
    "t = st\<lparr>ac_tokens := ac_tokens st @ [tok]\<rparr>"
  using assms unfolding insert_token_def by (auto simp: tx_bind_Inr tx_results list_ex_iff split: if_splits)

lemma insert_urlD: "insert_url_idempotency r st = (Inr u, t) \<Longrightarrow> t = st\<lparr>ac_url_idempotency := ac_url_idempotency st @ [r]\<rparr>"
  unfolding insert_url_idempotency_def by (auto simp: tx_bind_Inr tx_results split: if_splits)

lemma IssueToken_result:
  assumes run: "IssueToken now sid operation seed st = (Inr u, t)"
  obtains c st1 tok us where "current_credential sid st = Some c" "ready (cr_status c)" "now < cr_entitlement_expires_at c"
    "st1 = (case active_token (cr_id c) st of None \<Rightarrow> st
       | Some t \<Rightarrow> set_tokens (\<lambda>q. tk_id q = tk_id t) (\<lambda>q. q\<lparr>tk_status := TkRotated, tk_revoked_at := Some now\<rparr>) st)"
    "tk_credential_id tok = cr_id c" "tk_status tok = TkActive" "tk_expires_at tok = cr_entitlement_expires_at c" "tk_lookup_hmac tok = tseed_LookupHMAC seed"
    "\<forall>q \<in> set (ac_tokens st1). tk_id q \<noteq> tk_id tok \<and> \<not> (tk_credential_id q = cr_id c \<and> tk_status q = TkActive)"
    "\<forall>q \<in> set (ac_tokens st1). tk_lookup_hmac q \<noteq> tk_lookup_hmac tok"
    "t = st1\<lparr>ac_tokens := ac_tokens st1 @ [tok], ac_url_idempotency := us\<rparr>"
proof -
  from run obtain c where cur: "current_credential sid st = Some c"
    and none: "find (\<lambda>u. ui_idempotency_key u = tseed_IdempotencyKey seed) (ac_url_idempotency st) = None"
    unfolding IssueToken_def by (auto simp: tx_bind_Inr tx_results split: option.splits if_splits)
  let ?tok = "\<lparr>tk_id = tseed_TokenID seed, tk_credential_id = cr_id c, tk_lookup_hmac = tseed_LookupHMAC seed,
                     tk_hmac_key_version = tseed_LookupHMACVersion seed, tk_status = TkActive, tk_expires_at = cr_entitlement_expires_at c,
                     tk_rotated_from = map_option tk_id (active_token (cr_id c) st), tk_last_used_at = None, tk_revoked_at = None, tk_created_at = now\<rparr>"
  let ?st1 = "case active_token (cr_id c) st of None \<Rightarrow> st
       | Some t \<Rightarrow> set_tokens (\<lambda>q. tk_id q = tk_id t) (\<lambda>q. q\<lparr>tk_status := TkRotated, tk_revoked_at := Some now\<rparr>) st"
  from run cur none obtain st2 r where ready: "ready (cr_status c)" "now < cr_entitlement_expires_at c"
    and ins: "insert_token ?tok ?st1 = (Inr (), st2)" and url: "insert_url_idempotency r st2 = (Inr u, t)"
    unfolding IssueToken_def by (cases "active_token (cr_id c) st") (auto simp: tx_bind_Inr tx_results ready_def split: if_splits)
  note I = insert_tokenD [OF ins]
  show thesis
    by (rule that [OF cur ready refl, of ?tok "ac_url_idempotency st2 @ [r]"]) (use I(1) insert_urlD [OF url, unfolded I(2)] I(2) in simp_all)
qed

lemma IssueToken_ok:
  assumes ok: "acc_ok st" and run: "IssueToken now sid operation seed st = (Inr u, t)"
  shows "acc_ok t"
  using run
proof (rule IssueToken_result)
  fix c st1 tok us
  assume cur: "current_credential sid st = Some c" and ready: "ready (cr_status c)"
    and st1: "st1 = (case active_token (cr_id c) st of None \<Rightarrow> st
       | Some t \<Rightarrow> set_tokens (\<lambda>q. tk_id q = tk_id t) (\<lambda>q. q\<lparr>tk_status := TkRotated, tk_revoked_at := Some now\<rparr>) st)"
    and tok: "tk_credential_id tok = cr_id c" "\<forall>q \<in> set (ac_tokens st1). tk_id q \<noteq> tk_id tok \<and> \<not> (tk_credential_id q = cr_id c \<and> tk_status q = TkActive)"
    and t: "t = st1\<lparr>ac_tokens := ac_tokens st1 @ [tok], ac_url_idempotency := us\<rparr>"
  note c = current_credentialD(1) [OF cur]
  have d: "distinct (map tk_id (ac_tokens st))" using ok by (simp add: acc_ok_def keys_ok_def)
  have ids: "map tk_id (ac_tokens st1) = map tk_id (ac_tokens st)" by (simp add: st1 map_tbl_update split: option.split)
  have others: "active_tokens x st1 = active_tokens x st" if "x \<noteq> cr_id c" for x
  proof (cases "active_token (cr_id c) st")
    case (Some old)
    then have old: "old \<in> set (ac_tokens st)" "tk_credential_id old = cr_id c" by (auto simp: active_token_def dest: find_SomeD)
    have "tk_credential_id q \<noteq> x" if "q \<in> set (ac_tokens st)" "tk_id q = tk_id old" for q
      using distinct_key_eq [OF d that(1) old(1) that(2)] old(2) \<open>x \<noteq> cr_id c\<close> by simp
    then show ?thesis by (simp add: st1 Some filter_tbl_other)
  qed (simp add: st1)
  have none: "active_tokens (cr_id c) st1 = 0" using tok(2) by (auto simp: filter_empty_conv)
  have "tk_id tok \<notin> set (map tk_id (ac_tokens st1))" using tok(2) by auto
  then have "distinct (map tk_id (ac_tokens t))" using d ids by (simp add: t)
  moreover have "core (t\<lparr>ac_tokens := []\<rparr>) = core (st\<lparr>ac_tokens := []\<rparr>)" by (simp add: t st1 core_def split: option.split)
  ultimately show ?thesis by (intro tokens_ok [OF ok _ c ready]) (use none others tok(1) in \<open>simp_all add: t\<close>)
qed

lemma advance_ok:
  assumes ok: "acc_ok st" and adv: "advances (ac_outbox st) rows" and ord: "in_order rows"
  shows "acc_ok (st\<lparr>ac_outbox := rows\<rparr>)"
proof (rule acc_ok_frame [OF ok])
  from adv have ids: "map ob_identity rows = map ob_identity (ac_outbox st)" by (simp add: advances_def)
  have "map ob_event_id rows = map ob_event_id (ac_outbox st)" using arg_cong [OF ids, of "map fst"] by (simp add: ob_identity_def comp_def)
  then show "keys_ok (st\<lparr>ac_outbox := rows\<rparr>)" using ok ord by (simp add: acc_ok_def keys_ok_def)
  show "hist cid (st\<lparr>ac_outbox := rows\<rparr>) = hist cid st" for cid
  proof -
    have "map (\<lambda>r. (ob_sequence r, row_command r)) (filter (\<lambda>r. ob_aggregate_id r = cid) rows)
      = map (\<lambda>r. (ob_sequence r, row_command r)) (filter (\<lambda>r. ob_aggregate_id r = cid) (ac_outbox st))"
      by (rule filter_by_map [OF ids]) (simp add: ob_identity_def row_command_def split: acc_event_data.split)
    then show ?thesis by (simp add: hist_def)
  qed
qed simp

lemma lease_ok:
  assumes ok: "acc_ok st"
  shows "acc_claim now lease locked st = (Inr m, t) \<Longrightarrow> acc_ok t"
    and "acc_complete now eid st = (Inr u, t) \<Longrightarrow> acc_ok t"
    and "acc_retry now delay eid st = (Inr u, t) \<Longrightarrow> acc_ok t"
proof -
  from ok have d: "distinct (map ob_event_id (ac_outbox st))" "in_order (ac_outbox st)" by (simp_all add: acc_ok_def keys_ok_def)
  show "acc_claim now lease locked st = (Inr m, t) \<Longrightarrow> acc_ok t"
    using acc_outbox.claim_advances [OF d(1)] acc_outbox.claim_in_order [OF d(2,1)]
    by (auto simp: acc_claim_def split: prod.splits intro!: advance_ok [OF ok])
  show "acc_complete now eid st = (Inr u, t) \<Longrightarrow> acc_ok t"
    using advance_ok [OF ok acc_outbox.complete_advances acc_outbox.complete_in_order [OF d(2)], of now eid]
    by (auto simp: acc_complete_def split: prod.splits sum.splits)
  show "acc_retry now delay eid st = (Inr u, t) \<Longrightarrow> acc_ok t"
    using advance_ok [OF ok acc_outbox.retry_advances acc_outbox.retry_in_order [OF d(2)], of now delay eid]
    by (auto simp: acc_retry_def split: prod.splits sum.splits)
qed

section \<open>Reachable stores\<close>

lemma step_acc_ok:
  assumes "acc_step st t" and ok: "acc_ok st"
  shows "acc_ok t"
  using assms(1)
proof cases
qed (simp_all, (rule run_tx_post [where Q = acc_ok, OF _ ok],
   (erule ApplyPeriod_ok [OF ok] ApplyTerminal_ok [OF ok] ApplyProvisionSucceeded_ok [OF ok] ApplyOperationFailed_ok [OF ok] ApplyRevokeSucceeded_ok [OF ok]
        IssueToken_ok [OF ok] RecoverProvisioning_ok [OF ok] touch_ok [OF ok] lease_ok [OF ok]
    | (rule acc_ok_core [OF _ ok], erule quiet_core)))+)

lemma reachable_acc_ok: "acc_reachable st \<Longrightarrow> acc_ok st"
  by (induction rule: acc_reachable.induct) (auto simp: acc_ok_empty intro: step_acc_ok)

end
