(* ===== verification/Access_Service.thy ===== *)
theory Access_Service
  imports Access_Profile Access_Steps Retry Kafka
begin

text \<open>
  The access service above its store: the use cases of \<open>internal/application/service.go\<close> and the
  outbox worker of \<open>internal/application/worker.go\<close>.

  \<open>acc_codec\<close> has what \<open>strictDecode\<close> makes of a record and of an event's data, by its type, and the SHA-256 of
  text as hexadecimal digits; \<open>acc_config\<close> has the keys and the other parameters of the process;
  \<open>acc_env\<close> has what the outside answers during one call: the database clock, fresh random
  values (\<open>None\<close> when the source of randomness fails) and driver faults. Values drawn inside a
  transaction, \<open>av_eventID\<close> and \<open>av_revokeID\<close>, fail as the transaction's faults do.
\<close>

section \<open>Parameters\<close>

record acc_codec =
  adc_envelope :: "string \<Rightarrow> Envelope option"
  adc_payment :: "string \<Rightarrow> AccPaymentSucceeded option"
  adc_period :: "string \<Rightarrow> PeriodEvent option"
  adc_terminal :: "string \<Rightarrow> TerminalEvent option"
  adc_grace :: "string \<Rightarrow> GraceEvent option"
  adc_provisioned :: "string \<Rightarrow> ProvisionSucceeded option"
  adc_failed :: "string \<Rightarrow> OperationFailed option"
  adc_revoked :: "string \<Rightarrow> RevokeSucceeded option"
  adc_sha256 :: "string \<Rightarrow> string"

record acc_config =
  acf_keyring :: Keyring
  acf_hasher :: TokenHasher
  acf_publicURL :: string
  acf_aead :: aead
  acf_hmac :: "string \<Rightarrow> string \<Rightarrow> string"
  acf_isIP :: "string \<Rightarrow> bool"
  acf_urlString :: "vless_url \<Rightarrow> string"
  acf_rawURL :: "string \<Rightarrow> string option"
  acf_sha256 :: "string \<Rightarrow> 8 word list"
  acf_retryDelay :: nanos
  acf_lease :: nanos

record acc_env =
  av_now :: instant
  av_pick :: nat
  av_fault :: fault
  av_fault2 :: fault
  av_eventID :: uuid
  av_revokeID :: uuid
  av_uuid :: "nat \<Rightarrow> uuid option"
  av_nonce :: "string option"
  av_token :: "string option"
  av_locked :: "uuid list"
  av_publish_ok :: bool

definition outcome :: "(acc_error + 'a) \<times> acc_store \<Rightarrow> acc_error option \<times> acc_store" where
  "outcome r = (case r of (Inl e, t) \<Rightarrow> (Some e, t) | (Inr _, t) \<Rightarrow> (None, t))"

definition acc_run :: "acc_env \<Rightarrow> 'a acc_tx \<Rightarrow> acc_store \<Rightarrow> acc_error option \<times> acc_store" where
  "acc_run env m st = outcome (run_tx AccInfra (av_fault env) m st)"

section \<open>Validation\<close>

definition acc_uuid :: "string \<Rightarrow> bool" where
  "acc_uuid = match_runs [(is_hex, 8), ((=) CHR ''-'', 1), (is_hex, 4), ((=) CHR ''-'', 1), (is_hex, 4), ((=) CHR ''-'', 1),
     (\<lambda>c. c \<in> set ''89abAB'', 1), (is_hex, 3), ((=) CHR ''-'', 1), (is_hex, 12)]"

definition reasonCodePattern :: "string \<Rightarrow> bool" where
  "reasonCodePattern s \<longleftrightarrow> 3 \<le> length s \<and> length s \<le> 64 \<and> char_between CHR ''a'' CHR ''z'' (hd s)
     \<and> list_all (\<lambda>c. char_between CHR ''a'' CHR ''z'' c \<or> char_between CHR ''0'' CHR ''9'' c \<or> c = CHR ''_'') (tl s)"

definition acc_validUUIDs :: "string list \<Rightarrow> bool" where
  "acc_validUUIDs values = list_all acc_uuid values"

definition validUniqueUUIDs :: "string list \<Rightarrow> bool" where
  "validUniqueUUIDs values \<longleftrightarrow> list_all acc_uuid values \<and> distinct values"

definition validFailureScope :: "string \<Rightarrow> bool" where
  "validFailureScope value \<longleftrightarrow> value = ''primary'' \<or> value = ''failover'' \<or> value = ''all'' \<or> value = ''unknown''"

definition validRevocationReason :: "string \<Rightarrow> bool" where
  "validRevocationReason value \<longleftrightarrow> value = ''expired'' \<or> value = ''refund'' \<or> value = ''refund_gap'' \<or> value = ''admin_block''
     \<or> value = ''abuse'' \<or> value = ''deleted''"

text \<open>The loop over the endpoints returns the number of primary and of failover endpoints.\<close>

fun count_roles :: "(string \<Rightarrow> bool) \<Rightarrow> uuid list \<Rightarrow> uuid list \<Rightarrow> nat \<Rightarrow> nat \<Rightarrow> EndpointSnapshot list \<Rightarrow> (nat \<times> nat) option" where
  "count_roles isIP assigned seen primary failover [] = Some (primary, failover)"
| "count_roles isIP assigned seen primary failover (e # es) =
     (if \<not> acc_validUUIDs [es_NodeID e] \<or> \<not> ValidateEndpoint isIP e then None
      else if es_NodeID e \<in> set seen then None
      else if es_NodeID e \<notin> set assigned then None
      else if es_Role e = ''primary'' then count_roles isIP assigned (es_NodeID e # seen) (primary + 1) failover es
      else if es_Role e = ''failover'' then count_roles isIP assigned (es_NodeID e # seen) primary (failover + 1) es
      else None)"

definition validateProvisionSucceeded :: "(string \<Rightarrow> bool) \<Rightarrow> AccMeta \<Rightarrow> ProvisionSucceeded \<Rightarrow> bool" where
  "validateProvisionSucceeded isIP meta event \<longleftrightarrow>
     \<not> (pvs_CredentialID event \<noteq> am_AggregateID meta \<or> \<not> acc_validUUIDs [pvs_OperationID event, pvs_CredentialID event]
        \<or> pvs_AppliedRevision event < 1 \<or> pvs_AppliedAt event = 0 \<or> (pvs_Status event \<noteq> ''active'' \<and> pvs_Status event \<noteq> ''degraded'')
        \<or> length (pvs_AssignedNodeIDs event) \<noteq> 2 \<or> \<not> validUniqueUUIDs (pvs_AssignedNodeIDs event))
     \<and> (case count_roles isIP (pvs_AssignedNodeIDs event) [] 0 0 (pvs_Endpoints event) of
          None \<Rightarrow> False
        | Some (primary, failover) \<Rightarrow>
            \<not> (primary \<noteq> 1 \<or> failover > 1 \<or> (pvs_Status event = ''active'' \<and> failover \<noteq> 1) \<or> (pvs_Status event = ''degraded'' \<and> failover \<noteq> 0)))"

definition payment_valid :: "AccMeta \<Rightarrow> AccPaymentSucceeded \<Rightarrow> bool" where
  "payment_valid meta event \<longleftrightarrow>
     \<not> (aps_PaymentID event \<noteq> am_AggregateID meta \<or> am_PartitionKey meta \<noteq> ''user:'' @ aps_UserID event
        \<or> \<not> acc_validUUIDs [aps_PaymentID event, aps_OrderID event, aps_UserID event, aps_PlanID event]
        \<or> aps_AmountMinor event < 1 \<or> aps_Currency event = [] \<or> aps_PaidAt event = 0 \<or> aps_PaidAt event \<noteq> am_OccurredAt meta)"

definition period_valid :: "AccMeta \<Rightarrow> PeriodEvent \<Rightarrow> bool" where
  "period_valid meta event \<longleftrightarrow>
     \<not> (per_SubscriptionID event \<noteq> am_AggregateID meta \<or> am_PartitionKey meta \<noteq> ''user:'' @ per_UserID event \<or> per_UserID event = []
        \<or> \<not> per_GraceEndsAt event > per_PeriodStart event \<or> per_GraceEndsAt event < per_PeriodEnd event)"

definition terminal_valid :: "AccMeta \<Rightarrow> TerminalEvent \<Rightarrow> bool" where
  "terminal_valid meta event \<longleftrightarrow>
     \<not> (te_SubscriptionID event \<noteq> am_AggregateID meta \<or> am_PartitionKey meta \<noteq> ''user:'' @ te_UserID event \<or> te_UserID event = []
        \<or> te_EffectiveAt event = 0 \<or> \<not> validRevocationReason (te_Reason event))"

definition grace_valid :: "AccMeta \<Rightarrow> GraceEvent \<Rightarrow> bool" where
  "grace_valid meta event \<longleftrightarrow>
     \<not> (ge_SubscriptionID event \<noteq> am_AggregateID meta \<or> am_PartitionKey meta \<noteq> ''user:'' @ ge_UserID event \<or> ge_UserID event = []
        \<or> ge_PeriodEnd event = 0 \<or> ge_EffectiveAt event = 0 \<or> \<not> ge_GraceEndsAt event > ge_PeriodEnd event \<or> ge_EffectiveAt event \<noteq> ge_PeriodEnd event)"

definition failed_valid :: "AccMeta \<Rightarrow> OperationFailed \<Rightarrow> bool" where
  "failed_valid meta event \<longleftrightarrow>
     \<not> (opf_CredentialID event \<noteq> am_AggregateID meta \<or> \<not> acc_validUUIDs [opf_OperationID event, opf_CredentialID event] \<or> opf_FailedRevision event < 1
        \<or> \<not> reasonCodePattern (opf_ReasonCode event) \<or> opf_FailedAt event = 0 \<or> \<not> validFailureScope (opf_FailureScope event)
        \<or> \<not> validUniqueUUIDs (opf_PendingNodeIDs event))"

definition revoked_valid :: "AccMeta \<Rightarrow> RevokeSucceeded \<Rightarrow> bool" where
  "revoked_valid meta event \<longleftrightarrow>
     \<not> (rvs_CredentialID event \<noteq> am_AggregateID meta \<or> \<not> acc_validUUIDs [rvs_OperationID event, rvs_CredentialID event] \<or> rvs_DesiredRevision event < 1
        \<or> rvs_AllocationRevision event < 0 \<or> \<not> rvs_AllAssignedNodesRemoved event \<or> rvs_RevokedAt event = 0 \<or> \<not> validUniqueUUIDs (rvs_NodeIDs event))"

section \<open>Events\<close>

definition newCredential :: "acc_config \<Rightarrow> acc_env \<Rightarrow> CredentialSeed option" where
  "newCredential cfg env =
     (case (av_uuid env 0, av_uuid env 1, av_uuid env 2, av_nonce env) of
        (Some credentialID, Some operationID, Some vlessUUID, Some nonce) \<Rightarrow>
          (case Encrypt (acf_aead cfg) (acf_keyring cfg) vlessUUID nonce credentialID of
             None \<Rightarrow> None
           | Some (ciphertext, keyVersion) \<Rightarrow> Some \<lparr>cseed_CredentialID = credentialID, cseed_OperationID = operationID,
               cseed_Ciphertext = ciphertext, cseed_KeyVersion = keyVersion\<rparr>)
      | _ \<Rightarrow> None)"

definition checked :: "'e option \<Rightarrow> ('e \<Rightarrow> bool) \<Rightarrow> ('e \<Rightarrow> acc_store \<Rightarrow> acc_error option \<times> acc_store) \<Rightarrow> acc_store \<Rightarrow> acc_error option \<times> acc_store" where
  "checked decoded valid go st = (case decoded of
       None \<Rightarrow> (Some (AccContractError ''invalid_event_data''), st)
     | Some event \<Rightarrow> if \<not> valid event then (Some (AccContractError ''event_invariant_failed''), st) else go event st)"

definition acc_ProcessEvent :: "acc_config \<Rightarrow> acc_codec \<Rightarrow> acc_env \<Rightarrow> AccMeta \<Rightarrow> string \<Rightarrow> acc_store \<Rightarrow> acc_error option \<times> acc_store" where
  "acc_ProcessEvent cfg cd env meta data st =
     (let t = am_EventType meta in
      if t = ''billing.payment.succeeded.v1''
      then checked (adc_payment cd data) (payment_valid meta) (\<lambda>event. acc_run env (ApplyPaymentSucceeded (av_pick env) meta event)) st
      else if t = ''subscription.activated.v1'' \<or> t = ''subscription.extended.v1''
      then checked (adc_period cd data) (period_valid meta) (\<lambda>event st.
          case newCredential cfg env of
            None \<Rightarrow> (Some AccInfra, st)
          | Some seed \<Rightarrow> acc_run env (ApplyPeriod (av_pick env) (av_eventID env) (av_now env) meta event seed) st) st
      else if t = ''subscription.expired.v1'' \<or> t = ''subscription.revoked.v1''
      then checked (adc_terminal cd data) (terminal_valid meta) (\<lambda>event st.
          case av_uuid env 0 of
            None \<Rightarrow> (Some AccInfra, st)
          | Some operationID \<Rightarrow> acc_run env (ApplyTerminal (av_pick env) (av_eventID env) (av_now env) meta event operationID) st) st
      else if t = ''subscription.grace.started.v1''
      then checked (adc_grace cd data) (grace_valid meta) (\<lambda>event. acc_run env (ApplyGrace (av_pick env) meta event)) st
      else if t = ''access.provision.succeeded.v1''
      then checked (adc_provisioned cd data) (validateProvisionSucceeded (acf_isIP cfg) meta) (\<lambda>event.
          acc_run env (ApplyProvisionSucceeded (av_pick env) (av_eventID env) (av_revokeID env) (av_now env) meta event)) st
      else if t = ''access.provision.failed.v1'' \<or> t = ''access.revoke.failed.v1''
      then checked (adc_failed cd data) (failed_valid meta) (\<lambda>event. acc_run env (ApplyOperationFailed (av_pick env) (av_eventID env) (av_now env)
             meta event (if t = ''access.revoke.failed.v1'' then AccRevoke else AccProvision))) st
      else if t = ''access.revoke.succeeded.v1''
      then checked (adc_revoked cd data) (revoked_valid meta) (\<lambda>event. acc_run env (ApplyRevokeSucceeded (av_pick env) (av_eventID env) (av_now env) meta event)) st
      else (Some (AccContractError ''unsupported_event_type''), st))"

definition acc_ContractErrorCode :: "acc_error \<Rightarrow> string option" where
  "acc_ContractErrorCode err = (case err of
       AccContractError code \<Rightarrow> Some code
     | AccErrDurableStateConflict \<Rightarrow> Some ''durable_state_conflict''
     | _ \<Rightarrow> None)"

section \<open>Requests\<close>

definition IssueSubscriptionURL :: "acc_config \<Rightarrow> acc_codec \<Rightarrow> acc_env \<Rightarrow> uuid \<Rightarrow> string \<Rightarrow> string \<Rightarrow> acc_store \<Rightarrow> (acc_error + string) \<times> acc_store" where
  "IssueSubscriptionURL cfg cd env sid idempotencyKey operation st =
     (if operation \<noteq> ''issue'' \<and> operation \<noteq> ''rotate'' then (Inl AccInfra, st)
      else case (av_token env, av_uuid env 0) of
          (Some token, Some tokenID) \<Rightarrow>
            let seed = \<lparr>tseed_TokenID = tokenID, tseed_LookupHMAC = token_Sum (acf_hmac cfg) (acf_hasher cfg) token,
                   tseed_LookupHMACVersion = th_activeVersion (acf_hasher cfg), tseed_IdempotencyKey = idempotencyKey,
                   tseed_RequestSHA256 = adc_sha256 cd (operation @ CHR 0x0A # sid)\<rparr>
            in (case run_tx AccInfra (av_fault env) (IssueToken (av_now env) sid (if operation = ''issue'' then UrlIssue else UrlRotate) seed) st of
                  (Inl err, t) \<Rightarrow> (Inl err, t)
                | (Inr _, t) \<Rightarrow> (Inr (acf_publicURL cfg @ ''/s/'' @ token), t))
        | _ \<Rightarrow> (Inl AccInfra, st))"

record Profile =
  pr_Body :: string
  pr_ExpiresAt :: instant

text \<open>\<open>st2\<close> is the store when the endpoints are read; it is also the one whose token is touched.\<close>

definition GetProfile :: "acc_config \<Rightarrow> acc_env \<Rightarrow> string \<Rightarrow> acc_store \<Rightarrow> acc_store \<Rightarrow> (acc_error + Profile) \<times> acc_store" where
  "GetProfile cfg env token st st2 =
     (case acf_rawURL cfg token of
        None \<Rightarrow> (Inl AccErrNotFound, st2)
      | Some decoded \<Rightarrow>
          if length decoded \<noteq> 32 then (Inl AccErrNotFound, st2)
          else case GetProfileByTokenHMACs (av_now env) (Candidates (acf_hmac cfg) (acf_hasher cfg) token) st st2 of
              Inl err \<Rightarrow> (Inl err, st2)
            | Inr (tid, rec) \<Rightarrow>
                let t = snd (run_tx AccInfra (av_fault env) (touch_token (av_now env) tid) st2) in
                (case Decrypt (acf_aead cfg) (acf_keyring cfg) (pfr_KeyVersion rec) (pfr_Ciphertext rec) (pfr_CredentialID rec) of
                   None \<Rightarrow> (Inl AccInfra, t)
                 | Some vlessUUID \<Rightarrow>
                     (case happ_Render (acf_isIP cfg) (acf_urlString cfg) vlessUUID (pfr_Endpoints rec) of
                        None \<Rightarrow> (Inl AccInfra, t)
                      | Some body \<Rightarrow> (Inr \<lparr>pr_Body = body, pr_ExpiresAt = pfr_EntitlementExpiresAt rec\<rparr>, t))))"

record AccMaterial =
  amt_CredentialID :: uuid
  amt_SubscriptionID :: uuid
  amt_Revision :: int
  amt_Protocol :: string
  amt_VLESSClientUUID :: string

definition GetProvisioningMaterial :: "acc_config \<Rightarrow> acc_env \<Rightarrow> uuid \<Rightarrow> string \<Rightarrow> acc_store \<Rightarrow> (acc_error + AccMaterial) \<times> acc_store" where
  "GetProvisioningMaterial cfg env cid actor st =
     (if actor = [] \<or> length actor > 64 then (Inl AccInfra, st)
      else case GetProvisioningRecord cid st of
          Inl err \<Rightarrow> (Inl err, st)
        | Inr rec \<Rightarrow>
            (case Decrypt (acf_aead cfg) (acf_keyring cfg) (pvr_KeyVersion rec) (pvr_Ciphertext rec) (pvr_CredentialID rec) of
               None \<Rightarrow> (Inl AccInfra, st)
             | Some vlessUUID \<Rightarrow>
                 (case run_tx AccInfra (av_fault env) (RecordCredentialMaterialAccess (av_eventID env) (av_now env) (pvr_CredentialID rec) actor) st of
                    (Inl err, t) \<Rightarrow> (Inl err, t)
                  | (Inr _, t) \<Rightarrow> (Inr \<lparr>amt_CredentialID = pvr_CredentialID rec, amt_SubscriptionID = pvr_SubscriptionID rec,
                      amt_Revision = pvr_Revision rec, amt_Protocol = ''vless_reality'', amt_VLESSClientUUID = vlessUUID\<rparr>, t))))"

definition acc_RecoverProvisioning :: "acc_env \<Rightarrow> AdminRecoveryInput \<Rightarrow> acc_store \<Rightarrow> (acc_error + AdminRecoveryResult) \<times> acc_store" where
  "acc_RecoverProvisioning env input st = (case av_uuid env 0 of
       None \<Rightarrow> (Inl AccInfra, st)
     | Some operationID \<Rightarrow> run_tx AccInfra (av_fault env) (RecoverProvisioning (av_eventID env) (av_now env) (input\<lparr>ari_OperationID := operationID\<rparr>)) st)"

section \<open>The worker\<close>

definition acc_workOnce :: "acc_config \<Rightarrow> acc_env \<Rightarrow> acc_store \<Rightarrow> acc_error option \<times> acc_store" where
  "acc_workOnce cfg env st =
     (case run_tx AccInfra (av_fault env) (acc_claim (av_now env) (acf_lease cfg) (av_locked env)) st of
        (Inl err, t) \<Rightarrow> (Some err, t)
      | (Inr None, t) \<Rightarrow> (None, t)
      | (Inr (Some message), t) \<Rightarrow>
          outcome (run_tx AccInfra (av_fault2 env)
            (if av_publish_ok env then acc_complete (av_now env) (msg_EventID message)
             else acc_retry (av_now env) (acc_retryBackoff (acf_sha256 cfg) (acf_retryDelay cfg) (msg_Attempts message) (msg_EventID message))
                    (msg_EventID message)) t))"

section \<open>Everything the service does is a sequence of store steps\<close>

lemma snd_outcome [simp]: "snd (outcome r) = snd r"
  by (cases r; cases "fst r") (auto simp: outcome_def)

lemma acc_run_reachable:
  assumes "acc_reachable st" and "acc_step st (snd (run_tx AccInfra (av_fault env) m st))"
  shows "acc_reachable (snd (acc_run env m st))"
  using ar_step [OF assms] by (simp add: acc_run_def)

lemma checked_reachable:
  assumes "acc_reachable st" and "\<And>event. acc_reachable (snd (go event st))"
  shows "acc_reachable (snd (checked decoded valid go st))"
  using assms by (simp add: checked_def split: option.split)

lemma ProcessEvent_reachable:
  assumes "acc_reachable st"
  shows "acc_reachable (snd (acc_ProcessEvent cfg cd env meta data st))"
  unfolding acc_ProcessEvent_def Let_def
  by (auto simp: assms split: option.split intro!: checked_reachable [OF assms] acc_run_reachable [OF assms] acc_step.intros)

lemma requests_reachable:
  assumes "acc_reachable st"
  shows "acc_reachable (snd (IssueSubscriptionURL cfg cd env sid key operation st))"
    and "acc_reachable (snd (GetProfile cfg env token st0 st))"
    and "acc_reachable (snd (GetProvisioningMaterial cfg env cid actor st))"
    and "acc_reachable (snd (acc_RecoverProvisioning env input st))"
proof -
  note [intro] = ar_step [OF assms]
  have run: "acc_reachable t" if "run_tx AccInfra fl m st = (r, t)" "acc_step st (snd (run_tx AccInfra fl m st))" for fl m r t
    using ar_step [OF assms that(2)] that(1) by simp
  show "acc_reachable (snd (IssueSubscriptionURL cfg cd env sid key operation st))"
    using assms by (auto simp: IssueSubscriptionURL_def Let_def split: option.splits prod.splits sum.splits intro: acc_step.intros elim!: run)
  show "acc_reachable (snd (GetProfile cfg env token st0 st))"
    using assms ar_step [OF assms as_touch] by (auto simp: GetProfile_def Let_def split: option.splits sum.splits)
  show "acc_reachable (snd (GetProvisioningMaterial cfg env cid actor st))"
    using assms by (auto simp: GetProvisioningMaterial_def split: option.splits prod.splits sum.splits intro: acc_step.intros elim!: run)
  show "acc_reachable (snd (acc_RecoverProvisioning env input st))"
    using assms ar_step [OF assms as_recover] by (auto simp: acc_RecoverProvisioning_def split: option.splits)
qed

lemma workOnce_reachable:
  assumes "acc_reachable st"
  shows "acc_reachable (snd (acc_workOnce cfg env st))"
proof -
  obtain r t where claim: "run_tx AccInfra (av_fault env) (acc_claim (av_now env) (acf_lease cfg) (av_locked env)) st = (r, t)" by fastforce
  from ar_step [OF assms as_claim, of "av_fault env" "av_now env" "acf_lease cfg" "av_locked env"] claim have t: "acc_reachable t" by simp
  have "acc_reachable (snd (outcome (run_tx AccInfra fl m t)))" if "acc_step t (snd (run_tx AccInfra fl m t))" for fl and m :: "unit acc_tx"
    using ar_step [OF t that] by simp
  with t show ?thesis by (auto simp: acc_workOnce_def claim split: sum.splits option.splits intro: acc_step.intros)
qed

end
