(* ===== verification/Kafka_Consumer.thy ===== *)
theory Kafka_Consumer
  imports Kafka "HOL-Library.Multiset"
begin

text \<open>
  The consumer of ordered events, as the access and the provisioning service have it
  (\<open>internal/kafka/consumer.go\<close> of each): a record whose predecessor has not been seen is deferred and
  its partition paused, and after each committed record, or when a poll returned nothing, the
  deferred records are tried again as long as one of them succeeds.

  What a service does with one record is an argument, \<open>att\<close>: attempt number \<open>k\<close> at a record leaves it
  waiting for a predecessor, to be retried, or committed, with the store after it. Go visits the
  map of deferred records in any order; \<open>order\<close> chooses it.

  The locale \<open>deferring_consumer\<close> has what a poll guarantees when a committed record is a settled
  one, the locale \<open>keeping_consumer\<close> that a poll keeps what every attempt keeps; the services'
  consumers are their interpretations.
\<close>

section \<open>The loops\<close>

record 'st consumer =
  cn_store :: 'st
  cn_committed :: "kafka_record list"
  cn_position :: offsets
  cn_deferred :: "kafka_record list"
  cn_paused :: "(string \<times> int) list"

datatype attempt_result = AtGap | AtRetry | AtCommitted

type_synonym 'st attempts = "nat \<Rightarrow> kafka_record \<Rightarrow> 'st \<Rightarrow> attempt_result \<times> 'st"

definition rec_at :: "kafka_record \<Rightarrow> string \<times> int" where
  "rec_at r = (rec_topic r, rec_partition r)"

definition deferGap :: "kafka_record \<Rightarrow> 'st consumer \<Rightarrow> 'st consumer" where
  "deferGap r c = (if rec_at r \<in> rec_at ` set (cn_deferred c) then c
     else c\<lparr>cn_deferred := cn_deferred c @ [r], cn_paused := cn_paused c @ [rec_at r]\<rparr>)"

fun first_offsets :: "kafka_record list \<Rightarrow> offsets \<Rightarrow> offsets" where
  "first_offsets [] offs = offs"
| "first_offsets (r # rs) offs = first_offsets rs (if offs (rec_at r) = None then offs(rec_at r \<mapsto> rec_offset r) else offs)"

definition rewind_to :: "kafka_record list \<Rightarrow> 'st consumer \<Rightarrow> 'st consumer" where
  "rewind_to records c = c\<lparr>cn_position := cn_position c ++ first_offsets records Map.empty\<rparr>"

definition settle_deferred :: "kafka_record \<Rightarrow> 'st consumer \<Rightarrow> 'st consumer" where
  "settle_deferred r c = c\<lparr>cn_committed := cn_committed c @ [r], cn_deferred := filter (\<lambda>q. rec_at q \<noteq> rec_at r) (cn_deferred c),
     cn_paused := filter (\<lambda>p. p \<noteq> rec_at r) (cn_paused c)\<rparr>"

text \<open>One pass over the deferred records: the next attempt, whether the context was cancelled, and whether a record was committed.\<close>

fun retry_pass :: "'st attempts \<Rightarrow> (nat \<Rightarrow> bool) \<Rightarrow> nat \<Rightarrow> kafka_record list \<Rightarrow> 'st consumer \<Rightarrow> nat \<times> bool \<times> bool \<times> 'st consumer" where
  "retry_pass att quit k [] c = (k, False, False, c)"
| "retry_pass att quit k (r # rs) c =
     (if quit k then (k, True, False, c)
      else case att k r (cn_store c) of
          (AtCommitted, st1) \<Rightarrow>
            (case retry_pass att quit (k + 1) rs (settle_deferred r (c\<lparr>cn_store := st1\<rparr>)) of (k1, stop, _, c1) \<Rightarrow> (k1, stop, True, c1))
        | (_, st1) \<Rightarrow> retry_pass att quit (k + 1) rs (c\<lparr>cn_store := st1\<rparr>))"

definition visited :: "(nat \<Rightarrow> kafka_record list \<Rightarrow> kafka_record list) \<Rightarrow> nat \<Rightarrow> kafka_record list \<Rightarrow> kafka_record list" where
  "visited order k rs = (if mset (order k rs) = mset rs then order k rs else rs)"

lemma mset_visited [simp]: "mset (visited order k rs) = mset rs"
  by (simp add: visited_def)

lemma set_visited [simp]: "set (visited order k rs) = set rs" and length_visited [simp]: "length (visited order k rs) = length rs"
  using mset_visited mset_eq_setD mset_eq_length by blast+

lemma settle_deferred_length: "length (cn_deferred (settle_deferred r c)) \<le> length (cn_deferred c)"
  and settle_deferred_less: "r \<in> set (cn_deferred c) \<Longrightarrow> length (cn_deferred (settle_deferred r c)) < length (cn_deferred c)"
  by (auto simp: settle_deferred_def intro: length_filter_less)

lemma retry_pass_length:
  "retry_pass att quit k rs c = (k1, stop, progressed, c1) \<Longrightarrow> length (cn_deferred c1) \<le> length (cn_deferred c)"
proof (induction rs arbitrary: k c k1 stop progressed c1)
  case (Cons r rs)
  obtain a st1 where at: "att k r (cn_store c) = (a, st1)" by fastforce
  show ?case
  proof (cases "\<not> quit k \<and> a = AtCommitted")
    case True
    with Cons.prems at obtain p where "retry_pass att quit (k + 1) rs (settle_deferred r (c\<lparr>cn_store := st1\<rparr>)) = (k1, stop, p, c1)"
      by (auto split: prod.splits)
    from Cons.IH [OF this] settle_deferred_length [of r "c\<lparr>cn_store := st1\<rparr>"] show ?thesis by simp
  next
    case False
    with Cons.prems at Cons.IH [of "k + 1" "c\<lparr>cn_store := st1\<rparr>"] show ?thesis by (cases a) (auto split: if_splits)
  qed
qed simp

lemma retry_pass_progress:
  "retry_pass att quit k rs c = (k1, stop, True, c1) \<Longrightarrow> set rs \<subseteq> set (cn_deferred c) \<Longrightarrow> length (cn_deferred c1) < length (cn_deferred c)"
proof (induction rs arbitrary: k c k1 stop c1)
  case (Cons r rs)
  obtain a st1 where at: "att k r (cn_store c) = (a, st1)" by fastforce
  show ?case
  proof (cases "\<not> quit k \<and> a = AtCommitted")
    case True
    with Cons.prems at obtain p where "retry_pass att quit (k + 1) rs (settle_deferred r (c\<lparr>cn_store := st1\<rparr>)) = (k1, stop, p, c1)"
      by (auto split: prod.splits)
    from retry_pass_length [OF this] settle_deferred_less [of r "c\<lparr>cn_store := st1\<rparr>"] Cons.prems(2) show ?thesis by simp
  next
    case False
    with Cons.prems at Cons.IH [of "k + 1" "c\<lparr>cn_store := st1\<rparr>"] show ?thesis by (cases a) (auto split: if_splits)
  qed
qed simp

text \<open>A pass with progress leaves fewer deferred records, so the loop ends.\<close>

function retry_deferred :: "'st attempts \<Rightarrow> (nat \<Rightarrow> bool) \<Rightarrow> (nat \<Rightarrow> kafka_record list \<Rightarrow> kafka_record list) \<Rightarrow> nat \<Rightarrow> 'st consumer \<Rightarrow>
    nat \<times> 'st consumer" where
  "retry_deferred att quit order k c =
     (case retry_pass att quit k (visited order k (cn_deferred c)) c of (k1, stop, progressed, c1) \<Rightarrow>
        if stop \<or> \<not> progressed then (k1, c1) else retry_deferred att quit order k1 c1)"
  by pat_completeness auto
termination
  by (relation "measure (\<lambda>(att, quit, order, k, c). length (cn_deferred c))") (auto dest!: retry_pass_progress [OF sym])

declare retry_deferred.simps [simp del]

text \<open>
  \<open>cancelled\<close> says whether the context is done before the record at an attempt, \<open>alive\<close> whether it
  is not when the poll returns, \<open>quit\<close> whether the retry loop sees it done.
\<close>

fun poll_records :: "'st attempts \<Rightarrow> (nat \<Rightarrow> bool) \<Rightarrow> (nat \<Rightarrow> bool) \<Rightarrow> (nat \<Rightarrow> bool) \<Rightarrow> (nat \<Rightarrow> kafka_record list \<Rightarrow> kafka_record list) \<Rightarrow>
    nat \<Rightarrow> kafka_record list \<Rightarrow> 'st consumer \<Rightarrow> bool \<times> 'st consumer" where
  "poll_records att quit cancelled alive order k [] c = (alive k, c)"
| "poll_records att quit cancelled alive order k (r # rs) c =
     (if cancelled k then (False, rewind_to (r # rs) c)
      else case att k r (cn_store c) of
          (AtGap, st1) \<Rightarrow> poll_records att quit cancelled alive order (k + 1) rs (deferGap r (c\<lparr>cn_store := st1\<rparr>))
        | (AtRetry, st1) \<Rightarrow> (alive k, rewind_to (r # rs) (c\<lparr>cn_store := st1\<rparr>))
        | (AtCommitted, st1) \<Rightarrow>
            (case retry_deferred att quit order (k + 1) (c\<lparr>cn_store := st1, cn_committed := cn_committed c @ [r]\<rparr>) of
               (k1, c1) \<Rightarrow> poll_records att quit cancelled alive order k1 rs c1))"

definition poll_once :: "'st attempts \<Rightarrow> (nat \<Rightarrow> bool) \<Rightarrow> (nat \<Rightarrow> bool) \<Rightarrow> (nat \<Rightarrow> bool) \<Rightarrow> (nat \<Rightarrow> kafka_record list \<Rightarrow> kafka_record list) \<Rightarrow>
    kafka_record list \<Rightarrow> 'st consumer \<Rightarrow> bool \<times> 'st consumer" where
  "poll_once att quit cancelled alive order records c =
     (if records = [] \<and> cn_deferred c \<noteq> []
      then (case retry_deferred att quit order 0 c of (k1, c1) \<Rightarrow> (alive k1, c1))
      else poll_records att quit cancelled alive order 0 records c)"

section \<open>The retries end\<close>

lemma retry_pass_attempts: "retry_pass att quit k rs c = (k1, stop, progressed, c1) \<Longrightarrow> k \<le> k1 \<and> k1 \<le> k + length rs"
proof (induction rs arbitrary: k c k1 stop progressed c1)
  case (Cons r rs)
  obtain a st1 where at: "att k r (cn_store c) = (a, st1)" by fastforce
  show ?case
  proof (cases "\<not> quit k \<and> a = AtCommitted")
    case True
    with Cons.prems at obtain p where "retry_pass att quit (k + 1) rs (settle_deferred r (c\<lparr>cn_store := st1\<rparr>)) = (k1, stop, p, c1)"
      by (auto split: prod.splits)
    from Cons.IH [OF this] show ?thesis by simp
  next
    case False
    with Cons.prems at Cons.IH [of "k + 1" "c\<lparr>cn_store := st1\<rparr>"] show ?thesis by (cases a) (fastforce split: if_splits)+
  qed
qed simp

lemma triangle: "0 < (d :: nat) \<Longrightarrow> d + (d - 1) * d div 2 = d * (d + 1) div 2"
proof -
  assume "0 < d"
  then obtain e where d: "d = Suc e" using gr0_conv_Suc by blast
  have "d * (d + 1) = (d - 1) * d + d * 2" unfolding d by simp
  then show ?thesis by simp
qed

lemma retry_deferred_attempts:
  "retry_deferred att quit order k c = (k1, c1) \<Longrightarrow>
     k1 \<le> k + length (cn_deferred c) * (length (cn_deferred c) + 1) div 2 \<and> length (cn_deferred c1) \<le> length (cn_deferred c)"
proof (induction att quit order k c arbitrary: k1 c1 rule: retry_deferred.induct)
  case (1 att quit order k c)
  let ?d = "length (cn_deferred c)"
  obtain k2 stop progressed c2 where p: "retry_pass att quit k (visited order k (cn_deferred c)) c = (k2, stop, progressed, c2)"
    by (metis prod_cases4)
  note A = retry_pass_attempts [OF p] retry_pass_length [OF p]
  show ?case
  proof (cases "stop \<or> \<not> progressed")
    case True
    with 1(2) p have "k1 = k2" "c1 = c2" by (auto simp: retry_deferred.simps [of att quit order k c])
    moreover have "?d \<le> ?d * (?d + 1) div 2" using triangle [of ?d] by (cases "?d = 0") linarith+
    ultimately show ?thesis using A by simp
  next
    case False
    then have pr: "retry_pass att quit k (visited order k (cn_deferred c)) c = (k2, stop, True, c2)" using p by simp
    have less: "length (cn_deferred c2) < ?d" by (rule retry_pass_progress [OF pr]) simp
    from False 1(2) p have "retry_deferred att quit order k2 c2 = (k1, c1)" by (simp add: retry_deferred.simps [of att quit order k c])
    from 1(1) [OF p [symmetric] refl refl False this]
    have k1: "k1 \<le> k2 + length (cn_deferred c2) * (length (cn_deferred c2) + 1) div 2" and c1: "length (cn_deferred c1) \<le> length (cn_deferred c2)"
      by blast+
    have "length (cn_deferred c2) * (length (cn_deferred c2) + 1) \<le> (?d - 1) * ?d" using less by (intro mult_le_mono) simp_all
    then have bound: "length (cn_deferred c2) * (length (cn_deferred c2) + 1) div 2 \<le> (?d - 1) * ?d div 2" by (rule div_le_mono)
    have k2: "k2 \<le> k + ?d" using A(1) by simp
    have "0 < ?d" using less by linarith
    with triangle have "?d + (?d - 1) * ?d div 2 = ?d * (?d + 1) div 2" .
    with k1 k2 bound less c1 show ?thesis by linarith
  qed
qed

text \<open>A consumer's deferred records are of different partitions, and those are the paused ones.\<close>

definition consumer_ok :: "'st consumer \<Rightarrow> bool" where
  "consumer_ok c \<longleftrightarrow> distinct (map rec_at (cn_deferred c)) \<and> cn_paused c = map rec_at (cn_deferred c)"

lemma mset_without_key:
  assumes "distinct (map k xs)" and "r \<in> set xs"
  shows "mset xs = add_mset r (mset (filter (\<lambda>q. k q \<noteq> k r) xs))"
  using assms
proof (induction xs)
  case (Cons x xs)
  have "filter (\<lambda>q. k q \<noteq> k x) xs = xs" using Cons.prems(1) by (auto simp: filter_id_conv image_iff)
  with Cons show ?case by (cases "r = x") (auto simp: image_iff)
qed simp

lemma settle_deferred_ok:
  assumes "consumer_ok c" and "r \<in> set (cn_deferred c)"
  shows "consumer_ok (settle_deferred r c)"
    and "mset (cn_committed (settle_deferred r c)) + mset (cn_deferred (settle_deferred r c)) = mset (cn_committed c) + mset (cn_deferred c)"
proof -
  show "consumer_ok (settle_deferred r c)"
    using assms(1) by (auto simp: consumer_ok_def settle_deferred_def filter_map comp_def distinct_map inj_on_def)
  from mset_without_key [OF _ assms(2), of rec_at] assms(1)
  show "mset (cn_committed (settle_deferred r c)) + mset (cn_deferred (settle_deferred r c)) = mset (cn_committed c) + mset (cn_deferred c)"
    by (simp add: consumer_ok_def settle_deferred_def)
qed

section \<open>Nothing is lost\<close>

definition retried :: "(kafka_record \<Rightarrow> bool) \<Rightarrow> 'st consumer \<Rightarrow> 'st consumer \<Rightarrow> bool" where
  "retried settled c c1 \<longleftrightarrow> consumer_ok c1 \<and> cn_position c1 = cn_position c \<and> set (cn_deferred c1) \<subseteq> set (cn_deferred c)
     \<and> (\<exists>new. cn_committed c1 = cn_committed c @ new \<and> mset new + mset (cn_deferred c1) = mset (cn_deferred c) \<and> list_all (settled) new)"

lemma retried_refl: "consumer_ok c \<Longrightarrow> retried settled c c"
  by (simp add: retried_def)

lemma retried_store: "consumer_ok c \<Longrightarrow> retried settled c (c\<lparr>cn_store := st\<rparr>)"
  by (simp add: retried_def consumer_ok_def)

lemma retried_trans:
  assumes "retried settled a b" and "retried settled b c"
  shows "retried settled a c"
proof -
  from assms obtain n1 n2 where "cn_committed b = cn_committed a @ n1" "mset n1 + mset (cn_deferred b) = mset (cn_deferred a)" "list_all (settled) n1"
    "cn_committed c = cn_committed b @ n2" "mset n2 + mset (cn_deferred c) = mset (cn_deferred b)" "list_all (settled) n2"
    unfolding retried_def by blast
  then have "\<exists>new. cn_committed c = cn_committed a @ new \<and> mset new + mset (cn_deferred c) = mset (cn_deferred a) \<and> list_all (settled) new"
    by (intro exI [of _ "n1 @ n2"]) (simp add: ac_simps)
  with assms show ?thesis unfolding retried_def by auto
qed

lemma retried_settle:
  assumes "consumer_ok c" and "r \<in> set (cn_deferred c)" and "settled r"
  shows "retried settled c (settle_deferred r (c\<lparr>cn_store := st\<rparr>))"
proof -
  have ok: "consumer_ok (c\<lparr>cn_store := st\<rparr>)" using assms(1) by (simp add: consumer_ok_def)
  note S = settle_deferred_ok [OF ok, of r] and M = mset_without_key [of rec_at "cn_deferred c" r]
  show ?thesis unfolding retried_def
  proof (intro conjI exI [of _ "[r]"])
    show "mset [r] + mset (cn_deferred (settle_deferred r (c\<lparr>cn_store := st\<rparr>))) = mset (cn_deferred c)"
      using M assms(1,2) by (simp add: consumer_ok_def settle_deferred_def)
  qed (use S(1) assms in \<open>auto simp: settle_deferred_def\<close>)
qed

locale deferring_consumer =
  fixes att :: "'st attempts" and settled :: "kafka_record \<Rightarrow> bool"
  assumes att_settled: "att k r st = (AtCommitted, t) \<Longrightarrow> settled r"
begin

lemma retry_pass_retried:
  "retry_pass att quit k rs c = (k1, stop, progressed, c1) \<Longrightarrow> consumer_ok c \<Longrightarrow> set rs \<subseteq> set (cn_deferred c) \<Longrightarrow> distinct (map rec_at rs)
   \<Longrightarrow> retried settled c c1"
proof (induction rs arbitrary: k c k1 stop progressed c1)
  case (Cons r rs)
  obtain a st1 where at: "att k r (cn_store c) = (a, st1)" by fastforce
  show ?case
  proof (cases "\<not> quit k \<and> a = AtCommitted")
    case True
    let ?c = "settle_deferred r (c\<lparr>cn_store := st1\<rparr>)"
    from True Cons.prems at obtain p where go: "retry_pass att quit (k + 1) rs ?c = (k1, stop, p, c1)"
      by (auto split: prod.splits)
    have "settled r" using att_settled at True by simp
    then have step: "retried settled c ?c" using Cons.prems by (intro retried_settle) auto
    have "set rs \<subseteq> set (cn_deferred ?c)" using Cons.prems(3,4) by (auto simp: settle_deferred_def image_iff)
    with Cons.IH [OF go] step Cons.prems(4) have "retried settled ?c c1" by (simp add: retried_def)
    with step show ?thesis by (rule retried_trans)
  next
    case False
    have step: "retried settled c (c\<lparr>cn_store := st1\<rparr>)" by (rule retried_store [OF Cons.prems(2)])
    show ?thesis
    proof (cases "quit k")
      case True
      with Cons.prems show ?thesis by (auto intro: retried_refl)
    next
      case live: False
      with False Cons.prems(1) at have "retry_pass att quit (k + 1) rs (c\<lparr>cn_store := st1\<rparr>) = (k1, stop, progressed, c1)" by (cases a) auto
      from Cons.IH [OF this] Cons.prems(3,4) step have "retried settled (c\<lparr>cn_store := st1\<rparr>) c1" by (simp add: retried_def)
      with step show ?thesis by (rule retried_trans)
    qed
  qed
qed (auto intro: retried_refl)

lemma retry_deferred_retried: "consumer_ok c \<Longrightarrow> retry_deferred att quit order k c = (k1, c1) \<Longrightarrow> retried settled c c1"
proof (induction "length (cn_deferred c)" arbitrary: k c rule: less_induct)
  case (less c)
  obtain k2 stop progressed c2 where p: "retry_pass att quit k (visited order k (cn_deferred c)) c = (k2, stop, progressed, c2)"
    by (metis prod_cases4)
  have "mset (map rec_at (visited order k (cn_deferred c))) = mset (map rec_at (cn_deferred c))" by simp
  from mset_eq_imp_distinct_iff [OF this] have "distinct (map rec_at (visited order k (cn_deferred c)))" using less.prems(1) by (simp add: consumer_ok_def)
  with retry_pass_retried [OF p less.prems(1)] have step: "retried settled c c2" by simp
  show ?case
  proof (cases "stop \<or> \<not> progressed")
    case True
    with less.prems(2) p step show ?thesis by (auto simp: retry_deferred.simps [of att quit order k c])
  next
    case False
    with less.prems(2) p have go: "retry_deferred att quit order k2 c2 = (k1, c1)" by (simp add: retry_deferred.simps [of att quit order k c])
    have "length (cn_deferred c2) < length (cn_deferred c)" by (rule retry_pass_progress) (use p False in auto)
    from less.hyps [OF this _ go] step have "retried settled c2 c1" by (simp add: retried_def)
    with step show ?thesis by (rule retried_trans)
  qed
qed

text \<open>
  A poll for one record, of a partition that is not paused: the record, and each record deferred
  before, is committed after it was settled, or deferred with its partition paused, or it is the
  polled record and its partition's position is set back to it.
\<close>

lemma polled_keeps:
  assumes ok: "consumer_ok c" and free: "rec_at r \<notin> rec_at ` set (cn_deferred c)"
    and "(\<exists>st. c1 = rewind_to [r] (c\<lparr>cn_store := st\<rparr>)) \<or> (\<exists>st. c1 = deferGap r (c\<lparr>cn_store := st\<rparr>))
      \<or> (\<exists>st. settled r \<and> retried settled (c\<lparr>cn_store := st, cn_committed := cn_committed c @ [r]\<rparr>) c1)"
  shows "consumer_ok c1 \<and> (\<exists>new. cn_committed c1 = cn_committed c @ new \<and> list_all settled new
    \<and> list_all (\<lambda>q. q \<in> set new \<or> q \<in> set (cn_deferred c1) \<or> q = r \<and> cn_position c1 (rec_at r) = Some (rec_offset r)) (r # cn_deferred c))"
  using assms(3)
proof (elim disjE exE)
  fix st
  assume "c1 = rewind_to [r] (c\<lparr>cn_store := st\<rparr>)"
  then show ?thesis using ok by (intro conjI exI [of _ "[]"]) (simp_all add: consumer_ok_def rewind_to_def list_all_iff)
next
  fix st
  assume "c1 = deferGap r (c\<lparr>cn_store := st\<rparr>)"
  with free have "cn_deferred c1 = cn_deferred c @ [r]" "cn_paused c1 = cn_paused c @ [rec_at r]" "cn_committed c1 = cn_committed c" by (simp_all add: deferGap_def)
  then show ?thesis using ok free by (intro conjI exI [of _ "[]"]) (auto simp: consumer_ok_def list_all_iff)
next
  fix st
  assume 3: "settled r \<and> retried settled (c\<lparr>cn_store := st, cn_committed := cn_committed c @ [r]\<rparr>) c1"
  then obtain new where new: "consumer_ok c1" "cn_committed c1 = cn_committed c @ [r] @ new" "mset new + mset (cn_deferred c1) = mset (cn_deferred c)"
    "list_all settled new" by (auto simp: retried_def)
  from arg_cong [OF new(3), of set_mset] have "set new \<union> set (cn_deferred c1) = set (cn_deferred c)" by simp
  then show ?thesis using new 3 by (intro conjI exI [of _ "r # new"]) (auto simp: list_all_iff)
qed

lemma poll_keeps:
  assumes ok: "consumer_ok c" and free: "rec_at r \<notin> rec_at ` set (cn_deferred c)"
    and run: "poll_once att quit cancelled alive order [r] c = (live, c1)"
  shows "consumer_ok c1 \<and> (\<exists>new. cn_committed c1 = cn_committed c @ new \<and> list_all settled new
    \<and> list_all (\<lambda>q. q \<in> set new \<or> q \<in> set (cn_deferred c1) \<or> q = r \<and> cn_position c1 (rec_at r) = Some (rec_offset r)) (r # cn_deferred c))"
proof (rule polled_keeps [OF ok free], cases "cancelled 0")
  case True
  with run have "c1 = rewind_to [r] (c\<lparr>cn_store := cn_store c\<rparr>)" by (simp add: poll_once_def)
  then show "(\<exists>st. c1 = rewind_to [r] (c\<lparr>cn_store := st\<rparr>)) \<or> (\<exists>st. c1 = deferGap r (c\<lparr>cn_store := st\<rparr>))
      \<or> (\<exists>st. settled r \<and> retried settled (c\<lparr>cn_store := st, cn_committed := cn_committed c @ [r]\<rparr>) c1)" by blast
next
  case False
  obtain a st1 where at: "att 0 r (cn_store c) = (a, st1)" by fastforce
  have "settled r \<and> retried settled (c\<lparr>cn_store := st1, cn_committed := cn_committed c @ [r]\<rparr>) c1"
    if "a = AtCommitted" "retry_deferred att quit order 1 (c\<lparr>cn_store := st1, cn_committed := cn_committed c @ [r]\<rparr>) = (k1, c1)" for k1
    using att_settled at that retry_deferred_retried [OF _ that(2)] ok by (simp add: consumer_ok_def)
  with False run at show "(\<exists>st. c1 = rewind_to [r] (c\<lparr>cn_store := st\<rparr>)) \<or> (\<exists>st. c1 = deferGap r (c\<lparr>cn_store := st\<rparr>))
      \<or> (\<exists>st. settled r \<and> retried settled (c\<lparr>cn_store := st, cn_committed := cn_committed c @ [r]\<rparr>) c1)"
    by (cases a) (auto simp: poll_once_def split: prod.splits)
qed

end

section \<open>What every attempt keeps\<close>

locale keeping_consumer =
  fixes att :: "'st attempts" and I :: "'st \<Rightarrow> bool"
  assumes att_keeps: "I st \<Longrightarrow> I (snd (att k r st))"
begin

lemma retry_pass_keeps:
  "retry_pass att quit k rs c = (k1, stop, progressed, c1) \<Longrightarrow> I (cn_store c) \<Longrightarrow> I (cn_store c1)"
proof (induction rs arbitrary: k c k1 stop progressed c1)
  case (Cons r rs)
  obtain a st1 where at: "att k r (cn_store c) = (a, st1)" by fastforce
  with att_keeps [OF Cons.prems(2), of k r] have r1: "I st1" by simp
  obtain k2 stop2 p2 c2 where "retry_pass att quit (k + 1) rs (settle_deferred r (c\<lparr>cn_store := st1\<rparr>)) = (k2, stop2, p2, c2)" by (metis prod_cases4)
  with Cons.IH [OF this] Cons.prems at r1 Cons.IH [of "k + 1" "c\<lparr>cn_store := st1\<rparr>" k1 stop progressed c1] show ?case
    by (cases a) (auto simp: settle_deferred_def split: if_splits)
qed simp

lemma retry_deferred_keeps: "retry_deferred att quit order k c = (k1, c1) \<Longrightarrow> I (cn_store c) \<Longrightarrow> I (cn_store c1)"
proof (induction "length (cn_deferred c)" arbitrary: k c rule: less_induct)
  case (less c)
  obtain k2 stop progressed c2 where p: "retry_pass att quit k (visited order k (cn_deferred c)) c = (k2, stop, progressed, c2)"
    by (metis prod_cases4)
  have I2: "I (cn_store c2)" by (rule retry_pass_keeps [OF p less.prems(2)])
  show ?case
  proof (cases "stop \<or> \<not> progressed")
    case False
    then have "length (cn_deferred c2) < length (cn_deferred c)" using retry_pass_progress [of att quit k _ c k2 stop c2] p by simp
    from less.hyps [OF this _ I2] less.prems(1) p False show ?thesis by (simp add: retry_deferred.simps [of att quit order k c])
  qed (use less.prems(1) p I2 in \<open>auto simp: retry_deferred.simps [of att quit order k c]\<close>)
qed

lemma poll_records_keeps: "I (cn_store c) \<Longrightarrow> I (cn_store (snd (poll_records att quit cancelled alive order k rs c)))"
proof (induction rs arbitrary: k c)
  case (Cons r rs)
  obtain a st1 where at: "att k r (cn_store c) = (a, st1)" by fastforce
  with att_keeps [OF Cons.prems, of k r] have r1: "I st1" by simp
  have "I (cn_store (deferGap r (c\<lparr>cn_store := st1\<rparr>)))" using r1 by (simp add: deferGap_def)
  with Cons.IH r1 Cons.prems at show ?case
    by (cases a) (auto simp: rewind_to_def split: prod.splits dest: retry_deferred_keeps)
qed simp

lemma poll_once_keeps: "I (cn_store c) \<Longrightarrow> I (cn_store (snd (poll_once att quit cancelled alive order rs c)))"
  by (auto simp: poll_once_def poll_records_keeps split: prod.splits dest: retry_deferred_keeps)

end

end
