(* ===== verification/Access_Consumer.thy ===== *)
theory Access_Consumer
  imports Access_Service Kafka_Consumer
begin

text \<open>
  The access service's Kafka consumer, \<open>internal/kafka/consumer.go\<close>: the rules for envelopes, what
  is done with one record, and its polls, which are the loops of \<open>Kafka_Consumer\<close>.

  \<open>acn_env\<close> has what the outside answers during one attempt at a record; attempts are numbered, so
  an environment of a poll is a function of the attempt. Metrics, tracing, logging and the waits
  are not part of the model.
\<close>

section \<open>Envelopes\<close>

record envelopeRule =
  erl_producer :: string
  erl_aggregateType :: string
  erl_partitionPrefix :: string

definition envelope_rule :: "string \<Rightarrow> string \<Rightarrow> string \<Rightarrow> envelopeRule" where
  "envelope_rule producer aggregateType partitionPrefix =
     \<lparr>erl_producer = producer, erl_aggregateType = aggregateType, erl_partitionPrefix = partitionPrefix\<rparr>"

definition envelopeRules :: "(string \<times> envelopeRule) list" where
  "envelopeRules =
     [(''billing.payment.succeeded.v1'', envelope_rule ''billing-service'' ''payment'' ''user:''),
      (''subscription.activated.v1'', envelope_rule ''subscription-service'' ''subscription'' ''user:''),
      (''subscription.extended.v1'', envelope_rule ''subscription-service'' ''subscription'' ''user:''),
      (''subscription.grace.started.v1'', envelope_rule ''subscription-service'' ''subscription'' ''user:''),
      (''subscription.expired.v1'', envelope_rule ''subscription-service'' ''subscription'' ''user:''),
      (''subscription.revoked.v1'', envelope_rule ''subscription-service'' ''subscription'' ''user:''),
      (''access.provision.succeeded.v1'', envelope_rule ''provisioning-service'' ''credential'' ''credential:''),
      (''access.provision.failed.v1'', envelope_rule ''provisioning-service'' ''credential'' ''credential:''),
      (''access.revoke.succeeded.v1'', envelope_rule ''provisioning-service'' ''credential'' ''credential:''),
      (''access.revoke.failed.v1'', envelope_rule ''provisioning-service'' ''credential'' ''credential:'')]"

definition partitionID :: "string \<Rightarrow> string" where
  "partitionID key = (case cut_at CHR '':'' key of None \<Rightarrow> [] | Some (_, value) \<Rightarrow> value)"

text \<open>The code of the error, or \<open>None\<close> for a valid envelope.\<close>

definition validateEnvelope :: "kafka_record \<Rightarrow> Envelope \<Rightarrow> string option" where
  "validateEnvelope record envelope =
     (case map_of envelopeRules (rec_topic record) of
        None \<Rightarrow> Some ''invalid_envelope_routing''
      | Some rule \<Rightarrow>
          if envl_EventType envelope \<noteq> rec_topic record \<or> envl_SchemaVersion envelope \<noteq> 1 \<or> envl_Producer envelope \<noteq> erl_producer rule
            \<or> envl_AggregateType envelope \<noteq> erl_aggregateType rule
          then Some ''invalid_envelope_routing''
          else if \<not> acc_uuid (envl_EventID envelope) \<or> \<not> acc_uuid (envl_AggregateID envelope) \<or> \<not> acc_uuid (envl_CorrelationID envelope)
            \<or> envl_OccurredAt envelope = 0
          then Some ''invalid_envelope_identifiers''
          else if (case envl_CausationID envelope of None \<Rightarrow> False | Some c \<Rightarrow> \<not> acc_uuid c) then Some ''invalid_envelope_causation''
          else let key = envl_PartitionKey envelope in
          if key \<noteq> erl_partitionPrefix rule @ partitionID key \<or> \<not> acc_uuid (partitionID key) \<or> rec_key record \<noteq> key
          then Some ''invalid_envelope_partition_key''
          else if erl_partitionPrefix rule = ''credential:'' \<and> partitionID key \<noteq> envl_AggregateID envelope
          then Some ''invalid_envelope_aggregate_key''
          else if envl_AggregateSequence envelope < 1 then Some ''invalid_envelope_sequence''
          else if envl_Data envelope = [] \<or> envl_Data envelope = ''null'' then Some ''invalid_envelope_data''
          else None)"

definition acc_meta :: "acc_codec \<Rightarrow> kafka_record \<Rightarrow> Envelope \<Rightarrow> AccMeta" where
  "acc_meta cd record envelope =
     \<lparr>am_EventID = envl_EventID envelope, am_EventType = envl_EventType envelope, am_AggregateID = envl_AggregateID envelope,
      am_AggregateSequence = envl_AggregateSequence envelope, am_PartitionKey = envl_PartitionKey envelope,
      am_CorrelationID = envl_CorrelationID envelope, am_CausationID = envl_CausationID envelope, am_OccurredAt = envl_OccurredAt envelope,
      am_SourceTopic = rec_topic record, am_SourcePartition = rec_partition record, am_SourceOffset = rec_offset record,
      am_PayloadSHA256 = adc_sha256 cd (rec_value record)\<rparr>"

definition acc_process :: "acc_config \<Rightarrow> acc_codec \<Rightarrow> acc_env \<Rightarrow> kafka_record \<Rightarrow> acc_store \<Rightarrow> acc_error option \<times> acc_store" where
  "acc_process cfg cd env record st =
     (case adc_envelope cd (rec_value record) of
        None \<Rightarrow> (Some (AccContractError ''invalid_envelope_json''), st)
      | Some envelope \<Rightarrow>
          (case validateEnvelope record envelope of
             Some code \<Rightarrow> (Some (AccContractError code), st)
           | None \<Rightarrow> acc_ProcessEvent cfg cd env (acc_meta cd record envelope) (envl_Data envelope) st))"

definition isSequenceGap :: "acc_error \<Rightarrow> bool" where
  "isSequenceGap err \<longleftrightarrow> err = AccErrLifecycleSequenceGap \<or> err = AccErrOutcomeSequenceGap"

section \<open>Attempts\<close>

record acn_env =
  ane_env :: acc_env
  ane_dead_fault :: fault
  ane_commit_ok :: bool
  ane_cancelled :: bool
  ane_alive :: bool

text \<open>The part both loops share: process, dead-letter what can never succeed, commit.\<close>

definition attempt :: "acc_config \<Rightarrow> acc_codec \<Rightarrow> acn_env \<Rightarrow> kafka_record \<Rightarrow> acc_store \<Rightarrow> attempt_result \<times> acc_store" where
  "attempt cfg cd e record st =
     (case acc_process cfg cd (ane_env e) record st of (err, st1) \<Rightarrow>
        let commit = (\<lambda>t. (if ane_commit_ok e then AtCommitted else AtRetry, t)) in
        (case err of
           None \<Rightarrow> commit st1
         | Some x \<Rightarrow>
             if isSequenceGap x then (AtGap, st1)
             else (case acc_ContractErrorCode x of
                 None \<Rightarrow> (AtRetry, st1)
               | Some code \<Rightarrow>
                   (case run_tx AccInfra (ane_dead_fault e) (acc_RecordDeadLetter (rec_topic record) (rec_partition record) (rec_offset record)
                         (adc_sha256 cd (rec_value record)) code) st1 of
                      (Inl _, st2) \<Rightarrow> (AtRetry, st2)
                    | (Inr _, st2) \<Rightarrow> commit st2))))"

section \<open>Polls\<close>

definition acc_attempts :: "acc_config \<Rightarrow> acc_codec \<Rightarrow> (nat \<Rightarrow> acn_env) \<Rightarrow> acc_store attempts" where
  "acc_attempts cfg cd envs k = attempt cfg cd (envs k)"

text \<open>Both loops look at the context before each record.\<close>

definition acc_retryDeferred :: "acc_config \<Rightarrow> acc_codec \<Rightarrow> (nat \<Rightarrow> acn_env) \<Rightarrow> (nat \<Rightarrow> kafka_record list \<Rightarrow> kafka_record list) \<Rightarrow> nat \<Rightarrow>
    acc_store consumer \<Rightarrow> nat \<times> acc_store consumer" where
  "acc_retryDeferred cfg cd envs order k c = retry_deferred (acc_attempts cfg cd envs) (\<lambda>k. ane_cancelled (envs k)) order k c"

definition acc_pollOnce :: "acc_config \<Rightarrow> acc_codec \<Rightarrow> (nat \<Rightarrow> acn_env) \<Rightarrow> (nat \<Rightarrow> kafka_record list \<Rightarrow> kafka_record list) \<Rightarrow> kafka_record list \<Rightarrow>
    acc_store consumer \<Rightarrow> bool \<times> acc_store consumer" where
  "acc_pollOnce cfg cd envs order records c = poll_once (acc_attempts cfg cd envs) (\<lambda>k. ane_cancelled (envs k)) (\<lambda>k. ane_cancelled (envs k))
     (\<lambda>k. ane_alive (envs k)) order records c"

section \<open>What the attempts guarantee\<close>

text \<open>A record that is committed was processed, or refused for good with its dead letter written.\<close>

definition acc_settled :: "acc_config \<Rightarrow> acc_codec \<Rightarrow> kafka_record \<Rightarrow> bool" where
  "acc_settled cfg cd r \<longleftrightarrow> (\<exists>env st. case fst (acc_process cfg cd env r st) of None \<Rightarrow> True | Some x \<Rightarrow> \<not> isSequenceGap x \<and> acc_ContractErrorCode x \<noteq> None)"

lemma attempt_settled:
  assumes "attempt cfg cd e r st = (AtCommitted, t)"
  shows "acc_settled cfg cd r"
proof -
  obtain err st1 where p: "acc_process cfg cd (ane_env e) r st = (err, st1)" by fastforce
  with assms have "case err of None \<Rightarrow> True | Some x \<Rightarrow> \<not> isSequenceGap x \<and> acc_ContractErrorCode x \<noteq> None"
    by (auto simp: attempt_def Let_def split: option.splits if_splits prod.splits sum.splits)
  with p show ?thesis unfolding acc_settled_def by (intro exI [of _ "ane_env e"] exI [of _ st]) simp
qed

section \<open>Everything the consumer does is a sequence of store steps\<close>

lemma process_reachable_acc: "acc_reachable st \<Longrightarrow> acc_reachable (snd (acc_process cfg cd env r st))"
  by (auto simp: acc_process_def ProcessEvent_reachable split: option.splits)

lemma attempt_reachable:
  assumes "acc_reachable st"
  shows "acc_reachable (snd (attempt cfg cd e r st))"
proof -
  obtain err st1 where p: "acc_process cfg cd (ane_env e) r st = (err, st1)" by fastforce
  with process_reachable_acc [OF assms, of cfg cd "ane_env e" r] have r1: "acc_reachable st1" by simp
  have dead: "acc_reachable st2" if "run_tx AccInfra fl (acc_RecordDeadLetter topic part off sha code) st1 = (x, st2)" for fl topic part off sha code x st2
    using ar_step [OF r1 as_dead_letter, of fl topic part off sha code] that by simp
  show ?thesis using r1 by (auto simp: attempt_def p Let_def split: option.splits prod.splits sum.splits dest: dead)
qed

interpretation acc_records: deferring_consumer "acc_attempts cfg cd envs" "acc_settled cfg cd" for cfg cd envs
  by unfold_locales (simp add: acc_attempts_def attempt_settled)

interpretation acc_steps: keeping_consumer "acc_attempts cfg cd envs" acc_reachable for cfg cd envs
  by unfold_locales (simp add: acc_attempts_def attempt_reachable)

lemma pollOnce_reachable_acc: "acc_reachable (cn_store c) \<Longrightarrow> acc_reachable (cn_store (snd (acc_pollOnce cfg cd envs order rs c)))"
  unfolding acc_pollOnce_def by (rule acc_steps.poll_once_keeps)

end
