(* ===== verification/Access_Memory.thy ===== *)
theory Access_Memory
  imports Access_Consumer
begin

text \<open>
  What the access store never forgets: the events in its inbox, which subscriptions and
  credentials have a cursor, and its operations but for their status. The locale \<open>remembered\<close> states what a predicate must be stable under;
  every step keeps such a predicate. From its interpretations an event that was applied once
  is recognised forever, and applying it again changes nothing.
\<close>

section \<open>Predicates every step keeps\<close>

definition aop_ident :: "acc_operation_row \<Rightarrow> uuid \<times> uuid \<times> acc_kind \<times> int" where
  "aop_ident o1 = (aop_id o1, aop_credential_id o1, aop_kind o1, aop_desired_revision o1)"

lemma aop_ident_updates [simp]:
  "aop_ident (aop_status_update f o1) = aop_ident o1" "aop_ident (aop_completed_at_update g o1) = aop_ident o1"
  "aop_ident (aop_failure_code_update h o1) = aop_ident o1" "aop_ident (aop_allocation_revision_update k o1) = aop_ident o1"
  by (simp_all add: aop_ident_def)

locale remembered =
  fixes I :: "acc_store \<Rightarrow> bool"
  assumes same: "ac_inbox t = ac_inbox st \<Longrightarrow> ac_lifecycle t = ac_lifecycle st \<Longrightarrow> ac_outcomes t = ac_outcomes st \<Longrightarrow>
      \<exists>xs. map aop_ident (ac_operations t) = map aop_ident (ac_operations st) @ xs \<Longrightarrow> I st \<Longrightarrow> I t"
    and grown: "I st \<Longrightarrow> I (st\<lparr>ac_inbox := ac_inbox st @ xs, ac_lifecycle := ac_lifecycle st @ ys, ac_outcomes := ac_outcomes st @ zs\<rparr>)"
    and moved: "I st \<Longrightarrow> I (st\<lparr>ac_lifecycle := tbl_update p (\<lambda>r. r\<lparr>lc_last_applied_sequence := n\<rparr>) (ac_lifecycle st)\<rparr>)"
    and moved2: "I st \<Longrightarrow> I (st\<lparr>ac_outcomes := map (\<lambda>(c, k). if c = cid then (c, n) else (c, k)) (ac_outcomes st)\<rparr>)"
begin

lemma keeps_modify:
  assumes "\<And>st. ac_inbox (f st) = ac_inbox st" "\<And>st. ac_lifecycle (f st) = ac_lifecycle st" "\<And>st. ac_outcomes (f st) = ac_outcomes st"
    and "\<And>st. \<exists>xs. map aop_ident (ac_operations (f st)) = map aop_ident (ac_operations st) @ xs"
  shows "tx_keeps I (tx_modify f)"
  by (rule tx_keeps_modify) (rule same; simp add: assms)

lemma keeps_inbox: "tx_keeps I (acc_insertInbox pick meta)"
  unfolding acc_insertInbox_def Let_def
proof (intro tx_keep tx_keeps_modify)
  fix s assume "I s"
  from grown [OF this, where xs = "[acc_new_inbox meta]" and ys = "[]" and zs = "[]"] show "I (s\<lparr>ac_inbox := ac_inbox s @ [acc_new_inbox meta]\<rparr>)" by simp
qed

lemma keeps_lifecycle: "tx_keeps I (prepareLifecycle pick meta sid uid)"
  unfolding prepareLifecycle_def
proof (intro tx_keep keeps_inbox tx_keeps_modify)
  fix s assume s: "I s"
  from grown [OF this, where xs = "[]" and ys = "[\<lparr>lc_subscription_id = sid, lc_user_id = uid, lc_last_applied_sequence = 0\<rparr>]" and zs = "[]"] s
  show "I (init_lifecycle sid uid s)" by (simp add: init_lifecycle_def)
qed (rule moved)

lemma keeps_outcome: "tx_keeps I (prepareOutcome pick meta cid)"
  unfolding prepareOutcome_def
proof (intro tx_keep keeps_inbox tx_keeps_modify)
  fix s assume s: "I s"
  from grown [OF this, where xs = "[]" and ys = "[]" and zs = "[(cid, 0)]"] s show "I (init_outcome cid s)" by (simp add: init_outcome_def)
qed (rule moved2)

lemmas keeps_other = keeps_modify tx_keep

lemma keeps_blocks:
  "tx_keeps I (update_credential cid f)" "tx_keeps I (insert_credential c)" "tx_keeps I (insert_token tk)" "tx_keeps I (insert_url_idempotency ur)"
  "tx_keeps I (acc_insertOperation oid cid kind rv arev causation now)" "tx_keeps I (completePaymentAccessSLI now meta event fk)"
  unfolding update_credential_def insert_credential_def insert_token_def insert_url_idempotency_def acc_insertOperation_def completePaymentAccessSLI_def Let_def
  by (intro keeps_other; simp)+

lemma keeps_events:
  "tx_keeps I (acc_insertOutbox eid meta now occ topic key cid dedupe atype data esq)"
  "tx_keeps I (insertOperationOutbox eid meta now topic oid cid rv)"
  "tx_keeps I (insertNotificationOutbox eid meta now occ topic uid cid dedupe data)"
proof -
  show out: "tx_keeps I (acc_insertOutbox eid meta now occ topic key cid dedupe atype data esq)" for occ topic key dedupe atype data esq
    unfolding acc_insertOutbox_def by (intro keeps_other keeps_blocks; simp)
  show "tx_keeps I (insertOperationOutbox eid meta now topic oid cid rv)" unfolding insertOperationOutbox_def by (rule out)
  show "tx_keeps I (insertNotificationOutbox eid meta now occ topic uid cid dedupe data)"
    unfolding insertNotificationOutbox_def by (intro keeps_other keeps_blocks out)
qed

lemma keeps_starts: "tx_keeps I (start_provisioning eid meta now oid cid rv)" "tx_keeps I (start_revoke eid meta now oid cid rv arev)"
  unfolding start_provisioning_def start_revoke_def by (intro keeps_other keeps_blocks keeps_events)+

lemma keeps_snapshots: "tx_keeps I (replaceProvisionSnapshots event now)"
proof -
  have "tx_keeps I (insert_assignments cid rv now ns)" for cid rv ns by (induction ns) (auto intro!: keeps_other)
  moreover have "tx_keeps I (insert_endpoints cid rv now es)" for cid rv es by (induction es) (auto intro!: keeps_other)
  ultimately show ?thesis unfolding replaceProvisionSnapshots_def Let_def by (intro keeps_other) (simp_all add: clear_endpoints_def)
qed

lemma keeps_lifecycle_events:
  "tx_keeps I (ApplyPaymentSucceeded pick meta payment)" "tx_keeps I (ApplyPeriod pick eid now meta period seed)"
  "tx_keeps I (ApplyGrace pick meta grace)" "tx_keeps I (ApplyTerminal pick eid now meta terminal oid)"
  unfolding ApplyPaymentSucceeded_def ApplyPeriod_def ApplyGrace_def ApplyTerminal_def Let_def
  by (intro keeps_other keeps_inbox keeps_lifecycle keeps_blocks keeps_starts; simp add: clear_endpoints_def end_tokens_def)+

lemma keeps_outcome_events:
  "tx_keeps I (ApplyProvisionSucceeded pick eid oid now meta success)" "tx_keeps I (ApplyOperationFailed pick eid now meta failure kind)"
  "tx_keeps I (ApplyRevokeSucceeded pick eid now meta revoked)"
  unfolding ApplyProvisionSucceeded_def ApplyOperationFailed_def ApplyRevokeSucceeded_def capture_late_def Let_def
  by (intro keeps_other keeps_outcome keeps_blocks keeps_starts keeps_events keeps_snapshots; simp add: finish_operation_def end_tokens_def map_tbl_update)+

lemma keeps_requests:
  "tx_keeps I (IssueToken now sid operation tseed)" "tx_keeps I (RecoverProvisioning eid now input)" "tx_keeps I (touch_token now tid)"
  "tx_keeps I (RecordCredentialMaterialAccess eid now cid actor)" "tx_keeps I (acc_RecordDeadLetter topic part off sha reason)"
  unfolding IssueToken_def RecoverProvisioning_def touch_token_def RecordCredentialMaterialAccess_def acc_RecordDeadLetter_def Let_def
  by (intro keeps_other keeps_blocks keeps_starts; simp add: clear_endpoints_def)+

lemma keeps_leases: "tx_keeps I (acc_claim now lease locked)" "tx_keeps I (acc_complete now eid)" "tx_keeps I (acc_retry now delay eid)"
  by (auto simp: tx_valid_def acc_claim_def acc_complete_def acc_retry_def split: prod.split sum.split intro: same [rotated 4])

lemma step_keeps: "acc_step st t \<Longrightarrow> I st \<Longrightarrow> I t"
  by (induction rule: acc_step.induct)
    (rule run_tx_keeps, rule keeps_lifecycle_events keeps_outcome_events keeps_requests keeps_leases, assumption)+

text \<open>A handler establishes what its first check does.\<close>

lemma begins: "tx_valid P prep (\<lambda>_. I) (\<lambda>_ _. True) \<Longrightarrow> (\<And>a. tx_keeps I (f a)) \<Longrightarrow> tx_valid P (tx_bind prep f) (\<lambda>_. I) (\<lambda>_ _. True)"
  by (rule tx_valid_bind, assumption, rule tx_valid_drop_error) blast

lemma lifecycle_events_begin:
  "tx_valid P (acc_insertInbox pick meta) (\<lambda>_. I) (\<lambda>_ _. True) \<Longrightarrow> tx_valid P (ApplyPaymentSucceeded pick meta payment) (\<lambda>_. I) (\<lambda>_ _. True)"
  "tx_valid P (prepareLifecycle pick meta (per_SubscriptionID period) (per_UserID period)) (\<lambda>_. I) (\<lambda>_ _. True) \<Longrightarrow>
     tx_valid P (ApplyPeriod pick eid now meta period seed) (\<lambda>_. I) (\<lambda>_ _. True)"
  "tx_valid P (prepareLifecycle pick meta (ge_SubscriptionID grace) (ge_UserID grace)) (\<lambda>_. I) (\<lambda>_ _. True) \<Longrightarrow>
     tx_valid P (ApplyGrace pick meta grace) (\<lambda>_. I) (\<lambda>_ _. True)"
  "tx_valid P (prepareLifecycle pick meta (te_SubscriptionID terminal) (te_UserID terminal)) (\<lambda>_. I) (\<lambda>_ _. True) \<Longrightarrow>
     tx_valid P (ApplyTerminal pick eid now meta terminal oid) (\<lambda>_. I) (\<lambda>_ _. True)"
  unfolding ApplyPaymentSucceeded_def ApplyPeriod_def ApplyGrace_def ApplyTerminal_def Let_def
  by (erule begins, intro keeps_other keeps_blocks keeps_starts; simp add: clear_endpoints_def end_tokens_def)+

lemma outcome_events_begin:
  "tx_valid P (prepareOutcome pick meta (pvs_CredentialID success)) (\<lambda>_. I) (\<lambda>_ _. True) \<Longrightarrow>
     tx_valid P (ApplyProvisionSucceeded pick eid oid now meta success) (\<lambda>_. I) (\<lambda>_ _. True)"
  "tx_valid P (prepareOutcome pick meta (opf_CredentialID failure)) (\<lambda>_. I) (\<lambda>_ _. True) \<Longrightarrow>
     tx_valid P (ApplyOperationFailed pick eid now meta failure kind) (\<lambda>_. I) (\<lambda>_ _. True)"
  "tx_valid P (prepareOutcome pick meta (rvs_CredentialID revoked)) (\<lambda>_. I) (\<lambda>_ _. True) \<Longrightarrow>
     tx_valid P (ApplyRevokeSucceeded pick eid now meta revoked) (\<lambda>_. I) (\<lambda>_ _. True)"
  unfolding ApplyProvisionSucceeded_def ApplyOperationFailed_def ApplyRevokeSucceeded_def capture_late_def Let_def
  by (erule begins, intro keeps_other keeps_blocks keeps_starts keeps_events keeps_snapshots; simp add: finish_operation_def end_tokens_def map_tbl_update)+

lemma later_keeps: "acc_step\<^sup>*\<^sup>* st t \<Longrightarrow> I st \<Longrightarrow> I t"
  by (induction rule: rtranclp_induct) (auto intro: step_keeps)

end

definition inbox_has :: "uuid \<Rightarrow> acc_store \<Rightarrow> bool" where
  "inbox_has eid st \<longleftrightarrow> list_ex (\<lambda>q. aib_event_id q = eid) (ac_inbox st)"

definition lifecycle_has :: "uuid \<Rightarrow> acc_store \<Rightarrow> bool" where
  "lifecycle_has sid st \<longleftrightarrow> find_lifecycle sid st \<noteq> None"

definition outcome_has :: "uuid \<Rightarrow> acc_store \<Rightarrow> bool" where
  "outcome_has cid st \<longleftrightarrow> map_of (ac_outcomes st) cid \<noteq> None"

definition op_has :: "uuid \<times> uuid \<times> acc_kind \<times> int \<Rightarrow> acc_store \<Rightarrow> bool" where
  "op_has x st \<longleftrightarrow> x \<in> set (map aop_ident (ac_operations st))"

lemma map_of_move: "map_of (map (\<lambda>(c, k). if c = cid then (c, n) else (c, k)) xs) x = map_option (\<lambda>k. if x = cid then n else k) (map_of xs x)"
  by (induction xs) auto

interpretation inbox_memory: remembered "inbox_has eid"
  by unfold_locales (simp_all add: inbox_has_def)

interpretation lifecycle_memory: remembered "lifecycle_has sid"
  by unfold_locales (auto simp: lifecycle_has_def find_lifecycle_def find_append find_tbl_update_same split: option.split)

interpretation outcome_memory: remembered "outcome_has cid"
  by unfold_locales (auto simp: outcome_has_def map_of_move map_add_def split: option.split)

interpretation operation_memory: remembered "op_has x"
  by unfold_locales (auto simp del: set_map simp: op_has_def)

section \<open>An event that was applied is recognised\<close>

lemma insertInbox_sees: "acc_insertInbox pick meta st = (Inr b, t) \<Longrightarrow> inbox_has (am_EventID meta) t"
proof -
  assume run: "acc_insertInbox pick meta st = (Inr b, t)"
  let ?found = "filter (inbox_like meta) (ac_inbox st)"
  have new: "aib_event_id (acc_new_inbox meta) = am_EventID meta" by (simp add: acc_new_inbox_def)
  from run consider "t = st\<lparr>ac_inbox := ac_inbox st @ [acc_new_inbox meta]\<rparr>"
    | "t = st" "?found \<noteq> []" "aib_event_id (?found ! (pick mod length ?found)) = am_EventID meta"
    unfolding acc_insertInbox_def Let_def by (auto simp: tx_bind_Inr tx_results split: if_splits)
  then show ?thesis
  proof cases
    case 2
    then have "?found ! (pick mod length ?found) \<in> set ?found" by (intro nth_mem) simp
    with 2 show ?thesis by (auto simp: inbox_has_def list_ex_iff)
  qed (simp add: inbox_has_def new)
qed

lemma insertInbox_seen:
  assumes "inbox_has (am_EventID meta) st"
  shows "acc_insertInbox pick meta st = (Inr b, t) \<Longrightarrow> t = st \<and> \<not> b"
proof -
  from assms have "list_ex (inbox_clash (acc_new_inbox meta)) (ac_inbox st)"
    by (auto simp: inbox_has_def list_ex_iff inbox_clash_def acc_new_inbox_def)
  then show "acc_insertInbox pick meta st = (Inr b, t) \<Longrightarrow> t = st \<and> \<not> b"
    unfolding acc_insertInbox_def Let_def by (auto simp: tx_bind_Inr tx_results split: if_splits)
qed

lemma prepareLifecycle_sees:
  assumes "prepareLifecycle pick meta sid uid st = (Inr b, t)"
  shows "inbox_has (am_EventID meta) t \<and> lifecycle_has sid t"
proof -
  from assms obtain b1 st1 where ins: "acc_insertInbox pick meta (init_lifecycle sid uid st) = (Inr b1, st1)"
    and l: "lifecycle_has sid (init_lifecycle sid uid st)"
    and t: "t = st1 \<or> (\<exists>p n. t = st1\<lparr>ac_lifecycle := tbl_update p (\<lambda>r. r\<lparr>lc_last_applied_sequence := n\<rparr>) (ac_lifecycle st1)\<rparr>)"
    unfolding prepareLifecycle_def by (auto simp: tx_bind_Inr tx_results lifecycle_has_def split: if_splits option.splits)
  have "inbox_has (am_EventID meta) st1" by (rule insertInbox_sees [OF ins])
  moreover have "lifecycle_has sid st1" using tx_validD_Inr [OF lifecycle_memory.keeps_inbox l ins] .
  ultimately show ?thesis using t lifecycle_memory.moved inbox_memory.moved by blast
qed

lemma prepareOutcome_sees:
  assumes "prepareOutcome pick meta cid st = (Inr b, t)"
  shows "inbox_has (am_EventID meta) t \<and> outcome_has cid t"
proof -
  from assms obtain b1 st1 where ins: "acc_insertInbox pick meta (init_outcome cid st) = (Inr b1, st1)"
    and l: "outcome_has cid (init_outcome cid st)"
    and t: "t = st1 \<or> (\<exists>n. t = st1\<lparr>ac_outcomes := map (\<lambda>(c, k). if c = cid then (c, n) else (c, k)) (ac_outcomes st1)\<rparr>)"
    unfolding prepareOutcome_def by (auto simp: tx_bind_Inr tx_results outcome_has_def split: if_splits option.splits)
  have "inbox_has (am_EventID meta) st1" by (rule insertInbox_sees [OF ins])
  moreover have "outcome_has cid st1" using tx_validD_Inr [OF outcome_memory.keeps_inbox l ins] .
  ultimately show ?thesis using t outcome_memory.moved2 inbox_memory.moved2 by blast
qed

lemma prepareLifecycle_seen:
  assumes "inbox_has (am_EventID meta) st" and "lifecycle_has sid st" and "prepareLifecycle pick meta sid uid st = (Inr b, t)"
  shows "t = st \<and> \<not> b"
proof -
  have "init_lifecycle sid uid st = st" using assms(2) by (simp add: init_lifecycle_def lifecycle_has_def)
  with assms(3) obtain b1 st1 where "acc_insertInbox pick meta st = (Inr b1, st1)" "\<not> b1 \<Longrightarrow> t = st1 \<and> \<not> b"
    unfolding prepareLifecycle_def by (auto simp: tx_bind_Inr tx_results split: if_splits option.splits)
  with insertInbox_seen [OF assms(1)] show ?thesis by blast
qed

lemma prepareOutcome_seen:
  assumes "inbox_has (am_EventID meta) st" and "outcome_has cid st" and "prepareOutcome pick meta cid st = (Inr b, t)"
  shows "t = st \<and> \<not> b"
proof -
  have "init_outcome cid st = st" using assms(2) by (simp add: init_outcome_def outcome_has_def)
  with assms(3) obtain b1 st1 where "acc_insertInbox pick meta st = (Inr b1, st1)" "\<not> b1 \<Longrightarrow> t = st1 \<and> \<not> b"
    unfolding prepareOutcome_def by (auto simp: tx_bind_Inr tx_results split: if_splits option.splits)
  with insertInbox_seen [OF assms(1)] show ?thesis by blast
qed

text \<open>Every event handler begins with one of three checks and does nothing when the check returns false.\<close>

lemma guard_seen:
  assumes "\<And>b t. prep st = (Inr b, t) \<Longrightarrow> t = st \<and> \<not> b" and "tx_bind prep (\<lambda>apply. if \<not> apply then tx_return () else go) st = (Inr u, t)"
  shows "t = st"
  using assms by (auto simp: tx_bind_Inr tx_results split: if_splits)

lemma events_seen:
  assumes seen: "inbox_has (am_EventID meta) st"
  shows "ApplyPaymentSucceeded pick meta payment st = (Inr u, t) \<Longrightarrow> t = st"
    and "lifecycle_has (per_SubscriptionID period) st \<Longrightarrow> ApplyPeriod pick eid now meta period seed st = (Inr u, t) \<Longrightarrow> t = st"
    and "lifecycle_has (ge_SubscriptionID grace) st \<Longrightarrow> ApplyGrace pick meta grace st = (Inr u, t) \<Longrightarrow> t = st"
    and "lifecycle_has (te_SubscriptionID terminal) st \<Longrightarrow> ApplyTerminal pick eid now meta terminal oid st = (Inr u, t) \<Longrightarrow> t = st"
    and "outcome_has (pvs_CredentialID success) st \<Longrightarrow> ApplyProvisionSucceeded pick eid oid now meta success st = (Inr u, t) \<Longrightarrow> t = st"
    and "outcome_has (opf_CredentialID failure) st \<Longrightarrow> ApplyOperationFailed pick eid now meta failure kind st = (Inr u, t) \<Longrightarrow> t = st"
    and "outcome_has (rvs_CredentialID revoked) st \<Longrightarrow> ApplyRevokeSucceeded pick eid now meta revoked st = (Inr u, t) \<Longrightarrow> t = st"
proof -
  show "ApplyPaymentSucceeded pick meta payment st = (Inr u, t) \<Longrightarrow> t = st"
    unfolding ApplyPaymentSucceeded_def Let_def by (rule guard_seen [OF insertInbox_seen [OF seen]])
  show "ApplyPeriod pick eid now meta period seed st = (Inr u, t) \<Longrightarrow> t = st" if "lifecycle_has (per_SubscriptionID period) st"
    unfolding ApplyPeriod_def by (rule guard_seen [OF prepareLifecycle_seen [OF seen that]])
  show "ApplyGrace pick meta grace st = (Inr u, t) \<Longrightarrow> t = st" if "lifecycle_has (ge_SubscriptionID grace) st"
    unfolding ApplyGrace_def using prepareLifecycle_seen [OF seen that] by (auto simp: tx_bind_Inr tx_results)
  show "ApplyTerminal pick eid now meta terminal oid st = (Inr u, t) \<Longrightarrow> t = st" if "lifecycle_has (te_SubscriptionID terminal) st"
    unfolding ApplyTerminal_def by (rule guard_seen [OF prepareLifecycle_seen [OF seen that]])
  show "ApplyProvisionSucceeded pick eid oid now meta success st = (Inr u, t) \<Longrightarrow> t = st" if "outcome_has (pvs_CredentialID success) st"
    unfolding ApplyProvisionSucceeded_def Let_def by (rule guard_seen [OF prepareOutcome_seen [OF seen that]])
  show "ApplyOperationFailed pick eid now meta failure kind st = (Inr u, t) \<Longrightarrow> t = st" if "outcome_has (opf_CredentialID failure) st"
    unfolding ApplyOperationFailed_def Let_def by (rule guard_seen [OF prepareOutcome_seen [OF seen that]])
  show "ApplyRevokeSucceeded pick eid now meta revoked st = (Inr u, t) \<Longrightarrow> t = st" if "outcome_has (rvs_CredentialID revoked) st"
    unfolding ApplyRevokeSucceeded_def Let_def by (rule guard_seen [OF prepareOutcome_seen [OF seen that]])
qed

text \<open>The cursor that an event of a type moves.\<close>

definition seen_event :: "AccMeta \<Rightarrow> acc_store \<Rightarrow> bool" where
  "seen_event meta st \<longleftrightarrow> inbox_has (am_EventID meta) st \<and> (isLifecycleEvent (am_EventType meta) \<longrightarrow> lifecycle_has (am_AggregateID meta) st)
     \<and> (isOutcomeEvent (am_EventType meta) \<longrightarrow> outcome_has (am_AggregateID meta) st)"

lemma later_seen: "acc_step\<^sup>*\<^sup>* st t \<Longrightarrow> seen_event meta st \<Longrightarrow> seen_event meta t"
  using inbox_memory.later_keeps lifecycle_memory.later_keeps outcome_memory.later_keeps by (auto simp: seen_event_def)

lemma acc_run_Inr: "acc_run env m st = (None, t) \<Longrightarrow> \<exists>u. m st = (Inr u, t)"
  by (auto simp: acc_run_def outcome_def split: prod.splits sum.splits dest: run_tx_Inr)

lemma acc_run_unchanged: "(\<And>u t. m st = (Inr u, t) \<Longrightarrow> t = st) \<Longrightarrow> snd (acc_run env m st) = st"
  using run_tx_cases [of AccInfra "av_fault env" m st] by (auto simp: acc_run_def)

lemma tx_valid_always: "tx_valid (\<lambda>_. True) m Q E \<Longrightarrow> m s = (Inr a, t) \<Longrightarrow> Q a t"
  by (erule tx_validD_Inr) simp_all

lemma events_sees:
  "ApplyPaymentSucceeded pick meta payment st = (Inr u, t) \<Longrightarrow> inbox_has (am_EventID meta) t"
  "ApplyPeriod pick eid now meta period seed st = (Inr u, t) \<Longrightarrow> inbox_has (am_EventID meta) t \<and> lifecycle_has (per_SubscriptionID period) t"
  "ApplyGrace pick meta grace st = (Inr u, t) \<Longrightarrow> inbox_has (am_EventID meta) t \<and> lifecycle_has (ge_SubscriptionID grace) t"
  "ApplyTerminal pick eid now meta terminal oid st = (Inr u, t) \<Longrightarrow> inbox_has (am_EventID meta) t \<and> lifecycle_has (te_SubscriptionID terminal) t"
  "ApplyProvisionSucceeded pick eid oid now meta success st = (Inr u, t) \<Longrightarrow> inbox_has (am_EventID meta) t \<and> outcome_has (pvs_CredentialID success) t"
  "ApplyOperationFailed pick eid now meta failure kind st = (Inr u, t) \<Longrightarrow> inbox_has (am_EventID meta) t \<and> outcome_has (opf_CredentialID failure) t"
  "ApplyRevokeSucceeded pick eid now meta revoked st = (Inr u, t) \<Longrightarrow> inbox_has (am_EventID meta) t \<and> outcome_has (rvs_CredentialID revoked) t"
proof -
  have I: "tx_valid (\<lambda>_. True) (acc_insertInbox pick meta) (\<lambda>_. inbox_has (am_EventID meta)) (\<lambda>_ _. True)"
    by (rule tx_validI) (auto dest: insertInbox_sees)
  have L: "tx_valid (\<lambda>_. True) (prepareLifecycle pick meta sid uid) (\<lambda>_. inbox_has (am_EventID meta)) (\<lambda>_ _. True)"
    "tx_valid (\<lambda>_. True) (prepareLifecycle pick meta sid uid) (\<lambda>_. lifecycle_has sid) (\<lambda>_ _. True)" for sid uid
    by (rule tx_validI; auto dest: prepareLifecycle_sees)+
  have O: "tx_valid (\<lambda>_. True) (prepareOutcome pick meta cid) (\<lambda>_. inbox_has (am_EventID meta)) (\<lambda>_ _. True)"
    "tx_valid (\<lambda>_. True) (prepareOutcome pick meta cid) (\<lambda>_. outcome_has cid) (\<lambda>_ _. True)" for cid
    by (rule tx_validI; auto dest: prepareOutcome_sees)+
  note D = tx_valid_always
  show "ApplyPaymentSucceeded pick meta payment st = (Inr u, t) \<Longrightarrow> inbox_has (am_EventID meta) t"
    by (rule D [OF inbox_memory.lifecycle_events_begin(1) [OF I]])
  show "ApplyPeriod pick eid now meta period seed st = (Inr u, t) \<Longrightarrow> inbox_has (am_EventID meta) t \<and> lifecycle_has (per_SubscriptionID period) t"
    by (blast intro: D [OF inbox_memory.lifecycle_events_begin(2) [OF L(1)]] D [OF lifecycle_memory.lifecycle_events_begin(2) [OF L(2)]])
  show "ApplyGrace pick meta grace st = (Inr u, t) \<Longrightarrow> inbox_has (am_EventID meta) t \<and> lifecycle_has (ge_SubscriptionID grace) t"
    by (blast intro: D [OF inbox_memory.lifecycle_events_begin(3) [OF L(1)]] D [OF lifecycle_memory.lifecycle_events_begin(3) [OF L(2)]])
  show "ApplyTerminal pick eid now meta terminal oid st = (Inr u, t) \<Longrightarrow> inbox_has (am_EventID meta) t \<and> lifecycle_has (te_SubscriptionID terminal) t"
    by (blast intro: D [OF inbox_memory.lifecycle_events_begin(4) [OF L(1)]] D [OF lifecycle_memory.lifecycle_events_begin(4) [OF L(2)]])
  show "ApplyProvisionSucceeded pick eid oid now meta success st = (Inr u, t) \<Longrightarrow> inbox_has (am_EventID meta) t \<and> outcome_has (pvs_CredentialID success) t"
    by (blast intro: D [OF inbox_memory.outcome_events_begin(1) [OF O(1)]] D [OF outcome_memory.outcome_events_begin(1) [OF O(2)]])
  show "ApplyOperationFailed pick eid now meta failure kind st = (Inr u, t) \<Longrightarrow> inbox_has (am_EventID meta) t \<and> outcome_has (opf_CredentialID failure) t"
    by (blast intro: D [OF inbox_memory.outcome_events_begin(2) [OF O(1)]] D [OF outcome_memory.outcome_events_begin(2) [OF O(2)]])
  show "ApplyRevokeSucceeded pick eid now meta revoked st = (Inr u, t) \<Longrightarrow> inbox_has (am_EventID meta) t \<and> outcome_has (rvs_CredentialID revoked) t"
    by (blast intro: D [OF inbox_memory.outcome_events_begin(3) [OF O(1)]] D [OF outcome_memory.outcome_events_begin(3) [OF O(2)]])
qed

lemma checked_None: "checked decoded valid go st = (None, t) \<Longrightarrow> \<exists>event. decoded = Some event \<and> valid event \<and> go event st = (None, t)"
  by (auto simp: checked_def split: option.splits if_splits)

lemma checked_unchanged: "(\<And>event. decoded = Some event \<Longrightarrow> valid event \<Longrightarrow> snd (go event st) = st) \<Longrightarrow> snd (checked decoded valid go st) = st"
  by (auto simp: checked_def split: option.splits)

lemma ProcessEvent_sees:
  assumes "acc_ProcessEvent cfg cd env meta data st = (None, t)"
  shows "seen_event meta t"
  using assms unfolding acc_ProcessEvent_def Let_def
  by (auto simp: seen_event_def isLifecycleEvent_def isOutcomeEvent_def payment_valid_def period_valid_def terminal_valid_def grace_valid_def
      failed_valid_def revoked_valid_def validateProvisionSucceeded_def split: if_splits option.splits
      dest!: checked_None acc_run_Inr events_sees)

lemma valid_aggregate:
  "period_valid meta period \<Longrightarrow> per_SubscriptionID period = am_AggregateID meta" "terminal_valid meta terminal \<Longrightarrow> te_SubscriptionID terminal = am_AggregateID meta"
  "grace_valid meta grace \<Longrightarrow> ge_SubscriptionID grace = am_AggregateID meta" "validateProvisionSucceeded isIP meta success \<Longrightarrow> pvs_CredentialID success = am_AggregateID meta"
  "failed_valid meta failure \<Longrightarrow> opf_CredentialID failure = am_AggregateID meta" "revoked_valid meta revoked \<Longrightarrow> rvs_CredentialID revoked = am_AggregateID meta"
  by (simp_all add: period_valid_def terminal_valid_def grace_valid_def validateProvisionSucceeded_def failed_valid_def revoked_valid_def)

lemma ProcessEvent_seen:
  assumes "seen_event meta st"
  shows "snd (acc_ProcessEvent cfg cd env meta data st) = st"
proof -
  have seen: "inbox_has (am_EventID meta) st" using assms by (simp add: seen_event_def)
  note E = events_seen [OF seen]
  have L: "lifecycle_has (am_AggregateID meta) st" if "isLifecycleEvent (am_EventType meta)" using assms that by (simp add: seen_event_def)
  have O: "outcome_has (am_AggregateID meta) st" if "isOutcomeEvent (am_EventType meta)" using assms that by (simp add: seen_event_def)
  have "snd (acc_run env (ApplyPaymentSucceeded pick meta payment) st) = st" for pick payment by (rule acc_run_unchanged) (erule E(1))
  moreover have "snd (acc_run env (ApplyPeriod pick eid now meta period seed) st) = st"
    if "isLifecycleEvent (am_EventType meta)" "period_valid meta period" for pick eid now period seed
    by (rule acc_run_unchanged) (rule E(2), simp_all add: valid_aggregate(1) [OF that(2)] L [OF that(1)])
  moreover have "snd (acc_run env (ApplyTerminal pick eid now meta terminal oid) st) = st"
    if "isLifecycleEvent (am_EventType meta)" "terminal_valid meta terminal" for pick eid now terminal oid
    by (rule acc_run_unchanged) (rule E(4), simp_all add: valid_aggregate(2) [OF that(2)] L [OF that(1)])
  moreover have "snd (acc_run env (ApplyGrace pick meta grace) st) = st"
    if "isLifecycleEvent (am_EventType meta)" "grace_valid meta grace" for pick grace
    by (rule acc_run_unchanged) (rule E(3), simp_all add: valid_aggregate(3) [OF that(2)] L [OF that(1)])
  moreover have "snd (acc_run env (ApplyProvisionSucceeded pick eid oid now meta success) st) = st"
    if "isOutcomeEvent (am_EventType meta)" "validateProvisionSucceeded (acf_isIP cfg) meta success" for pick eid oid now success
    by (rule acc_run_unchanged) (rule E(5), simp_all add: valid_aggregate(4) [OF that(2)] O [OF that(1)])
  moreover have "snd (acc_run env (ApplyOperationFailed pick eid now meta failure kind) st) = st"
    if "isOutcomeEvent (am_EventType meta)" "failed_valid meta failure" for pick eid now failure kind
    by (rule acc_run_unchanged) (rule E(6), simp_all add: valid_aggregate(5) [OF that(2)] O [OF that(1)])
  moreover have "snd (acc_run env (ApplyRevokeSucceeded pick eid now meta revoked) st) = st"
    if "isOutcomeEvent (am_EventType meta)" "revoked_valid meta revoked" for pick eid now revoked
    by (rule acc_run_unchanged) (rule E(7), simp_all add: valid_aggregate(6) [OF that(2)] O [OF that(1)])
  ultimately show ?thesis unfolding acc_ProcessEvent_def Let_def
    by (auto simp: isLifecycleEvent_def isOutcomeEvent_def split: option.split intro!: checked_unchanged)
qed

end
