(* ===== verification/Access_Properties.thy ===== *)
theory Access_Properties
  imports Access_Memory
begin

text \<open>
  The properties of the access service: its commands, its profiles and subscription URLs, the
  effect of redelivered events, and the Kafka consumer.
\<close>

section \<open>Commands\<close>

text \<open>C14: Access tells provisioning every generation of a credential once and in order. In every
  reachable store the operations of a credential have the revisions 1, 2, \<dots> up to its version;
  its outbox rows are numbered without gaps; the commands among them are, in order, exactly one
  per operation, on the topic of its kind, with its id, and with its revision both in the data and
  as the sequence of the envelope; no row is leased or published before its predecessors; and a
  subscription has at most one credential that is not revoked.\<close>

theorem access_commands_gapless:
  assumes "acc_reachable st" and "c \<in> set (ac_credentials st)"
  shows "map aop_desired_revision (filter (\<lambda>o1. aop_credential_id o1 = cr_id c) (ac_operations st)) = [1..cr_version c]
    \<and> map ob_sequence (filter (\<lambda>r. ob_aggregate_id r = cr_id c) (ac_outbox st)) = map Some [1..cr_outbox_sequence c]
    \<and> List.map_filter row_command (filter (\<lambda>r. ob_aggregate_id r = cr_id c) (ac_outbox st))
      = map op_command (filter (\<lambda>o1. aop_credential_id o1 = cr_id c) (ac_operations st))
    \<and> in_order (ac_outbox st) \<and> one_current (ac_credentials st)"
proof -
  have ok: "acc_ok st" by (rule reachable_acc_ok [OF assms(1)])
  have "List.map_filter snd (map (\<lambda>r. (ob_sequence r, row_command r)) rows) = List.map_filter row_command rows" for rows
    by (induction rows) (simp_all add: List.map_filter_simps split: option.split)
  with acc_okD(2) [OF ok assms(2)] ok show ?thesis by (auto simp: fits_def hist_def comp_def acc_ok_def keys_ok_def)
qed

section \<open>Profiles\<close>

lemma GetProfile_Inr:
  assumes "GetProfile cfg env token st st2 = (Inr p, t)"
  obtains tk c v where "(tk, c) \<in> set (ac_tokens st) \<times> set (ac_credentials st)"
    "servable (av_now env) (Candidates (acf_hmac cfg) (acf_hasher cfg) token) st (tk, c)"
    "Decrypt (acf_aead cfg) (acf_keyring cfg) (cr_key_version c) (cr_ciphertext c) (cr_id c) = Some v"
    "happ_Render (acf_isIP cfg) (acf_urlString cfg) v (list_endpoints (cr_id c) st2) = Some (pr_Body p)"
    "pr_ExpiresAt p = cr_entitlement_expires_at c"
proof -
  from assms obtain tid rec where rec: "GetProfileByTokenHMACs (av_now env) (Candidates (acf_hmac cfg) (acf_hasher cfg) token) st st2 = Inr (tid, rec)"
    by (auto simp: GetProfile_def split: option.splits if_splits sum.splits)
  then obtain tk c where found: "find (servable (av_now env) (Candidates (acf_hmac cfg) (acf_hasher cfg) token) st)
      (List.product (ac_tokens st) (ac_credentials st)) = Some (tk, c)"
    and fields: "pfr_CredentialID rec = cr_id c" "pfr_Ciphertext rec = cr_ciphertext c" "pfr_KeyVersion rec = cr_key_version c"
      "pfr_EntitlementExpiresAt rec = cr_entitlement_expires_at c" "pfr_Endpoints rec = list_endpoints (cr_id c) st2"
    by (auto simp: GetProfileByTokenHMACs_def Let_def split: if_splits option.splits)
  from find_SomeD [OF found] have "(tk, c) \<in> set (ac_tokens st) \<times> set (ac_credentials st)"
    "servable (av_now env) (Candidates (acf_hmac cfg) (acf_hasher cfg) token) st (tk, c)" by simp_all
  moreover from assms rec obtain v where "Decrypt (acf_aead cfg) (acf_keyring cfg) (cr_key_version c) (cr_ciphertext c) (cr_id c) = Some v"
    "happ_Render (acf_isIP cfg) (acf_urlString cfg) v (list_endpoints (cr_id c) st2) = Some (pr_Body p)" "pr_ExpiresAt p = cr_entitlement_expires_at c"
    by (auto simp: GetProfile_def Let_def fields split: option.splits if_splits)
  ultimately show thesis by (rule that)
qed


section \<open>Subscription URLs\<close>

lemma find_unique_P: "x \<in> set xs \<Longrightarrow> P x \<Longrightarrow> (\<And>y. y \<in> set xs \<Longrightarrow> P y \<Longrightarrow> y = x) \<Longrightarrow> find P xs = Some x"
  by (cases "find P xs") (use find_SomeD [of P xs] find_NoneD [of P xs] in blast)+

text \<open>The keys of a restarted process: those of the issued token and of the credential are still there.\<close>

definition keeps_keys :: "acc_config \<Rightarrow> acc_config \<Rightarrow> Keyring \<Rightarrow> int \<Rightarrow> bool" where
  "keeps_keys cfg1 cfg2 k0 version \<longleftrightarrow>
     acf_aead cfg2 = acf_aead cfg1 \<and> acf_hmac cfg2 = acf_hmac cfg1
     \<and> map_of (kr_keys (acf_keyring cfg2)) version = map_of (kr_keys k0) version
     \<and> NewTokenHasherKeyring (th_activeVersion (acf_hasher cfg2)) (th_keys (acf_hasher cfg2)) = Some (acf_hasher cfg2)
     \<and> distinct (map fst (th_keys (acf_hasher cfg2)))
     \<and> map_of (th_keys (acf_hasher cfg1)) (th_activeVersion (acf_hasher cfg1)) \<noteq> None
     \<and> map_of (th_keys (acf_hasher cfg2)) (th_activeVersion (acf_hasher cfg1)) = map_of (th_keys (acf_hasher cfg1)) (th_activeVersion (acf_hasher cfg1))"

lemma issued_served:
  assumes ok: "acc_ok st" and cur: "current_credential sid st = Some c" and run: "IssueToken now sid op seed st = (Inr u, t)"
    and cand: "tseed_LookupHMAC seed \<in> set cand"
      "list_all (\<lambda>q. tk_lookup_hmac q \<in> set cand \<longrightarrow> tk_lookup_hmac q = tseed_LookupHMAC seed) (ac_tokens t)"
    and time: "later < cr_entitlement_expires_at c"
  shows "\<exists>tok. find (servable later cand t) (List.product (ac_tokens t) (ac_credentials t)) = Some (tok, c)"
  using run
proof (rule IssueToken_result)
  fix d st1 tok us
  assume d: "current_credential sid st = Some d" and ready: "ready (cr_status d)"
    and st1: "st1 = (case active_token (cr_id d) st of None \<Rightarrow> st
       | Some t \<Rightarrow> set_tokens (\<lambda>q. tk_id q = tk_id t) (\<lambda>q. q\<lparr>tk_status := TkRotated, tk_revoked_at := Some now\<rparr>) st)"
    and tok: "tk_credential_id tok = cr_id d" "tk_status tok = TkActive" "tk_expires_at tok = cr_entitlement_expires_at d" "tk_lookup_hmac tok = tseed_LookupHMAC seed"
      "\<forall>q \<in> set (ac_tokens st1). tk_lookup_hmac q \<noteq> tk_lookup_hmac tok"
    and t: "t = st1\<lparr>ac_tokens := ac_tokens st1 @ [tok], ac_url_idempotency := us\<rparr>"
  from d cur have [simp]: "d = c" by simp
  have creds: "ac_credentials t = ac_credentials st" by (simp add: t st1 split: option.split)
  have c: "c \<in> set (ac_credentials t)" using current_credentialD(1) [OF cur] by (simp add: creds)
  have dist: "distinct (map cr_id (ac_credentials t))" using ok by (simp add: creds acc_ok_def)
  have "find (servable later cand t) (List.product (ac_tokens t) (ac_credentials t)) = Some (tok, c)"
  proof (rule find_unique_P)
    show "(tok, c) \<in> set (List.product (ac_tokens t) (ac_credentials t))" using c by (simp add: t)
    show "servable later cand t (tok, c)" using tok cand(1) time ready by (auto simp: servable_def ready_def)
    fix y assume y: "y \<in> set (List.product (ac_tokens t) (ac_credentials t))" "servable later cand t y"
    obtain q e where [simp]: "y = (q, e)" by fastforce
    from y have q: "q \<in> set (ac_tokens t)" "e \<in> set (ac_credentials t)" "tk_lookup_hmac q \<in> set cand" "cr_id e = tk_credential_id q" by (auto simp: servable_def)
    with cand(2) have "tk_lookup_hmac q = tseed_LookupHMAC seed" by (auto simp: list_all_iff)
    with q(1) tok(4,5) have "q = tok" by (auto simp: t)
    moreover have "e = c" by (rule distinct_key_eq [OF dist q(2) c]) (use q(4) \<open>q = tok\<close> tok(1) in simp)
    ultimately show "y = (tok, c)" by simp
  qed
  then show ?thesis by blast
qed

text \<open>C16: An issued URL works, also after the keys were rotated. When a URL is issued or rotated for a
  subscription whose credential was sealed under some keyring, the URL ends in a fresh token, and
  a request with that token in the resulting store, by a process whose active keys may be others as
  long as it still has the keys in use, returns before the entitlement's end the profile of exactly
  that credential: its VLESS id, decrypted, with its endpoints. Assumed of the outside: AES-GCM
  opens what it sealed, the token decodes to 32 bytes, the token's HMACs collide with no other
  token's, and there are valid endpoints.\<close>

theorem issued_url_works:
  assumes reach: "acc_reachable st" and cur: "current_credential sid st = Some c"
    and sealed: "aead_laws (acf_aead cfg1)" "Encrypt (acf_aead cfg1) k0 vless nonce (cr_id c) = Some (cr_ciphertext c, cr_key_version c)"
    and issue: "IssueSubscriptionURL cfg1 cd env1 sid key operation st = (Inr url, t)"
    and keys: "keeps_keys cfg1 cfg2 k0 (cr_key_version c)"
    and token: "av_token env1 = Some token" "acf_rawURL cfg2 token = Some bytes" "length bytes = 32"
      "list_all (\<lambda>q. tk_lookup_hmac q \<in> set (Candidates (acf_hmac cfg2) (acf_hasher cfg2) token)
          \<longrightarrow> tk_lookup_hmac q = token_Sum (acf_hmac cfg1) (acf_hasher cfg1) token) (ac_tokens t)"
    and time: "av_now env2 < cr_entitlement_expires_at c"
    and endpoints: "uuidLike vless" "list_endpoints (cr_id c) t \<noteq> []" "list_all (ValidateEndpoint (acf_isIP cfg2)) (list_endpoints (cr_id c) t)"
  shows "url = acf_publicURL cfg1 @ ''/s/'' @ token
    \<and> (\<exists>p t2. GetProfile cfg2 env2 token t t = (Inr p, t2) \<and> pr_ExpiresAt p = cr_entitlement_expires_at c
        \<and> happ_Render (acf_isIP cfg2) (acf_urlString cfg2) vless (list_endpoints (cr_id c) t) = Some (pr_Body p))"
proof
  let ?sum = "token_Sum (acf_hmac cfg1) (acf_hasher cfg1) token" and ?cand = "Candidates (acf_hmac cfg2) (acf_hasher cfg2) token"
  from issue token(1) obtain op seed u where url: "url = acf_publicURL cfg1 @ ''/s/'' @ token"
    and run: "IssueToken (av_now env1) sid op seed st = (Inr u, t)" and seed: "tseed_LookupHMAC seed = ?sum"
    unfolding IssueSubscriptionURL_def Let_def
    by (auto split: if_splits option.splits prod.splits sum.splits dest!: run_tx_Inr) 
  show "url = acf_publicURL cfg1 @ ''/s/'' @ token" by (rule url)
  have sum: "?sum \<in> set ?cand" unfolding keys [unfolded keeps_keys_def, THEN conjunct2, THEN conjunct1, symmetric]
    by (rule Sum_in_Candidates [of "th_activeVersion (acf_hasher cfg2)" "th_keys (acf_hasher cfg2)"]) (use keys in \<open>simp_all add: keeps_keys_def\<close>)
  have cand: "?cand \<noteq> []" "length ?cand \<le> MaxTokenHMACKeys"
    using Candidates_length [of "th_activeVersion (acf_hasher cfg2)" "th_keys (acf_hasher cfg2)" "acf_hasher cfg2" "acf_hmac cfg2" token] keys
    by (simp_all add: keeps_keys_def MaxKeyringKeys_def MaxTokenHMACKeys_def)
  from issued_served [OF reachable_acc_ok [OF reach] cur run, of ?cand "av_now env2"] sum seed token(4) time
  obtain tok where "find (servable (av_now env2) ?cand t) (List.product (ac_tokens t) (ac_credentials t)) = Some (tok, c)" by auto
  then have rec: "GetProfileByTokenHMACs (av_now env2) ?cand t t = Inr (tk_id tok, \<lparr>pfr_CredentialID = cr_id c, pfr_Ciphertext = cr_ciphertext c,
      pfr_KeyVersion = cr_key_version c, pfr_EntitlementExpiresAt = cr_entitlement_expires_at c, pfr_Endpoints = list_endpoints (cr_id c) t\<rparr>)"
    using cand endpoints(2) by (simp add: GetProfileByTokenHMACs_def not_less)
  have dec: "Decrypt (acf_aead cfg2) (acf_keyring cfg2) (cr_key_version c) (cr_ciphertext c) (cr_id c) = Some vless"
    using Decrypt_Encrypt [OF sealed, of "acf_keyring cfg2"] keys by (simp add: keeps_keys_def)
  from Render_ok [OF endpoints(1,3,2), of "acf_urlString cfg2"] obtain body
    where "happ_Render (acf_isIP cfg2) (acf_urlString cfg2) vless (list_endpoints (cr_id c) t) = Some body" by auto
  then show "\<exists>p t2. GetProfile cfg2 env2 token t t = (Inr p, t2) \<and> pr_ExpiresAt p = cr_entitlement_expires_at c
        \<and> happ_Render (acf_isIP cfg2) (acf_urlString cfg2) vless (list_endpoints (cr_id c) t) = Some (pr_Body p)"
    using token(2,3) rec dec by (simp add: GetProfile_def)
qed

section \<open>Redelivery\<close>

text \<open>C17: A redelivered record has no effect. Once a record has been processed without error, processing
  it again at any later time (after any further steps of the store), under any configuration, clock,
  fresh identifiers and driver faults, leaves the store exactly as it is.\<close>

theorem access_redelivery_no_effect:
  assumes "acc_process cfg cd env r st = (None, t)" and "acc_step\<^sup>*\<^sup>* t t2"
  shows "snd (acc_process cfg2 cd env2 r t2) = t2"
proof -
  from assms(1) obtain e where e: "adc_envelope cd (rec_value r) = Some e" "validateEnvelope r e = None"
    and run: "acc_ProcessEvent cfg cd env (acc_meta cd r e) (envl_Data e) st = (None, t)"
    by (auto simp: acc_process_def split: option.splits)
  from later_seen [OF assms(2) ProcessEvent_sees [OF run]] have "seen_event (acc_meta cd r e) t2" .
  from ProcessEvent_seen [OF this] e show ?thesis by (simp add: acc_process_def)
qed

section \<open>The consumer\<close>

text \<open>C18: Retrying the deferred records ends. Whatever the outside answers, in whichever order the
  deferred records are visited, \<open>retryDeferred\<close> returns after at most \<open>d (d + 1) / 2\<close> attempts,
  where \<open>d\<close> is the number of deferred records, and never defers more.\<close>

theorem retry_deferred_ends:
  "fst (acc_retryDeferred cfg cd envs order k c) \<le> k + length (cn_deferred c) * (length (cn_deferred c) + 1) div 2
    \<and> length (cn_deferred (snd (acc_retryDeferred cfg cd envs order k c))) \<le> length (cn_deferred c)"
  unfolding acc_retryDeferred_def
  using retry_deferred_attempts [of "acc_attempts cfg cd envs" "\<lambda>k. ane_cancelled (envs k)" order k c] by (metis prod.collapse)


end
