(* ===== verification/Provisioning_Consumer.thy ===== *)
theory Provisioning_Consumer
  imports Provisioning_Properties Kafka_Consumer
begin

text \<open>
  The provisioning service's Kafka consumer, \<open>internal/kafka/consumer.go\<close>: the check of an envelope,
  what is done with one record, and its polls, which are the loops of \<open>Kafka_Consumer\<close>; its retry
  loop does not look at the context. \<open>prov_codec\<close> has what \<open>strictDecode\<close> makes of a record and of an
  event's data, and the SHA-256 of text as hexadecimal digits; \<open>pcn_env\<close> has what the outside
  answers during one attempt.
\<close>

section \<open>Records\<close>

record prov_codec =
  pdc_envelope :: "string \<Rightarrow> Envelope option"
  pdc_command :: "string \<Rightarrow> Command option"
  pdc_sha256 :: "string \<Rightarrow> string"

record pcn_env =
  pne_now :: instant
  pne_appNow :: instant
  pne_fault :: fault
  pne_dead_fault :: fault
  pne_eventID :: uuid
  pne_commit_ok :: bool
  pne_cancelled :: bool
  pne_alive :: bool

definition prov_validateEnvelope :: "kafka_record \<Rightarrow> Envelope \<Rightarrow> string option" where
  "prov_validateEnvelope record envelope =
     (if rec_topic record \<noteq> ''access.provision.request.v1'' \<and> rec_topic record \<noteq> ''access.revoke.request.v1''
      then Some ''invalid_envelope_routing''
      else if envl_EventType envelope \<noteq> rec_topic record \<or> envl_SchemaVersion envelope \<noteq> 1 \<or> envl_Producer envelope \<noteq> ''access-service''
        \<or> envl_AggregateType envelope \<noteq> ''credential''
      then Some ''invalid_envelope_routing''
      else if \<not> prov_uuid (envl_EventID envelope) \<or> \<not> prov_uuid (envl_AggregateID envelope) \<or> \<not> prov_uuid (envl_CorrelationID envelope)
        \<or> envl_OccurredAt envelope = 0 \<or> envl_AggregateSequence envelope < 1
      then Some ''invalid_envelope_identifiers''
      else if (case envl_CausationID envelope of None \<Rightarrow> False | Some c \<Rightarrow> \<not> prov_uuid c) then Some ''invalid_envelope_causation''
      else if envl_PartitionKey envelope \<noteq> ''credential:'' @ envl_AggregateID envelope \<or> rec_key record \<noteq> envl_PartitionKey envelope
      then Some ''invalid_envelope_partition_key''
      else if envl_Data envelope = [] \<or> envl_Data envelope = ''null'' then Some ''invalid_envelope_data''
      else None)"

definition prov_meta :: "prov_codec \<Rightarrow> kafka_record \<Rightarrow> Envelope \<Rightarrow> ProvMeta" where
  "prov_meta cd record envelope =
     \<lparr>pm_EventID = envl_EventID envelope, pm_EventType = envl_EventType envelope, pm_AggregateID = envl_AggregateID envelope,
      pm_AggregateSequence = envl_AggregateSequence envelope, pm_PartitionKey = envl_PartitionKey envelope,
      pm_CorrelationID = envl_CorrelationID envelope, pm_CausationID = envl_CausationID envelope, pm_OccurredAt = envl_OccurredAt envelope,
      pm_SourceTopic = rec_topic record, pm_SourcePartition = rec_partition record, pm_SourceOffset = rec_offset record,
      pm_PayloadSHA256 = pdc_sha256 cd (rec_value record)\<rparr>"

text \<open>\<open>maxAttempts\<close> is the limit the service was configured with.\<close>

definition prov_process :: "int \<Rightarrow> prov_codec \<Rightarrow> pcn_env \<Rightarrow> kafka_record \<Rightarrow> prov_store \<Rightarrow> prov_error option \<times> prov_store" where
  "prov_process maxAttempts cd env record st =
     (case pdc_envelope cd (rec_value record) of
        None \<Rightarrow> (Some (PContractError ''invalid_envelope_json''), st)
      | Some envelope \<Rightarrow>
          (case prov_validateEnvelope record envelope of
             Some code \<Rightarrow> (Some (PContractError code), st)
           | None \<Rightarrow>
               (case run_tx PInfra (pne_fault env) (ProcessEvent (pne_now env) maxAttempts (prov_meta cd record envelope) (pdc_command cd (envl_Data envelope))) st of
                  (Inl err, t) \<Rightarrow> (Some err, t)
                | (Inr _, t) \<Rightarrow> (None, t))))"

definition prov_attempt :: "int \<Rightarrow> prov_codec \<Rightarrow> pcn_env \<Rightarrow> kafka_record \<Rightarrow> prov_store \<Rightarrow> attempt_result \<times> prov_store" where
  "prov_attempt maxAttempts cd env record st =
     (case prov_process maxAttempts cd env record st of (err, st1) \<Rightarrow>
        let commit = (\<lambda>t. (if pne_commit_ok env then AtCommitted else AtRetry, t)) in
        (case err of
           None \<Rightarrow> commit st1
         | Some x \<Rightarrow>
             if x = PErrSequenceGap then (AtGap, st1)
             else (case prov_ContractErrorCode x of
                 None \<Rightarrow> (AtRetry, st1)
               | Some code \<Rightarrow>
                   (case run_tx PInfra (pne_dead_fault env) (prov_RecordDeadLetter (pne_eventID env) (pne_now env) (pne_appNow env) (rec_topic record)
                         (rec_partition record) (rec_offset record) (pdc_sha256 cd (rec_value record)) code) st1 of
                      (Inl _, st2) \<Rightarrow> (AtRetry, st2)
                    | (Inr _, st2) \<Rightarrow> commit st2))))"

section \<open>Polls\<close>

definition prov_attempts :: "int \<Rightarrow> prov_codec \<Rightarrow> (nat \<Rightarrow> pcn_env) \<Rightarrow> prov_store attempts" where
  "prov_attempts maxAttempts cd envs k = prov_attempt maxAttempts cd (envs k)"

definition prov_retryDeferred :: "int \<Rightarrow> prov_codec \<Rightarrow> (nat \<Rightarrow> pcn_env) \<Rightarrow> (nat \<Rightarrow> kafka_record list \<Rightarrow> kafka_record list) \<Rightarrow> nat \<Rightarrow>
    prov_store consumer \<Rightarrow> nat \<times> prov_store consumer" where
  "prov_retryDeferred maxAttempts cd envs order k c = retry_deferred (prov_attempts maxAttempts cd envs) (\<lambda>_. False) order k c"

definition prov_pollOnce :: "int \<Rightarrow> prov_codec \<Rightarrow> (nat \<Rightarrow> pcn_env) \<Rightarrow> (nat \<Rightarrow> kafka_record list \<Rightarrow> kafka_record list) \<Rightarrow> kafka_record list \<Rightarrow>
    prov_store consumer \<Rightarrow> bool \<times> prov_store consumer" where
  "prov_pollOnce maxAttempts cd envs order records c = poll_once (prov_attempts maxAttempts cd envs) (\<lambda>_. False) (\<lambda>k. pne_cancelled (envs k))
     (\<lambda>k. pne_alive (envs k)) order records c"

section \<open>What the attempts guarantee\<close>

definition prov_settled :: "int \<Rightarrow> prov_codec \<Rightarrow> kafka_record \<Rightarrow> bool" where
  "prov_settled maxAttempts cd r \<longleftrightarrow>
     (\<exists>env st. case fst (prov_process maxAttempts cd env r st) of None \<Rightarrow> True | Some x \<Rightarrow> x \<noteq> PErrSequenceGap \<and> prov_ContractErrorCode x \<noteq> None)"

lemma prov_attempt_settled:
  assumes "prov_attempt maxAttempts cd env r st = (AtCommitted, t)"
  shows "prov_settled maxAttempts cd r"
proof -
  obtain err st1 where p: "prov_process maxAttempts cd env r st = (err, st1)" by fastforce
  with assms have "case err of None \<Rightarrow> True | Some x \<Rightarrow> x \<noteq> PErrSequenceGap \<and> prov_ContractErrorCode x \<noteq> None"
    by (auto simp: prov_attempt_def Let_def split: option.splits if_splits prod.splits sum.splits)
  with p show ?thesis unfolding prov_settled_def by (intro exI [of _ env] exI [of _ st]) simp
qed

lemma ProcessEvent_reachable_prov:
  assumes "prov_reachable st"
  shows "prov_reachable (snd (run_tx PInfra fl (ProcessEvent now ma meta data) st))"
proof (rule run_tx_post [where Q = prov_reachable, OF _ assms])
  fix u t
  assume "ProcessEvent now ma meta data st = (Inr u, t)"
  from ProcessEvent_records [OF this] obtain command kind where "RecordCommand now meta command kind ma st = (Inr u, t)" by blast
  with pr_step [OF assms ps_command, of NoFault now meta command kind ma] show "prov_reachable t" by (simp add: run_tx_def)
qed

lemma prov_process_cases:
  obtains "snd (prov_process maxAttempts cd env r st) = st"
  | envelope where "pdc_envelope cd (rec_value r) = Some envelope" "prov_validateEnvelope r envelope = None"
      "snd (prov_process maxAttempts cd env r st)
        = snd (run_tx PInfra (pne_fault env) (ProcessEvent (pne_now env) maxAttempts (prov_meta cd r envelope) (pdc_command cd (envl_Data envelope))) st)"
  by (cases "pdc_envelope cd (rec_value r)"; cases "prov_validateEnvelope r (the (pdc_envelope cd (rec_value r)))")
    (auto simp: prov_process_def split: prod.splits sum.splits)

lemma prov_process_reachable: "prov_reachable st \<Longrightarrow> prov_reachable (snd (prov_process maxAttempts cd env r st))"
  by (cases rule: prov_process_cases [of maxAttempts cd env r st]) (simp_all add: ProcessEvent_reachable_prov)

lemma prov_attempt_reachable:
  assumes "prov_reachable st"
  shows "prov_reachable (snd (prov_attempt maxAttempts cd env r st))"
proof -
  obtain err st1 where p: "prov_process maxAttempts cd env r st = (err, st1)" by fastforce
  with prov_process_reachable [OF assms, of maxAttempts cd env r] have r1: "prov_reachable st1" by simp
  have dead: "prov_reachable st2" if "run_tx PInfra fl (prov_RecordDeadLetter eid now appNow topic part off sha code) st1 = (x, st2)"
    for fl eid now appNow topic part off sha code x st2
    using pr_step [OF r1 ps_dead_letter, of fl eid now appNow topic part off sha code] that by simp
  show ?thesis using r1 by (auto simp: prov_attempt_def p Let_def split: option.splits prod.splits sum.splits dest: dead)
qed

interpretation prov_records: deferring_consumer "prov_attempts maxAttempts cd envs" "prov_settled maxAttempts cd" for maxAttempts cd envs
  by unfold_locales (simp add: prov_attempts_def prov_attempt_settled)

interpretation prov_steps: keeping_consumer "prov_attempts maxAttempts cd envs" prov_reachable for maxAttempts cd envs
  by unfold_locales (simp add: prov_attempts_def prov_attempt_reachable)

text \<open>A poll of the provisioning consumer keeps the store reachable, so its invariants hold, and loses no record.\<close>

theorem provisioning_poll_sound:
  assumes "prov_reachable (cn_store c)" and "consumer_ok c" and "rec_at r \<notin> rec_at ` set (cn_deferred c)"
    and "prov_pollOnce maxAttempts cd envs order [r] c = (alive, c1)"
  shows "prov_reachable (cn_store c1) \<and> consumer_ok c1 \<and> (\<exists>new. cn_committed c1 = cn_committed c @ new \<and> list_all (prov_settled maxAttempts cd) new
    \<and> list_all (\<lambda>q. q \<in> set new \<or> q \<in> set (cn_deferred c1) \<or> q = r \<and> cn_position c1 (rec_at r) = Some (rec_offset r)) (r # cn_deferred c))"
  using prov_steps.poll_once_keeps [OF assms(1), of maxAttempts cd envs "\<lambda>_. False" "\<lambda>k. pne_cancelled (envs k)" "\<lambda>k. pne_alive (envs k)" order "[r]"]
    prov_records.poll_keeps [OF assms(2,3) assms(4) [unfolded prov_pollOnce_def]] assms(4)
  by (simp add: prov_pollOnce_def)

end
