(* ===== verification/Access_Provisioning.thy ===== *)
theory Access_Provisioning
  imports Access_Properties Provisioning_Consumer "HOL-Library.Sublist"
begin

text \<open>
  Access and provisioning together. The two services share no database: access writes commands to
  its outbox, its worker sends them to Kafka, and the provisioning consumer processes them. The
  joint system \<open>joint\<close> interleaves any steps of the access store, any steps of the provisioning store
  that record no command, and deliveries: any row ever written to the access outbox may be
  delivered, any number of times, in any order, at any position of its topic, with any faults.

  \<open>provisioning_follows_access\<close> shows that provisioning nevertheless works through the operations of
  a credential as access numbered them.
\<close>

section \<open>Delivery\<close>

text \<open>The envelope that \<open>insertOutbox\<close> marshals, with the bytes of its data.\<close>

definition acc_wire :: "acc_envelope \<Rightarrow> string \<Rightarrow> Envelope" where
  "acc_wire p data =
     \<lparr>envl_EventID = ae_EventID p, envl_EventType = ae_EventType p, envl_SchemaVersion = 1, envl_OccurredAt = ae_OccurredAt p,
      envl_Producer = ''access-service'', envl_CorrelationID = ae_CorrelationID p, envl_CausationID = Some (ae_CausationID p),
      envl_AggregateType = ae_AggregateType p, envl_AggregateID = ae_AggregateID p, envl_AggregateSequence = ae_AggregateSequence p,
      envl_PartitionKey = ae_PartitionKey p, envl_Data = data\<rparr>"

text \<open>The command in the data of an event; other data has unknown fields, which \<open>strictDecode\<close> refuses.\<close>

definition wire_command :: "acc_event_data \<Rightarrow> Command option" where
  "wire_command d = (case d of
       AccCommandData oid cid rv \<Rightarrow> Some \<lparr>cmd_OperationID = oid, cmd_CredentialID = cid, cmd_DesiredRevision = rv\<rparr>
     | _ \<Rightarrow> None)"

text \<open>A record that was published for a row: its value decodes to what was encoded.\<close>

definition carries :: "prov_codec \<Rightarrow> kafka_record \<Rightarrow> acc_outbox_row \<Rightarrow> bool" where
  "carries cd r row \<longleftrightarrow> rec_topic r = ob_topic row \<and> rec_key r = ob_partition_key row
     \<and> (case pdc_envelope cd (rec_value r) of
          None \<Rightarrow> False
        | Some e \<Rightarrow> e = acc_wire (ob_payload row) (envl_Data e) \<and> pdc_command cd (envl_Data e) = wire_command (ae_Data (ob_payload row)))"

inductive joint :: "prov_codec \<Rightarrow> acc_store \<Rightarrow> prov_store \<Rightarrow> bool" for cd :: prov_codec where
  jt_start: "joint cd empty_acc_store empty_prov_store"
| jt_access: "joint cd a p \<Longrightarrow> acc_step a a1 \<Longrightarrow> joint cd a1 p"
| jt_deliver: "joint cd a p \<Longrightarrow> row \<in> set (ac_outbox a) \<Longrightarrow> carries cd r row \<Longrightarrow> joint cd a (snd (prov_process maxAttempts cd env r p))"
| jt_provisioning: "joint cd a p \<Longrightarrow> prov_step p p1 \<Longrightarrow> pv_inbox p1 = pv_inbox p \<Longrightarrow> joint cd a p1"

section \<open>Provisioning mirrors access\<close>

definition prov_kind :: "acc_kind \<Rightarrow> op_kind" where
  "prov_kind k = (case k of AccProvision \<Rightarrow> OpProvision | AccRevoke \<Rightarrow> OpRevoke)"

definition mirrored :: "acc_store \<Rightarrow> prov_store \<Rightarrow> bool" where
  "mirrored a p \<longleftrightarrow> (\<forall>(oid, cid, kind, rv, sq) \<in> idents p. sq = rv \<and> (\<exists>k. prov_kind k = kind \<and> op_has (oid, cid, k, rv) a))"

lemma has_credential: "acc_ok a \<Longrightarrow> hist cid a \<noteq> ([], [], 0, []) \<Longrightarrow> \<exists>c. c \<in> set (ac_credentials a) \<and> cr_id c = cid"
  unfolding acc_ok_def image_iff by metis

lemma in_map_filter: "x \<in> set xs \<Longrightarrow> f x = Some y \<Longrightarrow> y \<in> set (List.map_filter f xs)"
  by (induction xs) (auto simp: List.map_filter_simps split: option.split)

text \<open>A command in the outbox is the command of an operation.\<close>

lemma command_row:
  assumes ok: "acc_ok a" and row: "row \<in> set (ac_outbox a)" and command: "row_command row = Some v"
  shows "\<exists>o1 \<in> set (ac_operations a). aop_credential_id o1 = ob_aggregate_id row \<and> op_command o1 = v"
proof -
  let ?cid = "ob_aggregate_id row" and ?rows = "filter (\<lambda>r. ob_aggregate_id r = ob_aggregate_id row) (ac_outbox a)"
  from row have mem: "row \<in> set ?rows" by simp
  then have "?rows \<noteq> []" by fastforce
  then have "hist ?cid a \<noteq> ([], [], 0, [])" by (simp add: hist_def)
  with has_credential [OF ok] obtain c where "c \<in> set (ac_credentials a)" "cr_id c = ?cid" by blast
  with acc_okD(2) [OF ok, of c] have "List.map_filter snd (map (\<lambda>r. (ob_sequence r, row_command r)) ?rows)
      = map op_command (filter (\<lambda>o1. aop_credential_id o1 = ?cid) (ac_operations a))" by (simp add: fits_def hist_def)
  moreover have "v \<in> set (List.map_filter snd (map (\<lambda>r. (ob_sequence r, row_command r)) ?rows))"
    by (rule in_map_filter [of "(ob_sequence row, row_command row)"]) (use mem command in auto)
  ultimately show ?thesis by auto
qed

lemma deliver_mirrored:
  assumes ok: "acc_ok a" and row: "row \<in> set (ac_outbox a)" and c: "carries cd r row" and m: "mirrored a p"
  shows "mirrored a (snd (prov_process maxAttempts cd env r p))"
proof (cases rule: prov_process_cases [of maxAttempts cd env r p])
  case 1
  with m show ?thesis by simp
next
  case (2 e)
  let ?meta = "prov_meta cd r e"
  from c 2(1) have e: "e = acc_wire (ob_payload row) (envl_Data e)" "pdc_command cd (envl_Data e) = wire_command (ae_Data (ob_payload row))"
    and topic: "rec_topic r = ob_topic row" by (simp_all add: carries_def)
  have "mirrored a t" if run: "ProcessEvent (pne_now env) maxAttempts ?meta (pdc_command cd (envl_Data e)) p = (Inr u, t)" for u t
  proof -
    from run obtain command kind where d: "pdc_command cd (envl_Data e) = Some command" and k: "event_kind (pm_EventType ?meta) = Some kind"
      and inv: "event_invariant ?meta command" and rc: "RecordCommand (pne_now env) ?meta command kind maxAttempts p = (Inr u, t)"
      by (auto simp: ProcessEvent_def tx_fail_def split: option.splits if_splits)
    from d e(2) obtain oid cid rv where data: "ae_Data (ob_payload row) = AccCommandData oid cid rv"
      and command: "command = \<lparr>cmd_OperationID = oid, cmd_CredentialID = cid, cmd_DesiredRevision = rv\<rparr>"
      by (auto simp: wire_command_def split: acc_event_data.splits)
    from inv have seq: "pm_AggregateSequence ?meta = rv" by (simp add: event_invariant_def command)
    obtain b where v: "row_command row = Some (ob_topic row, ae_AggregateSequence (ob_payload row), oid, rv, b)"
      and b: "b \<Longrightarrow> cid = ob_aggregate_id row \<and> ae_EventType (ob_payload row) = ob_topic row" by (auto simp: row_command_def data)
    from command_row [OF ok row v] b obtain o1 where o1: "o1 \<in> set (ac_operations a)" "aop_credential_id o1 = cid" "aop_id o1 = oid"
      "aop_desired_revision o1 = rv" "command_topic (aop_kind o1) = ae_EventType (ob_payload row)"
      by (auto simp: op_command_def)
    have "pm_EventType ?meta = ae_EventType (ob_payload row)" by (subst e(1)) (simp add: prov_meta_def acc_wire_def)
    with k o1(5) have "prov_kind (aop_kind o1) = kind"
      by (cases "aop_kind o1") (auto simp: event_kind_def command_topic_def prov_kind_def split: if_splits)
    moreover have "op_has (oid, cid, aop_kind o1, rv) a" using o1 by (force simp: op_has_def aop_ident_def)
    ultimately show ?thesis using idents_command [OF rc] m by (auto simp: mirrored_def command seq)
  qed
  then show ?thesis unfolding 2(3) by (rule run_tx_post) (simp_all add: m)
qed

lemma joint_invariant: "joint cd a p \<Longrightarrow> acc_reachable a \<and> prov_reachable p \<and> mirrored a p"
proof (induction rule: joint.induct)
  case jt_start
  have "idents empty_prov_store = {}" by (simp add: idents_def empty_prov_store_def)
  then show ?case by (simp add: ar_empty pr_empty mirrored_def)
next
  case (jt_access a p a1)
  then show ?case using operation_memory.step_keeps [OF jt_access.hyps(2)] by (fastforce simp: mirrored_def intro: ar_step)
next
  case (jt_deliver a p row r maxAttempts env)
  then show ?case by (auto intro: prov_process_reachable deliver_mirrored reachable_acc_ok)
next
  case (jt_provisioning a p p1)
  then have "idents p1 = idents p" using grows_step reachable_capacity by (auto simp: grows_def)
  then show ?case using jt_provisioning by (auto simp: mirrored_def intro: pr_step)
qed

section \<open>The same operations in the same order\<close>

lemma numbered_prefix:
  assumes xs: "map f xs = [1..m]" and ys: "map g ys = [1..n]" and sub: "\<And>x. x \<in> set xs \<Longrightarrow> \<exists>y \<in> set ys. u x = v y \<and> f x = g y"
  shows "prefix (map u xs) (map v ys)"
proof -
  have f: "f (xs ! i) = 1 + int i" if "i < length xs" for i
    using that arg_cong [OF xs, of "\<lambda>l. l ! i"] arg_cong [OF xs, of length] by (simp add: nth_upto)
  have g: "g (ys ! i) = 1 + int i" if "i < length ys" for i
    using that arg_cong [OF ys, of "\<lambda>l. l ! i"] arg_cong [OF ys, of length] by (simp add: nth_upto)
  have at: "i < length ys \<and> u (xs ! i) = v (ys ! i)" if i: "i < length xs" for i
  proof -
    from sub [OF nth_mem [OF i]] obtain j where j: "j < length ys" "u (xs ! i) = v (ys ! j)" "f (xs ! i) = g (ys ! j)" by (metis in_set_conv_nth)
    with f [OF i] g [OF j(1)] have "j = i" by simp
    with j show ?thesis by simp
  qed
  have "length xs \<le> length ys" using at [of "length xs - 1"] by (cases "length xs") auto
  then have "map u xs = take (length xs) (map v ys)" using at by (intro nth_equalityI) auto
  then show ?thesis by (metis take_is_prefix)
qed

text \<open>C20: Provisioning carries out exactly what access commanded, in the order it was commanded. However
  the commands are delayed, duplicated or reordered on the way and however the steps of the two
  services interleave, the operations that provisioning has for a credential are the first
  operations that access has for it, with the same ids, kinds and revisions: none is skipped,
  repeated, swapped or invented.\<close>

theorem provisioning_follows_access:
  assumes "joint cd a p"
  shows "prefix (map (\<lambda>o1. (opr_id o1, opr_kind o1, opr_desired_revision o1)) (of_credential cid (pv_operations p)))
    (map (\<lambda>o1. (aop_id o1, prov_kind (aop_kind o1), aop_desired_revision o1)) (filter (\<lambda>o1. aop_credential_id o1 = cid) (ac_operations a)))"
proof (cases "of_credential cid (pv_operations p) = []")
  case False
  let ?os = "of_credential cid (pv_operations p)" and ?as = "filter (\<lambda>o1. aop_credential_id o1 = cid) (ac_operations a)"
  note J = joint_invariant [OF assms]
  have ok: "acc_ok a" and gen: "generations_ok p" using J reachable_acc_ok reachable_generations by auto
  have match: "opr_command_sequence o1 = opr_desired_revision o1 \<and> (\<exists>o2 \<in> set ?as. aop_id o2 = opr_id o1 \<and> prov_kind (aop_kind o2) = opr_kind o1
      \<and> aop_desired_revision o2 = opr_desired_revision o1)" if "o1 \<in> set ?os" for o1
  proof -
    from that have "op_ident o1 \<in> idents p" "opr_credential_id o1 = cid" by (auto simp: of_credential_def idents_def)
    with J show ?thesis by (fastforce simp: mirrored_def op_ident_def op_has_def aop_ident_def)
  qed
  from False obtain o1 where o1: "o1 \<in> set ?os" by (cases ?os) auto
  with match obtain o2 where o2: "o2 \<in> set ?as" by blast
  then have "hist cid a \<noteq> ([], [], 0, [])" by (auto simp: hist_def filter_empty_conv)
  with has_credential [OF ok] obtain c where "c \<in> set (ac_credentials a)" "cr_id c = cid" by blast
  with acc_okD(2) [OF ok, of c] have as: "map aop_desired_revision ?as = [1..cr_version c]" by (simp add: fits_def hist_def)
  from o1 gen obtain cu where "cu \<in> set (pv_cursors p)" "cu_credential_id cu = cid" by (auto simp: generations_ok_def of_credential_def)
  with gen have "map opr_command_sequence ?os = [1..cu_last_sequence cu]" by (auto simp: generations_ok_def cursor_ok_def)
  moreover have "map opr_command_sequence ?os = map opr_desired_revision ?os" using match by simp
  ultimately have os: "map opr_desired_revision ?os = [1..cu_last_sequence cu]" by simp
  show ?thesis by (rule numbered_prefix [OF os as]) (use match in force)
qed simp

end
