(* ===== verification/Access_Witnesses.thy ===== *)
theory Access_Witnesses
  imports Access_Properties
begin

text \<open>
  A run of the access service on which its theorems are applied: a subscription is activated, its
  credential is provisioned, and a subscription URL is issued; the keys are rotated before the URL
  is used. A second run has a revoke that overtakes its provision. The stores
  of the run are evaluated once (\<open>*_value\<close>), and later evaluations start from them.
\<close>

section \<open>The process\<close>

definition aw_id :: "string \<Rightarrow> uuid" where
  "aw_id s = ''00000000-0000-4000-8000-0000000000'' @ s"

definition aw_aead :: aead where
  "aw_aead = \<lparr>gcm_seal = (\<lambda>key nonce text ad. text @ replicate 16 CHR ''t''), gcm_open = (\<lambda>key nonce box ad. Some (take (length box - 16) box))\<rparr>"

definition aw_hmac :: "string \<Rightarrow> string \<Rightarrow> string" where
  "aw_hmac key token = take 1 key @ take 31 (token @ replicate 31 CHR ''0'')"

definition aw_hasher :: "int \<Rightarrow> (int \<times> string) list \<Rightarrow> TokenHasher" where
  "aw_hasher v keys = \<lparr>th_activeVersion = v, th_keys = keys, th_versions = map fst keys\<rparr>"

definition aw_config :: "int \<Rightarrow> (int \<times> string) list \<Rightarrow> acc_config" where
  "aw_config v keys = \<lparr>acf_keyring = \<lparr>kr_activeVersion = v, kr_keys = keys\<rparr>, acf_hasher = aw_hasher v keys, acf_publicURL = ''https://vpn.example'',
     acf_aead = aw_aead, acf_hmac = aw_hmac, acf_isIP = (\<lambda>_. False), acf_urlString = vu_Fragment, acf_rawURL = (\<lambda>t. Some (replicate 32 CHR ''b'')),
     acf_sha256 = (\<lambda>_. []), acf_retryDelay = 10, acf_lease = 10\<rparr>"

definition aw_cfg1 :: acc_config where
  "aw_cfg1 = aw_config 1 [(1, replicate 32 CHR ''k'')]"

definition aw_cfg2 :: acc_config where
  "aw_cfg2 = aw_config 2 [(1, replicate 32 CHR ''k''), (2, replicate 32 CHR ''m'')]"

definition aw_period :: PeriodEvent where
  "aw_period = \<lparr>per_SubscriptionID = aw_id ''51'', per_UserID = aw_id ''33'', per_PeriodID = aw_id ''52'', per_SourceOrderID = aw_id ''53'',
     per_SourcePaymentID = aw_id ''54'', per_PeriodStart = 10, per_PeriodEnd = 1000, per_GraceEndsAt = 2000\<rparr>"

definition aw_endpoint :: "string \<Rightarrow> string \<Rightarrow> EndpointSnapshot" where
  "aw_endpoint n role = \<lparr>es_NodeID = aw_id n, es_Role = role, es_Address = ''n.example'', es_Port = 443, es_ServerName = ''s.example'',
     es_RealityPublicKey = replicate 43 CHR ''A'', es_ShortID = ''ab'', es_SpiderX = ''/'', es_Label = role\<rparr>"

definition aw_success :: ProvisionSucceeded where
  "aw_success = \<lparr>pvs_OperationID = aw_id ''a1'', pvs_CredentialID = aw_id ''c1'', pvs_AppliedRevision = 1, pvs_Status = ''active'',
     pvs_AssignedNodeIDs = [aw_id ''01'', aw_id ''02''], pvs_Endpoints = [aw_endpoint ''01'' ''primary'', aw_endpoint ''02'' ''failover''], pvs_AppliedAt = 30\<rparr>"

definition aw_terminal :: TerminalEvent where
  "aw_terminal = \<lparr>te_SubscriptionID = aw_id ''51'', te_UserID = aw_id ''33'', te_Reason = ''refund'', te_AffectedPeriodIDs = [], te_EffectiveAt = 40\<rparr>"

definition aw_revoked :: RevokeSucceeded where
  "aw_revoked = \<lparr>rvs_OperationID = aw_id ''a2'', rvs_CredentialID = aw_id ''c1'', rvs_DesiredRevision = 2, rvs_AllocationRevision = 1,
     rvs_AllAssignedNodesRemoved = True, rvs_NodeIDs = [aw_id ''01'', aw_id ''02''], rvs_RevokedAt = 60\<rparr>"

definition aw_failed :: OperationFailed where
  "aw_failed = \<lparr>opf_OperationID = aw_id ''a2'', opf_CredentialID = aw_id ''c1'', opf_FailedRevision = 2, opf_FailureScope = ''all'', opf_Terminal = True,
     opf_ReasonCode = ''revoke_incomplete'', opf_PendingNodeIDs = [], opf_FailedAt = 70\<rparr>"

definition aw_envelope :: "string \<Rightarrow> string \<Rightarrow> string \<Rightarrow> string \<Rightarrow> string \<Rightarrow> string \<Rightarrow> int \<Rightarrow> Envelope" where
  "aw_envelope eid topic producer atype agg key sq = \<lparr>envl_EventID = aw_id eid, envl_EventType = topic, envl_SchemaVersion = 1, envl_OccurredAt = 15,
     envl_Producer = producer, envl_CorrelationID = aw_id ''f1'', envl_CausationID = None, envl_AggregateType = atype, envl_AggregateID = agg,
     envl_AggregateSequence = sq, envl_PartitionKey = key, envl_Data = ''data''\<rparr>"

definition aw_user :: "string \<Rightarrow> string \<Rightarrow> int \<Rightarrow> Envelope" where
  "aw_user eid topic sq = aw_envelope eid topic ''subscription-service'' ''subscription'' (aw_id ''51'') (''user:'' @ aw_id ''33'') sq"

definition aw_cred :: "string \<Rightarrow> string \<Rightarrow> int \<Rightarrow> Envelope" where
  "aw_cred eid topic sq = aw_envelope eid topic ''provisioning-service'' ''credential'' (aw_id ''c1'') (''credential:'' @ aw_id ''c1'') sq"

definition aw_codec :: acc_codec where
  "aw_codec = \<lparr>adc_envelope = (\<lambda>v. if v = ''activated'' then Some (aw_user ''e1'' ''subscription.activated.v1'' 1)
        else if v = ''provisioned'' then Some (aw_cred ''e2'' ''access.provision.succeeded.v1'' 1)
        else if v = ''terminal'' then Some (aw_user ''e3'' ''subscription.revoked.v1'' 2)
        else if v = ''revoked'' then Some (aw_cred ''e4'' ''access.revoke.succeeded.v1'' 1)
        else if v = ''extended'' then Some ((aw_user ''e6'' ''subscription.extended.v1'' 3)\<lparr>envl_Data := ''data2''\<rparr>)
        else if v = ''failed'' then Some (aw_cred ''e5'' ''access.revoke.failed.v1'' 2) else None),
     adc_payment = (\<lambda>_. None), adc_period = (\<lambda>d. Some (if d = ''data2'' then aw_period\<lparr>per_SourcePaymentID := aw_id ''55''\<rparr> else aw_period)), adc_terminal = (\<lambda>_. Some aw_terminal), adc_grace = (\<lambda>_. None),
     adc_provisioned = (\<lambda>_. Some aw_success), adc_failed = (\<lambda>_. Some aw_failed), adc_revoked = (\<lambda>_. Some aw_revoked),
     adc_sha256 = (\<lambda>_. replicate 64 CHR ''a'')\<rparr>"

definition aw_record :: "string \<Rightarrow> string \<Rightarrow> string \<Rightarrow> int \<Rightarrow> kafka_record" where
  "aw_record topic key doc off = \<lparr>rec_topic = topic, rec_partition = 0, rec_offset = off, rec_key = key, rec_value = doc\<rparr>"

definition aw_r1 :: kafka_record where "aw_r1 = aw_record ''subscription.activated.v1'' (''user:'' @ aw_id ''33'') ''activated'' 0"

definition aw_r2 :: kafka_record where "aw_r2 = aw_record ''access.provision.succeeded.v1'' (''credential:'' @ aw_id ''c1'') ''provisioned'' 0"

definition aw_r3 :: kafka_record where "aw_r3 = aw_record ''subscription.revoked.v1'' (''user:'' @ aw_id ''33'') ''terminal'' 0"

definition aw_r4 :: kafka_record where "aw_r4 = aw_record ''access.revoke.succeeded.v1'' (''credential:'' @ aw_id ''c1'') ''revoked'' 0"

definition aw_r5 :: kafka_record where "aw_r5 = aw_record ''access.revoke.failed.v1'' (''credential:'' @ aw_id ''c1'') ''failed'' 0"

definition aw_r6 :: kafka_record where "aw_r6 = aw_record ''subscription.extended.v1'' (''user:'' @ aw_id ''33'') ''extended'' 0"

definition aw_env :: "instant \<Rightarrow> string \<Rightarrow> (nat \<Rightarrow> uuid option) \<Rightarrow> acc_env" where
  "aw_env now eid ids = \<lparr>av_now = now, av_pick = 0, av_fault = NoFault, av_fault2 = NoFault, av_eventID = aw_id eid, av_revokeID = aw_id ''a9'', av_uuid = ids,
     av_nonce = Some (replicate 12 CHR ''n''), av_token = Some ''token-1'', av_locked = [], av_publish_ok = True\<rparr>"

definition aw_vless :: string where "aw_vless = aw_id ''aa''"

definition aw_e1 :: acc_env where
  "aw_e1 = aw_env 20 ''b1'' (\<lambda>i. Some (if i = 0 then aw_id ''c1'' else if i = 1 then aw_id ''a1'' else aw_vless))"

definition aw_e2 :: acc_env where "aw_e2 = aw_env 35 ''b2'' (\<lambda>_. Some (aw_id ''a2''))"

definition aw_e3 :: acc_env where "aw_e3 = aw_env 40 ''b3'' (\<lambda>_. Some (aw_id ''d1''))"

definition aw_st1 :: acc_store where "aw_st1 = snd (acc_process aw_cfg1 aw_codec aw_e1 aw_r1 empty_acc_store)"

lemma aw_st1_value [code]: "aw_st1 =
     \<lparr>ac_credentials = [\<lparr>cr_id = ''00000000-0000-4000-8000-0000000000c1'', cr_subscription_id = ''00000000-0000-4000-8000-000000000051'',
     cr_user_id = ''00000000-0000-4000-8000-000000000033'', cr_status = CsProvisioning, cr_version = 1, cr_ciphertext =
     ''nnnnnnnnnnnn00000000-0000-4000-8000-0000000000aatttttttttttttttt'', cr_key_version = 1, cr_entitlement_expires_at = 2000, cr_revoked_at = None,
     cr_created_at = 20, cr_updated_at = 20, cr_allocation_revision = 0, cr_outbox_sequence = 1, cr_revocation_reason = None, cr_notification_sequence
     = 0\<rparr>], ac_endpoints = [], ac_assignments = [], ac_operations = [\<lparr>aop_id = ''00000000-0000-4000-8000-0000000000a1'',
     aop_credential_id = ''00000000-0000-4000-8000-0000000000c1'', aop_kind = AccProvision, aop_desired_revision = 1, aop_status = AopPending,
     aop_causation_event_id = ''00000000-0000-4000-8000-0000000000e1'', aop_failure_code = None, aop_created_at = 20, aop_completed_at = None,
     aop_allocation_revision = None\<rparr>], ac_tokens = [], ac_url_idempotency = [], ac_inbox = [\<lparr>aib_event_id =
     ''00000000-0000-4000-8000-0000000000e1'', aib_event_type = ''subscription.activated.v1'', aib_aggregate_id =
     ''00000000-0000-4000-8000-000000000051'', aib_correlation_id = ''00000000-0000-4000-8000-0000000000f1'', aib_source_topic =
     ''subscription.activated.v1'', aib_source_partition = 0, aib_source_offset = 0, aib_payload_sha256 = replicate 64 CHR ''a'',
     aib_aggregate_sequence = 1\<rparr>], ac_lifecycle = [\<lparr>lc_subscription_id = ''00000000-0000-4000-8000-000000000051'', lc_user_id =
     ''00000000-0000-4000-8000-000000000033'', lc_last_applied_sequence = 1\<rparr>], ac_outcomes = [], ac_dead_letters = [], ac_audit = [],
     ac_recoveries = [], ac_sli = [\<lparr>sli_payment_id = ''00000000-0000-4000-8000-000000000054'', sli_user_id =
     ''00000000-0000-4000-8000-000000000033'', sli_paid_at = None, sli_payment_event_id = None, sli_fulfillment = Some
     (''00000000-0000-4000-8000-000000000051'', FkActivation, ''00000000-0000-4000-8000-0000000000e1'', 20)\<rparr>], ac_outbox = [\<lparr>ob_event_id
     = ''00000000-0000-4000-8000-0000000000b1'', ob_topic = ''access.provision.request.v1'', ob_partition_key =
     ''credential:00000000-0000-4000-8000-0000000000c1'', ob_aggregate_id = ''00000000-0000-4000-8000-0000000000c1'', ob_sequence = Some 1,
     ob_dedupe_key = AdCommand ''access.provision.request.v1'' ''00000000-0000-4000-8000-0000000000a1'', ob_payload = \<lparr>ae_EventID =
     ''00000000-0000-4000-8000-0000000000b1'', ae_EventType = ''access.provision.request.v1'', ae_OccurredAt = 20, ae_CorrelationID =
     ''00000000-0000-4000-8000-0000000000f1'', ae_CausationID = ''00000000-0000-4000-8000-0000000000e1'', ae_AggregateType = ''credential'',
     ae_AggregateID = ''00000000-0000-4000-8000-0000000000c1'', ae_AggregateSequence = 1, ae_PartitionKey =
     ''credential:00000000-0000-4000-8000-0000000000c1'', ae_Data = AccCommandData ''00000000-0000-4000-8000-0000000000a1''
     ''00000000-0000-4000-8000-0000000000c1'' 1\<rparr>, ob_state = ObPending, ob_attempts = 0, ob_next_attempt_at = 20, ob_lease_until = None,
     ob_created_at = 20, ob_published_at = None\<rparr>]\<rparr>"
  by code_simp

definition aw_st2 :: acc_store where "aw_st2 = snd (acc_process aw_cfg1 aw_codec aw_e2 aw_r2 aw_st1)"

lemma aw_st2_value [code]: "aw_st2 =
     \<lparr>ac_credentials = [\<lparr>cr_id = ''00000000-0000-4000-8000-0000000000c1'', cr_subscription_id = ''00000000-0000-4000-8000-000000000051'',
     cr_user_id = ''00000000-0000-4000-8000-000000000033'', cr_status = CsActive, cr_version = 1, cr_ciphertext =
     ''nnnnnnnnnnnn00000000-0000-4000-8000-0000000000aatttttttttttttttt'', cr_key_version = 1, cr_entitlement_expires_at = 2000, cr_revoked_at = None,
     cr_created_at = 20, cr_updated_at = 35, cr_allocation_revision = 1, cr_outbox_sequence = 2, cr_revocation_reason = None, cr_notification_sequence
     = 1\<rparr>], ac_endpoints = [\<lparr>es_NodeID = ''00000000-0000-4000-8000-000000000001'', es_Role = ''primary'', es_Address = ''n.example'',
     es_Port = 443, es_ServerName = ''s.example'', es_RealityPublicKey = replicate 43 CHR ''A'', es_ShortID = ''ab'', es_SpiderX = ''/'', es_Label =
     ''primary'', er_credential_id = ''00000000-0000-4000-8000-0000000000c1'', er_allocation_revision = 1, er_created_at = 35\<rparr>,
     \<lparr>es_NodeID = ''00000000-0000-4000-8000-000000000002'', es_Role = ''failover'', es_Address = ''n.example'', es_Port = 443, es_ServerName =
     ''s.example'', es_RealityPublicKey = replicate 43 CHR ''A'', es_ShortID = ''ab'', es_SpiderX = ''/'', es_Label = ''failover'', er_credential_id =
     ''00000000-0000-4000-8000-0000000000c1'', er_allocation_revision = 1, er_created_at = 35\<rparr>], ac_assignments = [\<lparr>asg_credential_id =
     ''00000000-0000-4000-8000-0000000000c1'', asg_allocation_revision = 1, asg_node_id = ''00000000-0000-4000-8000-000000000001'', asg_created_at =
     35\<rparr>, \<lparr>asg_credential_id = ''00000000-0000-4000-8000-0000000000c1'', asg_allocation_revision = 1, asg_node_id =
     ''00000000-0000-4000-8000-000000000002'', asg_created_at = 35\<rparr>], ac_operations = [\<lparr>aop_id =
     ''00000000-0000-4000-8000-0000000000a1'', aop_credential_id = ''00000000-0000-4000-8000-0000000000c1'', aop_kind = AccProvision,
     aop_desired_revision = 1, aop_status = AopSucceeded, aop_causation_event_id = ''00000000-0000-4000-8000-0000000000e1'', aop_failure_code = None,
     aop_created_at = 20, aop_completed_at = Some 35, aop_allocation_revision = None\<rparr>], ac_tokens = [], ac_url_idempotency = [], ac_inbox =
     [\<lparr>aib_event_id = ''00000000-0000-4000-8000-0000000000e1'', aib_event_type = ''subscription.activated.v1'', aib_aggregate_id =
     ''00000000-0000-4000-8000-000000000051'', aib_correlation_id = ''00000000-0000-4000-8000-0000000000f1'', aib_source_topic =
     ''subscription.activated.v1'', aib_source_partition = 0, aib_source_offset = 0, aib_payload_sha256 = replicate 64 CHR ''a'',
     aib_aggregate_sequence = 1\<rparr>, \<lparr>aib_event_id = ''00000000-0000-4000-8000-0000000000e2'', aib_event_type =
     ''access.provision.succeeded.v1'', aib_aggregate_id = ''00000000-0000-4000-8000-0000000000c1'', aib_correlation_id =
     ''00000000-0000-4000-8000-0000000000f1'', aib_source_topic = ''access.provision.succeeded.v1'', aib_source_partition = 0, aib_source_offset = 0,
     aib_payload_sha256 = replicate 64 CHR ''a'', aib_aggregate_sequence = 1\<rparr>], ac_lifecycle = [\<lparr>lc_subscription_id =
     ''00000000-0000-4000-8000-000000000051'', lc_user_id = ''00000000-0000-4000-8000-000000000033'', lc_last_applied_sequence = 1\<rparr>],
     ac_outcomes = [(''00000000-0000-4000-8000-0000000000c1'', 1)], ac_dead_letters = [], ac_audit = [], ac_recoveries = [], ac_sli =
     [\<lparr>sli_payment_id = ''00000000-0000-4000-8000-000000000054'', sli_user_id = ''00000000-0000-4000-8000-000000000033'', sli_paid_at = None,
     sli_payment_event_id = None, sli_fulfillment = Some (''00000000-0000-4000-8000-000000000051'', FkActivation,
     ''00000000-0000-4000-8000-0000000000e1'', 20)\<rparr>], ac_outbox = [\<lparr>ob_event_id = ''00000000-0000-4000-8000-0000000000b1'', ob_topic =
     ''access.provision.request.v1'', ob_partition_key = ''credential:00000000-0000-4000-8000-0000000000c1'', ob_aggregate_id =
     ''00000000-0000-4000-8000-0000000000c1'', ob_sequence = Some 1, ob_dedupe_key = AdCommand ''access.provision.request.v1''
     ''00000000-0000-4000-8000-0000000000a1'', ob_payload = \<lparr>ae_EventID = ''00000000-0000-4000-8000-0000000000b1'', ae_EventType =
     ''access.provision.request.v1'', ae_OccurredAt = 20, ae_CorrelationID = ''00000000-0000-4000-8000-0000000000f1'', ae_CausationID =
     ''00000000-0000-4000-8000-0000000000e1'', ae_AggregateType = ''credential'', ae_AggregateID = ''00000000-0000-4000-8000-0000000000c1'',
     ae_AggregateSequence = 1, ae_PartitionKey = ''credential:00000000-0000-4000-8000-0000000000c1'', ae_Data = AccCommandData
     ''00000000-0000-4000-8000-0000000000a1'' ''00000000-0000-4000-8000-0000000000c1'' 1\<rparr>, ob_state = ObPending, ob_attempts = 0,
     ob_next_attempt_at = 20, ob_lease_until = None, ob_created_at = 20, ob_published_at = None\<rparr>, \<lparr>ob_event_id =
     ''00000000-0000-4000-8000-0000000000b2'', ob_topic = ''access.ready.v1'', ob_partition_key = ''user:00000000-0000-4000-8000-000000000033'',
     ob_aggregate_id = ''00000000-0000-4000-8000-0000000000c1'', ob_sequence = Some 2, ob_dedupe_key = AdReady
     ''00000000-0000-4000-8000-0000000000a1'', ob_payload = \<lparr>ae_EventID = ''00000000-0000-4000-8000-0000000000b2'', ae_EventType =
     ''access.ready.v1'', ae_OccurredAt = 35, ae_CorrelationID = ''00000000-0000-4000-8000-0000000000f1'', ae_CausationID =
     ''00000000-0000-4000-8000-0000000000e2'', ae_AggregateType = ''access'', ae_AggregateID = ''00000000-0000-4000-8000-0000000000c1'',
     ae_AggregateSequence = 1, ae_PartitionKey = ''user:00000000-0000-4000-8000-000000000033'', ae_Data = AccReadyData
     ''00000000-0000-4000-8000-000000000051'' ''00000000-0000-4000-8000-0000000000c1'' ''00000000-0000-4000-8000-000000000033'' ''active'' 35\<rparr>,
     ob_state = ObPending, ob_attempts = 0, ob_next_attempt_at = 35, ob_lease_until = None, ob_created_at = 35, ob_published_at =
     None\<rparr>]\<rparr>"
  by code_simp

definition aw_st3 :: acc_store where "aw_st3 = snd (IssueSubscriptionURL aw_cfg1 aw_codec aw_e3 (aw_id ''51'') ''key-0001'' ''issue'' aw_st2)"

lemma aw_st3_value [code]: "aw_st3 =
     \<lparr>ac_credentials = [\<lparr>cr_id = ''00000000-0000-4000-8000-0000000000c1'', cr_subscription_id = ''00000000-0000-4000-8000-000000000051'',
     cr_user_id = ''00000000-0000-4000-8000-000000000033'', cr_status = CsActive, cr_version = 1, cr_ciphertext =
     ''nnnnnnnnnnnn00000000-0000-4000-8000-0000000000aatttttttttttttttt'', cr_key_version = 1, cr_entitlement_expires_at = 2000, cr_revoked_at = None,
     cr_created_at = 20, cr_updated_at = 35, cr_allocation_revision = 1, cr_outbox_sequence = 2, cr_revocation_reason = None, cr_notification_sequence
     = 1\<rparr>], ac_endpoints = [\<lparr>es_NodeID = ''00000000-0000-4000-8000-000000000001'', es_Role = ''primary'', es_Address = ''n.example'',
     es_Port = 443, es_ServerName = ''s.example'', es_RealityPublicKey = replicate 43 CHR ''A'', es_ShortID = ''ab'', es_SpiderX = ''/'', es_Label =
     ''primary'', er_credential_id = ''00000000-0000-4000-8000-0000000000c1'', er_allocation_revision = 1, er_created_at = 35\<rparr>,
     \<lparr>es_NodeID = ''00000000-0000-4000-8000-000000000002'', es_Role = ''failover'', es_Address = ''n.example'', es_Port = 443, es_ServerName =
     ''s.example'', es_RealityPublicKey = replicate 43 CHR ''A'', es_ShortID = ''ab'', es_SpiderX = ''/'', es_Label = ''failover'', er_credential_id =
     ''00000000-0000-4000-8000-0000000000c1'', er_allocation_revision = 1, er_created_at = 35\<rparr>], ac_assignments = [\<lparr>asg_credential_id =
     ''00000000-0000-4000-8000-0000000000c1'', asg_allocation_revision = 1, asg_node_id = ''00000000-0000-4000-8000-000000000001'', asg_created_at =
     35\<rparr>, \<lparr>asg_credential_id = ''00000000-0000-4000-8000-0000000000c1'', asg_allocation_revision = 1, asg_node_id =
     ''00000000-0000-4000-8000-000000000002'', asg_created_at = 35\<rparr>], ac_operations = [\<lparr>aop_id =
     ''00000000-0000-4000-8000-0000000000a1'', aop_credential_id = ''00000000-0000-4000-8000-0000000000c1'', aop_kind = AccProvision,
     aop_desired_revision = 1, aop_status = AopSucceeded, aop_causation_event_id = ''00000000-0000-4000-8000-0000000000e1'', aop_failure_code = None,
     aop_created_at = 20, aop_completed_at = Some 35, aop_allocation_revision = None\<rparr>], ac_tokens = [\<lparr>tk_id =
     ''00000000-0000-4000-8000-0000000000d1'', tk_credential_id = ''00000000-0000-4000-8000-0000000000c1'', tk_lookup_hmac =
     ''ktoken-1000000000000000000000000'', tk_hmac_key_version = 1, tk_status = TkActive, tk_expires_at = 2000, tk_rotated_from = None,
     tk_last_used_at = None, tk_revoked_at = None, tk_created_at = 40\<rparr>], ac_url_idempotency = [\<lparr>ui_idempotency_key = ''key-0001'',
     ui_subscription_id = ''00000000-0000-4000-8000-000000000051'', ui_operation = UrlIssue, ui_request_sha256 = replicate 64 CHR ''a'', ui_token_id =
     ''00000000-0000-4000-8000-0000000000d1'', ui_completed_at = 40\<rparr>], ac_inbox = [\<lparr>aib_event_id =
     ''00000000-0000-4000-8000-0000000000e1'', aib_event_type = ''subscription.activated.v1'', aib_aggregate_id =
     ''00000000-0000-4000-8000-000000000051'', aib_correlation_id = ''00000000-0000-4000-8000-0000000000f1'', aib_source_topic =
     ''subscription.activated.v1'', aib_source_partition = 0, aib_source_offset = 0, aib_payload_sha256 = replicate 64 CHR ''a'',
     aib_aggregate_sequence = 1\<rparr>, \<lparr>aib_event_id = ''00000000-0000-4000-8000-0000000000e2'', aib_event_type =
     ''access.provision.succeeded.v1'', aib_aggregate_id = ''00000000-0000-4000-8000-0000000000c1'', aib_correlation_id =
     ''00000000-0000-4000-8000-0000000000f1'', aib_source_topic = ''access.provision.succeeded.v1'', aib_source_partition = 0, aib_source_offset = 0,
     aib_payload_sha256 = replicate 64 CHR ''a'', aib_aggregate_sequence = 1\<rparr>], ac_lifecycle = [\<lparr>lc_subscription_id =
     ''00000000-0000-4000-8000-000000000051'', lc_user_id = ''00000000-0000-4000-8000-000000000033'', lc_last_applied_sequence = 1\<rparr>],
     ac_outcomes = [(''00000000-0000-4000-8000-0000000000c1'', 1)], ac_dead_letters = [], ac_audit = [], ac_recoveries = [], ac_sli =
     [\<lparr>sli_payment_id = ''00000000-0000-4000-8000-000000000054'', sli_user_id = ''00000000-0000-4000-8000-000000000033'', sli_paid_at = None,
     sli_payment_event_id = None, sli_fulfillment = Some (''00000000-0000-4000-8000-000000000051'', FkActivation,
     ''00000000-0000-4000-8000-0000000000e1'', 20)\<rparr>], ac_outbox = [\<lparr>ob_event_id = ''00000000-0000-4000-8000-0000000000b1'', ob_topic =
     ''access.provision.request.v1'', ob_partition_key = ''credential:00000000-0000-4000-8000-0000000000c1'', ob_aggregate_id =
     ''00000000-0000-4000-8000-0000000000c1'', ob_sequence = Some 1, ob_dedupe_key = AdCommand ''access.provision.request.v1''
     ''00000000-0000-4000-8000-0000000000a1'', ob_payload = \<lparr>ae_EventID = ''00000000-0000-4000-8000-0000000000b1'', ae_EventType =
     ''access.provision.request.v1'', ae_OccurredAt = 20, ae_CorrelationID = ''00000000-0000-4000-8000-0000000000f1'', ae_CausationID =
     ''00000000-0000-4000-8000-0000000000e1'', ae_AggregateType = ''credential'', ae_AggregateID = ''00000000-0000-4000-8000-0000000000c1'',
     ae_AggregateSequence = 1, ae_PartitionKey = ''credential:00000000-0000-4000-8000-0000000000c1'', ae_Data = AccCommandData
     ''00000000-0000-4000-8000-0000000000a1'' ''00000000-0000-4000-8000-0000000000c1'' 1\<rparr>, ob_state = ObPending, ob_attempts = 0,
     ob_next_attempt_at = 20, ob_lease_until = None, ob_created_at = 20, ob_published_at = None\<rparr>, \<lparr>ob_event_id =
     ''00000000-0000-4000-8000-0000000000b2'', ob_topic = ''access.ready.v1'', ob_partition_key = ''user:00000000-0000-4000-8000-000000000033'',
     ob_aggregate_id = ''00000000-0000-4000-8000-0000000000c1'', ob_sequence = Some 2, ob_dedupe_key = AdReady
     ''00000000-0000-4000-8000-0000000000a1'', ob_payload = \<lparr>ae_EventID = ''00000000-0000-4000-8000-0000000000b2'', ae_EventType =
     ''access.ready.v1'', ae_OccurredAt = 35, ae_CorrelationID = ''00000000-0000-4000-8000-0000000000f1'', ae_CausationID =
     ''00000000-0000-4000-8000-0000000000e2'', ae_AggregateType = ''access'', ae_AggregateID = ''00000000-0000-4000-8000-0000000000c1'',
     ae_AggregateSequence = 1, ae_PartitionKey = ''user:00000000-0000-4000-8000-000000000033'', ae_Data = AccReadyData
     ''00000000-0000-4000-8000-000000000051'' ''00000000-0000-4000-8000-0000000000c1'' ''00000000-0000-4000-8000-000000000033'' ''active'' 35\<rparr>,
     ob_state = ObPending, ob_attempts = 0, ob_next_attempt_at = 35, ob_lease_until = None, ob_created_at = 35, ob_published_at =
     None\<rparr>]\<rparr>"
  by code_simp

lemma aw_applied:
  "acc_process aw_cfg1 aw_codec aw_e1 aw_r1 empty_acc_store = (None, aw_st1)" "acc_process aw_cfg1 aw_codec aw_e2 aw_r2 aw_st1 = (None, aw_st2)"
  by code_simp+

lemma aw_issued: "IssueSubscriptionURL aw_cfg1 aw_codec aw_e3 (aw_id ''51'') ''key-0001'' ''issue'' aw_st2 = (Inr ''https://vpn.example/s/token-1'', aw_st3)"
  by code_simp

lemma aw_reachable: "acc_reachable aw_st1" "acc_reachable aw_st2" "acc_reachable aw_st3"
proof -
  show 1: "acc_reachable aw_st1" unfolding aw_st1_def by (rule process_reachable_acc [OF ar_empty])
  show 2: "acc_reachable aw_st2" unfolding aw_st2_def by (rule process_reachable_acc [OF 1])
  show "acc_reachable aw_st3" unfolding aw_st3_def by (rule requests_reachable(1) [OF 2])
qed

section \<open>The theorems at the run\<close>

lemma aw_credential: "map (\<lambda>c. (cr_id c, cr_version c, cr_status c)) (ac_credentials aw_st2) = [(aw_id ''c1'', 1, CsActive)]"
  by code_simp

lemma aw_hd: "hd (ac_credentials aw_st2) \<in> set (ac_credentials aw_st2)" "cr_id (hd (ac_credentials aw_st2)) = aw_id ''c1''"
  using aw_credential by (cases "ac_credentials aw_st2"; simp)+

theorem access_commands_gapless_witness:
  "List.map_filter row_command (filter (\<lambda>r. ob_aggregate_id r = aw_id ''c1'') (ac_outbox aw_st2))
     = map op_command (filter (\<lambda>o1. aop_credential_id o1 = aw_id ''c1'') (ac_operations aw_st2))"
  using access_commands_gapless [OF aw_reachable(2) aw_hd(1)] unfolding aw_hd(2) by blast

definition aw_e4 :: acc_env where "aw_e4 = aw_env 100 ''b4'' (\<lambda>_. None)"

definition aw_served :: "(acc_error + Profile) \<times> acc_store" where
  "aw_served = GetProfile aw_cfg2 aw_e4 ''token-1'' aw_st3 aw_st3"

lemma aw_profile: "aw_served = (Inr \<lparr>pr_Body = ''primary'' @ CHR 0x0A # ''failover'' @ [CHR 0x0A], pr_ExpiresAt = 2000\<rparr>, snd aw_served)"
  by code_simp


definition aw_c :: credential_row where "aw_c = hd (ac_credentials aw_st2)"

lemma aw_laws: "aead_laws aw_aead"
  by (simp add: aead_laws_def aw_aead_def gcm_overhead_def)

theorem issued_url_works_witness:
  "\<exists>p t2. GetProfile aw_cfg2 aw_e4 ''token-1'' aw_st3 aw_st3 = (Inr p, t2) \<and> pr_ExpiresAt p = cr_entitlement_expires_at aw_c"
proof -
  have cur: "current_credential (aw_id ''51'') aw_st2 = Some aw_c" by code_simp
  have sealed: "Encrypt (acf_aead aw_cfg1) (acf_keyring aw_cfg1) aw_vless (replicate 12 CHR ''n'') (cr_id aw_c) = Some (cr_ciphertext aw_c, cr_key_version aw_c)" by code_simp
  have keys: "keeps_keys aw_cfg1 aw_cfg2 (acf_keyring aw_cfg1) (cr_key_version aw_c)"
  proof -
    have same: "acf_aead aw_cfg2 = acf_aead aw_cfg1" "acf_hmac aw_cfg2 = acf_hmac aw_cfg1" by (simp_all add: aw_cfg1_def aw_cfg2_def aw_config_def)
    have "map_of (kr_keys (acf_keyring aw_cfg2)) (cr_key_version aw_c) = map_of (kr_keys (acf_keyring aw_cfg1)) (cr_key_version aw_c)
      \<and> NewTokenHasherKeyring (th_activeVersion (acf_hasher aw_cfg2)) (th_keys (acf_hasher aw_cfg2)) = Some (acf_hasher aw_cfg2)
      \<and> distinct (map fst (th_keys (acf_hasher aw_cfg2))) \<and> map_of (th_keys (acf_hasher aw_cfg1)) (th_activeVersion (acf_hasher aw_cfg1)) \<noteq> None
      \<and> map_of (th_keys (acf_hasher aw_cfg2)) (th_activeVersion (acf_hasher aw_cfg1)) = map_of (th_keys (acf_hasher aw_cfg1)) (th_activeVersion (acf_hasher aw_cfg1))"
      by code_simp
    with same show ?thesis by (simp add: keeps_keys_def)
  qed
  have laws: "aead_laws (acf_aead aw_cfg1)" using aw_laws by (simp add: aw_cfg1_def aw_config_def)
  have facts: "av_token aw_e3 = Some ''token-1''" "acf_rawURL aw_cfg2 ''token-1'' = Some (replicate 32 CHR ''b'')" "length (replicate 32 CHR ''b'') = 32"
    "list_all (\<lambda>q. tk_lookup_hmac q \<in> set (Candidates (acf_hmac aw_cfg2) (acf_hasher aw_cfg2) ''token-1'')
          \<longrightarrow> tk_lookup_hmac q = token_Sum (acf_hmac aw_cfg1) (acf_hasher aw_cfg1) ''token-1'') (ac_tokens aw_st3)"
    "av_now aw_e4 < cr_entitlement_expires_at aw_c" "uuidLike aw_vless" "list_endpoints (cr_id aw_c) aw_st3 \<noteq> []"
    "list_all (ValidateEndpoint (acf_isIP aw_cfg2)) (list_endpoints (cr_id aw_c) aw_st3)"
    by code_simp+
  show ?thesis using issued_url_works [OF aw_reachable(2) cur laws sealed aw_issued keys facts] by blast
qed

theorem access_redelivery_no_effect_witness:
  "let t2 = snd (run_tx AccInfra NoFault (acc_claim 25 10 []) aw_st1) in snd (acc_process aw_cfg2 aw_codec aw_e2 aw_r1 t2) = t2"
  unfolding Let_def using access_redelivery_no_effect [OF aw_applied(1) r_into_rtranclp [of acc_step, OF as_claim]] by blast

definition aw_consumer :: "acc_store consumer" where
  "aw_consumer = \<lparr>cn_store = empty_acc_store, cn_committed = [], cn_position = (\<lambda>_. None), cn_deferred = [], cn_paused = []\<rparr>"

definition aw_polls :: "nat \<Rightarrow> acn_env" where
  "aw_polls k = \<lparr>ane_env = aw_e1, ane_dead_fault = NoFault, ane_commit_ok = True, ane_cancelled = False, ane_alive = True\<rparr>"

definition aw_polled :: "bool \<times> acc_store consumer" where
  "aw_polled = acc_pollOnce aw_cfg1 aw_codec aw_polls (\<lambda>_ rs. rs) [aw_r3] aw_consumer"

text \<open>The second event of the subscription comes first: it is deferred.\<close>

lemma aw_gap: "cn_deferred (snd aw_polled) = [aw_r3] \<and> cn_committed (snd aw_polled) = []"
  by code_simp


section \<open>Revokes that are never confirmed\<close>

text \<open>
  A revoke overtakes a provision that already has nodes: provisioning supersedes the provision, so
  its success is never reported, and reports the revoke with the revision of those allocations.
  Access has allocation revision 0 and refuses the report for good (a durable-state conflict is
  dead-lettered); the cursor of outcomes does not move, so the next outcome of the credential is a gap.
\<close>

definition aw_revoking :: acc_store where "aw_revoking = snd (acc_process aw_cfg1 aw_codec aw_e2 aw_r3 aw_st1)"

lemma aw_revoking_value [code]: "aw_revoking =
     \<lparr>ac_credentials = [\<lparr>cr_id = ''00000000-0000-4000-8000-0000000000c1'', cr_subscription_id = ''00000000-0000-4000-8000-000000000051'',
     cr_user_id = ''00000000-0000-4000-8000-000000000033'', cr_status = CsRevoking, cr_version = 2, cr_ciphertext =
     ''nnnnnnnnnnnn00000000-0000-4000-8000-0000000000aatttttttttttttttt'', cr_key_version = 1, cr_entitlement_expires_at = 2000, cr_revoked_at = None,
     cr_created_at = 20, cr_updated_at = 35, cr_allocation_revision = 0, cr_outbox_sequence = 2, cr_revocation_reason = Some ''refund'',
     cr_notification_sequence = 0\<rparr>], ac_endpoints = [], ac_assignments = [], ac_operations = [\<lparr>aop_id =
     ''00000000-0000-4000-8000-0000000000a1'', aop_credential_id = ''00000000-0000-4000-8000-0000000000c1'', aop_kind = AccProvision,
     aop_desired_revision = 1, aop_status = AopPending, aop_causation_event_id = ''00000000-0000-4000-8000-0000000000e1'', aop_failure_code = None,
     aop_created_at = 20, aop_completed_at = None, aop_allocation_revision = None\<rparr>, \<lparr>aop_id = ''00000000-0000-4000-8000-0000000000a2'',
     aop_credential_id = ''00000000-0000-4000-8000-0000000000c1'', aop_kind = AccRevoke, aop_desired_revision = 2, aop_status = AopPending,
     aop_causation_event_id = ''00000000-0000-4000-8000-0000000000e3'', aop_failure_code = None, aop_created_at = 35, aop_completed_at = None,
     aop_allocation_revision = Some 0\<rparr>], ac_tokens = [], ac_url_idempotency = [], ac_inbox = [\<lparr>aib_event_id =
     ''00000000-0000-4000-8000-0000000000e1'', aib_event_type = ''subscription.activated.v1'', aib_aggregate_id =
     ''00000000-0000-4000-8000-000000000051'', aib_correlation_id = ''00000000-0000-4000-8000-0000000000f1'', aib_source_topic =
     ''subscription.activated.v1'', aib_source_partition = 0, aib_source_offset = 0, aib_payload_sha256 = replicate 64 CHR ''a'',
     aib_aggregate_sequence = 1\<rparr>, \<lparr>aib_event_id = ''00000000-0000-4000-8000-0000000000e3'', aib_event_type =
     ''subscription.revoked.v1'', aib_aggregate_id = ''00000000-0000-4000-8000-000000000051'', aib_correlation_id =
     ''00000000-0000-4000-8000-0000000000f1'', aib_source_topic = ''subscription.revoked.v1'', aib_source_partition = 0, aib_source_offset = 0,
     aib_payload_sha256 = replicate 64 CHR ''a'', aib_aggregate_sequence = 2\<rparr>], ac_lifecycle = [\<lparr>lc_subscription_id =
     ''00000000-0000-4000-8000-000000000051'', lc_user_id = ''00000000-0000-4000-8000-000000000033'', lc_last_applied_sequence = 2\<rparr>],
     ac_outcomes = [], ac_dead_letters = [], ac_audit = [], ac_recoveries = [], ac_sli = [\<lparr>sli_payment_id =
     ''00000000-0000-4000-8000-000000000054'', sli_user_id = ''00000000-0000-4000-8000-000000000033'', sli_paid_at = None, sli_payment_event_id =
     None, sli_fulfillment = Some (''00000000-0000-4000-8000-000000000051'', FkActivation, ''00000000-0000-4000-8000-0000000000e1'', 20)\<rparr>],
     ac_outbox = [\<lparr>ob_event_id = ''00000000-0000-4000-8000-0000000000b1'', ob_topic = ''access.provision.request.v1'', ob_partition_key =
     ''credential:00000000-0000-4000-8000-0000000000c1'', ob_aggregate_id = ''00000000-0000-4000-8000-0000000000c1'', ob_sequence = Some 1,
     ob_dedupe_key = AdCommand ''access.provision.request.v1'' ''00000000-0000-4000-8000-0000000000a1'', ob_payload = \<lparr>ae_EventID =
     ''00000000-0000-4000-8000-0000000000b1'', ae_EventType = ''access.provision.request.v1'', ae_OccurredAt = 20, ae_CorrelationID =
     ''00000000-0000-4000-8000-0000000000f1'', ae_CausationID = ''00000000-0000-4000-8000-0000000000e1'', ae_AggregateType = ''credential'',
     ae_AggregateID = ''00000000-0000-4000-8000-0000000000c1'', ae_AggregateSequence = 1, ae_PartitionKey =
     ''credential:00000000-0000-4000-8000-0000000000c1'', ae_Data = AccCommandData ''00000000-0000-4000-8000-0000000000a1''
     ''00000000-0000-4000-8000-0000000000c1'' 1\<rparr>, ob_state = ObPending, ob_attempts = 0, ob_next_attempt_at = 20, ob_lease_until = None,
     ob_created_at = 20, ob_published_at = None\<rparr>, \<lparr>ob_event_id = ''00000000-0000-4000-8000-0000000000b2'', ob_topic =
     ''access.revoke.request.v1'', ob_partition_key = ''credential:00000000-0000-4000-8000-0000000000c1'', ob_aggregate_id =
     ''00000000-0000-4000-8000-0000000000c1'', ob_sequence = Some 2, ob_dedupe_key = AdCommand ''access.revoke.request.v1''
     ''00000000-0000-4000-8000-0000000000a2'', ob_payload = \<lparr>ae_EventID = ''00000000-0000-4000-8000-0000000000b2'', ae_EventType =
     ''access.revoke.request.v1'', ae_OccurredAt = 35, ae_CorrelationID = ''00000000-0000-4000-8000-0000000000f1'', ae_CausationID =
     ''00000000-0000-4000-8000-0000000000e3'', ae_AggregateType = ''credential'', ae_AggregateID = ''00000000-0000-4000-8000-0000000000c1'',
     ae_AggregateSequence = 2, ae_PartitionKey = ''credential:00000000-0000-4000-8000-0000000000c1'', ae_Data = AccCommandData
     ''00000000-0000-4000-8000-0000000000a2'' ''00000000-0000-4000-8000-0000000000c1'' 2\<rparr>, ob_state = ObPending, ob_attempts = 0,
     ob_next_attempt_at = 35, ob_lease_until = None, ob_created_at = 35, ob_published_at = None\<rparr>]\<rparr>"
  by code_simp

theorem overtaken_revoke_refused:
  "acc_reachable aw_revoking \<and> map cr_status (ac_credentials aw_revoking) = [CsRevoking]
   \<and> acc_process aw_cfg1 aw_codec aw_e3 aw_r4 aw_revoking = (Some AccErrDurableStateConflict, aw_revoking)
   \<and> acc_process aw_cfg1 aw_codec aw_e3 aw_r5 aw_revoking = (Some AccErrOutcomeSequenceGap, aw_revoking)"
proof (intro conjI)
  show "acc_reachable aw_revoking" unfolding aw_revoking_def by (rule process_reachable_acc [OF aw_reachable(1)])
qed code_simp+

text \<open>
  The subscription is paid again while its credential is revoking, so a new provision starts and the
  revocation reason is NULL. The report of the revoke then fails when the reason is scanned: the
  error is not a contract error, so the record is retried for ever and holds the outcomes after it.
\<close>

definition aw_restarted :: acc_store where
  "aw_restarted = snd (acc_process aw_cfg1 aw_codec (aw_env 50 ''b5'' (\<lambda>_. Some (aw_id ''a3''))) aw_r6 aw_revoking)"

lemma aw_restarted_value [code]: "aw_restarted =
     \<lparr>ac_credentials = [\<lparr>cr_id = ''00000000-0000-4000-8000-0000000000c1'', cr_subscription_id = ''00000000-0000-4000-8000-000000000051'',
     cr_user_id = ''00000000-0000-4000-8000-000000000033'', cr_status = CsProvisioning, cr_version = 3, cr_ciphertext =
     ''nnnnnnnnnnnn00000000-0000-4000-8000-0000000000aatttttttttttttttt'', cr_key_version = 1, cr_entitlement_expires_at = 2000, cr_revoked_at = None,
     cr_created_at = 20, cr_updated_at = 50, cr_allocation_revision = 0, cr_outbox_sequence = 3, cr_revocation_reason = None, cr_notification_sequence
     = 0\<rparr>], ac_endpoints = [], ac_assignments = [], ac_operations = [\<lparr>aop_id = ''00000000-0000-4000-8000-0000000000a1'',
     aop_credential_id = ''00000000-0000-4000-8000-0000000000c1'', aop_kind = AccProvision, aop_desired_revision = 1, aop_status = AopPending,
     aop_causation_event_id = ''00000000-0000-4000-8000-0000000000e1'', aop_failure_code = None, aop_created_at = 20, aop_completed_at = None,
     aop_allocation_revision = None\<rparr>, \<lparr>aop_id = ''00000000-0000-4000-8000-0000000000a2'', aop_credential_id =
     ''00000000-0000-4000-8000-0000000000c1'', aop_kind = AccRevoke, aop_desired_revision = 2, aop_status = AopPending, aop_causation_event_id =
     ''00000000-0000-4000-8000-0000000000e3'', aop_failure_code = None, aop_created_at = 35, aop_completed_at = None, aop_allocation_revision = Some
     0\<rparr>, \<lparr>aop_id = ''00000000-0000-4000-8000-0000000000a3'', aop_credential_id = ''00000000-0000-4000-8000-0000000000c1'', aop_kind =
     AccProvision, aop_desired_revision = 3, aop_status = AopPending, aop_causation_event_id = ''00000000-0000-4000-8000-0000000000e6'',
     aop_failure_code = None, aop_created_at = 50, aop_completed_at = None, aop_allocation_revision = None\<rparr>], ac_tokens = [],
     ac_url_idempotency = [], ac_inbox = [\<lparr>aib_event_id = ''00000000-0000-4000-8000-0000000000e1'', aib_event_type =
     ''subscription.activated.v1'', aib_aggregate_id = ''00000000-0000-4000-8000-000000000051'', aib_correlation_id =
     ''00000000-0000-4000-8000-0000000000f1'', aib_source_topic = ''subscription.activated.v1'', aib_source_partition = 0, aib_source_offset = 0,
     aib_payload_sha256 = replicate 64 CHR ''a'', aib_aggregate_sequence = 1\<rparr>, \<lparr>aib_event_id = ''00000000-0000-4000-8000-0000000000e3'',
     aib_event_type = ''subscription.revoked.v1'', aib_aggregate_id = ''00000000-0000-4000-8000-000000000051'', aib_correlation_id =
     ''00000000-0000-4000-8000-0000000000f1'', aib_source_topic = ''subscription.revoked.v1'', aib_source_partition = 0, aib_source_offset = 0,
     aib_payload_sha256 = replicate 64 CHR ''a'', aib_aggregate_sequence = 2\<rparr>, \<lparr>aib_event_id = ''00000000-0000-4000-8000-0000000000e6'',
     aib_event_type = ''subscription.extended.v1'', aib_aggregate_id = ''00000000-0000-4000-8000-000000000051'', aib_correlation_id =
     ''00000000-0000-4000-8000-0000000000f1'', aib_source_topic = ''subscription.extended.v1'', aib_source_partition = 0, aib_source_offset = 0,
     aib_payload_sha256 = replicate 64 CHR ''a'', aib_aggregate_sequence = 3\<rparr>], ac_lifecycle = [\<lparr>lc_subscription_id =
     ''00000000-0000-4000-8000-000000000051'', lc_user_id = ''00000000-0000-4000-8000-000000000033'', lc_last_applied_sequence = 3\<rparr>],
     ac_outcomes = [], ac_dead_letters = [], ac_audit = [], ac_recoveries = [], ac_sli = [\<lparr>sli_payment_id =
     ''00000000-0000-4000-8000-000000000054'', sli_user_id = ''00000000-0000-4000-8000-000000000033'', sli_paid_at = None, sli_payment_event_id =
     None, sli_fulfillment = Some (''00000000-0000-4000-8000-000000000051'', FkActivation, ''00000000-0000-4000-8000-0000000000e1'', 20)\<rparr>,
     \<lparr>sli_payment_id = ''00000000-0000-4000-8000-000000000055'', sli_user_id = ''00000000-0000-4000-8000-000000000033'', sli_paid_at = None,
     sli_payment_event_id = None, sli_fulfillment = Some (''00000000-0000-4000-8000-000000000051'', FkExtension,
     ''00000000-0000-4000-8000-0000000000e6'', 50)\<rparr>], ac_outbox = [\<lparr>ob_event_id = ''00000000-0000-4000-8000-0000000000b1'', ob_topic =
     ''access.provision.request.v1'', ob_partition_key = ''credential:00000000-0000-4000-8000-0000000000c1'', ob_aggregate_id =
     ''00000000-0000-4000-8000-0000000000c1'', ob_sequence = Some 1, ob_dedupe_key = AdCommand ''access.provision.request.v1''
     ''00000000-0000-4000-8000-0000000000a1'', ob_payload = \<lparr>ae_EventID = ''00000000-0000-4000-8000-0000000000b1'', ae_EventType =
     ''access.provision.request.v1'', ae_OccurredAt = 20, ae_CorrelationID = ''00000000-0000-4000-8000-0000000000f1'', ae_CausationID =
     ''00000000-0000-4000-8000-0000000000e1'', ae_AggregateType = ''credential'', ae_AggregateID = ''00000000-0000-4000-8000-0000000000c1'',
     ae_AggregateSequence = 1, ae_PartitionKey = ''credential:00000000-0000-4000-8000-0000000000c1'', ae_Data = AccCommandData
     ''00000000-0000-4000-8000-0000000000a1'' ''00000000-0000-4000-8000-0000000000c1'' 1\<rparr>, ob_state = ObPending, ob_attempts = 0,
     ob_next_attempt_at = 20, ob_lease_until = None, ob_created_at = 20, ob_published_at = None\<rparr>, \<lparr>ob_event_id =
     ''00000000-0000-4000-8000-0000000000b2'', ob_topic = ''access.revoke.request.v1'', ob_partition_key =
     ''credential:00000000-0000-4000-8000-0000000000c1'', ob_aggregate_id = ''00000000-0000-4000-8000-0000000000c1'', ob_sequence = Some 2,
     ob_dedupe_key = AdCommand ''access.revoke.request.v1'' ''00000000-0000-4000-8000-0000000000a2'', ob_payload = \<lparr>ae_EventID =
     ''00000000-0000-4000-8000-0000000000b2'', ae_EventType = ''access.revoke.request.v1'', ae_OccurredAt = 35, ae_CorrelationID =
     ''00000000-0000-4000-8000-0000000000f1'', ae_CausationID = ''00000000-0000-4000-8000-0000000000e3'', ae_AggregateType = ''credential'',
     ae_AggregateID = ''00000000-0000-4000-8000-0000000000c1'', ae_AggregateSequence = 2, ae_PartitionKey =
     ''credential:00000000-0000-4000-8000-0000000000c1'', ae_Data = AccCommandData ''00000000-0000-4000-8000-0000000000a2''
     ''00000000-0000-4000-8000-0000000000c1'' 2\<rparr>, ob_state = ObPending, ob_attempts = 0, ob_next_attempt_at = 35, ob_lease_until = None,
     ob_created_at = 35, ob_published_at = None\<rparr>, \<lparr>ob_event_id = ''00000000-0000-4000-8000-0000000000b5'', ob_topic =
     ''access.provision.request.v1'', ob_partition_key = ''credential:00000000-0000-4000-8000-0000000000c1'', ob_aggregate_id =
     ''00000000-0000-4000-8000-0000000000c1'', ob_sequence = Some 3, ob_dedupe_key = AdCommand ''access.provision.request.v1''
     ''00000000-0000-4000-8000-0000000000a3'', ob_payload = \<lparr>ae_EventID = ''00000000-0000-4000-8000-0000000000b5'', ae_EventType =
     ''access.provision.request.v1'', ae_OccurredAt = 50, ae_CorrelationID = ''00000000-0000-4000-8000-0000000000f1'', ae_CausationID =
     ''00000000-0000-4000-8000-0000000000e6'', ae_AggregateType = ''credential'', ae_AggregateID = ''00000000-0000-4000-8000-0000000000c1'',
     ae_AggregateSequence = 3, ae_PartitionKey = ''credential:00000000-0000-4000-8000-0000000000c1'', ae_Data = AccCommandData
     ''00000000-0000-4000-8000-0000000000a3'' ''00000000-0000-4000-8000-0000000000c1'' 3\<rparr>, ob_state = ObPending, ob_attempts = 0,
     ob_next_attempt_at = 50, ob_lease_until = None, ob_created_at = 50, ob_published_at = None\<rparr>]\<rparr>"
  by code_simp

theorem late_revoke_never_applies:
  "map (\<lambda>c. (cr_status c, cr_version c, cr_revocation_reason c)) (ac_credentials aw_restarted) = [(CsProvisioning, 3, None)]
   \<and> acc_process aw_cfg1 aw_codec aw_e3 aw_r4 aw_restarted = (Some AccInfra, aw_restarted) \<and> acc_ContractErrorCode AccInfra = None \<and> \<not> isSequenceGap AccInfra"
  by code_simp

end
