(* ===== verification/Access_Provisioning_Witnesses.thy ===== *)
theory Access_Provisioning_Witnesses
  imports Access_Provisioning Access_Witnesses
begin

text \<open>
  The first command of the run of \<open>Access_Witnesses\<close> is delivered to an empty provisioning store, and
  the theorem about the joint system is applied to the result.
\<close>

definition jw_envelope :: acc_envelope where
  "jw_envelope = \<lparr>ae_EventID = aw_id ''b1'', ae_EventType = ''access.provision.request.v1'', ae_OccurredAt = 20, ae_CorrelationID = aw_id ''f1'',
     ae_CausationID = aw_id ''e1'', ae_AggregateType = ''credential'', ae_AggregateID = aw_id ''c1'', ae_AggregateSequence = 1,
     ae_PartitionKey = ''credential:'' @ aw_id ''c1'', ae_Data = AccCommandData (aw_id ''a1'') (aw_id ''c1'') 1\<rparr>"

lemma jw_sent:
  "map (\<lambda>r. (ob_topic r, ob_partition_key r, ob_payload r)) (ac_outbox aw_st1) = [(''access.provision.request.v1'', ''credential:'' @ aw_id ''c1'', jw_envelope)]"
  by code_simp

definition jw_codec :: prov_codec where
  "jw_codec = \<lparr>pdc_envelope = (\<lambda>_. Some (acc_wire jw_envelope ''command'')), pdc_command = (\<lambda>_. wire_command (ae_Data jw_envelope)),
     pdc_sha256 = (\<lambda>_. replicate 64 CHR ''0'')\<rparr>"

definition jw_record :: kafka_record where
  "jw_record = \<lparr>rec_topic = ''access.provision.request.v1'', rec_partition = 0, rec_offset = 4, rec_key = ''credential:'' @ aw_id ''c1'', rec_value = ''event''\<rparr>"

definition jw_env :: pcn_env where
  "jw_env = \<lparr>pne_now = 25, pne_appNow = 25, pne_fault = NoFault, pne_dead_fault = NoFault, pne_eventID = aw_id ''d5'', pne_commit_ok = True,
     pne_cancelled = False, pne_alive = True\<rparr>"

definition jw_store :: prov_store where
  "jw_store = snd (prov_process 3 jw_codec jw_env jw_record empty_prov_store)"

lemma jw_recorded: "map (\<lambda>o1. (opr_id o1, opr_kind o1, opr_desired_revision o1)) (of_credential (aw_id ''c1'') (pv_operations jw_store)) = [(aw_id ''a1'', OpProvision, 1)]"
  by code_simp

lemma joint_alone: "acc_reachable a \<Longrightarrow> joint cd a empty_prov_store"
  by (induction rule: acc_reachable.induct) (auto intro: joint.intros)

lemma jw_joint: "joint jw_codec aw_st1 jw_store"
proof -
  from jw_sent obtain row where row: "row \<in> set (ac_outbox aw_st1)" "ob_topic row = ''access.provision.request.v1''"
    "ob_partition_key row = ''credential:'' @ aw_id ''c1''" "ob_payload row = jw_envelope"
    by (cases "ac_outbox aw_st1") auto
  then have "carries jw_codec jw_record row" by (simp add: carries_def jw_record_def jw_codec_def acc_wire_def)
  from jt_deliver [OF joint_alone [OF aw_reachable(1)] row(1) this] show ?thesis unfolding jw_store_def .
qed

theorem provisioning_follows_access_witness:
  "prefix [(aw_id ''a1'', OpProvision, 1)] (map (\<lambda>o1. (aop_id o1, prov_kind (aop_kind o1), aop_desired_revision o1))
     (filter (\<lambda>o1. aop_credential_id o1 = aw_id ''c1'') (ac_operations aw_st1)))"
  using provisioning_follows_access [OF jw_joint, of "aw_id ''c1''"] unfolding jw_recorded .

end
