(* ===== verification/Notification_Store.thy ===== *)
theory Notification_Store
  imports Prelude
begin

text \<open>
  The notification service's data (\<open>internal/domain/types.go\<close>) and its store,
  \<open>services/notification/internal/postgres/store.go\<close>, one definition per function, over the tables of
  \<open>services/notification/migrations\<close>: the inbox with the cursor of each event stream, the
  notification jobs, dead letters and administrators' retry requests.

  A violated unique key of the inbox is the service's conflict error, every other violated key or
  CHECK a driver error (\<open>NtInfra\<close>). \<open>now\<close> is the database clock, \<open>uuid_ok\<close> says which texts the
  driver accepts for a uuid column, \<open>collate\<close> ranks texts as the database's collation does, and new
  identifiers are arguments.

  Transactions are serial but for two reads. \<open>finishClaim\<close> and \<open>RequestRetry\<close> ask for other jobs of
  the stream without the stream's advisory lock, so an event recorded at the same time may be
  missing from the answer although it is committed first: the jobs these queries see are the
  argument \<open>seen\<close>.
\<close>

section \<open>Data\<close>

datatype nt_error =
    NtErrNotFound | NtErrEventConflict | NtErrSequenceGap | NtErrIdempotencyConflict | NtErrRetryNotAllowed
  | NtContractError string | NtInfra

datatype nt_status = NtPending | NtProcessing | NtRetry | NtDelivered | NtPermanentlyFailed | NtSuppressed

record NtMeta =
  nm_EventID :: uuid
  nm_EventType :: string
  nm_Producer :: string
  nm_AggregateType :: string
  nm_AggregateID :: uuid
  nm_AggregateSequence :: int
  nm_PartitionKey :: string
  nm_CorrelationID :: uuid
  nm_CausationID :: "uuid option"
  nm_OccurredAt :: instant
  nm_SourceTopic :: string
  nm_SourcePartition :: int
  nm_SourceOffset :: int
  nm_PayloadSHA256 :: string

record Intent =
  in_NotificationID :: uuid
  in_UserID :: uuid
  in_SubscriptionID :: "uuid option"
  in_CredentialID :: "uuid option"
  in_NotificationType :: string
  in_TemplateVersion :: int
  in_BusinessDedupeKey :: string
  in_DeliveryStreamKey :: string
  in_DeliverySequence :: int
  in_SupersedesOlder :: bool
  in_Variables :: "(string \<times> string) list"
  in_SuppressedReason :: string
  in_MaxAttempts :: int

record NtJob =
  jb_NotificationID :: uuid
  jb_UserID :: uuid
  jb_SubscriptionID :: "uuid option"
  jb_CredentialID :: "uuid option"
  jb_NotificationType :: string
  jb_TemplateVersion :: int
  jb_Status :: nt_status
  jb_Attempts :: int
  jb_MaxAttempts :: int
  jb_NextAttemptAt :: instant
  jb_ClaimID :: uuid
  jb_SourceProducer :: string
  jb_SourceAggregate :: string
  jb_SourceAggregateID :: uuid
  jb_SourceSequence :: int
  jb_DeliveryStream :: string
  jb_DeliverySequence :: int
  jb_SupersedesOlder :: bool
  jb_CorrelationID :: uuid
  jb_CausationID :: "uuid option"
  jb_Variables :: "(string \<times> string) list"
  jb_TerminalReason :: "string option"
  jb_DeliveredAt :: "instant option"
  jb_CreatedAt :: instant
  jb_UpdatedAt :: instant

section \<open>Tables\<close>

record nt_cursor =
  nc_stream_key :: string
  nc_producer :: string
  nc_aggregate_type :: string
  nc_aggregate_id :: uuid
  nc_last_sequence :: int
  nc_last_event_id :: uuid
  nc_last_payload_sha256 :: string
  nc_updated_at :: instant

record nt_inbox_row =
  ni_event_id :: uuid
  ni_event_type :: string
  ni_source_topic :: string
  ni_source_partition :: int
  ni_source_offset :: int
  ni_payload_sha256 :: string
  ni_producer :: string
  ni_aggregate_type :: string
  ni_aggregate_id :: uuid
  ni_aggregate_sequence :: "int option"
  ni_business_dedupe_key :: string

record nt_job_row =
  nj_id :: uuid
  nj_user_id :: uuid
  nj_subscription_id :: "uuid option"
  nj_credential_id :: "uuid option"
  nj_type :: string
  nj_template_version :: int
  nj_source_event_id :: uuid
  nj_business_dedupe_key :: string
  nj_status :: nt_status
  nj_attempts :: int
  nj_max_attempts :: int
  nj_next_attempt_at :: instant
  nj_lease_until :: "instant option"
  nj_claim_id :: "uuid option"
  nj_delivered_at :: "instant option"
  nj_terminal_reason :: "string option"
  nj_correlation_id :: uuid
  nj_causation_id :: "uuid option"
  nj_variables :: "(string \<times> string) list"
  nj_created_at :: instant
  nj_updated_at :: instant
  nj_source_producer :: string
  nj_source_aggregate_type :: string
  nj_source_aggregate_id :: uuid
  nj_source_aggregate_sequence :: "int option"
  nj_stream_key :: string
  nj_sequence :: int
  nj_supersedes :: bool

record nt_dead_letter =
  nd_topic :: string
  nd_partition :: int
  nd_offset :: int
  nd_sha256 :: string
  nd_event_type :: "string option"
  nd_reason :: string
  nd_state :: string
  nd_created_at :: instant
  nd_updated_at :: instant

record nt_request =
  nr_idempotency_key :: string
  nr_request_sha256 :: string
  nr_notification_id :: uuid

record nt_store =
  nt_cursors :: "nt_cursor list"
  nt_inbox :: "nt_inbox_row list"
  nt_jobs :: "nt_job_row list"
  nt_dead :: "nt_dead_letter list"
  nt_requests :: "nt_request list"

type_synonym 'a nt_tx = "(nt_store, nt_error, 'a) tx"

definition empty_nt_store :: nt_store where
  "empty_nt_store = \<lparr>nt_cursors = [], nt_inbox = [], nt_jobs = [], nt_dead = [], nt_requests = []\<rparr>"

text \<open>The CHECKs: \<open>length(x) BETWEEN lo AND hi\<close>, \<open>^[0-9a-f]{64}$\<close> and \<open>^[a-z][a-z0-9_]{2,63}$\<close>.\<close>

definition text_between :: "nat \<Rightarrow> nat \<Rightarrow> string \<Rightarrow> bool" where
  "text_between lo hi s \<longleftrightarrow> lo \<le> pg_length s \<and> pg_length s \<le> hi"

definition nt_sha :: "string \<Rightarrow> bool" where
  "nt_sha s \<longleftrightarrow> match_runs [(is_lower_hex, 64)] s"

definition reason_char :: "char \<Rightarrow> bool" where
  "reason_char c \<longleftrightarrow> char_between CHR ''a'' CHR ''z'' c \<or> char_between CHR ''0'' CHR ''9'' c \<or> c = CHR ''_''"

definition reason_check :: "string \<Rightarrow> bool" where
  "reason_check s \<longleftrightarrow> (case s of [] \<Rightarrow> False
     | c # cs \<Rightarrow> char_between CHR ''a'' CHR ''z'' c \<and> 2 \<le> length cs \<and> length cs \<le> 63 \<and> list_all reason_char cs)"

text \<open>The template table, to which jobs refer, is the fixed list the migration inserts, all at version 1.\<close>

definition nt_templates :: "string list" where
  "nt_templates = [''payment_confirmed'', ''subscription_activated'', ''subscription_extended'', ''subscription_grace'', ''subscription_expired'',
     ''subscription_revoked'', ''refund_confirmed'', ''access_ready'', ''access_degraded'', ''provisioning_failed'', ''access_physically_revoked'']"

definition cursor_check :: "nt_cursor \<Rightarrow> bool" where
  "cursor_check c \<longleftrightarrow> text_between 3 200 (nc_stream_key c) \<and> text_between 3 64 (nc_producer c) \<and> text_between 3 64 (nc_aggregate_type c)
     \<and> 0 < nc_last_sequence c \<and> nt_sha (nc_last_payload_sha256 c)"

definition nt_inbox_check :: "nt_inbox_row \<Rightarrow> bool" where
  "nt_inbox_check r \<longleftrightarrow> text_between 3 128 (ni_event_type r) \<and> text_between 1 249 (ni_source_topic r) \<and> 0 \<le> ni_source_partition r
     \<and> 0 \<le> ni_source_offset r \<and> nt_sha (ni_payload_sha256 r) \<and> text_between 3 64 (ni_producer r) \<and> text_between 3 64 (ni_aggregate_type r)
     \<and> (case ni_aggregate_sequence r of None \<Rightarrow> True | Some n \<Rightarrow> 0 < n) \<and> text_between 3 200 (ni_business_dedupe_key r)"

text \<open>A NULL sequence is equal to another NULL in the third key (\<open>NULLS NOT DISTINCT\<close>).\<close>

definition nt_inbox_clash :: "nt_inbox_row \<Rightarrow> nt_inbox_row \<Rightarrow> bool" where
  "nt_inbox_clash r q \<longleftrightarrow> ni_event_id q = ni_event_id r
     \<or> ni_source_topic q = ni_source_topic r \<and> ni_source_partition q = ni_source_partition r \<and> ni_source_offset q = ni_source_offset r
     \<or> ni_aggregate_type q = ni_aggregate_type r \<and> ni_aggregate_id q = ni_aggregate_id r \<and> ni_aggregate_sequence q = ni_aggregate_sequence r"

text \<open>\<open>jsonb\<close> holds no NUL character.\<close>

definition job_check :: "nt_job_row \<Rightarrow> bool" where
  "job_check j \<longleftrightarrow> text_between 3 200 (nj_business_dedupe_key j) \<and> 0 \<le> nj_attempts j \<and> nj_attempts j < 2 ^ 31
     \<and> 1 \<le> nj_max_attempts j \<and> nj_max_attempts j \<le> 100
     \<and> (case nj_terminal_reason j of None \<Rightarrow> True | Some r \<Rightarrow> reason_check r)
     \<and> (nj_status j = NtProcessing \<longleftrightarrow> nj_lease_until j \<noteq> None \<and> nj_claim_id j \<noteq> None)
     \<and> (nj_status j = NtDelivered \<longleftrightarrow> nj_delivered_at j \<noteq> None)
     \<and> list_all (\<lambda>(k, v). CHR 0x00 \<notin> set k \<and> CHR 0x00 \<notin> set v) (nj_variables j)
     \<and> text_between 3 64 (nj_source_producer j) \<and> text_between 3 64 (nj_source_aggregate_type j)
     \<and> (case nj_source_aggregate_sequence j of None \<Rightarrow> True | Some n \<Rightarrow> 0 < n)
     \<and> text_between 3 200 (nj_stream_key j) \<and> 0 < nj_sequence j"

text \<open>An UPDATE of jobs.\<close>

definition update_jobs :: "(nt_job_row \<Rightarrow> bool) \<Rightarrow> (nt_job_row \<Rightarrow> nt_job_row) \<Rightarrow> unit nt_tx" where
  "update_jobs p f =
     tx_bind (tx_get nt_jobs) (\<lambda>rows.
       if list_ex (\<lambda>j. p j \<and> \<not> job_check (f j)) rows then tx_fail NtInfra
       else tx_modify (\<lambda>st. st\<lparr>nt_jobs := tbl_update p f (nt_jobs st)\<rparr>))"

section \<open>Recording an event\<close>

definition nt_stream :: "string \<Rightarrow> string \<Rightarrow> string \<Rightarrow> string" where
  "nt_stream producer aggregateType aggregateID = producer @ '':'' @ aggregateType @ '':'' @ aggregateID"

abbreviation meta_stream :: "NtMeta \<Rightarrow> string" where
  "meta_stream meta \<equiv> nt_stream (nm_Producer meta) (nm_AggregateType meta) (nm_AggregateID meta)"

abbreviation inbox_stream :: "nt_inbox_row \<Rightarrow> string" where
  "inbox_stream r \<equiv> nt_stream (ni_producer r) (ni_aggregate_type r) (ni_aggregate_id r)"

definition new_cursor :: "NtMeta \<Rightarrow> instant \<Rightarrow> nt_cursor" where
  "new_cursor meta now =
     \<lparr>nc_stream_key = meta_stream meta, nc_producer = nm_Producer meta, nc_aggregate_type = nm_AggregateType meta, nc_aggregate_id = nm_AggregateID meta,
      nc_last_sequence = nm_AggregateSequence meta, nc_last_event_id = nm_EventID meta, nc_last_payload_sha256 = nm_PayloadSHA256 meta, nc_updated_at = now\<rparr>"

definition cursor_clash :: "nt_cursor \<Rightarrow> nt_cursor \<Rightarrow> bool" where
  "cursor_clash c d \<longleftrightarrow> nc_stream_key d = nc_stream_key c
     \<or> nc_producer d = nc_producer c \<and> nc_aggregate_type d = nc_aggregate_type c \<and> nc_aggregate_id d = nc_aggregate_id c"

definition advance_cursor :: "(string \<Rightarrow> bool) \<Rightarrow> instant \<Rightarrow> NtMeta \<Rightarrow> unit nt_tx" where
  "advance_cursor uuid_ok now meta =
     tx_bind (tx_get (\<lambda>st. find (\<lambda>c. nc_stream_key c = meta_stream meta) (nt_cursors st))) (\<lambda>found.
       case found of
         None \<Rightarrow>
           if nm_AggregateSequence meta \<noteq> 1 then tx_fail NtErrSequenceGap
           else tx_bind (tx_get nt_cursors) (\<lambda>rows.
             let c = new_cursor meta now in
             if \<not> uuid_ok (nm_AggregateID meta) \<or> \<not> cursor_check c \<or> list_ex (cursor_clash c) rows then tx_fail NtInfra
             else tx_modify (\<lambda>st. st\<lparr>nt_cursors := nt_cursors st @ [c]\<rparr>))
       | Some c \<Rightarrow>
           if nm_AggregateSequence meta = int64 (nc_last_sequence c + 1) then
             if \<not> nt_sha (nm_PayloadSHA256 meta) then tx_fail NtInfra
             else tx_modify (\<lambda>st. st\<lparr>nt_cursors := tbl_update (\<lambda>c. nc_stream_key c = meta_stream meta)
               (\<lambda>c. c\<lparr>nc_last_sequence := nm_AggregateSequence meta, nc_last_event_id := nm_EventID meta,
                      nc_last_payload_sha256 := nm_PayloadSHA256 meta, nc_updated_at := now\<rparr>) (nt_cursors st)\<rparr>)
           else if nm_AggregateSequence meta > int64 (nc_last_sequence c + 1) then tx_fail NtErrSequenceGap
           else tx_fail NtErrEventConflict)"

definition meta_sequence :: "NtMeta \<Rightarrow> int option" where
  "meta_sequence meta = (if nm_AggregateSequence meta > 0 then Some (nm_AggregateSequence meta) else None)"

definition nt_new_inbox :: "NtMeta \<Rightarrow> Intent \<Rightarrow> nt_inbox_row" where
  "nt_new_inbox meta intent =
     \<lparr>ni_event_id = nm_EventID meta, ni_event_type = nm_EventType meta, ni_source_topic = nm_SourceTopic meta,
      ni_source_partition = nm_SourcePartition meta, ni_source_offset = nm_SourceOffset meta, ni_payload_sha256 = nm_PayloadSHA256 meta,
      ni_producer = nm_Producer meta, ni_aggregate_type = nm_AggregateType meta, ni_aggregate_id = nm_AggregateID meta,
      ni_aggregate_sequence = meta_sequence meta, ni_business_dedupe_key = in_BusinessDedupeKey intent\<rparr>"

definition nt_insertInbox :: "(string \<Rightarrow> bool) \<Rightarrow> NtMeta \<Rightarrow> Intent \<Rightarrow> unit nt_tx" where
  "nt_insertInbox uuid_ok meta intent =
     tx_bind (tx_get nt_inbox) (\<lambda>rows.
       let r = nt_new_inbox meta intent in
       if \<not> uuid_ok (nm_AggregateID meta) \<or> \<not> nt_inbox_check r then tx_fail NtInfra
       else if list_ex (nt_inbox_clash r) rows then tx_fail NtErrEventConflict
       else tx_modify (\<lambda>st. st\<lparr>nt_inbox := nt_inbox st @ [r]\<rparr>))"

definition superseded_in :: "nt_job_row list \<Rightarrow> string \<Rightarrow> int \<Rightarrow> bool" where
  "superseded_in jobs stream sequence \<longleftrightarrow>
     list_ex (\<lambda>q. nj_stream_key q = stream \<and> nj_sequence q > sequence \<and> nj_supersedes q) jobs"

definition superseded_reason :: string where
  "superseded_reason = ''superseded_by_terminal_state''"

definition new_job_row :: "instant \<Rightarrow> NtMeta \<Rightarrow> Intent \<Rightarrow> nt_status \<Rightarrow> string option \<Rightarrow> nt_job_row" where
  "new_job_row now meta intent status reason =
     \<lparr>nj_id = in_NotificationID intent, nj_user_id = in_UserID intent, nj_subscription_id = in_SubscriptionID intent,
      nj_credential_id = in_CredentialID intent, nj_type = in_NotificationType intent, nj_template_version = in_TemplateVersion intent,
      nj_source_event_id = nm_EventID meta, nj_business_dedupe_key = in_BusinessDedupeKey intent, nj_status = status, nj_attempts = 0,
      nj_max_attempts = in_MaxAttempts intent, nj_next_attempt_at = now, nj_lease_until = None, nj_claim_id = None, nj_delivered_at = None,
      nj_terminal_reason = reason, nj_correlation_id = nm_CorrelationID meta, nj_causation_id = nm_CausationID meta,
      nj_variables = in_Variables intent, nj_created_at = now, nj_updated_at = now, nj_source_producer = nm_Producer meta,
      nj_source_aggregate_type = nm_AggregateType meta, nj_source_aggregate_id = nm_AggregateID meta,
      nj_source_aggregate_sequence = meta_sequence meta, nj_stream_key = in_DeliveryStreamKey intent,
      nj_sequence = in_DeliverySequence intent, nj_supersedes = in_SupersedesOlder intent\<rparr>"

text \<open>The row of the INSERT, with the status the event starts with.\<close>

definition event_job :: "instant \<Rightarrow> NtMeta \<Rightarrow> Intent \<Rightarrow> nt_job_row list \<Rightarrow> nt_job_row" where
  "event_job now meta intent jobs =
     (if in_SuppressedReason intent \<noteq> [] then new_job_row now meta intent NtSuppressed (Some (in_SuppressedReason intent))
      else if superseded_in jobs (in_DeliveryStreamKey intent) (in_DeliverySequence intent) then new_job_row now meta intent NtSuppressed (Some superseded_reason)
      else new_job_row now meta intent NtPending None)"

definition job_uuids :: "nt_job_row \<Rightarrow> uuid list" where
  "job_uuids j = [nj_id j, nj_user_id j, nj_correlation_id j, nj_source_aggregate_id j]
     @ List.map_filter id [nj_subscription_id j, nj_credential_id j, nj_causation_id j]"

text \<open>The INSERT with \<open>ON CONFLICT (business_dedupe_key) DO NOTHING\<close>; whether the row was inserted.\<close>

definition insert_job :: "(string \<Rightarrow> bool) \<Rightarrow> nt_job_row \<Rightarrow> bool nt_tx" where
  "insert_job uuid_ok j =
     tx_bind (tx_get nt_jobs) (\<lambda>rows.
       if \<not> list_all uuid_ok (job_uuids j) \<or> \<not> job_check j then tx_fail NtInfra
       else if list_ex (\<lambda>q. nj_business_dedupe_key q = nj_business_dedupe_key j) rows then tx_return False
       else if list_ex (\<lambda>q. nj_id q = nj_id j) rows \<or> nj_type j \<notin> set nt_templates \<or> nj_template_version j \<noteq> 1 then tx_fail NtInfra
       else tx_bind (tx_modify (\<lambda>st. st\<lparr>nt_jobs := nt_jobs st @ [j]\<rparr>)) (\<lambda>_. tx_return True))"

definition suppress_superseded :: "instant \<Rightarrow> nt_job_row \<Rightarrow> nt_job_row" where
  "suppress_superseded now j = j\<lparr>nj_status := NtSuppressed, nj_terminal_reason := Some superseded_reason, nj_lease_until := None,
     nj_claim_id := None, nj_updated_at := now\<rparr>"

definition suppress_predecessors :: "instant \<Rightarrow> Intent \<Rightarrow> unit nt_tx" where
  "suppress_predecessors now intent =
     update_jobs (\<lambda>j. nj_stream_key j = in_DeliveryStreamKey intent \<and> nj_sequence j < in_DeliverySequence intent
        \<and> (nj_status j = NtPending \<or> nj_status j = NtRetry)) (suppress_superseded now)"

definition RecordEvent :: "(string \<Rightarrow> bool) \<Rightarrow> instant \<Rightarrow> NtMeta \<Rightarrow> Intent \<Rightarrow> bool nt_tx" where
  "RecordEvent uuid_ok now meta intent =
     (if \<not> uuid_ok (nm_EventID meta) then tx_fail NtInfra
      else tx_bind (tx_get (\<lambda>st. find (\<lambda>r. ni_event_id r = nm_EventID meta) (nt_inbox st))) (\<lambda>existing.
        case existing of
          Some r \<Rightarrow> if ni_payload_sha256 r \<noteq> nm_PayloadSHA256 meta then tx_fail NtErrEventConflict else tx_return False
        | None \<Rightarrow>
            tx_bind (if nm_AggregateSequence meta > 0 then advance_cursor uuid_ok now meta else tx_return ()) (\<lambda>_.
            tx_bind (nt_insertInbox uuid_ok meta intent) (\<lambda>_.
            tx_bind (tx_get nt_jobs) (\<lambda>jobs.
            tx_bind (insert_job uuid_ok (event_job now meta intent jobs)) (\<lambda>inserted.
            tx_bind (if in_SupersedesOlder intent then suppress_predecessors now intent else tx_return ()) (\<lambda>_.
            tx_return inserted)))))))"

section \<open>Dead letters\<close>

definition nt_RecordDeadLetter :: "instant \<Rightarrow> string \<Rightarrow> int \<Rightarrow> int \<Rightarrow> string \<Rightarrow> string \<Rightarrow> string \<Rightarrow> unit nt_tx" where
  "nt_RecordDeadLetter now topic part off payloadHash eventType reason =
     tx_bind (tx_get nt_dead) (\<lambda>rows.
       let typ = (if eventType = [] then None else Some eventType) in
       if \<not> text_between 1 249 topic \<or> part < 0 \<or> off < 0 \<or> \<not> nt_sha payloadHash
         \<or> (case typ of None \<Rightarrow> False | Some t \<Rightarrow> \<not> text_between 3 128 t) \<or> \<not> reason_check reason
       then tx_fail NtInfra
       else case find (\<lambda>d. nd_topic d = topic \<and> nd_partition d = part \<and> nd_offset d = off) rows of
           None \<Rightarrow> tx_modify (\<lambda>st. st\<lparr>nt_dead := nt_dead st @
             [\<lparr>nd_topic = topic, nd_partition = part, nd_offset = off, nd_sha256 = payloadHash, nd_event_type = typ,
               nd_reason = reason, nd_state = ''available'', nd_created_at = now, nd_updated_at = now\<rparr>]\<rparr>)
         | Some d \<Rightarrow>
             let storedType = (case nd_event_type d of None \<Rightarrow> [] | Some t \<Rightarrow> t) in
             if nd_sha256 d \<noteq> payloadHash \<or> storedType \<noteq> eventType \<or> nd_reason d \<noteq> reason then tx_fail NtErrEventConflict
             else tx_return ())"

text \<open>A negative LIMIT is an error of the database.\<close>

definition ListDeadLetters :: "(string \<Rightarrow> int) \<Rightarrow> int \<Rightarrow> nt_dead_letter list nt_tx" where
  "ListDeadLetters collate limit =
     (if limit < 0 then tx_fail NtInfra
      else tx_get (\<lambda>st. take (nat limit)
        (sort_key (\<lambda>d. (- nd_created_at d, collate (nd_topic d), nd_partition d, nd_offset d)) (nt_dead st))))"

section \<open>Jobs\<close>

definition zero_uuid :: uuid where
  "zero_uuid = ''00000000-0000-0000-0000-000000000000''"

definition scanJob :: "nt_job_row \<Rightarrow> NtJob" where
  "scanJob j =
     \<lparr>jb_NotificationID = nj_id j, jb_UserID = nj_user_id j, jb_SubscriptionID = nj_subscription_id j, jb_CredentialID = nj_credential_id j,
      jb_NotificationType = nj_type j, jb_TemplateVersion = nj_template_version j, jb_Status = nj_status j, jb_Attempts = nj_attempts j,
      jb_MaxAttempts = nj_max_attempts j, jb_NextAttemptAt = nj_next_attempt_at j,
      jb_ClaimID = (case nj_claim_id j of None \<Rightarrow> zero_uuid | Some c \<Rightarrow> c), jb_SourceProducer = nj_source_producer j,
      jb_SourceAggregate = nj_source_aggregate_type j, jb_SourceAggregateID = nj_source_aggregate_id j,
      jb_SourceSequence = (case nj_source_aggregate_sequence j of None \<Rightarrow> 0 | Some n \<Rightarrow> n), jb_DeliveryStream = nj_stream_key j,
      jb_DeliverySequence = nj_sequence j, jb_SupersedesOlder = nj_supersedes j, jb_CorrelationID = nj_correlation_id j,
      jb_CausationID = nj_causation_id j, jb_Variables = nj_variables j, jb_TerminalReason = nj_terminal_reason j,
      jb_DeliveredAt = nj_delivered_at j, jb_CreatedAt = nj_created_at j, jb_UpdatedAt = nj_updated_at j\<rparr>"

definition nt_open :: "nt_status \<Rightarrow> bool" where
  "nt_open s \<longleftrightarrow> s = NtPending \<or> s = NtRetry \<or> s = NtProcessing"

definition claimable :: "instant \<Rightarrow> nt_job_row list \<Rightarrow> nt_job_row \<Rightarrow> bool" where
  "claimable now rows j \<longleftrightarrow>
     ((nj_status j = NtPending \<or> nj_status j = NtRetry) \<and> nj_next_attempt_at j \<le> now
      \<or> nj_status j = NtProcessing \<and> (case nj_lease_until j of None \<Rightarrow> False | Some t \<Rightarrow> t \<le> now))
     \<and> \<not> list_ex (\<lambda>p. nj_stream_key p = nj_stream_key j \<and> nj_sequence p < nj_sequence j \<and> nt_open (nj_status p)) rows"

definition claim_row :: "instant \<Rightarrow> nanos \<Rightarrow> uuid \<Rightarrow> nt_job_row \<Rightarrow> nt_job_row" where
  "claim_row now lease claimID j = j\<lparr>nj_status := NtProcessing, nj_attempts := nj_attempts j + 1, nj_claim_id := Some claimID,
     nj_lease_until := Some (now + lease), nj_updated_at := now\<rparr>"

text \<open>\<open>locked\<close> are the rows other transactions hold (\<open>SKIP LOCKED\<close>).\<close>

definition ClaimJob :: "(string \<Rightarrow> int) \<Rightarrow> uuid list \<Rightarrow> instant \<Rightarrow> uuid \<Rightarrow> nanos \<Rightarrow> NtJob option nt_tx" where
  "ClaimJob collate locked now claimID lease =
     tx_bind (tx_get nt_jobs) (\<lambda>rows.
       case first_by (\<lambda>j. (nj_next_attempt_at j, collate (nj_stream_key j), nj_sequence j, nj_created_at j))
           (filter (\<lambda>j. claimable now rows j \<and> nj_id j \<notin> set locked) rows) of
         None \<Rightarrow> tx_return None
       | Some j \<Rightarrow> tx_bind (update_jobs (\<lambda>r. nj_id r = nj_id j) (claim_row now lease claimID)) (\<lambda>_.
           tx_return (Some (scanJob (claim_row now lease claimID j)))))"

definition held_by :: "uuid \<Rightarrow> uuid \<Rightarrow> nt_job_row \<Rightarrow> bool" where
  "held_by nid claimID j \<longleftrightarrow> nj_id j = nid \<and> nj_status j = NtProcessing \<and> nj_claim_id j = Some claimID"

definition finish_row :: "instant \<Rightarrow> nt_status \<Rightarrow> string \<Rightarrow> nanos \<Rightarrow> nt_job_row \<Rightarrow> nt_job_row" where
  "finish_row now status reason delay j = j\<lparr>nj_status := status,
     nj_next_attempt_at := (if status = NtRetry then now + delay else nj_next_attempt_at j),
     nj_delivered_at := (if status = NtDelivered then Some now else None),
     nj_terminal_reason := (if reason = [] then None else Some reason), nj_lease_until := None, nj_claim_id := None, nj_updated_at := now\<rparr>"

definition finishClaim :: "nt_job_row list \<Rightarrow> instant \<Rightarrow> uuid \<Rightarrow> uuid \<Rightarrow> nt_status \<Rightarrow> string \<Rightarrow> nanos \<Rightarrow> unit nt_tx" where
  "finishClaim seen now nid claimID status reason delay =
     tx_bind (tx_get (\<lambda>st. find (held_by nid claimID) (nt_jobs st))) (\<lambda>found.
       case found of
         None \<Rightarrow> tx_fail NtErrEventConflict
       | Some j \<Rightarrow>
           let (status1, reason1, delay1) =
             (if (status = NtRetry \<or> status = NtPermanentlyFailed) \<and> superseded_in seen (nj_stream_key j) (nj_sequence j)
              then (NtSuppressed, superseded_reason, 0) else (status, reason, delay)) in
           update_jobs (held_by nid claimID) (finish_row now status1 reason1 delay1))"

definition CompleteJob :: "nt_job_row list \<Rightarrow> instant \<Rightarrow> uuid \<Rightarrow> uuid \<Rightarrow> unit nt_tx" where
  "CompleteJob seen now nid claimID = finishClaim seen now nid claimID NtDelivered [] 0"

definition RetryJob :: "nt_job_row list \<Rightarrow> instant \<Rightarrow> uuid \<Rightarrow> uuid \<Rightarrow> nanos \<Rightarrow> unit nt_tx" where
  "RetryJob seen now nid claimID delay = finishClaim seen now nid claimID NtRetry [] delay"

definition FailJob :: "nt_job_row list \<Rightarrow> instant \<Rightarrow> uuid \<Rightarrow> uuid \<Rightarrow> string \<Rightarrow> unit nt_tx" where
  "FailJob seen now nid claimID reason = finishClaim seen now nid claimID NtPermanentlyFailed reason 0"

definition SuppressJob :: "nt_job_row list \<Rightarrow> instant \<Rightarrow> uuid \<Rightarrow> uuid \<Rightarrow> string \<Rightarrow> unit nt_tx" where
  "SuppressJob seen now nid claimID reason = finishClaim seen now nid claimID NtSuppressed reason 0"

definition getJobQuery :: "uuid \<Rightarrow> NtJob nt_tx" where
  "getJobQuery nid =
     tx_bind (tx_get (\<lambda>st. find (\<lambda>j. nj_id j = nid) (nt_jobs st))) (\<lambda>found.
       case found of None \<Rightarrow> tx_fail NtErrNotFound | Some j \<Rightarrow> tx_return (scanJob j))"

definition GetJob :: "uuid \<Rightarrow> NtJob nt_tx" where
  "GetJob nid = getJobQuery nid"

definition reset_row :: "instant \<Rightarrow> nt_job_row \<Rightarrow> nt_job_row" where
  "reset_row now j = j\<lparr>nj_status := NtPending, nj_attempts := 0, nj_next_attempt_at := now, nj_lease_until := None, nj_claim_id := None,
     nj_terminal_reason := None, nj_updated_at := now\<rparr>"

definition insert_request :: "string \<Rightarrow> string \<Rightarrow> uuid \<Rightarrow> unit nt_tx" where
  "insert_request key requestHash nid =
     tx_bind (tx_get nt_requests) (\<lambda>rows.
       if \<not> text_between 8 128 key \<or> \<not> nt_sha requestHash \<or> list_ex (\<lambda>r. nr_idempotency_key r = key) rows then tx_fail NtInfra
       else tx_modify (\<lambda>st. st\<lparr>nt_requests := nt_requests st @
         [\<lparr>nr_idempotency_key = key, nr_request_sha256 = requestHash, nr_notification_id = nid\<rparr>]\<rparr>))"

definition RequestRetry :: "nt_job_row list \<Rightarrow> instant \<Rightarrow> uuid \<Rightarrow> string \<Rightarrow> string \<Rightarrow> (NtJob \<times> bool) nt_tx" where
  "RequestRetry seen now nid key requestHash =
     tx_bind (tx_get (\<lambda>st. find (\<lambda>r. nr_idempotency_key r = key) (nt_requests st))) (\<lambda>existing.
       case existing of
         Some r \<Rightarrow>
           if nr_request_sha256 r \<noteq> requestHash \<or> nr_notification_id r \<noteq> nid then tx_fail NtErrIdempotencyConflict
           else tx_bind (getJobQuery nid) (\<lambda>job. tx_return (job, True))
       | None \<Rightarrow>
           tx_bind (tx_get (\<lambda>st. find (\<lambda>j. nj_id j = nid) (nt_jobs st))) (\<lambda>found.
             case found of
               None \<Rightarrow> tx_fail NtErrNotFound
             | Some j \<Rightarrow>
                 if nj_status j \<noteq> NtPermanentlyFailed \<and> nj_status j \<noteq> NtRetry then tx_fail NtErrRetryNotAllowed
                 else if list_ex (\<lambda>q. nj_stream_key q = nj_stream_key j \<and> nj_sequence q > nj_sequence j) seen then tx_fail NtErrRetryNotAllowed
                 else tx_bind (update_jobs (\<lambda>r. nj_id r = nid) (reset_row now)) (\<lambda>_.
                      tx_bind (insert_request key requestHash nid) (\<lambda>_.
                      tx_bind (getJobQuery nid) (\<lambda>job. tx_return (job, False))))))"

end
