(* ===== verification/Notification_Service.thy ===== *)
theory Notification_Service
  imports Notification_Store Kafka Retry
begin

text \<open>
  The notification service's use cases (\<open>internal/application/service.go\<close>), the delivery worker
  (\<open>worker.go\<close>), the message texts (\<open>internal/template/render.go\<close>) and what the clients of identity,
  subscription, access and telegram-bot make of an answer.

  \<open>nt_codec\<close> has what is decoded from JSON, the hexadecimal SHA-256 of a record, and RFC 3339 text of
  instants; \<open>nt_config\<close> the configuration. A request to another service is its outcome: it could not be
  built, it was not answered, or it was answered with a status and a body, which is \<open>None\<close> when it is not
  JSON of the expected shape. The messages handed to telegram-bot are part of a round's result.
\<close>

section \<open>Events\<close>

record NtPaymentSucceeded =
  nps_PaymentID :: uuid
  nps_OrderID :: uuid
  nps_UserID :: uuid
  nps_PlanID :: uuid
  nps_AmountMinor :: int
  nps_Currency :: string
  nps_PaidAt :: instant

record NtRefundSucceeded =
  nrs_RefundID :: uuid
  nrs_PaymentID :: uuid
  nrs_OrderID :: uuid
  nrs_UserID :: uuid
  nrs_AmountMinor :: int
  nrs_Currency :: string
  nrs_RefundScope :: string
  nrs_RefundedAt :: instant

record NtPeriodEvent =
  npe_SubscriptionID :: uuid
  npe_UserID :: uuid
  npe_PeriodID :: uuid
  npe_SourceOrderID :: uuid
  npe_SourcePaymentID :: uuid
  npe_PeriodStart :: instant
  npe_PeriodEnd :: instant
  npe_GraceEndsAt :: instant

record NtGraceStarted =
  ngs_SubscriptionID :: uuid
  ngs_UserID :: uuid
  ngs_PeriodEnd :: instant
  ngs_GraceEndsAt :: instant
  ngs_EffectiveAt :: instant

record NtTerminalEvent =
  nte_SubscriptionID :: uuid
  nte_UserID :: uuid
  nte_Reason :: string
  nte_AffectedPeriodIDs :: "uuid list"
  nte_EffectiveAt :: instant

record NtAccessReady =
  nar_SubscriptionID :: uuid
  nar_CredentialID :: uuid
  nar_UserID :: uuid
  nar_ProvisioningStatus :: string
  nar_ReadyAt :: instant
  nar_LinkIssuanceRequired :: bool

record NtProvisioningFailed =
  npf_SubscriptionID :: uuid
  npf_CredentialID :: uuid
  npf_UserID :: uuid
  npf_FailedRevision :: int
  npf_ReasonCode :: string
  npf_FailedAt :: instant

record NtAccessRevoked =
  nav_SubscriptionID :: uuid
  nav_CredentialID :: uuid
  nav_UserID :: uuid
  nav_DesiredRevision :: int
  nav_Reason :: string
  nav_RevokedAt :: instant

record nt_codec =
  ndc_envelope :: "string \<Rightarrow> Envelope option"
  ndc_event_type :: "string \<Rightarrow> string option"
  ndc_sha256 :: "string \<Rightarrow> string"
  ndc_payment :: "string \<Rightarrow> NtPaymentSucceeded option"
  ndc_refund :: "string \<Rightarrow> NtRefundSucceeded option"
  ndc_period :: "string \<Rightarrow> NtPeriodEvent option"
  ndc_grace :: "string \<Rightarrow> NtGraceStarted option"
  ndc_terminal :: "string \<Rightarrow> NtTerminalEvent option"
  ndc_ready :: "string \<Rightarrow> NtAccessReady option"
  ndc_failed :: "string \<Rightarrow> NtProvisioningFailed option"
  ndc_revoked :: "string \<Rightarrow> NtAccessRevoked option"
  ndc_format :: "instant \<Rightarrow> string"
  ndc_parse :: "string \<Rightarrow> instant option"

record nt_config =
  ncf_maxAttempts :: int
  ncf_retryBase :: nanos
  ncf_lease :: nanos
  ncf_sha256 :: "string \<Rightarrow> 8 word list"
  ncf_uuid_ok :: "string \<Rightarrow> bool"
  ncf_collate :: "string \<Rightarrow> int"

definition service_maxAttempts :: "int \<Rightarrow> int" where
  "service_maxAttempts n = (if n < 1 then 8 else n)"

fun nt_ContractErrorCode :: "nt_error \<Rightarrow> string option" where
  "nt_ContractErrorCode (NtContractError code) = Some code"
| "nt_ContractErrorCode NtErrEventConflict = Some ''durable_event_conflict''"
| "nt_ContractErrorCode _ = None"

section \<open>The intent of an event\<close>

definition base_intent :: "nt_config \<Rightarrow> uuid \<Rightarrow> Intent" where
  "base_intent cfg nid =
     \<lparr>in_NotificationID = nid, in_UserID = [], in_SubscriptionID = None, in_CredentialID = None, in_NotificationType = [], in_TemplateVersion = 1,
      in_BusinessDedupeKey = [], in_DeliveryStreamKey = [], in_DeliverySequence = 0, in_SupersedesOlder = False, in_Variables = [],
      in_SuppressedReason = [], in_MaxAttempts = service_maxAttempts (ncf_maxAttempts cfg)\<rparr>"

definition nt_checked :: "'a option \<Rightarrow> ('a \<Rightarrow> bool) \<Rightarrow> ('a \<Rightarrow> Intent) \<Rightarrow> nt_error + Intent" where
  "nt_checked decoded valid build =
     (case decoded of
        None \<Rightarrow> Inl (NtContractError ''invalid_event_data'')
      | Some event \<Rightarrow> if valid event then Inr (build event) else Inl (NtContractError ''invalid_event_data''))"

definition payment_intent :: "nt_codec \<Rightarrow> Intent \<Rightarrow> NtMeta \<Rightarrow> string \<Rightarrow> nt_error + Intent" where
  "payment_intent cd base meta data = nt_checked (ndc_payment cd data)
     (\<lambda>e. nps_PaymentID e = nm_AggregateID meta \<and> nps_UserID e \<noteq> [] \<and> nps_PaidAt e \<noteq> 0 \<and> 1 \<le> nps_AmountMinor e)
     (\<lambda>e. base\<lparr>in_UserID := nps_UserID e, in_NotificationType := ''payment_confirmed'',
        in_BusinessDedupeKey := ''payment_confirmed:'' @ nps_PaymentID e, in_DeliveryStreamKey := ''payment:'' @ nps_PaymentID e,
        in_DeliverySequence := 1, in_Variables := [(''amount_minor'', Itoa (nps_AmountMinor e)), (''currency'', nps_Currency e)]\<rparr>)"

definition refund_intent :: "nt_codec \<Rightarrow> Intent \<Rightarrow> NtMeta \<Rightarrow> string \<Rightarrow> nt_error + Intent" where
  "refund_intent cd base meta data = nt_checked (ndc_refund cd data)
     (\<lambda>e. nrs_RefundID e = nm_AggregateID meta \<and> nrs_PaymentID e \<noteq> [] \<and> nrs_UserID e \<noteq> [] \<and> nrs_RefundScope e = ''full'' \<and> nrs_RefundedAt e \<noteq> 0)
     (\<lambda>e. base\<lparr>in_UserID := nrs_UserID e, in_NotificationType := ''refund_confirmed'',
        in_BusinessDedupeKey := ''refund_confirmed:'' @ nrs_RefundID e, in_DeliveryStreamKey := ''payment:'' @ nrs_PaymentID e,
        in_DeliverySequence := 2, in_SupersedesOlder := True\<rparr>)"

definition period_intent :: "nt_codec \<Rightarrow> Intent \<Rightarrow> NtMeta \<Rightarrow> string \<Rightarrow> nt_error + Intent" where
  "period_intent cd base meta data = nt_checked (ndc_period cd data)
     (\<lambda>e. 1 \<le> nm_AggregateSequence meta \<and> npe_SubscriptionID e = nm_AggregateID meta \<and> npe_UserID e \<noteq> [] \<and> npe_PeriodID e \<noteq> [] \<and> npe_PeriodEnd e \<noteq> 0)
     (\<lambda>e. let i = base\<lparr>in_UserID := npe_UserID e, in_SubscriptionID := Some (npe_SubscriptionID e),
            in_DeliveryStreamKey := ''subscription:'' @ npe_SubscriptionID e, in_DeliverySequence := nm_AggregateSequence meta,
            in_Variables := [(''period_end'', ndc_format cd (npe_PeriodEnd e))]\<rparr> in
        if nm_EventType meta = ''subscription.activated.v1''
        then i\<lparr>in_NotificationType := ''subscription_activated'', in_BusinessDedupeKey := ''activation:'' @ npe_PeriodID e,
               in_SuppressedReason := ''covered_by_payment_and_ready''\<rparr>
        else i\<lparr>in_NotificationType := ''subscription_extended'', in_BusinessDedupeKey := ''extension:'' @ npe_PeriodID e\<rparr>)"

definition grace_intent :: "nt_codec \<Rightarrow> Intent \<Rightarrow> NtMeta \<Rightarrow> string \<Rightarrow> nt_error + Intent" where
  "grace_intent cd base meta data = nt_checked (ndc_grace cd data)
     (\<lambda>e. 1 \<le> nm_AggregateSequence meta \<and> ngs_SubscriptionID e = nm_AggregateID meta \<and> ngs_UserID e \<noteq> [] \<and> ngs_GraceEndsAt e \<noteq> 0
        \<and> ngs_PeriodEnd e < ngs_GraceEndsAt e)
     (\<lambda>e. base\<lparr>in_UserID := ngs_UserID e, in_SubscriptionID := Some (ngs_SubscriptionID e), in_NotificationType := ''subscription_grace'',
        in_BusinessDedupeKey := ''grace:'' @ ngs_SubscriptionID e @ '':'' @ Itoa (nm_AggregateSequence meta),
        in_DeliveryStreamKey := ''subscription:'' @ ngs_SubscriptionID e, in_DeliverySequence := nm_AggregateSequence meta,
        in_Variables := [(''grace_ends_at'', ndc_format cd (ngs_GraceEndsAt e))]\<rparr>)"

definition terminal_intent :: "nt_codec \<Rightarrow> Intent \<Rightarrow> NtMeta \<Rightarrow> string \<Rightarrow> nt_error + Intent" where
  "terminal_intent cd base meta data = nt_checked (ndc_terminal cd data)
     (\<lambda>e. 1 \<le> nm_AggregateSequence meta \<and> nte_SubscriptionID e = nm_AggregateID meta \<and> nte_UserID e \<noteq> [] \<and> nte_EffectiveAt e \<noteq> 0)
     (\<lambda>e. base\<lparr>in_UserID := nte_UserID e, in_SubscriptionID := Some (nte_SubscriptionID e),
        in_DeliveryStreamKey := ''subscription:'' @ nte_SubscriptionID e, in_DeliverySequence := nm_AggregateSequence meta, in_SupersedesOlder := True,
        in_NotificationType := (if nm_EventType meta = ''subscription.revoked.v1'' then ''subscription_revoked'' else ''subscription_expired''),
        in_BusinessDedupeKey := ''terminal:'' @ nte_SubscriptionID e @ '':'' @ Itoa (nm_AggregateSequence meta),
        in_Variables := [(''reason'', nte_Reason e)]\<rparr>)"

definition ready_intent :: "nt_codec \<Rightarrow> Intent \<Rightarrow> NtMeta \<Rightarrow> string \<Rightarrow> nt_error + Intent" where
  "ready_intent cd base meta data = nt_checked (ndc_ready cd data)
     (\<lambda>e. 1 \<le> nm_AggregateSequence meta \<and> nar_CredentialID e = nm_AggregateID meta \<and> nar_UserID e \<noteq> [] \<and> nar_SubscriptionID e \<noteq> []
        \<and> nar_ReadyAt e \<noteq> 0 \<and> nar_LinkIssuanceRequired e \<and> (nar_ProvisioningStatus e = ''active'' \<or> nar_ProvisioningStatus e = ''degraded''))
     (\<lambda>e. base\<lparr>in_UserID := nar_UserID e, in_SubscriptionID := Some (nar_SubscriptionID e), in_CredentialID := Some (nar_CredentialID e),
        in_DeliveryStreamKey := ''access:'' @ nar_CredentialID e, in_DeliverySequence := nm_AggregateSequence meta,
        in_NotificationType := (if nar_ProvisioningStatus e = ''degraded'' then ''access_degraded'' else ''access_ready''),
        in_BusinessDedupeKey := ''access_ready:'' @ nar_CredentialID e @ '':'' @ Itoa (nm_AggregateSequence meta)\<rparr>)"

definition failed_intent :: "nt_codec \<Rightarrow> Intent \<Rightarrow> NtMeta \<Rightarrow> string \<Rightarrow> nt_error + Intent" where
  "failed_intent cd base meta data = nt_checked (ndc_failed cd data)
     (\<lambda>e. 1 \<le> nm_AggregateSequence meta \<and> npf_CredentialID e = nm_AggregateID meta \<and> npf_UserID e \<noteq> [] \<and> npf_SubscriptionID e \<noteq> []
        \<and> 1 \<le> npf_FailedRevision e \<and> npf_FailedAt e \<noteq> 0)
     (\<lambda>e. base\<lparr>in_UserID := npf_UserID e, in_SubscriptionID := Some (npf_SubscriptionID e), in_CredentialID := Some (npf_CredentialID e),
        in_DeliveryStreamKey := ''access:'' @ npf_CredentialID e, in_DeliverySequence := nm_AggregateSequence meta,
        in_NotificationType := ''provisioning_failed'',
        in_BusinessDedupeKey := ''provisioning_failed:'' @ npf_CredentialID e @ '':'' @ Itoa (npf_FailedRevision e)\<rparr>)"

definition revoked_intent :: "nt_codec \<Rightarrow> Intent \<Rightarrow> NtMeta \<Rightarrow> string \<Rightarrow> nt_error + Intent" where
  "revoked_intent cd base meta data = nt_checked (ndc_revoked cd data)
     (\<lambda>e. 1 \<le> nm_AggregateSequence meta \<and> nav_CredentialID e = nm_AggregateID meta \<and> nav_UserID e \<noteq> [] \<and> nav_SubscriptionID e \<noteq> []
        \<and> 1 \<le> nav_DesiredRevision e \<and> nav_RevokedAt e \<noteq> 0)
     (\<lambda>e. base\<lparr>in_UserID := nav_UserID e, in_SubscriptionID := Some (nav_SubscriptionID e), in_CredentialID := Some (nav_CredentialID e),
        in_DeliveryStreamKey := ''access:'' @ nav_CredentialID e, in_DeliverySequence := nm_AggregateSequence meta, in_SupersedesOlder := True,
        in_NotificationType := ''access_physically_revoked'',
        in_BusinessDedupeKey := ''access_revoked:'' @ nav_CredentialID e @ '':'' @ Itoa (nav_DesiredRevision e),
        in_SuppressedReason := ''covered_by_entitlement_terminal''\<rparr>)"

text \<open>\<open>nid\<close> is the new notification id, or \<open>None\<close> when the random source failed.\<close>

definition nt_intent :: "nt_config \<Rightarrow> nt_codec \<Rightarrow> uuid option \<Rightarrow> NtMeta \<Rightarrow> string \<Rightarrow> nt_error + Intent" where
  "nt_intent cfg cd nid meta data =
     (case nid of
        None \<Rightarrow> Inl NtInfra
      | Some n \<Rightarrow>
          let t = nm_EventType meta; base = base_intent cfg n in
          (case (if t = ''billing.payment.succeeded.v1'' then payment_intent cd base meta data
                 else if t = ''billing.refund.succeeded.v1'' then refund_intent cd base meta data
                 else if t = ''subscription.activated.v1'' \<or> t = ''subscription.extended.v1'' then period_intent cd base meta data
                 else if t = ''subscription.grace.started.v1'' then grace_intent cd base meta data
                 else if t = ''subscription.expired.v1'' \<or> t = ''subscription.revoked.v1'' then terminal_intent cd base meta data
                 else if t = ''access.ready.v1'' then ready_intent cd base meta data
                 else if t = ''access.provisioning.failed.v1'' then failed_intent cd base meta data
                 else if t = ''access.revoked.v1'' then revoked_intent cd base meta data
                 else Inl (NtContractError ''unsupported_event_type'')) of
             Inl err \<Rightarrow> Inl err
           | Inr i \<Rightarrow>
               if nm_PartitionKey meta \<noteq> ''user:'' @ in_UserID i then Inl (NtContractError ''event_partition_mismatch'')
               else if in_DeliveryStreamKey i = [] \<or> in_DeliverySequence i < 1 then Inl (NtContractError ''invalid_delivery_order'')
               else Inr i))"

record nt_event_env =
  nee_new_id :: "uuid option"
  nee_now :: instant
  nee_fault :: fault

definition nt_ProcessEvent :: "nt_config \<Rightarrow> nt_codec \<Rightarrow> nt_event_env \<Rightarrow> NtMeta \<Rightarrow> string \<Rightarrow> nt_store \<Rightarrow> nt_error option \<times> nt_store" where
  "nt_ProcessEvent cfg cd env meta data st =
     (case nt_intent cfg cd (nee_new_id env) meta data of
        Inl err \<Rightarrow> (Some err, st)
      | Inr intent \<Rightarrow>
          (case run_tx NtInfra (nee_fault env) (RecordEvent (ncf_uuid_ok cfg) (nee_now env) meta intent) st of
             (Inl err, st1) \<Rightarrow> (Some err, st1)
           | (Inr _, st1) \<Rightarrow> (None, st1)))"

section \<open>Message texts\<close>

definition MaxTelegramRunes :: nat where
  "MaxTelegramRunes = 4096"

definition escape_char :: "char \<Rightarrow> string" where
  "escape_char c =
     (if c = CHR ''&'' then ''&amp;'' else if c = CHR 0x27 then ''&#39;'' else if c = CHR ''<'' then ''&lt;''
      else if c = CHR ''>'' then ''&gt;'' else if c = CHR 0x22 then ''&#34;'' else [c])"

definition EscapeString :: "string \<Rightarrow> string" where
  "EscapeString s = concat (map escape_char s)"

text \<open>
  \<open>strings.ToLower\<close> on ASCII. No other code point has a lower case in the two texts that are
  searched for, so the search does not see the difference.
\<close>

definition lower_char :: "char \<Rightarrow> char" where
  "lower_char c = (if char_between CHR ''A'' CHR ''Z'' c then char_of (of_char c + 32 :: nat) else c)"

fun contains_text :: "string \<Rightarrow> string \<Rightarrow> bool" where
  "contains_text [] p \<longleftrightarrow> p = []"
| "contains_text (c # cs) p \<longleftrightarrow> has_prefix (c # cs) p \<or> contains_text cs p"

definition variable_text :: "(string \<times> string) list \<Rightarrow> string \<Rightarrow> string" where
  "variable_text variables name = (case map_of variables name of None \<Rightarrow> [] | Some v \<Rightarrow> v)"

definition template_text :: "string \<Rightarrow> (string \<Rightarrow> string) \<Rightarrow> string option" where
  "template_text t escape =
     (if t = ''payment_confirmed'' then Some ''<b>Payment confirmed.</b> We are preparing your VPN access.''
      else if t = ''subscription_extended'' then Some (''<b>Subscription extended.</b> Access is valid through '' @ escape ''period_end'' @ ''.'')
      else if t = ''subscription_grace'' then Some (''<b>Grace period started.</b> Renew before '' @ escape ''grace_ends_at'' @ '' to keep VPN access.'')
      else if t = ''subscription_expired'' then Some ''<b>Subscription expired.</b> VPN access is no longer available.''
      else if t = ''subscription_revoked'' then Some ''<b>Subscription access revoked.</b> Contact support if this was unexpected.''
      else if t = ''refund_confirmed'' then Some ''<b>Refund confirmed.</b> Subscription access will follow the remaining paid periods.''
      else if t = ''access_ready'' then Some ''<b>VPN access is ready.</b> Send /link to receive your one-time Happ subscription link.''
      else if t = ''access_degraded'' then Some ''<b>VPN access is ready.</b> Backup capacity is temporarily reduced. Send /link to receive your one-time Happ subscription link.''
      else if t = ''provisioning_failed'' then Some ''<b>VPN setup needs attention.</b> We could not finish setup. Please contact support.''
      else None)"

text \<open>The code points of a text that is valid UTF-8 are its characters.\<close>

definition nt_Render :: "string \<Rightarrow> int \<Rightarrow> (string \<times> string) list \<Rightarrow> string option" where
  "nt_Render notificationType version variables =
     (if version \<noteq> 1 then None
      else case template_text notificationType (\<lambda>name. EscapeString (TrimSpace (variable_text variables name))) of
          None \<Rightarrow> None
        | Some text \<Rightarrow>
            if contains_text (map lower_char text) ''vless://'' \<or> contains_text (map lower_char text) ''/s/'' then None
            else if pg_length text > MaxTelegramRunes then None
            else Some text)"

section \<open>Clients\<close>

datatype 'p http_answer = NoRequest | NoAnswer | Answer int "'p option"

record TelegramTarget =
  tt_Eligible :: bool
  tt_ReasonCode :: string
  tt_TelegramChatID :: int
  tt_Locale :: string

record SubscriptionState =
  sst_Status :: string
  sst_CurrentPeriodEnd :: "instant option"
  sst_GraceEndsAt :: "instant option"

record DeliveryError =
  de_Code :: string
  de_Retryable :: bool
  de_RetryAfter :: nanos

record target_payload =
  tp_Eligible :: bool
  tp_ReasonCode :: string
  tp_TelegramChatID :: "int option"
  tp_Locale :: "string option"

definition token_char :: "char \<Rightarrow> bool" where
  "token_char r \<longleftrightarrow> char_between CHR ''a'' CHR ''z'' r \<or> char_between CHR ''A'' CHR ''Z'' r \<or> char_between CHR ''0'' CHR ''9'' r
     \<or> r = CHR ''_'' \<or> r = CHR ''-''"

definition boundedToken :: "string \<Rightarrow> nat \<Rightarrow> nat \<Rightarrow> bool" where
  "boundedToken value minLength maxLength \<longleftrightarrow> minLength \<le> length value \<and> length value \<le> maxLength \<and> list_all token_char value"

definition GetNotificationTarget :: "target_payload http_answer \<Rightarrow> TelegramTarget option" where
  "GetNotificationTarget answer =
     (case answer of
        Answer status (Some p) \<Rightarrow>
          if status \<noteq> 200 then None
          else if tp_Eligible p \<and> ((case tp_TelegramChatID p of None \<Rightarrow> True | Some c \<Rightarrow> c \<le> 0) \<or> tp_ReasonCode p \<noteq> []) then None
          else if \<not> tp_Eligible p \<and> (tp_TelegramChatID p \<noteq> None \<or> \<not> boundedToken (tp_ReasonCode p) 3 64) then None
          else if (case tp_Locale p of None \<Rightarrow> False | Some l \<Rightarrow> \<not> boundedToken l 2 16) then None
          else Some \<lparr>tt_Eligible = tp_Eligible p, tt_ReasonCode = tp_ReasonCode p,
            tt_TelegramChatID = (case tp_TelegramChatID p of None \<Rightarrow> 0 | Some c \<Rightarrow> c), tt_Locale = (case tp_Locale p of None \<Rightarrow> [] | Some l \<Rightarrow> l)\<rparr>
      | _ \<Rightarrow> None)"

record state_payload =
  sp_SubscriptionID :: uuid
  sp_UserID :: uuid
  sp_Status :: string
  sp_CurrentPeriodStart :: "instant option"
  sp_CurrentPeriodEnd :: "instant option"
  sp_GraceEndsAt :: "instant option"

definition GetState :: "state_payload http_answer \<Rightarrow> uuid \<Rightarrow> uuid \<Rightarrow> SubscriptionState option" where
  "GetState answer userID subscriptionID =
     (case answer of
        Answer status body \<Rightarrow>
          if status = 404 then Some \<lparr>sst_Status = ''missing'', sst_CurrentPeriodEnd = None, sst_GraceEndsAt = None\<rparr>
          else if status \<noteq> 200 then None
          else (case body of
              None \<Rightarrow> None
            | Some p \<Rightarrow>
                if sp_UserID p \<noteq> userID \<or> sp_SubscriptionID p \<noteq> subscriptionID then None
                else if sp_Status p \<notin> set [''active'', ''grace'', ''pending'', ''expired'', ''revoked''] then None
                else Some \<lparr>sst_Status = sp_Status p, sst_CurrentPeriodEnd = sp_CurrentPeriodEnd p, sst_GraceEndsAt = sp_GraceEndsAt p\<rparr>)
      | _ \<Rightarrow> None)"

record access_payload =
  acp_SubscriptionID :: uuid
  acp_CredentialID :: uuid
  acp_AccessStatus :: string
  acp_ProvisioningStatus :: string
  acp_TokenStatus :: string

definition IsCurrentReady :: "access_payload http_answer \<Rightarrow> uuid \<Rightarrow> uuid \<Rightarrow> bool option" where
  "IsCurrentReady answer subscriptionID credentialID =
     (case answer of
        Answer status body \<Rightarrow>
          if status = 404 then Some False
          else if status \<noteq> 200 then None
          else (case body of
              None \<Rightarrow> None
            | Some p \<Rightarrow>
                if acp_SubscriptionID p \<noteq> subscriptionID \<or> acp_CredentialID p = [] \<or> acp_AccessStatus p = [] \<or> acp_ProvisioningStatus p = []
                  \<or> acp_TokenStatus p = [] then None
                else Some (acp_CredentialID p = credentialID \<and> (acp_AccessStatus p = ''ready'' \<or> acp_AccessStatus p = ''active'')
                  \<and> (acp_ProvisioningStatus p = ''active'' \<or> acp_ProvisioningStatus p = ''degraded'')))
      | _ \<Rightarrow> None)"

record delivery_payload =
  dlp_Status :: string
  dlp_ReasonCode :: string
  dlp_RetryAfterSeconds :: int

definition boundedCode :: "string \<Rightarrow> string \<Rightarrow> string" where
  "boundedCode value fallback = (if length value < 3 \<or> 64 < length value \<or> \<not> list_all reason_char value then fallback else value)"

definition invalidResponse :: DeliveryError where
  "invalidResponse = \<lparr>de_Code = ''telegram_invalid_response'', de_Retryable = True, de_RetryAfter = 0\<rparr>"

text \<open>\<open>Inr\<close>: delivered, and whether as a replay. An error that is not a \<open>DeliveryError\<close> is \<open>Inl None\<close>.\<close>

definition Deliver :: "delivery_payload http_answer \<Rightarrow> DeliveryError option + bool" where
  "Deliver answer =
     (case answer of
        NoRequest \<Rightarrow> Inl None
      | NoAnswer \<Rightarrow> Inl (Some \<lparr>de_Code = ''telegram_network'', de_Retryable = True, de_RetryAfter = 0\<rparr>)
      | Answer _ None \<Rightarrow> Inl (Some invalidResponse)
      | Answer status (Some r) \<Rightarrow>
          if dlp_RetryAfterSeconds r < 0 \<or> 900 < dlp_RetryAfterSeconds r then Inl (Some invalidResponse)
          else if dlp_Status r = ''delivered'' then (if status \<noteq> 200 then Inl (Some invalidResponse) else Inr False)
          else if dlp_Status r = ''replay'' then (if status \<noteq> 200 then Inl (Some invalidResponse) else Inr True)
          else if dlp_Status r = ''retryable'' then
            (if status \<noteq> 409 \<and> status \<noteq> 503 then Inl (Some invalidResponse)
             else Inl (Some \<lparr>de_Code = boundedCode (dlp_ReasonCode r) ''telegram_retryable'', de_Retryable = True,
               de_RetryAfter = dlp_RetryAfterSeconds r * Second\<rparr>))
          else if dlp_Status r = ''permanent'' then
            (if status \<noteq> 409 \<and> status \<noteq> 422 then Inl (Some invalidResponse)
             else Inl (Some \<lparr>de_Code = boundedCode (dlp_ReasonCode r) ''telegram_permanent'', de_Retryable = False, de_RetryAfter = 0\<rparr>))
          else Inl (Some invalidResponse))"

section \<open>The delivery worker\<close>

definition isSubscriptionStateSensitive :: "string \<Rightarrow> bool" where
  "isSubscriptionStateSensitive t \<longleftrightarrow> t \<in> set [''subscription_extended'', ''subscription_grace'', ''subscription_expired'', ''subscription_revoked'',
     ''access_ready'', ''access_degraded'', ''provisioning_failed'']"

definition subscriptionNotificationCurrent :: "nt_codec \<Rightarrow> NtJob \<Rightarrow> SubscriptionState \<Rightarrow> bool" where
  "subscriptionNotificationCurrent cd job state =
     (let t = jb_NotificationType job; s = sst_Status state in
      if t = ''subscription_extended'' then
        (case ndc_parse cd (variable_text (jb_Variables job) ''period_end'') of
           None \<Rightarrow> False | Some expected \<Rightarrow> s = ''active'' \<and> sst_CurrentPeriodEnd state = Some expected)
      else if t = ''subscription_grace'' then
        (case ndc_parse cd (variable_text (jb_Variables job) ''grace_ends_at'') of
           None \<Rightarrow> False | Some expected \<Rightarrow> s = ''grace'' \<and> sst_GraceEndsAt state = Some expected)
      else if t = ''subscription_expired'' then s = ''expired''
      else if t = ''subscription_revoked'' then s = ''revoked''
      else if t = ''access_ready'' \<or> t = ''access_degraded'' \<or> t = ''provisioning_failed'' then s = ''active'' \<or> s = ''grace''
      else True)"

text \<open>The store call a round ends with.\<close>

datatype nt_finish = FinComplete | FinRetry nanos | FinFail string | FinSuppress string

definition retryOrFail :: "nt_config \<Rightarrow> NtJob \<Rightarrow> DeliveryError option \<Rightarrow> nt_finish" where
  "retryOrFail cfg job err =
     (let e = (case err of None \<Rightarrow> \<lparr>de_Code = ''unknown_delivery_error'', de_Retryable = True, de_RetryAfter = 0\<rparr> | Some e \<Rightarrow> e) in
      if \<not> de_Retryable e \<or> jb_MaxAttempts job \<le> jb_Attempts job then FinFail (de_Code e)
      else let delay = (if de_RetryAfter e \<le> 0 then notif_retryBackoff (ncf_sha256 cfg) (ncf_retryBase cfg) (jb_Attempts job) (jb_NotificationID job)
                        else de_RetryAfter e)
           in FinRetry (if delay > 15 * Minute then 15 * Minute else delay))"

definition unavailable :: "string \<Rightarrow> DeliveryError option" where
  "unavailable code = Some \<lparr>de_Code = code, de_Retryable = True, de_RetryAfter = 0\<rparr>"

record nt_message =
  ms_delivery_id :: uuid
  ms_chat_id :: int
  ms_type :: string
  ms_version :: int
  ms_text :: string

record nt_round_env =
  nre_claim_id :: "uuid option"
  nre_locked :: "uuid list"
  nre_now :: instant
  nre_claim_fault :: fault
  nre_target :: "target_payload http_answer"
  nre_state :: "state_payload http_answer"
  nre_access :: "access_payload http_answer"
  nre_delivery :: "delivery_payload http_answer"
  nre_meanwhile :: "nt_store \<Rightarrow> nt_store"
  nre_seen :: "nt_job_row list"
  nre_later :: instant
  nre_finish_fault :: fault

text \<open>\<open>workOnce\<close> from the claimed job to its last call: the message posted, if any, and the call.\<close>

definition stale_subscription :: "nt_codec \<Rightarrow> nt_round_env \<Rightarrow> NtJob \<Rightarrow> nt_config \<Rightarrow> nt_finish option" where
  "stale_subscription cd env job cfg =
     (case (isSubscriptionStateSensitive (jb_NotificationType job), jb_SubscriptionID job) of
        (True, Some sid) \<Rightarrow>
          (case GetState (nre_state env) (jb_UserID job) sid of
             None \<Rightarrow> Some (retryOrFail cfg job (unavailable ''subscription_state_unavailable''))
           | Some state \<Rightarrow> if subscriptionNotificationCurrent cd job state then None else Some (FinSuppress ''stale_subscription_state''))
      | _ \<Rightarrow> None)"

definition stale_access :: "nt_round_env \<Rightarrow> NtJob \<Rightarrow> nt_config \<Rightarrow> nt_finish option" where
  "stale_access env job cfg =
     (case (jb_NotificationType job = ''access_ready'' \<or> jb_NotificationType job = ''access_degraded'', jb_SubscriptionID job, jb_CredentialID job) of
        (True, Some sid, Some cid) \<Rightarrow>
          (case IsCurrentReady (nre_access env) sid cid of
             None \<Rightarrow> Some (retryOrFail cfg job (unavailable ''access_state_unavailable''))
           | Some current \<Rightarrow> if current then None else Some (FinSuppress ''stale_access_state''))
      | _ \<Rightarrow> None)"

definition deliver_job :: "nt_config \<Rightarrow> nt_codec \<Rightarrow> nt_round_env \<Rightarrow> NtJob \<Rightarrow> nt_message list \<times> nt_finish" where
  "deliver_job cfg cd env job =
     (case GetNotificationTarget (nre_target env) of
        None \<Rightarrow> ([], retryOrFail cfg job (unavailable ''identity_unavailable''))
      | Some target \<Rightarrow>
          if \<not> tt_Eligible target then ([], FinSuppress (if tt_ReasonCode target = [] then ''target_unavailable'' else tt_ReasonCode target))
          else (case stale_subscription cd env job cfg of
              Some f \<Rightarrow> ([], f)
            | None \<Rightarrow>
                (case stale_access env job cfg of
                   Some f \<Rightarrow> ([], f)
                 | None \<Rightarrow>
                     (case nt_Render (jb_NotificationType job) (jb_TemplateVersion job) (jb_Variables job) of
                        None \<Rightarrow> ([], FinFail ''invalid_template'')
                      | Some text \<Rightarrow>
                          (if nre_delivery env = NoRequest then []
                           else [\<lparr>ms_delivery_id = jb_NotificationID job, ms_chat_id = tt_TelegramChatID target, ms_type = jb_NotificationType job,
                                  ms_version = jb_TemplateVersion job, ms_text = text\<rparr>],
                           case Deliver (nre_delivery env) of Inl err \<Rightarrow> retryOrFail cfg job err | Inr _ \<Rightarrow> FinComplete)))))"

definition finish_job :: "nt_job_row list \<Rightarrow> instant \<Rightarrow> NtJob \<Rightarrow> nt_finish \<Rightarrow> unit nt_tx" where
  "finish_job seen now job f =
     (case f of
        FinComplete \<Rightarrow> CompleteJob seen now (jb_NotificationID job) (jb_ClaimID job)
      | FinRetry delay \<Rightarrow> RetryJob seen now (jb_NotificationID job) (jb_ClaimID job) delay
      | FinFail reason \<Rightarrow> FailJob seen now (jb_NotificationID job) (jb_ClaimID job) reason
      | FinSuppress reason \<Rightarrow> SuppressJob seen now (jb_NotificationID job) (jb_ClaimID job) reason)"

text \<open>
  One round. Other processes work on the store between the claim and the last call
  (\<open>nre_meanwhile\<close>).
\<close>

definition nt_workOnce :: "nt_config \<Rightarrow> nt_codec \<Rightarrow> nt_round_env \<Rightarrow> nt_store \<Rightarrow> nt_error option \<times> nt_message list \<times> nt_store" where
  "nt_workOnce cfg cd env st =
     (case nre_claim_id env of
        None \<Rightarrow> (Some NtInfra, [], st)
      | Some claimID \<Rightarrow>
          (case run_tx NtInfra (nre_claim_fault env) (ClaimJob (ncf_collate cfg) (nre_locked env) (nre_now env) claimID (ncf_lease cfg)) st of
             (Inl err, st1) \<Rightarrow> (Some err, [], st1)
           | (Inr None, st1) \<Rightarrow> (None, [], st1)
           | (Inr (Some job), st1) \<Rightarrow>
               (case deliver_job cfg cd env job of (sent, f) \<Rightarrow>
                  (case run_tx NtInfra (nre_finish_fault env) (finish_job (nre_seen env) (nre_later env) job f) (nre_meanwhile env st1) of
                     (Inl err, st2) \<Rightarrow> (Some err, sent, st2)
                   | (Inr _, st2) \<Rightarrow> (None, sent, st2)))))"

end
