(* ===== verification/Notification_Consumer.thy ===== *)
theory Notification_Consumer
  imports Notification_Service Kafka_Consumer
begin

text \<open>
  The notification service's Kafka consumer, \<open>internal/kafka/consumer.go\<close>: the rules for envelopes,
  what is done with one record, and its polls. It defers records as the other consumers do, but
  tries each deferred record once after a committed record instead of as long as one succeeds.
  \<open>ncn_env\<close> has what the outside answers during one attempt at a record.
\<close>

section \<open>Envelopes\<close>

record nt_rule =
  nru_producer :: string
  nru_aggregateType :: string
  nru_sequenced :: bool

definition nt_rule_of :: "string \<Rightarrow> string \<Rightarrow> bool \<Rightarrow> nt_rule" where
  "nt_rule_of producer aggregateType sequenced = \<lparr>nru_producer = producer, nru_aggregateType = aggregateType, nru_sequenced = sequenced\<rparr>"

definition nt_rules :: "(string \<times> nt_rule) list" where
  "nt_rules =
     [(''billing.payment.succeeded.v1'', nt_rule_of ''billing-service'' ''payment'' False),
      (''billing.refund.succeeded.v1'', nt_rule_of ''billing-service'' ''refund'' False),
      (''subscription.activated.v1'', nt_rule_of ''subscription-service'' ''subscription'' True),
      (''subscription.extended.v1'', nt_rule_of ''subscription-service'' ''subscription'' True),
      (''subscription.grace.started.v1'', nt_rule_of ''subscription-service'' ''subscription'' True),
      (''subscription.expired.v1'', nt_rule_of ''subscription-service'' ''subscription'' True),
      (''subscription.revoked.v1'', nt_rule_of ''subscription-service'' ''subscription'' True),
      (''access.ready.v1'', nt_rule_of ''access-service'' ''access'' True),
      (''access.provisioning.failed.v1'', nt_rule_of ''access-service'' ''access'' True),
      (''access.revoked.v1'', nt_rule_of ''access-service'' ''access'' True)]"

definition nt_uuid :: "string \<Rightarrow> bool" where
  "nt_uuid = match_runs [(is_hex, 8), ((=) CHR ''-'', 1), (is_hex, 4), ((=) CHR ''-'', 1), (is_hex, 4), ((=) CHR ''-'', 1),
     (\<lambda>c. c \<in> set ''89abAB'', 1), (is_hex, 3), ((=) CHR ''-'', 1), (is_hex, 12)]"

text \<open>The code of the error, or \<open>None\<close> for a valid envelope.\<close>

definition nt_validateEnvelope :: "kafka_record \<Rightarrow> Envelope \<Rightarrow> string option" where
  "nt_validateEnvelope record envelope =
     (case map_of nt_rules (rec_topic record) of
        None \<Rightarrow> Some ''invalid_envelope_routing''
      | Some rule \<Rightarrow>
          if envl_EventType envelope \<noteq> rec_topic record \<or> envl_SchemaVersion envelope \<noteq> 1 \<or> envl_Producer envelope \<noteq> nru_producer rule
            \<or> envl_AggregateType envelope \<noteq> nru_aggregateType rule
          then Some ''invalid_envelope_routing''
          else if \<not> nt_uuid (envl_EventID envelope) \<or> \<not> nt_uuid (envl_AggregateID envelope) \<or> \<not> nt_uuid (envl_CorrelationID envelope)
            \<or> envl_OccurredAt envelope = 0
          then Some ''invalid_envelope_identifiers''
          else if (case envl_CausationID envelope of None \<Rightarrow> False | Some c \<Rightarrow> \<not> nt_uuid c) then Some ''invalid_envelope_causation''
          else if \<not> has_prefix (envl_PartitionKey envelope) ''user:'' \<or> \<not> nt_uuid (drop 5 (envl_PartitionKey envelope))
            \<or> rec_key record \<noteq> envl_PartitionKey envelope
          then Some ''invalid_envelope_partition_key''
          else if nru_sequenced rule \<and> envl_AggregateSequence envelope < 1 \<or> \<not> nru_sequenced rule \<and> envl_AggregateSequence envelope \<noteq> 0
          then Some ''invalid_envelope_sequence''
          else if envl_Data envelope = [] \<or> envl_Data envelope = ''null'' then Some ''invalid_envelope_data''
          else None)"

definition nt_meta :: "nt_codec \<Rightarrow> kafka_record \<Rightarrow> Envelope \<Rightarrow> NtMeta" where
  "nt_meta cd record envelope =
     \<lparr>nm_EventID = envl_EventID envelope, nm_EventType = envl_EventType envelope, nm_Producer = envl_Producer envelope,
      nm_AggregateType = envl_AggregateType envelope, nm_AggregateID = envl_AggregateID envelope,
      nm_AggregateSequence = envl_AggregateSequence envelope, nm_PartitionKey = envl_PartitionKey envelope,
      nm_CorrelationID = envl_CorrelationID envelope, nm_CausationID = envl_CausationID envelope, nm_OccurredAt = envl_OccurredAt envelope,
      nm_SourceTopic = rec_topic record, nm_SourcePartition = rec_partition record, nm_SourceOffset = rec_offset record,
      nm_PayloadSHA256 = ndc_sha256 cd (rec_value record)\<rparr>"

record ncn_env =
  nne_event :: nt_event_env
  nne_dead_now :: instant
  nne_dead_fault :: fault
  nne_commit_ok :: bool
  nne_cancelled :: bool
  nne_alive :: bool

definition nt_process :: "nt_config \<Rightarrow> nt_codec \<Rightarrow> ncn_env \<Rightarrow> kafka_record \<Rightarrow> nt_store \<Rightarrow> nt_error option \<times> nt_store" where
  "nt_process cfg cd env record st =
     (case ndc_envelope cd (rec_value record) of
        None \<Rightarrow> (Some (NtContractError ''invalid_envelope_json''), st)
      | Some envelope \<Rightarrow>
          (case nt_validateEnvelope record envelope of
             Some code \<Rightarrow> (Some (NtContractError code), st)
           | None \<Rightarrow> nt_ProcessEvent cfg cd (nne_event env) (nt_meta cd record envelope) (envl_Data envelope) st))"

definition deadLetter :: "nt_codec \<Rightarrow> ncn_env \<Rightarrow> kafka_record \<Rightarrow> string \<Rightarrow> nt_store \<Rightarrow> (nt_error + unit) \<times> nt_store" where
  "deadLetter cd env record reason =
     (let eventType = (case ndc_event_type cd (rec_value record) of
            Some t \<Rightarrow> if map_of nt_rules t \<noteq> None then t else [] | None \<Rightarrow> [])
      in run_tx NtInfra (nne_dead_fault env) (nt_RecordDeadLetter (nne_dead_now env) (rec_topic record) (rec_partition record) (rec_offset record)
           (ndc_sha256 cd (rec_value record)) eventType reason))"

section \<open>Attempts and polls\<close>

definition nt_attempt :: "nt_config \<Rightarrow> nt_codec \<Rightarrow> ncn_env \<Rightarrow> kafka_record \<Rightarrow> nt_store \<Rightarrow> attempt_result \<times> nt_store" where
  "nt_attempt cfg cd env record st =
     (case nt_process cfg cd env record st of (err, st1) \<Rightarrow>
        let commit = (\<lambda>t. (if nne_commit_ok env then AtCommitted else AtRetry, t)) in
        (case err of
           None \<Rightarrow> commit st1
         | Some x \<Rightarrow>
             if x = NtErrSequenceGap then (AtGap, st1)
             else (case nt_ContractErrorCode x of
                 None \<Rightarrow> (AtRetry, st1)
               | Some code \<Rightarrow>
                   (case deadLetter cd env record code st1 of
                      (Inl _, st2) \<Rightarrow> (AtRetry, st2)
                    | (Inr _, st2) \<Rightarrow> commit st2))))"

definition nt_attempts :: "nt_config \<Rightarrow> nt_codec \<Rightarrow> (nat \<Rightarrow> ncn_env) \<Rightarrow> nt_store attempts" where
  "nt_attempts cfg cd envs k = nt_attempt cfg cd (envs k)"

text \<open>One pass over the deferred records, in any order; a poll that returned nothing makes one too.\<close>

definition retry_once :: "'st attempts \<Rightarrow> (nat \<Rightarrow> kafka_record list \<Rightarrow> kafka_record list) \<Rightarrow> nat \<Rightarrow> 'st consumer \<Rightarrow> nat \<times> 'st consumer" where
  "retry_once att order k c = (case retry_pass att (\<lambda>_. False) k (visited order k (cn_deferred c)) c of (k1, _, _, c1) \<Rightarrow> (k1, c1))"

fun poll_each :: "'st attempts \<Rightarrow> (nat \<Rightarrow> bool) \<Rightarrow> (nat \<Rightarrow> bool) \<Rightarrow> (nat \<Rightarrow> kafka_record list \<Rightarrow> kafka_record list) \<Rightarrow>
    nat \<Rightarrow> kafka_record list \<Rightarrow> 'st consumer \<Rightarrow> bool \<times> 'st consumer" where
  "poll_each att cancelled alive order k [] c = (alive k, c)"
| "poll_each att cancelled alive order k (r # rs) c =
     (if cancelled k then (False, rewind_to (r # rs) c)
      else case att k r (cn_store c) of
          (AtGap, st1) \<Rightarrow> poll_each att cancelled alive order (k + 1) rs (deferGap r (c\<lparr>cn_store := st1\<rparr>))
        | (AtRetry, st1) \<Rightarrow> (alive k, rewind_to (r # rs) (c\<lparr>cn_store := st1\<rparr>))
        | (AtCommitted, st1) \<Rightarrow>
            (case retry_once att order (k + 1) (c\<lparr>cn_store := st1, cn_committed := cn_committed c @ [r]\<rparr>) of
               (k1, c1) \<Rightarrow> poll_each att cancelled alive order k1 rs c1))"

definition nt_pollOnce :: "nt_config \<Rightarrow> nt_codec \<Rightarrow> (nat \<Rightarrow> ncn_env) \<Rightarrow> (nat \<Rightarrow> kafka_record list \<Rightarrow> kafka_record list) \<Rightarrow> kafka_record list \<Rightarrow>
    nt_store consumer \<Rightarrow> bool \<times> nt_store consumer" where
  "nt_pollOnce cfg cd envs order records c =
     (let att = nt_attempts cfg cd envs; alive = (\<lambda>k. nne_alive (envs k)) in
      if records = [] then (case retry_once att order 0 c of (k1, c1) \<Rightarrow> (alive k1, c1))
      else poll_each att (\<lambda>k. nne_cancelled (envs k)) alive order 0 records c)"

section \<open>What the attempts guarantee\<close>

definition nt_settled :: "nt_config \<Rightarrow> nt_codec \<Rightarrow> kafka_record \<Rightarrow> bool" where
  "nt_settled cfg cd r \<longleftrightarrow>
     (\<exists>env st. case fst (nt_process cfg cd env r st) of None \<Rightarrow> True | Some x \<Rightarrow> x \<noteq> NtErrSequenceGap \<and> nt_ContractErrorCode x \<noteq> None)"

lemma nt_attempt_settled:
  assumes "nt_attempt cfg cd env r st = (AtCommitted, t)"
  shows "nt_settled cfg cd r"
proof -
  obtain err st1 where p: "nt_process cfg cd env r st = (err, st1)" by fastforce
  with assms have "case err of None \<Rightarrow> True | Some x \<Rightarrow> x \<noteq> NtErrSequenceGap \<and> nt_ContractErrorCode x \<noteq> None"
    by (auto simp: nt_attempt_def Let_def split: option.splits if_splits prod.splits sum.splits)
  with p show ?thesis unfolding nt_settled_def by (intro exI [of _ env] exI [of _ st]) simp
qed

interpretation nt_records: deferring_consumer "nt_attempts cfg cd envs" "nt_settled cfg cd" for cfg cd envs
  by unfold_locales (simp add: nt_attempts_def nt_attempt_settled)

text \<open>The event of a valid envelope fits the rule of its type.\<close>

definition routed :: "NtMeta \<Rightarrow> bool" where
  "routed meta \<longleftrightarrow> (case map_of nt_rules (nm_EventType meta) of
     None \<Rightarrow> False
   | Some rule \<Rightarrow> nm_Producer meta = nru_producer rule \<and> nm_AggregateType meta = nru_aggregateType rule
       \<and> (if nru_sequenced rule then 1 \<le> nm_AggregateSequence meta else nm_AggregateSequence meta = 0))"

lemma validateEnvelope_routed: "nt_validateEnvelope r envelope = None \<Longrightarrow> routed (nt_meta cd r envelope)"
  by (auto simp: nt_validateEnvelope_def routed_def nt_meta_def split: option.splits if_splits)

end
