(* ===== verification/Notification_Lifecycle.thy ===== *)
theory Notification_Lifecycle
  imports Notification_Consumer
begin

text \<open>
  The notification service as a transition system over its store, and its invariants.

  A step is one transaction of the service: an event with a valid envelope is recorded, a dead letter
  written, a job claimed, a claim finished, a retry requested; each under any driver fault. With
  \<open>serial\<close>, the two queries that take no stream lock see the present jobs; without, they may see
  any, which covers an answer that an event recorded at the same time has made out of date.

  \<open>gapless\<close>: the sequence numbers accepted from each producer's aggregate are 1, 2, \<dots> in order of arrival.
  \<open>fifo\<close>: a job that was ever claimed has only closed predecessors in its delivery stream, and a
  superseded job waits for no attempt. The first holds in any case, the second when serial.
\<close>

section \<open>Steps\<close>

inductive nt_step :: "bool \<Rightarrow> nt_store \<Rightarrow> nt_store \<Rightarrow> bool" for serial where
  ns_event: "routed meta \<Longrightarrow> nt_intent cfg cd nid meta data = Inr i \<Longrightarrow>
    nt_step serial st (snd (run_tx NtInfra fl (RecordEvent ok now meta i) st))"
| ns_dead_letter: "nt_step serial st (snd (run_tx NtInfra fl (nt_RecordDeadLetter now topic part off sha typ reason) st))"
| ns_claim: "nt_step serial st (snd (run_tx NtInfra fl (ClaimJob collate locked now cid lease) st))"
| ns_finish: "(serial \<Longrightarrow> seen = nt_jobs st) \<Longrightarrow> nt_step serial st (snd (run_tx NtInfra fl (finish_job seen now job f) st))"
| ns_retry: "(serial \<Longrightarrow> seen = nt_jobs st) \<Longrightarrow> nt_step serial st (snd (run_tx NtInfra fl (RequestRetry seen now nid key sha) st))"

inductive nt_reachable :: "bool \<Rightarrow> nt_store \<Rightarrow> bool" for serial where
  nr_empty: "nt_reachable serial empty_nt_store"
| nr_step: "nt_reachable serial st \<Longrightarrow> nt_step serial st t \<Longrightarrow> nt_reachable serial t"

section \<open>What the operations write\<close>

lemma tx_bind_get: "tx_bind (tx_get g) f st = f (g st) st"
  by (simp add: tx_defs)

lemma update_jobs_Inr [tx_results]:
  "update_jobs p f st = (Inr u, t) \<longleftrightarrow>
     (\<forall>j \<in> set (nt_jobs st). p j \<longrightarrow> job_check (f j)) \<and> t = st\<lparr>nt_jobs := tbl_update p f (nt_jobs st)\<rparr>"
  by (auto simp: update_jobs_def tx_bind_Inr tx_results list_ex_iff split: if_splits)

lemma insert_job_Inr:
  assumes "insert_job ok j st = (Inr b, t)"
  shows "t = st \<and> \<not> b \<and> nj_business_dedupe_key j \<in> nj_business_dedupe_key ` set (nt_jobs st)
    \<or> t = st\<lparr>nt_jobs := nt_jobs st @ [j]\<rparr> \<and> b \<and> job_check j \<and> nj_id j \<notin> nj_id ` set (nt_jobs st)
      \<and> nj_business_dedupe_key j \<notin> nj_business_dedupe_key ` set (nt_jobs st)"
  using assms by (auto simp: insert_job_def tx_bind_Inr tx_results list_ex_iff image_iff split: if_splits) metis

lemma nt_insertInbox_Inr:
  assumes "nt_insertInbox ok meta i st = (Inr u, t)"
  shows "t = st\<lparr>nt_inbox := nt_inbox st @ [nt_new_inbox meta i]\<rparr> \<and> list_all (\<lambda>q. \<not> nt_inbox_clash (nt_new_inbox meta i) q) (nt_inbox st)"
  using assms by (auto simp: nt_insertInbox_def tx_bind_Inr tx_results Let_def list_ex_iff list_all_iff split: if_splits)

definition cursor_of :: "nt_store \<Rightarrow> string \<Rightarrow> int" where
  "cursor_of st key = (case find (\<lambda>c. nc_stream_key c = key) (nt_cursors st) of None \<Rightarrow> 0 | Some c \<Rightarrow> nc_last_sequence c)"

lemma advance_cursor_Inr:
  assumes "advance_cursor ok now meta st = (Inr u, t)"
  shows "nt_jobs t = nt_jobs st \<and> nt_inbox t = nt_inbox st \<and> nt_requests t = nt_requests st \<and> nt_dead t = nt_dead st
    \<and> nm_AggregateSequence meta = int64 (cursor_of st (meta_stream meta) + 1)
    \<and> cursor_of t = (cursor_of st)(meta_stream meta := nm_AggregateSequence meta)"
proof (cases "find (\<lambda>c. nc_stream_key c = meta_stream meta) (nt_cursors st)")
  case None
  with assms show ?thesis
    by (auto simp: advance_cursor_def tx_bind_Inr tx_results Let_def cursor_of_def find_append new_cursor_def int64_id fun_eq_iff
        split: if_splits option.splits)
next
  case (Some c)
  let ?f = "\<lambda>c :: nt_cursor. c\<lparr>nc_last_sequence := nm_AggregateSequence meta, nc_last_event_id := nm_EventID meta,
    nc_last_payload_sha256 := nm_PayloadSHA256 meta, nc_updated_at := now\<rparr>"
  from Some assms have t: "t = st\<lparr>nt_cursors := tbl_update (\<lambda>c. nc_stream_key c = meta_stream meta) ?f (nt_cursors st)\<rparr>"
    and n: "nm_AggregateSequence meta = int64 (nc_last_sequence c + 1)"
    by (auto simp: advance_cursor_def tx_bind_Inr tx_results split: if_splits)
  have "find (\<lambda>c. nc_stream_key c = key) (nt_cursors t)
    = map_option (\<lambda>c. if nc_stream_key c = meta_stream meta then ?f c else c) (find (\<lambda>c. nc_stream_key c = key) (nt_cursors st))" for key
    unfolding t by (simp add: find_tbl_update_same)
  then have "cursor_of t key = ((cursor_of st)(meta_stream meta := nm_AggregateSequence meta)) key" for key
    using Some by (auto simp: cursor_of_def split: option.splits dest: find_SomeD)
  with t n Some show ?thesis by (auto simp: cursor_of_def fun_eq_iff)
qed

text \<open>The store after an event.\<close>

abbreviation waiting :: "nt_job_row \<Rightarrow> bool" where
  "waiting j \<equiv> nj_status j = NtPending \<or> nj_status j = NtRetry"

definition superseded_jobs :: "instant \<Rightarrow> Intent \<Rightarrow> nt_job_row list \<Rightarrow> nt_job_row list" where
  "superseded_jobs now i jobs =
     (if in_SupersedesOlder i
      then tbl_update (\<lambda>j. nj_stream_key j = in_DeliveryStreamKey i \<and> nj_sequence j < in_DeliverySequence i \<and> waiting j) (suppress_superseded now) jobs
      else jobs)"

lemma RecordEvent_Inr:
  assumes "RecordEvent ok now meta i st = (Inr b, t)"
  obtains (replay) "t = st" "\<not> b" "\<exists>r \<in> set (nt_inbox st). ni_event_id r = nm_EventID meta \<and> ni_payload_sha256 r = nm_PayloadSHA256 meta"
  | (new) jobs where "nt_jobs t = superseded_jobs now i jobs" "nt_inbox t = nt_inbox st @ [nt_new_inbox meta i]"
      "list_all (\<lambda>q. \<not> nt_inbox_clash (nt_new_inbox meta i) q) (nt_inbox st)"
      "cursor_of t = (if nm_AggregateSequence meta > 0 then (cursor_of st)(meta_stream meta := nm_AggregateSequence meta) else cursor_of st)"
      "nm_AggregateSequence meta > 0 \<Longrightarrow> nm_AggregateSequence meta = int64 (cursor_of st (meta_stream meta) + 1)"
      "jobs = nt_jobs st \<and> \<not> b \<and> in_BusinessDedupeKey i \<in> nj_business_dedupe_key ` set (nt_jobs st)
       \<or> jobs = nt_jobs st @ [event_job now meta i (nt_jobs st)] \<and> b \<and> job_check (event_job now meta i (nt_jobs st))
         \<and> in_NotificationID i \<notin> nj_id ` set (nt_jobs st) \<and> in_BusinessDedupeKey i \<notin> nj_business_dedupe_key ` set (nt_jobs st)"
      "\<forall>j \<in> set (nt_jobs t). j \<in> set jobs \<or> job_check j" "nt_requests t = nt_requests st" "nt_dead t = nt_dead st"
proof (cases "find (\<lambda>r. ni_event_id r = nm_EventID meta) (nt_inbox st)")
  case (Some r)
  with assms have "t = st" "\<not> b" "ni_payload_sha256 r = nm_PayloadSHA256 meta"
    by (auto simp: RecordEvent_def tx_bind_Inr tx_results split: if_splits)
  with Some show ?thesis by (intro replay) (auto dest: find_SomeD)
next
  case None
  let ?J = "event_job now meta i"
  let ?sup = "if in_SupersedesOlder i then suppress_predecessors now i else tx_return ()"
  have "\<exists>s1 s2 s3 s4 u1 u2 u4. (if nm_AggregateSequence meta > 0 then advance_cursor ok now meta else tx_return ()) st = (Inr u1, s1)
      \<and> nt_insertInbox ok meta i s1 = (Inr u2, s2) \<and> insert_job ok (?J (nt_jobs s2)) s2 = (Inr b, s3) \<and> ?sup s3 = (Inr u4, s4) \<and> t = s4"
  proof -
    let ?A = "if nm_AggregateSequence meta > 0 then advance_cursor ok now meta else tx_return ()"
    have "tx_bind ?A (\<lambda>_. tx_bind (nt_insertInbox ok meta i) (\<lambda>_. tx_bind (tx_get nt_jobs) (\<lambda>jobs. tx_bind (insert_job ok (?J jobs)) (\<lambda>inserted.
        tx_bind ?sup (\<lambda>_. tx_return inserted))))) st = (Inr b, t)"
      using assms None by (cases "ok (nm_EventID meta)")
        (simp_all only: RecordEvent_def tx_bind_get option.case if_True if_False not_True_eq_False not_False_eq_True tx_fail_Inr)
    then show ?thesis unfolding tx_bind_Inr tx_get_Inr tx_return_Inr by blast
  qed
  then obtain s1 s2 s3 s4 u1 u2 u4 where
    s1: "(if nm_AggregateSequence meta > 0 then advance_cursor ok now meta else tx_return ()) st = (Inr u1, s1)"
    and s2: "nt_insertInbox ok meta i s1 = (Inr u2, s2)" and s3: "insert_job ok (?J (nt_jobs s2)) s2 = (Inr b, s3)"
    and s4: "?sup s3 = (Inr u4, s4)" and t: "t = s4" by blast
  have cur: "cursor_of s1 = (if nm_AggregateSequence meta > 0 then (cursor_of st)(meta_stream meta := nm_AggregateSequence meta) else cursor_of st)"
    "nt_jobs s1 = nt_jobs st" "nt_inbox s1 = nt_inbox st" "nt_requests s1 = nt_requests st" "nt_dead s1 = nt_dead st"
    "nm_AggregateSequence meta > 0 \<Longrightarrow> nm_AggregateSequence meta = int64 (cursor_of st (meta_stream meta) + 1)"
    using s1 by (auto simp: tx_results split: if_splits dest: advance_cursor_Inr)
  from nt_insertInbox_Inr [OF s2] have S2: "s2 = s1\<lparr>nt_inbox := nt_inbox st @ [nt_new_inbox meta i]\<rparr>"
    and clash: "list_all (\<lambda>q. \<not> nt_inbox_clash (nt_new_inbox meta i) q) (nt_inbox st)" using cur by auto
  have ids: "nj_business_dedupe_key (?J js) = in_BusinessDedupeKey i" "nj_id (?J js) = in_NotificationID i" for js
    by (simp_all add: event_job_def new_job_row_def)
  from insert_job_Inr [OF s3] ids S2 cur have S3: "s3 = s2\<lparr>nt_jobs := nt_jobs s3\<rparr>"
    "nt_jobs s3 = nt_jobs st \<and> \<not> b \<and> in_BusinessDedupeKey i \<in> nj_business_dedupe_key ` set (nt_jobs st)
     \<or> nt_jobs s3 = nt_jobs st @ [?J (nt_jobs st)] \<and> b \<and> job_check (?J (nt_jobs st))
       \<and> in_NotificationID i \<notin> nj_id ` set (nt_jobs st) \<and> in_BusinessDedupeKey i \<notin> nj_business_dedupe_key ` set (nt_jobs st)"
    by auto
  from s4 have S4: "s4 = s3\<lparr>nt_jobs := superseded_jobs now i (nt_jobs s3)\<rparr>" "\<forall>j \<in> set (nt_jobs s4). j \<in> set (nt_jobs s3) \<or> job_check j"
    by (auto simp: superseded_jobs_def suppress_predecessors_def tx_results set_tbl_update split: if_splits)
  have c: "cursor_of s4 = cursor_of s1" unfolding S4(1) by (subst S3(1), subst S2) (simp add: cursor_of_def fun_eq_iff)
  have rest: "nt_inbox s4 = nt_inbox st @ [nt_new_inbox meta i]" "nt_requests s4 = nt_requests st" "nt_dead s4 = nt_dead st"
    unfolding S4(1) by (subst S3(1), subst S2, simp add: cur)+
  show ?thesis
    by (rule new [of "nt_jobs s3"]) (use t c rest cur clash S3(2) S4 in \<open>simp_all\<close>)
qed

lemma ClaimJob_Inr:
  assumes "ClaimJob collate locked now cid lease st = (Inr r, t)"
  obtains (none) "r = None" "t = st"
  | (claimed) j where "j \<in> set (nt_jobs st)" "claimable now (nt_jobs st) j" "nj_id j \<notin> set locked" "r = Some (scanJob (claim_row now lease cid j))"
      "t = st\<lparr>nt_jobs := tbl_update (\<lambda>q. nj_id q = nj_id j) (claim_row now lease cid) (nt_jobs st)\<rparr>"
      "\<forall>q \<in> set (nt_jobs st). nj_id q = nj_id j \<longrightarrow> job_check (claim_row now lease cid q)"
      "\<forall>q \<in> set (nt_jobs st). claimable now (nt_jobs st) q \<and> nj_id q \<notin> set locked \<longrightarrow> nj_next_attempt_at j \<le> nj_next_attempt_at q"
proof -
  let ?key = "\<lambda>j. (nj_next_attempt_at j, collate (nj_stream_key j), nj_sequence j, nj_created_at j)"
  let ?cands = "filter (\<lambda>j. claimable now (nt_jobs st) j \<and> nj_id j \<notin> set locked) (nt_jobs st)"
  show thesis
  proof (cases "first_by ?key ?cands")
    case None
    with assms show ?thesis by (intro none) (simp_all add: ClaimJob_def tx_bind_get tx_results del: first_by_None)
  next
    case (Some j)
    from first_by_Some [OF Some] have "j \<in> set ?cands" and "\<forall>q \<in> set ?cands. ?key j \<le> ?key q" by blast+
    with Some assms show ?thesis by (intro claimed [of j]) (auto simp: ClaimJob_def tx_bind_get tx_bind_Inr tx_results)
  qed
qed

text \<open>A finished claim: the held row, and the status it is given.\<close>

fun finish_status :: "nt_finish \<Rightarrow> nt_status" where
  "finish_status FinComplete = NtDelivered"
| "finish_status (FinRetry _) = NtRetry"
| "finish_status (FinFail _) = NtPermanentlyFailed"
| "finish_status (FinSuppress _) = NtSuppressed"

lemma finishClaim_Inr:
  assumes "finishClaim seen now nid cid status reason delay st = (Inr u, t)"
  obtains j status1 reason1 delay1 where "find (held_by nid cid) (nt_jobs st) = Some j"
    "t = st\<lparr>nt_jobs := tbl_update (held_by nid cid) (finish_row now status1 reason1 delay1) (nt_jobs st)\<rparr>"
    "\<forall>q \<in> set (nt_jobs st). held_by nid cid q \<longrightarrow> job_check (finish_row now status1 reason1 delay1 q)"
    "if (status = NtRetry \<or> status = NtPermanentlyFailed) \<and> superseded_in seen (nj_stream_key j) (nj_sequence j)
     then status1 = NtSuppressed \<and> reason1 = superseded_reason else status1 = status \<and> reason1 = reason \<and> delay1 = delay"
  using assms that by (cases "find (held_by nid cid) (nt_jobs st)") (auto simp: finishClaim_def tx_bind_get tx_results split: if_splits)

lemma finish_job_Inr:
  assumes "finish_job seen now job f st = (Inr u, t)"
  obtains j status1 reason1 delay1 where "find (held_by (jb_NotificationID job) (jb_ClaimID job)) (nt_jobs st) = Some j"
    "t = st\<lparr>nt_jobs := tbl_update (held_by (jb_NotificationID job) (jb_ClaimID job)) (finish_row now status1 reason1 delay1) (nt_jobs st)\<rparr>"
    "\<forall>q \<in> set (nt_jobs st). held_by (jb_NotificationID job) (jb_ClaimID job) q \<longrightarrow> job_check (finish_row now status1 reason1 delay1 q)"
    "if (finish_status f = NtRetry \<or> finish_status f = NtPermanentlyFailed) \<and> superseded_in seen (nj_stream_key j) (nj_sequence j)
     then status1 = NtSuppressed else status1 = finish_status f"
  using assms
  by (cases f) (auto simp: finish_job_def CompleteJob_def RetryJob_def FailJob_def SuppressJob_def split: if_splits elim!: finishClaim_Inr)

lemma RequestRetry_Inr:
  assumes "RequestRetry seen now nid key sha st = (Inr r, t)"
  obtains (replay) "t = st"
  | (reset) j where "find (\<lambda>j. nj_id j = nid) (nt_jobs st) = Some j" "nj_status j = NtPermanentlyFailed \<or> nj_status j = NtRetry"
      "\<not> list_ex (\<lambda>q. nj_stream_key q = nj_stream_key j \<and> nj_sequence q > nj_sequence j) seen"
      "nt_jobs t = tbl_update (\<lambda>q. nj_id q = nid) (reset_row now) (nt_jobs st)" "\<forall>q \<in> set (nt_jobs st). nj_id q = nid \<longrightarrow> job_check (reset_row now q)"
      "nt_inbox t = nt_inbox st" "nt_cursors t = nt_cursors st" "nt_dead t = nt_dead st"
proof (cases "find (\<lambda>r. nr_idempotency_key r = key) (nt_requests st)")
  case (Some r)
  with assms show ?thesis
    by (intro replay) (auto simp: RequestRetry_def getJobQuery_def tx_bind_get tx_bind_Inr tx_results split: if_splits option.splits)
next
  case None
  with assms show ?thesis
    by (cases "find (\<lambda>j. nj_id j = nid) (nt_jobs st)")
      (auto simp: RequestRetry_def getJobQuery_def insert_request_def tx_bind_get tx_bind_Inr tx_results split: if_splits option.splits intro!: reset)
qed

lemma RecordDeadLetter_Inr:
  "nt_RecordDeadLetter now topic part off sha typ reason st = (Inr u, t) \<Longrightarrow>
   nt_jobs t = nt_jobs st \<and> nt_inbox t = nt_inbox st \<and> nt_cursors t = nt_cursors st \<and> nt_requests t = nt_requests st"
  by (auto simp: nt_RecordDeadLetter_def tx_bind_get tx_results Let_def split: if_splits option.splits)

end
