(* ===== verification/Notification_Invariants.thy ===== *)
theory Notification_Invariants
  imports Notification_Lifecycle
begin

text \<open>
  The invariants of the notification store: the events of each aggregate are accepted without gaps,
  every job stems from an accepted event and has its place in its delivery stream (\<open>nt_inv\<close>, in
  every case), and delivery is in stream order (\<open>fifo\<close>, when the queries for other jobs are serial).
\<close>

section \<open>What an operation on a job leaves alone\<close>

definition content :: "nt_job_row \<Rightarrow> nt_job_row" where
  "content j = j\<lparr>nj_status := NtPending, nj_attempts := 0, nj_next_attempt_at := 0, nj_lease_until := None, nj_claim_id := None,
     nj_delivered_at := None, nj_terminal_reason := None, nj_updated_at := 0\<rparr>"

lemma content_fields [simp]:
  "nj_id (content j) = nj_id j" "nj_business_dedupe_key (content j) = nj_business_dedupe_key j" "nj_source_event_id (content j) = nj_source_event_id j"
  "nj_stream_key (content j) = nj_stream_key j" "nj_sequence (content j) = nj_sequence j" "nj_supersedes (content j) = nj_supersedes j"
  by (simp_all add: content_def)

lemma content_row [simp]:
  "content (claim_row now lease cid j) = content j" "content (finish_row now status reason delay j) = content j"
  "content (reset_row now j) = content j" "content (suppress_superseded now j) = content j"
  by (simp_all add: content_def claim_row_def finish_row_def reset_row_def suppress_superseded_def)

lemma content_eqD:
  assumes "content a = content b"
  shows "nj_id a = nj_id b" "nj_business_dedupe_key a = nj_business_dedupe_key b" "nj_source_event_id a = nj_source_event_id b"
    "nj_stream_key a = nj_stream_key b" "nj_sequence a = nj_sequence b" "nj_supersedes a = nj_supersedes b"
  using assms content_fields by metis+

lemma map_content_update: "(\<And>j. content (f j) = content j) \<Longrightarrow> map content (tbl_update p f rows) = map content rows"
  by (rule map_tbl_update) simp

lemma same_by_content:
  assumes "map content xs = map content ys"
  shows "map nj_id xs = map nj_id ys" "map nj_business_dedupe_key xs = map nj_business_dedupe_key ys"
    "j \<in> set xs \<Longrightarrow> \<exists>k \<in> set ys. content k = content j"
proof -
  show "map nj_id xs = map nj_id ys" "map nj_business_dedupe_key xs = map nj_business_dedupe_key ys"
    using arg_cong [OF assms, of "map nj_id"] arg_cong [OF assms, of "map nj_business_dedupe_key"] by (simp_all add: comp_def)
  show "j \<in> set xs \<Longrightarrow> \<exists>k \<in> set ys. content k = content j"
    using arg_cong [OF assms, of set] by (simp add: set_eq_iff image_iff) metis
qed

section \<open>Places in a stream\<close>

text \<open>The delivery streams whose sequence numbers are those of an aggregate's events.\<close>

definition sequenced_as :: "string \<Rightarrow> string \<Rightarrow> bool" where
  "sequenced_as key src \<longleftrightarrow> (\<exists>x. key = ''subscription:'' @ x \<and> src = nt_stream ''subscription-service'' ''subscription'' x
     \<or> key = ''access:'' @ x \<and> src = nt_stream ''access-service'' ''access'' x)"

lemma sequenced_as_unique: "sequenced_as key a \<Longrightarrow> sequenced_as key b \<Longrightarrow> a = b"
  by (auto simp: sequenced_as_def)

lemma sequenced_not_payment: "\<not> sequenced_as (''payment:'' @ p) src"
  by (auto simp: sequenced_as_def)

definition in_place :: "(string \<Rightarrow> int) \<Rightarrow> string \<Rightarrow> int \<Rightarrow> bool \<Rightarrow> bool" where
  "in_place cur key n ends \<longleftrightarrow> (\<exists>p. key = ''payment:'' @ p \<and> (n = 1 \<and> \<not> ends \<or> n = 2 \<and> ends)) \<or> (\<exists>src. sequenced_as key src \<and> n \<le> cur src)"

lemma intent_cases:
  assumes "routed meta" and "nt_intent cfg cd nid meta data = Inr i"
  obtains (payment) p where "in_DeliveryStreamKey i = ''payment:'' @ p" "nm_AggregateSequence meta = 0"
      "in_DeliverySequence i = 1 \<and> \<not> in_SupersedesOlder i \<or> in_DeliverySequence i = 2 \<and> in_SupersedesOlder i"
  | (sequenced) "sequenced_as (in_DeliveryStreamKey i) (meta_stream meta)" "in_DeliverySequence i = nm_AggregateSequence meta"
      "1 \<le> nm_AggregateSequence meta"
  using assms
  by (auto simp: nt_intent_def Let_def nt_checked_def payment_intent_def refund_intent_def period_intent_def grace_intent_def terminal_intent_def
      ready_intent_def failed_intent_def revoked_intent_def base_intent_def routed_def nt_rules_def nt_rule_of_def sequenced_as_def
      split: option.splits sum.splits if_splits)

section \<open>The invariant\<close>

definition sequences :: "nt_store \<Rightarrow> string \<Rightarrow> int option list" where
  "sequences st key = map ni_aggregate_sequence (filter (\<lambda>r. inbox_stream r = key \<and> ni_aggregate_sequence r \<noteq> None) (nt_inbox st))"

definition gapless :: "nt_store \<Rightarrow> bool" where
  "gapless st \<longleftrightarrow> (\<forall>key. 0 \<le> cursor_of st key \<and> cursor_of st key < 2 ^ 63 \<and> sequences st key = map Some [1..cursor_of st key])"

definition attempted :: "nt_job_row \<Rightarrow> bool" where
  "attempted j \<longleftrightarrow> (nj_status j \<noteq> NtPending \<and> nj_status j \<noteq> NtSuppressed \<longrightarrow> 0 < nj_attempts j)"

definition job_ok :: "nt_store \<Rightarrow> nt_job_row \<Rightarrow> bool" where
  "job_ok st j \<longleftrightarrow> in_place (cursor_of st) (nj_stream_key j) (nj_sequence j) (nj_supersedes j) \<and> nj_source_event_id j \<in> ni_event_id ` set (nt_inbox st)"

definition nt_inv :: "nt_store \<Rightarrow> bool" where
  "nt_inv st \<longleftrightarrow> gapless st \<and> (\<forall>j \<in> set (nt_jobs st). job_ok st j \<and> job_check j \<and> attempted j)
     \<and> distinct (map nj_id (nt_jobs st)) \<and> distinct (map nj_business_dedupe_key (nt_jobs st)) \<and> distinct (map ni_event_id (nt_inbox st))"

lemma cursor_of_cursors: "nt_cursors t = nt_cursors st \<Longrightarrow> cursor_of t = cursor_of st"
  by (simp add: cursor_of_def fun_eq_iff)

lemma cursor_of_jobs [simp]: "cursor_of (st\<lparr>nt_jobs := rows\<rparr>) = cursor_of st"
  by (simp add: cursor_of_def fun_eq_iff)

lemma inv_update:
  assumes "nt_inv st" and "nt_inbox t = nt_inbox st" and "cursor_of t = cursor_of st"
    and "map content (nt_jobs t) = map content (nt_jobs st)" and "\<And>j. j \<in> set (nt_jobs t) \<Longrightarrow> job_check j \<and> attempted j"
  shows "nt_inv t"
proof -
  have "gapless t" using assms(1-3) by (simp add: nt_inv_def gapless_def sequences_def)
  moreover have "job_ok t j" if j: "j \<in> set (nt_jobs t)" for j
  proof -
    from same_by_content(3) [OF assms(4) j] obtain k where k: "k \<in> set (nt_jobs st)" "content k = content j" by blast
    with assms(1) have "job_ok st k" by (simp add: nt_inv_def)
    then show ?thesis using content_eqD [OF k(2)] assms(2,3) by (simp add: job_ok_def)
  qed
  ultimately show ?thesis using assms same_by_content(1,2) [OF assms(4)] by (simp add: nt_inv_def)
qed

lemma inv_tbl_update:
  assumes "nt_inv st" and "nt_inbox t = nt_inbox st" and "cursor_of t = cursor_of st" and "nt_jobs t = tbl_update p f (nt_jobs st)"
    and "\<And>j. content (f j) = content j" and "\<And>j. j \<in> set (nt_jobs st) \<Longrightarrow> p j \<Longrightarrow> job_check (f j) \<and> attempted (f j)"
  shows "nt_inv t"
proof (rule inv_update [OF assms(1-3)])
  show "map content (nt_jobs t) = map content (nt_jobs st)" unfolding assms(4) by (rule map_content_update) (rule assms(5))
  show "\<And>j. j \<in> set (nt_jobs t) \<Longrightarrow> job_check j \<and> attempted j"
    using assms(1,6) unfolding assms(4) by (auto simp: set_tbl_update nt_inv_def)
qed

lemma gapless_append:
  assumes "gapless st" and "nt_inbox t = nt_inbox st @ [nt_new_inbox meta i]"
    and "cursor_of t = (if nm_AggregateSequence meta > 0 then (cursor_of st)(meta_stream meta := nm_AggregateSequence meta) else cursor_of st)"
    and "nm_AggregateSequence meta > 0 \<Longrightarrow> nm_AggregateSequence meta = int64 (cursor_of st (meta_stream meta) + 1)"
  shows "gapless t" and "nm_AggregateSequence meta > 0 \<Longrightarrow> nm_AggregateSequence meta = cursor_of st (meta_stream meta) + 1"
proof -
  let ?n = "nm_AggregateSequence meta" and ?k = "meta_stream meta"
  have G: "0 \<le> cursor_of st key" "cursor_of st key < 2 ^ 63" "sequences st key = map Some [1..cursor_of st key]" for key
    using assms(1) by (auto simp: gapless_def)
  show nxt: "?n = cursor_of st ?k + 1" if pos: "?n > 0"
  proof (cases "cursor_of st ?k + 1 < 2 ^ 63")
    case True
    with G(1) [of ?k] assms(4) [OF pos] show ?thesis by (simp add: int64_id)
  next
    case False
    with G(2) [of ?k] have "cursor_of st ?k + 1 = 2 ^ 63" by simp
    moreover have "int64 (2 ^ 63) < 0" by (simp add: int64_def)
    ultimately show ?thesis using assms(4) [OF pos] pos by simp
  qed
  have seq: "sequences t key = sequences st key @ (if ?k = key \<and> ?n > 0 then [Some ?n] else [])" for key
    unfolding sequences_def assms(2) by (auto simp: nt_new_inbox_def meta_sequence_def)
  show "gapless t" unfolding gapless_def
  proof (intro allI conjI)
    fix key
    show "0 \<le> cursor_of t key" using G(1) assms(3) by auto
    show "cursor_of t key < 2 ^ 63" using G(2) assms(3) assms(4) int64_range by (auto split: if_splits)
    show "sequences t key = map Some [1..cursor_of t key]"
      using G(1) [of key] nxt assms(3) by (auto simp: seq G(3) upto_rec2 [of 1 "cursor_of st (meta_stream meta) + 1"])
  qed
qed

lemma in_place_mono: "in_place cur key n ends \<Longrightarrow> (\<And>src. cur src \<le> cur' src) \<Longrightarrow> in_place cur' key n ends"
  unfolding in_place_def by (meson order_trans)

lemma event_job_fields:
  "nj_stream_key (event_job now meta i jobs) = in_DeliveryStreamKey i" "nj_sequence (event_job now meta i jobs) = in_DeliverySequence i"
  "nj_supersedes (event_job now meta i jobs) = in_SupersedesOlder i" "nj_source_event_id (event_job now meta i jobs) = nm_EventID meta"
  "nj_attempts (event_job now meta i jobs) = 0" "nj_id (event_job now meta i jobs) = in_NotificationID i"
  "nj_business_dedupe_key (event_job now meta i jobs) = in_BusinessDedupeKey i"
  "nj_status (event_job now meta i jobs) = NtPending \<or> nj_status (event_job now meta i jobs) = NtSuppressed"
  "superseded_in jobs (in_DeliveryStreamKey i) (in_DeliverySequence i) \<Longrightarrow> nj_status (event_job now meta i jobs) = NtSuppressed"
  by (simp_all add: event_job_def new_job_row_def)

lemma superseded_jobs_content: "map content (superseded_jobs now i jobs) = map content jobs"
  by (simp add: superseded_jobs_def map_content_update)

lemma in_superseded_jobs:
  "j \<in> set (superseded_jobs now i jobs) \<Longrightarrow>
     j \<in> set jobs \<and> \<not> (in_SupersedesOlder i \<and> nj_stream_key j = in_DeliveryStreamKey i \<and> nj_sequence j < in_DeliverySequence i \<and> waiting j)
   \<or> (\<exists>k \<in> set jobs. j = suppress_superseded now k)"
  by (auto simp: superseded_jobs_def set_tbl_update split: if_splits)

section \<open>Every step keeps the invariant\<close>

lemma inv_event:
  assumes inv: "nt_inv st" and "routed meta" and "nt_intent cfg cd nid meta data = Inr i" and "RecordEvent ok now meta i st = (Inr b, t)"
  shows "nt_inv t"
  using assms(4)
proof (cases rule: RecordEvent_Inr)
  case replay
  with inv show ?thesis by simp
next
  case (new jobs)
  let ?j = "event_job now meta i (nt_jobs st)" and ?n = "nm_AggregateSequence meta"
  from inv have G: "gapless st" by (simp add: nt_inv_def)
  note gap = gapless_append [OF G new(2) new(4) new(5)]
  have up: "cursor_of st src \<le> cursor_of t src" for src using new(4) gap(2) by auto
  have old: "job_ok t j" if "j \<in> set (nt_jobs st)" for j
    using inv that in_place_mono [OF _ up] new(2) by (auto simp: nt_inv_def job_ok_def)
  have "in_place (cursor_of t) (in_DeliveryStreamKey i) (in_DeliverySequence i) (in_SupersedesOlder i)"
    using assms(2,3)
  proof (cases rule: intent_cases)
    case (payment p)
    then show ?thesis by (auto simp: in_place_def)
  next
    case sequenced
    then show ?thesis using new(4) by (auto simp: in_place_def)
  qed
  then have fresh: "job_ok t ?j" using new(2) by (simp add: job_ok_def event_job_fields nt_new_inbox_def)
  have jobs: "job_ok t j \<and> job_check j \<and> attempted j" if "j \<in> set jobs" for j
    using that new(6) old fresh inv event_job_fields(8) [of now meta i "nt_jobs st"] by (auto simp: nt_inv_def attempted_def)
  have "job_ok t j \<and> job_check j \<and> attempted j" if j: "j \<in> set (nt_jobs t)" for j
  proof -
    from same_by_content(3) [OF superseded_jobs_content, of j now i jobs] j new(1) obtain k where k: "k \<in> set jobs" "content k = content j" by auto
    with jobs have "job_ok t k" by blast
    then have "job_ok t j" using content_eqD [OF k(2)] by (simp add: job_ok_def)
    moreover have "job_check j" using new(7) j jobs by blast
    moreover have "attempted j" using in_superseded_jobs [of j now i jobs] j new(1) jobs by (auto simp: attempted_def suppress_superseded_def)
    ultimately show ?thesis by blast
  qed
  moreover have "distinct (map nj_id (nt_jobs t))" "distinct (map nj_business_dedupe_key (nt_jobs t))"
    using inv new(6) unfolding new(1) same_by_content(1,2) [OF superseded_jobs_content] by (auto simp: nt_inv_def event_job_fields)
  moreover have "distinct (map ni_event_id (nt_inbox t))"
    using inv new(2,3) by (auto simp: nt_inv_def list_all_iff nt_inbox_clash_def nt_new_inbox_def)
  ultimately show ?thesis using gap(1) by (simp add: nt_inv_def)
qed

lemma job_check_held: "job_check (finish_row now status1 reason delay j) \<Longrightarrow> status1 \<noteq> NtProcessing"
  by (auto simp: job_check_def finish_row_def)

lemma inv_step:
  assumes "nt_step serial st t" and inv: "nt_inv st"
  shows "nt_inv t"
  using assms(1)
proof cases
  case (ns_event meta cfg cd nid data i fl ok now)
  show ?thesis unfolding ns_event(1) by (rule run_tx_post [where Q = nt_inv, OF _ inv]) (rule inv_event [OF inv ns_event(2,3)])
next
  case (ns_dead_letter fl now topic part off sha kind reason)
  show ?thesis unfolding ns_dead_letter(1)
  proof (rule run_tx_post [where Q = nt_inv, OF _ inv])
    fix u v
    assume "nt_RecordDeadLetter now topic part off sha kind reason st = (Inr u, v)"
    from RecordDeadLetter_Inr [OF this] have D: "nt_jobs v = nt_jobs st" "nt_inbox v = nt_inbox st" "nt_cursors v = nt_cursors st" by blast+
    show "nt_inv v" by (rule inv_update [OF inv D(2) cursor_of_cursors [OF D(3)]]) (use inv in \<open>simp_all add: D nt_inv_def\<close>)
  qed
next
  case (ns_claim fl collate locked now cid lease)
  show ?thesis unfolding ns_claim(1)
  proof (rule run_tx_post [where Q = nt_inv, OF _ inv])
    fix r u
    assume "ClaimJob collate locked now cid lease st = (Inr r, u)"
    then show "nt_inv u"
    proof (cases rule: ClaimJob_Inr)
      case (claimed j)
      have "attempted (claim_row now lease cid q)" if "q \<in> set (nt_jobs st)" for q
        using inv that by (auto simp: nt_inv_def job_check_def attempted_def claim_row_def)
      with claimed(6) have ok: "q \<in> set (nt_jobs st) \<Longrightarrow> nj_id q = nj_id j \<Longrightarrow> job_check (claim_row now lease cid q) \<and> attempted (claim_row now lease cid q)" for q
        by blast
      show ?thesis
        by (rule inv_tbl_update [OF inv, where f = "claim_row now lease cid" and p = "\<lambda>q. nj_id q = nj_id j"])
          (simp_all add: claimed(5) cursor_of_def ok)
    qed (use inv in simp)
  qed
next
  case (ns_finish seen fl now job f)
  show ?thesis unfolding ns_finish(1)
  proof (rule run_tx_post [where Q = nt_inv, OF _ inv])
    fix u v
    assume "finish_job seen now job f st = (Inr u, v)"
    then show "nt_inv v"
    proof (cases rule: finish_job_Inr)
      case (1 j status1 reason1 delay1)
      have "attempted (finish_row now status1 reason1 delay1 q)" if "q \<in> set (nt_jobs st)" "held_by (jb_NotificationID job) (jb_ClaimID job) q" for q
        using inv that by (auto simp: nt_inv_def attempted_def held_by_def finish_row_def)
      with 1(3) have ok: "q \<in> set (nt_jobs st) \<Longrightarrow> held_by (jb_NotificationID job) (jb_ClaimID job) q
          \<Longrightarrow> job_check (finish_row now status1 reason1 delay1 q) \<and> attempted (finish_row now status1 reason1 delay1 q)" for q by blast
      show ?thesis
        by (rule inv_tbl_update [OF inv, where f = "finish_row now status1 reason1 delay1" and p = "held_by (jb_NotificationID job) (jb_ClaimID job)"])
          (simp_all add: 1(2) ok)
    qed
  qed
next
  case (ns_retry seen fl now nid key sha)
  show ?thesis unfolding ns_retry(1)
  proof (rule run_tx_post [where Q = nt_inv, OF _ inv])
    fix r u
    assume "RequestRetry seen now nid key sha st = (Inr r, u)"
    then show "nt_inv u"
    proof (cases rule: RequestRetry_Inr)
      case (reset j)
      have "attempted (reset_row now q)" for q by (simp add: attempted_def reset_row_def)
      with reset(5) show ?thesis
        by (intro inv_tbl_update [OF inv reset(6) cursor_of_cursors [OF reset(7)] reset(4) content_row(3)]) simp
    qed (use inv in simp)
  qed
qed

lemma reachable_inv: "nt_reachable serial st \<Longrightarrow> nt_inv st"
proof (induction rule: nt_reachable.induct)
  case nr_empty
  show ?case by (simp add: empty_nt_store_def nt_inv_def gapless_def sequences_def cursor_of_def)
next
  case (nr_step st t)
  then show ?case using inv_step by blast
qed

section \<open>Delivery in stream order\<close>

definition before :: "nt_job_row \<Rightarrow> nt_job_row \<Rightarrow> bool" where
  "before p q \<longleftrightarrow> nj_stream_key p = nj_stream_key q \<and> nj_sequence p < nj_sequence q"

definition fifo :: "nt_job_row list \<Rightarrow> bool" where
  "fifo jobs \<longleftrightarrow> (\<forall>p \<in> set jobs. \<forall>q \<in> set jobs. before p q \<longrightarrow>
     (0 < nj_attempts q \<longrightarrow> \<not> nt_open (nj_status p)) \<and> (nj_supersedes q \<longrightarrow> \<not> waiting p))"

lemma before_content: "content p = content p' \<Longrightarrow> content q = content q' \<Longrightarrow> before p q = before p' q'"
  using content_eqD(4,5) [of p p'] content_eqD(4,5) [of q q'] by (simp add: before_def)

lemma fifo_update:
  assumes "fifo rows" and content: "\<And>j. content (f j) = content j"
    and opens: "\<And>r q. r \<in> set rows \<Longrightarrow> c r \<Longrightarrow> nt_open (nj_status (f r)) \<Longrightarrow> q \<in> set rows \<Longrightarrow> before r q \<Longrightarrow> nt_open (nj_status r)"
    and waits: "\<And>r q. r \<in> set rows \<Longrightarrow> c r \<Longrightarrow> waiting (f r) \<Longrightarrow> q \<in> set rows \<Longrightarrow> before r q \<Longrightarrow> nj_supersedes q \<Longrightarrow> waiting r"
    and tries: "\<And>p r. r \<in> set rows \<Longrightarrow> c r \<Longrightarrow> 0 < nj_attempts (f r) \<Longrightarrow> p \<in> set rows \<Longrightarrow> before p r \<Longrightarrow> 0 < nj_attempts r \<or> \<not> nt_open (nj_status p)"
  shows "fifo (tbl_update c f rows)"
proof -
  let ?g = "\<lambda>r. if c r then f r else r"
  have "(0 < nj_attempts (?g q) \<longrightarrow> \<not> nt_open (nj_status (?g p))) \<and> (nj_supersedes (?g q) \<longrightarrow> \<not> waiting (?g p))"
    if pq: "p \<in> set rows" "q \<in> set rows" and b: "before (?g p) (?g q)" for p q
  proof -
    have b: "before p q" using b before_content [of "?g p" p "?g q" q] content by auto
    have F: "0 < nj_attempts q \<Longrightarrow> \<not> nt_open (nj_status p)" "nj_supersedes q \<Longrightarrow> \<not> waiting p" using assms(1) pq b by (auto simp: fifo_def)
    have s: "nj_supersedes (?g q) = nj_supersedes q" using content_eqD(6) [OF content] by auto
    have o: "nt_open (nj_status (?g p)) \<Longrightarrow> nt_open (nj_status p)" using opens [OF pq(1) _ _ pq(2) b] by (cases "c p") auto
    have "0 < nj_attempts (?g q) \<Longrightarrow> nt_open (nj_status p) \<Longrightarrow> 0 < nj_attempts q" using tries [OF pq(2) _ _ pq(1) b] by (cases "c q") auto
    moreover have "nj_supersedes q \<Longrightarrow> waiting (?g p) \<Longrightarrow> waiting p" using waits [OF pq(1) _ _ pq(2) b] by (cases "c p") auto
    ultimately show ?thesis using F s o by blast
  qed
  then show ?thesis unfolding fifo_def tbl_update_def set_map ball_simps(9) by blast
qed

text \<open>A new job that comes before another in its stream is suppressed from the start.\<close>

lemma late_event_suppressed:
  assumes inv: "nt_inv st" and meta: "routed meta" "nt_intent cfg cd nid meta data = Inr i"
    and n: "nm_AggregateSequence meta > 0 \<Longrightarrow> nm_AggregateSequence meta = cursor_of st (meta_stream meta) + 1"
    and q: "q \<in> set (nt_jobs st)" "before (event_job now meta i (nt_jobs st)) q"
  shows "nj_status (event_job now meta i (nt_jobs st)) = NtSuppressed"
proof (rule event_job_fields(9))
  from q have key: "nj_stream_key q = in_DeliveryStreamKey i" and less: "in_DeliverySequence i < nj_sequence q"
    by (simp_all add: before_def event_job_fields)
  from inv q(1) have P: "in_place (cursor_of st) (nj_stream_key q) (nj_sequence q) (nj_supersedes q)" by (simp add: nt_inv_def job_ok_def)
  show "superseded_in (nt_jobs st) (in_DeliveryStreamKey i) (in_DeliverySequence i)"
    using meta
  proof (cases rule: intent_cases)
    case (payment p)
    with P less have "nj_supersedes q" by (auto simp: in_place_def key sequenced_not_payment [simplified])
    with q(1) key less show ?thesis by (auto simp: superseded_in_def list_ex_iff)
  next
    case sequenced
    with P have "nj_sequence q \<le> cursor_of st (meta_stream meta)"
      by (auto simp: in_place_def key sequenced_not_payment [simplified] dest: sequenced_as_unique)
    with sequenced less n show ?thesis by simp
  qed
qed

lemma fifo_event:
  assumes inv: "nt_inv st" and fifo: "fifo (nt_jobs st)" and meta: "routed meta" "nt_intent cfg cd nid meta data = Inr i"
    and "RecordEvent ok now meta i st = (Inr b, t)"
  shows "fifo (nt_jobs t)"
  using assms(5)
proof (cases rule: RecordEvent_Inr)
  case (new jobs)
  let ?j = "event_job now meta i (nt_jobs st)"
  from inv have G: "gapless st" by (simp add: nt_inv_def)
  note late = late_event_suppressed [OF inv meta gapless_append(2) [OF G new(2) new(4) new(5)]]
  have weak: "(0 < nj_attempts q \<longrightarrow> \<not> nt_open (nj_status p)) \<and> (nj_supersedes q \<longrightarrow> \<not> waiting p \<or>
      in_SupersedesOlder i \<and> nj_stream_key p = in_DeliveryStreamKey i \<and> nj_sequence p < in_DeliverySequence i)"
    if "p \<in> set jobs" "q \<in> set jobs" "before p q" for p q
  proof -
    from that(1,2) new(6) have "p \<in> set (nt_jobs st) \<or> p = ?j" "q \<in> set (nt_jobs st) \<or> q = ?j" by auto
    then consider "p \<in> set (nt_jobs st)" "q \<in> set (nt_jobs st)" | "q = ?j" | "p = ?j" "q \<in> set (nt_jobs st)" by blast
    then show ?thesis
    proof cases
      case 1
      with fifo that(3) show ?thesis by (simp add: fifo_def)
    next
      case 2
      with that(3) show ?thesis by (simp add: before_def event_job_fields)
    next
      case 3
      with late [of q] that(3) show ?thesis by (simp add: nt_open_def)
    qed
  qed
  have sup: "content (suppress_superseded now k) = content k \<and> nj_attempts (suppress_superseded now k) = nj_attempts k
    \<and> nj_supersedes (suppress_superseded now k) = nj_supersedes k \<and> nj_status (suppress_superseded now k) = NtSuppressed" for k
    by (simp add: suppress_superseded_def content_def)
  have "(0 < nj_attempts q \<longrightarrow> \<not> nt_open (nj_status p)) \<and> (nj_supersedes q \<longrightarrow> \<not> waiting p)"
    if pq: "p \<in> set (nt_jobs t)" "q \<in> set (nt_jobs t)" "before p q" for p q
  proof (cases "nj_status p = NtSuppressed")
    case False
    with pq(1) sup new(1) in_superseded_jobs [of p now i jobs]
    have p: "p \<in> set jobs" "\<not> (in_SupersedesOlder i \<and> nj_stream_key p = in_DeliveryStreamKey i \<and> nj_sequence p < in_DeliverySequence i \<and> waiting p)" by auto
    from pq(2) new(1) in_superseded_jobs [of q now i jobs] sup
    obtain k where k: "k \<in> set jobs" "content k = content q" "nj_attempts k = nj_attempts q" "nj_supersedes k = nj_supersedes q" by metis
    with weak [OF p(1) k(1)] p(2) before_content [of p p k q] pq(3) show ?thesis by auto
  qed (simp add: nt_open_def)
  then show ?thesis by (simp add: fifo_def)
qed (use fifo in simp)

lemma held_open: "held_by nid cid r \<Longrightarrow> nt_open (nj_status r)"
  by (simp add: held_by_def nt_open_def)

lemma same_job: "nt_inv st \<Longrightarrow> r \<in> set (nt_jobs st) \<Longrightarrow> j \<in> set (nt_jobs st) \<Longrightarrow> nj_id r = nj_id j \<Longrightarrow> r = j"
  by (auto simp: nt_inv_def intro: distinct_key_eq)

lemma fifo_claim:
  assumes inv: "nt_inv st" and fifo: "fifo (nt_jobs st)" and "ClaimJob collate locked now cid lease st = (Inr r, t)"
  shows "fifo (nt_jobs t)"
  using assms(3)
proof (cases rule: ClaimJob_Inr)
  case (claimed j)
  have j: "q = j" if "q \<in> set (nt_jobs st)" "nj_id q = nj_id j" for q using same_job [OF inv that(1) claimed(1) that(2)] .
  have opened: "nt_open (nj_status j)" using claimed(2) by (auto simp: claimable_def nt_open_def)
  have first: "\<not> nt_open (nj_status p)" if "p \<in> set (nt_jobs st)" "before p j" for p
    using claimed(2) that by (auto simp: claimable_def before_def list_ex_iff)
  have "fifo (tbl_update (\<lambda>q. nj_id q = nj_id j) (claim_row now lease cid) (nt_jobs st))"
  proof (rule fifo_update [OF fifo content_row(1)], goal_cases)
    case (1 r q)
    with j opened show ?case by blast
  next
    case (2 r q)
    then show ?case by (simp add: claim_row_def)
  next
    case (3 p r)
    with j first show ?case by blast
  qed
  then show ?thesis by (simp add: claimed(5))
qed (use fifo in simp)

lemma fifo_finish:
  assumes inv: "nt_inv st" and fifo: "fifo (nt_jobs st)" and "finish_job (nt_jobs st) now job f st = (Inr u, t)"
  shows "fifo (nt_jobs t)"
  using assms(3)
proof (cases rule: finish_job_Inr)
  case (1 j status1 reason1 delay1)
  let ?h = "held_by (jb_NotificationID job) (jb_ClaimID job)"
  from find_SomeD [OF 1(1)] have j: "j \<in> set (nt_jobs st)" "?h j" by auto
  have same: "r = j" if "r \<in> set (nt_jobs st)" "?h r" for r using same_job [OF inv that(1) j(1)] that(2) j(2) by (simp add: held_by_def)
  have waits: "status1 \<noteq> NtPending \<and> status1 \<noteq> NtRetry" if "q \<in> set (nt_jobs st)" "before j q" "nj_supersedes q" for q
  proof -
    have "superseded_in (nt_jobs st) (nj_stream_key j) (nj_sequence j)" using that by (auto simp: superseded_in_def list_ex_iff before_def)
    with 1(4) show ?thesis by (cases f) auto
  qed
  have "fifo (tbl_update ?h (finish_row now status1 reason1 delay1) (nt_jobs st))"
  proof (rule fifo_update [OF fifo content_row(2)], goal_cases)
    case (1 r q)
    with held_open show ?case by blast
  next
    case (2 r q)
    with same waits [of q] show ?case by (auto simp: finish_row_def)
  next
    case (3 p r)
    then show ?case by (simp add: finish_row_def)
  qed
  then show ?thesis by (simp add: 1(2))
qed

lemma fifo_retry:
  assumes inv: "nt_inv st" and fifo: "fifo (nt_jobs st)" and "RequestRetry (nt_jobs st) now nid key sha st = (Inr r, t)"
  shows "fifo (nt_jobs t)"
  using assms(3)
proof (cases rule: RequestRetry_Inr)
  case (reset j)
  from find_SomeD [OF reset(1)] have j: "j \<in> set (nt_jobs st)" "nj_id j = nid" by auto
  have same: "q = j" if "q \<in> set (nt_jobs st)" "nj_id q = nid" for q using same_job [OF inv that(1) j(1)] that(2) j(2) by simp
  have "\<not> before j q" if "q \<in> set (nt_jobs st)" for q using reset(3) that by (auto simp: list_ex_iff before_def)
  with same have last: "q \<in> set (nt_jobs st) \<Longrightarrow> r \<in> set (nt_jobs st) \<Longrightarrow> nj_id r = nid \<Longrightarrow> \<not> before r q" for r q by blast
  have "fifo (tbl_update (\<lambda>q. nj_id q = nid) (reset_row now) (nt_jobs st))"
    by (rule fifo_update [OF fifo content_row(3)]) (use last in \<open>auto simp: reset_row_def\<close>)
  then show ?thesis by (simp add: reset(4))
qed (use fifo in simp)

lemma fifo_step:
  assumes "nt_step True st t" and inv: "nt_inv st" and fifo: "fifo (nt_jobs st)"
  shows "fifo (nt_jobs t)"
  using assms(1)
proof cases
  case (ns_event meta cfg cd nid data i fl ok now)
  show ?thesis unfolding ns_event(1) by (rule run_tx_post [where Q = "\<lambda>s. fifo (nt_jobs s)", OF _ fifo]) (rule fifo_event [OF inv fifo ns_event(2,3)])
next
  case (ns_dead_letter fl now topic part off sha kind reason)
  show ?thesis unfolding ns_dead_letter(1)
    by (rule run_tx_post [where Q = "\<lambda>s. fifo (nt_jobs s)", OF _ fifo], drule RecordDeadLetter_Inr) (simp add: fifo)
next
  case (ns_claim fl collate locked now cid lease)
  show ?thesis unfolding ns_claim(1) by (rule run_tx_post [where Q = "\<lambda>s. fifo (nt_jobs s)", OF _ fifo]) (rule fifo_claim [OF inv fifo])
next
  case (ns_finish seen fl now job f)
  show ?thesis unfolding ns_finish(1)
    by (rule run_tx_post [where Q = "\<lambda>s. fifo (nt_jobs s)", OF _ fifo]) (rule fifo_finish [OF inv fifo], simp add: ns_finish(2))
next
  case (ns_retry seen fl now nid key sha)
  show ?thesis unfolding ns_retry(1)
    by (rule run_tx_post [where Q = "\<lambda>s. fifo (nt_jobs s)", OF _ fifo]) (rule fifo_retry [OF inv fifo], simp add: ns_retry(2))
qed

lemma reachable_fifo: "nt_reachable True st \<Longrightarrow> fifo (nt_jobs st)"
proof (induction rule: nt_reachable.induct)
  case nr_empty
  show ?case by (simp add: empty_nt_store_def fifo_def)
next
  case (nr_step st t)
  then show ?case using fifo_step reachable_inv by blast
qed

end
