(* ===== verification/Notification_Properties.thy ===== *)
theory Notification_Properties
  imports Notification_Invariants
begin

text \<open>
  The properties of the notification service: events are accepted without gaps and give one job per
  business fact, delivery follows the stream, closed jobs stay closed, what a round of the worker sends and
  how it leaves the job, and what a poll of the consumer guarantees.
\<close>

section \<open>Events\<close>

text \<open>C31: The events accepted from an aggregate have the sequence numbers 1, 2, ... up to its cursor, in order of arrival and without gaps
or repetitions; no two jobs are for the same business fact, and every job stems from an accepted event. This holds in every reachable
state, also when the queries for other jobs are answered out of date.\<close>

theorem notification_events_gapless:
  assumes "nt_reachable serial st"
  shows "map ni_aggregate_sequence (filter (\<lambda>r. inbox_stream r = key \<and> ni_aggregate_sequence r \<noteq> None) (nt_inbox st)) = map Some [1..cursor_of st key]
    \<and> distinct (map nj_business_dedupe_key (nt_jobs st)) \<and> distinct (map ni_event_id (nt_inbox st))
    \<and> nj_source_event_id ` set (nt_jobs st) \<subseteq> ni_event_id ` set (nt_inbox st)"
  using reachable_inv [OF assms] by (auto simp: nt_inv_def gapless_def sequences_def job_ok_def)

section \<open>Delivery order\<close>

text \<open>C30: With serial transactions, a notification that was ever claimed for delivery has only finished predecessors in its delivery stream
(delivered, failed for good or suppressed), and a notification with a superseding successor is neither pending nor waiting for a
retry: it is not claimed any more, unless it is being delivered already.\<close>

theorem notification_delivery_order:
  assumes "nt_reachable True st" and "p \<in> set (nt_jobs st)" and "q \<in> set (nt_jobs st)"
    and "nj_stream_key p = nj_stream_key q" and "nj_sequence p < nj_sequence q"
  shows "(0 < nj_attempts q \<longrightarrow> nj_status p \<in> {NtDelivered, NtPermanentlyFailed, NtSuppressed})
    \<and> (nj_supersedes q \<longrightarrow> nj_status p \<notin> {NtPending, NtRetry})"
proof -
  from reachable_fifo [OF assms(1)] assms(2-5) have "0 < nj_attempts q \<longrightarrow> \<not> nt_open (nj_status p)" "nj_supersedes q \<longrightarrow> \<not> waiting p"
    by (auto simp: fifo_def before_def)
  then show ?thesis by (cases "nj_status p") (auto simp: nt_open_def)
qed

section \<open>Closed jobs\<close>

definition job_kept :: "nt_job_row \<Rightarrow> nt_job_row \<Rightarrow> bool" where
  "job_kept x y \<longleftrightarrow> content y = content x \<and> (nj_status x = NtDelivered \<or> nj_status x = NtSuppressed \<longrightarrow> y = x)"

lemma job_kept_refl: "job_kept x x"
  by (simp add: job_kept_def)

lemma job_kept_trans: "job_kept x y \<Longrightarrow> job_kept y z \<Longrightarrow> job_kept x z"
  by (auto simp: job_kept_def)

lemma jobs_kept_trans: "rows_kept job_kept xs ys \<Longrightarrow> rows_kept job_kept ys zs \<Longrightarrow> rows_kept job_kept xs zs"
  using rows_kept_trans [of job_kept xs ys zs] job_kept_trans by blast

lemma jobs_kept_update:
  assumes "\<And>x. content (f x) = content x" and "\<And>x. x \<in> set rows \<Longrightarrow> c x \<Longrightarrow> nj_status x \<noteq> NtDelivered \<and> nj_status x \<noteq> NtSuppressed"
  shows "rows_kept job_kept rows (tbl_update c f rows)"
  using assms by (intro rows_kept_update job_kept_refl) (auto simp: job_kept_def)

lemma jobs_kept_event:
  assumes "RecordEvent ok now meta i st = (Inr b, t)"
  shows "rows_kept job_kept (nt_jobs st) (nt_jobs t)"
  using assms
proof (cases rule: RecordEvent_Inr)
  case (new jobs)
  have "rows_kept job_kept (nt_jobs st) jobs" using new(6) by (auto simp: job_kept_refl intro!: rows_kept_append)
  moreover have "rows_kept job_kept jobs (nt_jobs t)"
    unfolding new(1) superseded_jobs_def by (simp add: job_kept_refl) (auto intro!: jobs_kept_update)
  ultimately show ?thesis by (rule jobs_kept_trans)
qed (simp add: job_kept_refl)

lemma jobs_kept_claim:
  assumes "nt_inv st" and "ClaimJob collate locked now cid lease st = (Inr r, t)"
  shows "rows_kept job_kept (nt_jobs st) (nt_jobs t)"
  using assms(2)
proof (cases rule: ClaimJob_Inr)
  case (claimed j)
  have "nt_open (nj_status j)" using claimed(2) by (auto simp: claimable_def nt_open_def)
  then have "nj_status q \<noteq> NtDelivered \<and> nj_status q \<noteq> NtSuppressed" if "q \<in> set (nt_jobs st)" "nj_id q = nj_id j" for q
    using same_job [OF assms(1) that(1) claimed(1) that(2)] by (auto simp: nt_open_def)
  then show ?thesis unfolding claimed(5) by (simp add: jobs_kept_update)
qed (simp add: job_kept_refl)

lemma jobs_kept_finish:
  assumes "finish_job seen now job f st = (Inr u, t)"
  shows "rows_kept job_kept (nt_jobs st) (nt_jobs t)"
  using assms by (cases rule: finish_job_Inr) (auto simp: held_by_def intro!: jobs_kept_update)

lemma jobs_kept_retry:
  assumes "nt_inv st" and "RequestRetry seen now nid key sha st = (Inr r, t)"
  shows "rows_kept job_kept (nt_jobs st) (nt_jobs t)"
  using assms(2)
proof (cases rule: RequestRetry_Inr)
  case (reset j)
  from find_SomeD [OF reset(1)] have j: "j \<in> set (nt_jobs st)" "nj_id j = nid" by auto
  have "q = j" if "q \<in> set (nt_jobs st)" "nj_id q = nid" for q using same_job [OF assms(1) that(1) j(1)] that(2) j(2) by simp
  with reset(2) show ?thesis unfolding reset(4) by (intro jobs_kept_update) auto
qed (simp add: job_kept_refl)

lemma jobs_kept_step:
  assumes "nt_step serial st t" and inv: "nt_inv st"
  shows "rows_kept job_kept (nt_jobs st) (nt_jobs t)"
proof -
  note tx = run_tx_post [where Q = "\<lambda>s. rows_kept job_kept (nt_jobs st) (nt_jobs s)"]
  have refl: "rows_kept job_kept (nt_jobs st) (nt_jobs st)" by (simp add: job_kept_refl)
  from assms(1) show ?thesis
  proof cases
    case ns_event
    show ?thesis unfolding ns_event(1) by (rule tx [OF _ refl]) (rule jobs_kept_event)
  next
    case ns_dead_letter
    show ?thesis unfolding ns_dead_letter(1) by (rule tx [OF _ refl], drule RecordDeadLetter_Inr) (simp add: job_kept_refl)
  next
    case ns_claim
    show ?thesis unfolding ns_claim(1) by (rule tx [OF _ refl]) (rule jobs_kept_claim [OF inv])
  next
    case ns_finish
    show ?thesis unfolding ns_finish(1) by (rule tx [OF _ refl]) (rule jobs_kept_finish)
  next
    case ns_retry
    show ?thesis unfolding ns_retry(1) by (rule tx [OF _ refl]) (rule jobs_kept_retry [OF inv])
  qed
qed

lemma jobs_kept_run:
  assumes "(nt_step serial)\<^sup>*\<^sup>* st t" and "nt_reachable serial st"
  shows "nt_reachable serial t \<and> rows_kept job_kept (nt_jobs st) (nt_jobs t)"
  using assms
proof (induction rule: rtranclp_induct)
  case (step y z)
  then have y: "nt_reachable serial y" "rows_kept job_kept (nt_jobs st) (nt_jobs y)" by blast+
  from jobs_kept_step [OF step.hyps(2) reachable_inv [OF y(1)]] y(2) nr_step [OF y(1) step.hyps(2)] show ?case
    using jobs_kept_trans by blast
qed (simp add: job_kept_refl)

text \<open>C32: A notification that was delivered or suppressed never changes again, whatever happens: it is not sent a second time after its delivery
was recorded, and neither the worker, a later event nor an administrator's retry revives it. Every other notification keeps its
recipient, text variables and place in the stream, and none is ever lost.\<close>

theorem notification_outcome_final:
  assumes "nt_reachable serial st" and "(nt_step serial)\<^sup>*\<^sup>* st t" and "j \<in> set (nt_jobs st)"
  shows "\<exists>k \<in> set (nt_jobs t). (nj_status j = NtDelivered \<or> nj_status j = NtSuppressed \<longrightarrow> k = j)
    \<and> nj_id k = nj_id j \<and> nj_user_id k = nj_user_id j \<and> nj_type k = nj_type j \<and> nj_variables k = nj_variables j
    \<and> nj_stream_key k = nj_stream_key j \<and> nj_sequence k = nj_sequence j"
proof -
  from jobs_kept_run [OF assms(2,1)] assms(3) obtain k where k: "k \<in> set (nt_jobs t)" "content k = content j"
    "nj_status j = NtDelivered \<or> nj_status j = NtSuppressed \<longrightarrow> k = j" by (auto simp: rows_kept_def job_kept_def)
  from arg_cong [OF k(2), of nj_user_id] arg_cong [OF k(2), of nj_type] arg_cong [OF k(2), of nj_variables]
  have "nj_user_id k = nj_user_id j" "nj_type k = nj_type j" "nj_variables k = nj_variables j" by (simp_all add: content_def)
  with k content_eqD [OF k(2)] show ?thesis by blast
qed

section \<open>The worker\<close>

lemma nt_Render_bound: "nt_Render t v vars = Some text \<Longrightarrow> pg_length text \<le> MaxTelegramRunes \<and> v = 1"
  by (auto simp: nt_Render_def split: if_splits option.splits)

lemma target_chat: "GetNotificationTarget answer = Some target \<Longrightarrow> tt_Eligible target \<Longrightarrow> 0 < tt_TelegramChatID target"
  by (auto simp: GetNotificationTarget_def split: http_answer.splits option.splits if_splits)

lemma deliver_job_sends:
  assumes "deliver_job cfg cd env job = (sent, f)" and "m \<in> set sent"
  obtains target where "sent = [m]" "GetNotificationTarget (nre_target env) = Some target" "tt_Eligible target"
    "m = \<lparr>ms_delivery_id = jb_NotificationID job, ms_chat_id = tt_TelegramChatID target, ms_type = jb_NotificationType job,
          ms_version = jb_TemplateVersion job, ms_text = ms_text m\<rparr>"
    "nt_Render (jb_NotificationType job) (jb_TemplateVersion job) (jb_Variables job) = Some (ms_text m)"
    "stale_subscription cd env job cfg = None" "stale_access env job cfg = None"
proof (cases "GetNotificationTarget (nre_target env)")
  case None
  with assms show ?thesis by (simp add: deliver_job_def)
next
  case (Some target)
  let ?text = "nt_Render (jb_NotificationType job) (jb_TemplateVersion job) (jb_Variables job)"
  from assms Some have el: "tt_Eligible target" by (cases "tt_Eligible target") (auto simp: deliver_job_def)
  from assms Some el have "stale_subscription cd env job cfg = None" by (cases "stale_subscription cd env job cfg") (auto simp: deliver_job_def)
  moreover from this assms Some el have "stale_access env job cfg = None" by (cases "stale_access env job cfg") (auto simp: deliver_job_def)
  moreover from calculation assms Some el obtain body where "?text = Some body" by (cases ?text) (auto simp: deliver_job_def)
  ultimately show ?thesis using assms Some el by (intro that [of target]) (auto simp: deliver_job_def split: if_splits)
qed

lemma not_stale_subscription:
  assumes "stale_subscription cd env job cfg = None" and "isSubscriptionStateSensitive (jb_NotificationType job)" and "jb_SubscriptionID job = Some sid"
  shows "\<exists>state. GetState (nre_state env) (jb_UserID job) sid = Some state \<and> subscriptionNotificationCurrent cd job state"
  using assms by (auto simp: stale_subscription_def split: option.splits if_splits)

lemma not_stale_access:
  assumes "stale_access env job cfg = None" and "jb_NotificationType job = ''access_ready'' \<or> jb_NotificationType job = ''access_degraded''"
    and "jb_SubscriptionID job = Some sid" and "jb_CredentialID job = Some cid"
  shows "IsCurrentReady (nre_access env) sid cid = Some True"
  using assms by (auto simp: stale_access_def split: option.splits if_splits)

lemma nt_workOnce_sent:
  assumes "nt_workOnce cfg cd env st = (res, sent, t)" and "sent \<noteq> []"
  obtains cid j f where "j \<in> set (nt_jobs st)" "claimable (nre_now env) (nt_jobs st) j" "nj_id j \<notin> set (nre_locked env)"
    "deliver_job cfg cd env (scanJob (claim_row (nre_now env) (ncf_lease cfg) cid j)) = (sent, f)"
proof -
  from assms obtain cid job st1 f where "run_tx NtInfra (nre_claim_fault env) (ClaimJob (ncf_collate cfg) (nre_locked env) (nre_now env) cid (ncf_lease cfg)) st
      = (Inr (Some job), st1)" and d: "deliver_job cfg cd env job = (sent, f)"
    by (auto simp: nt_workOnce_def split: option.splits prod.splits sum.splits)
  from run_tx_Inr [OF this(1)] show thesis
  proof (cases rule: ClaimJob_Inr)
    case (claimed j)
    with d that [of j cid f] show ?thesis by simp
  qed simp
qed

text \<open>C33: What a round of the worker sends. A round sends at most one message. It is for a notification that was due, or whose lease had run out, and that
had no unfinished predecessor; it goes to the chat of a user whom identity reports as eligible; its text is the template of the
notification, at most 4096 characters; and the owners confirm it: an extension is announced only while subscription reports the very
period end of the event, a grace period only with its very end, and access only as ready while access reports that credential as
ready.\<close>

theorem notification_sends_current:
  assumes "nt_workOnce cfg cd env st = (res, sent, t)" and "m \<in> set sent"
  shows "sent = [m] \<and> (\<exists>j \<in> set (nt_jobs st). claimable (nre_now env) (nt_jobs st) j \<and> ms_delivery_id m = nj_id j
    \<and> (\<exists>target. GetNotificationTarget (nre_target env) = Some target \<and> tt_Eligible target \<and> ms_chat_id m = tt_TelegramChatID target \<and> 0 < ms_chat_id m)
    \<and> nt_Render (nj_type j) 1 (nj_variables j) = Some (ms_text m) \<and> pg_length (ms_text m) \<le> 4096
    \<and> (\<forall>sid end. nj_type j = ''subscription_extended'' \<and> nj_subscription_id j = Some sid \<and> nj_variables j = [(''period_end'', ndc_format cd end)]
          \<and> ndc_parse cd (ndc_format cd end) = Some end
        \<longrightarrow> (\<exists>state. GetState (nre_state env) (nj_user_id j) sid = Some state \<and> sst_Status state = ''active'' \<and> sst_CurrentPeriodEnd state = Some end))
    \<and> (\<forall>sid end. nj_type j = ''subscription_grace'' \<and> nj_subscription_id j = Some sid \<and> nj_variables j = [(''grace_ends_at'', ndc_format cd end)]
          \<and> ndc_parse cd (ndc_format cd end) = Some end
        \<longrightarrow> (\<exists>state. GetState (nre_state env) (nj_user_id j) sid = Some state \<and> sst_Status state = ''grace'' \<and> sst_GraceEndsAt state = Some end))
    \<and> (\<forall>sid cid. (nj_type j = ''access_ready'' \<or> nj_type j = ''access_degraded'') \<and> nj_subscription_id j = Some sid \<and> nj_credential_id j = Some cid
        \<longrightarrow> IsCurrentReady (nre_access env) sid cid = Some True))"
proof -
  from assms(2) have "sent \<noteq> []" by auto
  from nt_workOnce_sent [OF assms(1) this] obtain cid j f where j: "j \<in> set (nt_jobs st)" "claimable (nre_now env) (nt_jobs st) j"
    and d: "deliver_job cfg cd env (scanJob (claim_row (nre_now env) (ncf_lease cfg) cid j)) = (sent, f)" by blast
  let ?job = "scanJob (claim_row (nre_now env) (ncf_lease cfg) cid j)"
  have job: "jb_NotificationType ?job = nj_type j" "jb_TemplateVersion ?job = nj_template_version j" "jb_Variables ?job = nj_variables j"
    "jb_SubscriptionID ?job = nj_subscription_id j" "jb_CredentialID ?job = nj_credential_id j" "jb_UserID ?job = nj_user_id j"
    "jb_NotificationID ?job = nj_id j" by (simp_all add: scanJob_def claim_row_def)
  from deliver_job_sends [OF d assms(2)] obtain target where D: "sent = [m]" "GetNotificationTarget (nre_target env) = Some target" "tt_Eligible target"
    "m = \<lparr>ms_delivery_id = nj_id j, ms_chat_id = tt_TelegramChatID target, ms_type = nj_type j, ms_version = nj_template_version j, ms_text = ms_text m\<rparr>"
    "nt_Render (nj_type j) (nj_template_version j) (nj_variables j) = Some (ms_text m)"
    "stale_subscription cd env ?job cfg = None" "stale_access env ?job cfg = None" unfolding job by blast
  have ids: "ms_delivery_id m = nj_id j" "ms_chat_id m = tt_TelegramChatID target" by (subst D(4), simp)+
  note state = not_stale_subscription [OF D(6), unfolded job] and access = not_stale_access [OF D(7), unfolded job]
  have extended: "\<exists>state. GetState (nre_state env) (nj_user_id j) sid = Some state \<and> sst_Status state = ''active'' \<and> sst_CurrentPeriodEnd state = Some end"
    if "nj_type j = ''subscription_extended''" "nj_subscription_id j = Some sid" "nj_variables j = [(''period_end'', ndc_format cd end)]"
      "ndc_parse cd (ndc_format cd end) = Some end" for sid "end"
    using state [of sid] that
    by (auto simp: isSubscriptionStateSensitive_def subscriptionNotificationCurrent_def job variable_text_def)
  have grace: "\<exists>state. GetState (nre_state env) (nj_user_id j) sid = Some state \<and> sst_Status state = ''grace'' \<and> sst_GraceEndsAt state = Some end"
    if "nj_type j = ''subscription_grace''" "nj_subscription_id j = Some sid" "nj_variables j = [(''grace_ends_at'', ndc_format cd end)]"
      "ndc_parse cd (ndc_format cd end) = Some end" for sid "end"
    using state [of sid] that
    by (auto simp: isSubscriptionStateSensitive_def subscriptionNotificationCurrent_def job variable_text_def)
  show ?thesis
    using D(1-3,5) j ids target_chat [OF D(2,3)] nt_Render_bound [OF D(5)] extended grace access
    by (intro conjI bexI [of _ j]) (auto simp: MaxTelegramRunes_def)
qed

text \<open>A claimed job is finished with a status of its own, a retry with a delay in bounds.\<close>

lemma retryOrFail_cases:
  assumes "1 \<le> ncf_retryBase cfg" and "ncf_retryBase cfg \<le> 2 ^ 38" and "\<And>e. err = Some e \<Longrightarrow> de_RetryAfter e \<le> 15 * Minute"
  shows "(\<exists>delay. retryOrFail cfg job err = FinRetry delay \<and> 0 < delay \<and> delay \<le> 15 * Minute \<and> jb_Attempts job < jb_MaxAttempts job)
    \<or> (\<exists>code. retryOrFail cfg job err = FinFail code)"
  using notif_retry.backoff_pos [OF assms(1,2), of "ncf_sha256 cfg" "jb_Attempts job" "jb_NotificationID job"]
  by (auto simp: retryOrFail_def Let_def go_units not_le)

definition finish_fits :: "NtJob \<Rightarrow> nt_finish \<Rightarrow> bool" where
  "finish_fits job f \<longleftrightarrow> (case f of FinRetry delay \<Rightarrow> 0 < delay \<and> delay \<le> 15 * Minute \<and> jb_Attempts job < jb_MaxAttempts job | _ \<Rightarrow> True)"

lemma Deliver_delay: "Deliver answer = Inl (Some e) \<Longrightarrow> de_RetryAfter e \<le> 15 * Minute"
  by (auto simp: Deliver_def invalidResponse_def go_units split: http_answer.splits option.splits if_splits)

lemma deliver_job_fits:
  assumes "1 \<le> ncf_retryBase cfg" and "ncf_retryBase cfg \<le> 2 ^ 38"
  shows "finish_fits job (snd (deliver_job cfg cd env job))"
proof -
  have R: "finish_fits job (retryOrFail cfg job err)" if "\<And>e. err = Some e \<Longrightarrow> de_RetryAfter e \<le> 15 * Minute" for err
    using retryOrFail_cases [OF assms that, of err job] by (auto simp: finish_fits_def)
  have U: "finish_fits job (retryOrFail cfg job (unavailable code))" for code by (rule R) (simp add: unavailable_def go_units)
  have S: "stale_subscription cd env job cfg = Some f \<Longrightarrow> finish_fits job f" for f
    using U by (auto simp: stale_subscription_def finish_fits_def split: option.splits if_splits bool.splits)
  have A: "stale_access env job cfg = Some f \<Longrightarrow> finish_fits job f" for f
    using U by (auto simp: stale_access_def finish_fits_def split: option.splits if_splits bool.splits)
  have D: "Deliver (nre_delivery env) = Inl err \<Longrightarrow> finish_fits job (retryOrFail cfg job err)" for err
    by (rule R) (simp add: Deliver_delay)
  show ?thesis unfolding deliver_job_def
    by (simp add: U S A D finish_fits_def [of _ FinComplete] finish_fits_def [of _ "FinFail _"] finish_fits_def [of _ "FinSuppress _"] split: option.split sum.split)
qed

lemma job_check_finish:
  assumes "job_check q" and "status \<noteq> NtProcessing" and "reason = [] \<or> reason_check reason"
  shows "job_check (finish_row now status reason delay q)"
  using assms by (auto simp: job_check_def finish_row_def)

lemma superseded_reason_check: "reason_check superseded_reason"
  by (simp add: superseded_reason_def reason_check_def reason_char_def char_between_def)

definition finish_reason :: "nt_finish \<Rightarrow> string" where
  "finish_reason f = (case f of FinFail r \<Rightarrow> r | FinSuppress r \<Rightarrow> r | _ \<Rightarrow> [])"

definition finish_delay :: "nt_finish \<Rightarrow> nanos" where
  "finish_delay f = (case f of FinRetry d \<Rightarrow> d | _ \<Rightarrow> 0)"

lemma finish_job_eq:
  "finish_job seen now job f = finishClaim seen now (jb_NotificationID job) (jb_ClaimID job) (finish_status f) (finish_reason f) (finish_delay f)"
  by (cases f) (simp_all add: finish_job_def CompleteJob_def RetryJob_def FailJob_def SuppressJob_def finish_reason_def finish_delay_def)

lemma finishClaim_settles:
  assumes one: "\<And>q. q \<in> set (nt_jobs st) \<Longrightarrow> held_by nid cid q \<longleftrightarrow> q = j" and j: "j \<in> set (nt_jobs st)" "job_check j"
    and "status \<noteq> NtProcessing" and "reason = [] \<or> reason_check reason"
  obtains status1 reason1 delay1 where
    "finishClaim seen now nid cid status reason delay st
       = (Inr (), st\<lparr>nt_jobs := tbl_update (held_by nid cid) (finish_row now status1 reason1 delay1) (nt_jobs st)\<rparr>)"
    "status1 = status \<and> reason1 = reason \<and> delay1 = delay
     \<or> status1 = NtSuppressed \<and> (status = NtRetry \<or> status = NtPermanentlyFailed)"
proof -
  have found: "find (held_by nid cid) (nt_jobs st) = Some j"
  proof (cases "find (held_by nid cid) (nt_jobs st)")
    case None
    with find_NoneD [OF None j(1)] one [OF j(1)] show ?thesis by simp
  next
    case (Some x)
    with find_SomeD [OF Some] one show ?thesis by auto
  qed
  define c where "c \<longleftrightarrow> (status = NtRetry \<or> status = NtPermanentlyFailed) \<and> superseded_in seen (nj_stream_key j) (nj_sequence j)"
  have ok: "\<not> list_ex (\<lambda>q. held_by nid cid q \<and> \<not> job_check (finish_row now s r d q)) (nt_jobs st)"
    if "s \<noteq> NtProcessing" "r = [] \<or> reason_check r" for s r d
    using one job_check_finish [OF j(2) that] by (auto simp: list_ex_iff)
  have run: "update_jobs (held_by nid cid) (finish_row now s r d) st
      = (Inr (), st\<lparr>nt_jobs := tbl_update (held_by nid cid) (finish_row now s r d) (nt_jobs st)\<rparr>)"
    if "s \<noteq> NtProcessing" "r = [] \<or> reason_check r" for s r d
    using ok [OF that, of d] by (simp add: update_jobs_def tx_bind_get tx_modify_def)
  show thesis
  proof (cases c)
    case True
    then show ?thesis using run [of NtSuppressed superseded_reason 0] superseded_reason_check
      by (intro that [of NtSuppressed superseded_reason 0]) (simp_all add: finishClaim_def tx_bind_get found c_def)
  next
    case False
    then show ?thesis using run [of status reason delay] assms(4,5)
      by (intro that [of status reason delay]) (auto simp: finishClaim_def tx_bind_get found c_def)
  qed
qed

lemma deliver_job_complete:
  "deliver_job cfg cd env job = (sent, f) \<Longrightarrow> f = FinComplete \<longleftrightarrow> sent \<noteq> [] \<and> (\<exists>r. Deliver (nre_delivery env) = Inr r)"
proof -
  have R: "retryOrFail cfg job err \<noteq> FinComplete" for err by (simp add: retryOrFail_def Let_def)
  have S: "stale_subscription cd env job cfg \<noteq> Some FinComplete" "stale_access env job cfg \<noteq> Some FinComplete"
    using R by (auto simp: stale_subscription_def stale_access_def split: option.splits if_splits bool.splits)
  have N: "Deliver NoRequest = Inl None" by (simp add: Deliver_def)
  assume d: "deliver_job cfg cd env job = (sent, f)"
  show ?thesis
  proof (cases "sent = []")
    case True
    with d R S N show ?thesis
      by (auto simp: deliver_job_def split: option.splits if_splits sum.splits)
  next
    case False
    then obtain m where "m \<in> set sent" by (cases sent) auto
    from deliver_job_sends [OF d this] obtain target where "GetNotificationTarget (nre_target env) = Some target" "tt_Eligible target"
      "nt_Render (jb_NotificationType job) (jb_TemplateVersion job) (jb_Variables job) = Some (ms_text m)"
      "stale_subscription cd env job cfg = None" "stale_access env job cfg = None" by blast
    with d have "f = (case Deliver (nre_delivery env) of Inl err \<Rightarrow> retryOrFail cfg job err | Inr _ \<Rightarrow> FinComplete)" by (simp add: deliver_job_def)
    with False R show ?thesis by (cases "Deliver (nre_delivery env)") auto
  qed
qed


section \<open>The consumer and the worker make steps of the store\<close>

lemma nt_process_reachable:
  assumes "nt_reachable serial st"
  shows "nt_reachable serial (snd (nt_process cfg cd env r st))"
proof (cases "ndc_envelope cd (rec_value r)")
  case (Some e)
  show ?thesis
  proof (cases "nt_validateEnvelope r e")
    case None
    show ?thesis
    proof (cases "nt_intent cfg cd (nee_new_id (nne_event env)) (nt_meta cd r e) (envl_Data e)")
      case (Inr i)
      from nr_step [OF assms ns_event [OF validateEnvelope_routed [OF None] Inr, of serial st "nee_fault (nne_event env)" "ncf_uuid_ok cfg" "nee_now (nne_event env)"]]
      show ?thesis by (auto simp: nt_process_def nt_ProcessEvent_def Some None Inr split: prod.splits sum.splits)
    qed (use assms in \<open>simp add: nt_process_def nt_ProcessEvent_def Some None\<close>)
  qed (use assms in \<open>simp add: nt_process_def Some\<close>)
qed (use assms in \<open>simp add: nt_process_def\<close>)

lemma nt_attempt_reachable:
  assumes "nt_reachable serial st"
  shows "nt_reachable serial (snd (nt_attempt cfg cd env r st))"
proof -
  obtain err st1 where p: "nt_process cfg cd env r st = (err, st1)" by fastforce
  with nt_process_reachable [OF assms, of cfg cd env r] have r1: "nt_reachable serial st1" by simp
  have dead: "nt_reachable serial st2" if "deadLetter cd env r code st1 = (x, st2)" for code x st2
  proof -
    have "nt_reachable serial (snd (deadLetter cd env r code st1))" unfolding deadLetter_def Let_def by (rule nr_step [OF r1 ns_dead_letter])
    with that show ?thesis by simp
  qed
  show ?thesis using r1 by (auto simp: nt_attempt_def p Let_def split: option.splits prod.splits sum.splits dest: dead)
qed

interpretation nt_steps: keeping_consumer "nt_attempts cfg cd envs" "nt_reachable serial" for cfg cd envs serial
  by unfold_locales (simp add: nt_attempts_def nt_attempt_reachable)

lemma retry_once_reachable:
  assumes "retry_once (nt_attempts cfg cd envs) order k c = (k1, c1)" and "nt_reachable serial (cn_store c)"
  shows "nt_reachable serial (cn_store c1)"
  using assms nt_steps.retry_pass_keeps by (fastforce simp: retry_once_def split: prod.splits)

lemma retry_once_retried:
  assumes "retry_once (nt_attempts cfg cd envs) order k c = (k1, c1)" and "consumer_ok c"
  shows "retried (nt_settled cfg cd) c c1"
proof -
  obtain stop progressed where p: "retry_pass (nt_attempts cfg cd envs) (\<lambda>_. False) k (visited order k (cn_deferred c)) c = (k1, stop, progressed, c1)"
    using assms(1) by (auto simp: retry_once_def split: prod.splits)
  have "mset (map rec_at (visited order k (cn_deferred c))) = mset (map rec_at (cn_deferred c))" by simp
  from mset_eq_imp_distinct_iff [OF this] assms(2) have "distinct (map rec_at (visited order k (cn_deferred c)))" by (simp add: consumer_ok_def)
  with nt_records.retry_pass_retried [OF p assms(2)] show ?thesis by simp
qed

text \<open>A poll for one record, of a partition that is not paused: the record, and each record deferred before, is committed after its event was recorded
or refused for good with a dead letter, or deferred with its partition paused, or fetched again; and the store is one the
transition system reaches.\<close>

theorem notification_poll_sound:
  assumes ok: "consumer_ok c" and free: "rec_at r \<notin> rec_at ` set (cn_deferred c)" and reach: "nt_reachable serial (cn_store c)"
    and run: "nt_pollOnce cfg cd envs order [r] c = (live, c1)"
  shows "nt_reachable serial (cn_store c1) \<and> consumer_ok c1 \<and> (\<exists>new. cn_committed c1 = cn_committed c @ new \<and> list_all (nt_settled cfg cd) new
    \<and> list_all (\<lambda>q. q \<in> set new \<or> q \<in> set (cn_deferred c1) \<or> q = r \<and> cn_position c1 (rec_at r) = Some (rec_offset r)) (r # cn_deferred c))"
proof -
  obtain a st1 where at: "nt_attempts cfg cd envs 0 r (cn_store c) = (a, st1)" by fastforce
  from nt_steps.att_keeps [OF reach, of cfg cd envs 0 r] at have r1: "nt_reachable serial st1" by simp
  let ?c = "c\<lparr>cn_store := st1, cn_committed := cn_committed c @ [r]\<rparr>"
  consider "c1 = rewind_to [r] (c\<lparr>cn_store := cn_store c\<rparr>)" | "c1 = rewind_to [r] (c\<lparr>cn_store := st1\<rparr>)" | "c1 = deferGap r (c\<lparr>cn_store := st1\<rparr>)"
    | k1 where "a = AtCommitted" "retry_once (nt_attempts cfg cd envs) order 1 ?c = (k1, c1)"
    using run at by (cases a; cases "nne_cancelled (envs 0)") (auto simp: nt_pollOnce_def Let_def split: prod.splits)
  then have "nt_reachable serial (cn_store c1) \<and> ((\<exists>st. c1 = rewind_to [r] (c\<lparr>cn_store := st\<rparr>)) \<or> (\<exists>st. c1 = deferGap r (c\<lparr>cn_store := st\<rparr>))
      \<or> (\<exists>st. nt_settled cfg cd r \<and> retried (nt_settled cfg cd) (c\<lparr>cn_store := st, cn_committed := cn_committed c @ [r]\<rparr>) c1))"
  proof cases
    case (4 k1)
    have "consumer_ok ?c" using ok by (simp add: consumer_ok_def)
    with 4 at nt_records.att_settled retry_once_retried [OF 4(2)] retry_once_reachable [OF 4(2), of serial] r1 show ?thesis by auto
  next
    case 1
    then have "cn_store c1 = cn_store c" by (simp add: rewind_to_def)
    with 1 reach show ?thesis by metis
  next
    case 2
    then have "cn_store c1 = st1" by (simp add: rewind_to_def)
    with 2 r1 show ?thesis by metis
  next
    case 3
    then have "cn_store c1 = st1" by (simp add: deferGap_def)
    with 3 r1 show ?thesis by metis
  qed
  with nt_records.polled_keeps [OF ok free] show ?thesis by blast
qed

text \<open>A round of the worker makes steps of the store, if what other processes do meanwhile does.\<close>

lemma nt_workOnce_reachable:
  assumes reach: "nt_reachable serial st" and other: "\<And>s. nt_reachable serial s \<Longrightarrow> nt_reachable serial (nre_meanwhile env s)"
    and seen: "\<And>cid. serial \<Longrightarrow> nre_claim_id env = Some cid \<Longrightarrow> nre_seen env = nt_jobs (nre_meanwhile env (snd (run_tx NtInfra (nre_claim_fault env)
      (ClaimJob (ncf_collate cfg) (nre_locked env) (nre_now env) cid (ncf_lease cfg)) st)))"
    and run: "nt_workOnce cfg cd env st = (res, sent, t)"
  shows "nt_reachable serial t"
proof (cases "nre_claim_id env")
  case (Some cid)
  let ?claim = "run_tx NtInfra (nre_claim_fault env) (ClaimJob (ncf_collate cfg) (nre_locked env) (nre_now env) cid (ncf_lease cfg)) st"
  obtain x st1 where c: "?claim = (x, st1)" by fastforce
  with nr_step [OF reach ns_claim, of "nre_claim_fault env" "ncf_collate cfg" "nre_locked env" "nre_now env" cid "ncf_lease cfg"]
  have r1: "nt_reachable serial st1" by simp
  have fin: "nt_reachable serial (snd (run_tx NtInfra fl (finish_job (nre_seen env) now job f) (nre_meanwhile env st1)))" for fl now job f
    by (rule nr_step [OF other [OF r1] ns_finish]) (use seen [OF _ Some] c in simp)
  show ?thesis
  proof (cases x)
    case (Inr claimed)
    show ?thesis
    proof (cases claimed)
      case (Some job)
      obtain sent1 f where d: "deliver_job cfg cd env job = (sent1, f)" by fastforce
      have "t = snd (run_tx NtInfra (nre_finish_fault env) (finish_job (nre_seen env) (nre_later env) job f) (nre_meanwhile env st1))"
        using run \<open>nre_claim_id env = Some cid\<close> c Inr Some d by (auto simp: nt_workOnce_def split: prod.splits sum.splits)
      with fin show ?thesis by simp
    qed (use run \<open>nre_claim_id env = Some cid\<close> c Inr r1 in \<open>auto simp: nt_workOnce_def\<close>)
  qed (use run Some c r1 in \<open>auto simp: nt_workOnce_def\<close>)
qed (use run reach in \<open>simp add: nt_workOnce_def\<close>)

end
