(* ===== verification/Notification_Witnesses.thy ===== *)
theory Notification_Witnesses
  imports Notification_Properties
begin

text \<open>
  Runs of the notification service on which its theorems are applied. In the first a subscription is extended, the extension is announced,
  and the subscription is revoked; in the second a payment's message is being retried while its refund is recorded. The stores of
  the runs are evaluated once (\<open>*_value\<close>), and later evaluations start from them.
\<close>

definition nw_cfg :: nt_config where
  "nw_cfg = \<lparr>ncf_maxAttempts = 8, ncf_retryBase = 1000000000, ncf_lease = 100, ncf_sha256 = (\<lambda>_. [1, 2]), ncf_uuid_ok = (\<lambda>_. True), ncf_collate = (\<lambda>_. 0)\<rparr>"

text \<open>Instants in unary, which reads back at every instant.\<close>

definition nw_format :: "instant \<Rightarrow> string" where
  "nw_format i = (if i < 0 then CHR ''-'' # replicate (nat (- i)) CHR ''i'' else replicate (nat i) CHR ''i'')"

definition nw_parse :: "string \<Rightarrow> instant option" where
  "nw_parse s = Some (case s of [] \<Rightarrow> 0 | c # cs \<Rightarrow> if c = CHR ''-'' then - int (length cs) else int (length s))"

lemma nw_time: "nw_parse (nw_format i) = Some i"
  by (cases "nat i") (auto simp: nw_parse_def nw_format_def)

definition nw_cd :: nt_codec where
  "nw_cd = \<lparr>ndc_envelope = (\<lambda>_. None), ndc_event_type = (\<lambda>_. None), ndc_sha256 = (\<lambda>_. replicate 64 CHR ''0''),
     ndc_payment = (\<lambda>_. Some \<lparr>nps_PaymentID = ''p1'', nps_OrderID = ''o1'', nps_UserID = ''u1'', nps_PlanID = ''l1'', nps_AmountMinor = 100,
       nps_Currency = ''RUB'', nps_PaidAt = 5\<rparr>),
     ndc_refund = (\<lambda>_. Some \<lparr>nrs_RefundID = ''f1'', nrs_PaymentID = ''p1'', nrs_OrderID = ''o1'', nrs_UserID = ''u1'', nrs_AmountMinor = 100,
       nrs_Currency = ''RUB'', nrs_RefundScope = ''full'', nrs_RefundedAt = 6\<rparr>),
     ndc_period = (\<lambda>_. Some \<lparr>npe_SubscriptionID = ''s1'', npe_UserID = ''u1'', npe_PeriodID = ''d1'', npe_SourceOrderID = ''o1'', npe_SourcePaymentID = ''p1'',
       npe_PeriodStart = 3, npe_PeriodEnd = 9, npe_GraceEndsAt = 12\<rparr>),
     ndc_grace = (\<lambda>_. None),
     ndc_terminal = (\<lambda>_. Some \<lparr>nte_SubscriptionID = ''s1'', nte_UserID = ''u1'', nte_Reason = ''refund'', nte_AffectedPeriodIDs = [], nte_EffectiveAt = 7\<rparr>),
     ndc_ready = (\<lambda>_. None), ndc_failed = (\<lambda>_. None), ndc_revoked = (\<lambda>_. None), ndc_format = nw_format, ndc_parse = nw_parse\<rparr>"

definition nw_meta :: "string \<Rightarrow> string \<Rightarrow> string \<Rightarrow> string \<Rightarrow> int \<Rightarrow> NtMeta" where
  "nw_meta t producer kind aid n =
     \<lparr>nm_EventID = t, nm_EventType = t, nm_Producer = producer, nm_AggregateType = kind, nm_AggregateID = aid, nm_AggregateSequence = n,
      nm_PartitionKey = ''user:u1'', nm_CorrelationID = ''c1'', nm_CausationID = None, nm_OccurredAt = 4, nm_SourceTopic = t, nm_SourcePartition = 0,
      nm_SourceOffset = 7, nm_PayloadSHA256 = replicate 64 CHR ''0''\<rparr>"

definition nw_extended :: NtMeta where
  "nw_extended = nw_meta ''subscription.extended.v1'' ''subscription-service'' ''subscription'' ''s1'' 1"
definition nw_revoked :: NtMeta where
  "nw_revoked = nw_meta ''subscription.revoked.v1'' ''subscription-service'' ''subscription'' ''s1'' 2"
definition nw_payment :: NtMeta where
  "nw_payment = nw_meta ''billing.payment.succeeded.v1'' ''billing-service'' ''payment'' ''p1'' 0"
definition nw_refund :: NtMeta where
  "nw_refund = nw_meta ''billing.refund.succeeded.v1'' ''billing-service'' ''refund'' ''f1'' 0"

definition nw_intent :: "NtMeta \<Rightarrow> Intent" where
  "nw_intent meta = projr (nt_intent nw_cfg nw_cd (Some (nm_EventID meta)) meta ''{}'')"

definition nw_record :: "instant \<Rightarrow> NtMeta \<Rightarrow> nt_store \<Rightarrow> nt_store" where
  "nw_record now meta st = snd (run_tx NtInfra NoFault (RecordEvent (\<lambda>_. True) now meta (nw_intent meta)) st)"

definition nw_claim :: "instant \<Rightarrow> uuid \<Rightarrow> nt_store \<Rightarrow> nt_store" where
  "nw_claim now cid st = snd (run_tx NtInfra NoFault (ClaimJob (\<lambda>_. 0) [] now cid 100) st)"

lemma nw_records:
  assumes "nt_reachable serial st" and "meta \<in> set [nw_extended, nw_revoked, nw_payment, nw_refund]"
  shows "nt_reachable serial (nw_record now meta st)"
proof -
  have "list_all (\<lambda>meta. routed meta \<and> nt_intent nw_cfg nw_cd (Some (nm_EventID meta)) meta ''{}'' = Inr (nw_intent meta))
    [nw_extended, nw_revoked, nw_payment, nw_refund]" by code_simp
  with assms(2) have "routed meta" "nt_intent nw_cfg nw_cd (Some (nm_EventID meta)) meta ''{}'' = Inr (nw_intent meta)" by (auto simp: list_all_iff)
  then show ?thesis unfolding nw_record_def by (rule nr_step [OF assms(1) ns_event])
qed

lemma nw_claims: "nt_reachable serial st \<Longrightarrow> nt_reachable serial (nw_claim now cid st)"
  unfolding nw_claim_def by (rule nr_step [OF _ ns_claim])

section \<open>A subscription is extended, then revoked\<close>

definition nw_announced :: nt_store where
  "nw_announced = nw_record 10 nw_extended empty_nt_store"

lemma nw_announced_value [code]: "nw_announced =
     \<lparr>nt_cursors = [\<lparr>nc_stream_key = ''subscription-service:subscription:s1'', nc_producer = ''subscription-service'', nc_aggregate_type =
     ''subscription'', nc_aggregate_id = ''s1'', nc_last_sequence = 1, nc_last_event_id = ''subscription.extended.v1'', nc_last_payload_sha256 =
     replicate 64 CHR ''0'', nc_updated_at = 10\<rparr>], nt_inbox = [\<lparr>ni_event_id = ''subscription.extended.v1'', ni_event_type =
     ''subscription.extended.v1'', ni_source_topic = ''subscription.extended.v1'', ni_source_partition = 0, ni_source_offset = 7, ni_payload_sha256 =
     replicate 64 CHR ''0'', ni_producer = ''subscription-service'', ni_aggregate_type = ''subscription'', ni_aggregate_id = ''s1'',
     ni_aggregate_sequence = Some 1, ni_business_dedupe_key = ''extension:d1''\<rparr>], nt_jobs = [\<lparr>nj_id = ''subscription.extended.v1'',
     nj_user_id = ''u1'', nj_subscription_id = Some ''s1'', nj_credential_id = None, nj_type = ''subscription_extended'', nj_template_version = 1,
     nj_source_event_id = ''subscription.extended.v1'', nj_business_dedupe_key = ''extension:d1'', nj_status = NtPending, nj_attempts = 0,
     nj_max_attempts = 8, nj_next_attempt_at = 10, nj_lease_until = None, nj_claim_id = None, nj_delivered_at = None, nj_terminal_reason = None,
     nj_correlation_id = ''c1'', nj_causation_id = None, nj_variables = [(''period_end'', ''iiiiiiiii'')], nj_created_at = 10, nj_updated_at = 10,
     nj_source_producer = ''subscription-service'', nj_source_aggregate_type = ''subscription'', nj_source_aggregate_id = ''s1'',
     nj_source_aggregate_sequence = Some 1, nj_stream_key = ''subscription:s1'', nj_sequence = 1, nj_supersedes = False\<rparr>], nt_dead = [],
     nt_requests = []\<rparr>"
  by code_simp

definition nw_env :: nt_round_env where
  "nw_env = \<lparr>nre_claim_id = Some ''k1'', nre_locked = [], nre_now = 20, nre_claim_fault = NoFault,
     nre_target = Answer 200 (Some \<lparr>tp_Eligible = True, tp_ReasonCode = [], tp_TelegramChatID = Some 77, tp_Locale = None\<rparr>),
     nre_state = Answer 200 (Some \<lparr>sp_SubscriptionID = ''s1'', sp_UserID = ''u1'', sp_Status = ''active'', sp_CurrentPeriodStart = Some 3,
       sp_CurrentPeriodEnd = Some 9, sp_GraceEndsAt = Some 12\<rparr>),
     nre_access = NoAnswer, nre_delivery = Answer 200 (Some \<lparr>dlp_Status = ''delivered'', dlp_ReasonCode = [], dlp_RetryAfterSeconds = 0\<rparr>),
     nre_meanwhile = (\<lambda>st. st), nre_seen = nt_jobs (nw_claim 20 ''k1'' nw_announced), nre_later = 30, nre_finish_fault = NoFault\<rparr>"

definition nw_message :: nt_message where
  "nw_message = \<lparr>ms_delivery_id = ''subscription.extended.v1'', ms_chat_id = 77, ms_type = ''subscription_extended'', ms_version = 1,
     ms_text = ''<b>Subscription extended.</b> Access is valid through iiiiiiiii.''\<rparr>"

definition nw_delivered :: nt_store where
  "nw_delivered = snd (snd (nt_workOnce nw_cfg nw_cd nw_env nw_announced))"

lemma nw_delivered_value [code]: "nw_delivered =
     \<lparr>nt_cursors = [\<lparr>nc_stream_key = ''subscription-service:subscription:s1'', nc_producer = ''subscription-service'', nc_aggregate_type =
     ''subscription'', nc_aggregate_id = ''s1'', nc_last_sequence = 1, nc_last_event_id = ''subscription.extended.v1'', nc_last_payload_sha256 =
     replicate 64 CHR ''0'', nc_updated_at = 10\<rparr>], nt_inbox = [\<lparr>ni_event_id = ''subscription.extended.v1'', ni_event_type =
     ''subscription.extended.v1'', ni_source_topic = ''subscription.extended.v1'', ni_source_partition = 0, ni_source_offset = 7, ni_payload_sha256 =
     replicate 64 CHR ''0'', ni_producer = ''subscription-service'', ni_aggregate_type = ''subscription'', ni_aggregate_id = ''s1'',
     ni_aggregate_sequence = Some 1, ni_business_dedupe_key = ''extension:d1''\<rparr>], nt_jobs = [\<lparr>nj_id = ''subscription.extended.v1'',
     nj_user_id = ''u1'', nj_subscription_id = Some ''s1'', nj_credential_id = None, nj_type = ''subscription_extended'', nj_template_version = 1,
     nj_source_event_id = ''subscription.extended.v1'', nj_business_dedupe_key = ''extension:d1'', nj_status = NtDelivered, nj_attempts = 1,
     nj_max_attempts = 8, nj_next_attempt_at = 10, nj_lease_until = None, nj_claim_id = None, nj_delivered_at = Some 30, nj_terminal_reason = None,
     nj_correlation_id = ''c1'', nj_causation_id = None, nj_variables = [(''period_end'', ''iiiiiiiii'')], nj_created_at = 10, nj_updated_at = 30,
     nj_source_producer = ''subscription-service'', nj_source_aggregate_type = ''subscription'', nj_source_aggregate_id = ''s1'',
     nj_source_aggregate_sequence = Some 1, nj_stream_key = ''subscription:s1'', nj_sequence = 1, nj_supersedes = False\<rparr>], nt_dead = [],
     nt_requests = []\<rparr>"
  by code_simp

definition nw_both :: nt_store where
  "nw_both = nw_claim 50 ''k2'' (nw_record 40 nw_revoked nw_delivered)"

lemma nw_both_value [code]: "nw_both =
     \<lparr>nt_cursors = [\<lparr>nc_stream_key = ''subscription-service:subscription:s1'', nc_producer = ''subscription-service'', nc_aggregate_type =
     ''subscription'', nc_aggregate_id = ''s1'', nc_last_sequence = 2, nc_last_event_id = ''subscription.revoked.v1'', nc_last_payload_sha256 =
     replicate 64 CHR ''0'', nc_updated_at = 40\<rparr>], nt_inbox = [\<lparr>ni_event_id = ''subscription.extended.v1'', ni_event_type =
     ''subscription.extended.v1'', ni_source_topic = ''subscription.extended.v1'', ni_source_partition = 0, ni_source_offset = 7, ni_payload_sha256 =
     replicate 64 CHR ''0'', ni_producer = ''subscription-service'', ni_aggregate_type = ''subscription'', ni_aggregate_id = ''s1'',
     ni_aggregate_sequence = Some 1, ni_business_dedupe_key = ''extension:d1''\<rparr>, \<lparr>ni_event_id = ''subscription.revoked.v1'',
     ni_event_type = ''subscription.revoked.v1'', ni_source_topic = ''subscription.revoked.v1'', ni_source_partition = 0, ni_source_offset = 7,
     ni_payload_sha256 = replicate 64 CHR ''0'', ni_producer = ''subscription-service'', ni_aggregate_type = ''subscription'', ni_aggregate_id =
     ''s1'', ni_aggregate_sequence = Some 2, ni_business_dedupe_key = ''terminal:s1:2''\<rparr>], nt_jobs = [\<lparr>nj_id =
     ''subscription.extended.v1'', nj_user_id = ''u1'', nj_subscription_id = Some ''s1'', nj_credential_id = None, nj_type =
     ''subscription_extended'', nj_template_version = 1, nj_source_event_id = ''subscription.extended.v1'', nj_business_dedupe_key = ''extension:d1'',
     nj_status = NtDelivered, nj_attempts = 1, nj_max_attempts = 8, nj_next_attempt_at = 10, nj_lease_until = None, nj_claim_id = None,
     nj_delivered_at = Some 30, nj_terminal_reason = None, nj_correlation_id = ''c1'', nj_causation_id = None, nj_variables = [(''period_end'',
     ''iiiiiiiii'')], nj_created_at = 10, nj_updated_at = 30, nj_source_producer = ''subscription-service'', nj_source_aggregate_type =
     ''subscription'', nj_source_aggregate_id = ''s1'', nj_source_aggregate_sequence = Some 1, nj_stream_key = ''subscription:s1'', nj_sequence = 1,
     nj_supersedes = False\<rparr>, \<lparr>nj_id = ''subscription.revoked.v1'', nj_user_id = ''u1'', nj_subscription_id = Some ''s1'',
     nj_credential_id = None, nj_type = ''subscription_revoked'', nj_template_version = 1, nj_source_event_id = ''subscription.revoked.v1'',
     nj_business_dedupe_key = ''terminal:s1:2'', nj_status = NtProcessing, nj_attempts = 1, nj_max_attempts = 8, nj_next_attempt_at = 40,
     nj_lease_until = Some 150, nj_claim_id = Some ''k2'', nj_delivered_at = None, nj_terminal_reason = None, nj_correlation_id = ''c1'',
     nj_causation_id = None, nj_variables = [(''reason'', ''refund'')], nj_created_at = 40, nj_updated_at = 50, nj_source_producer =
     ''subscription-service'', nj_source_aggregate_type = ''subscription'', nj_source_aggregate_id = ''s1'', nj_source_aggregate_sequence = Some 2,
     nj_stream_key = ''subscription:s1'', nj_sequence = 2, nj_supersedes = True\<rparr>], nt_dead = [], nt_requests = []\<rparr>"
  by code_simp

lemma nw_sent: "fst (nt_workOnce nw_cfg nw_cd nw_env nw_announced) = None \<and> fst (snd (nt_workOnce nw_cfg nw_cd nw_env nw_announced)) = [nw_message]"
  by code_simp

lemma nw_run: "nt_workOnce nw_cfg nw_cd nw_env nw_announced = (None, [nw_message], nw_delivered)"
  using nw_sent by (simp add: nw_delivered_def prod_eq_iff)

lemma nw_jobs: "map (\<lambda>j. (nj_status j, nj_attempts j, nj_supersedes j)) (nt_jobs nw_both) = [(NtDelivered, 1, False), (NtProcessing, 1, True)]"
  by code_simp

lemma nw_announced_reachable: "nt_reachable serial nw_announced"
  unfolding nw_announced_def by (rule nw_records [OF nr_empty]) simp

lemma nw_delivered_reachable: "nt_reachable serial nw_delivered"
  by (rule nt_workOnce_reachable [OF nw_announced_reachable _ _ nw_run]) (simp_all add: nw_env_def nw_claim_def nw_cfg_def)

lemma nw_both_reachable: "nt_reachable serial nw_both"
  unfolding nw_both_def by (intro nw_claims nw_records nw_delivered_reachable) simp

theorem notification_events_gapless_witness:
  "length (nt_inbox nw_both) = 2 \<and> map ni_aggregate_sequence (filter (\<lambda>r. inbox_stream r = ''subscription-service:subscription:s1'' \<and> ni_aggregate_sequence r \<noteq> None)
    (nt_inbox nw_both)) = map Some [1..2]"
proof -
  have "cursor_of nw_both ''subscription-service:subscription:s1'' = 2 \<and> length (nt_inbox nw_both) = 2" by code_simp
  with notification_events_gapless [OF nw_both_reachable [of True], of "''subscription-service:subscription:s1''"] show ?thesis by simp
qed

theorem notification_delivery_order_witness:
  "length (nt_jobs nw_both) = 2 \<and> nj_status (nt_jobs nw_both ! 0) \<in> {NtDelivered, NtPermanentlyFailed, NtSuppressed}"
proof -
  have n: "length (nt_jobs nw_both) = 2" using arg_cong [OF nw_jobs, of length] by simp
  have "nj_stream_key (nt_jobs nw_both ! 0) = nj_stream_key (nt_jobs nw_both ! 1) \<and> nj_sequence (nt_jobs nw_both ! 0) < nj_sequence (nt_jobs nw_both ! 1)
    \<and> 0 < nj_attempts (nt_jobs nw_both ! 1)" by code_simp
  with notification_delivery_order [OF nw_both_reachable, of "nt_jobs nw_both ! 0" "nt_jobs nw_both ! 1"] n show ?thesis by simp
qed

theorem notification_outcome_final_witness:
  "nt_jobs nw_delivered ! 0 \<in> set (nt_jobs nw_both) \<and> nj_status (nt_jobs nw_delivered ! 0) = NtDelivered"
proof -
  have d: "length (nt_jobs nw_delivered) = 1 \<and> nj_status (nt_jobs nw_delivered ! 0) = NtDelivered" by code_simp
  have "routed nw_revoked \<and> nt_intent nw_cfg nw_cd (Some (nm_EventID nw_revoked)) nw_revoked ''{}'' = Inr (nw_intent nw_revoked)" by code_simp
  then have "nt_step True nw_delivered (nw_record 40 nw_revoked nw_delivered)" unfolding nw_record_def by (blast intro: ns_event)
  moreover have "nt_step True s (nw_claim 50 ''k2'' s)" for s unfolding nw_claim_def by (rule ns_claim)
  ultimately have "(nt_step True)\<^sup>*\<^sup>* nw_delivered nw_both" unfolding nw_both_def by (meson r_into_rtranclp rtranclp.rtrancl_into_rtrancl)
  from notification_outcome_final [OF nw_delivered_reachable this, of "nt_jobs nw_delivered ! 0"] d show ?thesis by auto
qed

theorem notification_sends_current_witness:
  "\<exists>j \<in> set (nt_jobs nw_announced). claimable 20 (nt_jobs nw_announced) j \<and> nj_id j = ''subscription.extended.v1''
    \<and> nt_Render (nj_type j) 1 (nj_variables j) = Some (ms_text nw_message)"
proof -
  from notification_sends_current [OF nw_run, of nw_message] obtain j where "j \<in> set (nt_jobs nw_announced)" "claimable (nre_now nw_env) (nt_jobs nw_announced) j"
    "ms_delivery_id nw_message = nj_id j" "nt_Render (nj_type j) 1 (nj_variables j) = Some (ms_text nw_message)" by auto
  then show ?thesis by (intro bexI [of _ j]) (simp_all add: nw_env_def nw_message_def)
qed


section \<open>A refund that is recorded while the payment's message is retried\<close>

definition nw_sending :: nt_store where
  "nw_sending = nw_claim 20 ''k1'' (nw_record 10 nw_payment empty_nt_store)"

lemma nw_sending_value [code]: "nw_sending =
     \<lparr>nt_cursors = [], nt_inbox = [\<lparr>ni_event_id = ''billing.payment.succeeded.v1'', ni_event_type = ''billing.payment.succeeded.v1'',
     ni_source_topic = ''billing.payment.succeeded.v1'', ni_source_partition = 0, ni_source_offset = 7, ni_payload_sha256 = replicate 64 CHR ''0'',
     ni_producer = ''billing-service'', ni_aggregate_type = ''payment'', ni_aggregate_id = ''p1'', ni_aggregate_sequence = None,
     ni_business_dedupe_key = ''payment_confirmed:p1''\<rparr>], nt_jobs = [\<lparr>nj_id = ''billing.payment.succeeded.v1'', nj_user_id = ''u1'',
     nj_subscription_id = None, nj_credential_id = None, nj_type = ''payment_confirmed'', nj_template_version = 1, nj_source_event_id =
     ''billing.payment.succeeded.v1'', nj_business_dedupe_key = ''payment_confirmed:p1'', nj_status = NtProcessing, nj_attempts = 1, nj_max_attempts =
     8, nj_next_attempt_at = 10, nj_lease_until = Some 120, nj_claim_id = Some ''k1'', nj_delivered_at = None, nj_terminal_reason = None,
     nj_correlation_id = ''c1'', nj_causation_id = None, nj_variables = [(''amount_minor'', ''100''), (''currency'', ''RUB'')], nj_created_at = 10,
     nj_updated_at = 20, nj_source_producer = ''billing-service'', nj_source_aggregate_type = ''payment'', nj_source_aggregate_id = ''p1'',
     nj_source_aggregate_sequence = None, nj_stream_key = ''payment:p1'', nj_sequence = 1, nj_supersedes = False\<rparr>], nt_dead = [], nt_requests =
     []\<rparr>"
  by code_simp

definition nw_refunded :: nt_store where
  "nw_refunded = nw_record 21 nw_refund nw_sending"

definition nw_job :: NtJob where
  "nw_job = scanJob (nt_jobs nw_sending ! 0)"

definition nw_late_env :: nt_round_env where
  "nw_late_env = nw_env\<lparr>nre_claim_id := Some ''k2'', nre_now := 60\<rparr>"

lemma nw_refunded_step: "nt_step True nw_sending nw_refunded"
proof -
  have "routed nw_refund \<and> nt_intent nw_cfg nw_cd (Some (nm_EventID nw_refund)) nw_refund ''{}'' = Inr (nw_intent nw_refund)" by code_simp
  then show ?thesis unfolding nw_refunded_def nw_record_def by (blast intro: ns_event)
qed

lemma nw_sending_reachable: "nt_reachable serial nw_sending"
  unfolding nw_sending_def by (intro nw_claims nw_records nr_empty) simp

text \<open>C35: A finished attempt and a refund at the same time. The worker's transaction for a retry asks for a superseding notification before the refund
is committed and writes its own result afterwards; the refund in turn leaves alone what is being sent. Both commit, and the payment's message
waits for a retry although its refund is recorded, and the next round sends it.\<close>

theorem superseded_message_sent_again:
  "\<exists>before refunded after. nt_reachable True before \<and> nt_step True before refunded
    \<and> after = snd (run_tx NtInfra NoFault (finish_job (nt_jobs before) 22 nw_job (FinRetry 10)) refunded)
    \<and> map (\<lambda>j. (nj_type j, nj_stream_key j, nj_sequence j, nj_supersedes j, nj_status j)) (nt_jobs after)
        = [(''payment_confirmed'', ''payment:p1'', 1, False, NtRetry), (''refund_confirmed'', ''payment:p1'', 2, True, NtPending)]
    \<and> map ms_type (fst (snd (nt_workOnce nw_cfg nw_cd nw_late_env after))) = [''payment_confirmed'']"
proof -
  let ?after = "snd (run_tx NtInfra NoFault (finish_job (nt_jobs nw_sending) 22 nw_job (FinRetry 10)) nw_refunded)"
  have *: "map (\<lambda>j. (nj_type j, nj_stream_key j, nj_sequence j, nj_supersedes j, nj_status j)) (nt_jobs ?after)
      = [(''payment_confirmed'', ''payment:p1'', 1, False, NtRetry), (''refund_confirmed'', ''payment:p1'', 2, True, NtPending)]
    \<and> map ms_type (fst (snd (nt_workOnce nw_cfg nw_cd nw_late_env ?after))) = [''payment_confirmed'']" by code_simp
  show ?thesis
    by (rule exI [of _ nw_sending], rule exI [of _ nw_refunded], rule exI [of _ ?after]) (intro conjI refl nw_sending_reachable nw_refunded_step * [THEN conjunct1] * [THEN conjunct2])
qed

end
