(* ===== verification/Spec2Isabelle.thy ===== *)
theory Spec2Isabelle
  imports Subscription_History Subscription_Service Billing_Witnesses Node_Witnesses Provisioning_Witnesses Access_Provisioning_Witnesses Notification_Witnesses
begin

text \<open>
  \<^bold>\<open>The program.\<close> A VPN platform of Go services that share no database and talk through Kafka
  events and HTTP. \<open>catalog\<close> and \<open>identity\<close> hold plans and users. \<open>billing\<close> takes orders and
  payments and asks a payment provider (YooKassa). \<open>subscription\<close> turns its events into paid
  periods and a subscription status. \<open>access\<close> keeps the credentials of a subscription and asks
  \<open>provisioning\<close> to place them on nodes; on every node a \<open>node-agent\<close> writes the Xray
  configuration and supervises Xray. \<open>notification\<close>, \<open>admin\<close> and \<open>telegram-bot\<close> are at the
  edge. Every service that emits events writes them to an outbox table in the transaction of the
  change; a worker leases and publishes the rows.

  \<^bold>\<open>How it is modelled.\<close> One definition per function of the source, with the source's names
  (a prefix is added where two services use the same one). Go structs and table rows are records,
  status strings are datatypes where the database constrains them, errors are values of a sum
  type, instants are nanoseconds, 64-bit arithmetic wraps (\<open>int64\<close>). A transaction is a body over
  a store (\<open>Prelude\<close>: \<open>tx\<close>, \<open>run_tx\<close>): it commits as a whole or leaves the store as it was, and
  a \<open>fault\<close> stands for a driver error before or after the commit. Row locks and advisory locks
  make transactions serial, so a run of the system is a sequence of them in any order. The clock,
  new identifiers, the answers of other services and of child processes, and what the driver
  reports are arguments of the definitions, so the theorems hold for all of them.

  \<^bold>\<open>The theories.\<close>

  \<^item> \<open>Prelude\<close>: instants and 64-bit integers, transactions and their Hoare rules
    (\<open>tx_valid\<close>, collections \<open>tx_rules\<close> and \<open>tx_keep\<close>), tables as row lists, Go's text
    predicates.
  \<^item> \<open>Outbox\<close>: the outbox lease protocol of subscription, access, provisioning and billing
    (\<open>ClaimOutbox\<close>, \<open>CompleteOutbox\<close>, \<open>RetryOutbox\<close> of each \<open>postgres/store.go\<close>). The locale
    \<open>leased_outbox\<close> is the contract of a lease, \<open>ordered_outbox\<close> adds the per-aggregate order;
    both are interpreted on the services' own definitions. \<open>Retry\<close>: the workers' retry delays.
  \<^item> \<open>Subscription_Domain\<close>, \<open>Subscription_Entitlement\<close>, \<open>Subscription_Store\<close>,
    \<open>Subscription_Service\<close>: \<open>services/subscription/internal\<close> (\<open>domain/types.go\<close>,
    \<open>application/service.go\<close> and \<open>worker.go\<close>, \<open>postgres/store.go\<close>, \<open>kafka/consumer.go\<close>,
    \<open>billing/client.go\<close>). The step relation \<open>sub_step\<close> of \<open>Subscription_Lifecycle\<close> has one rule
    per store operation.
  \<^item> \<open>Billing_Provider\<close>, \<open>Billing_Store\<close>, \<open>Billing_Service\<close>: \<open>services/billing/internal\<close>
    (\<open>yookassa/client.go\<close>, \<open>postgres/store.go\<close> with the constraints and triggers of the
    migrations, \<open>application/service.go\<close> and \<open>worker.go\<close>).
  \<^item> \<open>Node_Domain\<close>, \<open>Node_Xray\<close>, \<open>Node_Agent\<close>: \<open>services/node-agent/internal\<close>
    (\<open>xray/render.go\<close>, \<open>manager.go\<close>, \<open>systemd_manager.go\<close>, \<open>application/service.go\<close>,
    \<open>state/store.go\<close>, \<open>httpapi/handler.go\<close>). The locale \<open>xray_manager\<close> is what the agent relies
    on; it is interpreted on both managers.
  \<^item> \<open>Provisioning_Store\<close>, \<open>Provisioning_Worker\<close>: \<open>services/provisioning/internal\<close>
    (\<open>domain/types.go\<close>, \<open>postgres/store.go\<close> with the migrations, \<open>application/service.go\<close> and
    \<open>worker.go\<close>). The step relation \<open>prov_step\<close> of \<open>Provisioning_Lifecycle\<close> has one rule per store
    operation; a round of a worker is a program over the store and the agents it calls.
  \<^item> \<open>Access_Store\<close>, \<open>Access_Profile\<close>, \<open>Access_Service\<close>: \<open>services/access/internal\<close>
    (\<open>domain/types.go\<close>, \<open>postgres/store.go\<close> with the migrations, \<open>credential/crypto.go\<close>,
    \<open>happ/render.go\<close>, \<open>application/service.go\<close> and \<open>worker.go\<close>). The step relation \<open>acc_step\<close> of
    \<open>Access_Lifecycle\<close> has one rule per store operation. AES-GCM, HMAC, base64, IP parsing and the
    text of a URL are arguments.
  \<^item> \<open>Kafka\<close>, \<open>Kafka_Consumer\<close>: envelopes and records, and the consumer that defers records ahead of
    their sequence. The locales \<open>deferring_consumer\<close> and \<open>keeping_consumer\<close> have what its polls
    guarantee; \<open>Access_Consumer\<close>, \<open>Provisioning_Consumer\<close> and \<open>Notification_Consumer\<close>
    (\<open>kafka/consumer.go\<close> of each service) interpret them.
  \<^item> \<open>Notification_Store\<close>, \<open>Notification_Service\<close>, \<open>Notification_Consumer\<close>:
    \<open>services/notification/internal\<close> (\<open>domain/types.go\<close>, \<open>postgres/store.go\<close> with the migrations,
    \<open>application/service.go\<close> and \<open>worker.go\<close>, \<open>template/render.go\<close>, the four clients,
    \<open>kafka/consumer.go\<close>). The step relation \<open>nt_step\<close> of \<open>Notification_Lifecycle\<close> has one rule per
    store operation that writes; its argument \<open>serial\<close> says whether the two queries without a lock see
    the present jobs.
  \<^item> \<open>Access_Provisioning\<close>: the two services together, with commands delivered in any order.

  \<^bold>\<open>What is shown.\<close>

  \<^item> Subscription. \<open>Subscription_Entitlement\<close>: the calculated status is the one a coverage
    specification gives at every instant, and the scheduled transition is the first instant at
    which it changes. \<open>Subscription_Invariants\<close> and \<open>Subscription_Lifecycle\<close>: table invariants of
    every reachable store. \<open>Subscription_Properties\<close>, \<open>Subscription_Transitions\<close>: what payments,
    renewals, refunds, due transitions and administrative revokes do. \<open>Subscription_History\<close>:
    what no sequence of operations and faults can undo, the order of publication, and two runs
    in which the code does not do what it means to. \<open>Subscription_Service\<close>: redelivery,
    at-least-once consumption and the worker.
  \<^item> Billing. \<open>Billing_Invariants\<close>, \<open>Billing_Lifecycle\<close>: the books' invariant; \<open>Billing_Properties\<close>,
    \<open>Billing_Settlement\<close>: orders, payments and events balance, only the provider's confirmed
    answer settles a payment, decisions are final, requests are idempotent, use cases are
    sequences of store steps; and a payment that is retried without end. \<open>Billing_Provider\<close>:
    amounts survive the provider's decimal text.
  \<^item> Node agent. \<open>Node_Properties\<close>: an applied request takes effect, a restart recovers the
    acknowledged state, Xray stays in step, reloads are all or nothing, operations are
    idempotent, revisions never decrease, the journal is bounded. \<open>Node_Domain\<close>: the rendered
    configuration does not depend on map iteration order.
  \<^item> Provisioning. \<open>Provisioning_Capacity\<close>, \<open>Provisioning_Lifecycle\<close>, \<open>Provisioning_Outcomes\<close>: three
    invariants of every reachable store (places, generations, outcomes). \<open>Provisioning_Rounds\<close>: the
    workers only take store steps, in the locale \<open>store_round\<close>. \<open>Provisioning_Properties\<close>: nodes
    are not oversold, commands are consecutive generations, each outcome is reported once and in
    order, redelivery changes nothing.
  \<^item> Access. \<open>Access_Invariants\<close>, \<open>Access_Steps\<close>: the invariant \<open>acc_ok\<close> of every reachable store.
    \<open>Access_Memory\<close>: what the store never forgets, in the locale \<open>remembered\<close>. \<open>Access_Properties\<close>:
    commands are numbered without gaps and sent once each, a profile is served only for the live
    URL of a provisioned and paid credential, an issued URL works also after key rotation,
    redelivery changes nothing, the consumer's retry loop ends and its polls lose nothing.
    \<open>Access_Witnesses\<close> has two runs in which a revoke is never confirmed.
  \<^item> Access with provisioning. \<open>Access_Provisioning\<close>: provisioning's operations for a credential are
    the first operations of access, in order.
  \<^item> Notification. \<open>Notification_Invariants\<close>: the invariants \<open>nt_inv\<close> and \<open>fifo\<close>. \<open>Notification_Properties\<close>:
    events are accepted without gaps and once per fact, delivery follows the stream, delivered and
    suppressed notifications stay so, a round sends only what the owners confirm and settles the
    notification it claims, polls lose nothing. \<open>Notification_Witnesses\<close> has a run in which a
    superseded message is sent, because two transactions overlap.

  \<open>*_Witnesses\<close> and the theorems \<open>*_witness\<close> apply the properties to concrete runs.

  \<^bold>\<open>Bounds and termination.\<close> Every function is total. The pruning loop of the journal is modelled
  with the guard that a round removes an entry; \<open>journal_bounded\<close> shows that the guard never stops
  it early on a journal the agent can write. Results about the agent's configuration revision are
  for runs of fewer than \<open>2 ^ 63\<close> requests, the range of its \<open>int64\<close> counter. The health wait of
  the systemd manager is a function of the events it receives.

  \<^bold>\<open>Not modelled.\<close> JSON and HTTP encodings (a decoded value, or \<open>None\<close>, is an argument), SHA-256
  (a function argument), TLS, logging, metrics, retention purges and process start-up: they have
  no influence on the states above. Query isolation below serialisability is modelled only where
  the code takes no lock for a query it decides by, in notification; elsewhere the locks the code
  takes make transactions serial. Catalog, identity and the bot are lookups and message texts behind
  HTTP; admin checks a caller's role, writes an audit row and forwards the command to its owner, whose
  side of the command is modelled.
\<close>

end
